(* ===== verification/Py_Prelude.thy ===== *)
theory Py_Prelude
  imports Complex_Main "HOL-Library.AList" "HOL-Library.Sublist" "HOL-Library.Char_ord"
    "HOL-Library.List_Lexorder" "HOL-Library.Product_Lexorder"
begin

text \<open>
  What every component theory shares: Python text, dictionaries, exceptions, time stamps and
  the two effect shapes of the code (a computation that may raise, and one that may raise
  while it changes a state), with the lemmas about them that the component proofs use.
\<close>

named_theorems errors_intros \<open>what a computation can raise\<close>
named_theorems effect_simps \<open>unfolding of the raising and the state-passing combinators\<close>

section \<open>Text\<close>

text \<open>
  A Python \<open>str\<close> is a sequence of code points, so it is a list of naturals here; an
  ASCII literal of the source is written \<open>u ''...''\<close>.
\<close>

type_synonym pystr = "nat list"

definition u :: "string \<Rightarrow> pystr" where
  "u s = map of_char s"

lemma u_Nil [simp]: "u [] = []"
  by (simp add: u_def)

lemma u_Cons [simp]: "u (c # s) = of_char c # u s"
  by (simp add: u_def)

lemma u_append [simp]: "u (s @ t) = u s @ u t"
  by (simp add: u_def)

lemma u_eq_iff [simp]: "u s = u t \<longleftrightarrow> s = t"
proof
  assume "u s = u t"
  moreover have "inj (map (of_char :: char \<Rightarrow> nat))"
    by (intro inj_mapI) (auto simp: inj_def)
  ultimately show "s = t" by (auto simp: u_def dest: injD)
qed simp

lemma u_eq_Nil_iff [simp]: "u s = [] \<longleftrightarrow> s = []"
  by (simp add: u_def)

text \<open>\<open>needle in hay\<close>, \<open>hay.find(needle, start)\<close> and \<open>hay.rfind(needle, 0, stop)\<close>; \<open>None\<close> is
  Python's \<open>-1\<close>.\<close>

definition occurs_at :: "pystr \<Rightarrow> pystr \<Rightarrow> nat \<Rightarrow> bool" where
  "occurs_at needle hay i \<longleftrightarrow> i + length needle \<le> length hay \<and> take (length needle) (drop i hay) = needle"

definition py_in :: "pystr \<Rightarrow> pystr \<Rightarrow> bool" where
  "py_in needle hay \<longleftrightarrow> (\<exists>i \<in> set [0..<Suc (length hay)]. occurs_at needle hay i)"

definition py_find :: "pystr \<Rightarrow> pystr \<Rightarrow> nat \<Rightarrow> nat option" where
  "py_find hay needle start = find (occurs_at needle hay) [start..<Suc (length hay)]"

definition py_rfind :: "pystr \<Rightarrow> pystr \<Rightarrow> nat \<Rightarrow> nat option" where
  "py_rfind hay needle stop =
     (let h = take stop hay in find (occurs_at needle h) (rev [0..<Suc (length h)]))"

lemma occurs_at_iff_append:
  "occurs_at needle hay i \<longleftrightarrow> (\<exists>pre post. hay = pre @ needle @ post \<and> length pre = i)"
proof
  assume "occurs_at needle hay i"
  then have le: "i + length needle \<le> length hay" and tk: "take (length needle) (drop i hay) = needle"
    by (auto simp: occurs_at_def)
  have "hay = take i hay @ needle @ drop (length needle) (drop i hay)"
    using tk by (metis append_take_drop_id)
  moreover have "length (take i hay) = i" using le by simp
  ultimately show "\<exists>pre post. hay = pre @ needle @ post \<and> length pre = i" by blast
next
  assume "\<exists>pre post. hay = pre @ needle @ post \<and> length pre = i"
  then show "occurs_at needle hay i" by (auto simp: occurs_at_def)
qed

lemma py_in_iff: "py_in needle hay \<longleftrightarrow> (\<exists>pre post. hay = pre @ needle @ post)"
proof -
  have "py_in needle hay \<longleftrightarrow> (\<exists>i. occurs_at needle hay i)"
    by (auto simp: py_in_def occurs_at_def less_Suc_eq_le simp del: upt_Suc)
  then show ?thesis by (simp add: occurs_at_iff_append)
qed

lemma find_upt_Some:
  "find P [a..<b] = Some i \<Longrightarrow> a \<le> i \<and> i < b \<and> P i \<and> (\<forall>j. a \<le> j \<and> j < i \<longrightarrow> \<not> P j)"
proof -
  assume "find P [a..<b] = Some i"
  then obtain k where k: "k < b - a" "P (a + k)" "i = a + k" "\<forall>j < k. \<not> P (a + j)"
    by (auto simp: find_Some_iff)
  have "\<not> P j" if "a \<le> j" "j < i" for j
    using k(3,4) that by (metis add_less_cancel_left le_add_diff_inverse)
  with k show ?thesis by auto
qed

lemma py_find_Some:
  "py_find hay needle start = Some i \<Longrightarrow>
     start \<le> i \<and> occurs_at needle hay i \<and> (\<forall>j. start \<le> j \<and> j < i \<longrightarrow> \<not> occurs_at needle hay j)"
  using find_upt_Some[of "occurs_at needle hay" start "Suc (length hay)" i]
  unfolding py_find_def by blast

lemma py_find_None:
  "py_find hay needle start = None \<longleftrightarrow> (\<forall>i \<ge> start. \<not> occurs_at needle hay i)"
  by (auto simp: py_find_def find_None_iff occurs_at_def less_Suc_eq_le simp del: upt_Suc)

text \<open>\<open>str(n)\<close> for a non-negative int.\<close>

fun py_str_nat :: "nat \<Rightarrow> pystr" where
  "py_str_nat n = (if n < 10 then [48 + n] else py_str_nat (n div 10) @ [48 + n mod 10])"

declare py_str_nat.simps [simp del]

lemma py_str_nat_digits: "set (py_str_nat n) \<subseteq> {48..57}"
proof (induction n rule: py_str_nat.induct)
  case (1 n)
  then show ?case by (subst py_str_nat.simps) auto
qed

definition py_join :: "pystr \<Rightarrow> pystr list \<Rightarrow> pystr" where
  "py_join sep parts = (case parts of [] \<Rightarrow> [] | p # ps \<Rightarrow> foldl (\<lambda>acc q. acc @ sep @ q) p ps)"

section \<open>Dictionaries\<close>

text \<open>
  A Python dict is an association list with distinct keys in insertion order; storing under
  an existing key keeps its place, which is what \<open>AList.update\<close> does.
\<close>

type_synonym ('k, 'v) dict = "('k \<times> 'v) list"

abbreviation dict_get :: "('k, 'v) dict \<Rightarrow> 'k \<Rightarrow> 'v option" where
  "dict_get d k \<equiv> map_of d k"

abbreviation dict_set :: "'k \<Rightarrow> 'v \<Rightarrow> ('k, 'v) dict \<Rightarrow> ('k, 'v) dict" where
  "dict_set k v d \<equiv> AList.update k v d"

abbreviation dict_values :: "('k, 'v) dict \<Rightarrow> 'v list" where
  "dict_values d \<equiv> map snd d"

abbreviation dict_ok :: "('k, 'v) dict \<Rightarrow> bool" where
  "dict_ok d \<equiv> distinct (map fst d)"

lemma dict_get_set [simp]: "dict_get (dict_set k v d) j = (if j = k then Some v else dict_get d j)"
  by (simp add: update_conv')

lemma dict_ok_set [simp]: "dict_ok d \<Longrightarrow> dict_ok (dict_set k v d)"
  by (simp add: distinct_update)

lemma dict_set_items:
  "dict_ok d \<Longrightarrow> set (dict_set k v d) = insert (k, v) {x \<in> set d. fst x \<noteq> k}"
proof -
  assume d: "dict_ok d"
  have "dict_ok (dict_set k v d)" using d by simp
  then have "x \<in> set (dict_set k v d) \<longleftrightarrow> dict_get (dict_set k v d) (fst x) = Some (snd x)" for x
    by (metis map_of_eq_Some_iff prod.collapse)
  moreover have "x \<in> set d \<longleftrightarrow> dict_get d (fst x) = Some (snd x)" for x
    using d by (metis map_of_eq_Some_iff prod.collapse)
  ultimately show ?thesis by (auto split: if_splits)
qed

lemma dict_get_items: "dict_ok d \<Longrightarrow> dict_get d k = Some v \<longleftrightarrow> (k, v) \<in> set d"
  by (rule map_of_eq_Some_iff)

section \<open>Values\<close>

text \<open>
  Python values that come from outside or go to a JSON column: \<open>POther\<close> is any value of another
  class, \<open>NonFinite\<close> a float that is not a number or infinite.
\<close>

datatype nonfinite = NotANumber | PosInfinity | NegInfinity

datatype pyfloat = Fin rat | NonFinite nonfinite

datatype pyval =
    PNone | PBool bool | PInt int | PFloat pyfloat | PStr pystr | PList "pyval list"
  | PDict "(pystr \<times> pyval) list" | POther

section \<open>Exceptions\<close>

text \<open>
  The exception classes the modelled code raises. The persistence classes are those of
  \<open>database/errors.py\<close>; the hierarchy below them that \<open>except\<close> clauses test is given by
  predicates next to the code that uses them. A security error carries its status code, code,
  message, challenge and trace (\<open>api/security.py\<close>).
\<close>

record request_trace_step =
  rt_component :: pystr
  rt_status :: string
  rt_code :: pystr
  rt_summary :: pystr

datatype exn =
    IndexError | KeyError | ValueError string | TypeError string | RuntimeError string
  | AssertionError | OverflowError | ValidationError
  | PersistenceConnectionError | DatabaseRevisionError | PersistenceWriteError
  | PersistenceConflictError | DuplicateRequestError | RequestNotFoundError
  | InvalidRequestTransitionError
  | RequestInitializationError | DurableApplicationExecutionError | PersistenceFinalizationError
  | FingerprintVersionError | InvalidIdempotencyStateError | IdempotencyOwnershipLostError
  | ReplaySnapshotError | UnsupportedReplaySnapshotVersionError
  | ApplicationExecutionError
  | ExecutionGatewayError string nat
  | AuthenticationFailure string nat "string option"
  | SecurityBoundaryError nat string string "string option" "request_trace_step list"
  | IdempotencyHTTPError string nat
  | UnknownSigningKey | JwksUnavailable string
  | RagClientError pystr pystr
  | OSError | JSONDecodeError | UnicodeDecodeError | AttributeError | HTTPStatusError nat
  | TimeoutException pystr | ConnectError pystr | RequestError pystr
  | ResponseProjectionError

text \<open>A computation that may raise.\<close>

type_synonym 'a res = "exn + 'a"

definition bind_res :: "'a res \<Rightarrow> ('a \<Rightarrow> 'b res) \<Rightarrow> 'b res" where
  "bind_res m f = (case m of Inl e \<Rightarrow> Inl e | Inr x \<Rightarrow> f x)"

lemma bind_res_simps [simp, effect_simps]:
  "bind_res (Inl e) f = Inl e" "bind_res (Inr x) f = f x"
  by (simp_all add: bind_res_def)

lemma bind_res_Inr_iff: "bind_res m f = Inr y \<longleftrightarrow> (\<exists>x. m = Inr x \<and> f x = Inr y)"
  by (cases m) auto

fun map_res :: "('a \<Rightarrow> 'b res) \<Rightarrow> 'a list \<Rightarrow> 'b list res" where
  "map_res f [] = Inr []"
| "map_res f (x # xs) = bind_res (f x) (\<lambda>y. bind_res (map_res f xs) (\<lambda>ys. Inr (y # ys)))"

lemma map_res_cong [fundef_cong]:
  "xs = ys \<Longrightarrow> (\<And>x. x \<in> set ys \<Longrightarrow> f x = g x) \<Longrightarrow> map_res f xs = map_res g ys"
proof -
  assume "xs = ys" and eq: "\<And>x. x \<in> set ys \<Longrightarrow> f x = g x"
  from eq have "map_res f ys = map_res g ys" by (induction ys) auto
  with \<open>xs = ys\<close> show ?thesis by simp
qed

lemma map_res_Inr:
  "map_res f xs = Inr ys \<longleftrightarrow> list_all2 (\<lambda>x y. f x = Inr y) xs ys"
proof (induction xs arbitrary: ys)
  case (Cons x xs)
  show ?case
    by (cases "f x"; cases "map_res f xs"; cases ys) (auto simp: Cons.IH[symmetric])
qed auto

lemma list_all2_partner: "list_all2 P xs ys \<Longrightarrow> x \<in> set xs \<Longrightarrow> \<exists>y. (x, y) \<in> set (zip xs ys) \<and> P x y"
  by (induction rule: list_all2_induct) auto

lemma map_res_total: "(\<And>x. x \<in> set xs \<Longrightarrow> \<exists>y. f x = Inr y) \<Longrightarrow> \<exists>ys. map_res f xs = Inr ys"
proof (induction xs)
  case (Cons x xs)
  then obtain y ys where "f x = Inr y" "map_res f xs = Inr ys" by (meson list.set_intros)
  then show ?case by simp
qed simp

text \<open>\<open>errors_in E r\<close>: what \<open>r\<close> raises, if it does, belongs to \<open>E\<close>.\<close>

definition errors_in :: "exn set \<Rightarrow> 'a res \<Rightarrow> bool" where
  "errors_in E r \<longleftrightarrow> (\<forall>e. r = Inl e \<longrightarrow> e \<in> E)"

lemma errors_in_Inr [errors_intros]: "errors_in E (Inr x)"
  by (simp add: errors_in_def)

lemma errors_in_Inl [errors_intros]: "e \<in> E \<Longrightarrow> errors_in E (Inl e)"
  by (simp add: errors_in_def)

lemma errors_in_bind [errors_intros]:
  "errors_in E m \<Longrightarrow> (\<And>x. m = Inr x \<Longrightarrow> errors_in E (f x)) \<Longrightarrow> errors_in E (bind_res m f)"
  by (cases m) (auto simp: errors_in_def)

lemma errors_in_if [errors_intros]:
  "(c \<Longrightarrow> errors_in E a) \<Longrightarrow> (\<not> c \<Longrightarrow> errors_in E b) \<Longrightarrow> errors_in E (if c then a else b)"
  by simp

lemma errors_in_option [errors_intros]:
  "(v = None \<Longrightarrow> errors_in E a) \<Longrightarrow> (\<And>x. v = Some x \<Longrightarrow> errors_in E (f x)) \<Longrightarrow>
     errors_in E (case v of None \<Rightarrow> a | Some x \<Rightarrow> f x)"
  by (cases v) simp_all

lemma errors_in_mono: "errors_in E r \<Longrightarrow> E \<subseteq> F \<Longrightarrow> errors_in F r"
  unfolding errors_in_def by blast

lemma errors_inD: "errors_in E r \<Longrightarrow> r = Inl e \<Longrightarrow> e \<in> E"
  unfolding errors_in_def by blast

lemma errors_in_empty: "errors_in {} r \<Longrightarrow> \<exists>x. r = Inr x"
  by (cases r) (auto simp: errors_in_def)

lemma errors_in_map_res [errors_intros]:
  "(\<And>x. x \<in> set xs \<Longrightarrow> errors_in E (f x)) \<Longrightarrow> errors_in E (map_res f xs)"
  by (induction xs) (auto intro!: errors_in_bind errors_in_Inr)

text \<open>A computation that changes a state and may raise; what it did to the state before it
  raised stays done, as in Python.\<close>

type_synonym ('s, 'a) op = "'s \<Rightarrow> 'a res \<times> 's"

definition ret :: "'a \<Rightarrow> ('s, 'a) op" where
  "ret x = (\<lambda>s. (Inr x, s))"

definition raise_op :: "exn \<Rightarrow> ('s, 'a) op" where
  "raise_op e = (\<lambda>s. (Inl e, s))"

definition bind_op :: "('s, 'a) op \<Rightarrow> ('a \<Rightarrow> ('s, 'b) op) \<Rightarrow> ('s, 'b) op" where
  "bind_op m f = (\<lambda>s. case m s of (Inl e, s') \<Rightarrow> (Inl e, s') | (Inr x, s') \<Rightarrow> f x s')"

definition get_op :: "('s \<Rightarrow> 'a) \<Rightarrow> ('s, 'a) op" where
  "get_op f = (\<lambda>s. (Inr (f s), s))"

definition put_op :: "('s \<Rightarrow> 's) \<Rightarrow> ('s, unit) op" where
  "put_op f = (\<lambda>s. (Inr (), f s))"

definition lift_res :: "'a res \<Rightarrow> ('s, 'a) op" where
  "lift_res r = (\<lambda>s. (r, s))"

text \<open>\<open>try: m except <classes>: handler\<close>; \<open>h e = None\<close> lets the exception pass.\<close>

definition try_op :: "('s, 'a) op \<Rightarrow> (exn \<Rightarrow> ('s, 'a) op option) \<Rightarrow> ('s, 'a) op" where
  "try_op m h = (\<lambda>s. case m s of
      (Inl e, s') \<Rightarrow> (case h e of None \<Rightarrow> (Inl e, s') | Some k \<Rightarrow> k s')
    | (Inr x, s') \<Rightarrow> (Inr x, s'))"

lemma op_simps [simp, effect_simps]:
  "ret x s = (Inr x, s)" "raise_op e s = (Inl e, s)" "get_op f s = (Inr (f s), s)"
  "put_op g s = (Inr (), g s)" "lift_res r s = (r, s)"
  by (simp_all add: ret_def raise_op_def get_op_def put_op_def lift_res_def)

lemma bind_op_step [effect_simps]:
  "bind_op m f s = (case m s of (Inl e, s') \<Rightarrow> (Inl e, s') | (Inr x, s') \<Rightarrow> f x s')"
  by (simp add: bind_op_def)

lemma bind_op_Inr_iff:
  "bind_op m f s = (Inr y, t) \<longleftrightarrow> (\<exists>x s'. m s = (Inr x, s') \<and> f x s' = (Inr y, t))"
  by (auto simp: bind_op_def split: prod.splits sum.splits)

lemma bind_op_Inl_iff:
  "bind_op m f s = (Inl e, t) \<longleftrightarrow>
     m s = (Inl e, t) \<or> (\<exists>x s'. m s = (Inr x, s') \<and> f x s' = (Inl e, t))"
  by (auto simp: bind_op_def split: prod.splits sum.splits)

section \<open>Time\<close>

text \<open>
  A \<open>datetime\<close> is an instant (microseconds since the epoch) and its UTC offset in
  microseconds, \<open>None\<close> for a naive value.
\<close>

record datetime =
  instant :: int
  utc_offset :: "int option"

definition utc :: "int \<Rightarrow> datetime" where
  "utc t = \<lparr>instant = t, utc_offset = Some 0\<rparr>"

lemma utc_sel [simp]: "instant (utc t) = t" "utc_offset (utc t) = Some 0"
  by (simp_all add: utc_def)

text \<open>\<open>timedelta(seconds=n)\<close>\<close>

definition seconds :: "int \<Rightarrow> int" where
  "seconds n = n * 1000000"

lemma seconds_pos: "0 < n \<Longrightarrow> 0 < seconds n"
  by (simp add: seconds_def)

section \<open>First maximum\<close>

text \<open>Python's \<open>max(xs, key=f)\<close>: the first of the elements with the greatest key.\<close>

fun py_max_by :: "('a \<Rightarrow> 'k::linorder) \<Rightarrow> 'a list \<Rightarrow> 'a option" where
  "py_max_by f [] = None"
| "py_max_by f (x # xs) = Some (foldl (\<lambda>b y. if f b < f y then y else b) x xs)"

lemma foldl_max_by:
  "foldl (\<lambda>b y. if f b < f y then y else b) x xs \<in> insert x (set xs) \<and>
   (\<forall>y \<in> insert x (set xs). f y \<le> (f (foldl (\<lambda>b y. if f b < f y then y else b) x xs) :: 'k::linorder))"
proof (induction xs arbitrary: x)
  case (Cons z zs)
  let ?b = "if f x < f z then z else x"
  have "f x \<le> f ?b" "f z \<le> f ?b" by auto
  moreover note Cons[of ?b]
  ultimately show ?case by (auto split: if_splits intro: order_trans)
qed simp

lemma py_max_by_Some:
  "py_max_by f xs = Some m \<Longrightarrow> m \<in> set xs \<and> (\<forall>y \<in> set xs. f y \<le> f m)"
  using foldl_max_by[of f] by (cases xs) auto

lemma py_max_by_None [simp]: "py_max_by f xs = None \<longleftrightarrow> xs = []"
  by (cases xs) auto

end
