(* ===== verification/Policy_Types.thy ===== *)
theory Policy_Types
  imports Py_Prelude
begin

text \<open>
  The data of the safety policy: \<open>policy/models.py\<close>, the rule and pattern records of
  \<open>policy/rules.py\<close> and \<open>policy/catalogs\<close>, and the Unicode functions of the standard
  library that normalization calls. Confidences are written as decimal literals in the code
  and are only compared and minimised there, so they are rationals here.
\<close>

section \<open>policy/models.py\<close>

datatype policy_status = SAFE | UNCERTAIN | BLOCKED

fun policy_status_name :: "policy_status \<Rightarrow> string" where
  "policy_status_name SAFE = ''SAFE''"
| "policy_status_name UNCERTAIN = ''UNCERTAIN''"
| "policy_status_name BLOCKED = ''BLOCKED''"

record policy_decision =
  pd_status :: policy_status
  pd_reason :: pystr
  pd_matched_rules :: "pystr list"
  pd_warnings :: "pystr list"
  pd_classifier_used :: bool
  pd_confidence :: rat

text \<open>The model's constructor: pydantic checks \<open>0.0 \<le> confidence \<le> 1.0\<close>.\<close>

definition mk_policy_decision ::
  "policy_status \<Rightarrow> pystr \<Rightarrow> pystr list \<Rightarrow> pystr list \<Rightarrow> bool \<Rightarrow> rat \<Rightarrow> policy_decision res" where
  "mk_policy_decision st reason matched warns clf conf =
     (if 0 \<le> conf \<and> conf \<le> 1
      then Inr \<lparr>pd_status = st, pd_reason = reason, pd_matched_rules = matched,
                pd_warnings = warns, pd_classifier_used = clf, pd_confidence = conf\<rparr>
      else Inl ValidationError)"

definition is_blocked :: "policy_decision \<Rightarrow> bool" where
  "is_blocked d \<longleftrightarrow> pd_status d = BLOCKED"

definition is_uncertain :: "policy_decision \<Rightarrow> bool" where
  "is_uncertain d \<longleftrightarrow> pd_status d = UNCERTAIN"

datatype risk_category =
    PRIVACY_OVERREACH | SENSITIVE_ATTRIBUTE_INFERENCE | LEGAL_FINANCIAL_FINAL_JUDGMENT
  | SALES_MISREPRESENTATION | UNSUPPORTED_BUSINESS_CLAIM | BUSINESS_UNCERTAIN

fun risk_category_value :: "risk_category \<Rightarrow> string" where
  "risk_category_value PRIVACY_OVERREACH = ''privacy_overreach''"
| "risk_category_value SENSITIVE_ATTRIBUTE_INFERENCE = ''sensitive_attribute_inference''"
| "risk_category_value LEGAL_FINANCIAL_FINAL_JUDGMENT = ''legal_financial_final_judgment''"
| "risk_category_value SALES_MISREPRESENTATION = ''sales_misrepresentation''"
| "risk_category_value UNSUPPORTED_BUSINESS_CLAIM = ''unsupported_business_claim''"
| "risk_category_value BUSINESS_UNCERTAIN = ''business_uncertain''"

text \<open>\<open>RiskCategory(value)\<close>, a \<open>ValueError\<close> on an unknown value.\<close>

definition risk_category_of :: "string \<Rightarrow> risk_category res" where
  "risk_category_of s =
     (case find (\<lambda>c. risk_category_value c = s)
        [PRIVACY_OVERREACH, SENSITIVE_ATTRIBUTE_INFERENCE, LEGAL_FINANCIAL_FINAL_JUDGMENT,
         SALES_MISREPRESENTATION, UNSUPPORTED_BUSINESS_CLAIM, BUSINESS_UNCERTAIN]
      of None \<Rightarrow> Inl (ValueError s) | Some c \<Rightarrow> Inr c)"

datatype risk_action =
    REQUEST_PRIVATE_CUSTOMER_DATA | INFER_SENSITIVE_ATTRIBUTE | MAKE_FINAL_LEGAL_JUDGMENT
  | GUARANTEE_FINANCIAL_RETURN | MAKE_ABSOLUTE_DELIVERY_COMMITMENT | GUARANTEE_SALES_OUTCOME
  | FABRICATE_CUSTOMER_CASE | FABRICATE_INVENTORY | FABRICATE_CERTIFICATION
  | FABRICATE_DELIVERY_RECORD | REQUEST_BUSINESS_CONFIRMATION

fun risk_action_value :: "risk_action \<Rightarrow> string" where
  "risk_action_value REQUEST_PRIVATE_CUSTOMER_DATA = ''request_private_customer_data''"
| "risk_action_value INFER_SENSITIVE_ATTRIBUTE = ''infer_sensitive_attribute''"
| "risk_action_value MAKE_FINAL_LEGAL_JUDGMENT = ''make_final_legal_judgment''"
| "risk_action_value GUARANTEE_FINANCIAL_RETURN = ''guarantee_financial_return''"
| "risk_action_value MAKE_ABSOLUTE_DELIVERY_COMMITMENT = ''make_absolute_delivery_commitment''"
| "risk_action_value GUARANTEE_SALES_OUTCOME = ''guarantee_sales_outcome''"
| "risk_action_value FABRICATE_CUSTOMER_CASE = ''fabricate_customer_case''"
| "risk_action_value FABRICATE_INVENTORY = ''fabricate_inventory''"
| "risk_action_value FABRICATE_CERTIFICATION = ''fabricate_certification''"
| "risk_action_value FABRICATE_DELIVERY_RECORD = ''fabricate_delivery_record''"
| "risk_action_value REQUEST_BUSINESS_CONFIRMATION = ''request_business_confirmation''"

datatype risk_severity = LOW | MEDIUM | HIGH | CRITICAL

fun risk_severity_value :: "risk_severity \<Rightarrow> string" where
  "risk_severity_value LOW = ''LOW''"
| "risk_severity_value MEDIUM = ''MEDIUM''"
| "risk_severity_value HIGH = ''HIGH''"
| "risk_severity_value CRITICAL = ''CRITICAL''"

datatype detection_source = DETERMINISTIC_RULE | REGEX_RULE | CLASSIFIER

datatype user_stance = REQUEST | PROHIBIT | AUDIT | DISCUSS | QUOTE | UNKNOWN

record text_span =
  span_start :: nat
  span_end :: nat
  span_text :: pystr

record risk_candidate =
  rc_candidate_id :: pystr
  rc_rule_id :: string
  rc_category :: risk_category
  rc_action :: risk_action
  rc_severity :: risk_severity
  rc_evidence_span :: text_span
  rc_source :: detection_source
  rc_confidence :: rat
  rc_priority :: int
  rc_status_hint :: policy_status
  rc_reason :: pystr

record risk_stance =
  rs_candidate_id :: pystr
  rs_stance :: user_stance
  rs_confidence :: rat
  rs_reason_code :: string
  rs_source :: string

section \<open>The rule and pattern records\<close>

datatype matcher_type = NormalizedLiteral | CompactLiteral | OtherMatcher

record risk_detector_spec =
  ds_pattern :: pystr
  ds_matcher_type :: matcher_type

record risk_rule =
  rr_rule_id :: string
  rr_category :: risk_category
  rr_action :: risk_action
  rr_severity :: risk_severity
  rr_status_hint :: policy_status
  rr_detectors :: "risk_detector_spec list"
  rr_priority :: int
  rr_reason :: pystr
  rr_enabled :: bool

text \<open>The deprecated rule record; \<open>negative_patterns\<close> and \<open>examples\<close> are never read.\<close>

record policy_rule =
  pr_rule_id :: string
  pr_category :: string
  pr_status :: policy_status
  pr_priority :: int
  pr_patterns :: "pystr list"
  pr_negative_patterns :: "pystr list"
  pr_reason :: pystr
  pr_examples :: "pystr list"

datatype stance_matcher = PrefixLiteral | ClauseLiteral

record stance_pattern =
  sp_pattern_id :: string
  sp_stance :: user_stance
  sp_matcher_type :: stance_matcher
  sp_pattern :: pystr
  sp_confidence :: rat
  sp_priority :: int
  sp_applies_to_actions :: "risk_action list option"

record policy_resolution_thresholds =
  discuss_safe_min_confidence :: rat
  quote_safe_min_confidence :: rat
  unknown_requires_uncertain :: bool

section \<open>The Unicode functions of the standard library\<close>

text \<open>
  \<open>unicodedata.normalize("NFKC", s)\<close>, \<open>unicodedata.category(c).startswith("C")\<close>,
  \<open>s.lower()\<close>, \<open>s.upper()\<close>, \<open>s.casefold()\<close> and \<open>c.isspace()\<close> are tables of the Unicode
  database, so they are a parameter.
\<close>

record ucd =
  u_nfkc :: "pystr \<Rightarrow> pystr"
  u_category_c :: "nat \<Rightarrow> bool"
  u_lower :: "pystr \<Rightarrow> pystr"
  u_upper :: "pystr \<Rightarrow> pystr"
  u_casefold :: "pystr \<Rightarrow> pystr"
  u_space :: "nat \<Rightarrow> bool"

text \<open>\<open>s.isspace()\<close>: not empty and every character is white space.\<close>

definition py_isspace :: "ucd \<Rightarrow> pystr \<Rightarrow> bool" where
  "py_isspace T s \<longleftrightarrow> s \<noteq> [] \<and> list_all (u_space T) s"

definition py_rstrip :: "ucd \<Rightarrow> pystr \<Rightarrow> pystr" where
  "py_rstrip T s = rev (dropWhile (u_space T) (rev s))"

definition py_strip :: "ucd \<Rightarrow> pystr \<Rightarrow> pystr" where
  "py_strip T s = py_rstrip T (dropWhile (u_space T) s)"

text \<open>\<open>s.endswith(t)\<close>\<close>

definition py_endswith :: "pystr \<Rightarrow> pystr \<Rightarrow> bool" where
  "py_endswith s t \<longleftrightarrow> length t \<le> length s \<and> drop (length s - length t) s = t"

text \<open>
  One executable table for the concrete evaluations below: ASCII, the full-width forms, the
  Chinese characters, the control and zero-width characters, and U+0130, whose lower case is
  the two code points U+0069 U+0307. Every value agrees with the Unicode database on the
  characters the examples use.
\<close>

definition basic_lower_cp :: "nat \<Rightarrow> nat list" where
  "basic_lower_cp c = (if 65 \<le> c \<and> c \<le> 90 then [c + 32] else if c = 304 then [105, 775] else [c])"

definition basic_ucd :: ucd where
  "basic_ucd = \<lparr>
     u_nfkc = map (\<lambda>c. if 65281 \<le> c \<and> c \<le> 65374 then c - 65248 else if c = 12288 then 32 else c),
     u_category_c = (\<lambda>c. c < 32 \<or> (127 \<le> c \<and> c < 160) \<or> (8203 \<le> c \<and> c \<le> 8207) \<or> (8288 \<le> c \<and> c \<le> 8292) \<or> c = 65279),
     u_lower = (\<lambda>s. concat (map basic_lower_cp s)),
     u_upper = map (\<lambda>c. if 97 \<le> c \<and> c \<le> 122 then c - 32 else c),
     u_casefold = (\<lambda>s. concat (map basic_lower_cp s)),
     u_space = (\<lambda>c. c = 32 \<or> (9 \<le> c \<and> c \<le> 13) \<or> (28 \<le> c \<and> c \<le> 31) \<or> c = 133 \<or> c = 160 \<or> c = 12288)\<rparr>"

lemma mk_policy_decision_Inr:
  "mk_policy_decision st r m w c q = Inr d \<longleftrightarrow>
     0 \<le> q \<and> q \<le> 1 \<and>
     d = \<lparr>pd_status = st, pd_reason = r, pd_matched_rules = m, pd_warnings = w,
          pd_classifier_used = c, pd_confidence = q\<rparr>"
  by (auto simp: mk_policy_decision_def)

end
