(* ===== verification/Runtime_Models.thy ===== *)
theory Runtime_Models
  imports Policy_Types
begin

text \<open>
  The immutable request models: \<open>identity/models.py\<close>, \<open>authorization/models.py\<close>,
  \<open>runtime/models.py\<close> and \<open>application/models.py\<close>. A model class is a record, and its pydantic
  validation a function that takes the values given to the constructor and returns the stored
  model or raises. All string fields are stripped first (\<open>str_strip_whitespace\<close>).
\<close>

section \<open>Field validation\<close>

definition str_field :: "ucd \<Rightarrow> nat \<Rightarrow> nat option \<Rightarrow> pystr \<Rightarrow> pystr res" where
  "str_field T lo hi s =
     (let t = py_strip T s
      in if lo \<le> length t \<and> (case hi of None \<Rightarrow> True | Some n \<Rightarrow> length t \<le> n) then Inr t
         else Inl ValidationError)"

definition opt_field :: "('a \<Rightarrow> 'b res) \<Rightarrow> 'a option \<Rightarrow> 'b option res" where
  "opt_field f v = (case v of None \<Rightarrow> Inr None | Some x \<Rightarrow> bind_res (f x) (\<lambda>y. Inr (Some y)))"

text \<open>
  The \<open>before\<close> validators of \<open>roles\<close>, \<open>groups\<close>, \<open>permissions\<close> and \<open>resource_ids\<close>: strip every item,
  refuse a blank one, drop duplicates and sort.
\<close>

definition stable_values :: "ucd \<Rightarrow> pystr list \<Rightarrow> pystr list res" where
  "stable_values T values =
     (let vs = map (py_strip T) values
      in if [] \<in> set vs then Inl ValidationError else Inr (sort (remdups vs)))"

section \<open>Stripping\<close>

lemma py_rstrip_idem [simp]: "py_rstrip T (py_rstrip T s) = py_rstrip T s"
  by (simp add: py_rstrip_def dropWhile_idem)

lemma dropWhile_rstrip:
  assumes "s = [] \<or> \<not> u_space T (hd s)"
  shows "dropWhile (u_space T) (py_rstrip T s) = py_rstrip T s"
proof (cases s)
  case (Cons c cs)
  with assms have c: "\<not> u_space T c" by simp
  have "py_rstrip T (c # cs) = c # py_rstrip T cs"
    using c by (simp add: py_rstrip_def dropWhile_append)
  then show ?thesis using c Cons by simp
qed (simp add: py_rstrip_def)

lemma py_strip_idem [simp]: "py_strip T (py_strip T s) = py_strip T s"
proof -
  let ?d = "dropWhile (u_space T) s"
  have "?d = [] \<or> \<not> u_space T (hd ?d)" by (metis hd_dropWhile)
  then show ?thesis unfolding py_strip_def by (simp add: dropWhile_rstrip)
qed

lemma str_field_Inr:
  "str_field T lo hi s = Inr t \<longleftrightarrow>
     t = py_strip T s \<and> lo \<le> length t \<and> (\<forall>n. hi = Some n \<longrightarrow> length t \<le> n)"
  by (auto simp: str_field_def Let_def split: option.splits)

lemma str_field_idem: "str_field T lo hi s = Inr t \<Longrightarrow> str_field T lo hi t = Inr t"
  by (auto simp: str_field_Inr)

lemma opt_field_idem:
  "(\<And>x y. f x = Inr y \<Longrightarrow> f y = Inr y) \<Longrightarrow> opt_field f v = Inr w \<Longrightarrow> opt_field f w = Inr w"
  by (cases v) (auto simp: opt_field_def bind_res_Inr_iff)

lemma stable_values_Inr:
  "stable_values T vs = Inr ws \<Longrightarrow>
     sorted ws \<and> distinct ws \<and> set ws = py_strip T ` set vs \<and> [] \<notin> set ws"
  by (auto simp: stable_values_def Let_def split: if_splits)

lemma stable_values_idem: "stable_values T vs = Inr ws \<Longrightarrow> stable_values T ws = Inr ws"
proof -
  assume w: "stable_values T vs = Inr ws"
  note ws = stable_values_Inr[OF w]
  then have "\<forall>x \<in> set ws. py_strip T x = x" by auto
  then have "map (py_strip T) ws = ws" by (simp add: map_idI)
  moreover have "remdups ws = ws" "sort ws = ws" using ws by (simp_all add: distinct_remdups_id sorted_sort_id)
  ultimately show ?thesis using ws unfolding stable_values_def Let_def by metis
qed

section \<open>Principal\<close>

record principal =
  pr_tenant_id :: pystr
  pr_organization_id :: pystr
  pr_user_id :: pystr
  pr_display_name :: "pystr option"
  pr_email :: "pystr option"
  pr_department_id :: "pystr option"
  pr_team_id :: "pystr option"
  pr_region_id :: "pystr option"
  pr_roles :: "pystr list"
  pr_groups :: "pystr list"
  pr_enabled :: bool

definition validate_principal :: "ucd \<Rightarrow> principal \<Rightarrow> principal res" where
  "validate_principal T p =
     bind_res (str_field T 1 (Some 128) (pr_tenant_id p)) (\<lambda>tenant.
     bind_res (str_field T 1 (Some 128) (pr_organization_id p)) (\<lambda>org.
     bind_res (str_field T 1 (Some 128) (pr_user_id p)) (\<lambda>user.
     bind_res (opt_field (str_field T 0 (Some 255)) (pr_display_name p)) (\<lambda>display.
     bind_res (opt_field (str_field T 0 (Some 320)) (pr_email p)) (\<lambda>email.
     bind_res (opt_field (str_field T 1 (Some 128)) (pr_department_id p)) (\<lambda>dept.
     bind_res (opt_field (str_field T 1 (Some 128)) (pr_team_id p)) (\<lambda>team.
     bind_res (opt_field (str_field T 1 (Some 128)) (pr_region_id p)) (\<lambda>region.
     bind_res (stable_values T (pr_roles p)) (\<lambda>roles.
     bind_res (stable_values T (pr_groups p)) (\<lambda>groups.
     Inr \<lparr>pr_tenant_id = tenant, pr_organization_id = org, pr_user_id = user,
          pr_display_name = display, pr_email = email, pr_department_id = dept, pr_team_id = team,
          pr_region_id = region, pr_roles = roles, pr_groups = groups,
          pr_enabled = pr_enabled p\<rparr>))))))))))"

section \<open>Authorization decisions\<close>

datatype scope_type = ScopeSelf | ScopeTeam | ScopeDepartment | ScopeRegion | ScopeOrganization

fun scope_type_value :: "scope_type \<Rightarrow> string" where
  "scope_type_value ScopeSelf = ''self''"
| "scope_type_value ScopeTeam = ''team''"
| "scope_type_value ScopeDepartment = ''department''"
| "scope_type_value ScopeRegion = ''region''"
| "scope_type_value ScopeOrganization = ''organization''"

record resource_scope =
  sc_tenant_id :: pystr
  sc_organization_id :: pystr
  sc_resource_type :: pystr
  sc_scope_type :: scope_type
  sc_resource_ids :: "pystr list"

definition validate_resource_scope :: "ucd \<Rightarrow> resource_scope \<Rightarrow> resource_scope res" where
  "validate_resource_scope T s =
     bind_res (str_field T 1 (Some 128) (sc_tenant_id s)) (\<lambda>tenant.
     bind_res (str_field T 1 (Some 128) (sc_organization_id s)) (\<lambda>org.
     bind_res (str_field T 1 (Some 128) (sc_resource_type s)) (\<lambda>rtype.
     bind_res (stable_values T (sc_resource_ids s)) (\<lambda>ids.
     Inr \<lparr>sc_tenant_id = tenant, sc_organization_id = org, sc_resource_type = rtype,
          sc_scope_type = sc_scope_type s, sc_resource_ids = ids\<rparr>))))"

record authorization_decision =
  az_allowed :: bool
  az_code :: pystr
  az_reason :: pystr
  az_permissions :: "pystr list"
  az_resource_scopes :: "resource_scope list"

text \<open>The model validator \<open>_decision_invariants\<close>.\<close>

definition decision_invariants :: "authorization_decision \<Rightarrow> bool" where
  "decision_invariants d \<longleftrightarrow>
     (if az_allowed d then az_code d = u ''allowed''
      else az_code d \<noteq> u ''allowed'' \<and> az_reason d \<noteq> [])"

definition validate_authorization ::
  "ucd \<Rightarrow> authorization_decision \<Rightarrow> authorization_decision res" where
  "validate_authorization T d =
     bind_res (str_field T 1 (Some 128) (az_code d)) (\<lambda>code.
     bind_res (str_field T 0 None (az_reason d)) (\<lambda>reason.
     bind_res (stable_values T (az_permissions d)) (\<lambda>permissions.
     let d' = \<lparr>az_allowed = az_allowed d, az_code = code, az_reason = reason,
               az_permissions = permissions, az_resource_scopes = az_resource_scopes d\<rparr>
     in if decision_invariants d' then Inr d' else Inl ValidationError)))"

section \<open>The request context\<close>

datatype model_profile = ProfileLightweight | ProfileStandard | ProfileAdvanced | ProfileEvaluator

record runtime_version_snapshot =
  rv_default_model_profile :: model_profile
  rv_model_registry_version :: pystr
  rv_model_routing_policy_version :: pystr
  rv_application_version :: pystr
  rv_policy_version :: pystr
  rv_rag_contract_version :: pystr
  rv_crm_connector_version :: pystr
  rv_authorization_policy_version :: pystr

record request_metadata =
  rm_request_id :: pystr
  rm_trace_id :: pystr
  rm_received_at :: datetime

record request_context =
  cx_request_id :: pystr
  cx_trace_id :: pystr
  cx_session_id :: pystr
  cx_principal :: principal
  cx_authorization :: authorization_decision
  cx_versions :: runtime_version_snapshot
  cx_received_at :: datetime
  cx_idempotency_key :: "pystr option"

text \<open>\<open>value.astimezone(timezone.utc)\<close> of an aware value; a naive one is refused.\<close>

definition normalize_utc :: "datetime \<Rightarrow> datetime res" where
  "normalize_utc v = (if utc_offset v = None then Inl ValidationError else Inr (utc (instant v)))"

definition validate_versions :: "ucd \<Rightarrow> runtime_version_snapshot \<Rightarrow> runtime_version_snapshot res" where
  "validate_versions T v =
     bind_res (str_field T 1 None (rv_model_registry_version v)) (\<lambda>a.
     bind_res (str_field T 1 None (rv_model_routing_policy_version v)) (\<lambda>b.
     bind_res (str_field T 1 None (rv_application_version v)) (\<lambda>c.
     bind_res (str_field T 1 None (rv_policy_version v)) (\<lambda>d.
     bind_res (str_field T 1 None (rv_rag_contract_version v)) (\<lambda>e.
     bind_res (str_field T 1 None (rv_crm_connector_version v)) (\<lambda>f.
     bind_res (str_field T 1 None (rv_authorization_policy_version v)) (\<lambda>g.
     Inr \<lparr>rv_default_model_profile = rv_default_model_profile v, rv_model_registry_version = a,
          rv_model_routing_policy_version = b, rv_application_version = c, rv_policy_version = d,
          rv_rag_contract_version = e, rv_crm_connector_version = f,
          rv_authorization_policy_version = g\<rparr>)))))))"

definition validate_request_metadata :: "ucd \<Rightarrow> request_metadata \<Rightarrow> request_metadata res" where
  "validate_request_metadata T m =
     bind_res (str_field T 1 (Some 128) (rm_request_id m)) (\<lambda>rid.
     bind_res (str_field T 1 (Some 128) (rm_trace_id m)) (\<lambda>tid.
     bind_res (normalize_utc (rm_received_at m)) (\<lambda>ts.
     Inr \<lparr>rm_request_id = rid, rm_trace_id = tid, rm_received_at = ts\<rparr>)))"

definition scope_matches_principal :: "principal \<Rightarrow> resource_scope \<Rightarrow> bool" where
  "scope_matches_principal p s \<longleftrightarrow>
     sc_tenant_id s = pr_tenant_id p \<and> sc_organization_id s = pr_organization_id p"

definition validate_request_context :: "ucd \<Rightarrow> request_context \<Rightarrow> request_context res" where
  "validate_request_context T c =
     bind_res (str_field T 1 (Some 128) (cx_request_id c)) (\<lambda>rid.
     bind_res (str_field T 1 (Some 128) (cx_trace_id c)) (\<lambda>tid.
     bind_res (str_field T 1 (Some 128) (cx_session_id c)) (\<lambda>sid.
     bind_res (normalize_utc (cx_received_at c)) (\<lambda>ts.
     bind_res (opt_field (str_field T 1 (Some 255)) (cx_idempotency_key c)) (\<lambda>key.
     if list_all (scope_matches_principal (cx_principal c)) (az_resource_scopes (cx_authorization c))
     then Inr (c\<lparr>cx_request_id := rid, cx_trace_id := tid, cx_session_id := sid,
                 cx_received_at := ts, cx_idempotency_key := key\<rparr>)
     else Inl ValidationError)))))"

section \<open>The context builder\<close>

text \<open>
  \<open>runtime/builder.py\<close>: \<open>value or id_factory()\<close> draws an identifier when the value is missing or
  empty. \<open>ids k\<close> is the \<open>k\<close>-th identifier the factory makes; the counter is threaded.
\<close>

definition or_fresh :: "(nat \<Rightarrow> pystr) \<Rightarrow> nat \<Rightarrow> pystr option \<Rightarrow> pystr \<times> nat" where
  "or_fresh ids k v = (case v of Some (c # cs) \<Rightarrow> (c # cs, k) | _ \<Rightarrow> (ids k, Suc k))"

definition build_context ::
  "ucd \<Rightarrow> runtime_version_snapshot \<Rightarrow> (nat \<Rightarrow> pystr) \<Rightarrow> datetime \<Rightarrow> principal \<Rightarrow> authorization_decision
     \<Rightarrow> datetime option \<Rightarrow> pystr option \<Rightarrow> pystr option \<Rightarrow> pystr option \<Rightarrow> pystr option
     \<Rightarrow> request_context res" where
  "build_context T versions ids now who authorization received session request trace key =
     (let (rid, k1) = or_fresh ids 0 request;
          (tid, k2) = or_fresh ids k1 trace;
          (sid, k3) = or_fresh ids k2 session
      in validate_request_context T
           \<lparr>cx_request_id = rid, cx_trace_id = tid, cx_session_id = sid, cx_principal = who,
            cx_authorization = authorization, cx_versions = versions,
            cx_received_at = (case received of None \<Rightarrow> now | Some d \<Rightarrow> d),
            cx_idempotency_key = key\<rparr>)"

definition development_versions :: runtime_version_snapshot where
  "development_versions =
     \<lparr>rv_default_model_profile = ProfileStandard,
      rv_model_registry_version = u ''qwen3_profiles_v1'',
      rv_model_routing_policy_version = u ''not_implemented'',
      rv_application_version = u ''0.1.0'', rv_policy_version = u ''business_rules_v1'',
      rv_rag_contract_version = u ''rag_client_v1'', rv_crm_connector_version = u ''not_configured'',
      rv_authorization_policy_version = u ''rbac_abac_v1''\<rparr>"

definition development_security_context :: "principal \<times> authorization_decision" where
  "development_security_context =
     (\<lparr>pr_tenant_id = u ''single_tenant'', pr_organization_id = u ''default_organization'',
       pr_user_id = u ''local_api_user'', pr_display_name = None, pr_email = None,
       pr_department_id = None, pr_team_id = None, pr_region_id = None,
       pr_roles = [u ''agent_user''], pr_groups = [], pr_enabled = True\<rparr>,
      \<lparr>az_allowed = True, az_code = u ''allowed'', az_reason = [],
       az_permissions = map u [''chat:invoke'', ''crm:read'', ''qa:invoke'', ''rag:read''],
       az_resource_scopes =
         [\<lparr>sc_tenant_id = u ''single_tenant'', sc_organization_id = u ''default_organization'',
           sc_resource_type = u ''organization'', sc_scope_type = ScopeOrganization,
           sc_resource_ids = []\<rparr>]\<rparr>)"

section \<open>The external request\<close>

datatype task_name = TaskQa | TaskSalesAnalysis | TaskWeeklyReport | TaskPodcastScript | TaskEmailDraft

fun task_value :: "task_name \<Rightarrow> string" where
  "task_value TaskQa = ''qa''"
| "task_value TaskSalesAnalysis = ''sales_analysis''"
| "task_value TaskWeeklyReport = ''weekly_report''"
| "task_value TaskPodcastScript = ''podcast_script''"
| "task_value TaskEmailDraft = ''email_draft''"

record user_request =
  ur_text :: pystr
  ur_task_override :: "task_name option"
  ur_session_id :: "pystr option"

definition validate_user_request :: "ucd \<Rightarrow> user_request \<Rightarrow> user_request res" where
  "validate_user_request T r =
     bind_res (str_field T 1 (Some 20000) (ur_text r)) (\<lambda>txt.
     bind_res (opt_field (str_field T 1 (Some 128)) (ur_session_id r)) (\<lambda>sid.
     Inr \<lparr>ur_text = txt, ur_task_override = ur_task_override r, ur_session_id = sid\<rparr>))"

end
