(* ===== verification/Orchestration_Types.thy ===== *)
theory Orchestration_Types
  imports Runtime_Models Policy_Types
begin

text \<open>
  The results that the orchestration core hands to the application layer: \<open>rag/models.py\<close>, the
  intent of \<open>sales/models.py\<close>, \<open>orchestration/models.py\<close> and \<open>ApplicationResult\<close>. Floats that
  pydantic bounds to \<open>[0, 1]\<close> and the optional scores and latencies are rationals; values of
  unconstrained dictionaries are \<open>pyval\<close>.
\<close>

section \<open>Retrieval\<close>

datatype rag_provider = RagExternal | RagLocal | RagFallback | RagNone

fun rag_provider_value :: "rag_provider \<Rightarrow> string" where
  "rag_provider_value RagExternal = ''external''"
| "rag_provider_value RagLocal = ''local''"
| "rag_provider_value RagFallback = ''fallback''"
| "rag_provider_value RagNone = ''none''"

record rag_call_diagnostic =
  dg_step_name :: pystr
  dg_provider :: pystr
  dg_success :: bool
  dg_error_type :: "pystr option"
  dg_message :: "pystr option"
  dg_latency_ms :: "rat option"

record rag_evidence =
  re_source_id :: pystr
  re_title :: "pystr option"
  re_source_path :: "pystr option"
  re_text :: pystr
  re_score :: "pyfloat option"
  re_metadata :: "(pystr \<times> pyval) list"

record rag_result =
  rg_answer :: pystr
  rg_evidence :: "rag_evidence list"
  rg_sources :: "pyval list"
  rg_confidence :: rat
  rg_warnings :: "pystr list"
  rg_provider :: rag_provider
  rg_diagnostics :: "rag_call_diagnostic list"
  rg_raw_response :: "pyval option"

section \<open>Intent and route\<close>

datatype intent =
  CUSTOMER_INTAKE | MEETING_NOTE | QUERY | EMAIL_DRAFT | REPORT | PODCAST_SCRIPT

fun intent_value :: "intent \<Rightarrow> string" where
  "intent_value CUSTOMER_INTAKE = ''customer_intake''"
| "intent_value MEETING_NOTE = ''meeting_note''"
| "intent_value QUERY = ''query''"
| "intent_value EMAIL_DRAFT = ''email_draft''"
| "intent_value REPORT = ''report''"
| "intent_value PODCAST_SCRIPT = ''podcast_script''"

record intent_result =
  ir_intent :: intent
  ir_confidence :: rat
  ir_reasoning :: pystr
  ir_alternative_intents :: "intent list"

record task_route =
  tr_task :: task_name
  tr_confidence :: rat
  tr_reason :: pystr

section \<open>Results\<close>

record agent_step =
  as_step_name :: pystr
  as_input_summary :: pystr
  as_output_summary :: pystr
  as_confidence :: "rat option"
  as_latency_ms :: int
  as_tool_calls :: "pystr list"
  as_warnings :: "pystr list"

text \<open>\<open>AgentStep(step_name=..., output_summary=..., confidence=...)\<close> with the other defaults.\<close>

definition step_of :: "string \<Rightarrow> pystr \<Rightarrow> rat option \<Rightarrow> agent_step" where
  "step_of name summary conf =
     \<lparr>as_step_name = u name, as_input_summary = [], as_output_summary = summary, as_confidence = conf,
      as_latency_ms = 0, as_tool_calls = [], as_warnings = []\<rparr>"

text \<open>\<open>InteractionMetadata\<close> without the wall-clock time stamp of its construction.\<close>

record interaction_metadata =
  im_session_id :: pystr
  im_intent :: "string option"
  im_intent_confidence :: "rat option"
  im_tools_called :: "pystr list"
  im_llm_calls :: int
  im_input_tokens :: int
  im_output_tokens :: int
  im_cost_usd :: rat
  im_latency_ms :: int

definition default_metadata :: interaction_metadata where
  "default_metadata =
     \<lparr>im_session_id = [], im_intent = None, im_intent_confidence = None, im_tools_called = [],
      im_llm_calls = 0, im_input_tokens = 0, im_output_tokens = 0, im_cost_usd = 0, im_latency_ms = 0\<rparr>"

record orchestration_result =
  or_session_id :: pystr
  or_user_input :: pystr
  or_policy :: policy_decision
  or_intent_result :: "intent_result option"
  or_task_route :: "task_route option"
  or_final_response :: pystr
  or_rag_result :: "rag_result option"
  or_citations :: "pyval list"
  or_confidence :: rat
  or_trace :: "agent_step list"
  or_metadata :: interaction_metadata
  or_timestamp :: datetime

record application_result =
  ar_context :: request_context
  ar_orchestration :: orchestration_result

end
