(* ===== verification/Float_Arithmetic.thy ===== *)
theory Float_Arithmetic
  imports Py_Prelude "HOL-Library.Log_Nat"
begin

text \<open>
  Python floats. A finite float is a rational, and an arithmetic operation of the code is the
  exact operation followed by \<open>fl\<close>, the nearest number with 53 significant bits, ties to even. The
  range of the exponent is not bounded here: the values of the modelled code stay far from
  overflow and underflow. \<open>py_round\<close> is \<open>round(x)\<close> and \<open>py_round2\<close> is \<open>round(x, 2)\<close>.
\<close>

section \<open>Rounding to an integer\<close>

definition py_round :: "rat \<Rightarrow> int" where
  "py_round x =
     (let n = \<lfloor>x\<rfloor>; r = x - of_int n
      in if r < 1/2 \<or> r = 1/2 \<and> even n then n else n + 1)"

lemma py_round_bounds: "of_int (py_round x) - 1/2 \<le> x \<and> x \<le> of_int (py_round x) + 1/2"
  unfolding py_round_def Let_def by (auto; linarith)

lemma py_round_of_int [simp]: "py_round (of_int n) = n"
  by (simp add: py_round_def)

lemma py_round_mono:
  assumes "x \<le> y"
  shows "py_round x \<le> py_round y"
proof (cases "\<lfloor>x\<rfloor> = \<lfloor>y\<rfloor>")
  case True
  then have "x - of_int \<lfloor>x\<rfloor> \<le> y - of_int \<lfloor>y\<rfloor>" using assms by simp
  with True show ?thesis unfolding py_round_def Let_def by auto
next
  case False
  then have "\<lfloor>x\<rfloor> + 1 \<le> \<lfloor>y\<rfloor>" using floor_mono[OF assms] by linarith
  then show ?thesis unfolding py_round_def Let_def by auto
qed

section \<open>Binary rounding\<close>

text \<open>The exponent of a positive rational: \<open>2 ^ e \<le> x < 2 ^ (e + 1)\<close>.\<close>

definition exponent :: "rat \<Rightarrow> int" where
  "exponent x =
     (let (p, q) = quotient_of x; k = int (floorlog 2 (nat p)) - int (floorlog 2 (nat q))
      in if 2 powi k \<le> x then k else k - 1)"

definition fl :: "rat \<Rightarrow> rat" where
  "fl x =
     (if x = 0 then 0
      else let e = exponent \<bar>x\<bar> - 52 in of_int (py_round (x / 2 powi e)) * 2 powi e)"

lemma exponent_bounds:
  assumes "0 < x"
  shows "2 powi exponent x \<le> x \<and> x < 2 powi (exponent x + 1)"
proof -
  obtain p q where pq: "quotient_of x = (p, q)" by (cases "quotient_of x")
  have q: "0 < q" and x: "x = of_int p / of_int q" using quotient_of_denom_pos[OF pq] quotient_of_div[OF pq] by auto
  then have p: "0 < p" using assms by (simp add: zero_less_divide_iff)
  have fll: "2 powi (int (floorlog 2 (nat n)) - 1) \<le> (of_int n :: rat) \<and> (of_int n :: rat) < 2 powi int (floorlog 2 (nat n))"
    if "0 < n" for n :: int
  proof -
    have n: "0 < nat n" using that by simp
    define m where "m = floorlog 2 (nat n)"
    have "0 < m" using n by (simp add: m_def floorlog_eq_zero_iff flip: neq0_conv)
    have "2 ^ (m - 1) \<le> nat n \<and> nat n < 2 ^ m" using floorlog_bounds[of "nat n" 2] n by (simp add: m_def)
    then have "2 ^ (m - 1) \<le> n \<and> n < 2 ^ m" using that by (simp add: nat_less_iff le_nat_iff)
    then have "of_int (2 ^ (m - 1)) \<le> (of_int n :: rat) \<and> (of_int n :: rat) < of_int (2 ^ m)"
      using of_int_le_iff of_int_less_iff by blast
    moreover have m: "int m - 1 = int (m - 1)" using \<open>0 < m\<close> by simp
    ultimately show ?thesis unfolding m_def[symmetric] m power_int_of_nat by (simp only: of_int_power of_int_numeral)
  qed
  define a where "a = int (floorlog 2 (nat p))"
  define b where "b = int (floorlog 2 (nat q))"
  define k where "k = a - b"
  have P: "2 powi (a - 1) \<le> (of_int p :: rat)" "(of_int p :: rat) < 2 powi a" using fll[OF p] unfolding a_def by auto
  have Q: "2 powi (b - 1) \<le> (of_int q :: rat)" "(of_int q :: rat) < 2 powi b" using fll[OF q] unfolding b_def by auto
  have split: "2 powi a = 2 powi k * (2 powi b :: rat)" "2 powi (a - 1) = 2 powi (k - 1) * (2 powi b :: rat)"
      "2 powi a = 2 powi (k + 1) * (2 powi (b - 1) :: rat)"
    by (simp_all add: k_def power_int_add[symmetric])
  have low: "2 powi (k - 1) < x"
  proof -
    have "2 powi (k - 1) * of_int q < 2 powi (k - 1) * (2 powi b :: rat)" using Q(2) by simp
    also have "\<dots> \<le> of_int p" using P(1) split(2) by simp
    finally show ?thesis using x q by (simp add: pos_less_divide_eq)
  qed
  have high: "x < 2 powi (k + 1)"
  proof -
    have "(of_int p :: rat) < 2 powi (k + 1) * 2 powi (b - 1)" using P(2) split(3) by simp
    also have "\<dots> \<le> 2 powi (k + 1) * of_int q" using Q(1) by simp
    finally show ?thesis using x q by (simp add: pos_divide_less_eq)
  qed
  have "exponent x = (if 2 powi k \<le> x then k else k - 1)"
    by (simp add: exponent_def pq k_def a_def b_def Let_def)
  then show ?thesis using low high by auto
qed

lemma py_round_minus: "py_round (- x) = - py_round x"
proof (cases "x = of_int \<lfloor>x\<rfloor>")
  case True
  then have "x \<in> range of_int" by (metis rangeI)
  then obtain n where "x = of_int n" by blast
  then show ?thesis by (metis of_int_minus py_round_of_int)
next
  case False
  define n where "n = \<lfloor>x\<rfloor>"
  have n: "of_int n < x" "x < of_int n + 1" using False unfolding n_def by (linarith, linarith)
  then have "\<lfloor>- x\<rfloor> = - n - 1" by (simp add: floor_eq_iff)
  then show ?thesis using n unfolding py_round_def Let_def n_def[symmetric] by (auto; linarith)
qed

lemma powi_pos [simp]: "0 < (2 powi k :: rat)"
  by simp

lemma powi_shift: "2 ^ n * 2 powi k = (2 powi (k + int n) :: rat)"
  by (simp add: power_int_add)

lemma powi_less: "2 powi a < (2 powi b :: rat) \<Longrightarrow> a < b"
  using power_int_increasing[of b a "2 :: rat"] by (cases "b \<le> a") auto

lemma fl_0 [simp]: "fl 0 = 0"
  by (simp add: fl_def)

lemma fl_minus: "fl (- x) = - fl x"
  by (simp add: fl_def Let_def py_round_minus)

lemma fl_pos_bounds:
  assumes "0 < x"
  shows "2 powi exponent x \<le> fl x \<and> fl x \<le> 2 powi (exponent x + 1)"
proof -
  define e where "e = exponent x - 52"
  have x: "2 ^ 52 * 2 powi e \<le> x" "x < 2 ^ 53 * 2 powi e"
    using exponent_bounds[OF assms] unfolding powi_shift by (simp_all add: e_def algebra_simps)
  then have "2 ^ 52 \<le> x / 2 powi e" "x / 2 powi e \<le> 2 ^ 53"
    by (simp_all add: pos_le_divide_eq pos_divide_le_eq)
  then have "py_round (of_int (2 ^ 52)) \<le> py_round (x / 2 powi e)" "py_round (x / 2 powi e) \<le> py_round (of_int (2 ^ 53))"
    by (intro py_round_mono; simp)+
  then have "2 ^ 52 \<le> py_round (x / 2 powi e)" "py_round (x / 2 powi e) \<le> 2 ^ 53" unfolding py_round_of_int by auto
  then have "(2 ^ 52 :: rat) \<le> of_int (py_round (x / 2 powi e))" "of_int (py_round (x / 2 powi e)) \<le> (2 ^ 53 :: rat)"
    by (metis of_int_le_iff of_int_numeral of_int_power)+
  then have "2 ^ 52 * 2 powi e \<le> of_int (py_round (x / 2 powi e)) * (2 powi e :: rat)"
    "of_int (py_round (x / 2 powi e)) * 2 powi e \<le> 2 ^ 53 * (2 powi e :: rat)"
    by (intro mult_right_mono; simp)+
  moreover have "2 ^ 52 * 2 powi e = (2 powi exponent x :: rat)" "2 ^ 53 * 2 powi e = (2 powi (exponent x + 1) :: rat)"
    unfolding powi_shift by (simp_all add: e_def algebra_simps)
  moreover have "fl x = of_int (py_round (x / 2 powi e)) * 2 powi e" using assms by (simp add: fl_def Let_def e_def)
  ultimately show ?thesis by metis
qed

lemma fl_mono_pos:
  assumes "0 < x" "x \<le> y"
  shows "fl x \<le> fl y"
proof -
  have y: "0 < y" using assms by simp
  have "2 powi exponent x < (2 powi (exponent y + 1) :: rat)"
    using exponent_bounds[OF assms(1)] exponent_bounds[OF y] assms(2) by linarith
  then have le: "exponent x \<le> exponent y" using powi_less by fastforce
  show ?thesis
  proof (cases "exponent x = exponent y")
    case True
    then show ?thesis using assms y
      by (simp add: fl_def Let_def py_round_mono divide_right_mono mult_right_mono)
  next
    case False
    then have "2 powi (exponent x + 1) \<le> (2 powi exponent y :: rat)" using le by (intro power_int_increasing) auto
    then show ?thesis using fl_pos_bounds[OF assms(1)] fl_pos_bounds[OF y] by linarith
  qed
qed

lemma fl_nonneg: "0 \<le> x \<Longrightarrow> 0 \<le> fl x"
  using fl_pos_bounds[of x] order.trans[OF less_imp_le[OF powi_pos]] by (cases "x = 0") (simp, metis order_le_less)

lemma fl_mono: "x \<le> y \<Longrightarrow> fl x \<le> fl y"
proof -
  assume le: "x \<le> y"
  consider "0 < x" | "x \<le> 0" "0 \<le> y" | "y < 0" by linarith
  then show ?thesis
  proof cases
    case 1
    then show ?thesis using le fl_mono_pos by blast
  next
    case 2
    then show ?thesis using fl_nonneg[of y] fl_nonneg[of "- x"] by (simp add: fl_minus)
  next
    case 3
    then show ?thesis using fl_mono_pos[of "- y" "- x"] le by (simp add: fl_minus)
  qed
qed

lemma fl_nat:
  assumes "n \<le> 2 ^ 53"
  shows "fl (of_nat n) = of_nat n"
proof (cases "n = 0")
  case False
  define e where "e = exponent (of_nat n)"
  have n: "0 < (of_nat n :: rat)" "1 \<le> (of_nat n :: rat)" using False by simp_all
  have top: "(of_nat n :: rat) \<le> 2 powi 53" using assms of_nat_le_iff[of n "2 ^ 53", where 'a = rat] by simp
  note b = exponent_bounds[OF n(1), folded e_def]
  have "2 powi 0 < (2 powi (e + 1) :: rat)" using b n(2) by simp
  then have "0 \<le> e" using powi_less by fastforce
  have "2 powi e < (2 powi 54 :: rat)" using b top by simp
  then have "e \<le> 53" using powi_less by fastforce
  show ?thesis
  proof (cases "e \<le> 52")
    case True
    define m where "m = nat (52 - e)"
    have p: "2 ^ m * (2 powi (e - 52)) = (1 :: rat)" using True unfolding powi_shift by (simp add: m_def)
    then have "of_nat n / 2 powi (e - 52) = (of_int (int n * 2 ^ m) :: rat)" by (simp add: field_simps)
    then have "py_round (of_nat n / 2 powi (e - 52)) = int n * 2 ^ m" by (simp only: py_round_of_int)
    then have "fl (of_nat n) = of_int (int n * 2 ^ m) * 2 powi (e - 52)"
      using n by (simp add: fl_def Let_def flip: e_def)
    then show ?thesis using p by (simp add: mult.assoc)
  next
    case False
    then have e: "e = 53" using \<open>e \<le> 53\<close> by simp
    then have "of_nat n = (2 ^ 53 :: rat)" using b top by simp
    then show ?thesis using e \<open>n \<noteq> 0\<close> py_round_of_int[of "2 ^ 52"] by (simp add: fl_def Let_def e_def)
  qed
qed simp

lemma fl_of_int: "\<bar>n\<bar> \<le> 2 ^ 53 \<Longrightarrow> fl (of_int n) = of_int n"
  using fl_nat[of "nat \<bar>n\<bar>"] fl_minus[of "of_int n"] by (cases "0 \<le> n") (auto simp: nat_le_iff)

lemma fl_1 [simp]: "fl 1 = 1"
  using fl_nat[of 1] by simp

lemma fl_numeral [simp]: "numeral k \<le> (2 ^ 53 :: nat) \<Longrightarrow> fl (numeral k) = numeral k"
  using fl_nat[of "numeral k"] by simp

lemma fl_unit: "0 \<le> x \<Longrightarrow> x \<le> 1 \<Longrightarrow> 0 \<le> fl x \<and> fl x \<le> 1"
  using fl_mono[of 0 x] fl_mono[of x 1] by simp

lemma exponent_unique:
  assumes "2 powi k \<le> x" "x < 2 powi (k + 1)"
  shows "exponent x = k"
proof -
  have "0 < x" using assms(1) powi_pos[of k] by linarith
  note e = exponent_bounds[OF this]
  have "2 powi k < (2 powi (exponent x + 1) :: rat)" "2 powi exponent x < (2 powi (k + 1) :: rat)" using assms e by linarith+
  then have "k < exponent x + 1" "exponent x < k + 1" by (auto dest: powi_less simp del: power_int_strict_mono)
  then show ?thesis by simp
qed

lemma fl_scale: "fl (x / 2 ^ k) = fl x / 2 ^ k"
proof -
  have pos: "fl (x / 2 ^ k) = fl x / 2 ^ k" if "0 < x" for x :: rat
  proof -
    have b: "2 powi (exponent x - int k) = (2 powi exponent x / 2 ^ k :: rat)"
      "2 powi (exponent x - int k + 1) = (2 powi (exponent x + 1) / 2 ^ k :: rat)"
      "2 powi (exponent x - int k - 52) = (2 powi (exponent x - 52) / 2 ^ k :: rat)"
      by (simp_all add: power_int_diff power_int_add)
    have e: "exponent (x / 2 ^ k) = exponent x - int k"
      using exponent_bounds[OF that] by (intro exponent_unique; unfold b) (simp_all add: divide_right_mono divide_strict_right_mono)
    have "x / 2 ^ k / (2 powi (exponent x - 52) / 2 ^ k) = x / 2 powi (exponent x - 52)" by simp
    then show ?thesis using that by (simp add: fl_def Let_def e b(3))
  qed
  consider "0 < x" | "x = 0" | "0 < - x" by linarith
  then show ?thesis
  proof cases
    case 3
    then show ?thesis using pos[of "- x"] fl_minus[of "x / 2 ^ k"] fl_minus[of x] by simp
  qed (use pos in simp_all)
qed

lemma fl_dyadic: "\<bar>n\<bar> \<le> 2 ^ 53 \<Longrightarrow> fl (of_int n / 2 ^ k) = of_int n / 2 ^ k"
  by (simp add: fl_scale fl_of_int)

section \<open>Rounding to two digits\<close>

definition py_round2 :: "rat \<Rightarrow> rat" where
  "py_round2 x = fl (of_int (py_round (x * 100)) / 100)"

lemma py_round2_unit: "0 \<le> x \<Longrightarrow> x \<le> 1 \<Longrightarrow> 0 \<le> py_round2 x \<and> py_round2 x \<le> 1"
proof -
  assume "0 \<le> x" "x \<le> 1"
  then have "py_round (of_int 0) \<le> py_round (x * 100)" "py_round (x * 100) \<le> py_round (of_int 100)"
    by (intro py_round_mono; simp)+
  then have "0 \<le> py_round (x * 100)" "py_round (x * 100) \<le> 100" unfolding py_round_of_int by auto
  then show ?thesis unfolding py_round2_def by (intro fl_unit) (simp_all add: pos_divide_le_eq)
qed

lemma py_round2_mono: "x \<le> y \<Longrightarrow> py_round2 x \<le> py_round2 y"
  unfolding py_round2_def by (intro fl_mono divide_right_mono) (simp_all add: py_round_mono)

end
