(* ===== verification/Sales_Models.thy ===== *)
theory Sales_Models
  imports Orchestration_Types Float_Arithmetic
begin

text \<open>
  \<open>sales/models.py\<close>: the sales stages and their transitions, the scores, the customer profile with
  its operations, and the records of interactions and tools. A model class is a record; the checks
  of its constructor are a function that answers the stored model or raises. Assignments to the
  fields of a profile are not checked, as in the code.
\<close>

section \<open>Sales stages\<close>

datatype sales_stage =
    LEAD | REQUIREMENT_CONFIRMATION | QUOTATION | NEGOTIATION | PROCUREMENT_APPROVAL | CONTRACT_SIGNING
  | STAGE_WON | STAGE_LOST

fun stage_value :: "sales_stage \<Rightarrow> string" where
  "stage_value LEAD = ''lead''"
| "stage_value REQUIREMENT_CONFIRMATION = ''requirement_confirmation''"
| "stage_value QUOTATION = ''quotation''"
| "stage_value NEGOTIATION = ''negotiation''"
| "stage_value PROCUREMENT_APPROVAL = ''procurement_approval''"
| "stage_value CONTRACT_SIGNING = ''contract_signing''"
| "stage_value STAGE_WON = ''won''"
| "stage_value STAGE_LOST = ''lost''"

definition SALES_STAGE_ORDER :: "sales_stage list" where
  "SALES_STAGE_ORDER =
     [LEAD, REQUIREMENT_CONFIRMATION, QUOTATION, NEGOTIATION, PROCUREMENT_APPROVAL, CONTRACT_SIGNING]"

definition SALES_TERMINAL :: "sales_stage list" where
  "SALES_TERMINAL = [STAGE_WON, STAGE_LOST]"

definition stage_is_terminal :: "sales_stage \<Rightarrow> bool" where
  "stage_is_terminal s \<longleftrightarrow> s \<in> set SALES_TERMINAL"

definition stage_is_won :: "sales_stage \<Rightarrow> bool" where
  "stage_is_won s \<longleftrightarrow> s = STAGE_WON"

definition stage_is_lost :: "sales_stage \<Rightarrow> bool" where
  "stage_is_lost s \<longleftrightarrow> s = STAGE_LOST"

text \<open>\<open>xs.index(x)\<close>; \<open>None\<close> is the \<open>ValueError\<close>.\<close>

fun list_index :: "'a list \<Rightarrow> 'a \<Rightarrow> nat option" where
  "list_index [] x = None"
| "list_index (y # ys) x = (if y = x then Some 0 else map_option Suc (list_index ys x))"

definition next_stages :: "sales_stage \<Rightarrow> sales_stage list" where
  "next_stages s =
     (if s \<in> set SALES_TERMINAL then []
      else case list_index SALES_STAGE_ORDER s of
          None \<Rightarrow> []
        | Some idx \<Rightarrow> if length SALES_STAGE_ORDER \<le> idx + 1 then [] else [SALES_STAGE_ORDER ! (idx + 1)])"

definition can_transition_to :: "sales_stage \<Rightarrow> sales_stage \<Rightarrow> bool" where
  "can_transition_to s target \<longleftrightarrow>
     (if s \<in> set SALES_TERMINAL then False
      else if target = LEAD then True
      else if target \<in> set SALES_TERMINAL then True
      else target \<in> set (next_stages s))"

definition active_stages :: "sales_stage list" where
  "active_stages = SALES_STAGE_ORDER"

definition all_stages :: "sales_stage list" where
  "all_stages = SALES_STAGE_ORDER @ SALES_TERMINAL"

definition stage_from_string :: "ucd \<Rightarrow> pystr \<Rightarrow> sales_stage option" where
  "stage_from_string T value =
     (let v = py_strip T (u_lower T value) in find (\<lambda>s. u (stage_value s) = v) all_stages)"

section \<open>Enumerations\<close>

datatype customer_status = CsNEW | CsACTIVE | CsDORMANT | CsCHURN_RISK | CsWON | CsLOST

fun customer_status_value :: "customer_status \<Rightarrow> string" where
  "customer_status_value CsNEW = ''new''"
| "customer_status_value CsACTIVE = ''active''"
| "customer_status_value CsDORMANT = ''dormant''"
| "customer_status_value CsCHURN_RISK = ''churn_risk''"
| "customer_status_value CsWON = ''won''"
| "customer_status_value CsLOST = ''lost''"

text \<open>\<open>CustomerStatus(value)\<close>; \<open>None\<close> is the \<open>ValueError\<close>.\<close>

definition customer_status_of :: "pystr \<Rightarrow> customer_status option" where
  "customer_status_of v =
     find (\<lambda>s. u (customer_status_value s) = v) [CsNEW, CsACTIVE, CsDORMANT, CsCHURN_RISK, CsWON, CsLOST]"

datatype product_category =
    OFFICE_EQUIPMENT | IT_EQUIPMENT | MEETING_DEVICES | OFFICE_FURNITURE | EMPLOYEE_BENEFITS | ENTERPRISE_SOFTWARE

datatype risk_level = RiskLOW | RiskMEDIUM | RiskHIGH | RiskCRITICAL

fun risk_level_value :: "risk_level \<Rightarrow> string" where
  "risk_level_value RiskLOW = ''low''"
| "risk_level_value RiskMEDIUM = ''medium''"
| "risk_level_value RiskHIGH = ''high''"
| "risk_level_value RiskCRITICAL = ''critical''"

datatype interaction_type = ItCALL | ItMEETING | ItEMAIL | ItWECHAT | ItNOTE | ItOTHER

fun interaction_type_value :: "interaction_type \<Rightarrow> string" where
  "interaction_type_value ItCALL = ''call''"
| "interaction_type_value ItMEETING = ''meeting''"
| "interaction_type_value ItEMAIL = ''email''"
| "interaction_type_value ItWECHAT = ''wechat''"
| "interaction_type_value ItNOTE = ''note''"
| "interaction_type_value ItOTHER = ''other''"

datatype deal_level = LevelC | LevelB | LevelA | LevelS

fun deal_level_value :: "deal_level \<Rightarrow> string" where
  "deal_level_value LevelC = ''C''"
| "deal_level_value LevelB = ''B''"
| "deal_level_value LevelA = ''A''"
| "deal_level_value LevelS = ''S''"

definition deal_level_from_score :: "int \<Rightarrow> deal_level" where
  "deal_level_from_score score =
     (if score \<le> 40 then LevelC else if score \<le> 60 then LevelB else if score \<le> 80 then LevelA else LevelS)"

datatype health_status = COLD | WARM | HEALTHY

fun health_status_value :: "health_status \<Rightarrow> string" where
  "health_status_value COLD = ''cold''"
| "health_status_value WARM = ''warm''"
| "health_status_value HEALTHY = ''healthy''"

definition health_status_from_score :: "int \<Rightarrow> health_status" where
  "health_status_from_score score = (if score \<le> 40 then COLD else if score \<le> 70 then WARM else HEALTHY)"

datatype level3 = HighLevel | MediumLevel | LowLevel

fun level3_value :: "level3 \<Rightarrow> string" where
  "level3_value HighLevel = ''high''"
| "level3_value MediumLevel = ''medium''"
| "level3_value LowLevel = ''low''"

datatype influence = InfluenceLow | InfluenceMedium | InfluenceHigh | InfluenceUnknown

section \<open>Field checks\<close>

definition length_within :: "nat \<Rightarrow> nat \<Rightarrow> pystr \<Rightarrow> bool" where
  "length_within lo hi s \<longleftrightarrow> lo \<le> length s \<and> length s \<le> hi"

definition percent :: "int \<Rightarrow> bool" where
  "percent n \<longleftrightarrow> 0 \<le> n \<and> n \<le> 100"

definition checked :: "bool \<Rightarrow> 'a \<Rightarrow> 'a res" where
  "checked ok x = (if ok then Inr x else Inl ValidationError)"

text \<open>The pattern \<open>^[a-zA-Z0-9_-]+$\<close>.\<close>

definition id_char :: "nat \<Rightarrow> bool" where
  "id_char c \<longleftrightarrow> 97 \<le> c \<and> c \<le> 122 \<or> 65 \<le> c \<and> c \<le> 90 \<or> 48 \<le> c \<and> c \<le> 57 \<or> c = 95 \<or> c = 45"

definition id_field :: "pystr \<Rightarrow> bool" where
  "id_field s \<longleftrightarrow> length_within 1 64 s \<and> s \<noteq> [] \<and> list_all id_char s"

section \<open>Components of a profile\<close>

record contact =
  ct_name :: pystr
  ct_title :: "pystr option"
  ct_department :: "pystr option"
  ct_influence_level :: influence
  ct_email :: "pystr option"
  ct_phone :: "pystr option"

definition check_contact :: "contact \<Rightarrow> contact res" where
  "check_contact c = checked (length_within 1 128 (ct_name c)) c"

definition is_decision_maker :: "contact \<Rightarrow> bool" where
  "is_decision_maker c \<longleftrightarrow> ct_influence_level c = InfluenceHigh"

record procurement_item =
  pi_product_name :: pystr
  pi_category :: "product_category option"
  pi_quantity :: "int option"
  pi_unit_budget :: "rat option"
  pi_total_budget :: "rat option"
  pi_requirements :: "pystr list"

definition check_procurement_item :: "procurement_item \<Rightarrow> procurement_item res" where
  "check_procurement_item i =
     checked (length_within 1 256 (pi_product_name i) \<and> (\<forall>n \<in> set_option (pi_quantity i). 1 \<le> n)
       \<and> (\<forall>x \<in> set_option (pi_unit_budget i). 0 \<le> x) \<and> (\<forall>x \<in> set_option (pi_total_budget i). 0 \<le> x)) i"

definition has_budget :: "procurement_item \<Rightarrow> bool" where
  "has_budget i \<longleftrightarrow> pi_unit_budget i \<noteq> None \<or> pi_total_budget i \<noteq> None"

definition has_category :: "procurement_item \<Rightarrow> bool" where
  "has_category i \<longleftrightarrow> pi_category i \<noteq> None"

record risk_item =
  ri_level :: risk_level
  ri_reason :: pystr

definition check_risk_item :: "risk_item \<Rightarrow> risk_item res" where
  "check_risk_item r = checked (length_within 1 1024 (ri_reason r)) r"

definition is_critical :: "risk_item \<Rightarrow> bool" where
  "is_critical r \<longleftrightarrow> ri_level r = RiskCRITICAL"

definition is_high_priority :: "risk_item \<Rightarrow> bool" where
  "is_high_priority r \<longleftrightarrow> ri_level r \<in> {RiskHIGH, RiskCRITICAL}"

record procurement_signals =
  ps_urgency_signal :: "pystr option"
  ps_budget_signal :: "pystr option"
  ps_decision_signal :: "pystr option"
  ps_competition_signal :: "pystr option"
  ps_engagement_signal :: "pystr option"

text \<open>Truth of an optional string, \<open>if s\<close>.\<close>

definition truthy :: "pystr option \<Rightarrow> bool" where
  "truthy s \<longleftrightarrow> s \<notin> {None, Some []}"

definition filled_signal_count :: "procurement_signals \<Rightarrow> nat" where
  "filled_signal_count s =
     length (filter truthy [ps_urgency_signal s, ps_budget_signal s, ps_decision_signal s,
                            ps_competition_signal s, ps_engagement_signal s])"

definition has_competition :: "procurement_signals \<Rightarrow> bool" where
  "has_competition s \<longleftrightarrow> truthy (ps_competition_signal s)"

section \<open>Scores\<close>

record deal_score =
  ds_score :: int
  ds_level :: deal_level
  ds_need_clarity :: int
  ds_budget_fit :: int
  ds_decision_maker_access :: int
  ds_urgency :: int
  ds_engagement :: int
  ds_risk_penalty :: int
  ds_confidence :: level3
  ds_filled_dimensions :: int
  ds_total_dimensions :: int
  ds_missing_dimensions :: "string list"
  ds_reasoning :: "(string \<times> pystr) list"
  ds_summary :: pystr

text \<open>The validators run in the order of their definition: the field constraints, then
  \<open>_check_dimension_consistency\<close>, then \<open>_derive_confidence\<close>.\<close>

definition check_deal_fields :: "deal_score \<Rightarrow> bool" where
  "check_deal_fields d \<longleftrightarrow>
     percent (ds_score d) \<and> percent (ds_need_clarity d) \<and> percent (ds_budget_fit d)
     \<and> percent (ds_decision_maker_access d) \<and> percent (ds_urgency d) \<and> percent (ds_engagement d)
     \<and> 0 \<le> ds_risk_penalty d \<and> 0 \<le> ds_filled_dimensions d \<and> ds_filled_dimensions d \<le> 5
     \<and> 1 \<le> ds_total_dimensions d \<and> ds_total_dimensions d \<le> 5"

definition check_dimension_consistency :: "deal_score \<Rightarrow> deal_score res" where
  "check_dimension_consistency d =
     (let actual_filled = 5 - int (length (ds_missing_dimensions d));
          d' = (if actual_filled \<noteq> ds_filled_dimensions d then d\<lparr>ds_filled_dimensions := actual_filled\<rparr> else d)
      in checked (\<not> ds_total_dimensions d' < ds_filled_dimensions d') d')"

definition coverage_ratio :: "deal_score \<Rightarrow> rat" where
  "coverage_ratio d = fl (of_int (ds_filled_dimensions d) / of_int (max (ds_total_dimensions d) 1))"

definition confidence_of_ratio :: "rat \<Rightarrow> level3" where
  "confidence_of_ratio ratio =
     (if fl (4/5) \<le> ratio then HighLevel else if 1/2 \<le> ratio then MediumLevel else LowLevel)"

definition derive_confidence :: "deal_score \<Rightarrow> deal_score" where
  "derive_confidence d =
     (let derived = confidence_of_ratio (coverage_ratio d)
      in if ds_confidence d = MediumLevel \<and> derived \<noteq> MediumLevel then d\<lparr>ds_confidence := derived\<rparr> else d)"

definition mk_deal_score :: "deal_score \<Rightarrow> deal_score res" where
  "mk_deal_score d =
     bind_res (checked (check_deal_fields d) d) (\<lambda>d.
     bind_res (check_dimension_consistency d) (\<lambda>d. Inr (derive_confidence d)))"

definition low_confidence :: "deal_score \<Rightarrow> bool" where
  "low_confidence d \<longleftrightarrow> ds_confidence d = LowLevel"

definition high_confidence :: "deal_score \<Rightarrow> bool" where
  "high_confidence d \<longleftrightarrow> ds_confidence d = HighLevel"

record health_score =
  hs_health_score :: int
  hs_status :: health_status
  hs_recent_contact :: int
  hs_responsiveness :: int
  hs_decision_maker_involvement :: int
  hs_need_clarity :: int
  hs_budget_timeline_clarity :: int
  hs_summary :: pystr

definition health_dimension_sum :: "health_score \<Rightarrow> int" where
  "health_dimension_sum h =
     hs_recent_contact h + hs_responsiveness h + hs_decision_maker_involvement h + hs_need_clarity h
       + hs_budget_timeline_clarity h"

definition mk_health_score :: "health_score \<Rightarrow> health_score res" where
  "mk_health_score h =
     (let part = (\<lambda>n. 0 \<le> n \<and> n \<le> (20 :: int))
      in bind_res (checked (percent (hs_health_score h) \<and> part (hs_recent_contact h) \<and> part (hs_responsiveness h)
              \<and> part (hs_decision_maker_involvement h) \<and> part (hs_need_clarity h)
              \<and> part (hs_budget_timeline_clarity h)) h) (\<lambda>h.
         checked (\<not> 100 < health_dimension_sum h) h))"

definition is_healthy :: "health_score \<Rightarrow> bool" where
  "is_healthy h \<longleftrightarrow> hs_status h = HEALTHY"

definition is_cold :: "health_score \<Rightarrow> bool" where
  "is_cold h \<longleftrightarrow> hs_status h = COLD"

section \<open>Customer profiles\<close>

record customer_profile =
  cp_customer_id :: pystr
  cp_customer_name :: pystr
  cp_aliases :: "pystr list"
  cp_schema_version :: int
  cp_version :: int
  cp_source :: "pystr option"
  cp_industry :: "pystr option"
  cp_company_size :: "pystr option"
  cp_procurement_department :: "pystr option"
  cp_contacts :: "contact list"
  cp_procurement_items :: "procurement_item list"
  cp_budget_range :: "pystr option"
  cp_procurement_cycle :: "pystr option"
  cp_timeline :: "pystr option"
  cp_competitors :: "pystr list"
  cp_decision_makers :: "pystr list"
  cp_sales_stage :: sales_stage
  cp_status :: customer_status
  cp_deal_score :: "deal_score option"
  cp_health_score :: "health_score option"
  cp_risks :: "risk_item list"
  cp_next_actions :: "pystr list"
  cp_tags :: "pystr list"
  cp_created_at :: datetime
  cp_updated_at :: datetime

definition check_profile :: "customer_profile \<Rightarrow> customer_profile res" where
  "check_profile p =
     checked (id_field (cp_customer_id p) \<and> length_within 1 256 (cp_customer_name p)
       \<and> 1 \<le> cp_schema_version p \<and> 0 \<le> cp_version p) p"

definition contact_count :: "customer_profile \<Rightarrow> nat" where
  "contact_count p = length (cp_contacts p)"

definition has_contacts :: "customer_profile \<Rightarrow> bool" where
  "has_contacts p \<longleftrightarrow> 0 < length (cp_contacts p)"

definition primary_contact :: "customer_profile \<Rightarrow> contact option" where
  "primary_contact p = (case cp_contacts p of [] \<Rightarrow> None | c # cs \<Rightarrow> Some c)"

definition decision_maker_contacts :: "customer_profile \<Rightarrow> contact list" where
  "decision_maker_contacts p = filter is_decision_maker (cp_contacts p)"

definition has_decision_maker_contact :: "customer_profile \<Rightarrow> bool" where
  "has_decision_maker_contact p \<longleftrightarrow> list_ex is_decision_maker (cp_contacts p)"

definition has_procurement_items :: "customer_profile \<Rightarrow> bool" where
  "has_procurement_items p \<longleftrightarrow> 0 < length (cp_procurement_items p)"

definition high_priority_risk_count :: "customer_profile \<Rightarrow> nat" where
  "high_priority_risk_count p = length (filter is_high_priority (cp_risks p))"

definition has_risks :: "customer_profile \<Rightarrow> bool" where
  "has_risks p \<longleftrightarrow> 0 < length (cp_risks p)"

definition is_terminal_stage :: "customer_profile \<Rightarrow> bool" where
  "is_terminal_stage p \<longleftrightarrow> stage_is_terminal (cp_sales_stage p)"

text \<open>\<open>timedelta.days\<close> is the floor; \<open>now\<close> is the reading of the clock.\<close>

definition days_between :: "datetime \<Rightarrow> datetime \<Rightarrow> int" where
  "days_between now earlier = (instant now - instant earlier) div 86400000000"

definition days_since_update :: "datetime \<Rightarrow> customer_profile \<Rightarrow> int" where
  "days_since_update now p = max 0 (days_between now (cp_updated_at p))"

subsection \<open>Operations\<close>

definition bump_version :: "datetime \<Rightarrow> customer_profile \<Rightarrow> customer_profile" where
  "bump_version now p = p\<lparr>cp_version := cp_version p + 1, cp_updated_at := now\<rparr>"

definition transition_to :: "datetime \<Rightarrow> sales_stage \<Rightarrow> customer_profile \<Rightarrow> bool \<times> customer_profile" where
  "transition_to now stage p =
     (if \<not> can_transition_to (cp_sales_stage p) stage then (False, p)
      else (True, p\<lparr>cp_sales_stage := stage, cp_updated_at := now\<rparr>))"

definition add_contact :: "datetime \<Rightarrow> contact \<Rightarrow> customer_profile \<Rightarrow> customer_profile" where
  "add_contact now c p = p\<lparr>cp_contacts := cp_contacts p @ [c], cp_updated_at := now\<rparr>"

definition add_risk :: "datetime \<Rightarrow> risk_item \<Rightarrow> customer_profile \<Rightarrow> customer_profile" where
  "add_risk now r p = p\<lparr>cp_risks := cp_risks p @ [r], cp_updated_at := now\<rparr>"

definition set_deal_score :: "datetime \<Rightarrow> deal_score \<Rightarrow> customer_profile \<Rightarrow> customer_profile" where
  "set_deal_score now d p = p\<lparr>cp_deal_score := Some d, cp_updated_at := now\<rparr>"

definition set_health_score :: "datetime \<Rightarrow> health_score \<Rightarrow> customer_profile \<Rightarrow> customer_profile" where
  "set_health_score now h p = p\<lparr>cp_health_score := Some h, cp_updated_at := now\<rparr>"

section \<open>Interactions and tools\<close>

record interaction_record =
  in_interaction_id :: pystr
  in_customer_id :: pystr
  in_date :: datetime
  in_type :: interaction_type
  in_raw_text :: pystr
  in_summary :: pystr
  in_key_quotes :: "pystr list"
  in_extracted_facts :: "(pystr \<times> pyval) list"
  in_procurement_signals :: "procurement_signals option"
  in_risks :: "risk_item list"
  in_next_actions :: "pystr list"
  in_created_at :: datetime

definition check_interaction :: "interaction_record \<Rightarrow> interaction_record res" where
  "check_interaction r = checked (id_field (in_interaction_id r) \<and> id_field (in_customer_id r)) r"

definition confidence_label :: "intent_result \<Rightarrow> level3" where
  "confidence_label r =
     (if fl (4/5) \<le> ir_confidence r then HighLevel else if 1/2 \<le> ir_confidence r then MediumLevel else LowLevel)"

definition is_ambiguous :: "intent_result \<Rightarrow> bool" where
  "is_ambiguous r \<longleftrightarrow> 0 < length (ir_alternative_intents r)"

record tool_result =
  tl_success :: bool
  tl_tool_name :: pystr
  tl_data :: pyval
  tl_errors :: "pystr list"
  tl_warnings :: "pystr list"
  tl_summary :: pystr

definition is_partial :: "tool_result \<Rightarrow> bool" where
  "is_partial t \<longleftrightarrow> tl_success t \<and> 0 < length (tl_warnings t)"

definition tool_success_count :: "tool_result list \<Rightarrow> nat" where
  "tool_success_count ts = length (filter tl_success ts)"

definition tool_failure_count :: "tool_result list \<Rightarrow> nat" where
  "tool_failure_count ts = length (filter (\<lambda>t. \<not> tl_success t) ts)"

definition all_tools_succeeded :: "tool_result list \<Rightarrow> bool" where
  "all_tools_succeeded ts \<longleftrightarrow> tool_failure_count ts = 0 \<and> 0 < length ts"

section \<open>The stage machine\<close>

lemmas stage_simps = SALES_STAGE_ORDER_def SALES_TERMINAL_def next_stages_def can_transition_to_def
  stage_is_terminal_def

lemma transition_cases:
  "can_transition_to s t \<longleftrightarrow>
     s \<notin> {STAGE_WON, STAGE_LOST} \<and>
     (t \<in> {LEAD, STAGE_WON, STAGE_LOST} \<or>
      (s, t) \<in> {(LEAD, REQUIREMENT_CONFIRMATION), (REQUIREMENT_CONFIRMATION, QUOTATION), (QUOTATION, NEGOTIATION),
                (NEGOTIATION, PROCUREMENT_APPROVAL), (PROCUREMENT_APPROVAL, CONTRACT_SIGNING)})"
  by (cases s; cases t; simp add: stage_simps)

text \<open>A profile under a sequence of attempted transitions, and the stages it passes.\<close>

fun attempt :: "customer_profile \<Rightarrow> (datetime \<times> sales_stage) list \<Rightarrow> customer_profile" where
  "attempt p [] = p"
| "attempt p ((now, stage) # rest) = attempt (snd (transition_to now stage p)) rest"

fun passed :: "customer_profile \<Rightarrow> (datetime \<times> sales_stage) list \<Rightarrow> sales_stage list" where
  "passed p [] = [cp_sales_stage p]"
| "passed p ((now, stage) # rest) = cp_sales_stage p # passed (snd (transition_to now stage p)) rest"

lemma transition_stage:
  "cp_sales_stage (snd (transition_to now t p)) = (if can_transition_to (cp_sales_stage p) t then t else cp_sales_stage p)"
  by (simp add: transition_to_def)

lemma attempt_append: "attempt p (xs @ ys) = attempt (attempt p xs) ys"
  by (induction p xs rule: attempt.induct) simp_all

lemma passed_snoc: "passed p (xs @ [(now, t)]) = passed p xs @ [cp_sales_stage (attempt p (xs @ [(now, t)]))]"
  by (induction p xs rule: passed.induct) simp_all

lemma passed_last: "cp_sales_stage (attempt p xs) \<in> set (passed p xs)"
  by (induction p xs rule: attempt.induct) simp_all

lemma terminal_attempt: "stage_is_terminal (cp_sales_stage p) \<Longrightarrow> attempt p xs = p"
proof (induction p xs rule: attempt.induct)
  case (2 p now stage rest)
  then have "snd (transition_to now stage p) = p"
    by (simp add: transition_to_def can_transition_to_def stage_is_terminal_def)
  with 2 show ?case by simp
qed simp

text \<open>The stage reached is the end of an unbroken climb: every stage of the order before it was passed.\<close>

lemma climbed:
  assumes "cp_sales_stage p = LEAD" "i < length SALES_STAGE_ORDER" "cp_sales_stage (attempt p xs) = SALES_STAGE_ORDER ! i"
  shows "\<forall>j \<le> i. SALES_STAGE_ORDER ! j \<in> set (passed p xs)"
  using assms(2,3)
proof (induction xs arbitrary: i rule: rev_induct)
  case Nil
  then have "i = 0" using assms(1) by (auto simp: SALES_STAGE_ORDER_def less_Suc_eq numeral_eq_Suc)
  then show ?case using assms(1) by (simp add: SALES_STAGE_ORDER_def)
next
  case (snoc x xs)
  obtain now t where x: "x = (now, t)" by (cases x)
  let ?s = "cp_sales_stage (attempt p xs)"
  have s': "cp_sales_stage (attempt p (xs @ [x])) = (if can_transition_to ?s t then t else ?s)"
    by (simp add: attempt_append x transition_stage)
  have grow: "set (passed p (xs @ [x])) = insert (SALES_STAGE_ORDER ! i) (set (passed p xs))"
    using snoc.prems(2) by (simp add: passed_snoc x)
  show ?case
  proof (cases "can_transition_to ?s t \<and> t \<noteq> LEAD")
    case False
    then have "i = 0 \<or> ?s = SALES_STAGE_ORDER ! i" using s' snoc.prems
      by (auto simp: SALES_STAGE_ORDER_def less_Suc_eq numeral_eq_Suc split: if_splits)
    then show ?thesis
    proof
      assume "i = 0"
      then show ?thesis unfolding grow by simp
    qed (use snoc.IH[OF snoc.prems(1)] grow in auto)
  next
    case True
    then have "t = SALES_STAGE_ORDER ! i" using s' snoc.prems(2) by simp
    then have "0 < i \<and> ?s = SALES_STAGE_ORDER ! (i - 1)" using True snoc.prems(1)
      unfolding transition_cases by (auto simp: SALES_STAGE_ORDER_def less_Suc_eq numeral_eq_Suc)
    then have "\<forall>j \<le> i - 1. SALES_STAGE_ORDER ! j \<in> set (passed p xs)" "0 < i" using snoc.IH[of "i - 1"] snoc.prems(1) by auto
    then show ?thesis unfolding grow by (metis One_nat_def Suc_pred insertCI le_SucE)
  qed
qed

text \<open>
  C40: a closed deal stays closed, and no stage is skipped. A profile in a final stage is unchanged by
  every attempted transition; a profile that starts as a lead and is found in an active stage has
  passed every earlier stage of the order, whatever transitions were attempted.
\<close>

theorem stage_history:
  "(stage_is_terminal (cp_sales_stage p) \<longrightarrow> attempt p xs = p)
   \<and> (cp_sales_stage p = LEAD \<and> i < length SALES_STAGE_ORDER \<and> cp_sales_stage (attempt p xs) = SALES_STAGE_ORDER ! i \<and> j \<le> i
       \<longrightarrow> SALES_STAGE_ORDER ! j \<in> set (passed p xs))"
  using terminal_attempt climbed by blast

definition demo_profile :: "pystr \<Rightarrow> customer_profile" where
  "demo_profile cid =
     \<lparr>cp_customer_id = cid, cp_customer_name = [65, 66, 67], cp_aliases = [], cp_schema_version = 1, cp_version = 1,
      cp_source = None, cp_industry = None, cp_company_size = None, cp_procurement_department = None,
      cp_contacts = [], cp_procurement_items = [], cp_budget_range = None, cp_procurement_cycle = None,
      cp_timeline = None, cp_competitors = [], cp_decision_makers = [], cp_sales_stage = LEAD,
      cp_status = CsACTIVE, cp_deal_score = None, cp_health_score = None, cp_risks = [], cp_next_actions = [],
      cp_tags = [], cp_created_at = utc 0, cp_updated_at = utc 0\<rparr>"

theorem stage_history_witness:
  "SALES_STAGE_ORDER ! 1 \<in> set (passed (demo_profile [97]) [(utc 1, QUOTATION), (utc 2, REQUIREMENT_CONFIRMATION), (utc 3, QUOTATION)])
   \<and> attempt (attempt (demo_profile [97]) [(utc 1, STAGE_WON)]) [(utc 2, LEAD)] = attempt (demo_profile [97]) [(utc 1, STAGE_WON)]"
proof -
  have "cp_sales_stage (attempt (demo_profile [97]) [(utc 1, QUOTATION), (utc 2, REQUIREMENT_CONFIRMATION), (utc 3, QUOTATION)])
      = SALES_STAGE_ORDER ! 2" "cp_sales_stage (demo_profile [97]) = LEAD"
    by (simp_all add: demo_profile_def transition_to_def stage_simps)
  moreover have "stage_is_terminal (cp_sales_stage (attempt (demo_profile [97]) [(utc 1, STAGE_WON)]))"
    by (simp add: demo_profile_def transition_to_def stage_simps)
  ultimately show ?thesis
    using stage_history[of "demo_profile [97]" "[(utc 1, QUOTATION), (utc 2, REQUIREMENT_CONFIRMATION), (utc 3, QUOTATION)]" 2 1]
      stage_history[of "attempt (demo_profile [97]) [(utc 1, STAGE_WON)]" "[(utc 2, LEAD)]"]
    by (simp add: SALES_STAGE_ORDER_def)
qed

end
