(* ===== verification/Scoring.thy ===== *)
theory Scoring
  imports Sales_Models
begin

text \<open>
  \<open>sales/scorer.py\<close>, \<open>sales/health.py\<close> and the scoring part of \<open>config.py\<close>: the deal score from
  weighted dimensions and risks, and the health score with its time decay. The summaries are built
  as in the code, so the formatting of numbers is modelled too.
\<close>

section \<open>Numbers as text and sums of floats\<close>

definition py_str_int :: "int \<Rightarrow> pystr" where
  "py_str_int n = (if n < 0 then 45 # py_str_nat (nat (- n)) else py_str_nat (nat n))"

text \<open>\<open>f"{x:.df}"\<close> of a finite float: the nearest decimal with \<open>d\<close> digits, ties to even.\<close>

definition py_fixed :: "nat \<Rightarrow> rat \<Rightarrow> pystr" where
  "py_fixed d x =
     (let n = nat (py_round (\<bar>x\<bar> * 10 ^ d)); frac = py_str_nat (n mod 10 ^ d)
      in (if x < 0 then [45] else []) @ py_str_nat (n div 10 ^ d) @ [46] @ replicate (d - length frac) 48 @ frac)"

text \<open>\<open>sum\<close> of floats: the compensated summation of CPython 3.12, with the running sum and the
  correction.\<close>

definition cs_add :: "rat \<times> rat \<Rightarrow> rat \<Rightarrow> rat \<times> rat" where
  "cs_add acc x =
     (let (hi, lo) = acc; t = fl (hi + x)
      in (t, fl (lo + (if \<bar>x\<bar> \<le> \<bar>hi\<bar> then fl (fl (hi - t) + x) else fl (fl (x - t) + hi)))))"

definition py_fsum :: "rat list \<Rightarrow> rat" where
  "py_fsum xs = (case foldl cs_add (0, 0) xs of (hi, lo) \<Rightarrow> fl (hi + lo))"

section \<open>Configuration\<close>

record scoring_weights =
  sw_need_clarity :: rat
  sw_budget_fit :: rat
  sw_decision_maker_access :: rat
  sw_urgency :: rat
  sw_engagement :: rat

definition default_weights :: scoring_weights where
  "default_weights =
     \<lparr>sw_need_clarity = fl (3/10), sw_budget_fit = fl (1/4), sw_decision_maker_access = fl (1/5),
      sw_urgency = fl (3/20), sw_engagement = fl (1/10)\<rparr>"

definition check_weights :: "scoring_weights \<Rightarrow> scoring_weights res" where
  "check_weights w =
     (let weight_sum = fl (fl (fl (fl (sw_need_clarity w + sw_budget_fit w) + sw_decision_maker_access w) + sw_urgency w) + sw_engagement w)
      in checked (\<not> fl (1/100) < \<bar>fl (weight_sum - 1)\<bar>) w)"

record decay_threshold =
  dt_days :: int
  dt_multiplier :: rat

definition default_decay :: "decay_threshold list" where
  "default_decay =
     map (\<lambda>(d, m). \<lparr>dt_days = d, dt_multiplier = fl m\<rparr>) [(1, 1), (3, 9/10), (7, 7/10), (14, 1/2), (30, 3/10)]"

fun resolve_from :: "rat \<Rightarrow> int \<Rightarrow> decay_threshold list \<Rightarrow> rat" where
  "resolve_from multiplier days [] = multiplier"
| "resolve_from multiplier days (t # ts) =
     (if days \<le> dt_days t then dt_multiplier t else resolve_from (dt_multiplier t) days ts)"

definition resolve_decay :: "decay_threshold list \<Rightarrow> int \<Rightarrow> rat" where
  "resolve_decay thresholds days = resolve_from (fl (1/10)) days (sort_key dt_days thresholds)"

section \<open>The deal score\<close>

definition DIMENSION_KEYS :: "string list" where
  "DIMENSION_KEYS = [''need_clarity'', ''budget_fit'', ''decision_maker_access'', ''urgency'', ''engagement'']"

definition weight_of :: "scoring_weights \<Rightarrow> string \<Rightarrow> rat" where
  "weight_of w key =
     (if key = ''need_clarity'' then sw_need_clarity w else if key = ''budget_fit'' then sw_budget_fit w
      else if key = ''decision_maker_access'' then sw_decision_maker_access w
      else if key = ''urgency'' then sw_urgency w else sw_engagement w)"

fun RISK_PENALTY_MAP :: "risk_level \<Rightarrow> int" where
  "RISK_PENALTY_MAP RiskLOW = 3"
| "RISK_PENALTY_MAP RiskMEDIUM = 6"
| "RISK_PENALTY_MAP RiskHIGH = 10"
| "RISK_PENALTY_MAP RiskCRITICAL = 15"

text \<open>A dimension counts when it is given and lies in its range.\<close>

definition given :: "int \<Rightarrow> (string, int) dict \<Rightarrow> string \<Rightarrow> bool" where
  "given hi dimensions key \<longleftrightarrow> (case dict_get dimensions key of None \<Rightarrow> False | Some v \<Rightarrow> 0 \<le> v \<and> v \<le> hi)"

definition filled :: "int \<Rightarrow> (string, int) dict \<Rightarrow> string \<Rightarrow> int" where
  "filled hi dimensions key = (if given hi dimensions key then the (dict_get dimensions key) else 0)"

definition missing_of :: "(string, int) dict \<Rightarrow> string list" where
  "missing_of dimensions = filter (\<lambda>key. \<not> given 100 dimensions key) DIMENSION_KEYS"

definition weighted :: "scoring_weights \<Rightarrow> (string, int) dict \<Rightarrow> rat" where
  "weighted w dimensions =
     py_fsum (map (\<lambda>key. fl (of_int (filled 100 dimensions key) * weight_of w key)) DIMENSION_KEYS)"

definition risk_penalty_of :: "risk_item list \<Rightarrow> int" where
  "risk_penalty_of risks = sum_list (map (\<lambda>r. RISK_PENALTY_MAP (ri_level r)) risks)"

definition raw_deal_score :: "scoring_weights \<Rightarrow> (string, int) dict \<Rightarrow> risk_item list \<Rightarrow> int" where
  "raw_deal_score w dimensions risks = py_round (fl (weighted w dimensions - of_int (risk_penalty_of risks)))"

definition clamp100 :: "int \<Rightarrow> int" where
  "clamp100 n = max 0 (min 100 n)"

definition deal_summary :: "int \<Rightarrow> level3 \<Rightarrow> string list \<Rightarrow> int \<Rightarrow> risk_item list \<Rightarrow> pystr" where
  "deal_summary score confidence missing risk_penalty risks =
     py_join [65307]
       ([[32508, 21512, 35780, 20998] @ py_str_int score @ [20998, 40] @ u (deal_level_value (deal_level_from_score score)) @ [32423, 41],
         [32622, 20449, 24230] @ u (level3_value confidence),
         [24050, 22635, 20805] @ py_str_nat (5 - length missing) @ [47, 53, 32500, 24230]]
        @ (if missing \<noteq> [] then [[32570, 22833, 58, 32] @ py_join (u '', '') (map u missing)] else [])
        @ (if 0 < risk_penalty
           then [[39118, 38505, 25187, 20998, 45] @ py_str_int risk_penalty @ (u '' ('')
                   @ py_join (u '', '') (map (\<lambda>r. u (risk_level_value (ri_level r)) @ (u ''('') @ ri_reason r @ (u '')'')) risks) @ (u '')'')]
           else []))"

definition dimension_reasoning :: "scoring_weights \<Rightarrow> (string, int) dict \<Rightarrow> string \<Rightarrow> pystr" where
  "dimension_reasoning w dimensions key =
     (let v = filled 100 dimensions key; x = weight_of w key
      in u key @ (u ''='') @ py_str_int v @ [215] @ py_fixed 2 x @ (u ''='') @ py_fixed 1 (fl (of_int v * x)))"

definition score_deal :: "scoring_weights \<Rightarrow> (string, int) dict \<Rightarrow> risk_item list \<Rightarrow> deal_score res" where
  "score_deal w dimensions risks =
     (let missing = missing_of dimensions;
          risk_penalty = risk_penalty_of risks;
          score = clamp100 (raw_deal_score w dimensions risks);
          filled_count = 5 - length missing;
          confidence = confidence_of_ratio (fl (of_nat filled_count / 5))
      in mk_deal_score
           \<lparr>ds_score = score, ds_level = deal_level_from_score score,
            ds_need_clarity = filled 100 dimensions ''need_clarity'',
            ds_budget_fit = filled 100 dimensions ''budget_fit'',
            ds_decision_maker_access = filled 100 dimensions ''decision_maker_access'',
            ds_urgency = filled 100 dimensions ''urgency'', ds_engagement = filled 100 dimensions ''engagement'',
            ds_risk_penalty = risk_penalty, ds_confidence = confidence, ds_filled_dimensions = int filled_count,
            ds_total_dimensions = 5, ds_missing_dimensions = missing,
            ds_reasoning = map (\<lambda>key. (key, dimension_reasoning w dimensions key)) DIMENSION_KEYS,
            ds_summary = deal_summary score confidence missing risk_penalty risks\<rparr>)"

section \<open>The health score\<close>

definition HEALTH_DIMENSION_KEYS :: "string list" where
  "HEALTH_DIMENSION_KEYS =
     [''recent_contact'', ''responsiveness'', ''decision_maker_involvement'', ''need_clarity'', ''budget_timeline_clarity'']"

text \<open>\<open>filled\<close> after the decay of the first dimension.\<close>

definition health_filled :: "decay_threshold list \<Rightarrow> (string, int) dict \<Rightarrow> int \<Rightarrow> string \<Rightarrow> int" where
  "health_filled thresholds dimensions days key =
     (if key = ''recent_contact''
      then py_round (fl (of_int (filled 20 dimensions key) * resolve_decay thresholds days))
      else filled 20 dimensions key)"

definition health_total :: "decay_threshold list \<Rightarrow> (string, int) dict \<Rightarrow> int \<Rightarrow> int" where
  "health_total thresholds dimensions days =
     sum_list (map (health_filled thresholds dimensions days) HEALTH_DIMENSION_KEYS)"

definition health_summary :: "int \<Rightarrow> rat \<Rightarrow> int \<Rightarrow> pystr" where
  "health_summary score multiplier days =
     py_join [65307]
       ([[20581, 24247, 24230] @ py_str_int score @ [20998, 40] @ u (health_status_value (health_status_from_score score)) @ (u '')'')]
        @ (if multiplier < 1 then [[36317, 19978, 27425, 32852, 31995] @ py_str_int days @ [22825, 65292, 26102, 38388, 34928, 20943] @ py_fixed 1 multiplier @ [215]] else []))"

definition score_health :: "decay_threshold list \<Rightarrow> (string, int) dict \<Rightarrow> int \<Rightarrow> health_score res" where
  "score_health thresholds dimensions days =
     (let f = health_filled thresholds dimensions days; health = health_total thresholds dimensions days
      in mk_health_score
           \<lparr>hs_health_score = health, hs_status = health_status_from_score health,
            hs_recent_contact = f ''recent_contact'', hs_responsiveness = f ''responsiveness'',
            hs_decision_maker_involvement = f ''decision_maker_involvement'', hs_need_clarity = f ''need_clarity'',
            hs_budget_timeline_clarity = f ''budget_timeline_clarity'',
            hs_summary = health_summary health (resolve_decay thresholds days) days\<rparr>)"

section \<open>What the deal score guarantees\<close>

lemma filled_range: "0 \<le> hi \<Longrightarrow> 0 \<le> filled hi dimensions key \<and> filled hi dimensions key \<le> hi"
  by (auto simp: filled_def given_def split: option.splits)

lemma risk_penalty_pos: "0 \<le> RISK_PENALTY_MAP l"
  by (cases l) simp_all

lemma risk_penalty_nonneg: "0 \<le> risk_penalty_of risks"
  unfolding risk_penalty_of_def by (intro sum_list_nonneg) (auto simp: risk_penalty_pos)

lemma missing_of_length: "length (missing_of dimensions) \<le> 5"
  using length_filter_le[of "\<lambda>key. \<not> given 100 dimensions key" DIMENSION_KEYS]
  by (simp add: missing_of_def DIMENSION_KEYS_def)

lemma confidence_of_fifths:
  assumes "n \<le> 5"
  shows "confidence_of_ratio (fl (of_nat n / 5)) = (if 4 \<le> n then HighLevel else if n = 3 then MediumLevel else LowLevel)"
proof -
  have "fl (1/2) = 1/2" "fl (5/8) = 5/8" "fl (3/4) = 3/4" "fl (7/16) = 7/16"
    using fl_dyadic[of 1 1] fl_dyadic[of 5 3] fl_dyadic[of 3 2] fl_dyadic[of 7 4] by simp_all
  then have b: "fl (3/5) \<le> 5/8" "3/4 \<le> fl (4/5)" "1/2 \<le> fl (3/5)" "fl (2/5) \<le> 7/16"
    using fl_mono[of "3/5" "5/8"] fl_mono[of "3/4" "4/5"] fl_mono[of "1/2" "3/5"] fl_mono[of "2/5" "7/16"] by simp_all
  consider "4 \<le> n" | "n = 3" | "n \<le> 2" by linarith
  then show ?thesis
  proof cases
    case 1
    then have "fl (4/5) \<le> fl (of_nat n / 5)" by (intro fl_mono) (simp add: divide_right_mono)
    then show ?thesis using 1 by (simp add: confidence_of_ratio_def)
  next
    case 2
    then show ?thesis using b by (simp add: confidence_of_ratio_def)
  next
    case 3
    then have "fl (of_nat n / 5) \<le> fl (2/5)" by (intro fl_mono) (simp add: divide_right_mono)
    then show ?thesis using 3 b by (simp add: confidence_of_ratio_def)
  qed
qed

lemma score_deal_Inr:
  fixes w dimensions risks
  defines "filled_count \<equiv> 5 - length (missing_of dimensions)"
  shows "\<exists>d. score_deal w dimensions risks = Inr d
    \<and> ds_score d = clamp100 (raw_deal_score w dimensions risks) \<and> ds_level d = deal_level_from_score (ds_score d)
    \<and> ds_missing_dimensions d = missing_of dimensions \<and> ds_filled_dimensions d = int filled_count
    \<and> ds_risk_penalty d = risk_penalty_of risks
    \<and> ds_confidence d = (if 4 \<le> filled_count then HighLevel else if filled_count = 3 then MediumLevel else LowLevel)
    \<and> ds_need_clarity d = filled 100 dimensions ''need_clarity''"
proof -
  have n: "filled_count \<le> 5" "int (length (missing_of dimensions)) = 5 - int filled_count"
    using missing_of_length[of dimensions] by (simp_all add: filled_count_def)
  note conf = confidence_of_fifths[OF n(1)]
  show ?thesis
    using n(2) conf risk_penalty_nonneg[of risks] filled_range[of 100 dimensions]
    by (simp add: score_deal_def Let_def mk_deal_score_def checked_def check_deal_fields_def percent_def clamp100_def
        check_dimension_consistency_def derive_confidence_def coverage_ratio_def flip: filled_count_def)
qed

lemma raw_deal_score_risk: "raw_deal_score w dimensions (risks @ [r]) \<le> raw_deal_score w dimensions risks"
proof -
  have "risk_penalty_of risks \<le> risk_penalty_of (risks @ [r])" by (simp add: risk_penalty_of_def risk_penalty_pos)
  then show ?thesis unfolding raw_deal_score_def by (intro py_round_mono fl_mono) simp
qed

text \<open>
  The scorer always answers. For every weights, dimensions and risks the constructor of the
  score accepts what the scorer computes: a score within 0 and 100, its grade, the dimensions that
  were absent or out of range as the missing ones, and a confidence that is high from four filled
  dimensions on, medium for three and low below. One more risk never raises the score.
\<close>

theorem deal_score_total:
  "\<exists>d d'. score_deal w dimensions risks = Inr d \<and> 0 \<le> ds_score d \<and> ds_score d \<le> 100
    \<and> ds_level d = deal_level_from_score (ds_score d)
    \<and> ds_missing_dimensions d = filter (\<lambda>key. \<not> given 100 dimensions key) DIMENSION_KEYS
    \<and> ds_filled_dimensions d = 5 - int (length (ds_missing_dimensions d))
    \<and> (ds_confidence d = HighLevel \<longleftrightarrow> length (ds_missing_dimensions d) \<le> 1)
    \<and> (ds_confidence d = LowLevel \<longleftrightarrow> 3 \<le> length (ds_missing_dimensions d))
    \<and> score_deal w dimensions (risks @ [r]) = Inr d' \<and> ds_score d' \<le> ds_score d"
proof -
  obtain d where d: "score_deal w dimensions risks = Inr d" "ds_score d = clamp100 (raw_deal_score w dimensions risks)"
    "ds_level d = deal_level_from_score (ds_score d)" "ds_missing_dimensions d = missing_of dimensions"
    "ds_filled_dimensions d = int (5 - length (missing_of dimensions))"
    "ds_confidence d = (if 4 \<le> 5 - length (missing_of dimensions) then HighLevel
       else if 5 - length (missing_of dimensions) = 3 then MediumLevel else LowLevel)"
    using score_deal_Inr[of w dimensions risks] by blast
  obtain d' where d': "score_deal w dimensions (risks @ [r]) = Inr d'"
    "ds_score d' = clamp100 (raw_deal_score w dimensions (risks @ [r]))"
    using score_deal_Inr[of w dimensions "risks @ [r]"] by blast
  have "ds_score d' \<le> ds_score d" using d(2) d'(2) raw_deal_score_risk[of w dimensions risks r] by (auto simp: clamp100_def)
  moreover have "0 \<le> ds_score d" "ds_score d \<le> 100" using d(2) by (auto simp: clamp100_def)
  ultimately show ?thesis using d d'(1) missing_of_length[of dimensions] by (auto simp: missing_of_def)
qed

section \<open>What the health score guarantees\<close>

lemma resolve_from_set: "resolve_from m days ts \<in> insert m (dt_multiplier ` set ts)"
  by (induction ts arbitrary: m) auto

lemma resolve_decay_range:
  assumes "\<forall>t \<in> set thresholds. 0 \<le> dt_multiplier t \<and> dt_multiplier t \<le> 1"
  shows "0 \<le> resolve_decay thresholds days \<and> resolve_decay thresholds days \<le> 1"
proof -
  have "0 \<le> fl (1/10) \<and> fl (1/10) \<le> 1" by (rule fl_unit) simp_all
  then show ?thesis using resolve_from_set[of "fl (1/10)" days "sort_key dt_days thresholds"] assms
    by (auto simp: resolve_decay_def)
qed

lemma resolve_from_mono:
  assumes "sorted_wrt (\<lambda>a b. dt_multiplier b \<le> dt_multiplier a) ts" "\<forall>t \<in> set ts. dt_multiplier t \<le> m \<or> ts \<noteq> []"
    "d \<le> d'" "ts \<noteq> [] \<or> m = m'"
  shows "resolve_from m' d' ts \<le> resolve_from m d ts"
  using assms(1,3,4)
proof (induction ts arbitrary: m m')
  case (Cons t ts)
  show ?case
  proof (cases "d' \<le> dt_days t")
    case False
    have "resolve_from (dt_multiplier t) d' ts \<le> dt_multiplier t"
      using resolve_from_set[of "dt_multiplier t" d' ts] Cons.prems(1) by auto
    moreover have "resolve_from (dt_multiplier t) d' ts \<le> resolve_from (dt_multiplier t) d ts"
      using Cons.IH Cons.prems by simp
    ultimately show ?thesis using False by simp
  qed (use Cons.prems in simp)
qed simp

lemma default_decay_facts:
  "sort_key dt_days default_decay = default_decay"
  "sorted_wrt (\<lambda>a b. dt_multiplier b \<le> dt_multiplier a) default_decay"
  "\<forall>t \<in> set default_decay. 0 \<le> dt_multiplier t \<and> dt_multiplier t \<le> 1"
proof -
  have m: "fl (9/10) \<le> fl 1" "fl (7/10) \<le> fl (9/10)" "fl (1/2) \<le> fl (7/10)" "fl (3/10) \<le> fl (1/2)"
    by (intro fl_mono; simp)+
  then show "sorted_wrt (\<lambda>a b. dt_multiplier b \<le> dt_multiplier a) default_decay"
    by (simp add: default_decay_def)
  show "sort_key dt_days default_decay = default_decay" by (simp add: default_decay_def)
  have "0 \<le> fl (3/10)" by (rule fl_nonneg) simp
  with m show "\<forall>t \<in> set default_decay. 0 \<le> dt_multiplier t \<and> dt_multiplier t \<le> 1" by (simp add: default_decay_def)
qed

lemma health_parts:
  assumes "\<forall>t \<in> set thresholds. 0 \<le> dt_multiplier t \<and> dt_multiplier t \<le> 1"
  shows "0 \<le> health_filled thresholds dimensions days key \<and> health_filled thresholds dimensions days key \<le> 20"
proof (cases "key = ''recent_contact''")
  case True
  let ?n = "filled 20 dimensions key" and ?m = "resolve_decay thresholds days"
  have n: "0 \<le> ?n" "?n \<le> 20" using filled_range[of 20 dimensions key] by auto
  have m: "0 \<le> ?m" "?m \<le> 1" using resolve_decay_range[OF assms] by auto
  have "0 \<le> of_int ?n * ?m" using n m by simp
  moreover have "of_int ?n * ?m \<le> of_int 20 * 1" using n m by (intro mult_mono) simp_all
  ultimately have "fl 0 \<le> fl (of_int ?n * ?m)" "fl (of_int ?n * ?m) \<le> fl 20" by (intro fl_mono; simp)+
  then have "py_round (of_int 0) \<le> py_round (fl (of_int ?n * ?m))" "py_round (fl (of_int ?n * ?m)) \<le> py_round (of_int 20)"
    by (intro py_round_mono; simp)+
  then show ?thesis unfolding py_round_of_int using True by (simp add: health_filled_def)
next
  case False
  then show ?thesis using filled_range[of 20 dimensions key] by (simp add: health_filled_def)
qed

lemma score_health_Inr:
  assumes "\<forall>t \<in> set thresholds. 0 \<le> dt_multiplier t \<and> dt_multiplier t \<le> 1"
  shows "\<exists>h. score_health thresholds dimensions days = Inr h \<and> hs_health_score h = health_total thresholds dimensions days
    \<and> hs_status h = health_status_from_score (hs_health_score h) \<and> health_dimension_sum h = hs_health_score h
    \<and> 0 \<le> hs_health_score h \<and> hs_health_score h \<le> 100"
  using health_parts[OF assms, of dimensions days "''recent_contact''"] health_parts[OF assms, of dimensions days "''responsiveness''"]
    health_parts[OF assms, of dimensions days "''decision_maker_involvement''"]
    health_parts[OF assms, of dimensions days "''need_clarity''"] health_parts[OF assms, of dimensions days "''budget_timeline_clarity''"]
  by (simp add: score_health_def Let_def mk_health_score_def checked_def percent_def health_total_def
      HEALTH_DIMENSION_KEYS_def health_dimension_sum_def)

lemma health_total_mono:
  assumes "days \<le> days'"
  shows "health_total default_decay dimensions days' \<le> health_total default_decay dimensions days"
proof -
  have "resolve_decay default_decay days' \<le> resolve_decay default_decay days"
    unfolding resolve_decay_def default_decay_facts(1)
    by (rule resolve_from_mono[OF default_decay_facts(2)]) (use assms in \<open>simp_all add: default_decay_def\<close>)
  then have "of_int (filled 20 dimensions key) * resolve_decay default_decay days'
      \<le> of_int (filled 20 dimensions key) * resolve_decay default_decay days" for key
    using filled_range[of 20 dimensions key] by (intro mult_left_mono) simp_all
  then have "health_filled default_decay dimensions days' key \<le> health_filled default_decay dimensions days key" for key
    unfolding health_filled_def by (auto intro!: py_round_mono fl_mono)
  then show ?thesis unfolding health_total_def by (intro sum_list_mono)
qed

text \<open>
  The health scorer always answers while the decay multipliers lie within 0 and 1, as the shipped
  ones do: the score is the sum of the five parts and within 0 and 100, and the status is the one of
  the score. With the shipped decay a longer silence never gives a higher score.
\<close>

theorem health_score_total:
  assumes "\<forall>t \<in> set thresholds. 0 \<le> dt_multiplier t \<and> dt_multiplier t \<le> 1" "days \<le> days'"
  shows "\<exists>h a b. score_health thresholds dimensions days = Inr h
    \<and> hs_status h = health_status_from_score (hs_health_score h) \<and> health_dimension_sum h = hs_health_score h
    \<and> 0 \<le> hs_health_score h \<and> hs_health_score h \<le> 100
    \<and> score_health default_decay dimensions days = Inr a \<and> score_health default_decay dimensions days' = Inr b
    \<and> hs_health_score b \<le> hs_health_score a"
  using score_health_Inr[OF assms(1), of dimensions days] score_health_Inr[OF default_decay_facts(3), of dimensions days]
    score_health_Inr[OF default_decay_facts(3), of dimensions days'] health_total_mono[OF assms(2), of dimensions]
  by auto

theorem health_score_total_witness:
  "\<exists>h a b. score_health [\<lparr>dt_days = 7, dt_multiplier = 1/2\<rparr>] [(''recent_contact'', 18)] 3 = Inr h
    \<and> score_health default_decay [(''recent_contact'', 18)] 3 = Inr a \<and> score_health default_decay [(''recent_contact'', 18)] 30 = Inr b
    \<and> hs_health_score b \<le> hs_health_score a"
  using health_score_total[of "[\<lparr>dt_days = 7, dt_multiplier = 1/2\<rparr>]" 3 30 "[(''recent_contact'', 18)]"] by auto

end
