(* ===== verification/Local_Retrieval.thy ===== *)
theory Local_Retrieval
  imports Scoring
begin

text \<open>
  \<open>rag/module.py\<close> and \<open>rag/local_client.py\<close>: the knowledge files, the keyword retrieval with its
  ranking, the answer with citations, and the local client. The functions of the standard library
  whose tables or formats are not modelled are the record \<open>library\<close>.
\<close>

section \<open>Standard library\<close>

record library =
  lib_ucd :: ucd
  lib_word :: "nat \<Rightarrow> bool"
  lib_line_break :: "nat \<Rightarrow> bool"
  lib_json_loads :: "pystr \<Rightarrow> pyval option"
  lib_str :: "pyval \<Rightarrow> pystr"
  lib_float :: "pystr \<Rightarrow> pyfloat option"

text \<open>\<open>json.loads\<close> answers \<open>None\<close> for a \<open>JSONDecodeError\<close>, \<open>float(s)\<close> of a string for a \<open>ValueError\<close>.
  \<open>str(v)\<close> of a string is the string.\<close>

definition py_str :: "library \<Rightarrow> pyval \<Rightarrow> pystr" where
  "py_str L v = (case v of PStr s \<Rightarrow> s | _ \<Rightarrow> lib_str L v)"

text \<open>A reading of a clock or of the file system: it does not fail.\<close>

definition read_op :: "('s \<Rightarrow> 'a \<times> 's) \<Rightarrow> ('s, 'a) op" where
  "read_op f = (\<lambda>s. case f s of (x, s') \<Rightarrow> (Inr x, s'))"

lemma read_op_simps [simp]:
  "read_op f s \<noteq> (Inl e, s')" "read_op f s = (Inr x, s') \<longleftrightarrow> f s = (x, s')"
  by (auto simp: read_op_def split: prod.splits)

text \<open>\<open>s.split()\<close>: the maximal runs of characters that are no whitespace, and \<open>re.findall("[P]+", s)\<close>:
  the maximal runs of characters in \<open>P\<close>.\<close>

function runs :: "(nat \<Rightarrow> bool) \<Rightarrow> pystr \<Rightarrow> pystr list" where
  "runs P s =
     (case dropWhile (\<lambda>c. \<not> P c) s of
        [] \<Rightarrow> []
      | c # cs \<Rightarrow> (c # takeWhile P cs) # runs P (dropWhile P cs))"
  by pat_completeness auto
termination
proof (relation "measure (\<lambda>(P, s). length s)")
  fix P :: "nat \<Rightarrow> bool" and s c cs
  assume "dropWhile (\<lambda>c. \<not> P c) s = c # cs"
  then have "length (c # cs) \<le> length s" by (metis length_dropWhile_le)
  then show "((P, dropWhile P cs), P, s) \<in> measure (\<lambda>(P, s). length s)"
    using length_dropWhile_le[of P cs] by simp
qed simp

declare runs.simps [simp del]

definition py_split :: "ucd \<Rightarrow> pystr \<Rightarrow> pystr list" where
  "py_split T s = runs (\<lambda>c. \<not> u_space T c) s"

text \<open>\<open>s.replace(old, new)\<close> of one character.\<close>

definition replace_char :: "nat \<Rightarrow> nat \<Rightarrow> pystr \<Rightarrow> pystr" where
  "replace_char old new s = map (\<lambda>c. if c = old then new else c) s"

section \<open>Knowledge\<close>

record evidence =
  ev_source_id :: pystr
  ev_title :: pystr
  ev_source_path :: pystr
  ev_text :: pystr
  ev_category :: pystr
  ev_tags :: "pystr list"
  ev_score :: rat
  ev_confidence :: rat

record knowledge_file =
  kf_path :: pystr
  kf_stem :: pystr
  kf_suffix :: pystr
  kf_parent_name :: pystr
  kf_is_dir :: bool
  kf_text :: "pystr option"

text \<open>Truth of a JSON value.\<close>

fun truth :: "pyval \<Rightarrow> bool" where
  "truth PNone = False"
| "truth (PBool b) = b"
| "truth (PInt n) = (n \<noteq> 0)"
| "truth (PFloat (Fin x)) = (x \<noteq> 0)"
| "truth (PFloat (NonFinite n)) = True"
| "truth (PStr s) = (s \<noteq> [])"
| "truth (PList xs) = (xs \<noteq> [])"
| "truth (PDict d) = (d \<noteq> [])"
| "truth POther = True"

definition member_of :: "(pystr \<times> pyval) list \<Rightarrow> pystr \<Rightarrow> pyval" where
  "member_of d name = (case map_of d name of None \<Rightarrow> PNone | Some v \<Rightarrow> v)"

text \<open>\<open>str(data.get(a) or data.get(b) or ... or default)\<close>\<close>

fun text_member :: "library \<Rightarrow> (pystr \<times> pyval) list \<Rightarrow> pystr list \<Rightarrow> pystr \<Rightarrow> pystr" where
  "text_member L d [] otherwise = otherwise"
| "text_member L d (name # names) otherwise =
     (if truth (member_of d name) then py_str L (member_of d name) else text_member L d names otherwise)"

text \<open>\<open>list(data.get("tags") or [])\<close> and the check that every tag is a string.\<close>

definition tags_of :: "(pystr \<times> pyval) list \<Rightarrow> pystr list res" where
  "tags_of d =
     (let v = member_of d (u ''tags'')
      in if \<not> truth v then Inr []
         else case v of
             PList items \<Rightarrow> map_res (\<lambda>i. case i of PStr s \<Rightarrow> Inr s | _ \<Rightarrow> Inl ValidationError) items
           | PStr s \<Rightarrow> Inr (map (\<lambda>c. [c]) s)
           | PDict e \<Rightarrow> Inr (map fst e)
           | _ \<Rightarrow> Inl (TypeError ''object is not iterable''))"

definition evidence_of_json :: "library \<Rightarrow> knowledge_file \<Rightarrow> pyval \<Rightarrow> evidence res" where
  "evidence_of_json L f data =
     (case data of
        PDict d \<Rightarrow>
          bind_res (tags_of d) (\<lambda>tags.
          Inr \<lparr>ev_source_id = text_member L d [(u ''source_id'')] (kf_stem f),
               ev_title = text_member L d [(u ''title'')] (kf_stem f),
               ev_source_path = kf_path f,
               ev_text = text_member L d [(u ''text''), (u ''content'')] [],
               ev_category = text_member L d [(u ''category'')] (kf_parent_name f),
               ev_tags = tags, ev_score = 0, ev_confidence = 0\<rparr>)
      | _ \<Rightarrow> Inl AttributeError)"

definition evidence_of_text :: "library \<Rightarrow> knowledge_file \<Rightarrow> pystr \<Rightarrow> evidence" where
  "evidence_of_text L f raw =
     (let T = lib_ucd L; stripped = py_strip T raw; title = replace_char 95 32 (kf_stem f);
          first_line = (if stripped \<noteq> [] then takeWhile (\<lambda>c. \<not> lib_line_break L c) stripped else title);
          heading = py_strip T (dropWhile (\<lambda>c. c = 35 \<or> c = 32) first_line)
      in \<lparr>ev_source_id = kf_stem f,
          ev_title = (if prefix [35] first_line \<and> heading \<noteq> [] then heading else title),
          ev_source_path = kf_path f, ev_text = stripped, ev_category = kf_parent_name f,
          ev_tags = [], ev_score = 0, ev_confidence = 0\<rparr>)"

text \<open>The text of a file is \<open>None\<close> when reading it raises an \<open>OSError\<close> or a \<open>UnicodeDecodeError\<close>.
  \<open>except (OSError, json.JSONDecodeError, ValueError)\<close>: decoding and validation errors are value
  errors, attribute and type errors are not.\<close>

definition load_file :: "library \<Rightarrow> knowledge_file \<Rightarrow> evidence option res" where
  "load_file L f =
     (case kf_text f of
        None \<Rightarrow> Inr None
      | Some raw \<Rightarrow>
          if u_lower (lib_ucd L) (kf_suffix f) = (u ''.json'')
          then (case lib_json_loads L raw of
                  None \<Rightarrow> Inr None
                | Some data \<Rightarrow>
                    (case evidence_of_json L f data of
                       Inr e \<Rightarrow> Inr (Some e)
                     | Inl e \<Rightarrow> if e = ValidationError then Inr None else Inl e))
          else Inr (Some (evidence_of_text L f raw)))"

text \<open>The files are those of \<open>sorted(self.root.rglob("*"))\<close>.\<close>

definition load_knowledge :: "library \<Rightarrow> knowledge_file list \<Rightarrow> evidence list res" where
  "load_knowledge L files =
     bind_res (map_res (load_file L)
        (filter (\<lambda>f. \<not> (kf_is_dir f \<or> u_lower (lib_ucd L) (kf_suffix f) \<notin> {(u ''.json''), (u ''.md''), (u ''.txt'')})) files))
       (\<lambda>records. Inr (map the (filter (\<lambda>r. r \<noteq> None) records)))"

section \<open>Retrieval\<close>

definition cjk :: "nat \<Rightarrow> bool" where
  "cjk c \<longleftrightarrow> 19968 \<le> c \<and> c \<le> 40959"

text \<open>The set of tokens as a list without duplicates.\<close>

definition tokens :: "library \<Rightarrow> pystr \<Rightarrow> pystr list" where
  "tokens L raw =
     (let T = lib_ucd L; cs = filter cjk raw
      in remdups
        (map (u_lower T) (filter (\<lambda>tok. py_strip T tok \<noteq> []) (runs (\<lambda>c. lib_word L c \<or> cjk c) raw))
         @ map (\<lambda>c. [c]) cs @ map (\<lambda>i. take 2 (drop i cs)) [0..<length cs - 1]))"

definition overlap :: "pystr list \<Rightarrow> pystr list \<Rightarrow> nat" where
  "overlap a b = length (filter (\<lambda>t. t \<in> set b) a)"

definition retrieve :: "library \<Rightarrow> knowledge_file list \<Rightarrow> pystr \<Rightarrow> nat \<Rightarrow> evidence list res" where
  "retrieve L files query limit =
     bind_res (load_knowledge L files) (\<lambda>records.
     if py_strip (lib_ucd L) query = [] then Inr (take limit records)
     else let q_tokens = tokens L query
     in if q_tokens = [] then Inr (take limit records)
     else let haystack = (\<lambda>r. py_join (u '' '') [ev_title r, ev_text r, ev_category r, py_join (u '' '') (ev_tags r)]);
              scored = map (\<lambda>r. r\<lparr>ev_score := of_nat (overlap q_tokens (tokens L (haystack r)))\<rparr>) records
     in Inr (take limit (sort_key (\<lambda>e. - ev_score e) (filter (\<lambda>e. 0 < ev_score e) scored))))"

definition rank_one :: "library \<Rightarrow> pystr list \<Rightarrow> evidence \<Rightarrow> evidence" where
  "rank_one L q_tokens e =
     (let n = overlap q_tokens (tokens L (py_join (u '' '') [ev_title e, ev_text e, py_join (u '' '') (ev_tags e)]));
          density = fl (of_nat n / of_nat (max (length q_tokens) 1))
      in e\<lparr>ev_score := (if ev_score e \<noteq> 0 then ev_score e else of_nat n),
           ev_confidence := max (fl (1/10)) (min 1 density)\<rparr>)"

definition rank_and_filter :: "library \<Rightarrow> pystr \<Rightarrow> evidence list \<Rightarrow> nat \<Rightarrow> rat \<Rightarrow> evidence list" where
  "rank_and_filter L query candidates top_k min_score =
     take top_k (sort_key (\<lambda>e. (- ev_confidence e, - ev_score e))
       (filter (\<lambda>e. \<not> ev_score e < min_score) (map (rank_one L (tokens L query)) candidates)))"

section \<open>The answer\<close>

definition snippet :: "ucd \<Rightarrow> pystr \<Rightarrow> nat \<Rightarrow> pystr" where
  "snippet T raw max_len =
     (let compacted = py_join (u '' '') (py_split T raw)
      in if length compacted \<le> max_len then compacted else take (max_len - 1) compacted @ (u ''...''))"

definition pv_float :: "rat \<Rightarrow> pyval" where
  "pv_float x = PFloat (Fin x)"

definition source_of :: "evidence \<Rightarrow> pyval" where
  "source_of e =
     PDict [((u ''source_id''), PStr (ev_source_id e)), ((u ''title''), PStr (ev_title e)),
            ((u ''source_path''), PStr (ev_source_path e)), ((u ''category''), PStr (ev_category e)),
            ((u ''confidence''), pv_float (py_round2 (ev_confidence e)))]"

definition to_rag_evidence :: "evidence \<Rightarrow> rag_evidence" where
  "to_rag_evidence e =
     \<lparr>re_source_id = ev_source_id e, re_title = Some (ev_title e), re_source_path = Some (ev_source_path e),
      re_text = ev_text e, re_score = Some (Fin (ev_score e)), re_metadata = []\<rparr>"

text \<open>The constructor of \<open>RagResult\<close>.\<close>

definition mk_rag_result :: "rag_result \<Rightarrow> rag_result res" where
  "mk_rag_result r = checked (0 \<le> rg_confidence r \<and> rg_confidence r \<le> 1) r"

definition average_confidence :: "evidence list \<Rightarrow> rat" where
  "average_confidence es = fl (py_fsum (map ev_confidence es) / of_nat (length es))"

definition generate_with_citations :: "ucd \<Rightarrow> evidence list \<Rightarrow> rag_result res" where
  "generate_with_citations T es =
     (if es = []
      then mk_rag_result
        \<lparr>rg_answer = [26410, 22312, 26412, 22320, 30693, 35782, 24211, 20013, 25214, 21040, 36275, 22815, 35777, 25454, 65292, 26080, 27861, 32473, 20986, 21487, 24341, 29992, 32467, 35770, 12290], rg_evidence = [], rg_sources = [],
         rg_confidence = fl (3/20), rg_warnings = [(u ''no_evidence'')], rg_provider = RagNone,
         rg_diagnostics = [], rg_raw_response = None\<rparr>
      else mk_rag_result
        \<lparr>rg_answer = [22522, 20110, 24050, 26816, 32034, 35777, 25454, 65292, 24314, 35758, 21442, 32771, 20197, 19979, 32467, 35770, 65306, 10]
           @ py_join [10] (map (\<lambda>(idx, e). (u ''['') @ py_str_nat idx @ (u ''] '') @ ev_title e @ (u '': '') @ snippet T (ev_text e) 120)
                (zip [1..<Suc (length es)] es)),
         rg_evidence = map to_rag_evidence es, rg_sources = map source_of es,
         rg_confidence = py_round2 (min (fl (19/20)) (max (fl (1/5)) (average_confidence es))),
         rg_warnings = [], rg_provider = RagNone, rg_diagnostics = [], rg_raw_response = None\<rparr>)"

section \<open>The local client\<close>

text \<open>\<open>round((now - start).total_seconds() * 1000, 2)\<close>\<close>

definition elapsed_ms :: "datetime \<Rightarrow> datetime \<Rightarrow> rat" where
  "elapsed_ms start now = py_round2 (fl (fl (of_int (instant now - instant start) / 1000000) * 1000))"

definition local_query ::
  "library \<Rightarrow> ('s \<Rightarrow> knowledge_file list \<times> 's) \<Rightarrow> ('s \<Rightarrow> datetime \<times> 's) \<Rightarrow> pystr \<Rightarrow> ('s, rag_result) op" where
  "local_query L files clock question =
     bind_op (read_op clock) (\<lambda>start.
     bind_op (read_op files) (\<lambda>fs.
     bind_op (lift_res (retrieve L fs question 20)) (\<lambda>candidates.
     bind_op (lift_res (generate_with_citations (lib_ucd L) (rank_and_filter L question candidates 3 1))) (\<lambda>result.
     bind_op (read_op clock) (\<lambda>now.
     ret (result\<lparr>rg_provider := RagLocal,
            rg_diagnostics := rg_diagnostics result @
              [\<lparr>dg_step_name = (u ''local_rag_query''), dg_provider = (u ''local''), dg_success = True, dg_error_type = None,
                dg_message = Some ((u ''Local keyword RAG returned '') @ py_str_nat (length (rg_evidence result)) @ (u '' evidence items'')),
                dg_latency_ms = Some (elapsed_ms start now)\<rparr>]\<rparr>))))))"

section \<open>Answers are grounded\<close>

lemma overlap_pos: "0 < overlap a b \<longleftrightarrow> set a \<inter> set b \<noteq> {}"
  by (auto simp: overlap_def filter_empty_conv)

lemma retrieve_Inr:
  assumes "retrieve L files query limit = Inr candidates"
  obtains records where "load_knowledge L files = Inr records"
    "\<forall>c \<in> set candidates. \<exists>r \<in> set records. c = r \<or>
       (\<exists>n. c = r\<lparr>ev_score := of_nat n\<rparr> \<and> 0 < n
          \<and> n = overlap (tokens L query) (tokens L (py_join (u '' '') [ev_title r, ev_text r, ev_category r, py_join (u '' '') (ev_tags r)])))"
    "length candidates \<le> limit" "py_strip (lib_ucd L) query = [] \<or> tokens L query = [] \<or> (\<forall>c \<in> set candidates. ev_score c \<noteq> 0)"
proof -
  from assms obtain records where r: "load_knowledge L files = Inr records" by (auto simp: retrieve_def bind_res_Inr_iff)
  show thesis
  proof (rule that[OF r])
    show "\<forall>c \<in> set candidates. \<exists>r \<in> set records. c = r \<or>
       (\<exists>n. c = r\<lparr>ev_score := of_nat n\<rparr> \<and> 0 < n
          \<and> n = overlap (tokens L query) (tokens L (py_join (u '' '') [ev_title r, ev_text r, ev_category r, py_join (u '' '') (ev_tags r)])))"
      using assms r by (fastforce simp: retrieve_def Let_def split: if_splits dest: in_set_takeD)
    show "length candidates \<le> limit"
      using assms r by (auto simp: retrieve_def Let_def split: if_splits)
    show "py_strip (lib_ucd L) query = [] \<or> tokens L query = [] \<or> (\<forall>c \<in> set candidates. ev_score c \<noteq> 0)"
      using assms r by (fastforce simp: retrieve_def Let_def split: if_splits dest: in_set_takeD)
  qed
qed

lemma retrieve_total: "load_knowledge L files = Inr records \<Longrightarrow> \<exists>c. retrieve L files query limit = Inr c"
  by (simp add: retrieve_def Let_def)

text \<open>What of a record its evidence shows.\<close>

definition cites :: "evidence \<Rightarrow> rag_evidence \<Rightarrow> bool" where
  "cites r e \<longleftrightarrow>
     re_source_id e = ev_source_id r \<and> re_title e = Some (ev_title r) \<and> re_source_path e = Some (ev_source_path r)
     \<and> re_text e = ev_text r"

lemma map_res_source: "map_res f xs = Inr ys \<Longrightarrow> y \<in> set ys \<Longrightarrow> \<exists>x \<in> set xs. f x = Inr y"
  by (induction xs arbitrary: ys) (auto simp: bind_res_Inr_iff)

lemma records_score: "load_knowledge L files = Inr records \<Longrightarrow> r \<in> set records \<Longrightarrow> ev_score r = 0"
proof -
  assume "load_knowledge L files = Inr records" "r \<in> set records"
  then obtain f where f: "load_file L f = Inr (Some r)"
    by (auto simp: load_knowledge_def bind_res_Inr_iff dest!: map_res_source)
  have "evidence_of_json L f v = Inr x \<Longrightarrow> ev_score x = 0" for v x
    by (auto simp: evidence_of_json_def bind_res_Inr_iff split: pyval.splits)
  then show ?thesis using f
    by (auto simp: load_file_def evidence_of_text_def Let_def split: option.splits sum.splits if_splits)
qed

lemma ranked_evidence:
  assumes "retrieve L files query limit = Inr candidates" "e \<in> set (rank_and_filter L query candidates top_k 1)"
    "load_knowledge L files = Inr records"
  shows "\<exists>r \<in> set records. ev_source_id e = ev_source_id r \<and> ev_title e = ev_title r \<and> ev_source_path e = ev_source_path r
    \<and> ev_text e = ev_text r
    \<and> set (tokens L query) \<inter> (set (tokens L (py_join (u '' '') [ev_title r, ev_text r, ev_category r, py_join (u '' '') (ev_tags r)]))
         \<union> set (tokens L (py_join (u '' '') [ev_title r, ev_text r, py_join (u '' '') (ev_tags r)]))) \<noteq> {}"
proof -
  from assms(2) obtain c where c: "c \<in> set candidates" "e = rank_one L (tokens L query) c" "1 \<le> ev_score e"
    by (auto simp: rank_and_filter_def dest!: in_set_takeD)
  from assms(1,3) c(1) obtain r where r: "r \<in> set records" "c = r \<or>
       (\<exists>n. c = r\<lparr>ev_score := of_nat n\<rparr> \<and> 0 < n
          \<and> n = overlap (tokens L query) (tokens L (py_join (u '' '') [ev_title r, ev_text r, ev_category r, py_join (u '' '') (ev_tags r)])))"
    by (elim retrieve_Inr) auto
  have zero: "ev_score r = 0" using records_score[OF assms(3) r(1)] .
  from r(2) show ?thesis
  proof
    assume "c = r"
    then have "0 < overlap (tokens L query) (tokens L (py_join (u '' '') [ev_title r, ev_text r, py_join (u '' '') (ev_tags r)]))"
      using c(2,3) zero by (simp add: rank_one_def Let_def)
    then show ?thesis using c(2) \<open>c = r\<close> r(1) unfolding overlap_pos by (intro bexI[of _ r]) (auto simp: rank_one_def Let_def)
  next
    assume "\<exists>n. c = r\<lparr>ev_score := of_nat n\<rparr> \<and> 0 < n
      \<and> n = overlap (tokens L query) (tokens L (py_join (u '' '') [ev_title r, ev_text r, ev_category r, py_join (u '' '') (ev_tags r)]))"
    then show ?thesis using c(2) r(1) overlap_pos by (intro bexI[of _ r]) (auto simp: rank_one_def Let_def)
  qed
qed

lemma generate_total:
  obtains r where "generate_with_citations T es = Inr r" "rg_evidence r = map to_rag_evidence es"
    "rg_sources r = map source_of es" "0 \<le> rg_confidence r" "rg_confidence r \<le> 1"
    "(rg_warnings r = [(u ''no_evidence'')]) = (es = [])" "rg_diagnostics r = []" "rg_raw_response r = None"
proof -
  have "0 \<le> fl (3/20) \<and> fl (3/20) \<le> 1" "0 \<le> fl (1/5) \<and> fl (1/5) \<le> 1" "0 \<le> fl (19/20) \<and> fl (19/20) \<le> 1"
    by (intro fl_unit; simp)+
  moreover from this have "0 \<le> py_round2 (min (fl (19/20)) (max (fl (1/5)) (average_confidence es)))
      \<and> py_round2 (min (fl (19/20)) (max (fl (1/5)) (average_confidence es))) \<le> 1"
    by (intro py_round2_unit) (auto simp: min_def max_def)
  ultimately show thesis
    by (cases "es = []") (auto simp: generate_with_citations_def mk_rag_result_def checked_def intro!: that)
qed

text \<open>
  C20: every citation of a local answer is grounded. What the local client cites are at most three
  loaded knowledge records, unchanged in identifier, title, path and text, and each shares a token
  with the question; the sources are those of the evidence, in order; without evidence the answer
  carries the warning; the confidence lies within 0 and 1 and there is no raw response.
\<close>

theorem local_answer_grounded:
  assumes "local_query L files clock question s = (Inr r, s')"
  shows "\<exists>fs records s1 s2. files s1 = (fs, s2) \<and> load_knowledge L fs = Inr records \<and> length (rg_evidence r) \<le> 3
    \<and> (\<forall>e \<in> set (rg_evidence r). \<exists>k \<in> set records. cites k e
         \<and> set (tokens L question) \<inter> (set (tokens L (py_join (u '' '') [ev_title k, ev_text k, ev_category k, py_join (u '' '') (ev_tags k)]))
             \<union> set (tokens L (py_join (u '' '') [ev_title k, ev_text k, py_join (u '' '') (ev_tags k)]))) \<noteq> {})
    \<and> list_all2 (\<lambda>src e. \<exists>d. src = PDict d \<and> member_of d (u ''source_id'') = PStr (re_source_id e)) (rg_sources r) (rg_evidence r)
    \<and> (rg_evidence r = [] \<longleftrightarrow> rg_warnings r = [(u ''no_evidence'')])
    \<and> 0 \<le> rg_confidence r \<and> rg_confidence r \<le> 1 \<and> rg_raw_response r = None"
proof -
  from assms obtain s1 fs s2 candidates result where files: "files s1 = (fs, s2)"
    and c: "retrieve L fs question 20 = Inr candidates"
    and g: "generate_with_citations (lib_ucd L) (rank_and_filter L question candidates 3 1) = Inr result"
    and r: "rg_evidence r = rg_evidence result" "rg_sources r = rg_sources result" "rg_warnings r = rg_warnings result"
      "rg_confidence r = rg_confidence result" "rg_raw_response r = rg_raw_response result"
    by (auto simp: local_query_def bind_op_Inr_iff)
  let ?es = "rank_and_filter L question candidates 3 1"
  obtain records where k: "load_knowledge L fs = Inr records" using c by (rule retrieve_Inr)
  obtain x where x: "result = x" "rg_evidence x = map to_rag_evidence ?es" "rg_sources x = map source_of ?es" "0 \<le> rg_confidence x"
    "rg_confidence x \<le> 1" "(rg_warnings x = [(u ''no_evidence'')]) = (?es = [])" "rg_raw_response x = None"
    using generate_total[of "lib_ucd L" ?es] g by (metis sum.inject(2))
  have "length ?es \<le> 3" by (simp add: rank_and_filter_def)
  moreover have "\<forall>e \<in> set (rg_evidence r). \<exists>k \<in> set records. cites k e
         \<and> set (tokens L question) \<inter> (set (tokens L (py_join (u '' '') [ev_title k, ev_text k, ev_category k, py_join (u '' '') (ev_tags k)]))
             \<union> set (tokens L (py_join (u '' '') [ev_title k, ev_text k, py_join (u '' '') (ev_tags k)]))) \<noteq> {}"
    using ranked_evidence[OF c _ k] r(1) x(1,2) by (fastforce simp: cites_def to_rag_evidence_def)
  moreover have "list_all2 (\<lambda>src e. \<exists>d. src = PDict d \<and> member_of d (u ''source_id'') = PStr (re_source_id e)) (rg_sources r) (rg_evidence r)"
    using r(1,2) x(1,2,3) by (simp add: list_all2_map1 list_all2_map2 list_all2_same source_of_def to_rag_evidence_def member_of_def)
  ultimately show ?thesis using files k r x by (intro exI conjI) (simp_all del: u_Cons)
qed

definition demo_library :: library where
  "demo_library =
     \<lparr>lib_ucd = basic_ucd, lib_word = (\<lambda>c. 97 \<le> c \<and> c \<le> 122), lib_line_break = (\<lambda>c. c = 10),
      lib_json_loads = (\<lambda>s. None), lib_str = (\<lambda>v. []), lib_float = (\<lambda>s. None)\<rparr>"

definition demo_file :: knowledge_file where
  "demo_file =
     \<lparr>kf_path = (u ''k/a.md''), kf_stem = (u ''a''), kf_suffix = (u ''.md''), kf_parent_name = (u ''k''), kf_is_dir = False,
      kf_text = Some [35, 32, 115, 108, 97, 10, 116, 104, 101, 32, 115, 108, 97, 32, 105, 115, 32, 116, 119, 111, 32, 100, 97, 121, 115]\<rparr>"

lemma demo_knowledge:
  "load_knowledge demo_library [demo_file] = Inr [evidence_of_text demo_library demo_file [35, 32, 115, 108, 97, 10, 116, 104, 101, 32, 115, 108, 97, 32, 105, 115, 32, 116, 119, 111, 32, 100, 97, 121, 115]]"
  by (simp add: load_knowledge_def demo_file_def load_file_def demo_library_def basic_ucd_def basic_lower_cp_def)

lemma demo_local_query:
  obtains r where "local_query demo_library (\<lambda>s. ([demo_file], s)) (\<lambda>s. (utc 0, s)) (u ''sla'') s = (Inr r, s)"
proof -
  obtain candidates where "retrieve demo_library [demo_file] (u ''sla'') 20 = Inr candidates"
    using retrieve_total[OF demo_knowledge] by blast
  moreover obtain r where "generate_with_citations basic_ucd (rank_and_filter demo_library (u ''sla'') candidates 3 1) = Inr r"
    using generate_total by blast
  moreover have "lib_ucd demo_library = basic_ucd" by (simp add: demo_library_def)
  ultimately show thesis by (intro that) (simp add: local_query_def bind_op_def read_op_def del: u_Cons)
qed

theorem local_answer_grounded_witness:
  "\<exists>r. local_query demo_library (\<lambda>s. ([demo_file], s)) (\<lambda>s. (utc 0, s)) (u ''sla'') () = (Inr r, ())
     \<and> (\<forall>e \<in> set (rg_evidence r). re_source_id e = (u ''a''))"
proof -
  obtain r where r: "local_query demo_library (\<lambda>s. ([demo_file], s)) (\<lambda>s. (utc 0, s)) (u ''sla'') () = (Inr r, ())" by (rule demo_local_query)
  have "re_source_id e = (u ''a'')" if e: "e \<in> set (rg_evidence r)" for e
  proof -
    obtain fs records and s1 s2 :: unit where files: "([demo_file], s1) = (fs, s2)"
      and loaded: "load_knowledge demo_library fs = Inr records" and all: "\<forall>e \<in> set (rg_evidence r). \<exists>k \<in> set records. cites k e"
      using local_answer_grounded[OF r]
      by (elim exE conjE) (rule that, assumption, assumption, intro ballI, drule (1) bspec, elim bexE conjE, rule bexI)
    have "fs = [demo_file]" using files by (rule Pair_inject) (rule sym)
    from loaded[unfolded this demo_knowledge]
    have records: "records = [evidence_of_text demo_library demo_file [35, 32, 115, 108, 97, 10, 116, 104, 101, 32, 115, 108, 97, 32, 105, 115, 32, 116, 119, 111, 32, 100, 97, 121, 115]]"
      by (rule sum.inject(2)[THEN iffD1, THEN sym])
    obtain k where "k \<in> set records" "cites k e" using bspec[OF all e] by (rule bexE)
    then have "k = evidence_of_text demo_library demo_file [35, 32, 115, 108, 97, 10, 116, 104, 101, 32, 115, 108, 97, 32, 105, 115, 32, 116, 119, 111, 32, 100, 97, 121, 115]" unfolding records by (simp del: u_Cons)
    then show ?thesis using \<open>cites k e\<close> by (simp add: cites_def evidence_of_text_def demo_file_def Let_def)
  qed
  with r show ?thesis by blast
qed

end
