(* ===== verification/Rag_Clients.thy ===== *)
theory Rag_Clients
  imports Local_Retrieval
begin

text \<open>
  The retrieval clients of \<open>rag/external_client.py\<close> and \<open>rag/factory.py\<close>. The HTTP library is the
  parameter \<open>post\<close>; what every client promises to the coordinator is the locale \<open>rag_client\<close>. The
  keyword arguments \<open>trace_id\<close> and \<open>metadata\<close> are read by none of the clients.
\<close>

section \<open>The external service\<close>

text \<open>A response: its status code and what \<open>response.json()\<close> gives, or the text of its \<open>ValueError\<close>.\<close>

record http_response =
  hr_status :: nat
  hr_json :: "pystr + pyval"

definition raise_for_status :: "http_response \<Rightarrow> http_response res" where
  "raise_for_status r = (if 200 \<le> hr_status r \<and> hr_status r \<le> 299 then Inr r else Inl (HTTPStatusError (hr_status r)))"

text \<open>\<open>float(n)\<close> of an integer, and \<open>float(v)\<close> where \<open>None\<close> stands for a \<open>TypeError\<close> or a \<open>ValueError\<close>.\<close>

definition int_float :: "int \<Rightarrow> pyfloat res" where
  "int_float n = (let x = fl (of_int n) in if 2 ^ 1024 \<le> \<bar>x\<bar> then Inl OverflowError else Inr (Fin x))"

fun float_of :: "library \<Rightarrow> pyval \<Rightarrow> pyfloat option res" where
  "float_of L (PBool b) = Inr (Some (Fin (of_bool b)))"
| "float_of L (PInt n) = bind_res (int_float n) (\<lambda>x. Inr (Some x))"
| "float_of L (PFloat x) = Inr (Some x)"
| "float_of L (PStr s) = Inr (lib_float L s)"
| "float_of L v = Inr None"

text \<open>\<open>_first\<close>\<close>

fun first_of :: "(pystr \<times> pyval) list \<Rightarrow> pystr list \<Rightarrow> pyval" where
  "first_of d [] = PNone"
| "first_of d (k # ks) = (if member_of d k \<in> {PNone, PStr []} then first_of d ks else member_of d k)"

definition opt_str :: "library \<Rightarrow> pyval \<Rightarrow> pystr option" where
  "opt_str L v = (if v = PNone then None else Some (py_str L v))"

definition or_text :: "library \<Rightarrow> pyval \<Rightarrow> pystr \<Rightarrow> pystr" where
  "or_text L v otherwise = (if truth v then py_str L v else otherwise)"

definition numbered_citation :: "nat \<Rightarrow> pystr" where
  "numbered_citation idx = (u ''citation_'') @ py_str_nat idx"

definition text_keys :: "pystr list" where
  "text_keys = [(u ''text''), (u ''snippet''), (u ''content''), (u ''quote'')]"

definition citation_to_evidence :: "library \<Rightarrow> pyval \<times> nat \<Rightarrow> rag_evidence option res" where
  "citation_to_evidence L = (\<lambda>(citation, idx).
     case citation of
       PStr s \<Rightarrow>
         Inr (Some \<lparr>re_source_id = (if s \<noteq> [] then s else numbered_citation idx), re_title = Some s, re_source_path = None,
                    re_text = s, re_score = None, re_metadata = [((u ''raw''), PStr s)]\<rparr>)
     | PDict d \<Rightarrow>
         bind_res (float_of L (first_of d [(u ''score''), (u ''rerank_score''), (u ''relevance_score'')])) (\<lambda>score.
         Inr (Some \<lparr>re_source_id = or_text L (first_of d [(u ''source_id''), (u ''id''), (u ''source''), (u ''title'')]) (numbered_citation idx),
                    re_title = opt_str L (first_of d [(u ''title''), (u ''source''), (u ''source_id''), (u ''id'')]),
                    re_source_path = opt_str L (first_of d [(u ''source_path''), (u ''path''), (u ''file''), (u ''url'')]),
                    re_text = or_text L (first_of d text_keys) [],
                    re_score = score,
                    re_metadata = filter (\<lambda>(k, v). k \<notin> set text_keys) d\<rparr>))
     | _ \<Rightarrow> Inr None)"

definition evidence_to_source :: "rag_evidence \<Rightarrow> pyval" where
  "evidence_to_source e =
     PDict [((u ''source_id''), PStr (re_source_id e)),
            ((u ''title''), PStr (if truthy (re_title e) then the (re_title e) else re_source_id e)),
            ((u ''source_path''), PStr (case re_source_path e of None \<Rightarrow> [] | Some p \<Rightarrow> p)),
            ((u ''confidence''), (case re_score e of None \<Rightarrow> PNone | Some x \<Rightarrow> PFloat x))]"

text \<open>\<open>max(0.0, min(1.0, x))\<close>: \<open>min\<close> keeps its first argument when the comparison with NaN fails.\<close>

fun clamp01 :: "pyfloat \<Rightarrow> rat" where
  "clamp01 (Fin x) = max 0 (min 1 x)"
| "clamp01 (NonFinite NotANumber) = 1"
| "clamp01 (NonFinite PosInfinity) = 1"
| "clamp01 (NonFinite NegInfinity) = 0"

definition confidence_of :: "bool \<Rightarrow> pyval \<Rightarrow> pyfloat res" where
  "confidence_of cited v =
     (case v of
        PBool b \<Rightarrow> Inr (Fin (of_bool b))
      | PInt n \<Rightarrow> int_float n
      | PFloat x \<Rightarrow> Inr x
      | _ \<Rightarrow> Inr (Fin (if cited then 3/4 else fl (7/20))))"

definition citations_of :: "(pystr \<times> pyval) list \<Rightarrow> pyval list" where
  "citations_of d =
     (let v = (if truth (member_of d (u ''citations'')) then member_of d (u ''citations'')
               else if truth (member_of d (u ''sources'')) then member_of d (u ''sources'') else PList [])
      in case v of PList vs \<Rightarrow> vs | _ \<Rightarrow> [v])"

definition to_rag_result :: "library \<Rightarrow> pyval \<Rightarrow> rag_result res" where
  "to_rag_result L data =
     (case data of
        PDict d \<Rightarrow>
          (case member_of d (u ''answer'') of
             PStr answer \<Rightarrow>
               if py_strip (lib_ucd L) answer = []
               then Inl (RagClientError (u ''missing_answer'') (u ''RAG service response missing non-empty answer''))
               else
                 let citations = citations_of d
                 in bind_res (map_res (citation_to_evidence L) (zip citations [1..<Suc (length citations)])) (\<lambda>items.
                    let evidence = map the (filter (\<lambda>e. e \<noteq> None) items)
                    in bind_res (confidence_of (evidence \<noteq> []) (member_of d (u ''confidence''))) (\<lambda>c.
                    mk_rag_result
                      \<lparr>rg_answer = answer, rg_evidence = evidence, rg_sources = map evidence_to_source evidence,
                       rg_confidence = clamp01 c, rg_warnings = [], rg_provider = RagNone, rg_diagnostics = [],
                       rg_raw_response = Some (PDict d)\<rparr>))
           | _ \<Rightarrow> Inl (RagClientError (u ''missing_answer'') (u ''RAG service response missing non-empty answer'')))
      | _ \<Rightarrow> Inl (RagClientError (u ''schema_error'') (u ''RAG service response must be a JSON object'')))"

text \<open>The \<open>except\<close> clauses of the query; \<open>timeout\<close> is the text of the configured number.\<close>

definition translate_http_error :: "pystr \<Rightarrow> exn \<Rightarrow> exn option" where
  "translate_http_error timeout e =
     (case e of
        TimeoutException m \<Rightarrow> Some (RagClientError (u ''timeout'') ((u ''RAG service timeout after '') @ timeout @ (u ''s'')))
      | ConnectError m \<Rightarrow> Some (RagClientError (u ''connection_error'') ((u ''RAG service connection error: '') @ m))
      | HTTPStatusError n \<Rightarrow> Some (RagClientError (u ''http_error'') ((u ''RAG service HTTP error: '') @ py_str_nat n))
      | RequestError m \<Rightarrow> Some (RagClientError (u ''connection_error'') ((u ''RAG service request error: '') @ m))
      | _ \<Rightarrow> None)"

definition external_query ::
  "library \<Rightarrow> (pystr \<Rightarrow> ('s, http_response) op) \<Rightarrow> pystr \<Rightarrow> ('s \<Rightarrow> datetime \<times> 's) \<Rightarrow> pystr \<Rightarrow> ('s, rag_result) op" where
  "external_query L post timeout clock question =
     bind_op (read_op clock) (\<lambda>start.
     try_op
       (bind_op (post question) (\<lambda>response.
        bind_op (lift_res (raise_for_status response)) (\<lambda>response.
        bind_op (case hr_json response of
                   Inl m \<Rightarrow> raise_op (RagClientError (u ''invalid_json'') ((u ''RAG service returned invalid JSON: '') @ m))
                 | Inr data \<Rightarrow> lift_res (to_rag_result L data)) (\<lambda>result.
        bind_op (read_op clock) (\<lambda>now.
        ret (result\<lparr>rg_provider := RagExternal,
               rg_diagnostics := rg_diagnostics result @
                 [\<lparr>dg_step_name = (u ''external_rag_query''), dg_provider = (u ''external''), dg_success = True, dg_error_type = None,
                   dg_message = Some ((u ''RAG_demo returned answer with '') @ py_str_nat (length (rg_evidence result)) @ (u '' citations'')),
                   dg_latency_ms = Some (elapsed_ms start now)\<rparr>]\<rparr>))))))
       (\<lambda>e. map_option raise_op (translate_http_error timeout e)))"

section \<open>The fallback\<close>

definition FALLBACK_WARNING :: pystr where
  "FALLBACK_WARNING = (u ''External RAG unavailable; used local keyword fallback.'')"

definition degraded :: "rag_call_diagnostic \<Rightarrow> rag_result \<Rightarrow> rag_result" where
  "degraded failure result =
     result\<lparr>rg_provider := RagFallback, rg_confidence := min (rg_confidence result) (fl (11/20)),
       rg_warnings := FALLBACK_WARNING # rg_warnings result,
       rg_diagnostics := failure # map (\<lambda>d. d\<lparr>dg_step_name := (u ''local_rag_fallback'')\<rparr>) (rg_diagnostics result)\<rparr>"

definition unavailable :: "pystr \<Rightarrow> rag_call_diagnostic \<Rightarrow> rag_result res" where
  "unavailable message failure =
     mk_rag_result
       \<lparr>rg_answer = [22806, 37096, 32, 82, 65, 71, 32, 26381, 21153, 26242, 19981, 21487, 29992, 65292, 19988, 26410, 21551, 29992, 26412, 22320, 32, 102, 97, 108, 108, 98, 97, 99, 107, 12290], rg_evidence = [], rg_sources = [], rg_confidence = fl (3/20),
        rg_warnings = [message], rg_provider = RagNone, rg_diagnostics = [failure], rg_raw_response = None\<rparr>"

definition fallback_query ::
  "('s \<Rightarrow> datetime \<times> 's) \<Rightarrow> (pystr \<Rightarrow> ('s, rag_result) op) \<Rightarrow> (pystr \<Rightarrow> ('s, rag_result) op) option \<Rightarrow> bool
    \<Rightarrow> pystr \<Rightarrow> ('s, rag_result) op" where
  "fallback_query clock primary fallback enabled question =
     bind_op (read_op clock) (\<lambda>start.
     try_op (primary question) (\<lambda>e.
       case e of
         RagClientError error_type message \<Rightarrow>
           Some (bind_op (read_op clock) (\<lambda>now.
             let failure = \<lparr>dg_step_name = (u ''external_rag_query''), dg_provider = (u ''external''), dg_success = False,
                   dg_error_type = Some error_type, dg_message = Some message, dg_latency_ms = Some (elapsed_ms start now)\<rparr>
             in case fallback of
                  Some client \<Rightarrow>
                    if enabled then bind_op (client question) (\<lambda>result. ret (degraded failure result))
                    else lift_res (unavailable message failure)
                | None \<Rightarrow> lift_res (unavailable message failure)))
       | _ \<Rightarrow> None))"

record rag_service_config =
  rs_external :: bool
  rs_timeout :: pystr
  rs_fallback_to_local :: bool

definition create_rag_client ::
  "library \<Rightarrow> (pystr \<Rightarrow> ('s, http_response) op) \<Rightarrow> ('s \<Rightarrow> knowledge_file list \<times> 's) \<Rightarrow> ('s \<Rightarrow> datetime \<times> 's)
    \<Rightarrow> rag_service_config \<Rightarrow> pystr \<Rightarrow> ('s, rag_result) op" where
  "create_rag_client L post files clock config =
     (let local = local_query L files clock
      in if \<not> rs_external config then local
         else fallback_query clock (external_query L post (rs_timeout config) clock)
                (if rs_fallback_to_local config then Some local else None) (rs_fallback_to_local config))"

section \<open>What a client promises\<close>

text \<open>What the coordinator reads of a source.\<close>

definition source_for :: "pyval \<Rightarrow> rag_evidence \<Rightarrow> bool" where
  "source_for src e \<longleftrightarrow>
     (\<exists>d t. src = PDict d \<and> member_of d (u ''source_id'') = PStr (re_source_id e) \<and> member_of d (u ''title'') = PStr t)"

definition well_formed_answer :: "rag_result \<Rightarrow> bool" where
  "well_formed_answer r \<longleftrightarrow>
     0 \<le> rg_confidence r \<and> rg_confidence r \<le> 1 \<and> list_all2 source_for (rg_sources r) (rg_evidence r)
     \<and> rg_diagnostics r \<noteq> []"

definition service_error :: "exn \<Rightarrow> bool" where
  "service_error e \<longleftrightarrow> (case e of RagClientError t m \<Rightarrow> True | _ \<Rightarrow> False)"

lemma service_error_iff: "service_error e \<longleftrightarrow> (\<exists>t m. e = RagClientError t m)"
  by (cases e) (auto simp: service_error_def)

locale rag_client =
  fixes query :: "pystr \<Rightarrow> ('s, rag_result) op"
  assumes answers: "query question s = (Inr r, s') \<Longrightarrow> well_formed_answer r"
begin

lemma confident: "query question s = (Inr r, s') \<Longrightarrow> 0 \<le> rg_confidence r \<and> rg_confidence r \<le> 1"
  by (drule answers) (simp add: well_formed_answer_def)

lemma cited: "query question s = (Inr r, s') \<Longrightarrow> src \<in> set (rg_sources r) \<Longrightarrow> \<exists>e \<in> set (rg_evidence r). source_for src e"
  by (drule answers) (auto simp: well_formed_answer_def dest!: list_all2_partner dest: set_zip_rightD)

lemma reported: "query question s = (Inr r, s') \<Longrightarrow> rg_diagnostics r \<noteq> []"
  by (drule answers) (simp add: well_formed_answer_def)

end

text \<open>A client that never lets an error of the retrieval service through.\<close>

locale closed_client = rag_client query for query :: "pystr \<Rightarrow> ('s, rag_result) op" +
  assumes closed: "query question s = (Inl e, s') \<Longrightarrow> \<not> service_error e"

text \<open>The pair behind \<open>FallbackRagClient\<close>.\<close>

locale fallback_pair =
  first: rag_client primary + second: closed_client backup
  for primary backup :: "pystr \<Rightarrow> ('s, rag_result) op" +
  fixes clock :: "'s \<Rightarrow> datetime \<times> 's"

lemma degraded_well_formed: "well_formed_answer r \<Longrightarrow> well_formed_answer (degraded failure r)"
  using fl_unit[of "11/20"] by (auto simp: well_formed_answer_def degraded_def)

lemma unavailable_well_formed: "Inr r = unavailable message failure \<Longrightarrow> well_formed_answer r"
  using fl_unit[of "3/20"] by (auto simp: unavailable_def mk_rag_result_def checked_def well_formed_answer_def)

lemma fallback_query_cases:
  assumes "fallback_query clock primary fallback enabled question s = (x, s')"
  obtains (direct) s1 where "primary question s1 = (x, s')" "\<And>e. x = Inl e \<Longrightarrow> \<not> service_error e"
  | (none) failure message where "x = unavailable message failure" "fallback = None \<or> \<not> enabled"
  | (backup) client failure s1 y where "fallback = Some client" "enabled" "client question s1 = (y, s')"
      "x = (case y of Inl e \<Rightarrow> Inl e | Inr r \<Rightarrow> Inr (degraded failure r))" "\<not> dg_success failure"
proof -
  obtain start s0 where c: "clock s = (start, s0)" by fastforce
  obtain z s1 where p: "primary question s0 = (z, s1)" by fastforce
  consider (ok) "\<And>e. z = Inl e \<Longrightarrow> \<not> service_error e" | (failed) t m where "z = Inl (RagClientError t m)"
    using service_error_iff by blast
  then show thesis
  proof cases
    case ok
    then have "z = x \<and> s1 = s'" using assms c p
      by (auto simp: fallback_query_def bind_op_def read_op_def try_op_def service_error_iff split: sum.splits exn.splits)
    then show thesis using ok p by (intro direct[of s0]) auto
  next
    case (failed t m)
    obtain now s2 where n: "clock s1 = (now, s2)" by fastforce
    define failure where "failure = \<lparr>dg_step_name = (u ''external_rag_query''), dg_provider = (u ''external''), dg_success = False,
                   dg_error_type = Some t, dg_message = Some m, dg_latency_ms = Some (elapsed_ms start now)\<rparr>"
    show thesis
    proof (cases "fallback = None \<or> \<not> enabled")
      case True
      then have "x = unavailable m failure"
        using assms c p failed n
        by (auto simp: fallback_query_def bind_op_def read_op_def try_op_def failure_def Let_def split: option.splits simp del: u_Cons)
      then show thesis using True by (intro none)
    next
      case False
      then obtain client where f: "fallback = Some client" "enabled" by auto
      obtain y s3 where y: "client question s2 = (y, s3)" by fastforce
      have "x = (case y of Inl e \<Rightarrow> Inl e | Inr r \<Rightarrow> Inr (degraded failure r)) \<and> s' = s3"
        using assms c p failed n f y
        by (auto simp: fallback_query_def bind_op_def read_op_def try_op_def failure_def Let_def split: sum.splits simp del: u_Cons)
      then show thesis using f y by (intro backup[of client s2 y failure]) (auto simp: failure_def)
    qed
  qed
qed

sublocale fallback_pair \<subseteq> pair: closed_client "fallback_query clock primary (Some backup) True"
proof
  fix question s r s'
  assume "fallback_query clock primary (Some backup) True question s = (Inr r, s')"
  then show "well_formed_answer r"
    by (cases rule: fallback_query_cases)
      (auto dest: first.answers second.answers intro!: degraded_well_formed split: sum.splits)
next
  fix question s e s'
  assume "fallback_query clock primary (Some backup) True question s = (Inl e, s')"
  then show "\<not> service_error e"
    by (cases rule: fallback_query_cases) (auto dest: second.closed split: sum.splits)
qed

section \<open>The clients of the program\<close>

lemma local_query_Inr:
  assumes "local_query L files clock question s = (Inr r, s')"
  shows "well_formed_answer r" "rg_raw_response r = None"
proof -
  from assms obtain es x d where g: "generate_with_citations (lib_ucd L) es = Inr x"
    and r: "r = x\<lparr>rg_provider := RagLocal, rg_diagnostics := rg_diagnostics x @ [d]\<rparr>"
    by (auto simp: local_query_def bind_op_Inr_iff)
  obtain y where "generate_with_citations (lib_ucd L) es = Inr y" "rg_evidence y = map to_rag_evidence es"
    "rg_sources y = map source_of es" "0 \<le> rg_confidence y" "rg_confidence y \<le> 1" "rg_raw_response y = None"
    using generate_total by blast
  then show "well_formed_answer r" "rg_raw_response r = None"
    using g r by (auto simp: well_formed_answer_def source_for_def list_all2_map1 list_all2_map2 list_all2_same
        source_of_def to_rag_evidence_def member_of_def)
qed

lemma load_file_errors: "errors_in {AttributeError, TypeError ''object is not iterable'', ValidationError} (evidence_of_json L f v)"
proof -
  have "errors_in {AttributeError, TypeError ''object is not iterable'', ValidationError} (tags_of d)" for d
    unfolding tags_of_def Let_def by (cases "member_of d (u ''tags'')") (auto intro!: errors_intros split: pyval.splits simp del: u_Cons)
  then show ?thesis by (cases v) (auto simp: evidence_of_json_def intro!: errors_intros simp del: u_Cons)
qed

lemma load_knowledge_errors: "errors_in {AttributeError, TypeError ''object is not iterable''} (load_knowledge L fs)"
proof -
  have "errors_in {AttributeError, TypeError ''object is not iterable''} (load_file L f)" for f
    using load_file_errors by (auto simp: load_file_def errors_in_def split: option.splits sum.splits)
  then show ?thesis unfolding load_knowledge_def by (intro errors_intros)
qed

lemma retrieve_Inl: "retrieve L fs question limit = Inl e \<Longrightarrow> load_knowledge L fs = Inl e"
  by (auto simp: retrieve_def bind_res_def Let_def split: sum.splits if_splits)

lemma generate_not_Inl: "generate_with_citations T es \<noteq> Inl e"
  by (rule generate_total[of T es]) simp

lemma local_query_Inl:
  assumes "local_query L files clock question s = (Inl e, s')"
  shows "\<exists>fs s1 s2. files s1 = (fs, s2) \<and> load_knowledge L fs = Inl e"
  using assms by (auto simp: local_query_def bind_op_Inl_iff generate_not_Inl simp del: u_Cons dest: retrieve_Inl)

interpretation local: closed_client "local_query L files clock" for L files and clock :: "'s \<Rightarrow> datetime \<times> 's"
proof
  fix question s r s'
  assume "local_query L files clock question s = (Inr r, s')"
  then show "well_formed_answer r" by (rule local_query_Inr)
next
  fix question s e s'
  assume "local_query L files clock question s = (Inl e, s')"
  then obtain fs where "load_knowledge L fs = Inl e" by (auto dest: local_query_Inl)
  then show "\<not> service_error e" using load_knowledge_errors[of L fs] by (auto simp: errors_in_def service_error_def)
qed

lemma clamp01_unit: "0 \<le> clamp01 x \<and> clamp01 x \<le> 1"
  by (cases x rule: clamp01.cases) (auto simp: max_def min_def)

lemma source_of_evidence: "source_for (evidence_to_source e) e"
  by (auto simp: source_for_def evidence_to_source_def member_of_def)

lemma to_rag_result_Inr:
  assumes "to_rag_result L data = Inr r"
  shows "0 \<le> rg_confidence r" "rg_confidence r \<le> 1" "rg_sources r = map evidence_to_source (rg_evidence r)"
    "rg_raw_response r = Some data" "py_strip (lib_ucd L) (rg_answer r) \<noteq> []"
  using assms clamp01_unit
  by (auto simp: to_rag_result_def mk_rag_result_def checked_def bind_res_Inr_iff Let_def
      simp del: u_Cons split: pyval.splits if_splits)


lemma external_query_Inr:
  assumes "external_query L post timeout clock question s = (Inr r, s')"
  obtains data response s1 s2 x d where "post question s1 = (Inr response, s2)" "200 \<le> hr_status response" "hr_status response \<le> 299"
    "hr_json response = Inr data" "to_rag_result L data = Inr x"
    "r = x\<lparr>rg_provider := RagExternal, rg_diagnostics := rg_diagnostics x @ [d]\<rparr>"
proof -
  have lift: "map_option raise_op (f e) = Some k \<Longrightarrow> k t \<noteq> (Inr x, t')" for f :: "exn \<Rightarrow> exn option" and e and k :: "('a, rag_result) op" and t x t'
    by (cases "f e") auto
  show thesis
    using assms lift
    by (auto simp: external_query_def bind_op_Inr_iff try_op_def raise_for_status_def bind_op_def
        split: sum.splits prod.splits option.splits if_splits intro!: that simp del: u_Cons)
qed

interpretation external: rag_client "external_query L post timeout clock" for L post timeout and clock :: "'s \<Rightarrow> datetime \<times> 's"
proof
  fix question s r s'
  assume "external_query L post timeout clock question s = (Inr r, s')"
  then show "well_formed_answer r"
    by (rule external_query_Inr)
      (auto simp: well_formed_answer_def list_all2_map1 list_all2_same source_of_evidence dest: to_rag_result_Inr)
qed

interpretation configured: fallback_pair "external_query L post timeout clock" "local_query L files clock" clock
  for L post timeout files and clock :: "'s \<Rightarrow> datetime \<times> 's"
  by unfold_locales

section \<open>The configured client\<close>












lemma create_client_contract:
  assumes "create_rag_client L post files clock config question s = (x, s')"
  shows "case x of Inr r \<Rightarrow> well_formed_answer r | Inl e \<Rightarrow> \<not> service_error e"
proof (cases x)
  case (Inl e)
  show ?thesis
  proof (cases "rs_external config \<and> \<not> rs_fallback_to_local config")
    case True
    then have "fallback_query clock (external_query L post (rs_timeout config) clock) None False question s = (Inl e, s')"
      using assms Inl by (simp add: create_rag_client_def Let_def)
    then have "\<not> service_error e"
      by (cases rule: fallback_query_cases) (auto simp: unavailable_def mk_rag_result_def checked_def fl_unit[of "3/20"])
    then show ?thesis using Inl by simp
  next
    case False
    then show ?thesis using assms Inl
      by (auto simp: create_rag_client_def Let_def split: if_splits dest: local.closed configured.pair.closed)
  qed
next
  case (Inr r)
  show ?thesis
  proof (cases "rs_external config \<and> \<not> rs_fallback_to_local config")
    case True
    then have "fallback_query clock (external_query L post (rs_timeout config) clock) None False question s = (Inr r, s')"
      using assms Inr by (simp add: create_rag_client_def Let_def)
    then have "well_formed_answer r"
      by (cases rule: fallback_query_cases) (auto dest: external.answers intro: unavailable_well_formed)
    then show ?thesis using Inr by simp
  next
    case False
    then show ?thesis using assms Inr
      by (auto simp: create_rag_client_def Let_def split: if_splits dest: local.answers configured.pair.answers)
  qed
qed

interpretation client: closed_client "create_rag_client L post files clock config"
  for L post files config and clock :: "'s \<Rightarrow> datetime \<times> 's"
  by unfold_locales (auto dest: create_client_contract)










end
