(* ===== verification/Routing.thy ===== *)
theory Routing
  imports Sales_Models
begin

text \<open>
  \<open>sales/intent_router.py\<close> and \<open>orchestration/task_router.py\<close>: the keyword scores of the intents, the
  choice of the winner with its confidence, and the choice of the task. The keyword tables are the
  literals of the code as code points.
\<close>

section \<open>Keyword tables\<close>

definition CUSTOMER_INTAKE_SIGNALS :: "(pystr \<times> nat) list" where
  "CUSTOMER_INTAKE_SIGNALS =
     [([26032, 23458, 25143], 3), ([23458, 25143, 26723, 26696], 3), ([24405, 20837, 23458, 25143], 3), ([21019, 24314, 23458, 25143], 3), ([37319, 36141, 38656, 27714], 3), ([37319, 36141, 37096], 3),
      ([38656, 35201, 37319, 36141], 3), ([35810, 20215], 3), ([25307, 26631], 3), ([20844, 21496, 21517, 31216], 2), ([32852, 31995, 20154], 2), ([32852, 31995, 30005, 35805], 2),
      ([39044, 31639], 2), ([37319, 36141, 35745, 21010], 2), ([20379, 24212, 21830], 2), ([25253, 20215], 2), ([35746, 36141], 2), ([37319, 36141], 2),
      ([20844, 21496], 1), ([20135, 21697], 1), ([25968, 37327], 1), ([20132, 20184], 1)]"

definition MEETING_NOTE_SIGNALS :: "(pystr \<times> nat) list" where
  "MEETING_NOTE_SIGNALS =
     [([20250, 35758, 32426, 35201], 3), ([20250, 35758, 35760, 24405], 3), ([20250, 35758, 35752, 35770], 3), ([36890, 35805, 35760, 24405], 3), ([25308, 35775, 35760, 24405], 3), ([30005, 35805, 27807, 36890], 3),
      ([38754, 35848], 3), ([23458, 25143, 25308, 35775], 3), ([27807, 36890, 35760, 24405], 3), ([32426, 35201], 3), ([20250, 35758], 2), ([35752, 35770, 20102], 2),
      ([20250, 19978], 2), ([20250, 35848], 2), ([23545, 26041, 25552, 21040], 2), ([23458, 25143, 34920, 31034], 2), ([20182, 35828], 2), ([25308, 35775], 2),
      ([34920, 31034], 2), ([27807, 36890], 1), ([32842, 21040], 1), ([21453, 39304], 1), ([30830, 35748], 1), ([35760, 24405], 1)]"

definition QUERY_SIGNALS :: "(pystr \<times> nat) list" where
  "QUERY_SIGNALS =
     [([26597, 35810, 23458, 25143], 3), ([26597, 19968, 19979], 3), ([24110, 25105, 26597], 3), ([25628, 32034, 23458, 25143], 3), ([26597, 25214], 3), ([23458, 25143, 26597, 35810], 3),
      ([26597, 30475], 2), ([21015, 20986], 2), ([26377, 21738, 20123], 2), ([21738, 20123], 2), ([20160, 20040, 29366, 24577], 2), ([36827, 23637, 22914, 20309], 2),
      ([26368, 36817], 2), ([20581, 24247, 24230], 2), ([25104, 20132, 27010, 29575], 2), ([38144, 21806, 38454, 27573], 2), ([38454, 27573], 2), ([26597, 35810], 1),
      ([25628, 32034], 1), ([25214], 1), ([21738, 20010], 1), ([24590, 20040, 26679], 1), ([24773, 20917], 1), ([36827, 23637], 1)]"

definition EMAIL_DRAFT_SIGNALS :: "(pystr \<times> nat) list" where
  "EMAIL_DRAFT_SIGNALS =
     [([20889, 37038, 20214], 3), ([21457, 37038, 20214], 3), ([36215, 33609, 37038, 20214], 3), ([22238, 22797, 37038, 20214], 3), ([37038, 20214, 27169, 26495], 3), ([29983, 25104, 37038, 20214], 3),
      ([24110, 24537, 20889], 3), ([25776, 20889, 37038, 20214], 3), ([24110, 25105, 20889], 3), ([20889, 19968, 23553], 3), ([37038, 20214], 2), ([21457, 20449], 2),
      ([33268], 2), ([23562, 25964, 30340], 2), ([27492, 33268], 2), ([31614, 21517], 2), ([36215, 33609], 2), ([33609, 25311], 2),
      ([21457, 36865], 1), ([36890, 30693], 1), ([36992, 35831], 1)]"

definition REPORT_SIGNALS :: "(pystr \<times> nat) list" where
  "REPORT_SIGNALS =
     [([21608, 25253], 3), ([38144, 21806, 21608, 25253], 3), ([29983, 25104, 25253, 21578], 3), ([26376, 25253], 2), ([25253, 21578], 2), ([27719, 24635], 2),
      ([24635, 32467], 1)]"

definition PODCAST_SCRIPT_SIGNALS :: "(pystr \<times> nat) list" where
  "PODCAST_SCRIPT_SIGNALS =
     [([25773, 23458], 3), ((u ''podcast''), 3), ([21475, 25773], 2), ([33050, 26412], 2), ([26049, 30333], 1)]"

type_synonym signal_tables = "(intent, (pystr \<times> nat) list) dict"

definition SIGNAL_TABLES :: signal_tables where
  "SIGNAL_TABLES =
     [(CUSTOMER_INTAKE, CUSTOMER_INTAKE_SIGNALS), (MEETING_NOTE, MEETING_NOTE_SIGNALS), (QUERY, QUERY_SIGNALS),
      (EMAIL_DRAFT, EMAIL_DRAFT_SIGNALS), (REPORT, REPORT_SIGNALS), (PODCAST_SCRIPT, PODCAST_SCRIPT_SIGNALS)]"

section \<open>The intent router\<close>

text \<open>The constructor of \<open>IntentResult\<close>.\<close>

definition mk_intent_result :: "intent_result \<Rightarrow> intent_result res" where
  "mk_intent_result r = checked (0 \<le> ir_confidence r \<and> ir_confidence r \<le> 1) r"

definition hits :: "ucd \<Rightarrow> pystr \<Rightarrow> (pystr \<times> nat) list \<Rightarrow> (pystr \<times> nat) list" where
  "hits T text_lower signals = filter (\<lambda>(keyword, weight). py_in (u_lower T keyword) text_lower) signals"

definition intent_score :: "ucd \<Rightarrow> pystr \<Rightarrow> (pystr \<times> nat) list \<Rightarrow> nat" where
  "intent_score T text_lower signals = sum_list (map snd (hits T text_lower signals))"

text \<open>\<open>sorted(scores.items(), key=..., reverse=True)\<close> keeps the order of equal scores.\<close>

definition ranked_intents :: "ucd \<Rightarrow> signal_tables \<Rightarrow> pystr \<Rightarrow> (intent \<times> nat) list" where
  "ranked_intents T tables text_lower =
     sort_key (\<lambda>(intent, score). - int score) (map (\<lambda>(intent, signals). (intent, intent_score T text_lower signals)) tables)"

definition intent_confidence :: "(intent \<times> nat) list \<Rightarrow> rat" where
  "intent_confidence ranked =
     (let score_sum = sum_list (map snd ranked); winner_score = snd (hd ranked);
          confidence = (if 0 < score_sum then min 1 (fl (of_nat winner_score / of_nat (max score_sum 1))) else fl (1/10))
      in if 1 < length ranked \<and> 0 < snd (ranked ! 1) \<and> 0 < winner_score
         then max confidence (fl (of_nat winner_score / of_nat (winner_score + snd (ranked ! 1))))
         else confidence)"

definition alternatives_of :: "(intent \<times> nat) list \<Rightarrow> intent list" where
  "alternatives_of ranked =
     (let threshold = max 1 (fl (of_nat (snd (hd ranked)) * fl (2/5)))
      in map fst (filter (\<lambda>(intent, score). threshold \<le> of_nat score \<and> 0 < score) (tl ranked)))"

definition intent_reasoning :: "pystr list \<Rightarrow> intent list \<Rightarrow> pystr" where
  "intent_reasoning winner_hits alternatives =
     (if winner_hits \<noteq> []
      then [21629, 20013, 20851, 38190, 35789, 58, 32] @ py_join [12289] (take 5 winner_hits)
             @ (if alternatives \<noteq> [] then [65307, 22791, 36873, 24847, 22270, 58, 32] @ py_join [12289] (map (\<lambda>a. u (intent_value a)) alternatives) else [])
      else [26080, 26126, 30830, 20851, 38190, 35789, 21305, 37197, 65292, 25353, 26368, 20302, 32622, 20449, 24230, 24402, 31867])"

definition route_intent :: "ucd \<Rightarrow> signal_tables \<Rightarrow> pystr \<Rightarrow> intent_result res" where
  "route_intent T tables txt =
     (if py_strip T txt = []
      then mk_intent_result \<lparr>ir_intent = QUERY, ir_confidence = fl (1/10), ir_reasoning = [31354, 36755, 20837, 65292, 40664, 35748, 24402, 31867, 20026, 26597, 35810],
                             ir_alternative_intents = []\<rparr>
      else
        let text_lower = py_strip T (u_lower T txt);
            ranked = ranked_intents T tables text_lower
        in case ranked of
             [] \<Rightarrow> Inl IndexError
           | (winner, winner_score) # rest \<Rightarrow>
               let alternatives = alternatives_of ranked;
                   winner_hits = map fst (hits T text_lower (the (dict_get tables winner)))
               in mk_intent_result
                    \<lparr>ir_intent = winner, ir_confidence = py_round2 (intent_confidence ranked),
                     ir_reasoning = intent_reasoning winner_hits alternatives,
                     ir_alternative_intents = alternatives\<rparr>)"

definition route_batch :: "ucd \<Rightarrow> signal_tables \<Rightarrow> pystr list \<Rightarrow> intent_result list res" where
  "route_batch T tables texts = map_res (route_intent T tables) texts"

section \<open>The task router\<close>

definition TASK_REPORT_SIGNALS :: "pystr list" where
  "TASK_REPORT_SIGNALS = [[21608, 25253], [25253, 21578], [27719, 24635], [24635, 32467], [26412, 21608], (u ''weekly'')]"

definition TASK_PODCAST_SIGNALS :: "pystr list" where
  "TASK_PODCAST_SIGNALS = [[25773, 23458], (u ''podcast''), [33050, 26412], [21475, 25773]]"

definition TASK_QA_SIGNALS :: "pystr list" where
  "TASK_QA_SIGNALS =
     [[30693, 35782], [20381, 25454], [25919, 31574], (u ''SLA''), [21512, 21516], [20135, 21697], [25512, 33616], [20026, 20160, 20040], [22914, 20309], [20160, 20040, 35201, 27714], [35201, 27714], [35268, 21017]]"

definition mk_task_route :: "task_name \<Rightarrow> rat \<Rightarrow> pystr \<Rightarrow> task_route res" where
  "mk_task_route task confidence reason =
     checked (0 \<le> confidence \<and> confidence \<le> 1) \<lparr>tr_task = task, tr_confidence = confidence, tr_reason = reason\<rparr>"

definition signalled :: "ucd \<Rightarrow> pystr \<Rightarrow> pystr list \<Rightarrow> bool" where
  "signalled T v signals = list_ex (\<lambda>sig. py_in (u_lower T sig) v) signals"

definition route_task :: "ucd \<Rightarrow> pystr \<Rightarrow> intent_result option \<Rightarrow> task_route res" where
  "route_task T txt result =
     (let v = u_lower T (py_strip T txt)
      in if signalled T v TASK_REPORT_SIGNALS then mk_task_route TaskWeeklyReport (fl (9/10)) [21629, 20013, 25253, 21578, 47, 21608, 25253, 25191, 34892, 20449, 21495]
         else if signalled T v TASK_PODCAST_SIGNALS then mk_task_route TaskPodcastScript (fl (9/10)) [21629, 20013, 25773, 23458, 33050, 26412, 25191, 34892, 20449, 21495]
         else if map_option ir_intent result = Some EMAIL_DRAFT
         then mk_task_route TaskEmailDraft (max (fl (7/10)) (ir_confidence (the result))) [37038, 20214, 24847, 22270, 26144, 23556, 21040, 37038, 20214, 33609, 31295, 20219, 21153]
         else if signalled T v TASK_QA_SIGNALS then mk_task_route TaskQa (3/4) [21629, 20013, 30693, 35782, 38382, 31572, 25191, 34892, 20449, 21495]
         else if map_option ir_intent result \<in> {Some CUSTOMER_INTAKE, Some MEETING_NOTE}
         then mk_task_route TaskSalesAnalysis (max (fl (7/10)) (ir_confidence (the result))) [38144, 21806, 36755, 20837, 26144, 23556, 21040, 38144, 21806, 20998, 26512, 20219, 21153]
         else mk_task_route TaskSalesAnalysis (fl (13/20)) [40664, 35748, 36827, 20837, 38144, 21806, 20998, 26512, 20219, 21153])"

section \<open>What the routers guarantee\<close>

lemma intent_confidence_unit:
  assumes "ranked \<noteq> []"
  shows "0 \<le> intent_confidence ranked \<and> intent_confidence ranked \<le> 1"
proof -
  have part: "0 \<le> fl (of_nat a / of_nat b) \<and> fl (of_nat a / of_nat b) \<le> 1" if "a \<le> b" for a b :: nat
    using that by (intro fl_unit) (simp_all add: divide_le_eq)
  define w where "w = snd (hd ranked)"
  define t where "t = sum_list (map snd ranked)"
  define c where "c = (if 0 < t then min 1 (fl (of_nat w / of_nat (max t 1))) else fl (1/10))"
  define d where "d = fl (of_nat w / of_nat (w + snd (ranked ! 1)))"
  have "w \<le> t" using assms unfolding w_def t_def by (cases ranked) auto
  then have "0 \<le> fl (of_nat w / of_nat (max t 1))" using part[of w "max t 1"] by simp
  moreover have "0 \<le> fl (1/10) \<and> fl (1/10) \<le> 1" by (rule fl_unit) simp_all
  ultimately have "0 \<le> c \<and> c \<le> 1" by (auto simp: c_def max_def split: if_splits)
  moreover have "0 \<le> d \<and> d \<le> 1" unfolding d_def by (rule part) simp
  ultimately show ?thesis
    unfolding intent_confidence_def Let_def w_def[symmetric] t_def[symmetric] c_def[symmetric] d_def[symmetric]
    by (simp add: le_max_iff_disj)
qed

lemma ranked_head:
  assumes "ranked_intents T tables v = (winner, score) # rest"
  shows "\<forall>(intent, signals) \<in> set tables. intent_score T v signals \<le> score"
    and "\<exists>signals. (winner, signals) \<in> set tables \<and> score = intent_score T v signals"
proof -
  let ?xs = "map (\<lambda>(intent, signals). (intent, intent_score T v signals)) tables"
  have set: "set ((winner, score) # rest) = set ?xs" using assms unfolding ranked_intents_def by (metis set_sort)
  have "sorted (map (\<lambda>(intent, score). - int score) ((winner, score) # rest))"
    using assms unfolding ranked_intents_def by (metis sorted_sort_key)
  then have "\<forall>x \<in> set ?xs. snd x \<le> score" unfolding set[symmetric] by auto
  then show "\<forall>(intent, signals) \<in> set tables. intent_score T v signals \<le> score" by fastforce
  have "(winner, score) \<in> set ?xs" using set by (metis list.set_intros(1))
  then show "\<exists>signals. (winner, signals) \<in> set tables \<and> score = intent_score T v signals" by auto
qed

lemma route_intent_Inr:
  assumes "tables \<noteq> []"
  obtains r where "route_intent T tables txt = Inr r" "0 \<le> ir_confidence r" "ir_confidence r \<le> 1"
    "py_strip T txt \<noteq> [] \<longrightarrow> (\<exists>winner_signals. (ir_intent r, winner_signals) \<in> set tables
       \<and> (\<forall>(intent, signals) \<in> set tables. intent_score T (py_strip T (u_lower T txt)) signals
             \<le> intent_score T (py_strip T (u_lower T txt)) winner_signals))"
proof (cases "py_strip T txt = []")
  case True
  have "0 \<le> fl (1/10) \<and> fl (1/10) \<le> 1" by (rule fl_unit) simp_all
  then show thesis using True that by (simp add: route_intent_def mk_intent_result_def checked_def)
next
  case False
  let ?v = "py_strip T (u_lower T txt)"
  have "length (ranked_intents T tables ?v) = length tables" by (simp add: ranked_intents_def)
  then obtain winner score rest where r: "ranked_intents T tables ?v = (winner, score) # rest"
    using assms by (cases "ranked_intents T tables ?v") auto
  let ?c = "py_round2 (intent_confidence ((winner, score) # rest))"
  have c: "0 \<le> ?c" "?c \<le> 1"
    using py_round2_unit intent_confidence_unit[of "(winner, score) # rest"] by simp_all
  have "\<exists>x. route_intent T tables txt = Inr x \<and> ir_intent x = winner \<and> ir_confidence x = ?c"
    using False r c by (simp add: route_intent_def mk_intent_result_def checked_def Let_def)
  then obtain x where x: "route_intent T tables txt = Inr x" "ir_intent x = winner" "ir_confidence x = ?c" by blast
  obtain signals where s: "(winner, signals) \<in> set tables" "score = intent_score T ?v signals" using ranked_head(2)[OF r] by blast
  show thesis
  proof (rule that[OF x(1)])
    show "py_strip T txt \<noteq> [] \<longrightarrow> (\<exists>winner_signals. (ir_intent x, winner_signals) \<in> set tables
       \<and> (\<forall>(intent, signals) \<in> set tables. intent_score T ?v signals \<le> intent_score T ?v winner_signals))"
      using s ranked_head(1)[OF r] x(2) by blast
  qed (use x c in simp_all)
qed

lemma route_task_Inr:
  assumes "\<forall>r \<in> set_option result. 0 \<le> ir_confidence r \<and> ir_confidence r \<le> 1"
  shows "\<exists>route. route_task T txt result = Inr route \<and> 0 \<le> tr_confidence route \<and> tr_confidence route \<le> 1
    \<and> tr_task route =
       (let v = u_lower T (py_strip T txt); intent = map_option ir_intent result
        in if signalled T v TASK_REPORT_SIGNALS then TaskWeeklyReport
           else if signalled T v TASK_PODCAST_SIGNALS then TaskPodcastScript
           else if intent = Some EMAIL_DRAFT then TaskEmailDraft
           else if signalled T v TASK_QA_SIGNALS then TaskQa else TaskSalesAnalysis)"
proof -
  have "0 \<le> fl (9/10) \<and> fl (9/10) \<le> 1" "0 \<le> fl (7/10) \<and> fl (7/10) \<le> 1" "0 \<le> fl (13/20) \<and> fl (13/20) \<le> 1"
    by (intro fl_unit; simp)+
  then show ?thesis using assms by (cases result) (auto simp: route_task_def mk_task_route_def checked_def Let_def)
qed

text \<open>
  C38: routing always answers. For every text the intent router answers an intent with a confidence
  within 0 and 1, and for a text that is not blank no intent of the tables scores higher than the
  chosen one; the task router answers for this intent, reports before podcasts before e-mail drafts
  before questions, and everything else is sales analysis.
\<close>

theorem routing_total:
  "\<exists>r route. route_intent T SIGNAL_TABLES txt = Inr r \<and> 0 \<le> ir_confidence r \<and> ir_confidence r \<le> 1
    \<and> (py_strip T txt = [] \<or> (\<exists>winner_signals. dict_get SIGNAL_TABLES (ir_intent r) = Some winner_signals
         \<and> list_all (\<lambda>signals. intent_score T (py_strip T (u_lower T txt)) signals
             \<le> intent_score T (py_strip T (u_lower T txt)) winner_signals) (dict_values SIGNAL_TABLES)))
    \<and> route_task T txt (Some r) = Inr route \<and> 0 \<le> tr_confidence route \<and> tr_confidence route \<le> 1
    \<and> tr_task route =
       (let v = u_lower T (py_strip T txt)
        in if signalled T v TASK_REPORT_SIGNALS then TaskWeeklyReport
           else if signalled T v TASK_PODCAST_SIGNALS then TaskPodcastScript
           else if ir_intent r = EMAIL_DRAFT then TaskEmailDraft
           else if signalled T v TASK_QA_SIGNALS then TaskQa else TaskSalesAnalysis)"
proof -
  obtain r where r: "route_intent T SIGNAL_TABLES txt = Inr r" "0 \<le> ir_confidence r" "ir_confidence r \<le> 1"
    "py_strip T txt \<noteq> [] \<longrightarrow> (\<exists>winner_signals. (ir_intent r, winner_signals) \<in> set SIGNAL_TABLES
       \<and> (\<forall>(intent, signals) \<in> set SIGNAL_TABLES. intent_score T (py_strip T (u_lower T txt)) signals
             \<le> intent_score T (py_strip T (u_lower T txt)) winner_signals))"
    by (rule route_intent_Inr[of SIGNAL_TABLES T "txt"]) (simp add: SIGNAL_TABLES_def)
  have "dict_ok SIGNAL_TABLES" by (simp add: SIGNAL_TABLES_def)
  then have get: "dict_get SIGNAL_TABLES k = Some v \<longleftrightarrow> (k, v) \<in> set SIGNAL_TABLES" for k v by (rule dict_get_items)
  have "\<exists>route. route_task T txt (Some r) = Inr route \<and> 0 \<le> tr_confidence route \<and> tr_confidence route \<le> 1
    \<and> tr_task route =
       (let v = u_lower T (py_strip T txt); intent = map_option ir_intent (Some r)
        in if signalled T v TASK_REPORT_SIGNALS then TaskWeeklyReport
           else if signalled T v TASK_PODCAST_SIGNALS then TaskPodcastScript
           else if intent = Some EMAIL_DRAFT then TaskEmailDraft
           else if signalled T v TASK_QA_SIGNALS then TaskQa else TaskSalesAnalysis)"
    by (rule route_task_Inr) (simp add: r)
  moreover have "py_strip T txt = [] \<or> (\<exists>winner_signals. dict_get SIGNAL_TABLES (ir_intent r) = Some winner_signals
         \<and> list_all (\<lambda>signals. intent_score T (py_strip T (u_lower T txt)) signals
             \<le> intent_score T (py_strip T (u_lower T txt)) winner_signals) (dict_values SIGNAL_TABLES))"
    unfolding get list_all_iff using r(4) by fastforce
  ultimately show ?thesis using r(1,2,3) by (simp add: Let_def cong: if_cong)
qed

end
