(* ===== verification/Policy_Normalization.thy ===== *)
theory Policy_Normalization
  imports Policy_Types
begin

text \<open>
  \<open>policy/normalization.py\<close>: the normalized text that the detectors and the stance resolver
  read, its compact form, and the offset maps between them. As in the code, a normalized
  "character" is the string that lower-casing one character gives, which may be longer than
  one code point; the two texts are the concatenations.
\<close>

record normalized_policy_text =
  npt_raw :: pystr
  npt_normalized :: pystr
  npt_compact :: pystr
  npt_normalized_to_raw :: "nat list"
  npt_compact_to_normalized :: "nat list"

definition ZERO_WIDTH :: "nat list" where
  "ZERO_WIDTH = [0x200b, 0x200c, 0x200d, 0x2060, 0xfeff]"

text \<open>\<open>str.translate\<close> with the table of the full-width punctuation.\<close>

definition PUNCTUATION :: "(nat, nat) dict" where
  "PUNCTUATION = [(0xff0c, 44), (0x3002, 46), (0xff01, 33), (0xff1f, 63), (0xff1b, 59),
     (0xff1a, 58), (0xff08, 40), (0xff09, 41)]"

definition translate_punctuation :: "pystr \<Rightarrow> pystr" where
  "translate_punctuation = map (\<lambda>c. case dict_get PUNCTUATION c of None \<Rightarrow> c | Some d \<Rightarrow> d)"

definition COMPACT_SEPARATORS :: "pystr list" where
  "COMPACT_SEPARATORS = [[32], [9], [13], [10], [0xb7], [0x30fb], [95]]"

text \<open>The inner loop over the NFKC form of one raw character.\<close>

fun expand_character :: "ucd \<Rightarrow> nat \<Rightarrow> pystr \<Rightarrow> (pystr \<times> nat) list" where
  "expand_character T raw_index [] = []"
| "expand_character T raw_index (c # cs) =
     (if c \<in> set ZERO_WIDTH then expand_character T raw_index cs
      else (translate_punctuation (u_lower T [if u_category_c T c then 32 else c]), raw_index)
             # expand_character T raw_index cs)"

fun expand_text :: "ucd \<Rightarrow> nat \<Rightarrow> pystr \<Rightarrow> (pystr \<times> nat) list" where
  "expand_text T raw_index [] = []"
| "expand_text T raw_index (c # cs) =
     expand_character T raw_index (u_nfkc T [c]) @ expand_text T (Suc raw_index) cs"

text \<open>The loop that collapses runs of white space and drops leading white space.\<close>

fun collapse_spaces :: "ucd \<Rightarrow> bool \<Rightarrow> (pystr \<times> nat) list \<Rightarrow> (pystr \<times> nat) list" where
  "collapse_spaces T previous_space [] = []"
| "collapse_spaces T previous_space ((ch, i) # rest) =
     (if py_isspace T ch
      then (if previous_space then collapse_spaces T previous_space rest
            else ([32], i) # collapse_spaces T True rest)
      else (ch, i) # collapse_spaces T False rest)"

definition drop_final_space :: "(pystr \<times> nat) list \<Rightarrow> (pystr \<times> nat) list" where
  "drop_final_space cs = (if cs \<noteq> [] \<and> fst (last cs) = [32] then butlast cs else cs)"

text \<open>The loop that builds the compact text: characters with their index in the list of
  normalized characters.\<close>

fun compact_characters :: "nat \<Rightarrow> pystr list \<Rightarrow> (pystr \<times> nat) list" where
  "compact_characters i [] = []"
| "compact_characters i (ch # cs) =
     (if ch \<in> set COMPACT_SEPARATORS then compact_characters (Suc i) cs
      else (ch, i) # compact_characters (Suc i) cs)"

definition normalize_characters :: "ucd \<Rightarrow> pystr \<Rightarrow> (pystr \<times> nat) list" where
  "normalize_characters T raw = drop_final_space (collapse_spaces T True (expand_text T 0 raw))"

definition normalize_policy_text :: "ucd \<Rightarrow> pystr \<Rightarrow> normalized_policy_text" where
  "normalize_policy_text T value =
     (let raw = (if length value > 20000 then take 20000 value else value);
          cs = normalize_characters T raw;
          compact = compact_characters 0 (map fst cs)
      in \<lparr>npt_raw = raw,
          npt_normalized = concat (map fst cs),
          npt_compact = concat (map fst compact),
          npt_normalized_to_raw = map snd cs,
          npt_compact_to_normalized = map snd compact\<rparr>)"

section \<open>Invariants of the normalized text\<close>

text \<open>\<open>single_chars\<close>: every normalized character is one code point.\<close>

abbreviation single_chars :: "(pystr \<times> nat) list \<Rightarrow> bool" where
  "single_chars cs \<equiv> list_all (\<lambda>c. length (fst c) = 1) cs"

lemma length_concat_single: "single_chars cs \<Longrightarrow> length (concat (map fst cs)) = length cs"
  by (induction cs) auto

lemma nth_concat_single:
  "single_chars cs \<Longrightarrow> i < length cs \<Longrightarrow> [concat (map fst cs) ! i] = fst (cs ! i)"
proof (induction cs arbitrary: i)
  case (Cons c cs)
  then show ?case by (cases i) (auto simp: length_Suc_conv nth_append)
qed simp

lemma translate_punctuation_length [simp]: "length (translate_punctuation s) = length s"
  by (simp add: translate_punctuation_def)

text \<open>
  Lower-casing gives one code point for each character of the text: true of every character
  of the Unicode database but U+0130.
\<close>

definition lower_single :: "ucd \<Rightarrow> pystr \<Rightarrow> bool" where
  "lower_single T raw \<longleftrightarrow>
     list_all (\<lambda>r. list_all (\<lambda>c. length (u_lower T [if u_category_c T c then 32 else c]) = 1)
        (u_nfkc T [r])) raw"

lemma expand_character_single:
  "list_all (\<lambda>c. length (u_lower T [if u_category_c T c then 32 else c]) = 1) s \<Longrightarrow>
     single_chars (expand_character T i s)"
  by (induction s) auto

lemma expand_text_single: "lower_single T s \<Longrightarrow> single_chars (expand_text T i s)"
  by (induction s arbitrary: i)
    (auto simp: lower_single_def list_all_append intro!: expand_character_single simp del: One_nat_def)

lemma collapse_spaces_single: "single_chars cs \<Longrightarrow> single_chars (collapse_spaces T p cs)"
  by (induction T p cs rule: collapse_spaces.induct) auto

lemma drop_final_space_single: "single_chars cs \<Longrightarrow> single_chars (drop_final_space cs)"
  by (auto simp: drop_final_space_def list_all_iff dest: in_set_butlastD)

lemma normalize_characters_single:
  "lower_single T raw \<Longrightarrow> single_chars (normalize_characters T raw)"
  unfolding normalize_characters_def
  by (intro drop_final_space_single collapse_spaces_single expand_text_single)

lemma compact_characters_single:
  "list_all (\<lambda>c. length c = 1) cs \<Longrightarrow> single_chars (compact_characters i cs)"
  by (induction i cs rule: compact_characters.induct) auto

lemma compact_characters_nth:
  "(ch, k) \<in> set (compact_characters i cs) \<Longrightarrow>
     i \<le> k \<and> k < i + length cs \<and> cs ! (k - i) = ch \<and> ch \<notin> set COMPACT_SEPARATORS"
proof (induction i cs rule: compact_characters.induct)
  case (2 i ch' cs)
  show ?case
  proof (cases "(ch, k) = (ch', i) \<and> ch' \<notin> set COMPACT_SEPARATORS")
    case False
    with "2.prems" have m: "(ch, k) \<in> set (compact_characters (Suc i) cs)"
      by (auto split: if_splits)
    have "Suc i \<le> k \<and> k < Suc i + length cs \<and> cs ! (k - Suc i) = ch \<and> ch \<notin> set COMPACT_SEPARATORS"
      using "2.IH" m by (cases "ch' \<in> set COMPACT_SEPARATORS") auto
    then show ?thesis by (auto simp: nth_Cons')
  qed auto
qed simp

lemma compact_characters_sorted: "sorted_wrt (<) (map snd (compact_characters i cs))"
proof (induction i cs rule: compact_characters.induct)
  case (2 i ch cs)
  then show ?case
    by (cases "ch \<in> set COMPACT_SEPARATORS")
       (auto dest: compact_characters_nth)
qed simp

lemma expand_character_index: "x \<in> set (expand_character T i s) \<Longrightarrow> snd x = i"
  by (induction s) (auto split: if_splits)

lemma expand_text_index: "x \<in> set (expand_text T i s) \<Longrightarrow> i \<le> snd x \<and> snd x < i + length s"
proof (induction s arbitrary: i)
  case (Cons c cs)
  from Cons.prems consider "x \<in> set (expand_character T i (u_nfkc T [c]))"
    | "x \<in> set (expand_text T (Suc i) cs)" by auto
  then show ?case
  proof cases
    case 1 then show ?thesis by (auto dest: expand_character_index)
  next
    case 2 then show ?thesis using Cons.IH[of "Suc i"] by simp
  qed
qed simp

lemma expand_character_sorted: "sorted (map snd (expand_character T i s))"
  by (induction s) (auto dest: expand_character_index)

lemma expand_text_sorted: "sorted (map snd (expand_text T i s))"
proof (induction s arbitrary: i)
  case (Cons c cs)
  show ?case
    using Cons[of "Suc i"] expand_character_sorted[of T i "u_nfkc T [c]"]
    by (fastforce simp: sorted_append dest: expand_character_index expand_text_index)
qed simp

lemma collapse_spaces_subseq: "subseq (map snd (collapse_spaces T p cs)) (map snd cs)"
  by (induction T p cs rule: collapse_spaces.induct) auto

lemma drop_final_space_subseq: "subseq (map snd (drop_final_space cs)) (map snd cs)"
  unfolding drop_final_space_def
  by (cases cs rule: rev_cases) auto

lemma normalize_characters_subseq:
  "subseq (map snd (normalize_characters T raw)) (map snd (expand_text T 0 raw))"
  unfolding normalize_characters_def
  by (rule subseq_order.trans[OF drop_final_space_subseq collapse_spaces_subseq])

text \<open>
  What \<open>normalize_policy_text\<close> gives the detectors when lower-casing keeps characters single:
  one entry of \<open>compact_to_normalized\<close> for each compact character, and a position below the
  length of the normalized text in it.
\<close>

definition offsets_ok :: "normalized_policy_text \<Rightarrow> bool" where
  "offsets_ok text \<longleftrightarrow>
     length (npt_compact_to_normalized text) = length (npt_compact text)
     \<and> length (npt_normalized_to_raw text) = length (npt_normalized text)
     \<and> sorted_wrt (<) (npt_compact_to_normalized text)
     \<and> (\<forall>j < length (npt_compact text).
          npt_compact_to_normalized text ! j < length (npt_normalized text)
          \<and> npt_compact text ! j = npt_normalized text ! (npt_compact_to_normalized text ! j))"

lemma normalize_offsets_ok:
  assumes "lower_single T (take 20000 text)"
  shows "offsets_ok (normalize_policy_text T text)"
proof -
  let ?cs = "normalize_characters T (take 20000 text)"
  let ?comp = "compact_characters 0 (map fst ?cs)"
  have raw: "(if length text > 20000 then take 20000 text else text) = take 20000 text" by simp
  have s1: "single_chars ?cs" by (rule normalize_characters_single[OF assms])
  then have s2: "single_chars ?comp"
    by (intro compact_characters_single) (simp add: list_all_iff)
  have "map snd ?comp ! j < length ?cs \<and>
      concat (map fst ?comp) ! j = concat (map fst ?cs) ! (map snd ?comp ! j)" if j: "j < length ?comp" for j
  proof -
    obtain ch k where c: "?comp ! j = (ch, k)" by fastforce
    then have "(ch, k) \<in> set ?comp" using j by (metis nth_mem)
    from compact_characters_nth[OF this] have k: "k < length ?cs" "map fst ?cs ! k = ch" by auto
    have "[concat (map fst ?comp) ! j] = ch" "[concat (map fst ?cs) ! k] = ch"
      using nth_concat_single[OF s2 j] nth_concat_single[OF s1 k(1)] c k by simp_all
    then have "concat (map fst ?comp) ! j = concat (map fst ?cs) ! k"
      by (rule list.inject[THEN iffD1, THEN conjunct1, OF trans[OF _ sym]])
    moreover have "map snd ?comp ! j = k" using c j by simp
    ultimately show ?thesis using k(1) by simp
  qed
  then show ?thesis
    unfolding offsets_ok_def normalize_policy_text_def Let_def raw
    using length_concat_single[OF s1] length_concat_single[OF s2] compact_characters_sorted
    by simp
qed

text \<open>
  The offset map into the raw text: it grows along the normalized text and stays inside the
  raw text, so every evidence span can be shown to the user at its place.
\<close>

lemma normalized_to_raw_ok:
  "sorted (npt_normalized_to_raw (normalize_policy_text T text))
   \<and> (\<forall>i \<in> set (npt_normalized_to_raw (normalize_policy_text T text)). i < min 20000 (length text))"
proof -
  let ?raw = "take 20000 text"
  have raw: "(if length text > 20000 then ?raw else text) = ?raw" by simp
  note sub = normalize_characters_subseq[of T ?raw]
  have "sorted (map snd (normalize_characters T ?raw))"
    using sub expand_text_sorted by (metis subseq_conv_nths sorted_nths)
  moreover have "i < length ?raw" if "i \<in> set (map snd (normalize_characters T ?raw))" for i
  proof -
    have "i \<in> set (map snd (expand_text T 0 ?raw))"
      using that sub by (metis subseq_conv_nths notin_set_nthsI)
    then show ?thesis by (auto dest: expand_text_index)
  qed
  ultimately show ?thesis
    unfolding normalize_policy_text_def Let_def raw by (simp add: min.commute)
qed

section \<open>Characters that cannot be seen\<close>

text \<open>Only the characters matter to the texts, not where they came from.\<close>

fun collapse_only :: "ucd \<Rightarrow> bool \<Rightarrow> pystr list \<Rightarrow> pystr list" where
  "collapse_only T p [] = []"
| "collapse_only T p (ch # rest) =
     (if py_isspace T ch then (if p then collapse_only T p rest else [32] # collapse_only T True rest)
      else ch # collapse_only T False rest)"

lemma collapse_spaces_fst: "map fst (collapse_spaces T p cs) = collapse_only T p (map fst cs)"
  by (induction T p cs rule: collapse_spaces.induct) auto

lemma drop_final_space_fst:
  "map fst (drop_final_space cs) =
     (if cs \<noteq> [] \<and> last (map fst cs) = [32] then butlast (map fst cs) else map fst cs)"
  by (cases cs rule: rev_cases) (simp_all add: drop_final_space_def map_butlast)

lemma normalize_characters_fst:
  "map fst (expand_text T 0 s) = map fst (expand_text T 0 t) \<Longrightarrow>
     map fst (normalize_characters T s) = map fst (normalize_characters T t)"
  unfolding normalize_characters_def drop_final_space_fst collapse_spaces_fst
  by (metis collapse_spaces_fst map_is_Nil_conv)

lemma expand_character_fst: "map fst (expand_character T i s) = map fst (expand_character T j s)"
  by (induction s) auto

lemma expand_text_fst: "map fst (expand_text T i s) = map fst (expand_text T j s)"
  by (induction s arbitrary: i j) (simp_all, metis expand_character_fst)

lemma expand_text_append:
  "expand_text T i (s @ t) = expand_text T i s @ expand_text T (i + length s) t"
  by (induction s arbitrary: i) auto

lemma expand_text_zero_width:
  assumes "z \<in> set ZERO_WIDTH" "u_nfkc T [z] = [z]"
  shows "map fst (expand_text T i (s @ [z] @ t)) = map fst (expand_text T i (s @ t))"
  using assms expand_text_fst[of T "i + length s + 1" t "i + length s"]
  by (simp add: expand_text_append)

text \<open>The part of the normalized text that a decision can depend on.\<close>

definition visible_part :: "normalized_policy_text \<Rightarrow> pystr \<times> pystr \<times> nat list" where
  "visible_part nt = (npt_normalized nt, npt_compact nt, npt_compact_to_normalized nt)"

lemma visible_part_zero_width:
  assumes "z \<in> set ZERO_WIDTH" "u_nfkc T [z] = [z]" "length (s @ t) < 20000"
  shows "visible_part (normalize_policy_text T (s @ [z] @ t)) = visible_part (normalize_policy_text T (s @ t))"
  using normalize_characters_fst[OF expand_text_zero_width[OF assms(1,2), of 0 s t]] assms(3)
  by (simp add: visible_part_def normalize_policy_text_def Let_def)

end
