(* ===== verification/Policy_Catalog.thy ===== *)
theory Policy_Catalog
  imports Policy_Types
begin

text \<open>
  The versioned catalogs: \<open>policy/rules.py\<close>, \<open>policy/catalogs/stance_patterns_zh_v1.py\<close>,
  \<open>policy/catalogs/resolution_thresholds_v1.py\<close> and the response texts of
  \<open>policy/templates.py\<close>. The Chinese literals are written as their code points.
\<close>

definition RISK_CATALOG_VERSION :: string where
  "RISK_CATALOG_VERSION = ''business_risk_catalog_v1''"

definition literals :: "bool \<Rightarrow> pystr list \<Rightarrow> risk_detector_spec list" where
  "literals as_compact patterns =
     (let matcher = (if as_compact then CompactLiteral else NormalizedLiteral)
      in map (\<lambda>pattern. \<lparr>ds_pattern = pattern, ds_matcher_type = matcher\<rparr>) patterns)"

definition BUSINESS_RISK_RULES :: "risk_rule list" where
  "BUSINESS_RISK_RULES = [
   \<lparr>rr_rule_id = ''privacy_overreach.private_customer_data'',
     rr_category = PRIVACY_OVERREACH, rr_action = REQUEST_PRIVATE_CUSTOMER_DATA,
     rr_severity = CRITICAL, rr_status_hint = BLOCKED,
     rr_detectors = literals False [
       [31169, 20154, 20303, 22336], [23478, 24237, 20303, 22336],
       [31169, 20154, 25163, 26426, 21495], [31169, 20154, 32852, 31995, 26041, 24335],
       [23478, 24237, 25104, 21592], [23478, 24237, 25910, 20837],
       [31169, 20154, 36130, 21153, 29366, 20917], [20010, 20154, 38134, 34892, 27969, 27700]],
     rr_priority = 100,
     rr_reason = [
       35831, 27714, 28041, 21450, 23458, 25143, 38544, 31169, 25110, 36234, 26435, 26597,
       35810, 12290],
     rr_enabled = True\<rparr>,
   \<lparr>rr_rule_id = ''sensitive_attribute_inference.private_attribute'',
     rr_category = SENSITIVE_ATTRIBUTE_INFERENCE, rr_action = INFER_SENSITIVE_ATTRIBUTE,
     rr_severity = CRITICAL, rr_status_hint = BLOCKED,
     rr_detectors = literals False [
       [23447, 25945, 20449, 20208], [25919, 27835, 20542, 21521],
       [26063, 32676, 36523, 20221], [23478, 24237, 25910, 20837],
       [31169, 20154, 36130, 21153, 29366, 20917]],
     rr_priority = 98,
     rr_reason = [
       35831, 27714, 28041, 21450, 25935, 24863, 20010, 20154, 23646, 24615, 25512, 26029, 12290],
     rr_enabled = True\<rparr>,
   \<lparr>rr_rule_id = ''legal_financial_final_judgment.absolute_legal'',
     rr_category = LEGAL_FINANCIAL_FINAL_JUDGMENT, rr_action = MAKE_FINAL_LEGAL_JUDGMENT,
     rr_severity = HIGH, rr_status_hint = BLOCKED,
     rr_detectors = literals False [
       [19968, 23450, 21512, 27861], [32477, 23545, 27809, 26377, 27861, 24459, 39118, 38505],
       [27809, 26377, 27861, 24459, 39118, 38505],
       [21512, 21516, 32477, 23545, 27809, 39118, 38505]],
     rr_priority = 96,
     rr_reason = [
       35831, 27714, 35201, 27714, 20195, 26367, 19987, 19994, 20154, 21592, 20316, 20986,
       26368, 32456, 27861, 24459, 21028, 26029, 12290],
     rr_enabled = True\<rparr>,
   \<lparr>rr_rule_id = ''legal_financial_final_judgment.guaranteed_return'',
     rr_category = LEGAL_FINANCIAL_FINAL_JUDGMENT, rr_action = GUARANTEE_FINANCIAL_RETURN,
     rr_severity = HIGH, rr_status_hint = BLOCKED,
     rr_detectors = literals False [
       [20445, 35777, 25910, 30410], [31283, 36186, 19981, 36180], [32477, 23545, 30408, 21033]],
     rr_priority = 95,
     rr_reason = [
       35831, 27714, 28041, 21450, 19981, 21463, 25903, 25345, 30340, 36130, 21153, 25910,
       30410, 20445, 35777, 12290],
     rr_enabled = True\<rparr>,
   \<lparr>rr_rule_id = ''sales_misrepresentation.absolute_delivery'',
     rr_category = SALES_MISREPRESENTATION, rr_action = MAKE_ABSOLUTE_DELIVERY_COMMITMENT,
     rr_severity = HIGH, rr_status_hint = BLOCKED,
     rr_detectors = literals True [
       [49, 48, 48, 37, 20132, 20184], [30334, 20998, 20043, 30334, 20132, 20184],
       [30334, 20998, 30334, 20132, 20184], [32477, 19981, 20250, 24310, 26399],
       [30334, 20998, 20043, 30334, 25353, 26399, 20132, 20184]],
     rr_priority = 94,
     rr_reason = [
       35831, 27714, 28041, 21450, 26080, 27861, 35777, 23454, 30340, 32477, 23545, 20132,
       20184, 25215, 35834, 12290],
     rr_enabled = True\<rparr>,
   \<lparr>rr_rule_id = ''sales_misrepresentation.guaranteed_outcome'',
     rr_category = SALES_MISREPRESENTATION, rr_action = GUARANTEE_SALES_OUTCOME,
     rr_severity = HIGH, rr_status_hint = BLOCKED,
     rr_detectors = literals False [
       [20445, 35777, 19968, 23450, 20013, 26631], [20445, 35777, 20013, 26631],
       [19968, 23450, 20013, 26631]],
     rr_priority = 93,
     rr_reason = [
       35831, 27714, 28041, 21450, 26080, 27861, 35777, 23454, 30340, 38144, 21806, 32467,
       26524, 20445, 35777, 12290],
     rr_enabled = True\<rparr>,
   \<lparr>rr_rule_id = ''unsupported_business_claim.fabricated_case'',
     rr_category = UNSUPPORTED_BUSINESS_CLAIM, rr_action = FABRICATE_CUSTOMER_CASE,
     rr_severity = HIGH, rr_status_hint = BLOCKED,
     rr_detectors = literals False [
       [32534, 36896, 19968, 20010, 25104, 21151, 26696, 20363],
       [32534, 36896, 23458, 25143, 26696, 20363], [32534, 36896, 26696, 20363],
       [34394, 26500, 19968, 20010, 26631, 26438, 23458, 25143],
       [34394, 26500, 19968, 20010, 25104, 21151, 26696, 20363],
       [34394, 26500, 23458, 25143, 26696, 20363],
       [32534, 19968, 20010, 23458, 25143, 26696, 20363],
       [32534, 19968, 20010, 25104, 21151, 26696, 20363], [32534, 19968, 20010, 26696, 20363],
       [24110, 25105, 32534, 19968, 20010], [20551, 35013, 25105, 20204, 20570, 36807],
       [38543, 20415, 20889, 19968, 20010, 23458, 25143, 26696, 20363]],
     rr_priority = 92,
     rr_reason = [
       35831, 27714, 28041, 21450, 32534, 36896, 23458, 25143, 26696, 20363, 25110, 19994,
       21153, 20107, 23454, 12290],
     rr_enabled = True\<rparr>,
   \<lparr>rr_rule_id = ''unsupported_business_claim.fabricated_inventory'',
     rr_category = UNSUPPORTED_BUSINESS_CLAIM, rr_action = FABRICATE_INVENTORY,
     rr_severity = HIGH, rr_status_hint = BLOCKED,
     rr_detectors = literals False [
       [20551, 35013, 25105, 20204, 30446, 21069, 26377, 20805, 36275, 24211, 23384],
       [20551, 35013, 26377, 24211, 23384], [32534, 36896, 24211, 23384],
       [26410, 30830, 35748, 24211, 23384, 20889, 25104, 20107, 23454]],
     rr_priority = 91,
     rr_reason = [
       35831, 27714, 28041, 21450, 32534, 36896, 24211, 23384, 20107, 23454, 12290],
     rr_enabled = True\<rparr>,
   \<lparr>rr_rule_id = ''unsupported_business_claim.fabricated_certification'',
     rr_category = UNSUPPORTED_BUSINESS_CLAIM, rr_action = FABRICATE_CERTIFICATION,
     rr_severity = HIGH, rr_status_hint = BLOCKED,
     rr_detectors = literals False [
       [27809, 26377, 35777, 25454, 20063, 20889, 25104, 24050, 32463, 33719, 24471, 35748, 35777],
       [32534, 36896, 35748, 35777], [34394, 26500, 35748, 35777]],
     rr_priority = 90,
     rr_reason = [
       35831, 27714, 28041, 21450, 32534, 36896, 35748, 35777, 20107, 23454, 12290],
     rr_enabled = True\<rparr>,
   \<lparr>rr_rule_id = ''unsupported_business_claim.fabricated_delivery_record'',
     rr_category = UNSUPPORTED_BUSINESS_CLAIM, rr_action = FABRICATE_DELIVERY_RECORD,
     rr_severity = HIGH, rr_status_hint = BLOCKED,
     rr_detectors = literals False [
       [32534, 36896, 20132, 20184, 35760, 24405], [34394, 26500, 20132, 20184, 35760, 24405]],
     rr_priority = 89,
     rr_reason = [
       35831, 27714, 28041, 21450, 32534, 36896, 20132, 20184, 35760, 24405, 12290],
     rr_enabled = True\<rparr>,
   \<lparr>rr_rule_id = ''business_uncertain.confirmation_required'',
     rr_category = BUSINESS_UNCERTAIN, rr_action = REQUEST_BUSINESS_CONFIRMATION,
     rr_severity = MEDIUM, rr_status_hint = UNCERTAIN,
     rr_detectors = literals False [
       [21512, 21516, 26377, 21738, 20123, 38656, 35201, 27861, 21153, 30830, 35748],
       [21512, 21516, 39118, 38505, 28857],
       [27861, 21153, 30830, 35748, 30340, 39118, 38505, 28857],
       [24211, 23384, 23578, 26410, 30830, 35748], [24211, 23384, 19981, 30830, 23450],
       [20132, 20184, 21608, 26399, 38656, 35201, 20379, 24212, 38142, 36827, 19968, 27493, 30830, 35748],
       [23458, 25143, 25968, 25454, 29992, 20110, 33829, 38144, 26159, 21542, 38656, 35201, 36827, 19968, 27493, 30830, 35748],
       [36825, 20010, 25215, 35834, 26159, 21542, 21512, 36866],
       [34920, 36848, 20013, 25552, 21040, 20102, 23458, 25143, 26696, 20363],
       [115, 108, 97, 26465, 27454, 26159, 21542, 38656, 35201, 36827, 19968, 27493, 30830, 35748],
       [20132, 20184, 21608, 26399, 27604, 36739, 32039], [20132, 20184, 21608, 26399, 32039]],
     rr_priority = 60,
     rr_reason = [
       35813, 19994, 21153, 32467, 35770, 38656, 35201, 36827, 19968, 27493, 35777, 25454,
       25110, 25480, 26435, 30830, 35748, 12290],
     rr_enabled = True\<rparr>]"

definition STANCE_PATTERN_CATALOG_VERSION :: string where
  "STANCE_PATTERN_CATALOG_VERSION = ''stance_patterns_zh_v1''"

text \<open>The positional constructor call of the pattern table; \<open>applies_to_actions\<close> keeps its
  default.\<close>

definition zh_pattern ::
  "string \<Rightarrow> user_stance \<Rightarrow> stance_matcher \<Rightarrow> pystr \<Rightarrow> rat \<Rightarrow> int \<Rightarrow> stance_pattern" where
  "zh_pattern pid st m p conf prio =
     \<lparr>sp_pattern_id = pid, sp_stance = st, sp_matcher_type = m, sp_pattern = p,
      sp_confidence = conf, sp_priority = prio, sp_applies_to_actions = None\<rparr>"

definition STANCE_PATTERNS_ZH_V1 :: "stance_pattern list" where
  "STANCE_PATTERNS_ZH_V1 = [
   zh_pattern ''zh.prohibit.forbid'' PROHIBIT PrefixLiteral [31105, 27490] (1) 100,
   zh_pattern ''zh.prohibit.must_not'' PROHIBIT PrefixLiteral [19981, 24471] (1) 100,
   zh_pattern ''zh.prohibit.do_not'' PROHIBIT PrefixLiteral [19981, 35201] (1) 100,
   zh_pattern ''zh.audit.review'' AUDIT ClauseLiteral [23457, 26680] (98 / 100) 90,
   zh_pattern ''zh.audit.check'' AUDIT ClauseLiteral [26816, 26597] (98 / 100) 90,
   zh_pattern ''zh.audit.identify'' AUDIT ClauseLiteral [35782, 21035] (96 / 100) 88,
   zh_pattern ''zh.discuss.why'' DISCUSS ClauseLiteral [20026, 20160, 20040] (96 / 100) 80,
   zh_pattern ''zh.discuss.risk'' DISCUSS ClauseLiteral [26377, 20160, 20040, 39118, 38505] (94 / 100) 78,
   zh_pattern ''zh.request.help'' REQUEST ClauseLiteral [24110, 25105] (98 / 100) 70,
   zh_pattern ''zh.request.for_me'' REQUEST ClauseLiteral [26367, 25105] (98 / 100) 70,
   zh_pattern ''zh.request.still'' REQUEST ClauseLiteral [36824, 26159] (96 / 100) 72,
   zh_pattern ''zh.request.then_add'' REQUEST ClauseLiteral [20877, 34917] (96 / 100) 72,
   zh_pattern ''zh.request.write_as'' REQUEST ClauseLiteral [20889, 25104] (94 / 100) 68,
   zh_pattern ''zh.request.tell'' REQUEST ClauseLiteral [21578, 35785] (94 / 100) 68,
   zh_pattern ''zh.request.promise'' REQUEST ClauseLiteral [25215, 35834] (94 / 100) 68]"

definition RESOLUTION_THRESHOLDS_V1 :: policy_resolution_thresholds where
  "RESOLUTION_THRESHOLDS_V1 =
     \<lparr>discuss_safe_min_confidence = 90 / 100, quote_safe_min_confidence = 90 / 100,
      unknown_requires_uncertain = True\<rparr>"

text \<open>The reason strings of \<open>policy/resolver.py\<close> and \<open>policy/engine.py\<close>, named after the branch.\<close>

definition reason_business_confirmation :: pystr where
  "reason_business_confirmation = [
     35813, 19994, 21153, 32467, 35770, 38656, 35201, 36827, 19968, 27493, 35777, 25454, 25110,
     25480, 26435, 30830, 35748, 12290]"

definition reason_unknown_stance :: pystr where
  "reason_unknown_stance = [
     26816, 27979, 21040, 39118, 38505, 34920, 36798, 65292, 20294, 26080, 27861, 21487, 38752,
     21028, 26029, 29992, 25143, 31435, 22330, 12290]"

definition reason_safe_scope :: pystr where
  "reason_safe_scope = [
     39118, 38505, 34920, 36798, 22788, 20110, 31105, 27490, 12289, 23457, 26597, 12289, 35752,
     35770, 25110, 24341, 29992, 20316, 29992, 22495, 12290]"

definition reason_ambiguous_scope :: pystr where
  "reason_ambiguous_scope = [
     39118, 38505, 34920, 36798, 30340, 35752, 35770, 25110, 24341, 29992, 20316, 29992, 22495,
     19981, 23436, 25972, 12290]"

definition reason_empty_input :: pystr where
  "reason_empty_input = [
     31354, 36755, 20837, 19981, 35302, 21457, 23433, 20840, 35268, 21017]"

definition reason_no_rule :: pystr where
  "reason_no_rule = [
     26410, 21629, 20013, 26412, 22320, 23433, 20840, 35268, 21017]"

definition reason_classifier_unavailable :: pystr where
  "reason_classifier_unavailable = [
     20998, 31867, 22120, 19981, 21487, 29992, 65292, 24050, 25353, 20445, 23432, 31574, 30053,
     22788, 29702, 12290]"

definition reason_llm_fallback :: pystr where
  "reason_llm_fallback = [
     76, 76, 77, 32, 102, 97, 108, 108, 98, 97, 99, 107, 32, 20998, 31867]"

text \<open>\<open>policy/templates.py\<close>; neither template reads the decision.\<close>

definition blocked_message :: "policy_decision \<Rightarrow> pystr" where
  "blocked_message decision = [
     35813, 35831, 27714, 36229, 20986, 24403, 21069, 19994, 21153, 25903, 25345, 33539, 22260,
     12290, 25105, 21487, 20197, 24110, 21161, 25913, 20889, 20026, 22522, 20110, 24050, 39564,
     35777, 36164, 26009, 12289, 26435, 38480, 21644, 21512, 35268, 36793, 30028, 30340, 26041,
     26696, 12290]"

definition uncertain_message :: "policy_decision \<Rightarrow> pystr" where
  "uncertain_message decision = [
     35813, 35831, 27714, 38656, 35201, 36827, 19968, 27493, 35777, 25454, 12289, 25480, 26435,
     25110, 19987, 19994, 20154, 21592, 30830, 35748, 65307, 25105, 21487, 20197, 20808, 21327,
     21161, 25972, 29702, 24453, 30830, 35748, 20107, 39033, 12290]"

end
