(* ===== verification/Policy_Detector.thy ===== *)
theory Policy_Detector
  imports Policy_Normalization Policy_Catalog
begin

text \<open>
  \<open>policy/candidates.py\<close>: literal detection over the normalized and the compact text. The
  hex digest of SHA-256 over the UTF-8 form of a text is the parameter \<open>sha\<close>.
\<close>

type_synonym digest = "pystr \<Rightarrow> pystr"

definition build_candidate_id ::
  "digest \<Rightarrow> string \<Rightarrow> risk_rule \<Rightarrow> pystr \<Rightarrow> nat \<Rightarrow> nat \<Rightarrow> pystr" where
  "build_candidate_id sha catalog_version rule normalized_text start stop =
     (let input_fingerprint = sha normalized_text;
          material = py_join [0]
            [u catalog_version, u (rr_rule_id rule), u (risk_action_value (rr_action rule)),
             input_fingerprint, py_str_nat start, py_str_nat stop]
      in u ''rc_'' @ take 24 (sha material))"

text \<open>
  The \<open>while True\<close> loop of \<open>_occurrences\<close>: \<open>find\<close> from the cursor, record, move the cursor
  one past the hit. The spans of a compact hit go through \<open>compact_to_normalized\<close>, whose
  index error is an exception of the detector.
\<close>

definition index_list :: "'a list \<Rightarrow> nat \<Rightarrow> 'a res" where
  "index_list xs i = (if i < length xs then Inr (xs ! i) else Inl IndexError)"

definition occurrence_span ::
  "normalized_policy_text \<Rightarrow> matcher_type \<Rightarrow> pystr \<Rightarrow> nat \<Rightarrow> (nat \<times> nat) res" where
  "occurrence_span text matcher needle index =
     (if matcher = CompactLiteral
      then bind_res (index_list (npt_compact_to_normalized text) index) (\<lambda>start.
           bind_res (index_list (npt_compact_to_normalized text) (index + length needle - 1)) (\<lambda>last.
           Inr (start, last + 1)))
      else Inr (index, index + length needle))"

function occurrences_from ::
  "normalized_policy_text \<Rightarrow> matcher_type \<Rightarrow> pystr \<Rightarrow> pystr \<Rightarrow> nat \<Rightarrow> (nat \<times> nat) list res" where
  "occurrences_from text matcher haystack needle cursor =
     (case py_find haystack needle cursor of
        None \<Rightarrow> Inr []
      | Some index \<Rightarrow>
          bind_res (occurrence_span text matcher needle index) (\<lambda>span.
          bind_res (occurrences_from text matcher haystack needle (index + 1)) (\<lambda>rest.
          Inr (span # rest))))"
  by pat_completeness auto
termination
  by (relation "measure (\<lambda>(text, matcher, haystack, needle, cursor). Suc (length haystack) - cursor)")
     (auto dest!: py_find_Some simp: occurs_at_def)

declare occurrences_from.simps [simp del]

definition occurrences ::
  "ucd \<Rightarrow> normalized_policy_text \<Rightarrow> pystr \<Rightarrow> matcher_type \<Rightarrow> (nat \<times> nat) list res" where
  "occurrences T text pattern matcher =
     (let needle = u_casefold T pattern;
          haystack = (if matcher = CompactLiteral then npt_compact text else npt_normalized text)
      in if matcher \<notin> {CompactLiteral, NormalizedLiteral} \<or> needle = [] then Inr []
         else occurrences_from text matcher haystack needle 0)"

section \<open>The detection loops\<close>

text \<open>The accumulator is the code's \<open>candidates\<close> and \<open>seen\<close>.\<close>

type_synonym detection = "risk_candidate list \<times> (string \<times> nat \<times> nat) list"

definition make_candidate ::
  "digest \<Rightarrow> string \<Rightarrow> normalized_policy_text \<Rightarrow> risk_rule \<Rightarrow> nat \<Rightarrow> nat \<Rightarrow> risk_candidate" where
  "make_candidate sha version text rule start stop =
     \<lparr>rc_candidate_id = build_candidate_id sha version rule (npt_normalized text) start stop,
      rc_rule_id = rr_rule_id rule, rc_category = rr_category rule, rc_action = rr_action rule,
      rc_severity = rr_severity rule,
      rc_evidence_span = \<lparr>span_start = start, span_end = stop,
        span_text = drop start (take stop (npt_normalized text))\<rparr>,
      rc_source = DETERMINISTIC_RULE, rc_confidence = 1, rc_priority = rr_priority rule,
      rc_status_hint = rr_status_hint rule, rc_reason = rr_reason rule\<rparr>"

fun add_occurrences ::
  "digest \<Rightarrow> string \<Rightarrow> normalized_policy_text \<Rightarrow> risk_rule \<Rightarrow> (nat \<times> nat) list \<Rightarrow> detection \<Rightarrow> detection" where
  "add_occurrences sha version text rule [] acc = acc"
| "add_occurrences sha version text rule ((start, stop) # spans) (candidates, seen) =
     (let occurrence = (rr_rule_id rule, start, stop)
      in if occurrence \<in> set seen then add_occurrences sha version text rule spans (candidates, seen)
         else add_occurrences sha version text rule spans
                (candidates @ [make_candidate sha version text rule start stop], occurrence # seen))"

fun detect_detectors ::
  "ucd \<Rightarrow> digest \<Rightarrow> string \<Rightarrow> normalized_policy_text \<Rightarrow> risk_rule \<Rightarrow> risk_detector_spec list
     \<Rightarrow> detection \<Rightarrow> detection res" where
  "detect_detectors T sha version text rule [] acc = Inr acc"
| "detect_detectors T sha version text rule (detector # ds) acc =
     bind_res (occurrences T text (ds_pattern detector) (ds_matcher_type detector)) (\<lambda>spans.
       detect_detectors T sha version text rule ds (add_occurrences sha version text rule spans acc))"

fun detect_rules ::
  "ucd \<Rightarrow> digest \<Rightarrow> string \<Rightarrow> normalized_policy_text \<Rightarrow> risk_rule list \<Rightarrow> detection \<Rightarrow> detection res" where
  "detect_rules T sha version text [] acc = Inr acc"
| "detect_rules T sha version text (rule # rules) acc =
     (if \<not> rr_enabled rule then detect_rules T sha version text rules acc
      else bind_res (detect_detectors T sha version text rule (rr_detectors rule) acc)
             (detect_rules T sha version text rules))"

definition candidate_key :: "risk_candidate \<Rightarrow> nat \<times> nat \<times> int \<times> string \<times> string" where
  "candidate_key item =
     (span_start (rc_evidence_span item), span_end (rc_evidence_span item), - rc_priority item,
      rc_rule_id item, risk_action_value (rc_action item))"

definition detect ::
  "ucd \<Rightarrow> digest \<Rightarrow> risk_rule list \<Rightarrow> string \<Rightarrow> normalized_policy_text \<Rightarrow> risk_candidate list res" where
  "detect T sha rules version text =
     bind_res (detect_rules T sha version text rules ([], [])) (\<lambda>(candidates, seen).
       Inr (sort_key candidate_key candidates))"

section \<open>What the detector finds\<close>

abbreviation needle_of :: "ucd \<Rightarrow> risk_detector_spec \<Rightarrow> pystr" where
  "needle_of T d \<equiv> u_casefold T (ds_pattern d)"

abbreviation haystack_of :: "normalized_policy_text \<Rightarrow> risk_detector_spec \<Rightarrow> pystr" where
  "haystack_of text d \<equiv>
     (if ds_matcher_type d = CompactLiteral then npt_compact text else npt_normalized text)"

text \<open>
  The specification of a hit: the case-folded literal of a detector occurs in the text it
  looks at, and \<open>sp\<close> is the place of that occurrence in the normalized text.
\<close>

definition detector_hit ::
  "ucd \<Rightarrow> normalized_policy_text \<Rightarrow> risk_detector_spec \<Rightarrow> nat \<times> nat \<Rightarrow> bool" where
  "detector_hit T text d sp \<longleftrightarrow>
     ds_matcher_type d \<noteq> OtherMatcher \<and> needle_of T d \<noteq> []
     \<and> (\<exists>i. occurs_at (needle_of T d) (haystack_of text d) i
            \<and> occurrence_span text (ds_matcher_type d) (needle_of T d) i = Inr sp)"

definition rule_hit :: "ucd \<Rightarrow> normalized_policy_text \<Rightarrow> risk_rule \<Rightarrow> nat \<times> nat \<Rightarrow> bool" where
  "rule_hit T text rule sp \<longleftrightarrow>
     rr_enabled rule \<and> (\<exists>d \<in> set (rr_detectors rule). detector_hit T text d sp)"

lemma occurs_at_le: "occurs_at needle hay i \<Longrightarrow> i \<le> length hay"
  by (simp add: occurs_at_def)

lemma filter_upt_find:
  "find P [a..<b] = Some i \<Longrightarrow> filter P [a..<b] = i # filter P [Suc i..<b]"
proof -
  assume f: "find P [a..<b] = Some i"
  note i = find_upt_Some[OF f]
  then have "[a..<b] = [a..<i] @ i # [Suc i..<b]"
    by (metis le_Suc_ex less_imp_le upt_add_eq_append upt_conv_Cons)
  moreover have "filter P [a..<i] = []" using i by (auto simp: filter_empty_conv)
  ultimately show ?thesis using i by simp
qed

lemma occurrences_from_eq:
  "occurrences_from text m hay needle cursor =
     map_res (occurrence_span text m needle) (filter (occurs_at needle hay) [cursor..<Suc (length hay)])"
proof (induction "text" m hay needle cursor rule: occurrences_from.induct)
  case (1 nt m hay needle cursor)
  show ?case
  proof (cases "py_find hay needle cursor")
    case None
    then have "filter (occurs_at needle hay) [cursor..<Suc (length hay)] = []"
      by (auto simp: py_find_None filter_empty_conv simp del: upt_Suc)
    then show ?thesis using None by (subst occurrences_from.simps) simp
  next
    case (Some i)
    then have "filter (occurs_at needle hay) [cursor..<Suc (length hay)]
        = i # filter (occurs_at needle hay) [i + 1..<Suc (length hay)]"
      using filter_upt_find unfolding py_find_def by fastforce
    with Some 1[OF Some] show ?thesis
      by (subst occurrences_from.simps, cases "occurrence_span nt m needle i")
         (simp_all del: upt_Suc)
  qed
qed

lemma map_res_set: "map_res f xs = Inr ys \<Longrightarrow> set ys = {y. \<exists>x \<in> set xs. f x = Inr y}"
  by (induction xs arbitrary: ys) (auto simp: bind_res_Inr_iff)

lemma occurrences_hits:
  assumes "occurrences T text (ds_pattern d) (ds_matcher_type d) = Inr spans"
  shows "set spans = {sp. detector_hit T text d sp}"
proof (cases "ds_matcher_type d \<notin> {CompactLiteral, NormalizedLiteral} \<or> needle_of T d = []")
  case True
  then show ?thesis using assms
    by (cases "ds_matcher_type d") (auto simp: occurrences_def detector_hit_def)
next
  case False
  with assms have "map_res (occurrence_span text (ds_matcher_type d) (needle_of T d))
      (filter (occurs_at (needle_of T d) (haystack_of text d)) [0..<Suc (length (haystack_of text d))])
      = Inr spans"
    by (auto simp: occurrences_def Let_def occurrences_from_eq simp del: upt_Suc split: if_splits)
  from map_res_set[OF this] False show ?thesis
    by (auto simp: detector_hit_def less_Suc_eq_le simp del: upt_Suc dest: occurs_at_le)
qed

subsection \<open>The accumulator\<close>

abbreviation occurrence_of :: "risk_candidate \<Rightarrow> string \<times> nat \<times> nat" where
  "occurrence_of c \<equiv> (rc_rule_id c, span_start (rc_evidence_span c), span_end (rc_evidence_span c))"

text \<open>\<open>seen\<close> is the set of the occurrences of the candidates, which are pairwise different.\<close>

definition detection_ok :: "detection \<Rightarrow> bool" where
  "detection_ok acc \<longleftrightarrow>
     set (snd acc) = occurrence_of ` set (fst acc) \<and> distinct (map occurrence_of (fst acc))"

lemma make_candidate_sel [simp]:
  "rc_rule_id (make_candidate sha v text r a b) = rr_rule_id r"
  "span_start (rc_evidence_span (make_candidate sha v text r a b)) = a"
  "span_end (rc_evidence_span (make_candidate sha v text r a b)) = b"
  "rc_severity (make_candidate sha v text r a b) = rr_severity r"
  "rc_category (make_candidate sha v text r a b) = rr_category r"
  "rc_status_hint (make_candidate sha v text r a b) = rr_status_hint r"
  by (simp_all add: make_candidate_def)

definition own_candidates ::
  "digest \<Rightarrow> string \<Rightarrow> normalized_policy_text \<Rightarrow> risk_rule \<Rightarrow> risk_candidate list \<Rightarrow> bool" where
  "own_candidates sha v text r cs \<longleftrightarrow>
     (\<forall>c \<in> set cs. rc_rule_id c = rr_rule_id r \<longrightarrow>
        c = make_candidate sha v text r (span_start (rc_evidence_span c)) (span_end (rc_evidence_span c)))"

lemma add_occurrences_correct:
  assumes "detection_ok acc" "own_candidates sha v text r (fst acc)"
  shows "detection_ok (add_occurrences sha v text r spans acc)
    \<and> own_candidates sha v text r (fst (add_occurrences sha v text r spans acc))
    \<and> set (fst (add_occurrences sha v text r spans acc))
        = set (fst acc) \<union> (\<lambda>(a, b). make_candidate sha v text r a b) ` set spans"
  using assms
proof (induction spans arbitrary: acc)
  case (Cons sp spans)
  obtain cs seen a b where [simp]: "acc = (cs, seen)" "sp = (a, b)" by (metis surj_pair)
  let ?c = "make_candidate sha v text r a b"
  show ?case
  proof (cases "(rr_rule_id r, a, b) \<in> set seen")
    case True
    then have "?c \<in> set cs"
      using Cons.prems by (force simp: detection_ok_def own_candidates_def)
    moreover note Cons.IH[OF Cons.prems]
    ultimately show ?thesis using True by auto
  next
    case False
    let ?acc = "(cs @ [?c], (rr_rule_id r, a, b) # seen)"
    have "detection_ok ?acc" "own_candidates sha v text r (fst ?acc)"
      using Cons.prems False by (auto simp: detection_ok_def own_candidates_def)
    from Cons.IH[OF this] show ?thesis using False by auto
  qed
qed simp

lemma detect_detectors_correct:
  assumes "detect_detectors T sha v text r ds acc = Inr acc'"
    and "detection_ok acc" "own_candidates sha v text r (fst acc)"
  shows "detection_ok acc' \<and> set (fst acc') = set (fst acc) \<union>
      {make_candidate sha v text r a b | a b d. d \<in> set ds \<and> detector_hit T text d (a, b)}"
  using assms
proof (induction ds arbitrary: acc)
  case (Cons d ds)
  from Cons.prems(1) obtain spans where
    sp: "occurrences T text (ds_pattern d) (ds_matcher_type d) = Inr spans" and
    rest: "detect_detectors T sha v text r ds (add_occurrences sha v text r spans acc) = Inr acc'"
    by (auto simp: bind_res_Inr_iff)
  note step = add_occurrences_correct[OF Cons.prems(2,3), of spans]
  show ?case
    using Cons.IH[OF rest] step occurrences_hits[OF sp] by (auto 0 4)
qed auto

lemma detect_rules_correct:
  assumes "detect_rules T sha v text rules acc = Inr acc'"
    and "detection_ok acc" "distinct (map rr_rule_id rules)"
    and "\<forall>c \<in> set (fst acc). rc_rule_id c \<notin> rr_rule_id ` set rules"
  shows "detection_ok acc' \<and> set (fst acc') = set (fst acc) \<union>
      {make_candidate sha v text r a b | a b r. r \<in> set rules \<and> rule_hit T text r (a, b)}"
  using assms
proof (induction rules arbitrary: acc)
  case (Cons r rules)
  show ?case
  proof (cases "rr_enabled r")
    case False
    then show ?thesis using Cons by (auto simp: rule_hit_def)
  next
    case True
    with Cons.prems(1) obtain acc1 where
      a1: "detect_detectors T sha v text r (rr_detectors r) acc = Inr acc1" and
      rest: "detect_rules T sha v text rules acc1 = Inr acc'"
      by (auto simp: bind_res_Inr_iff)
    have "own_candidates sha v text r (fst acc)"
      using Cons.prems(4) by (auto simp: own_candidates_def)
    note step = detect_detectors_correct[OF a1 Cons.prems(2) this]
    have "\<forall>c \<in> set (fst acc1). rc_rule_id c \<notin> rr_rule_id ` set rules"
      using step Cons.prems(3,4) by auto
    from Cons.IH[OF rest conjunct1[OF step] _ this] Cons.prems(3) step True show ?thesis
      by (auto simp: rule_hit_def)
  qed
qed auto

lemma detect_correct:
  assumes "detect T sha rules v text = Inr cs" "distinct (map rr_rule_id rules)"
  shows "set cs = {make_candidate sha v text r a b | a b r. r \<in> set rules \<and> rule_hit T text r (a, b)}
    \<and> distinct (map occurrence_of cs) \<and> sorted (map candidate_key cs)"
proof -
  from assms(1) obtain acc' where
    a: "detect_rules T sha v text rules ([], []) = Inr acc'" "cs = sort_key candidate_key (fst acc')"
    by (auto simp: detect_def bind_res_Inr_iff)
  have "detection_ok ([], [])" by (simp add: detection_ok_def)
  from detect_rules_correct[OF a(1) this assms(2)] a(2) show ?thesis
    by (auto simp: detection_ok_def distinct_map)
qed

section \<open>The detector does not raise\<close>

lemma occurrence_span_total:
  assumes "offsets_ok text" "needle \<noteq> []" "m \<noteq> OtherMatcher"
    and "occurs_at needle (if m = CompactLiteral then npt_compact text else npt_normalized text) i"
  shows "\<exists>a b. occurrence_span text m needle i = Inr (a, b) \<and> a < b \<and> b \<le> length (npt_normalized text)"
proof (cases "m = CompactLiteral")
  case True
  let ?l = "i + length needle - 1"
  have l: "i \<le> ?l" "?l < length (npt_compact text)" "0 < length needle"
    using assms(2,4) True by (auto simp: occurs_at_def simp flip: length_greater_0_conv)
  have "npt_compact_to_normalized text ! i \<le> npt_compact_to_normalized text ! ?l"
    using assms(1) l by (cases "i = ?l") (auto simp: offsets_ok_def sorted_wrt_iff_nth_less intro: less_imp_le)
  then show ?thesis using True assms(1) l
    by (auto simp: occurrence_span_def index_list_def offsets_ok_def less_Suc_eq_le Suc_le_eq)
next
  case False
  then show ?thesis using assms
    by (cases m) (auto simp: occurrence_span_def occurs_at_def simp flip: length_greater_0_conv)
qed

lemma occurrences_total:
  assumes "offsets_ok text"
  shows "\<exists>spans. occurrences T text p m = Inr spans"
proof (cases "m \<notin> {CompactLiteral, NormalizedLiteral} \<or> u_casefold T p = []")
  case False
  let ?hay = "if m = CompactLiteral then npt_compact text else npt_normalized text"
  have "\<exists>spans. map_res (occurrence_span text m (u_casefold T p))
      (filter (occurs_at (u_casefold T p) ?hay) [0..<Suc (length ?hay)]) = Inr spans"
  proof (rule map_res_total)
    fix i assume "i \<in> set (filter (occurs_at (u_casefold T p) ?hay) [0..<Suc (length ?hay)])"
    then have "occurs_at (u_casefold T p) ?hay i" by (simp only: set_filter mem_Collect_eq)
    then show "\<exists>y. occurrence_span text m (u_casefold T p) i = Inr y"
      using occurrence_span_total[OF assms, of "u_casefold T p" m i] False by auto
  qed
  then show ?thesis
    using False by (auto simp: occurrences_def Let_def occurrences_from_eq simp del: upt_Suc)
qed (auto simp: occurrences_def)

lemma detect_total:
  assumes "offsets_ok text"
  shows "\<exists>cs. detect T sha rules v text = Inr cs"
proof -
  have dd: "\<exists>acc'. detect_detectors T sha v text r ds acc = Inr acc'" for r ds acc
  proof (induction ds arbitrary: acc)
    case (Cons d ds)
    obtain spans where "occurrences T text (ds_pattern d) (ds_matcher_type d) = Inr spans"
      using occurrences_total[OF assms] by blast
    then show ?case using Cons[of "add_occurrences sha v text r spans acc"] by simp
  qed simp
  have "\<exists>acc'. detect_rules T sha v text rules acc = Inr acc'" for acc
  proof (induction rules arbitrary: acc)
    case (Cons r rules)
    obtain acc1 where "detect_detectors T sha v text r (rr_detectors r) acc = Inr acc1"
      using dd by blast
    then show ?case using Cons by auto
  qed simp
  then obtain acc where "detect_rules T sha v text rules ([], []) = Inr acc" by blast
  then show ?thesis by (cases acc) (auto simp: detect_def)
qed

lemma detector_hit_span:
  assumes "offsets_ok text" "detector_hit T text d (a, b)"
  shows "a < b \<and> b \<le> length (npt_normalized text)"
proof -
  from assms(2) obtain i where
    i: "ds_matcher_type d \<noteq> OtherMatcher" "needle_of T d \<noteq> []"
       "occurs_at (needle_of T d) (haystack_of text d) i"
       "occurrence_span text (ds_matcher_type d) (needle_of T d) i = Inr (a, b)"
    unfolding detector_hit_def by blast
  from occurrence_span_total[OF assms(1) i(2,1,3)] i(4) show ?thesis by auto
qed

end
