(* ===== verification/Policy_Stance.thy ===== *)
theory Policy_Stance
  imports Policy_Normalization Policy_Catalog
begin

text \<open>
  \<open>policy/stance.py\<close>: the stance of the user towards each candidate, read off the clause
  around it and off quotation marks.
\<close>

definition CLAUSE_DELIMITERS :: "nat list" where
  "CLAUSE_DELIMITERS = u '',.!?;'' @ [10]"

definition TRANSITIONS :: "pystr list" where
  "TRANSITIONS = [[20294, 26159], [19981, 36807], [20294], [28982, 21518], [38543, 21518]]"

definition QUOTE_PAIRS :: "(pystr \<times> pystr) list" where
  "QUOTE_PAIRS = [([8220], [8221]), ([34], [34]), ([39], [39]), ([8216], [8217])]"

definition SAFE_SCOPE_MARKERS :: "pystr list" where
  "SAFE_SCOPE_MARKERS =
     [[23457, 26680], [26816, 26597], [20026, 20160, 20040], [20026, 20309], [36829, 35268]]"

definition REQUEST_SCOPE_MARKERS :: "pystr list" where
  "REQUEST_SCOPE_MARKERS =
     [[24110, 25105], [26367, 25105], [29031, 30528, 20889], [29031, 20570], [36824, 26159],
      [20877, 34917]]"

section \<open>Clause bounds\<close>

text \<open>The loop over \<open>enumerate(value)\<close>, from the index \<open>i\<close> on.\<close>

fun delimiter_boundaries :: "nat \<Rightarrow> pystr \<Rightarrow> nat list" where
  "delimiter_boundaries i [] = []"
| "delimiter_boundaries i (c # cs) =
     (if c \<in> set CLAUSE_DELIMITERS then i # (i + 1) # delimiter_boundaries (Suc i) cs
      else delimiter_boundaries (Suc i) cs)"

text \<open>
  The \<open>while True\<close> loop over the hits of one transition. The table has no empty transition
  (on which the loop of the code would not end), so the guard is never taken.
\<close>

function transition_boundaries :: "pystr \<Rightarrow> pystr \<Rightarrow> nat \<Rightarrow> nat list" where
  "transition_boundaries value transition cursor =
     (if transition = [] then []
      else case py_find value transition cursor of
        None \<Rightarrow> []
      | Some index \<Rightarrow> index # (index + length transition)
          # transition_boundaries value transition (index + length transition))"
  by pat_completeness auto
termination
  by (relation "measure (\<lambda>(value, transition, cursor). Suc (length value) - cursor)")
     (auto dest!: py_find_Some simp: occurs_at_def simp flip: length_greater_0_conv)

declare transition_boundaries.simps [simp del]

definition boundaries :: "pystr \<Rightarrow> nat list" where
  "boundaries value =
     [0, length value] @ delimiter_boundaries 0 value
       @ concat (map (\<lambda>t. transition_boundaries value t 0) TRANSITIONS)"

text \<open>\<open>max(...)\<close> and \<open>min(...)\<close> of a generator: a \<open>ValueError\<close> when it is empty.\<close>

definition py_max :: "nat list \<Rightarrow> nat res" where
  "py_max xs = (if xs = [] then Inl (ValueError ''max'') else Inr (Max (set xs)))"

definition py_min :: "nat list \<Rightarrow> nat res" where
  "py_min xs = (if xs = [] then Inl (ValueError ''min'') else Inr (Min (set xs)))"

definition clause_bounds :: "pystr \<Rightarrow> nat \<Rightarrow> nat \<Rightarrow> (nat \<times> nat) res" where
  "clause_bounds value s_start s_end =
     bind_res (py_max (filter (\<lambda>b. b \<le> s_start) (boundaries value))) (\<lambda>start.
     bind_res (py_min (filter (\<lambda>b. s_end \<le> b) (boundaries value))) (\<lambda>stop.
     Inr (start, stop)))"

section \<open>Quotation context\<close>

text \<open>\<open>max(rfind results) + 1\<close>: the code's \<open>-1\<close> for no hit becomes 0 after the addition.\<close>

definition sentence_start :: "pystr \<Rightarrow> nat \<Rightarrow> nat" where
  "sentence_start value opening_index =
     foldl max 0 (map (\<lambda>mark. case py_rfind value [mark] opening_index of None \<Rightarrow> 0 | Some i \<Rightarrow> i + 1)
       (u ''.!?;''))"

definition sentence_end :: "pystr \<Rightarrow> nat \<Rightarrow> nat" where
  "sentence_end value closing_index =
     foldl min (length value)
       (concat (map (\<lambda>mark. case py_find value [mark] (closing_index + 1) of None \<Rightarrow> [] | Some i \<Rightarrow> [i])
          (u ''.!?;'')))"

definition quote_outer :: "pystr \<Rightarrow> nat \<Rightarrow> nat \<Rightarrow> pystr" where
  "quote_outer value opening_index closing_index =
     drop (sentence_start value opening_index) (take opening_index value)
       @ drop (closing_index + 1) (take (sentence_end value closing_index) value)"

fun quote_context_in :: "(pystr \<times> pystr) list \<Rightarrow> pystr \<Rightarrow> nat \<Rightarrow> nat \<Rightarrow> pystr option" where
  "quote_context_in [] value s_start s_end = None"
| "quote_context_in ((opening, closing) # pairs) value s_start s_end =
     (case py_rfind value opening (s_start + 1) of
        None \<Rightarrow> quote_context_in pairs value s_start s_end
      | Some opening_index \<Rightarrow>
          (case py_find value closing s_end of
             None \<Rightarrow> quote_context_in pairs value s_start s_end
           | Some closing_index \<Rightarrow> Some (quote_outer value opening_index closing_index)))"

definition quote_context :: "pystr \<Rightarrow> nat \<Rightarrow> nat \<Rightarrow> pystr option" where
  "quote_context = quote_context_in QUOTE_PAIRS"

section \<open>Resolution of one candidate\<close>

definition pattern_applies :: "risk_candidate \<Rightarrow> pystr \<Rightarrow> nat \<Rightarrow> stance_pattern \<Rightarrow> bool" where
  "pattern_applies candidate clause relative_start p \<longleftrightarrow>
     (case sp_applies_to_actions p of None \<Rightarrow> True | Some acts \<Rightarrow> rc_action candidate \<in> set acts)
     \<and> py_in (sp_pattern p) clause
     \<and> (sp_matcher_type p = PrefixLiteral \<longrightarrow>
          py_rfind clause (sp_pattern p) (relative_start + 1) \<noteq> None)"

definition pattern_key :: "stance_pattern \<Rightarrow> int \<times> rat \<times> string" where
  "pattern_key p = (- sp_priority p, - sp_confidence p, sp_pattern_id p)"

definition make_stance :: "risk_candidate \<Rightarrow> user_stance \<Rightarrow> rat \<Rightarrow> string \<Rightarrow> risk_stance" where
  "make_stance candidate st conf code =
     \<lparr>rs_candidate_id = rc_candidate_id candidate, rs_stance = st, rs_confidence = conf,
      rs_reason_code = code, rs_source = STANCE_PATTERN_CATALOG_VERSION\<rparr>"

definition quoted_safely :: "pystr \<Rightarrow> bool" where
  "quoted_safely outer \<longleftrightarrow>
     list_ex (\<lambda>m. py_in m outer) SAFE_SCOPE_MARKERS \<and> \<not> list_ex (\<lambda>m. py_in m outer) REQUEST_SCOPE_MARKERS"

definition stance_of_clause ::
  "ucd \<Rightarrow> stance_pattern list \<Rightarrow> risk_candidate \<Rightarrow> pystr \<Rightarrow> nat \<Rightarrow> risk_stance" where
  "stance_of_clause T patterns candidate clause relative_start =
     (case sort_key pattern_key (filter (pattern_applies candidate clause relative_start) patterns) of
        winner # _ \<Rightarrow> make_stance candidate (sp_stance winner) (sp_confidence winner) (sp_pattern_id winner)
      | [] \<Rightarrow>
         (if rc_status_hint candidate = UNCERTAIN
          then make_stance candidate REQUEST (92 / 100) ''business_confirmation_request''
          else if py_strip T clause = span_text (rc_evidence_span candidate)
               \<or> py_endswith (py_rstrip T clause) (span_text (rc_evidence_span candidate))
          then make_stance candidate REQUEST (90 / 100) ''direct_imperative''
          else make_stance candidate UNKNOWN 1 ''stance_not_resolved''))"

definition resolve_one ::
  "ucd \<Rightarrow> stance_pattern list \<Rightarrow> normalized_policy_text \<Rightarrow> risk_candidate \<Rightarrow> risk_stance res" where
  "resolve_one T patterns text candidate =
     (let span = rc_evidence_span candidate; value = npt_normalized text
      in bind_res (clause_bounds value (span_start span) (span_end span)) (\<lambda>(start, stop).
         case quote_context value (span_start span) (span_end span) of
           Some outer \<Rightarrow>
             (if quoted_safely outer then Inr (make_stance candidate QUOTE (98 / 100) ''quoted_risk_scope'')
              else Inr (stance_of_clause T patterns candidate (drop start (take stop value)) (span_start span - start)))
         | None \<Rightarrow>
             Inr (stance_of_clause T patterns candidate (drop start (take stop value)) (span_start span - start))))"

definition resolve_stances ::
  "ucd \<Rightarrow> stance_pattern list \<Rightarrow> normalized_policy_text \<Rightarrow> risk_candidate list \<Rightarrow> risk_stance list res" where
  "resolve_stances T patterns text candidates = map_res (resolve_one T patterns text) candidates"

section \<open>The clause always exists\<close>

lemma clause_bounds_total:
  assumes "s_end \<le> length value"
  shows "\<exists>start stop. clause_bounds value s_start s_end = Inr (start, stop) \<and> start \<le> s_start
    \<and> s_end \<le> stop \<and> start \<in> set (boundaries value) \<and> stop \<in> set (boundaries value)"
proof -
  let ?lo = "filter (\<lambda>b. b \<le> s_start) (boundaries value)"
  let ?hi = "filter (\<lambda>b. s_end \<le> b) (boundaries value)"
  have "0 \<in> set ?lo" "length value \<in> set ?hi" using assms by (auto simp: boundaries_def)
  then have ne: "?lo \<noteq> []" "?hi \<noteq> []" by fastforce+
  have "Max (set ?lo) \<in> set ?lo" "Min (set ?hi) \<in> set ?hi"
    using ne by (simp_all only: set_empty Max_in Min_in List.finite_set not_False_eq_True)
  with ne show ?thesis by (auto simp: clause_bounds_def py_max_def py_min_def)
qed

lemma stance_of_clause_id [simp]:
  "rs_candidate_id (stance_of_clause T patterns c clause r) = rc_candidate_id c"
  by (simp add: stance_of_clause_def make_stance_def split: list.split)

lemma make_stance_id [simp]: "rs_candidate_id (make_stance c st conf code) = rc_candidate_id c"
  by (simp add: make_stance_def)

lemma resolve_one_total:
  assumes "span_end (rc_evidence_span c) \<le> length (npt_normalized text)"
  shows "\<exists>st. resolve_one T patterns text c = Inr st \<and> rs_candidate_id st = rc_candidate_id c"
proof -
  obtain a b where "clause_bounds (npt_normalized text) (span_start (rc_evidence_span c))
      (span_end (rc_evidence_span c)) = Inr (a, b)"
    using clause_bounds_total[OF assms] by blast
  then show ?thesis by (simp add: resolve_one_def Let_def split: option.split)
qed

end
