(* ===== verification/Policy_Engine.thy ===== *)
theory Policy_Engine
  imports Policy_Detector Policy_Stance
begin

text \<open>
  \<open>policy/resolver.py\<close> and \<open>policy/engine.py\<close>: the decision matrix over candidates and their
  stances, and the engine that runs normalization, detection, stances and the matrix, with the
  fail-closed classifier behind them.
\<close>

section \<open>The decision matrix\<close>

definition by_candidate :: "risk_stance list \<Rightarrow> (pystr, risk_stance) dict" where
  "by_candidate stances = foldl (\<lambda>d s. dict_set (rs_candidate_id s) s d) [] stances"

text \<open>\<open>by_candidate[candidate.candidate_id].stance == UserStance.REQUEST\<close>\<close>

definition requests :: "(pystr, risk_stance) dict \<Rightarrow> risk_candidate \<Rightarrow> bool res" where
  "requests d candidate =
     (case dict_get d (rc_candidate_id candidate) of
        None \<Rightarrow> Inl KeyError
      | Some s \<Rightarrow> Inr (rs_stance s = REQUEST))"

definition high_severity :: "risk_candidate \<Rightarrow> bool" where
  "high_severity candidate \<longleftrightarrow> rc_severity candidate \<in> {HIGH, CRITICAL}"

fun filter_res :: "('a \<Rightarrow> bool res) \<Rightarrow> 'a list \<Rightarrow> 'a list res" where
  "filter_res p [] = Inr []"
| "filter_res p (x # xs) =
     bind_res (p x) (\<lambda>b. bind_res (filter_res p xs) (\<lambda>ys. Inr (if b then x # ys else ys)))"

fun any_res :: "('a \<Rightarrow> bool res) \<Rightarrow> 'a list \<Rightarrow> bool res" where
  "any_res p [] = Inr False"
| "any_res p (x # xs) = bind_res (p x) (\<lambda>b. if b then Inr True else any_res p xs)"

definition high_request :: "(pystr, risk_stance) dict \<Rightarrow> risk_candidate \<Rightarrow> bool res" where
  "high_request d c = (if high_severity c then requests d c else Inr False)"

definition uncertain_request :: "(pystr, risk_stance) dict \<Rightarrow> risk_candidate \<Rightarrow> bool res" where
  "uncertain_request d c = (if rc_category c = BUSINESS_UNCERTAIN then requests d c else Inr False)"

definition blocking_key :: "risk_candidate \<Rightarrow> int \<times> string \<times> string" where
  "blocking_key item = (rc_priority item, risk_severity_value (rc_severity item), rc_rule_id item)"

definition matched_rule_name :: "risk_candidate \<Rightarrow> pystr" where
  "matched_rule_name c =
     u (risk_category_value (rc_category c)) @ u '':'' @ span_text (rc_evidence_span c)"

definition ambiguous :: "pystr list \<Rightarrow> policy_decision res" where
  "ambiguous matched_rules = mk_policy_decision UNCERTAIN reason_ambiguous_scope matched_rules [] False (50 / 100)"

definition below_threshold :: "policy_resolution_thresholds \<Rightarrow> risk_stance \<Rightarrow> bool" where
  "below_threshold th s \<longleftrightarrow>
     rs_stance s = DISCUSS \<and> rs_confidence s < discuss_safe_min_confidence th \<or>
     rs_stance s = QUOTE \<and> rs_confidence s < quote_safe_min_confidence th"

definition resolve_policy ::
  "policy_resolution_thresholds \<Rightarrow> risk_candidate list \<Rightarrow> risk_stance list \<Rightarrow> policy_decision res" where
  "resolve_policy th candidates stances =
     (let d = by_candidate stances; matched_rules = map matched_rule_name candidates
      in bind_res (filter_res (high_request d) candidates) (\<lambda>high_requests.
         case py_max_by blocking_key high_requests of
           Some winner \<Rightarrow> mk_policy_decision BLOCKED (rc_reason winner) matched_rules [] False (99 / 100)
         | None \<Rightarrow>
             bind_res (any_res (uncertain_request d) candidates) (\<lambda>uncertain.
               if uncertain
               then mk_policy_decision UNCERTAIN reason_business_confirmation matched_rules [] False (85 / 100)
               else if list_ex (\<lambda>s. rs_stance s = UNKNOWN) stances
               then mk_policy_decision UNCERTAIN reason_unknown_stance matched_rules [] False (50 / 100)
               else if list_ex (below_threshold th) stances then ambiguous matched_rules
               else mk_policy_decision SAFE reason_safe_scope matched_rules [] False
                      (case map rs_confidence stances of [] \<Rightarrow> 90 / 100 | c # cs \<Rightarrow> foldl min c cs))))"

section \<open>The engine\<close>

text \<open>
  What a classifier may return: a \<open>PolicyDecision\<close> (whose confidence is not finite when it was
  built past the validation), a string, a dict, or anything else.
\<close>

datatype classifier_result =
    ClsDecision policy_decision
  | ClsDecisionNonFinite policy_decision
  | ClsStr pystr
  | ClsDict "(pystr, pyval) dict"
  | ClsOther

definition parse_status :: "ucd \<Rightarrow> pystr \<Rightarrow> policy_status option" where
  "parse_status T s =
     find (\<lambda>st. u_upper T s = u (policy_status_name st)) [SAFE, UNCERTAIN, BLOCKED]"

text \<open>\<open>float(value)\<close> of an int or a float; a large int overflows.\<close>

definition to_float :: "pyval \<Rightarrow> pyfloat res" where
  "to_float v = (case v of
      PInt n \<Rightarrow> (if \<bar>n\<bar> \<ge> 2 ^ 1024 - 2 ^ 970 then Inl OverflowError else Inr (Fin (of_int n)))
    | PFloat f \<Rightarrow> Inr f
    | _ \<Rightarrow> Inl (ValueError ''classifier_confidence_invalid''))"

fun str_items :: "pyval list \<Rightarrow> pystr list res" where
  "str_items [] = Inr []"
| "str_items (PStr s # vs) = bind_res (str_items vs) (\<lambda>ss. Inr (s # ss))"
| "str_items (_ # vs) = Inl (ValueError ''classifier_result_invalid'')"

definition get_default :: "(pystr, pyval) dict \<Rightarrow> string \<Rightarrow> pyval \<Rightarrow> pyval" where
  "get_default d k v = (case dict_get d (u k) of None \<Rightarrow> v | Some w \<Rightarrow> w)"

definition coerce_classifier_dict :: "ucd \<Rightarrow> (pystr, pyval) dict \<Rightarrow> policy_decision res" where
  "coerce_classifier_dict T d =
     (case get_default d ''status'' PNone of
        PStr s \<Rightarrow>
          (case parse_status T s of
             None \<Rightarrow> Inl (ValueError ''classifier_status_invalid'')
           | Some st \<Rightarrow>
               bind_res (to_float (get_default d ''confidence'' (PFloat (Fin (65 / 100))))) (\<lambda>confidence.
               case confidence of
                 NonFinite n \<Rightarrow> Inl (ValueError ''classifier_confidence_invalid'')
               | Fin q \<Rightarrow>
                   if \<not> (0 \<le> q \<and> q \<le> 1) then Inl (ValueError ''classifier_confidence_invalid'')
                   else (case (get_default d ''reason'' (PStr reason_llm_fallback),
                               get_default d ''matched_rules'' (PList []),
                               get_default d ''warnings'' (PList [])) of
                      (PStr reason, PList matched, PList warnings) \<Rightarrow>
                         bind_res (str_items matched) (\<lambda>ms.
                         bind_res (str_items warnings) (\<lambda>ws.
                           mk_policy_decision st reason ms ws True q))
                    | _ \<Rightarrow> Inl (ValueError ''classifier_result_invalid''))))
      | _ \<Rightarrow> Inl (ValueError ''classifier_status_invalid''))"

definition coerce_classifier_result :: "ucd \<Rightarrow> classifier_result \<Rightarrow> policy_decision res" where
  "coerce_classifier_result T result = (case result of
      ClsDecision d \<Rightarrow> Inr (d\<lparr>pd_classifier_used := True\<rparr>)
    | ClsDecisionNonFinite d \<Rightarrow> Inl (ValueError ''classifier_confidence_invalid'')
    | ClsStr s \<Rightarrow>
        (case parse_status T s of
           None \<Rightarrow> Inl (ValueError ''classifier_status_invalid'')
         | Some st \<Rightarrow> mk_policy_decision st reason_llm_fallback [] [] True (65 / 100))
    | ClsDict d \<Rightarrow> coerce_classifier_dict T d
    | ClsOther \<Rightarrow> Inl (TypeError ''classifier_result_invalid''))"

text \<open>\<open>type(exc).__name__\<close> for the exceptions of the coercion.\<close>

fun exn_name :: "exn \<Rightarrow> string" where
  "exn_name (ValueError _) = ''ValueError''"
| "exn_name (TypeError _) = ''TypeError''"
| "exn_name OverflowError = ''OverflowError''"
| "exn_name ValidationError = ''ValidationError''"
| "exn_name _ = ''Exception''"

text \<open>The classifier is an argument of the engine: it may raise (the class name is \<open>Inl\<close>).\<close>

type_synonym classifier = "pystr \<Rightarrow> string + classifier_result"

record policy_engine =
  pe_rules :: "risk_rule list"
  pe_catalog_version :: string
  pe_patterns :: "stance_pattern list"
  pe_thresholds :: policy_resolution_thresholds
  pe_classifier :: "classifier option"

datatype any_rule = AnyRisk risk_rule | AnyLegacy policy_rule

definition coerce_rule :: "any_rule \<Rightarrow> risk_rule" where
  "coerce_rule rule = (case rule of
      AnyRisk r \<Rightarrow> r
    | AnyLegacy r \<Rightarrow>
        let blocked = (pr_status r = BLOCKED) in
        \<lparr>rr_rule_id = pr_rule_id r,
         rr_category = (case risk_category_of (pr_category r) of Inl _ \<Rightarrow> BUSINESS_UNCERTAIN | Inr c \<Rightarrow> c),
         rr_action = (if blocked then FABRICATE_CUSTOMER_CASE else REQUEST_BUSINESS_CONFIRMATION),
         rr_severity = (if blocked then HIGH else MEDIUM),
         rr_status_hint = pr_status r,
         rr_detectors = map (\<lambda>p. \<lparr>ds_pattern = p, ds_matcher_type = NormalizedLiteral\<rparr>) (pr_patterns r),
         rr_priority = pr_priority r, rr_reason = pr_reason r, rr_enabled = True\<rparr>)"

definition make_engine :: "classifier option \<Rightarrow> any_rule list \<Rightarrow> policy_engine" where
  "make_engine clf rules =
     \<lparr>pe_rules = map coerce_rule rules, pe_catalog_version = RISK_CATALOG_VERSION,
      pe_patterns = STANCE_PATTERNS_ZH_V1, pe_thresholds = RESOLUTION_THRESHOLDS_V1,
      pe_classifier = clf\<rparr>"

definition default_engine :: "classifier option \<Rightarrow> policy_engine" where
  "default_engine clf = make_engine clf (map AnyRisk BUSINESS_RISK_RULES)"

definition classifier_unavailable :: "string \<Rightarrow> policy_decision res" where
  "classifier_unavailable name =
     mk_policy_decision UNCERTAIN reason_classifier_unavailable []
       [u ''classifier_error:'' @ u name] True 0"

definition classify :: "ucd \<Rightarrow> classifier \<Rightarrow> pystr \<Rightarrow> policy_decision res" where
  "classify T clf text = (case clf text of
      Inl name \<Rightarrow> classifier_unavailable name
    | Inr r \<Rightarrow> (case coerce_classifier_result T r of
          Inl e \<Rightarrow> classifier_unavailable (exn_name e)
        | Inr d \<Rightarrow> Inr d))"

definition decide :: "ucd \<Rightarrow> digest \<Rightarrow> policy_engine \<Rightarrow> pystr \<Rightarrow> policy_decision res" where
  "decide T sha E text =
     (let normalized = normalize_policy_text T text
      in if npt_normalized normalized = []
         then mk_policy_decision SAFE reason_empty_input [] [] False (50 / 100)
         else bind_res (detect T sha (pe_rules E) (pe_catalog_version E) normalized) (\<lambda>candidates.
           if candidates \<noteq> []
           then bind_res (resolve_stances T (pe_patterns E) normalized candidates) (\<lambda>stances.
                  resolve_policy (pe_thresholds E) candidates stances)
           else case pe_classifier E of
             None \<Rightarrow> mk_policy_decision SAFE reason_no_rule [] [] False (72 / 100)
           | Some clf \<Rightarrow> classify T clf text))"

definition rejection_message :: "policy_decision \<Rightarrow> pystr" where
  "rejection_message decision =
     (if pd_status decision = BLOCKED then blocked_message decision
      else if pd_status decision = UNCERTAIN then uncertain_message decision
      else [])"

end
