(* ===== verification/Coordinator.thy ===== *)
theory Coordinator
  imports Rag_Clients Routing Policy_Engine
begin

text \<open>
  \<open>orchestration/coordinator.py\<close>: the single entry of the agent. The policy is decided first; only
  then are the routers, the retrieval client and the customer store used. The store and the client
  are operations of the coordinator; the trace list is returned by each task.
\<close>

section \<open>State\<close>

text \<open>\<open>co_uuid\<close> is \<open>uuid.uuid4().hex\<close>.\<close>

record 's coordinator =
  co_library :: library
  co_digest :: digest
  co_policy :: policy_engine
  co_tables :: signal_tables
  co_list_all :: "('s, customer_profile list) op"
  co_load :: "pystr \<Rightarrow> ('s, customer_profile option) op"
  co_rag :: "pystr \<Rightarrow> ('s, rag_result) op"
  co_clock :: "'s \<Rightarrow> datetime \<times> 's"
  co_uuid :: "'s \<Rightarrow> pystr \<times> 's"

record orchestration_request_metadata =
  om_request_id :: pystr
  om_trace_id :: pystr
  om_session_id :: pystr

definition mk_request_metadata :: "ucd \<Rightarrow> pystr \<Rightarrow> pystr \<Rightarrow> pystr \<Rightarrow> orchestration_request_metadata res" where
  "mk_request_metadata T request trace session =
     bind_res (str_field T 1 (Some 128) request) (\<lambda>rid.
     bind_res (str_field T 1 (Some 128) trace) (\<lambda>tid.
     bind_res (str_field T 1 (Some 128) session) (\<lambda>sid.
     Inr \<lparr>om_request_id = rid, om_trace_id = tid, om_session_id = sid\<rparr>)))"

definition resolve_request_metadata ::
  "'s coordinator \<Rightarrow> pystr option \<Rightarrow> orchestration_request_metadata option \<Rightarrow> ('s, orchestration_request_metadata) op" where
  "resolve_request_metadata C session metadata =
     (case metadata of
        Some m \<Rightarrow>
          if session \<noteq> None \<and> session \<noteq> Some (om_session_id m)
          then raise_op (ValueError ''session_id conflicts with trusted request metadata'')
          else ret m
      | None \<Rightarrow>
          bind_op (read_op (co_uuid C)) (\<lambda>request.
          bind_op (read_op (co_uuid C)) (\<lambda>trace.
          bind_op (if truthy session then ret (the session)
                   else bind_op (read_op (co_uuid C)) (\<lambda>hex. ret (take 8 hex))) (\<lambda>sid.
          lift_res (mk_request_metadata (lib_ucd (co_library C)) ((u ''req_'') @ request) ((u ''trace_'') @ trace) sid)))))"

section \<open>Helpers\<close>

text \<open>\<open>int(x)\<close> truncates.\<close>

definition py_int :: "rat \<Rightarrow> int" where
  "py_int x = (if 0 \<le> x then \<lfloor>x\<rfloor> else \<lceil>x\<rceil>)"

definition elapsed_int :: "datetime \<Rightarrow> datetime \<Rightarrow> int" where
  "elapsed_int start now = py_int (fl (fl (of_int (instant now - instant start) / 1000000) * 1000))"

definition compacted :: "ucd \<Rightarrow> pystr \<Rightarrow> pystr" where
  "compacted T raw =
     (let words = py_join (u '' '') (py_split T raw)
      in if length words \<le> 80 then words else take 79 words @ (u ''...''))"

text \<open>\<open>s.replace(needle, "")\<close> for a needle that is not empty.\<close>

function remove_all :: "pystr \<Rightarrow> pystr \<Rightarrow> pystr" where
  "remove_all needle s =
     (if needle = [] \<or> s = [] then s
      else if prefix needle s then remove_all needle (drop (length needle) s)
      else hd s # remove_all needle (tl s))"
  by pat_completeness auto
termination by (relation "measure (\<lambda>(needle, s). length s)") auto

declare remove_all.simps [simp del]

definition source_member :: "pyval \<Rightarrow> pystr \<Rightarrow> pyval res" where
  "source_member src name =
     (case src of
        PDict d \<Rightarrow> (case map_of d name of None \<Rightarrow> Inl KeyError | Some v \<Rightarrow> Inr v)
      | _ \<Rightarrow> Inl (TypeError ''not subscriptable''))"

definition source_line :: "library \<Rightarrow> pyval \<Rightarrow> pystr res" where
  "source_line L src =
     bind_res (source_member src (u ''source_id'')) (\<lambda>sid.
     bind_res (source_member src (u ''title'')) (\<lambda>title.
     Inr ((u ''- '') @ py_str L sid @ [65306] @ py_str L title)))"

definition format_rag_response :: "library \<Rightarrow> rag_result \<Rightarrow> pystr res" where
  "format_rag_response L r =
     bind_res (map_res (source_line L) (rg_sources r)) (\<lambda>source_lines.
     Inr (py_join [10]
       ([rg_answer r, [], [32622, 20449, 24230, 65306] @ py_fixed 2 (rg_confidence r)]
        @ (if rg_sources r \<noteq> [] then [24341, 29992, 26469, 28304, 65306] # source_lines else [])
        @ (if rg_warnings r \<noteq> [] then [[25552, 31034, 65306] @ py_join [65307] (rg_warnings r)] else []))))"

section \<open>The tasks\<close>

record outcome =
  oc_response :: pystr
  oc_rag_result :: "rag_result option"
  oc_confidence :: rat
  oc_steps :: "agent_step list"

definition diagnostic_step :: "ucd \<Rightarrow> pystr \<Rightarrow> rag_result \<Rightarrow> rag_call_diagnostic \<Rightarrow> agent_step" where
  "diagnostic_step T txt r d =
     \<lparr>as_step_name = dg_step_name d, as_input_summary = compacted T txt,
      as_output_summary = (if truthy (dg_message d) then the (dg_message d) else (u ''RAG query completed'')),
      as_confidence = Some (if dg_success d then rg_confidence r else 0),
      as_latency_ms = (case dg_latency_ms d of None \<Rightarrow> 0 | Some x \<Rightarrow> py_int x),
      as_tool_calls = (if dg_provider d = (u ''external'') then [(u ''POST /query'')] else []),
      as_warnings = (if \<not> dg_success d \<or> dg_step_name d = (u ''local_rag_fallback'') then rg_warnings r else [])\<rparr>"

definition rag_steps :: "library \<Rightarrow> pystr \<Rightarrow> rag_result \<Rightarrow> agent_step list" where
  "rag_steps L txt r =
     (if rg_diagnostics r \<noteq> [] then map (diagnostic_step (lib_ucd L) txt r) (rg_diagnostics r)
      else [\<lparr>as_step_name = (u ''rag_query''), as_input_summary = compacted (lib_ucd L) txt,
             as_output_summary = (u ''provider='') @ u (rag_provider_value (rg_provider r)) @ (u '', confidence='') @ py_str L (pv_float (rg_confidence r)),
             as_confidence = Some (rg_confidence r), as_latency_ms = 0, as_tool_calls = [], as_warnings = rg_warnings r\<rparr>])"

definition run_qa :: "'s coordinator \<Rightarrow> pystr \<Rightarrow> ('s, outcome) op" where
  "run_qa C txt =
     bind_op (co_rag C txt) (\<lambda>r.
     bind_op (lift_res (format_rag_response (co_library C) r)) (\<lambda>response.
     ret \<lparr>oc_response = response, oc_rag_result = Some r, oc_confidence = rg_confidence r,
          oc_steps = rag_steps (co_library C) txt r\<rparr>))"

definition named_in :: "pystr \<Rightarrow> customer_profile \<Rightarrow> bool" where
  "named_in txt p \<longleftrightarrow> list_ex (\<lambda>name. name \<noteq> [] \<and> py_in name txt) (cp_customer_name p # cp_aliases p)"

definition ascii_word :: "nat \<Rightarrow> bool" where
  "ascii_word c \<longleftrightarrow> 97 \<le> c \<and> c \<le> 122 \<or> 65 \<le> c \<and> c \<le> 90 \<or> 48 \<le> c \<and> c \<le> 57 \<or> c = 95 \<or> c = 45"

definition select_profiles :: "'s coordinator \<Rightarrow> pystr \<Rightarrow> ('s, customer_profile list) op" where
  "select_profiles C txt =
     bind_op (co_list_all C) (\<lambda>all.
     let profiles = filter (named_in txt) all
     in if profiles \<noteq> [] then ret profiles
        else case find (\<lambda>r. 3 \<le> length r) (runs ascii_word txt) of
               None \<Rightarrow> ret []
             | Some word \<Rightarrow> bind_op (co_load C word) (\<lambda>p. ret (case p of None \<Rightarrow> [] | Some q \<Rightarrow> [q])))"

definition profile_line :: "customer_profile \<Rightarrow> pystr" where
  "profile_line p =
     (let deal = (case cp_deal_score p of None \<Rightarrow> [26410, 35780, 20998]
                  | Some d \<Rightarrow> py_str_int (ds_score d) @ (u ''('') @ u (deal_level_value (ds_level d)) @ (u '')''));
          health = (case cp_health_score p of None \<Rightarrow> [26410, 35780, 20998]
                  | Some h \<Rightarrow> py_str_int (hs_health_score h) @ (u ''('') @ u (health_status_value (hs_status h)) @ (u '')''))
      in (u ''- '') @ cp_customer_name p @ [58, 32, 38454, 27573, 61] @ u (stage_value (cp_sales_stage p)) @ [44, 32, 25104, 20132, 61] @ deal @ [44, 32, 20581, 24247, 61] @ health)"

definition step_at :: "pystr \<Rightarrow> pystr \<Rightarrow> pystr \<Rightarrow> rat \<Rightarrow> int \<Rightarrow> agent_step" where
  "step_at name input summary confidence latency =
     \<lparr>as_step_name = name, as_input_summary = input, as_output_summary = summary, as_confidence = Some confidence,
      as_latency_ms = latency, as_tool_calls = [], as_warnings = []\<rparr>"

definition run_sales_analysis :: "'s coordinator \<Rightarrow> pystr \<Rightarrow> ('s, outcome) op" where
  "run_sales_analysis C txt =
     bind_op (read_op (co_clock C)) (\<lambda>started.
     bind_op (select_profiles C txt) (\<lambda>selected.
     bind_op (if selected = [] then bind_op (co_list_all C) (\<lambda>all. ret (take 5 all)) else ret selected) (\<lambda>profiles.
     bind_op (read_op (co_clock C)) (\<lambda>now.
     let confidence = (if profiles \<noteq> [] then fl (18/25) else fl (7/20))
     in ret \<lparr>oc_response = py_join [10]
               ([38144, 21806, 20998, 26512, 32467, 26524, 65306] # (if profiles = [] then [[26242, 26080, 23458, 25143, 25968, 25454, 12290, 21487, 20808, 36816, 34892, 32, 115, 101, 101, 100, 32, 21629, 20196, 29983, 25104, 28436, 31034, 25968, 25454, 12290]] else [])
                @ map profile_line (take 5 profiles)),
             oc_rag_result = None, oc_confidence = confidence,
             oc_steps = [step_at (u ''sales_module'') (compacted (lib_ucd (co_library C)) txt)
                           ((u ''profiles='') @ py_str_nat (length profiles)) confidence (elapsed_int started now)]\<rparr>))))"

definition run_weekly_report :: "'s coordinator \<Rightarrow> ('s, outcome) op" where
  "run_weekly_report C =
     bind_op (read_op (co_clock C)) (\<lambda>started.
     bind_op (co_list_all C) (\<lambda>profiles.
     bind_op (read_op (co_clock C)) (\<lambda>now.
     let scored = filter (\<lambda>p. cp_deal_score p \<noteq> None) profiles;
         high = filter (\<lambda>p. 70 \<le> ds_score (the (cp_deal_score p))) scored;
         risks = filter (\<lambda>p. 0 < high_priority_risk_count p) profiles;
         confidence = (if profiles \<noteq> [] then 3/4 else fl (3/10))
     in ret \<lparr>oc_response = py_join [10]
               [[26412, 21608, 38144, 21806, 21608, 25253],
                [45, 32, 23458, 25143, 24635, 25968, 65306] @ py_str_nat (length profiles),
                [45, 32, 24050, 35780, 20998, 23458, 25143, 65306] @ py_str_nat (length scored),
                [45, 32, 39640, 28508, 23458, 25143, 65306] @ py_str_nat (length high),
                [45, 32, 39640, 39118, 38505, 23458, 25143, 65306] @ py_str_nat (length risks),
                [19979, 21608, 24314, 35758, 65306, 20248, 20808, 36319, 36827, 39640, 28508, 23458, 25143, 65292, 38024, 23545, 39640, 39118, 38505, 23458, 25143, 34917, 20805, 31454, 21697, 23545, 27604, 21644, 20132, 20184, 20445, 38556, 35828, 26126, 12290]],
             oc_rag_result = None, oc_confidence = confidence,
             oc_steps = [step_at (u ''writer_module.weekly_report'') (u ''weekly_report'')
                           ((u ''customers='') @ py_str_nat (length profiles) @ (u '', high='') @ py_str_nat (length high)
                            @ (u '', risks='') @ py_str_nat (length risks)) confidence (elapsed_int started now)]\<rparr>)))"

definition source_id_text :: "pyval \<Rightarrow> pystr res" where
  "source_id_text src =
     bind_res (source_member src (u ''source_id'')) (\<lambda>v.
     case v of PStr s \<Rightarrow> Inr s | _ \<Rightarrow> Inl (TypeError ''sequence item is not a string''))"

definition run_podcast :: "'s coordinator \<Rightarrow> pystr \<Rightarrow> ('s, outcome) op" where
  "run_podcast C txt =
     bind_op (run_qa C txt) (\<lambda>qa.
     let stripped = py_strip (lib_ucd (co_library C)) (remove_all [25773, 23458] (remove_all [29983, 25104] txt));
         title = (if stripped \<noteq> [] then stripped else [20225, 19994, 37319, 36141, 36235, 21183]);
         sources = (case oc_rag_result qa of None \<Rightarrow> [] | Some r \<Rightarrow> rg_sources r)
     in bind_op (lift_res (map_res source_id_text sources)) (\<lambda>ids.
     ret \<lparr>oc_response = py_join [10]
            [[25773, 23458, 33050, 26412, 65306] @ title,
             [24320, 22330, 65306, 27426, 36814, 25910, 21548, 26412, 26399, 20225, 19994, 37319, 36141, 27934, 23519, 12290],
             [31532, 19968, 27573, 65306, 20171, 32461, 19994, 21153, 32972, 26223, 21644, 20851, 38190, 38382, 39064, 12290],
             [31532, 20108, 27573, 65306, 32467, 21512, 30693, 35782, 24211, 35777, 25454, 23637, 24320, 20998, 26512, 12290] @ (if sources \<noteq> [] then [10, 24341, 29992, 32032, 26448, 65306] @ py_join (u '', '') ids else []),
             [32467, 23614, 65306, 24635, 32467, 34892, 21160, 24314, 35758, 65292, 24182, 25552, 37266, 21548, 20247, 20851, 27880, 21518, 32493, 37319, 36141, 39118, 38505, 12290]],
          oc_rag_result = oc_rag_result qa, oc_confidence = oc_confidence qa,
          oc_steps = oc_steps qa @ [step_of ''writer_module.podcast'' (u ''podcast_script_generated'') (Some (oc_confidence qa))]\<rparr>))"

definition run_email :: "'s coordinator \<Rightarrow> pystr \<Rightarrow> ('s, outcome) op" where
  "run_email C txt =
     bind_op (read_op (co_clock C)) (\<lambda>started.
     bind_op (read_op (co_clock C)) (\<lambda>now.
     ret \<lparr>oc_response = py_join [10]
            [[37038, 20214, 33609, 31295, 65306], [23562, 25964, 30340, 23458, 25143, 65292, 24744, 22909, 65281], [],
             [24863, 35874, 24744, 36817, 26399, 23545, 37319, 36141, 26041, 26696, 30340, 27807, 36890, 19982, 21453, 39304, 12290, 25105, 20204, 24050, 26681, 25454, 24403, 21069, 38656, 27714, 25972, 29702, 21518, 32493, 36319, 36827, 20107, 39033, 65292, 24314, 35758, 23433, 25490, 19968, 27425, 30701, 20250, 30830, 35748, 39044, 31639, 12289, 26102, 38388, 32447, 21644, 20915, 31574, 27969, 31243, 12290],
             [], [22914, 24744, 26041, 20415, 65292, 35831, 21578, 30693, 26412, 21608, 21487, 27807, 36890, 26102, 38388, 12290], [], [27492, 33268], [38144, 21806, 22242, 38431]],
          oc_rag_result = None, oc_confidence = fl (17/25),
          oc_steps = [step_at (u ''writer_module.email'') (compacted (lib_ucd (co_library C)) txt) (u ''email_draft_generated'')
                        (fl (17/25)) (elapsed_int started now)]\<rparr>))"

definition execute_task :: "'s coordinator \<Rightarrow> pystr \<Rightarrow> task_route \<Rightarrow> ('s, outcome) op" where
  "execute_task C txt route =
     (case tr_task route of
        TaskQa \<Rightarrow> run_qa C txt
      | TaskWeeklyReport \<Rightarrow> run_weekly_report C
      | TaskPodcastScript \<Rightarrow> run_podcast C txt
      | TaskEmailDraft \<Rightarrow> run_email C txt
      | TaskSalesAnalysis \<Rightarrow> run_sales_analysis C txt)"

section \<open>The run\<close>

text \<open>The constructor of \<open>OrchestrationResult\<close>.\<close>

definition mk_orchestration_result :: "orchestration_result \<Rightarrow> orchestration_result res" where
  "mk_orchestration_result r = checked (0 \<le> or_confidence r \<and> or_confidence r \<le> 1) r"

definition policy_step :: "ucd \<Rightarrow> pystr \<Rightarrow> policy_decision \<Rightarrow> int \<Rightarrow> agent_step" where
  "policy_step T txt decision latency =
     \<lparr>as_step_name = (u ''policy_engine''), as_input_summary = compacted T txt,
      as_output_summary = u (policy_status_name (pd_status decision)) @ (u '': '') @ pd_reason decision,
      as_confidence = Some (pd_confidence decision), as_latency_ms = latency, as_tool_calls = [],
      as_warnings = pd_warnings decision\<rparr>"

definition router_step :: "policy_decision \<Rightarrow> intent_result \<Rightarrow> task_route \<Rightarrow> int \<Rightarrow> agent_step" where
  "router_step decision result route latency =
     \<lparr>as_step_name = (u ''router''), as_input_summary = (u ''intent='') @ u (intent_value (ir_intent result)),
      as_output_summary = (u ''task='') @ u (task_value (tr_task route)) @ (u '': '') @ tr_reason route,
      as_confidence = Some (tr_confidence route), as_latency_ms = latency, as_tool_calls = [],
      as_warnings = (if is_uncertain decision then [rejection_message decision] else [])\<rparr>"

definition blocked_result ::
  "pystr \<Rightarrow> pystr \<Rightarrow> policy_decision \<Rightarrow> agent_step list \<Rightarrow> int \<Rightarrow> datetime \<Rightarrow> orchestration_result res" where
  "blocked_result sid txt decision steps latency now =
     mk_orchestration_result
       \<lparr>or_session_id = sid, or_user_input = txt, or_policy = decision, or_intent_result = None, or_task_route = None,
        or_final_response = rejection_message decision, or_rag_result = None, or_citations = [],
        or_confidence = pd_confidence decision, or_trace = steps,
        or_metadata = default_metadata\<lparr>im_session_id := sid, im_intent := Some ''blocked'',
           im_intent_confidence := Some (pd_confidence decision), im_latency_ms := latency\<rparr>,
        or_timestamp = now\<rparr>"

definition answer_result ::
  "pystr \<Rightarrow> pystr \<Rightarrow> policy_decision \<Rightarrow> intent_result \<Rightarrow> task_route \<Rightarrow> outcome \<Rightarrow> agent_step list \<Rightarrow> int \<Rightarrow> datetime
    \<Rightarrow> orchestration_result res" where
  "answer_result sid txt decision result route oc steps latency now =
     mk_orchestration_result
       \<lparr>or_session_id = sid, or_user_input = txt, or_policy = decision, or_intent_result = Some result,
        or_task_route = Some route,
        or_final_response = (if is_uncertain decision then rejection_message decision @ [10, 10] else []) @ oc_response oc,
        or_rag_result = oc_rag_result oc,
        or_citations = (case oc_rag_result oc of None \<Rightarrow> [] | Some r \<Rightarrow> rg_sources r),
        or_confidence = (if is_uncertain decision then min (oc_confidence oc) (pd_confidence decision) else oc_confidence oc),
        or_trace = steps,
        or_metadata = default_metadata\<lparr>im_session_id := sid, im_intent := Some (intent_value (ir_intent result)),
           im_intent_confidence := Some (ir_confidence result), im_tools_called := map as_step_name steps,
           im_latency_ms := latency\<rparr>,
        or_timestamp = now\<rparr>"

text \<open>The part of \<open>run\<close> behind the policy gate.\<close>

definition run_allowed ::
  "'s coordinator \<Rightarrow> pystr \<Rightarrow> pystr \<Rightarrow> task_name option \<Rightarrow> datetime \<Rightarrow> policy_decision \<Rightarrow> agent_step
    \<Rightarrow> ('s, orchestration_result) op" where
  "run_allowed C sid txt override start decision first_step =
     (let T = lib_ucd (co_library C)
      in bind_op (read_op (co_clock C)) (\<lambda>route_start.
         bind_op (lift_res (route_intent T (co_tables C) txt)) (\<lambda>result.
         bind_op (lift_res (route_task T txt (Some result))) (\<lambda>routed.
         bind_op (lift_res (case override of None \<Rightarrow> Inr routed | Some task \<Rightarrow> mk_task_route task 1 [21629, 20196, 26174, 24335, 25351, 23450, 25191, 34892, 20219, 21153])) (\<lambda>route.
         bind_op (read_op (co_clock C)) (\<lambda>routed_at.
         bind_op (execute_task C txt route) (\<lambda>oc.
         bind_op (read_op (co_clock C)) (\<lambda>ended.
         bind_op (read_op (co_clock C)) (\<lambda>now.
         lift_res (answer_result sid txt decision result route oc
           (first_step # router_step decision result route (elapsed_int route_start routed_at) # oc_steps oc)
           (elapsed_int start ended) now))))))))))"

definition run_gate ::
  "'s coordinator \<Rightarrow> pystr \<Rightarrow> pystr \<Rightarrow> task_name option \<Rightarrow> datetime \<Rightarrow> policy_decision \<Rightarrow> agent_step
    \<Rightarrow> ('s, orchestration_result) op" where
  "run_gate C sid txt override start decision first_step =
     (if is_blocked decision
      then bind_op (read_op (co_clock C)) (\<lambda>ended.
           bind_op (read_op (co_clock C)) (\<lambda>now.
           lift_res (blocked_result sid txt decision [first_step] (elapsed_int start ended) now)))
      else run_allowed C sid txt override start decision first_step)"

definition run ::
  "'s coordinator \<Rightarrow> pystr \<Rightarrow> pystr option \<Rightarrow> task_name option \<Rightarrow> orchestration_request_metadata option
    \<Rightarrow> ('s, orchestration_result) op" where
  "run C txt session override metadata =
     (let T = lib_ucd (co_library C)
      in bind_op (resolve_request_metadata C session metadata) (\<lambda>m.
         let sid = om_session_id m
         in bind_op (read_op (co_clock C)) (\<lambda>start.
            bind_op (read_op (co_clock C)) (\<lambda>policy_start.
            bind_op (lift_res (decide T (co_digest C) (co_policy C) txt)) (\<lambda>decision.
            bind_op (read_op (co_clock C)) (\<lambda>decided_at.
            run_gate C sid txt override start decision (policy_step T txt decision (elapsed_int policy_start decided_at))))))))"

section \<open>The application service\<close>

text \<open>\<open>application/service.py\<close>: \<open>execute_with_context\<close>.\<close>

definition execute_with_context ::
  "'s coordinator \<Rightarrow> user_request \<Rightarrow> request_context \<Rightarrow> task_name option \<Rightarrow> ('s, application_result) op" where
  "execute_with_context C request ctx forced =
     (let override = (case forced of Some t \<Rightarrow> Some t | None \<Rightarrow> ur_task_override request)
      in bind_op (lift_res (mk_request_metadata (lib_ucd (co_library C)) (cx_request_id ctx) (cx_trace_id ctx) (cx_session_id ctx))) (\<lambda>m.
         bind_op (try_op (run C (ur_text request) (Some (cx_session_id ctx)) override (Some m))
                    (\<lambda>e. Some (raise_op ApplicationExecutionError))) (\<lambda>result.
         ret \<lparr>ar_context = ctx, ar_orchestration = result\<rparr>)))"

section \<open>Operations that answer\<close>

definition answers :: "('s, 'a) op \<Rightarrow> bool" where
  "answers m \<longleftrightarrow> (\<forall>s. \<exists>x s'. m s = (Inr x, s'))"

named_theorems answers_intros

lemma answers_ret [answers_intros]: "answers (ret x)" "answers (read_op f)"
  by (auto simp: answers_def read_op_def split: prod.splits)

lemma answers_lift [answers_intros]: "\<exists>x. r = Inr x \<Longrightarrow> answers (lift_res r)"
  by (auto simp: answers_def)

lemma answers_bind [answers_intros]:
  assumes "answers m" "\<And>x s s'. m s = (Inr x, s') \<Longrightarrow> answers (f x)"
  shows "answers (bind_op m f)"
  unfolding answers_def
proof
  fix s
  obtain x s1 where "m s = (Inr x, s1)" using assms(1) unfolding answers_def by blast
  moreover then obtain y s2 where "f x s1 = (Inr y, s2)" using assms(2) unfolding answers_def by blast
  ultimately show "\<exists>y s2. bind_op m f s = (Inr y, s2)" by (simp add: bind_op_def)
qed

lemma answers_if [answers_intros]: "(b \<Longrightarrow> answers m) \<Longrightarrow> (\<not> b \<Longrightarrow> answers n) \<Longrightarrow> answers (if b then m else n)"
  by simp

lemma answers_option [answers_intros]:
  "(v = None \<Longrightarrow> answers m) \<Longrightarrow> (\<And>x. v = Some x \<Longrightarrow> answers (f x)) \<Longrightarrow> answers (case v of None \<Rightarrow> m | Some x \<Rightarrow> f x)"
  by (cases v) simp_all

section \<open>A coordinator with a client that keeps its contract\<close>

lemma source_for_member:
  "source_for src e \<Longrightarrow> source_member src (u ''source_id'') = Inr (PStr (re_source_id e)) \<and> (\<exists>t. source_member src (u ''title'') = Inr (PStr t))"
  unfolding source_for_def source_member_def member_of_def
  by (elim exE conjE) (simp split: option.splits del: u_Cons)

locale coordinator_core =
  fixes C :: "'s coordinator"
  assumes client: "rag_client (co_rag C)"
begin

lemma sources: "co_rag C q s = (Inr r, s') \<Longrightarrow> list_all2 source_for (rg_sources r) (rg_evidence r)"
  using rag_client.answers[OF client] by (auto simp: well_formed_answer_def)

lemma formats: "co_rag C q s = (Inr r, s') \<Longrightarrow> \<exists>response. format_rag_response L r = Inr response"
proof -
  assume r: "co_rag C q s = (Inr r, s')"
  have "\<exists>line. source_line L src = Inr line" if src: "src \<in> set (rg_sources r)" for src
  proof -
    obtain e where "source_for src e" using list_all2_partner[OF sources[OF r] src] by blast
    then obtain t where "source_member src (u ''source_id'') = Inr (PStr (re_source_id e))" "source_member src (u ''title'') = Inr (PStr t)"
      using source_for_member by blast
    then show ?thesis by (simp add: source_line_def del: u_Cons)
  qed
  then have "\<exists>ys. map_res (source_line L) (rg_sources r) = Inr ys" by (rule map_res_total)
  then show ?thesis by (auto simp: format_rag_response_def)
qed

lemma source_ids: "co_rag C q s = (Inr r, s') \<Longrightarrow> map_res source_id_text (rg_sources r) = Inr (map re_source_id (rg_evidence r))"
  unfolding map_res_Inr list_all2_map2
  by (drule sources, erule list_all2_mono) (auto simp: source_id_text_def dest: source_for_member simp del: u_Cons)

lemma run_qa_rag: "run_qa C txt s = (Inr oc, s') \<Longrightarrow> \<exists>r s1. co_rag C txt s1 = (Inr r, s') \<and> oc_rag_result oc = Some r \<and> oc_confidence oc = rg_confidence r"
  by (auto simp: run_qa_def bind_op_Inr_iff)

lemma run_qa_answers: "answers (co_rag C txt) \<Longrightarrow> answers (run_qa C txt)"
  unfolding run_qa_def by (intro answers_intros) (auto dest: formats)

lemma task_answers:
  assumes "answers (co_list_all C)" "\<And>i. answers (co_load C i)" "\<And>q. answers (co_rag C q)"
  shows "answers (execute_task C txt route)"
proof -
  have "answers (run_podcast C txt)"
    unfolding run_podcast_def Let_def
    by (intro answers_intros run_qa_answers assms) (auto dest!: run_qa_rag source_ids)
  moreover have "answers (run_sales_analysis C txt)"
    unfolding run_sales_analysis_def select_profiles_def Let_def by (intro answers_intros assms)
  moreover have "answers (run_weekly_report C)" "answers (run_email C txt)"
    unfolding run_weekly_report_def run_email_def Let_def by (intro answers_intros assms)+
  ultimately show ?thesis
    using run_qa_answers assms(3) by (cases "tr_task route") (simp_all add: execute_task_def)
qed

lemma task_confidence:
  assumes "execute_task C txt route s = (Inr oc, s')"
  shows "0 \<le> oc_confidence oc \<and> oc_confidence oc \<le> 1"
proof -
  have qa: "run_qa C txt s = (Inr oc, s') \<Longrightarrow> 0 \<le> oc_confidence oc \<and> oc_confidence oc \<le> 1" for oc s s'
    using rag_client.confident[OF client] run_qa_rag by metis
  have "0 \<le> fl (18/25) \<and> fl (18/25) \<le> 1" "0 \<le> fl (7/20) \<and> fl (7/20) \<le> 1" "0 \<le> fl (3/10) \<and> fl (3/10) \<le> 1"
    "0 \<le> fl (17/25) \<and> fl (17/25) \<le> 1"
    by (intro fl_unit; simp)+
  then show ?thesis
    using assms qa by (cases "tr_task route")
      (auto simp: execute_task_def run_podcast_def run_sales_analysis_def run_weekly_report_def run_email_def bind_op_Inr_iff Let_def
        simp del: u_Cons)
qed

end

text \<open>The coordinator with the client that the factory makes from the configuration.\<close>

definition configured ::
  "(pystr \<Rightarrow> ('s, http_response) op) \<Rightarrow> ('s \<Rightarrow> knowledge_file list \<times> 's) \<Rightarrow> rag_service_config \<Rightarrow> 's coordinator \<Rightarrow> 's coordinator" where
  "configured post files config C = C\<lparr>co_rag := create_rag_client (co_library C) post files (co_clock C) config\<rparr>"

interpretation agent: coordinator_core "configured post files config C"
  for C :: "'s coordinator" and post files config
  by unfold_locales (auto simp: configured_def dest: client.answers)

end
