(* ===== verification/Policy_Safety.thy ===== *)
theory Policy_Safety
  imports Policy_Engine
begin

text \<open>
  What the safety policy promises: the decision matrix as a specification over pairs of a
  candidate and its stance, the refinement of \<open>decide\<close> to it, totality, the fail-closed
  classifier, and the robustness against invisible characters.
\<close>

section \<open>Raising list functions that do not raise\<close>

lemma filter_res_total:
  "(\<And>x. x \<in> set xs \<Longrightarrow> p x = Inr (q x)) \<Longrightarrow> filter_res p xs = Inr (filter q xs)"
  by (induction xs) auto

lemma any_res_total:
  "(\<And>x. x \<in> set xs \<Longrightarrow> p x = Inr (q x)) \<Longrightarrow> any_res p xs = Inr (\<exists>x \<in> set xs. q x)"
  by (induction xs) auto

section \<open>The stance of a candidate\<close>

lemma by_candidate_get:
  "dict_get (by_candidate ss) k = map_of (rev (map (\<lambda>s. (rs_candidate_id s, s)) ss)) k"
proof (induction ss rule: rev_induct)
  case (snoc s ss)
  then show ?case by (auto simp: by_candidate_def)
qed (simp add: by_candidate_def)

abbreviation stances_of :: "risk_candidate list \<Rightarrow> risk_stance list \<Rightarrow> bool" where
  "stances_of cs ss \<equiv> map rs_candidate_id ss = map rc_candidate_id cs"

lemma by_candidate_some:
  assumes "stances_of cs ss" "c \<in> set cs"
  shows "\<exists>s. dict_get (by_candidate ss) (rc_candidate_id c) = Some s"
proof -
  have "rc_candidate_id c \<in> set (map rs_candidate_id ss)" using assms by simp
  then have "dict_get (by_candidate ss) (rc_candidate_id c) \<noteq> None"
    unfolding by_candidate_get map_of_eq_None_iff by (auto simp: image_image)
  then show ?thesis by blast
qed

text \<open>With pairwise different identifiers the dictionary finds the stance of the candidate.\<close>

definition stance_in :: "risk_stance list \<Rightarrow> risk_candidate \<Rightarrow> risk_stance" where
  "stance_in ss c = the (dict_get (by_candidate ss) (rc_candidate_id c))"

lemma stance_in_zip:
  assumes "stances_of cs ss" "distinct (map rc_candidate_id cs)" "(c, s) \<in> set (zip cs ss)"
  shows "stance_in ss c = s"
proof -
  obtain i where i: "i < length cs" "i < length ss" "c = cs ! i" "s = ss ! i"
    using assms(3) by (auto simp: in_set_zip)
  then have "rs_candidate_id s = rc_candidate_id c" using assms(1) by (metis nth_map)
  moreover have "distinct (map fst (rev (map (\<lambda>s. (rs_candidate_id s, s)) ss)))"
    using assms(1,2) by (simp add: rev_map[symmetric] comp_def)
  moreover have "(rs_candidate_id s, s) \<in> set (rev (map (\<lambda>s. (rs_candidate_id s, s)) ss))"
    using i by simp
  ultimately show ?thesis
    unfolding stance_in_def by_candidate_get by (metis map_of_is_SomeI option.sel)
qed

lemma requests_total:
  assumes "stances_of cs ss" "c \<in> set cs"
  shows "requests (by_candidate ss) c = Inr (rs_stance (stance_in ss c) = REQUEST)"
  using by_candidate_some[OF assms] by (auto simp: requests_def stance_in_def)

section \<open>The decision matrix as a specification\<close>

definition policy_matrix ::
  "policy_resolution_thresholds \<Rightarrow> (risk_candidate \<times> risk_stance) list \<Rightarrow> policy_status" where
  "policy_matrix th ps =
     (if \<exists>(c, s) \<in> set ps. high_severity c \<and> rs_stance s = REQUEST then BLOCKED
      else if \<exists>(c, s) \<in> set ps. rc_category c = BUSINESS_UNCERTAIN \<and> rs_stance s = REQUEST
              \<or> rs_stance s = UNKNOWN \<or> below_threshold th s then UNCERTAIN
      else SAFE)"

definition confidences_ok :: "risk_stance list \<Rightarrow> bool" where
  "confidences_ok ss \<longleftrightarrow> list_all (\<lambda>s. 0 \<le> rs_confidence s \<and> rs_confidence s \<le> 1) ss"

lemma foldl_min_range:
  "\<forall>x \<in> insert c (set cs). a \<le> x \<and> x \<le> (b :: 'a :: linorder) \<Longrightarrow> a \<le> foldl min c cs \<and> foldl min c cs \<le> b"
  by (induction cs arbitrary: c) (auto simp: min_def)

lemma safe_confidence_range:
  assumes "confidences_ok ss"
  shows "0 \<le> (case map rs_confidence ss of [] \<Rightarrow> 90 / 100 | c # cs \<Rightarrow> foldl min c cs)
    \<and> (case map rs_confidence ss of [] \<Rightarrow> 90 / 100 | c # cs \<Rightarrow> foldl min c cs) \<le> (1 :: rat)"
  using assms by (cases ss) (auto simp: confidences_ok_def list_all_iff intro!: foldl_min_range)

text \<open>\<open>resolve\<close> with every lookup answered, one branch for each return statement.\<close>

lemma resolve_policy_cases:
  assumes "stances_of cs ss" "confidences_ok ss"
  shows "\<exists>d. resolve_policy th cs ss = Inr d
    \<and> pd_matched_rules d = map matched_rule_name cs \<and> 0 \<le> pd_confidence d \<and> pd_confidence d \<le> 1
    \<and> \<not> pd_classifier_used d
    \<and> (pd_status d = BLOCKED \<longleftrightarrow> (\<exists>c \<in> set cs. high_severity c \<and> rs_stance (stance_in ss c) = REQUEST))
    \<and> (pd_status d = BLOCKED \<longrightarrow> (\<exists>c \<in> set cs. high_severity c \<and> rs_stance (stance_in ss c) = REQUEST
         \<and> pd_reason d = rc_reason c
         \<and> (\<forall>c' \<in> set cs. high_severity c' \<and> rs_stance (stance_in ss c') = REQUEST \<longrightarrow> rc_priority c' \<le> rc_priority c)))
    \<and> (pd_status d = SAFE \<longleftrightarrow>
         \<not> (\<exists>c \<in> set cs. (high_severity c \<or> rc_category c = BUSINESS_UNCERTAIN) \<and> rs_stance (stance_in ss c) = REQUEST)
         \<and> \<not> (\<exists>s \<in> set ss. rs_stance s = UNKNOWN \<or> below_threshold th s))"
proof -
  let ?h = "\<lambda>c. high_severity c \<and> rs_stance (stance_in ss c) = REQUEST"
  let ?u = "\<lambda>c. rc_category c = BUSINESS_UNCERTAIN \<and> rs_stance (stance_in ss c) = REQUEST"
  have h: "filter_res (high_request (by_candidate ss)) cs = Inr (filter ?h cs)"
    by (rule filter_res_total) (simp add: high_request_def requests_total[OF assms(1)])
  have un: "any_res (uncertain_request (by_candidate ss)) cs = Inr (\<exists>c \<in> set cs. ?u c)"
    by (rule any_res_total) (simp add: uncertain_request_def requests_total[OF assms(1)])
  show ?thesis
  proof (cases "py_max_by blocking_key (filter ?h cs)")
    case None
    then show ?thesis using h un safe_confidence_range[OF assms(2)]
      by (auto simp: resolve_policy_def Let_def ambiguous_def mk_policy_decision_def list_ex_iff filter_empty_conv)
  next
    case (Some w)
    then have w: "w \<in> set cs" "?h w" "\<forall>c' \<in> set cs. ?h c' \<longrightarrow> rc_priority c' \<le> rc_priority w"
      by (auto dest!: py_max_by_Some simp: blocking_key_def) (metis less_imp_le)
    have "resolve_policy th cs ss =
        mk_policy_decision BLOCKED (rc_reason w) (map matched_rule_name cs) [] False (99 / 100)"
      using h Some by (simp add: resolve_policy_def Let_def)
    then show ?thesis using w by (auto simp: mk_policy_decision_def)
  qed
qed

lemma resolve_policy_matrix:
  assumes "stances_of cs ss" "confidences_ok ss" "distinct (map rc_candidate_id cs)"
    and "resolve_policy th cs ss = Inr d"
  shows "pd_status d = policy_matrix th (zip cs ss)"
proof -
  have len: "length cs = length ss" using assms(1) by (metis length_map)
  have z: "(\<exists>(c, s) \<in> set (zip cs ss). P c s) \<longleftrightarrow> (\<exists>c \<in> set cs. P c (stance_in ss c))" for P
  proof
    assume "\<exists>c \<in> set cs. P c (stance_in ss c)"
    then obtain i where i: "i < length cs" "P (cs ! i) (stance_in ss (cs ! i))" by (metis in_set_conv_nth)
    then have m: "(cs ! i, ss ! i) \<in> set (zip cs ss)" using len by (auto simp: in_set_zip)
    with i(2) stance_in_zip[OF assms(1,3) m] show "\<exists>(c, s) \<in> set (zip cs ss). P c s" by auto
  next
    assume "\<exists>(c, s) \<in> set (zip cs ss). P c s"
    then obtain c s where "(c, s) \<in> set (zip cs ss)" "P c s" by blast
    then show "\<exists>c \<in> set cs. P c (stance_in ss c)"
      using stance_in_zip[OF assms(1,3)] by (metis set_zip_leftD)
  qed
  have s: "(\<exists>s \<in> set ss. Q s) \<longleftrightarrow> (\<exists>c \<in> set cs. Q (stance_in ss c))" for Q
    using z[of "\<lambda>c s. Q s"] len by (metis (mono_tags, lifting) case_prodE case_prodI in_set_impl_in_set_zip2 set_zip_rightD)
  show ?thesis
    using resolve_policy_cases[OF assms(1,2), of th] assms(4)
    unfolding policy_matrix_def z s by (cases "pd_status d") auto
qed

section \<open>The engine\<close>

definition engine_ok :: "policy_engine \<Rightarrow> bool" where
  "engine_ok E \<longleftrightarrow>
     distinct (map rr_rule_id (pe_rules E))
     \<and> list_all (\<lambda>p. 0 \<le> sp_confidence p \<and> sp_confidence p \<le> 1) (pe_patterns E)"

lemma stance_of_clause_range:
  assumes "list_all (\<lambda>p. 0 \<le> sp_confidence p \<and> sp_confidence p \<le> 1) patterns"
  shows "0 \<le> rs_confidence (stance_of_clause T patterns c clause r)
    \<and> rs_confidence (stance_of_clause T patterns c clause r) \<le> 1"
proof (cases "sort_key pattern_key (filter (pattern_applies c clause r) patterns)")
  case Nil
  then show ?thesis by (simp add: stance_of_clause_def make_stance_def)
next
  case (Cons w ws)
  have "w \<in> set (sort_key pattern_key (filter (pattern_applies c clause r) patterns))"
    unfolding Cons by simp
  then have "w \<in> set patterns" by simp
  then show ?thesis using assms Cons by (auto simp: stance_of_clause_def make_stance_def list_all_iff)
qed

lemma resolve_one_range:
  assumes "resolve_one T patterns nt c = Inr s"
    and "list_all (\<lambda>p. 0 \<le> sp_confidence p \<and> sp_confidence p \<le> 1) patterns"
  shows "0 \<le> rs_confidence s \<and> rs_confidence s \<le> 1"
  using assms(1) stance_of_clause_range[OF assms(2)]
  by (auto simp: resolve_one_def Let_def bind_res_Inr_iff make_stance_def split: option.splits if_splits)

lemma detect_spans:
  assumes "detect T sha rules v nt = Inr cs" "distinct (map rr_rule_id rules)" "offsets_ok nt" "c \<in> set cs"
  shows "span_start (rc_evidence_span c) < span_end (rc_evidence_span c)
    \<and> span_end (rc_evidence_span c) \<le> length (npt_normalized nt)"
proof -
  obtain r a b where "c = make_candidate sha v nt r a b" "rule_hit T nt r (a, b)"
    using detect_correct[OF assms(1,2)] assms(4) by auto
  then show ?thesis using detector_hit_span[OF assms(3)] by (auto simp: rule_hit_def)
qed

lemma resolve_stances_total:
  assumes "\<forall>c \<in> set cs. span_end (rc_evidence_span c) \<le> length (npt_normalized nt)"
    and "list_all (\<lambda>p. 0 \<le> sp_confidence p \<and> sp_confidence p \<le> 1) patterns"
  shows "\<exists>ss. resolve_stances T patterns nt cs = Inr ss \<and> stances_of cs ss \<and> confidences_ok ss
    \<and> list_all2 (\<lambda>c s. resolve_one T patterns nt c = Inr s) cs ss"
proof -
  obtain ss where ss: "resolve_stances T patterns nt cs = Inr ss"
    using map_res_total[of cs "resolve_one T patterns nt"] resolve_one_total assms(1)
    unfolding resolve_stances_def by metis
  then have r: "list_all2 (\<lambda>c s. resolve_one T patterns nt c = Inr s) cs ss"
    by (simp add: resolve_stances_def map_res_Inr)
  have "list_all2 (\<lambda>c s. rs_candidate_id s = rc_candidate_id c) cs ss"
    by (rule list.rel_mono_strong[OF r]) (metis resolve_one_total assms(1) sum.inject(2))
  then have "stances_of cs ss" by (auto simp: list_all2_conv_all_nth intro!: nth_equalityI)
  moreover have "confidences_ok ss"
    using r resolve_one_range[OF _ assms(2)]
    by (auto simp: confidences_ok_def list_all_iff list_all2_conv_all_nth in_set_conv_nth) metis+
  ultimately show ?thesis using ss r by blast
qed

text \<open>The run of the engine on a text with candidates.\<close>

lemma decide_candidates:
  assumes "engine_ok E" "lower_single T (take 20000 txt)"
    and "detect T sha (pe_rules E) (pe_catalog_version E) (normalize_policy_text T txt) = Inr cs" "cs \<noteq> []"
  shows "\<exists>ss d. resolve_stances T (pe_patterns E) (normalize_policy_text T txt) cs = Inr ss
    \<and> stances_of cs ss \<and> confidences_ok ss
    \<and> list_all2 (\<lambda>c s. resolve_one T (pe_patterns E) (normalize_policy_text T txt) c = Inr s) cs ss
    \<and> resolve_policy (pe_thresholds E) cs ss = Inr d \<and> decide T sha E txt = Inr d"
proof -
  let ?nt = "normalize_policy_text T txt"
  have E: "distinct (map rr_rule_id (pe_rules E))"
    "list_all (\<lambda>p. 0 \<le> sp_confidence p \<and> sp_confidence p \<le> 1) (pe_patterns E)"
    using assms(1) by (auto simp: engine_ok_def)
  note spans = detect_spans[OF assms(3) E(1) normalize_offsets_ok[OF assms(2)]]
  have "\<forall>c \<in> set cs. span_end (rc_evidence_span c) \<le> length (npt_normalized ?nt)"
    using spans by blast
  from resolve_stances_total[OF this E(2)] obtain ss where
    ss: "resolve_stances T (pe_patterns E) ?nt cs = Inr ss" "stances_of cs ss" "confidences_ok ss"
      "list_all2 (\<lambda>c s. resolve_one T (pe_patterns E) ?nt c = Inr s) cs ss" by blast
  from resolve_policy_cases[OF ss(2,3)] obtain d where
    d: "resolve_policy (pe_thresholds E) cs ss = Inr d" by metis
  have "npt_normalized ?nt \<noteq> []"
    using spans[of "hd cs"] assms(4) by (cases "npt_normalized ?nt") auto
  then have "decide T sha E txt = Inr d"
    using assms(3,4) ss(1) d by (simp add: decide_def Let_def)
  with ss d show ?thesis by blast
qed

lemma mk_policy_decision_const [simp]:
  "0 \<le> q \<Longrightarrow> q \<le> 1 \<Longrightarrow> \<exists>d. mk_policy_decision st r m w c q = Inr d"
  by (simp add: mk_policy_decision_def)

lemma classify_total: "\<exists>d. classify T clf txt = Inr d"
  by (auto simp: classify_def classifier_unavailable_def mk_policy_decision_def split: sum.split)

section \<open>The shipped catalogue\<close>

lemma business_rules_ids: "distinct (map rr_rule_id BUSINESS_RISK_RULES)"
  by (simp add: BUSINESS_RISK_RULES_def)



lemma stance_patterns_range:
  "list_all (\<lambda>p. 0 \<le> sp_confidence p \<and> sp_confidence p \<le> 1) STANCE_PATTERNS_ZH_V1"
  by (simp add: STANCE_PATTERNS_ZH_V1_def zh_pattern_def)

lemma default_engine_sel [simp]:
  "pe_rules (default_engine clf) = BUSINESS_RISK_RULES"
  "pe_patterns (default_engine clf) = STANCE_PATTERNS_ZH_V1"
  "pe_thresholds (default_engine clf) = RESOLUTION_THRESHOLDS_V1"
  "pe_catalog_version (default_engine clf) = RISK_CATALOG_VERSION"
  "pe_classifier (default_engine clf) = clf"
  by (simp_all add: default_engine_def make_engine_def coerce_rule_def comp_def)

lemma default_engine_ok: "engine_ok (default_engine clf)"
  by (simp add: engine_ok_def business_rules_ids stance_patterns_range)

text \<open>A one-rule engine for the concrete runs: the compact literal \<open>ab\<close>, blocked when asked for.\<close>

definition demo_rule :: risk_rule where
  "demo_rule = \<lparr>rr_rule_id = ''demo'', rr_category = SALES_MISREPRESENTATION,
     rr_action = MAKE_ABSOLUTE_DELIVERY_COMMITMENT, rr_severity = HIGH, rr_status_hint = BLOCKED,
     rr_detectors = [\<lparr>ds_pattern = [97, 98], ds_matcher_type = CompactLiteral\<rparr>],
     rr_priority = 90, rr_reason = [1], rr_enabled = True\<rparr>"

definition demo_engine :: "stance_pattern list \<Rightarrow> classifier option \<Rightarrow> policy_engine" where
  "demo_engine ps clf = (make_engine clf [AnyRisk demo_rule])\<lparr>pe_patterns := ps\<rparr>"

lemmas demo_run = demo_engine_def demo_rule_def make_engine_def coerce_rule_def
  normalize_policy_text_def normalize_characters_def drop_final_space_def basic_ucd_def
  basic_lower_cp_def py_isspace_def translate_punctuation_def PUNCTUATION_def ZERO_WIDTH_def
  COMPACT_SEPARATORS_def detect_def occurrences_def occurrences_from_eq occurrence_span_def
  occurs_at_def index_list_def make_candidate_def

abbreviation demo_text :: normalized_policy_text where
  "demo_text \<equiv> normalize_policy_text basic_ucd [97, 95, 98]"

lemma demo_normalized:
  "demo_text = \<lparr>npt_raw = [97, 95, 98], npt_normalized = [97, 95, 98], npt_compact = [97, 98],
     npt_normalized_to_raw = [0, 1, 2], npt_compact_to_normalized = [0, 2]\<rparr>"
  by (simp add: demo_run Let_def)

lemma demo_detect:
  "detect basic_ucd id (pe_rules (demo_engine ps clf)) (pe_catalog_version (demo_engine ps clf)) demo_text
     = Inr [make_candidate id RISK_CATALOG_VERSION demo_text demo_rule 0 3]"
  unfolding demo_normalized by (simp add: demo_run Let_def upt_rec)

lemma demo_engine_ok: "engine_ok (demo_engine [] clf)"
  by (simp add: engine_ok_def demo_engine_def make_engine_def)

lemma demo_lower: "lower_single basic_ucd (take 20000 [97, 95, 98])"
  by (simp add: lower_single_def basic_ucd_def basic_lower_cp_def)

section \<open>Properties\<close>

text \<open>
  C23: what \<open>decide\<close> returns on a text with risk candidates is the decision matrix applied to
  the candidates paired with the stances that the resolver gives them, and it lists every
  candidate. The identifiers, truncated SHA-256 digests, are assumed different.
\<close>

theorem decide_matrix:
  assumes "engine_ok E" "lower_single T (take 20000 txt)"
    and "detect T sha (pe_rules E) (pe_catalog_version E) (normalize_policy_text T txt) = Inr cs"
    and "cs \<noteq> []" "distinct (map rc_candidate_id cs)"
  shows "\<exists>ss d. list_all2 (\<lambda>c s. resolve_one T (pe_patterns E) (normalize_policy_text T txt) c = Inr s) cs ss
    \<and> decide T sha E txt = Inr d
    \<and> pd_status d = policy_matrix (pe_thresholds E) (zip cs ss)
    \<and> pd_matched_rules d = map matched_rule_name cs"
proof -
  from decide_candidates[OF assms(1-4)] obtain ss d where
    r: "stances_of cs ss" "confidences_ok ss"
      "list_all2 (\<lambda>c s. resolve_one T (pe_patterns E) (normalize_policy_text T txt) c = Inr s) cs ss"
      "resolve_policy (pe_thresholds E) cs ss = Inr d" "decide T sha E txt = Inr d" by blast
  from resolve_policy_cases[OF r(1,2), of "pe_thresholds E"] r(4)
  have "pd_matched_rules d = map matched_rule_name cs" by auto
  with r resolve_policy_matrix[OF r(1,2) assms(5) r(4)] show ?thesis by blast
qed

theorem decide_matrix_witness:
  "\<exists>cs ss d. cs \<noteq> []
    \<and> list_all2 (\<lambda>c s. resolve_one basic_ucd [] demo_text c = Inr s) cs ss
    \<and> decide basic_ucd id (demo_engine [] None) [97, 95, 98] = Inr d
    \<and> pd_status d = policy_matrix RESOLUTION_THRESHOLDS_V1 (zip cs ss)"
  using decide_matrix[OF demo_engine_ok demo_lower demo_detect, of None]
  by (fastforce simp: demo_engine_def make_engine_def)

text \<open>
  C34: the engine always answers. With any rules whose ids are distinct, any stance patterns whose
  confidences lie within 0 and 1, and any classifier, a text whose characters keep their number
  under lower-casing gets a decision and no exception.
\<close>

theorem decide_total:
  assumes "engine_ok E" "lower_single T (take 20000 txt)"
  shows "\<exists>d. decide T sha E txt = Inr d"
proof -
  obtain cs where cs: "detect T sha (pe_rules E) (pe_catalog_version E) (normalize_policy_text T txt) = Inr cs"
    using detect_total[OF normalize_offsets_ok[OF assms(2)]] by blast
  show ?thesis
  proof (cases "cs = []")
    case True
    then show ?thesis using cs classify_total
      by (auto simp: decide_def Let_def split: option.split)
  next
    case False
    then show ?thesis using decide_candidates[OF assms cs] by blast
  qed
qed

theorem decide_total_witness:
  "\<exists>d. decide basic_ucd id (default_engine None) [97, 95, 98] = Inr d"
  using decide_total[OF default_engine_ok demo_lower] by blast

text \<open>
  C31: detection is exact, for rules with distinct ids and a text whose characters keep their number
  under lower-casing. The candidates are the occurrences of the literals of the enabled rules in the
  first 20000 characters, each rule and place once, in the order of the sort key; none is missed and
  none made up.
\<close>

theorem detect_exact:
  assumes "lower_single T (take 20000 txt)" "distinct (map rr_rule_id rules)"
  shows "\<exists>cs. detect T sha rules v (normalize_policy_text T txt) = Inr cs
    \<and> set cs = {make_candidate sha v (normalize_policy_text T txt) r a b | a b r.
                  r \<in> set rules \<and> rule_hit T (normalize_policy_text T txt) r (a, b)}
    \<and> distinct (map occurrence_of cs) \<and> sorted (map candidate_key cs)"
proof -
  obtain cs where "detect T sha rules v (normalize_policy_text T txt) = Inr cs"
    using detect_total[OF normalize_offsets_ok[OF assms(1)]] by blast
  with detect_correct[OF this assms(2)] show ?thesis by blast
qed

theorem detect_exact_witness:
  "\<exists>cs. detect basic_ucd id BUSINESS_RISK_RULES RISK_CATALOG_VERSION demo_text = Inr cs
    \<and> distinct (map occurrence_of cs)"
  using detect_exact[OF demo_lower business_rules_ids, of id] by blast



lemma transition_boundaries_None:
  "t \<noteq> [] \<Longrightarrow> py_find s t 0 = None \<Longrightarrow> transition_boundaries s t 0 = []"
  by (subst transition_boundaries.simps) simp

lemma demo_boundaries: "boundaries [97, 95, 98] = [0, 3]"
  by (simp add: boundaries_def TRANSITIONS_def CLAUSE_DELIMITERS_def transition_boundaries_None
      py_find_def occurs_at_def upt_rec)

lemma demo_quote: "quote_context [97, 95, 98] 0 3 = None"
  by (simp add: quote_context_def QUOTE_PAIRS_def py_rfind_def occurs_at_def upt_rec Let_def)



lemma demo_engine_sel [simp]:
  "pe_patterns (demo_engine ps clf) = ps" "pe_thresholds (demo_engine ps clf) = RESOLUTION_THRESHOLDS_V1"
  "pe_rules (demo_engine ps clf) = [demo_rule]" "pe_catalog_version (demo_engine ps clf) = RISK_CATALOG_VERSION"
  by (simp_all add: demo_engine_def make_engine_def coerce_rule_def)











text \<open>What a classifier has to say for its verdict to be a well-formed \<open>SAFE\<close>.\<close>

definition claims_safe :: "ucd \<Rightarrow> string + classifier_result \<Rightarrow> bool" where
  "claims_safe T v = (case v of
      Inl name \<Rightarrow> False
    | Inr (ClsDecision d) \<Rightarrow> pd_status d = SAFE
    | Inr (ClsDecisionNonFinite d) \<Rightarrow> False
    | Inr (ClsStr s) \<Rightarrow> u_upper T s = u ''SAFE''
    | Inr (ClsDict d) \<Rightarrow>
        (\<exists>s. dict_get d (u ''status'') = Some (PStr s) \<and> u_upper T s = u ''SAFE'')
        \<and> dict_get d (u ''confidence'') \<notin> insert (Some PNone) (range (\<lambda>n. Some (PFloat (NonFinite n))))
        \<and> (\<forall>b. dict_get d (u ''confidence'') \<noteq> Some (PBool b))
        \<and> (\<forall>n. dict_get d (u ''confidence'') = Some (PInt n) \<longrightarrow> n \<in> {0, 1})
        \<and> (\<forall>q. dict_get d (u ''confidence'') = Some (PFloat (Fin q)) \<longrightarrow> 0 \<le> q \<and> q \<le> 1)
    | Inr ClsOther \<Rightarrow> False)"

lemma parse_status_Some: "parse_status T s = Some st \<Longrightarrow> u_upper T s = u (policy_status_name st)"
  unfolding parse_status_def by (metis (mono_tags, lifting) find_Some_iff)

lemma coerce_dict_safe:
  assumes "coerce_classifier_dict T d = Inr p"
  shows "pd_classifier_used p \<and> 0 \<le> pd_confidence p \<and> pd_confidence p \<le> 1
    \<and> (pd_status p = SAFE \<longrightarrow> claims_safe T (Inr (ClsDict d)))"
proof -
  let ?conf = "to_float (get_default d ''confidence'' (PFloat (Fin (65 / 100))))"
  obtain s where s: "get_default d ''status'' PNone = PStr s"
    using assms by (cases "get_default d ''status'' PNone") (simp_all add: coerce_classifier_dict_def)
  obtain st where st: "parse_status T s = Some st"
    using assms s by (cases "parse_status T s") (simp_all add: coerce_classifier_dict_def)
  obtain f where f: "?conf = Inr f"
    using assms s st by (cases ?conf) (simp_all add: coerce_classifier_dict_def)
  obtain q where q: "f = Fin q" "0 \<le> q" "q \<le> 1"
    using assms s st f by (cases f) (simp_all add: coerce_classifier_dict_def split: if_splits)
  obtain reason m w where p: "mk_policy_decision st reason m w True q = Inr p"
    using assms s st f q
    by (cases "get_default d ''reason'' (PStr reason_llm_fallback)";
        cases "get_default d ''matched_rules'' (PList [])";
        cases "get_default d ''warnings'' (PList [])")
       (auto simp: coerce_classifier_dict_def bind_res_Inr_iff)
  have "dict_get d (u ''status'') = Some (PStr s)"
    using s by (auto simp: get_default_def split: option.splits)
  moreover have "n \<in> {0, 1}" if "dict_get d (u ''confidence'') = Some (PInt n)" for n
    using q f that by (auto simp: get_default_def to_float_def split: if_splits)
  ultimately show ?thesis
    using p q f parse_status_Some[OF st]
    by (auto simp: claims_safe_def mk_policy_decision_Inr get_default_def to_float_def
        split: option.splits pyval.splits if_splits)
qed

lemma classify_safe:
  assumes "classify T clf inp = Inr d"
  shows "pd_classifier_used d \<and> (pd_status d = SAFE \<longrightarrow> claims_safe T (clf inp))
    \<and> (\<forall>name. clf inp = Inl name \<longrightarrow> pd_status d = UNCERTAIN \<and> pd_confidence d = 0)"
proof (cases "clf inp")
  case (Inl name)
  then show ?thesis using assms
    by (auto simp: classify_def classifier_unavailable_def mk_policy_decision_Inr)
next
  case (Inr r)
  show ?thesis
  proof (cases "coerce_classifier_result T r")
    case (Inl e)
    then show ?thesis using assms Inr
      by (auto simp: classify_def classifier_unavailable_def mk_policy_decision_Inr)
  next
    case c: (Inr p)
    then have "p = d" using assms Inr by (simp add: classify_def)
    then show ?thesis using c Inr coerce_dict_safe[of T _ d]
      by (cases r) (auto simp: coerce_classifier_result_def claims_safe_def mk_policy_decision_Inr
          dest: parse_status_Some split: option.splits)
  qed
qed

text \<open>
  The classifier fails closed. On a text without risk candidates the engine answers
  \<open>SAFE\<close> only if the classifier returned a well-formed \<open>SAFE\<close> verdict; a classifier that
  raises gives \<open>UNCERTAIN\<close> with confidence 0.
\<close>

theorem classifier_fails_closed:
  assumes "npt_normalized (normalize_policy_text T inp) \<noteq> []"
    and "detect T sha (pe_rules E) (pe_catalog_version E) (normalize_policy_text T inp) = Inr []"
    and "pe_classifier E = Some clf"
  shows "\<exists>d. decide T sha E inp = Inr d \<and> pd_classifier_used d
    \<and> (pd_status d = SAFE \<longrightarrow> claims_safe T (clf inp))
    \<and> (\<forall>name. clf inp = Inl name \<longrightarrow> pd_status d = UNCERTAIN \<and> pd_confidence d = 0)"
proof -
  obtain d where "classify T clf inp = Inr d" using classify_total by blast
  then show ?thesis using classify_safe[of T clf inp d] assms by (simp add: decide_def Let_def)
qed

theorem classifier_fails_closed_witness:
  "\<exists>d. decide basic_ucd id (demo_engine [] (Some (\<lambda>s. Inl ''TimeoutError''))) [120] = Inr d
    \<and> pd_status d = UNCERTAIN \<and> pd_confidence d = 0"
proof -
  let ?clf = "\<lambda>s. Inl ''TimeoutError''" let ?E = "demo_engine [] (Some ?clf)"
  have n: "normalize_policy_text basic_ucd [120] = \<lparr>npt_raw = [120], npt_normalized = [120],
      npt_compact = [120], npt_normalized_to_raw = [0], npt_compact_to_normalized = [0]\<rparr>"
    by (simp add: demo_run Let_def)
  have d: "detect basic_ucd id (pe_rules ?E) (pe_catalog_version ?E) (normalize_policy_text basic_ucd [120]) = Inr []"
    unfolding n by (simp add: demo_run Let_def upt_rec)
  have "pe_classifier ?E = Some ?clf" by (simp add: demo_engine_def make_engine_def)
  from classifier_fails_closed[OF _ d this] n show ?thesis by auto
qed

lemma occurrences_visible:
  assumes "npt_normalized n = npt_normalized m" "npt_compact n = npt_compact m"
    "npt_compact_to_normalized n = npt_compact_to_normalized m"
  shows "occurrences T n p mt = occurrences T m p mt"
proof -
  have "occurrence_span n mt = occurrence_span m mt"
    using assms(3) by (intro ext) (simp add: occurrence_span_def)
  then show ?thesis using assms(1,2) by (simp add: occurrences_def Let_def occurrences_from_eq)
qed

lemma detect_visible:
  assumes "npt_normalized n = npt_normalized m" "npt_compact n = npt_compact m"
    "npt_compact_to_normalized n = npt_compact_to_normalized m"
  shows "detect T sha rules v n = detect T sha rules v m"
proof -
  have "make_candidate sha v n r a b = make_candidate sha v m r a b" for r a b
    using assms(1) by (simp add: make_candidate_def)
  then have a: "add_occurrences sha v n r spans acc = add_occurrences sha v m r spans acc" for r spans acc
  proof (induction spans arbitrary: acc)
    case (Cons sp spans)
    then show ?case by (cases sp; cases acc) (simp add: Let_def)
  qed simp
  have d: "detect_detectors T sha v n r ds acc = detect_detectors T sha v m r ds acc" for r ds acc
    by (induction ds arbitrary: acc) (simp_all add: a occurrences_visible[OF assms])
  have "detect_rules T sha v n rules acc = detect_rules T sha v m rules acc" for acc
  proof (induction rules arbitrary: acc)
    case (Cons r rules)
    then have "detect_rules T sha v n rules = detect_rules T sha v m rules" by (rule ext)
    then show ?case by (simp add: d)
  qed simp
  then show ?thesis by (simp add: detect_def)
qed

lemma resolve_stances_visible:
  "npt_normalized n = npt_normalized m \<Longrightarrow> resolve_stances T ps n cs = resolve_stances T ps m cs"
proof -
  assume "npt_normalized n = npt_normalized m"
  then have "resolve_one T ps n = resolve_one T ps m" by (intro ext) (simp add: resolve_one_def)
  then show ?thesis by (simp add: resolve_stances_def)
qed

text \<open>
  C37: invisible characters cannot change a decision. A zero-width character, which NFKC keeps, put anywhere in a
  text of fewer than 20000 characters, so that the cut of the normalization loses nothing, leaves the
  decision of an engine without a classifier as it was.
\<close>

theorem zero_width_no_evasion:
  assumes "z \<in> set ZERO_WIDTH" "u_nfkc T [z] = [z]" "length (s @ t) < 20000" "pe_classifier E = None"
  shows "decide T sha E (s @ [z] @ t) = decide T sha E (s @ t)"
proof -
  let ?n = "normalize_policy_text T (s @ [z] @ t)" and ?m = "normalize_policy_text T (s @ t)"
  have v: "npt_normalized ?n = npt_normalized ?m" "npt_compact ?n = npt_compact ?m"
    "npt_compact_to_normalized ?n = npt_compact_to_normalized ?m"
    using visible_part_zero_width[OF assms(1-3)] by (simp_all add: visible_part_def)
  show ?thesis
    using assms(4) unfolding decide_def Let_def
    by (simp only: detect_visible[OF v] resolve_stances_visible[OF v(1)] v option.case)
qed

theorem zero_width_no_evasion_witness:
  "decide basic_ucd id (default_engine None) ([32534, 36896] @ [0x200b] @ [26696, 20363])
     = decide basic_ucd id (default_engine None) ([32534, 36896] @ [26696, 20363])"
  by (rule zero_width_no_evasion) (simp_all add: ZERO_WIDTH_def basic_ucd_def)

text \<open>
  The offset maps of a normalized text have one entry for each character, stay in range,
  and lead every character of the compact text back to the same character of the normalized
  text, and every position of the normalized text to one of the raw text, in order.
\<close>

theorem normalize_offsets:
  assumes "lower_single T (take 20000 inp)"
  shows "offsets_ok (normalize_policy_text T inp)
    \<and> sorted (npt_normalized_to_raw (normalize_policy_text T inp))
    \<and> (\<forall>i \<in> set (npt_normalized_to_raw (normalize_policy_text T inp)). i < min 20000 (length inp))"
  using normalize_offsets_ok[OF assms] normalized_to_raw_ok by blast

theorem normalize_offsets_witness:
  "offsets_ok (normalize_policy_text basic_ucd [97, 95, 98])"
  using normalize_offsets[OF demo_lower] by blast

section \<open>Two inputs on which the code falls short\<close>

text \<open>
  U+0130 lower-cases to two code points, so the compact text gets longer than its offset map
  and the look-up of a hit at its end raises: the engine gives no decision on a forbidden
  literal behind that character.
\<close>

lemma dotted_capital_i_raises:
  "decide basic_ucd id (demo_engine [] None) [304, 97, 98] = Inl IndexError"
  by (simp add: decide_def demo_run Let_def upt_rec)

text \<open>
  A deprecated rule with status \<open>UNCERTAIN\<close> and a known category becomes a rule of medium
  severity in that category, which no branch of the matrix looks at: the text that asks for it
  is \<open>SAFE\<close>.
\<close>

definition legacy_rule :: policy_rule where
  "legacy_rule = \<lparr>pr_rule_id = ''legacy'', pr_category = ''sales_misrepresentation'', pr_status = UNCERTAIN,
     pr_priority = 10, pr_patterns = [[97, 95, 98]], pr_negative_patterns = [], pr_reason = [1], pr_examples = []\<rparr>"

abbreviation legacy_coerced :: risk_rule where
  "legacy_coerced \<equiv> coerce_rule (AnyLegacy legacy_rule)"

lemma legacy_coerced_sel:
  "rr_category legacy_coerced = SALES_MISREPRESENTATION" "rr_severity legacy_coerced = MEDIUM"
  "rr_status_hint legacy_coerced = UNCERTAIN" "rr_enabled legacy_coerced"
  "rr_detectors legacy_coerced = [\<lparr>ds_pattern = [97, 95, 98], ds_matcher_type = NormalizedLiteral\<rparr>]"
  by (simp_all add: coerce_rule_def legacy_rule_def risk_category_of_def)

lemma legacy_detect:
  "detect basic_ucd id [legacy_coerced] v demo_text = Inr [make_candidate id v demo_text legacy_coerced 0 3]"
  unfolding demo_normalized
  by (simp add: legacy_coerced_sel detect_def occurrences_def occurrences_from_eq occurrence_span_def
      occurs_at_def basic_ucd_def basic_lower_cp_def Let_def upt_rec numeral_3_eq_3)

lemma legacy_patterns: "filter (pattern_applies c [97, 95, 98] 0) STANCE_PATTERNS_ZH_V1 = []"
  by (simp add: STANCE_PATTERNS_ZH_V1_def zh_pattern_def pattern_applies_def py_in_def occurs_at_def upt_rec)

lemma legacy_resolve:
  "resolve_one basic_ucd STANCE_PATTERNS_ZH_V1 demo_text (make_candidate id v demo_text legacy_coerced 0 3)
     = Inr (make_stance (make_candidate id v demo_text legacy_coerced 0 3) REQUEST (92 / 100)
              ''business_confirmation_request'')"
  unfolding demo_normalized
  by (simp add: resolve_one_def Let_def clause_bounds_def py_max_def py_min_def demo_boundaries demo_quote
      stance_of_clause_def legacy_patterns legacy_coerced_sel)

lemma legacy_uncertain_rule_is_safe:
  "\<exists>d. decide basic_ucd id (make_engine None [AnyLegacy legacy_rule]) [97, 95, 98] = Inr d
    \<and> pd_status d = SAFE \<and> pd_matched_rules d = [u ''sales_misrepresentation:a_b'']"
proof -
  let ?E = "make_engine None [AnyLegacy legacy_rule]"
  have E: "pe_rules ?E = [legacy_coerced]" "pe_patterns ?E = STANCE_PATTERNS_ZH_V1"
    by (simp_all add: make_engine_def)
  have "npt_normalized demo_text \<noteq> []" by (simp add: demo_normalized)
  moreover have "span_text (rc_evidence_span (make_candidate id v demo_text legacy_coerced 0 3)) = [97, 95, 98]"
    for v by (simp add: make_candidate_def demo_normalized)
  ultimately show ?thesis
    by (simp add: decide_def Let_def E legacy_detect resolve_stances_def legacy_resolve resolve_policy_def
        by_candidate_def high_request_def high_severity_def uncertain_request_def make_stance_def
        mk_policy_decision_def below_threshold_def legacy_coerced_sel matched_rule_name_def)
qed

end
