(* ===== verification/Persistence_Records.thy ===== *)
theory Persistence_Records
  imports Runtime_Models
begin

text \<open>
  \<open>database/records.py\<close>, the class hierarchy of \<open>database/errors.py\<close> and the state validator of
  \<open>database/idempotency.py\<close>. JSON columns are values of \<open>pyval\<close>; \<open>None\<close> stands for SQL null.
\<close>

section \<open>The class hierarchy that except clauses test\<close>

fun is_idempotency_error :: "exn \<Rightarrow> bool" where
  "is_idempotency_error FingerprintVersionError = True"
| "is_idempotency_error InvalidIdempotencyStateError = True"
| "is_idempotency_error IdempotencyOwnershipLostError = True"
| "is_idempotency_error ReplaySnapshotError = True"
| "is_idempotency_error UnsupportedReplaySnapshotVersionError = True"
| "is_idempotency_error _ = False"

fun is_persistence_error :: "exn \<Rightarrow> bool" where
  "is_persistence_error PersistenceConnectionError = True"
| "is_persistence_error DatabaseRevisionError = True"
| "is_persistence_error PersistenceWriteError = True"
| "is_persistence_error PersistenceConflictError = True"
| "is_persistence_error DuplicateRequestError = True"
| "is_persistence_error RequestNotFoundError = True"
| "is_persistence_error InvalidRequestTransitionError = True"
| "is_persistence_error e = is_idempotency_error e"

section \<open>Records\<close>

text \<open>\<open>require_utc\<close>\<close>

definition require_utc :: "datetime \<Rightarrow> unit res" where
  "require_utc v =
     (case utc_offset v of
        None \<Rightarrow> Inl (ValueError ''must be timezone-aware'')
      | Some off \<Rightarrow> if off = 0 then Inr () else Inl (ValueError ''must be UTC''))"

lemma require_utc_utc [simp]: "require_utc (utc t) = Inr ()"
  by (simp add: require_utc_def)

lemma require_utc_Inr: "require_utc v = Inr x \<longleftrightarrow> utc_offset v = Some 0"
  by (auto simp: require_utc_def split: option.splits if_splits)

record new_agent_request =
  nr_request_id :: pystr
  nr_trace_id :: pystr
  nr_session_id :: "pystr option"
  nr_operation :: pystr
  nr_principal_user_id :: pystr
  nr_tenant_id :: pystr
  nr_organization_id :: pystr
  nr_user_text_hash :: pystr
  nr_user_text_length :: nat
  nr_request_fingerprint :: pystr
  nr_fingerprint_version :: int
  nr_authorization_snapshot :: pyval
  nr_authorization_snapshot_schema_version :: int
  nr_created_at :: datetime
  nr_status :: string
  nr_idempotency_key_hash :: "pystr option"
  nr_replayed_from :: "int option"
  nr_completed_at :: "datetime option"
  nr_failure_code :: "string option"

definition check_new_agent_request :: "new_agent_request \<Rightarrow> new_agent_request res" where
  "check_new_agent_request r =
     bind_res (require_utc (nr_created_at r)) (\<lambda>_.
     bind_res (case nr_completed_at r of None \<Rightarrow> Inr () | Some c \<Rightarrow> require_utc c) (\<lambda>_. Inr r))"

record request_ref =
  rf_database_id :: int
  rf_request_id :: pystr
  rf_status :: string
  rf_trace_id :: "pystr option"
  rf_session_id :: "pystr option"

record new_agent_run =
  nu_run_id :: pystr
  nu_original_request_record_id :: int
  nu_session_id :: "pystr option"
  nu_status :: string
  nu_routed_task :: "string option"
  nu_policy_outcome :: "policy_status option"
  nu_result_snapshot :: "pyval option"
  nu_result_snapshot_schema_version :: "int option"
  nu_confidence :: "rat option"
  nu_trace_snapshot :: "pyval option"
  nu_trace_snapshot_schema_version :: "int option"
  nu_rag_provider :: "string option"
  nu_started_at :: datetime
  nu_completed_at :: datetime

definition check_new_agent_run :: "new_agent_run \<Rightarrow> new_agent_run res" where
  "check_new_agent_run r =
     bind_res (require_utc (nu_started_at r)) (\<lambda>_.
     bind_res (require_utc (nu_completed_at r)) (\<lambda>_.
     if (nu_result_snapshot r = None) \<noteq> (nu_result_snapshot_schema_version r = None)
     then Inl (ValueError ''result snapshot and version must be paired'')
     else if (nu_trace_snapshot r = None) \<noteq> (nu_trace_snapshot_schema_version r = None)
     then Inl (ValueError ''trace snapshot and version must be paired'')
     else Inr r))"

record new_audit_event =
  ae_event_id :: pystr
  ae_request_id :: "pystr option"
  ae_trace_id :: "pystr option"
  ae_tenant_id :: pystr
  ae_organization_id :: pystr
  ae_event_type :: string
  ae_principal_user_id :: "pystr option"
  ae_outcome :: string
  ae_details_json :: "pyval option"
  ae_created_at :: datetime

definition check_new_audit_event :: "new_audit_event \<Rightarrow> new_audit_event res" where
  "check_new_audit_event e = bind_res (require_utc (ae_created_at e)) (\<lambda>_. Inr e)"

datatype idempotency_status = ACTIVE | COMPLETED | FAILED

fun idempotency_status_value :: "idempotency_status \<Rightarrow> string" where
  "idempotency_status_value ACTIVE = ''in_progress''"
| "idempotency_status_value COMPLETED = ''completed''"
| "idempotency_status_value FAILED = ''failed''"

datatype claim_outcome = ACQUIRED | RECLAIMED | REPLAY | IN_PROGRESS | CONFLICT | PREVIOUS_FAILURE

fun claim_outcome_value :: "claim_outcome \<Rightarrow> string" where
  "claim_outcome_value ACQUIRED = ''acquired''"
| "claim_outcome_value RECLAIMED = ''reclaimed''"
| "claim_outcome_value REPLAY = ''replay''"
| "claim_outcome_value IN_PROGRESS = ''in_progress''"
| "claim_outcome_value CONFLICT = ''conflict''"
| "claim_outcome_value PREVIOUS_FAILURE = ''previous_failure''"

record idempotency_policy =
  ip_lease_duration_seconds :: int
  ip_replay_ttl_seconds :: int
  ip_failure_ttl_seconds :: int
  ip_max_replay_snapshot_bytes :: int

definition check_idempotency_policy :: "idempotency_policy \<Rightarrow> idempotency_policy res" where
  "check_idempotency_policy p =
     (if list_all (\<lambda>n. 0 < n) [ip_lease_duration_seconds p, ip_replay_ttl_seconds p,
          ip_failure_ttl_seconds p, ip_max_replay_snapshot_bytes p]
      then Inr p else Inl (ValueError ''must be a positive integer''))"

definition default_idempotency_policy :: idempotency_policy where
  "default_idempotency_policy =
     \<lparr>ip_lease_duration_seconds = 60, ip_replay_ttl_seconds = 3600, ip_failure_ttl_seconds = 300,
      ip_max_replay_snapshot_bytes = 262144\<rparr>"

record idempotency_scope =
  is_tenant_id :: pystr
  is_organization_id :: pystr
  is_principal_user_id :: pystr
  is_operation :: pystr
  is_key_hash :: pystr

record claim_request =
  cr_scope :: idempotency_scope
  cr_request_fingerprint :: pystr
  cr_fingerprint_version :: int
  cr_owner_request_id :: pystr
  cr_lease_duration_seconds :: int

record claim_token =
  ct_idempotency_record_id :: int
  ct_scope :: idempotency_scope
  ct_owner_request_id :: pystr
  ct_claim_version :: int
  ct_claimed_at :: datetime
  ct_lease_expires_at :: datetime

definition check_claim_token :: "claim_token \<Rightarrow> claim_token res" where
  "check_claim_token t =
     bind_res (require_utc (ct_claimed_at t)) (\<lambda>_.
     bind_res (require_utc (ct_lease_expires_at t)) (\<lambda>_. Inr t))"

record stored_idempotency_record =
  si_database_id :: int
  si_scope :: idempotency_scope
  si_request_fingerprint :: pystr
  si_fingerprint_version :: int
  si_status :: string
  si_claim_version :: "int option"
  si_owner_request_id :: "pystr option"
  si_claimed_at :: "datetime option"
  si_lease_expires_at :: "datetime option"
  si_completed_run_record_id :: "int option"
  si_response_snapshot :: "pyval option"
  si_response_snapshot_version :: "int option"
  si_expires_at :: "datetime option"

record claim_decision =
  cd_outcome :: claim_outcome
  cd_token :: "claim_token option"
  cd_original_request_record_id :: "int option"
  cd_original_request_id :: "pystr option"
  cd_replay_snapshot :: "pyval option"
  cd_replay_snapshot_version :: "int option"
  cd_previous_failure_code :: "string option"
  cd_reclaimed_request :: "request_ref option"
  cd_expired_reuse :: bool

text \<open>The constructor call with the defaults.\<close>

definition decision_of :: "claim_outcome \<Rightarrow> claim_decision" where
  "decision_of outcome =
     \<lparr>cd_outcome = outcome, cd_token = None, cd_original_request_record_id = None,
      cd_original_request_id = None, cd_replay_snapshot = None, cd_replay_snapshot_version = None,
      cd_previous_failure_code = None, cd_reclaimed_request = None, cd_expired_reuse = False\<rparr>"

lemma decision_of_sel [simp]:
  "cd_outcome (decision_of x) = x" "cd_token (decision_of x) = None"
  "cd_replay_snapshot (decision_of x) = None" "cd_reclaimed_request (decision_of x) = None"
  "cd_replay_snapshot_version (decision_of x) = None" "cd_expired_reuse (decision_of x) = False"
  by (simp_all add: decision_of_def)

datatype result_outcome = ResEXECUTED | ResREPLAYED | ResIN_PROGRESS | ResCONFLICT | ResPREVIOUS_FAILURE

section \<open>The state validator\<close>

text \<open>\<open>IdempotencyStatus(record.status)\<close>\<close>

definition idempotency_status_of :: "string \<Rightarrow> idempotency_status option" where
  "idempotency_status_of s = find (\<lambda>st. idempotency_status_value st = s) [ACTIVE, COMPLETED, FAILED]"

lemma idempotency_status_of_value [simp]: "idempotency_status_of (idempotency_status_value st) = Some st"
  by (cases st) (simp_all add: idempotency_status_of_def)

lemma idempotency_status_of_Some:
  "idempotency_status_of s = Some st \<longleftrightarrow> s = idempotency_status_value st"
proof
  assume "idempotency_status_of s = Some st"
  then show "s = idempotency_status_value st"
    unfolding idempotency_status_of_def by (metis (mono_tags, lifting) find_Some_iff)
qed simp

definition valid_time :: "datetime option \<Rightarrow> bool" where
  "valid_time v \<longleftrightarrow> (case v of None \<Rightarrow> False | Some t \<Rightarrow> utc_offset t = Some 0)"

definition validate_idempotency :: "stored_idempotency_record \<Rightarrow> idempotency_status res" where
  "validate_idempotency r =
     (case idempotency_status_of (si_status r) of
        None \<Rightarrow> Inl InvalidIdempotencyStateError
      | Some status \<Rightarrow>
          if (case si_claim_version r of None \<Rightarrow> True | Some v \<Rightarrow> v < 1) then Inl InvalidIdempotencyStateError
          else if si_owner_request_id r \<in> {None, Some []} then Inl InvalidIdempotencyStateError
          else if \<not> (valid_time (si_claimed_at r) \<and> valid_time (si_lease_expires_at r)
                     \<and> valid_time (si_expires_at r)) then Inl InvalidIdempotencyStateError
          else if (si_response_snapshot r = None) \<noteq> (si_response_snapshot_version r = None)
          then Inl InvalidIdempotencyStateError
          else if (case status of
                 ACTIVE \<Rightarrow> si_completed_run_record_id r \<noteq> None \<or> si_response_snapshot r \<noteq> None
               | COMPLETED \<Rightarrow> si_completed_run_record_id r = None \<or> si_response_snapshot r = None
                   \<or> si_response_snapshot_version r = None
               | FAILED \<Rightarrow> si_completed_run_record_id r \<noteq> None \<or> si_response_snapshot r \<noteq> None
                   \<or> si_response_snapshot_version r \<noteq> None)
          then Inl InvalidIdempotencyStateError
          else Inr status)"

text \<open>\<open>hash_idempotency_key\<close> and \<open>scope_from_values\<close>; \<open>sha\<close> is SHA-256 in hexadecimal.\<close>

definition scope_from_values ::
  "(pystr \<Rightarrow> pystr) \<Rightarrow> pystr \<Rightarrow> pystr \<Rightarrow> pystr \<Rightarrow> pystr \<Rightarrow> pystr \<Rightarrow> idempotency_scope" where
  "scope_from_values sha tenant org user operation raw_key =
     \<lparr>is_tenant_id = tenant, is_organization_id = org, is_principal_user_id = user,
      is_operation = operation, is_key_hash = sha raw_key\<rparr>"

end
