(* ===== verification/Execution_Store.thy ===== *)
theory Execution_Store
  imports Persistence_Records
begin

text \<open>
  \<open>database/fake_execution.py\<close>: the transactional store with its execution repository, its
  idempotency repository and its unit of work. A repository method is a function on the staged
  state; the unit of work runs a body on a copy of the committed state and publishes the copy
  on commit. The clocks and identifier factories that the services call are streams held in the
  same state, so that every call takes the next value.
\<close>

section \<open>The stored state\<close>

record request_row =
  rq_database_id :: int
  rq_record :: new_agent_request
  rq_status :: string
  rq_completed_at :: "datetime option"
  rq_failure_code :: "string option"

record run_row =
  rn_database_id :: int
  rn_record :: new_agent_run

record audit_row =
  au_database_id :: int
  au_record :: new_audit_event

record idempotency_row =
  id_database_id :: int
  id_scope :: idempotency_scope
  id_request_fingerprint :: pystr
  id_fingerprint_version :: int
  id_status :: string
  id_claim_version :: int
  id_owner_request_id :: pystr
  id_claimed_at :: datetime
  id_lease_expires_at :: datetime
  id_completed_run_record_id :: "int option"
  id_response_snapshot :: "pyval option"
  id_response_snapshot_version :: "int option"
  id_created_at :: datetime
  id_updated_at :: datetime
  id_expires_at :: datetime

type_synonym scope_key = "pystr \<times> pystr \<times> pystr \<times> pystr \<times> pystr"

record execution_state =
  es_requests :: "(pystr, request_row) dict"
  es_runs :: "(pystr, run_row) dict"
  es_audits :: "audit_row list"
  es_next_request_id :: int
  es_next_run_id :: int
  es_next_audit_id :: int
  es_idempotency :: "(scope_key, idempotency_row) dict"
  es_next_idempotency_id :: int

definition empty_execution_state :: execution_state where
  "empty_execution_state =
     \<lparr>es_requests = [], es_runs = [], es_audits = [], es_next_request_id = 1, es_next_run_id = 1,
      es_next_audit_id = 1, es_idempotency = [], es_next_idempotency_id = 1\<rparr>"

section \<open>The execution repository\<close>

type_synonym 'a store_op = "(execution_state, 'a) op"

definition insert_request :: "new_agent_request \<Rightarrow> request_ref store_op" where
  "insert_request r s =
     (if dict_get (es_requests s) (nr_request_id r) \<noteq> None then (Inl DuplicateRequestError, s)
      else let i = es_next_request_id s;
               row = \<lparr>rq_database_id = i, rq_record = r, rq_status = nr_status r,
                      rq_completed_at = nr_completed_at r, rq_failure_code = nr_failure_code r\<rparr>
           in (Inr \<lparr>rf_database_id = i, rf_request_id = nr_request_id r, rf_status = nr_status r,
                    rf_trace_id = Some (nr_trace_id r), rf_session_id = nr_session_id r\<rparr>,
               s\<lparr>es_next_request_id := i + 1,
                 es_requests := dict_set (nr_request_id r) row (es_requests s)\<rparr>))"

definition lock_request :: "pystr \<Rightarrow> request_ref store_op" where
  "lock_request request_id s =
     (case dict_get (es_requests s) request_id of
        None \<Rightarrow> (Inl RequestNotFoundError, s)
      | Some row \<Rightarrow>
          if rq_status row \<noteq> ''in_progress'' then (Inl InvalidRequestTransitionError, s)
          else (Inr \<lparr>rf_database_id = rq_database_id row, rf_request_id = request_id,
                     rf_status = rq_status row, rf_trace_id = Some (nr_trace_id (rq_record row)),
                     rf_session_id = nr_session_id (rq_record row)\<rparr>, s))"

definition insert_run :: "new_agent_run \<Rightarrow> int store_op" where
  "insert_run r s =
     (if dict_get (es_runs s) (nu_run_id r) \<noteq> None
         \<or> list_ex (\<lambda>row. nu_original_request_record_id (rn_record row) = nu_original_request_record_id r)
             (dict_values (es_runs s))
      then (Inl PersistenceConflictError, s)
      else let i = es_next_run_id s
           in (Inr i, s\<lparr>es_next_run_id := i + 1,
                 es_runs := dict_set (nu_run_id r) \<lparr>rn_database_id = i, rn_record = r\<rparr> (es_runs s)\<rparr>))"

definition finalize_request ::
  "request_ref \<Rightarrow> string \<Rightarrow> datetime \<Rightarrow> string option \<Rightarrow> unit store_op" where
  "finalize_request ref status completed_at failure_code s =
     (case dict_get (es_requests s) (rf_request_id ref) of
        None \<Rightarrow> (Inl InvalidRequestTransitionError, s)
      | Some row \<Rightarrow>
          if rq_status row \<noteq> ''in_progress'' then (Inl InvalidRequestTransitionError, s)
          else (Inr (), s\<lparr>es_requests := dict_set (rf_request_id ref)
                 (row\<lparr>rq_status := status, rq_completed_at := Some completed_at,
                      rq_failure_code := failure_code\<rparr>) (es_requests s)\<rparr>))"

definition insert_audit :: "new_audit_event \<Rightarrow> int store_op" where
  "insert_audit e s =
     (if list_ex (\<lambda>row. ae_event_id (au_record row) = ae_event_id e) (es_audits s)
      then (Inl PersistenceConflictError, s)
      else let i = es_next_audit_id s
           in (Inr i, s\<lparr>es_next_audit_id := i + 1,
                 es_audits := es_audits s @ [\<lparr>au_database_id = i, au_record = e\<rparr>]\<rparr>))"

section \<open>The idempotency repository\<close>

definition scope_key :: "idempotency_scope \<Rightarrow> scope_key" where
  "scope_key sc = (is_tenant_id sc, is_organization_id sc, is_principal_user_id sc, is_operation sc, is_key_hash sc)"

lemma scope_key_inj [simp]: "scope_key a = scope_key b \<longleftrightarrow> a = b"
  by (cases a; cases b) (simp add: scope_key_def)

definition add_seconds :: "datetime \<Rightarrow> int \<Rightarrow> datetime" where
  "add_seconds t n = t\<lparr>instant := instant t + seconds n\<rparr>"

lemma add_seconds_sel [simp]:
  "instant (add_seconds t n) = instant t + seconds n" "utc_offset (add_seconds t n) = utc_offset t"
  by (simp_all add: add_seconds_def)

text \<open>\<open>a <= b\<close> of two \<open>datetime\<close>s: a naive and an aware value cannot be compared.\<close>

definition dt_le :: "datetime \<Rightarrow> datetime \<Rightarrow> bool res" where
  "dt_le a b =
     (if (utc_offset a = None) \<noteq> (utc_offset b = None)
      then Inl (TypeError ''can't compare offset-naive and offset-aware datetimes'')
      else Inr (instant a \<le> instant b))"

definition new_item :: "int \<Rightarrow> claim_request \<Rightarrow> datetime \<Rightarrow> datetime \<Rightarrow> idempotency_row" where
  "new_item database_id request now lease =
     \<lparr>id_database_id = database_id, id_scope = cr_scope request,
      id_request_fingerprint = cr_request_fingerprint request,
      id_fingerprint_version = cr_fingerprint_version request,
      id_status = idempotency_status_value ACTIVE, id_claim_version = 1,
      id_owner_request_id = cr_owner_request_id request, id_claimed_at = now,
      id_lease_expires_at = lease, id_completed_run_record_id = None, id_response_snapshot = None,
      id_response_snapshot_version = None, id_created_at = now, id_updated_at = now,
      id_expires_at = lease\<rparr>"

definition replace_item :: "idempotency_row \<Rightarrow> claim_request \<Rightarrow> datetime \<Rightarrow> datetime \<Rightarrow> idempotency_row" where
  "replace_item item request now lease =
     item\<lparr>id_request_fingerprint := cr_request_fingerprint request,
          id_fingerprint_version := cr_fingerprint_version request,
          id_status := idempotency_status_value ACTIVE,
          id_claim_version := id_claim_version item + 1,
          id_owner_request_id := cr_owner_request_id request, id_claimed_at := now,
          id_lease_expires_at := lease, id_completed_run_record_id := None,
          id_response_snapshot := None, id_response_snapshot_version := None,
          id_updated_at := now, id_expires_at := lease\<rparr>"

definition stored_of :: "idempotency_row \<Rightarrow> idempotency_scope \<Rightarrow> stored_idempotency_record" where
  "stored_of item sc =
     \<lparr>si_database_id = id_database_id item, si_scope = sc,
      si_request_fingerprint = id_request_fingerprint item,
      si_fingerprint_version = id_fingerprint_version item, si_status = id_status item,
      si_claim_version = Some (id_claim_version item),
      si_owner_request_id = Some (id_owner_request_id item),
      si_claimed_at = Some (id_claimed_at item), si_lease_expires_at = Some (id_lease_expires_at item),
      si_completed_run_record_id = id_completed_run_record_id item,
      si_response_snapshot = id_response_snapshot item,
      si_response_snapshot_version = id_response_snapshot_version item,
      si_expires_at = Some (id_expires_at item)\<rparr>"

definition token_of :: "idempotency_row \<Rightarrow> idempotency_scope \<Rightarrow> claim_token res" where
  "token_of item sc =
     check_claim_token
       \<lparr>ct_idempotency_record_id = id_database_id item, ct_scope = sc,
        ct_owner_request_id = id_owner_request_id item, ct_claim_version = id_claim_version item,
        ct_claimed_at = id_claimed_at item, ct_lease_expires_at = id_lease_expires_at item\<rparr>"

text \<open>\<open>_request_ref\<close>\<close>

definition owner_ref :: "execution_state \<Rightarrow> pystr \<Rightarrow> request_ref res" where
  "owner_ref s request_id =
     (case dict_get (es_requests s) request_id of
        None \<Rightarrow> Inl InvalidIdempotencyStateError
      | Some row \<Rightarrow>
          Inr \<lparr>rf_database_id = rq_database_id row, rf_request_id = request_id,
               rf_status = rq_status row, rf_trace_id = Some (nr_trace_id (rq_record row)),
               rf_session_id = nr_session_id (rq_record row)\<rparr>)"

definition put_item :: "idempotency_scope \<Rightarrow> idempotency_row \<Rightarrow> execution_state \<Rightarrow> execution_state" where
  "put_item sc item s = s\<lparr>es_idempotency := dict_set (scope_key sc) item (es_idempotency s)\<rparr>"

text \<open>The branch of a completed claim: the stored result with the request it came from.\<close>

definition replay_decision :: "execution_state \<Rightarrow> idempotency_row \<Rightarrow> claim_decision res" where
  "replay_decision s item =
     (case find (\<lambda>row. Some (rn_database_id row) = id_completed_run_record_id item) (dict_values (es_runs s)) of
        None \<Rightarrow> Inl InvalidIdempotencyStateError
      | Some run \<Rightarrow>
          (case find (\<lambda>(request_id, row). rq_database_id row = nu_original_request_record_id (rn_record run))
                  (es_requests s) of
             None \<Rightarrow> Inl InvalidIdempotencyStateError
           | Some (request_id, row) \<Rightarrow>
               Inr ((decision_of REPLAY)
                 \<lparr>cd_original_request_record_id := Some (nu_original_request_record_id (rn_record run)),
                  cd_original_request_id := Some request_id,
                  cd_replay_snapshot := id_response_snapshot item,
                  cd_replay_snapshot_version := id_response_snapshot_version item\<rparr>)))"

text \<open>The branch of a failed claim.\<close>

definition failure_decision :: "execution_state \<Rightarrow> idempotency_row \<Rightarrow> claim_decision res" where
  "failure_decision s item =
     (case dict_get (es_requests s) (id_owner_request_id item) of
        None \<Rightarrow> Inl InvalidIdempotencyStateError
      | Some row \<Rightarrow>
          if rq_status row \<noteq> ''failed'' \<or> rq_failure_code row \<in> {None, Some []}
          then Inl InvalidIdempotencyStateError
          else Inr ((decision_of PREVIOUS_FAILURE)\<lparr>cd_previous_failure_code := rq_failure_code row\<rparr>))"

definition claim_at :: "datetime \<Rightarrow> claim_request \<Rightarrow> claim_decision store_op" where
  "claim_at now request s =
     (let lease = add_seconds now (cr_lease_duration_seconds request);
          sc = cr_scope request
      in case dict_get (es_idempotency s) (scope_key sc) of
        None \<Rightarrow>
          let item = new_item (es_next_idempotency_id s) request now lease;
              s' = put_item sc item (s\<lparr>es_next_idempotency_id := es_next_idempotency_id s + 1\<rparr>)
          in (bind_res (token_of item sc) (\<lambda>token. Inr ((decision_of ACQUIRED)\<lparr>cd_token := Some token\<rparr>)), s')
      | Some item \<Rightarrow>
          (case validate_idempotency (stored_of item sc) of
             Inl e \<Rightarrow> (Inl e, s)
           | Inr status \<Rightarrow>
          (case (if status \<in> {COMPLETED, FAILED} then dt_le (id_expires_at item) now else Inr False) of
             Inl e \<Rightarrow> (Inl e, s)
           | Inr True \<Rightarrow>
               let item' = replace_item item request now lease
               in (bind_res (token_of item' sc) (\<lambda>token.
                     Inr ((decision_of ACQUIRED)\<lparr>cd_token := Some token, cd_expired_reuse := True\<rparr>)),
                   put_item sc item' s)
           | Inr False \<Rightarrow>
               if id_fingerprint_version item \<noteq> cr_fingerprint_version request
               then (Inl FingerprintVersionError, s)
               else if id_request_fingerprint item \<noteq> cr_request_fingerprint request
               then (Inr (decision_of CONFLICT), s)
               else (case status of
                 ACTIVE \<Rightarrow>
                   (case dt_le (id_lease_expires_at item) now of
                      Inl e \<Rightarrow> (Inl e, s)
                    | Inr False \<Rightarrow>
                        (bind_res (token_of item sc) (\<lambda>token. Inr ((decision_of IN_PROGRESS)\<lparr>cd_token := Some token\<rparr>)), s)
                    | Inr True \<Rightarrow>
                        (case owner_ref s (id_owner_request_id item) of
                           Inl e \<Rightarrow> (Inl e, s)
                         | Inr prior \<Rightarrow>
                             if rf_status prior \<noteq> ''in_progress'' then (Inl InvalidIdempotencyStateError, s)
                             else let item' = replace_item item request now lease
                                  in (bind_res (token_of item' sc) (\<lambda>token.
                                        Inr ((decision_of RECLAIMED)\<lparr>cd_token := Some token, cd_reclaimed_request := Some prior\<rparr>)),
                                      put_item sc item' s)))
               | COMPLETED \<Rightarrow> (replay_decision s item, s)
               | FAILED \<Rightarrow> (failure_decision s item, s)))))"

definition owns :: "claim_token \<Rightarrow> idempotency_row \<Rightarrow> bool" where
  "owns token item \<longleftrightarrow>
     id_status item = idempotency_status_value ACTIVE
     \<and> id_owner_request_id item = ct_owner_request_id token
     \<and> id_claim_version item = ct_claim_version token"

definition owned_item :: "claim_token \<Rightarrow> execution_state \<Rightarrow> idempotency_row option" where
  "owned_item token s =
     (case dict_get (es_idempotency s) (scope_key (ct_scope token)) of
        None \<Rightarrow> None
      | Some item \<Rightarrow> if owns token item then Some item else None)"

definition assert_current_owner :: "claim_token \<Rightarrow> unit store_op" where
  "assert_current_owner token s =
     (if owned_item token s = None then (Inl IdempotencyOwnershipLostError, s) else (Inr (), s))"

definition complete_fenced ::
  "datetime \<Rightarrow> claim_token \<Rightarrow> int \<Rightarrow> pyval \<Rightarrow> int \<Rightarrow> int \<Rightarrow> unit store_op" where
  "complete_fenced now token run_id snapshot version ttl s =
     (case owned_item token s of
        None \<Rightarrow> (Inl IdempotencyOwnershipLostError, s)
      | Some item \<Rightarrow>
          (Inr (), put_item (ct_scope token)
             (item\<lparr>id_status := idempotency_status_value COMPLETED,
                   id_completed_run_record_id := Some run_id,
                   id_response_snapshot := Some snapshot,
                   id_response_snapshot_version := Some version,
                   id_updated_at := now, id_expires_at := add_seconds now ttl\<rparr>) s))"

definition fail_fenced :: "datetime \<Rightarrow> claim_token \<Rightarrow> int \<Rightarrow> unit store_op" where
  "fail_fenced now token ttl s =
     (case owned_item token s of
        None \<Rightarrow> (Inl IdempotencyOwnershipLostError, s)
      | Some item \<Rightarrow>
          (Inr (), put_item (ct_scope token)
             (item\<lparr>id_status := idempotency_status_value FAILED,
                   id_completed_run_record_id := None, id_response_snapshot := None,
                   id_response_snapshot_version := None,
                   id_updated_at := now, id_expires_at := add_seconds now ttl\<rparr>) s))"

end
