(* ===== verification/Unit_Of_Work.thy ===== *)
theory Unit_Of_Work
  imports Execution_Store
begin

text \<open>
  The unit of work of \<open>database/fake_execution.py\<close>: a transaction works on a copy of the
  committed state, \<open>commit\<close> publishes the copy, and leaving the block without a commit discards
  it. Failures can be injected at every repository operation and at every commit, also one whose
  acknowledgement is lost after the copy was published.
\<close>

record world =
  w_state :: execution_state
  w_staged :: execution_state
  w_finished :: bool
  w_active_uows :: nat
  w_created_uows :: nat
  w_committed_uows :: nat
  w_rolled_back_uows :: nat
  w_commit_attempts :: nat
  w_ambiguous_commits :: nat
  w_fail_commit_attempts :: "nat list"
  w_ambiguous_commit_attempts :: "nat list"
  w_fail_operations :: "string list"
  w_operation_log :: "string list"
  w_clock :: "nat \<Rightarrow> datetime"
  w_clock_calls :: nat
  w_database_clock :: "nat \<Rightarrow> datetime"
  w_database_clock_calls :: nat
  w_run_ids :: "nat \<Rightarrow> pystr"
  w_run_id_calls :: nat
  w_event_ids :: "nat \<Rightarrow> pystr"
  w_event_id_calls :: nat

type_synonym 'a prog = "(world, 'a) op"

section \<open>Clocks and identifier factories\<close>

text \<open>\<open>_now()\<close> of the services: the application clock must be UTC.\<close>

definition now_op :: "datetime prog" where
  "now_op w =
     (let t = w_clock w (w_clock_calls w); w' = w\<lparr>w_clock_calls := w_clock_calls w + 1\<rparr>
      in (bind_res (require_utc t) (\<lambda>_. Inr (utc (instant t))), w'))"

definition database_now :: "datetime prog" where
  "database_now w =
     (Inr (w_database_clock w (w_database_clock_calls w)),
      w\<lparr>w_database_clock_calls := w_database_clock_calls w + 1\<rparr>)"

definition fresh_run_id :: "pystr prog" where
  "fresh_run_id w = (Inr (w_run_ids w (w_run_id_calls w)), w\<lparr>w_run_id_calls := w_run_id_calls w + 1\<rparr>)"

definition fresh_event_id :: "pystr prog" where
  "fresh_event_id w =
     (Inr (w_event_ids w (w_event_id_calls w)), w\<lparr>w_event_id_calls := w_event_id_calls w + 1\<rparr>)"

section \<open>Repository access\<close>

text \<open>\<open>uow.execution_repository\<close> and \<open>uow.idempotency_repository\<close> refuse a finished unit of work.\<close>

definition active_repository :: "unit prog" where
  "active_repository w =
     (if w_finished w then (Inl (RuntimeError ''FakeExecutionUnitOfWork is not active''), w) else (Inr (), w))"

definition record_operation :: "string \<Rightarrow> unit prog" where
  "record_operation name w =
     (let w' = w\<lparr>w_operation_log := w_operation_log w @ [name]\<rparr>
      in if name \<in> set (w_fail_operations w) then (Inl PersistenceWriteError, w') else (Inr (), w'))"

definition on_staged :: "'a store_op \<Rightarrow> 'a prog" where
  "on_staged f w = (case f (w_staged w) of (r, s) \<Rightarrow> (r, w\<lparr>w_staged := s\<rparr>))"

text \<open>A method of the execution repository logs its name, may fail there, then works.\<close>

definition repository_call :: "string \<Rightarrow> 'a store_op \<Rightarrow> 'a prog" where
  "repository_call name f =
     bind_op active_repository (\<lambda>_. bind_op (record_operation name) (\<lambda>_. on_staged f))"

definition idempotency_call :: "'a store_op \<Rightarrow> 'a prog" where
  "idempotency_call f = bind_op active_repository (\<lambda>_. on_staged f)"

definition create_request :: "new_agent_request \<Rightarrow> request_ref prog" where
  "create_request r = repository_call ''create_request'' (insert_request r)"

definition get_request_for_update :: "pystr \<Rightarrow> request_ref prog" where
  "get_request_for_update request_id = repository_call ''get_request_for_update'' (lock_request request_id)"

definition create_run :: "new_agent_run \<Rightarrow> int prog" where
  "create_run r = repository_call ''create_run'' (insert_run r)"

definition finalize_request_completed :: "request_ref \<Rightarrow> datetime \<Rightarrow> unit prog" where
  "finalize_request_completed ref completed_at =
     repository_call ''finalize_request_completed'' (finalize_request ref ''completed'' completed_at None)"

definition finalize_request_failed :: "request_ref \<Rightarrow> datetime \<Rightarrow> string \<Rightarrow> unit prog" where
  "finalize_request_failed ref completed_at failure_code =
     repository_call ''finalize_request_failed'' (finalize_request ref ''failed'' completed_at (Some failure_code))"

definition create_audit_event :: "new_audit_event \<Rightarrow> int prog" where
  "create_audit_event e = repository_call ''create_audit_event'' (insert_audit e)"

definition claim :: "claim_request \<Rightarrow> claim_decision prog" where
  "claim request =
     bind_op active_repository (\<lambda>_. bind_op database_now (\<lambda>now. on_staged (claim_at now request)))"

definition check_current_owner :: "claim_token \<Rightarrow> unit prog" where
  "check_current_owner token = idempotency_call (assert_current_owner token)"

definition complete_claim :: "claim_token \<Rightarrow> int \<Rightarrow> pyval \<Rightarrow> int \<Rightarrow> int \<Rightarrow> unit prog" where
  "complete_claim token run_id snapshot version ttl =
     bind_op (check_current_owner token) (\<lambda>_.
     bind_op database_now (\<lambda>now. on_staged (complete_fenced now token run_id snapshot version ttl)))"

definition fail_claim :: "claim_token \<Rightarrow> int \<Rightarrow> unit prog" where
  "fail_claim token ttl =
     bind_op (check_current_owner token) (\<lambda>_.
     bind_op database_now (\<lambda>now. on_staged (fail_fenced now token ttl)))"

section \<open>The transaction block\<close>

definition commit :: "unit prog" where
  "commit w =
     (if w_finished w then (Inl (RuntimeError ''FakeExecutionUnitOfWork is not active''), w)
      else let w1 = w\<lparr>w_commit_attempts := w_commit_attempts w + 1\<rparr>
      in if w_commit_attempts w1 \<in> set (w_fail_commit_attempts w1)
         then (Inl PersistenceWriteError,
               w1\<lparr>w_rolled_back_uows := w_rolled_back_uows w1 + 1, w_finished := True\<rparr>)
         else if w_commit_attempts w1 \<in> set (w_ambiguous_commit_attempts w1)
         then (Inl PersistenceWriteError,
               w1\<lparr>w_state := w_staged w1, w_ambiguous_commits := w_ambiguous_commits w1 + 1, w_finished := True\<rparr>)
         else (Inr (),
               w1\<lparr>w_state := w_staged w1, w_committed_uows := w_committed_uows w1 + 1, w_finished := True\<rparr>))"

definition rollback :: "unit prog" where
  "rollback w =
     (if w_finished w then (Inl (RuntimeError ''FakeExecutionUnitOfWork is not active''), w)
      else (Inr (), w\<lparr>w_rolled_back_uows := w_rolled_back_uows w + 1, w_finished := True\<rparr>))"

definition enter_uow :: "world \<Rightarrow> world" where
  "enter_uow w =
     w\<lparr>w_created_uows := w_created_uows w + 1, w_staged := w_state w, w_finished := False,
       w_active_uows := w_active_uows w + 1\<rparr>"

definition exit_uow :: "world \<Rightarrow> world" where
  "exit_uow w =
     (let w' = (if w_finished w then w
                else w\<lparr>w_rolled_back_uows := w_rolled_back_uows w + 1, w_finished := True\<rparr>)
      in w'\<lparr>w_active_uows := w_active_uows w' - 1\<rparr>)"

text \<open>\<open>async with self._uow_factory() as uow: body\<close>\<close>

definition with_uow :: "'a prog \<Rightarrow> 'a prog" where
  "with_uow body w = (case body (enter_uow w) of (r, w') \<Rightarrow> (r, exit_uow w'))"

section \<open>Atomicity\<close>

text \<open>
  \<open>stages m\<close>: the program \<open>m\<close> works on the staged copy only and leaves the unit of work open.
  \<open>transaction m\<close>: started in an open unit of work, \<open>m\<close> either leaves the committed state as it
  was, or has published the staged copy as its last action.
\<close>

definition stages :: "'a prog \<Rightarrow> bool" where
  "stages m \<longleftrightarrow> (\<forall>w. w_state (snd (m w)) = w_state w \<and> w_finished (snd (m w)) = w_finished w)"

definition transaction :: "'a prog \<Rightarrow> bool" where
  "transaction m \<longleftrightarrow>
     (\<forall>w. w_state (snd (m w)) = w_state w
          \<or> (w_state (snd (m w)) = w_staged (snd (m w)) \<and> w_finished (snd (m w))))"

named_theorems stages_intros \<open>programs that work on the staged copy\<close>

lemma stages_basic [stages_intros]:
  "stages (ret x)" "stages (raise_op e)" "stages (lift_res r)" "stages now_op" "stages database_now"
  "stages fresh_run_id" "stages fresh_event_id" "stages active_repository"
  "stages (record_operation name)" "stages (on_staged f)"
  by (simp_all add: stages_def now_op_def database_now_def fresh_run_id_def fresh_event_id_def
      active_repository_def record_operation_def on_staged_def Let_def split: prod.split)

lemma stages_bind [stages_intros]: "stages m \<Longrightarrow> (\<And>x. stages (f x)) \<Longrightarrow> stages (bind_op m f)"
proof -
  assume m: "stages m" and f: "\<And>x. stages (f x)"
  have "w_state (snd (bind_op m f w)) = w_state w \<and> w_finished (snd (bind_op m f w)) = w_finished w" for w
  proof (cases "m w")
    case (Pair r w')
    have a: "w_state w' = w_state w" "w_finished w' = w_finished w"
      using m Pair unfolding stages_def by (metis snd_conv)+
    show ?thesis
    proof (cases r)
      case (Inl e)
      then show ?thesis using Pair a by (simp add: bind_op_def)
    next
      case (Inr x)
      have "w_state (snd (f x w')) = w_state w'" "w_finished (snd (f x w')) = w_finished w'"
        using f unfolding stages_def by blast+
      then show ?thesis using Pair Inr a by (simp add: bind_op_def)
    qed
  qed
  then show "stages (bind_op m f)" by (simp add: stages_def)
qed

lemma stages_if [stages_intros]: "stages a \<Longrightarrow> stages b \<Longrightarrow> stages (if c then a else b)"
  by simp

lemma stages_calls [stages_intros]:
  "stages (repository_call name f)" "stages (idempotency_call f)" "stages (create_request r)"
  "stages (get_request_for_update q)" "stages (create_run n)" "stages (finalize_request_completed ref t)"
  "stages (finalize_request_failed ref t c)" "stages (create_audit_event e)" "stages (claim cr)"
  "stages (check_current_owner k)" "stages (complete_claim k i s v l)" "stages (fail_claim k l)"
  by (simp_all add: repository_call_def idempotency_call_def create_request_def get_request_for_update_def
      create_run_def finalize_request_completed_def finalize_request_failed_def create_audit_event_def
      claim_def check_current_owner_def complete_claim_def fail_claim_def stages_intros)

end
