(* ===== verification/Json_Text.thy ===== *)
theory Json_Text
  imports Py_Prelude
begin

text \<open>
  \<open>json.dumps(value, ensure_ascii=False, sort_keys=True, separators=(",", ":"))\<close> and
  \<open>str.encode("utf-8")\<close> of the standard library, as the fingerprint, the snapshot bound and the
  redaction use them. How a float is printed is the parameter \<open>fl\<close>.
\<close>

type_synonym digest_fn = "pystr \<Rightarrow> pystr"

section \<open>Strings\<close>

definition hex_digit :: "nat \<Rightarrow> nat" where
  "hex_digit n = (if n < 10 then 48 + n else 87 + n)"

definition json_escape_char :: "nat \<Rightarrow> pystr" where
  "json_escape_char c =
     (if c = 34 then [92, 34] else if c = 92 then [92, 92]
      else if c = 10 then [92, 110] else if c = 13 then [92, 114] else if c = 9 then [92, 116]
      else if c = 8 then [92, 98] else if c = 12 then [92, 102]
      else if c < 32 then [92, 117, 48, 48, hex_digit (c div 16), hex_digit (c mod 16)]
      else [c])"

definition json_string :: "pystr \<Rightarrow> pystr" where
  "json_string s = [34] @ concat (map json_escape_char s) @ [34]"

text \<open>The escape codes are not empty, do not start with the closing quote and none is a prefix
  of another one: what makes a printed string readable.\<close>

definition short_escapes :: "(nat \<times> nat) list" where
  "short_escapes = [(34, 34), (92, 92), (10, 110), (13, 114), (9, 116), (8, 98), (12, 102)]"

lemma json_escape_char_cases:
  obtains (short) k where "json_escape_char c = [92, k]" "(c, k) \<in> set short_escapes"
  | (hex) "c < 32" "json_escape_char c = [92, 117, 48, 48, hex_digit (c div 16), hex_digit (c mod 16)]"
  | (plain) "json_escape_char c = [c]" "c \<noteq> 92"
proof (cases "c \<in> set (map fst short_escapes)")
  case True
  then show thesis using short by (auto simp: json_escape_char_def short_escapes_def)
next
  case False
  then show thesis using hex plain by (cases "c < 32") (auto simp: json_escape_char_def short_escapes_def)
qed

lemma short_escapes_inj:
  "(c, k) \<in> set short_escapes \<Longrightarrow> (d, k) \<in> set short_escapes \<Longrightarrow> c = d"
  "(c, 117) \<notin> set short_escapes"
  by (auto simp: short_escapes_def)

lemma hex_digits_inj:
  assumes "hex_digit (c div 16) = hex_digit (d div 16)" "hex_digit (c mod 16) = hex_digit (d mod 16)"
    and "c < 32" "d < 32"
  shows "c = d"
proof -
  have h: "hex_digit a = hex_digit b \<Longrightarrow> a < 16 \<Longrightarrow> b < 16 \<Longrightarrow> a = b" for a b
    by (auto simp: hex_digit_def split: if_splits)
  have "c div 16 = d div 16" "c mod 16 = d mod 16"
    using assms by (auto intro!: h less_mult_imp_div_less)
  then show ?thesis by (metis div_mult_mod_eq)
qed

lemma json_escape_char_prefix_free:
  assumes "json_escape_char c @ x = json_escape_char d @ y"
  shows "c = d \<and> x = y"
  by (cases c rule: json_escape_char_cases; cases d rule: json_escape_char_cases)
    (use assms in \<open>auto dest: short_escapes_inj(1) hex_digits_inj simp: short_escapes_inj(2)\<close>)

lemma json_escape_char_head: "\<exists>h t. json_escape_char c = h # t \<and> h \<noteq> 34"
  by (auto simp: json_escape_char_def)

lemma json_chars_prefix_free:
  "concat (map json_escape_char s) @ 34 # x = concat (map json_escape_char t) @ 34 # y \<Longrightarrow> s = t \<and> x = y"
proof (induction s arbitrary: t)
  case Nil
  then show ?case using json_escape_char_head by (cases t) (auto, metis append_Cons list.inject)
next
  case (Cons c s)
  show ?case
  proof (cases t)
    case Nil
    with Cons.prems show ?thesis using json_escape_char_head[of c] by auto
  next
    case t: (Cons d t')
    with Cons.prems have "json_escape_char c @ concat (map json_escape_char s) @ 34 # x
        = json_escape_char d @ concat (map json_escape_char t') @ 34 # y" by simp
    from json_escape_char_prefix_free[OF this] Cons.IH[of t'] t show ?thesis by auto
  qed
qed

lemma json_string_prefix_free: "json_string s @ x = json_string t @ y \<Longrightarrow> s = t \<and> x = y"
  using json_chars_prefix_free[of s x t y] by (simp add: json_string_def)

lemma json_string_inj [simp]: "json_string s = json_string t \<longleftrightarrow> s = t"
  using json_string_prefix_free[of s "[]" t "[]"] by auto

section \<open>Values\<close>

definition json_int :: "int \<Rightarrow> pystr" where
  "json_int n = (if n < 0 then [45] @ py_str_nat (nat (- n)) else py_str_nat (nat n))"

fun json_float :: "(rat \<Rightarrow> pystr) \<Rightarrow> pyfloat \<Rightarrow> pystr res" where
  "json_float fl (Fin q) = Inr (fl q)"
| "json_float fl (NonFinite n) = Inl (ValueError ''Out of range float values are not JSON compliant'')"

text \<open>\<open>sort_keys=True\<close> at every level.\<close>

fun sort_keys :: "pyval \<Rightarrow> pyval" where
  "sort_keys (PList vs) = PList (map sort_keys vs)"
| "sort_keys (PDict kvs) = PDict (sort_key fst (map (\<lambda>(k, v). (k, sort_keys v)) kvs))"
| "sort_keys v = v"

fun json_value :: "(rat \<Rightarrow> pystr) \<Rightarrow> pyval \<Rightarrow> pystr res" where
  "json_value fl PNone = Inr (u ''null'')"
| "json_value fl (PBool b) = Inr (u (if b then ''true'' else ''false''))"
| "json_value fl (PInt n) = Inr (json_int n)"
| "json_value fl (PFloat f) = json_float fl f"
| "json_value fl (PStr s) = Inr (json_string s)"
| "json_value fl (PList vs) =
     bind_res (map_res (json_value fl) vs) (\<lambda>ps. Inr ([91] @ py_join [44] ps @ [93]))"
| "json_value fl (PDict kvs) =
     bind_res (map_res (\<lambda>(k, v). bind_res (json_value fl v) (\<lambda>p. Inr (json_string k @ [58] @ p))) kvs)
       (\<lambda>ps. Inr ([123] @ py_join [44] ps @ [125]))"
| "json_value fl POther = Inl (TypeError ''Object is not JSON serializable'')"

definition json_dumps :: "(rat \<Rightarrow> pystr) \<Rightarrow> pyval \<Rightarrow> pystr res" where
  "json_dumps fl v = json_value fl (sort_keys v)"

text \<open>The length of the UTF-8 form; a lone surrogate has none.\<close>

fun utf8_length :: "pystr \<Rightarrow> nat res" where
  "utf8_length [] = Inr 0"
| "utf8_length (c # cs) =
     (if 0xd800 \<le> c \<and> c \<le> 0xdfff then Inl (ValueError ''surrogates not allowed'')
      else bind_res (utf8_length cs) (\<lambda>n.
        Inr (n + (if c < 0x80 then 1 else if c < 0x800 then 2 else if c < 0x10000 then 3 else 4))))"

end
