(* ===== verification/Persistence_Mappers.thy ===== *)
theory Persistence_Mappers
  imports Persistence_Records Orchestration_Types Json_Text
begin

text \<open>
  \<open>application/persistence_mappers.py\<close>: what is written to the request, run and audit tables.
  SHA-256 in hexadecimal is the parameter \<open>sha\<close>. \<open>_freeze_json\<close> makes read-only copies, which
  a value does not need.
\<close>

definition REQUEST_FINGERPRINT_VERSION :: int where "REQUEST_FINGERPRINT_VERSION = 2"
definition AUTHORIZATION_SNAPSHOT_VERSION :: int where "AUTHORIZATION_SNAPSHOT_VERSION = 1"
definition RESULT_SNAPSHOT_VERSION :: int where "RESULT_SNAPSHOT_VERSION = 1"
definition TRACE_SNAPSHOT_VERSION :: int where "TRACE_SNAPSHOT_VERSION = 1"
definition AUDIT_PAYLOAD_VERSION :: int where "AUDIT_PAYLOAD_VERSION = 1"

definition FAILURE_CODES :: "string list" where
  "FAILURE_CODES =
     [''application_service_failed'', ''coordinator_execution_failed'', ''duplicate_request_id'',
      ''invalid_request_transition'', ''request_persistence_failed'', ''result_persistence_failed'',
      ''idempotency_lease_reclaimed'']"

definition require_failure_code :: "string \<Rightarrow> string res" where
  "require_failure_code code =
     (if code \<in> set FAILURE_CODES then Inr code else Inl (ValueError ''failure_code is not approved''))"

section \<open>Values\<close>

definition pv_str :: "string \<Rightarrow> pyval" where
  "pv_str s = PStr (u s)"

fun pv_opt :: "('a \<Rightarrow> pyval) \<Rightarrow> 'a option \<Rightarrow> pyval" where
  "pv_opt f None = PNone"
| "pv_opt f (Some x) = f x"

definition pv_obj :: "(string \<times> pyval) list \<Rightarrow> pyval" where
  "pv_obj kvs = PDict (map (\<lambda>(k, v). (u k, v)) kvs)"

definition pv_rat :: "rat \<Rightarrow> pyval" where
  "pv_rat q = PFloat (Fin q)"

section \<open>Requests\<close>

definition fingerprint_payload ::
  "digest_fn \<Rightarrow> request_context \<Rightarrow> pystr \<Rightarrow> pystr \<Rightarrow> string option \<Rightarrow> pystr option \<Rightarrow> pyval" where
  "fingerprint_payload sha context operation user_text task_override session_id =
     pv_obj
       [(''fingerprint_version'', PInt REQUEST_FINGERPRINT_VERSION),
        (''operation'', PStr operation),
        (''organization_id'', PStr (pr_organization_id (cx_principal context))),
        (''principal_user_id'', PStr (pr_user_id (cx_principal context))),
        (''request_session_id'', pv_opt PStr session_id),
        (''task_override'', pv_opt pv_str task_override),
        (''tenant_id'', PStr (pr_tenant_id (cx_principal context))),
        (''user_text_hash'', PStr (sha user_text))]"

definition scope_snapshot :: "resource_scope \<Rightarrow> pyval" where
  "scope_snapshot s =
     pv_obj
       [(''resource_ids'', PList (map PStr (sc_resource_ids s))),
        (''resource_type'', PStr (sc_resource_type s)),
        (''scope_type'', pv_str (scope_type_value (sc_scope_type s)))]"

definition authorization_snapshot :: "request_context \<Rightarrow> pyval" where
  "authorization_snapshot context =
     pv_obj
       [(''allowed'', PBool (az_allowed (cx_authorization context))),
        (''authorization_policy_version'', PStr (rv_authorization_policy_version (cx_versions context))),
        (''code'', PStr (az_code (cx_authorization context))),
        (''permissions'', PList (map PStr (az_permissions (cx_authorization context)))),
        (''resource_scopes'', PList (map scope_snapshot (az_resource_scopes (cx_authorization context))))]"

text \<open>The keyword arguments of \<open>RequestPersistenceMapper.map\<close> that have defaults.\<close>

record map_options =
  mo_idempotency_key_hash :: "pystr option"
  mo_status :: string
  mo_replayed_from :: "int option"
  mo_completed_at :: "datetime option"

definition default_map_options :: map_options where
  "default_map_options =
     \<lparr>mo_idempotency_key_hash = None, mo_status = ''in_progress'', mo_replayed_from = None,
      mo_completed_at = None\<rparr>"

definition map_request ::
  "digest_fn \<Rightarrow> (rat \<Rightarrow> pystr) \<Rightarrow> request_context \<Rightarrow> pystr \<Rightarrow> pystr \<Rightarrow> string option \<Rightarrow> pystr option
     \<Rightarrow> datetime \<Rightarrow> map_options \<Rightarrow> new_agent_request res" where
  "map_request sha fl context operation user_text task_override session_id created_at opts =
     bind_res (json_dumps fl (fingerprint_payload sha context operation user_text task_override session_id)) (\<lambda>canonical.
     check_new_agent_request
       \<lparr>nr_request_id = cx_request_id context, nr_trace_id = cx_trace_id context,
        nr_session_id = Some (cx_session_id context), nr_operation = operation,
        nr_principal_user_id = pr_user_id (cx_principal context),
        nr_tenant_id = pr_tenant_id (cx_principal context),
        nr_organization_id = pr_organization_id (cx_principal context),
        nr_user_text_hash = sha user_text, nr_user_text_length = length user_text,
        nr_request_fingerprint = sha canonical,
        nr_fingerprint_version = REQUEST_FINGERPRINT_VERSION,
        nr_authorization_snapshot = authorization_snapshot context,
        nr_authorization_snapshot_schema_version = AUTHORIZATION_SNAPSHOT_VERSION,
        nr_created_at = created_at, nr_status = mo_status opts,
        nr_idempotency_key_hash = mo_idempotency_key_hash opts,
        nr_replayed_from = mo_replayed_from opts, nr_completed_at = mo_completed_at opts,
        nr_failure_code = None\<rparr>)"

section \<open>Runs\<close>

definition run_outcome :: "application_result \<Rightarrow> string" where
  "run_outcome result = (if is_blocked (or_policy (ar_orchestration result)) then ''blocked'' else ''completed'')"

definition routed_task_of :: "application_result \<Rightarrow> string option" where
  "routed_task_of result = map_option (\<lambda>r. task_value (tr_task r)) (or_task_route (ar_orchestration result))"

definition rag_provider_of :: "application_result \<Rightarrow> string option" where
  "rag_provider_of result =
     map_option (\<lambda>r. rag_provider_value (rg_provider r)) (or_rag_result (ar_orchestration result))"

definition result_snapshot_of :: "digest_fn \<Rightarrow> application_result \<Rightarrow> pyval" where
  "result_snapshot_of sha result =
     (let orch = ar_orchestration result
      in pv_obj
       [(''answer_length'', PInt (int (length (or_final_response orch)))),
        (''answer_sha256'', PStr (sha (or_final_response orch))),
        (''citation_count'', PInt (int (length (or_citations orch)))),
        (''has_citations'', PBool (or_citations orch \<noteq> [])),
        (''outcome'', pv_str (run_outcome result)),
        (''result_kind'', pv_str (if is_blocked (or_policy orch) then ''policy_refusal'' else ''agent_result''))])"

definition trace_snapshot_of :: "application_result \<Rightarrow> pyval" where
  "trace_snapshot_of result =
     (let orch = ar_orchestration result
      in pv_obj
       [(''fallback_used'', PBool (rag_provider_of result = Some ''fallback'')),
        (''matched_rule_ids'', PList (map PStr (pd_matched_rules (or_policy orch)))),
        (''policy_outcome'', pv_str (policy_status_name (pd_status (or_policy orch)))),
        (''policy_version'', PStr (rv_policy_version (cx_versions (ar_context result)))),
        (''rag_provider'', pv_opt pv_str (rag_provider_of result)),
        (''rag_used'', PBool (or_rag_result orch \<noteq> None)),
        (''routed_task'', pv_opt pv_str (routed_task_of result)),
        (''stage_names'', PList (map (\<lambda>s. PStr (as_step_name s)) (or_trace orch)))])"

definition run_completed ::
  "digest_fn \<Rightarrow> application_result \<Rightarrow> request_ref \<Rightarrow> pystr \<Rightarrow> datetime \<Rightarrow> datetime \<Rightarrow> new_agent_run res" where
  "run_completed sha result request run_id started_at completed_at =
     check_new_agent_run
       \<lparr>nu_run_id = run_id, nu_original_request_record_id = rf_database_id request,
        nu_session_id = Some (cx_session_id (ar_context result)), nu_status = run_outcome result,
        nu_routed_task = routed_task_of result,
        nu_policy_outcome = Some (pd_status (or_policy (ar_orchestration result))),
        nu_result_snapshot = Some (result_snapshot_of sha result),
        nu_result_snapshot_schema_version = Some RESULT_SNAPSHOT_VERSION,
        nu_confidence = Some (or_confidence (ar_orchestration result)),
        nu_trace_snapshot = Some (trace_snapshot_of result),
        nu_trace_snapshot_schema_version = Some TRACE_SNAPSHOT_VERSION,
        nu_rag_provider = rag_provider_of result, nu_started_at = started_at,
        nu_completed_at = completed_at\<rparr>"

definition failed_run ::
  "pystr option \<Rightarrow> request_ref \<Rightarrow> pystr \<Rightarrow> string \<Rightarrow> datetime \<Rightarrow> datetime \<Rightarrow> new_agent_run res" where
  "failed_run session_id request run_id failure_code started_at completed_at =
     check_new_agent_run
       \<lparr>nu_run_id = run_id, nu_original_request_record_id = rf_database_id request,
        nu_session_id = session_id, nu_status = ''failed'', nu_routed_task = None,
        nu_policy_outcome = None, nu_result_snapshot = None,
        nu_result_snapshot_schema_version = None, nu_confidence = None,
        nu_trace_snapshot = Some (pv_obj [(''failure_code'', pv_str failure_code), (''outcome'', pv_str ''failed'')]),
        nu_trace_snapshot_schema_version = Some TRACE_SNAPSHOT_VERSION, nu_rag_provider = None,
        nu_started_at = started_at, nu_completed_at = completed_at\<rparr>"

definition run_failed ::
  "request_context \<Rightarrow> request_ref \<Rightarrow> pystr \<Rightarrow> string \<Rightarrow> datetime \<Rightarrow> datetime \<Rightarrow> new_agent_run res" where
  "run_failed context request run_id failure_code started_at completed_at =
     failed_run (Some (cx_session_id context)) request run_id failure_code started_at completed_at"

definition run_lease_reclaimed :: "request_ref \<Rightarrow> pystr \<Rightarrow> datetime \<Rightarrow> new_agent_run res" where
  "run_lease_reclaimed request run_id event_time =
     failed_run (rf_session_id request) request run_id ''idempotency_lease_reclaimed'' event_time event_time"

section \<open>Audit events\<close>

definition audit_event ::
  "request_context \<Rightarrow> pystr \<Rightarrow> string \<Rightarrow> string \<Rightarrow> (string \<times> pyval) list \<Rightarrow> datetime \<Rightarrow> new_audit_event res" where
  "audit_event context event_id event_type outcome details created_at =
     check_new_audit_event
       \<lparr>ae_event_id = event_id, ae_request_id = Some (cx_request_id context),
        ae_trace_id = Some (cx_trace_id context), ae_tenant_id = pr_tenant_id (cx_principal context),
        ae_organization_id = pr_organization_id (cx_principal context), ae_event_type = event_type,
        ae_principal_user_id = Some (pr_user_id (cx_principal context)), ae_outcome = outcome,
        ae_details_json = Some (pv_obj details), ae_created_at = created_at\<rparr>"

definition audit_request_accepted ::
  "request_context \<Rightarrow> pystr \<Rightarrow> pystr \<Rightarrow> datetime \<Rightarrow> string option \<Rightarrow> int option \<Rightarrow> bool \<Rightarrow> bool \<Rightarrow> new_audit_event res" where
  "audit_request_accepted context event_id operation created_at idempotency_outcome claim_version reclaimed expired_reuse =
     audit_event context event_id ''request_accepted'' ''accepted''
       [(''audit_payload_version'', PInt AUDIT_PAYLOAD_VERSION), (''operation'', PStr operation),
        (''idempotency_outcome'', pv_opt pv_str idempotency_outcome),
        (''claim_version'', pv_opt PInt claim_version), (''reclaimed'', PBool reclaimed),
        (''expired_reuse'', PBool expired_reuse)] created_at"

definition audit_request_completed ::
  "application_result \<Rightarrow> pystr \<Rightarrow> pystr \<Rightarrow> datetime \<Rightarrow> new_audit_event res" where
  "audit_request_completed result event_id run_id created_at =
     audit_event (ar_context result) event_id ''request_completed'' ''completed''
       [(''audit_payload_version'', PInt AUDIT_PAYLOAD_VERSION),
        (''rag_provider'', pv_opt pv_str (rag_provider_of result)), (''run_id'', PStr run_id),
        (''task'', pv_opt pv_str (routed_task_of result))] created_at"

definition audit_policy_blocked ::
  "application_result \<Rightarrow> pystr \<Rightarrow> pystr \<Rightarrow> datetime \<Rightarrow> new_audit_event res" where
  "audit_policy_blocked result event_id run_id created_at =
     audit_event (ar_context result) event_id ''policy_blocked'' ''blocked''
       [(''audit_payload_version'', PInt AUDIT_PAYLOAD_VERSION),
        (''matched_rule_ids'', PList (map PStr (pd_matched_rules (or_policy (ar_orchestration result))))),
        (''policy_version'', PStr (rv_policy_version (cx_versions (ar_context result)))),
        (''run_id'', PStr run_id)] created_at"

definition audit_request_failed ::
  "request_context \<Rightarrow> pystr \<Rightarrow> pystr \<Rightarrow> string \<Rightarrow> datetime \<Rightarrow> new_audit_event res" where
  "audit_request_failed context event_id run_id failure_code created_at =
     audit_event context event_id ''request_failed'' ''failed''
       [(''audit_payload_version'', PInt AUDIT_PAYLOAD_VERSION),
        (''failure_code'', pv_str failure_code), (''run_id'', PStr run_id)] created_at"

definition audit_request_replayed ::
  "request_context \<Rightarrow> pystr \<Rightarrow> pystr \<Rightarrow> datetime \<Rightarrow> new_audit_event res" where
  "audit_request_replayed context event_id operation created_at =
     audit_event context event_id ''request_completed'' ''replayed''
       [(''audit_payload_version'', PInt AUDIT_PAYLOAD_VERSION), (''operation'', PStr operation),
        (''idempotency_outcome'', pv_str ''replayed''), (''replayed'', PBool True)] created_at"

definition audit_lease_reclaimed ::
  "request_context \<Rightarrow> request_ref \<Rightarrow> pystr \<Rightarrow> pystr \<Rightarrow> int \<Rightarrow> datetime \<Rightarrow> new_audit_event res" where
  "audit_lease_reclaimed context old_request event_id run_id claim_version created_at =
     bind_res (audit_event context event_id ''request_failed'' ''failed''
       [(''audit_payload_version'', PInt AUDIT_PAYLOAD_VERSION),
        (''failure_code'', pv_str ''idempotency_lease_reclaimed''),
        (''idempotency_outcome'', pv_str ''reclaimed''), (''claim_version'', PInt claim_version),
        (''reclaimed'', PBool True), (''run_id'', PStr run_id)] created_at) (\<lambda>event.
     check_new_audit_event
       (event\<lparr>ae_request_id := Some (rf_request_id old_request), ae_trace_id := rf_trace_id old_request\<rparr>))"

section \<open>The fingerprint identifies the request\<close>

definition json_opt_string :: "pystr option \<Rightarrow> pystr" where
  "json_opt_string v = (case v of None \<Rightarrow> u ''null'' | Some s \<Rightarrow> json_string s)"

lemma json_value_opt:
  "json_value fl (pv_opt PStr v) = Inr (json_opt_string v)"
  "json_value fl (pv_opt pv_str w) = Inr (json_opt_string (map_option u w))"
  by (cases v; cases w; simp add: json_opt_string_def pv_str_def)+

lemma json_opt_string_prefix_free: "json_opt_string a @ x = json_opt_string b @ y \<Longrightarrow> a = b \<and> x = y"
proof -
  assume eq: "json_opt_string a @ x = json_opt_string b @ y"
  show ?thesis
  proof (cases a)
    case None
    with eq show ?thesis by (cases b) (auto simp: json_opt_string_def json_string_def)
  next
    case a: (Some s)
    show ?thesis
    proof (cases b)
      case None
      with eq a show ?thesis by (simp add: json_opt_string_def json_string_def)
    next
      case (Some t)
      then have "json_string s @ x = json_string t @ y" using eq a by (simp add: json_opt_string_def)
      from json_string_prefix_free[OF this] show ?thesis using a Some by simp
    qed
  qed
qed

text \<open>The canonical text, field by field.\<close>

definition canonical_text ::
  "pystr \<Rightarrow> pystr \<Rightarrow> pystr \<Rightarrow> pystr option \<Rightarrow> pystr option \<Rightarrow> pystr \<Rightarrow> pystr \<Rightarrow> pystr" where
  "canonical_text operation org user session override tenant hash =
     u ''{\"fingerprint_version\":2,\"operation\":'' @ json_string operation
     @ u '',\"organization_id\":'' @ json_string org @ u '',\"principal_user_id\":'' @ json_string user
     @ u '',\"request_session_id\":'' @ json_opt_string session @ u '',\"task_override\":'' @ json_opt_string override
     @ u '',\"tenant_id\":'' @ json_string tenant @ u '',\"user_text_hash\":'' @ json_string hash @ u ''}''"

lemma canonical_text_inj:
  assumes "canonical_text a b c d e f g = canonical_text a' b' c' d' e' f' g'"
  shows "a = a' \<and> b = b' \<and> c = c' \<and> d = d' \<and> e = e' \<and> f = f' \<and> g = g'"
proof -
  have q: "u s @ x = u s @ y \<Longrightarrow> x = y" for s x y by simp
  note j = json_string_prefix_free and o' = json_opt_string_prefix_free
  from assms have 1: "json_string a @ u '',\"organization_id\":'' @ json_string b @ u '',\"principal_user_id\":''
      @ json_string c @ u '',\"request_session_id\":'' @ json_opt_string d @ u '',\"task_override\":''
      @ json_opt_string e @ u '',\"tenant_id\":'' @ json_string f @ u '',\"user_text_hash\":'' @ json_string g @ u ''}''
    = json_string a' @ u '',\"organization_id\":'' @ json_string b' @ u '',\"principal_user_id\":''
      @ json_string c' @ u '',\"request_session_id\":'' @ json_opt_string d' @ u '',\"task_override\":''
      @ json_opt_string e' @ u '',\"tenant_id\":'' @ json_string f' @ u '',\"user_text_hash\":'' @ json_string g' @ u ''}''"
    unfolding canonical_text_def by (rule q)
  note 2 = j[OF 1] note 3 = j[OF q[OF conjunct2[OF 2]]] note 4 = j[OF q[OF conjunct2[OF 3]]]
  note 5 = o'[OF q[OF conjunct2[OF 4]]] note 6 = o'[OF q[OF conjunct2[OF 5]]]
  note 7 = j[OF q[OF conjunct2[OF 6]]] note 8 = j[OF q[OF conjunct2[OF 7]]]
  from 2 3 4 5 6 7 8 show ?thesis by blast
qed

lemma fingerprint_text:
  "json_dumps fl (fingerprint_payload sha context operation user_text override session) =
     Inr (canonical_text operation (pr_organization_id (cx_principal context))
            (pr_user_id (cx_principal context)) session (map_option u override)
            (pr_tenant_id (cx_principal context)) (sha user_text))"
proof -
  have s: "sort_keys (pv_opt PStr v) = pv_opt PStr v" "sort_keys (pv_opt pv_str w) = pv_opt pv_str w" for v w
    by (cases v; cases w; simp add: pv_str_def)+
  have n: "json_int 2 = [50]" by (simp add: json_int_def py_str_nat.simps)
  show ?thesis
    by (simp add: json_dumps_def fingerprint_payload_def pv_obj_def s json_value_opt py_join_def n
        REQUEST_FINGERPRINT_VERSION_def canonical_text_def json_string_def json_escape_char_def)
qed

text \<open>The record that \<open>map\<close> makes, when its times are UTC.\<close>

lemma map_request_Inr:
  "map_request sha fl context operation user_text override session created opts = Inr r \<Longrightarrow>
     nr_request_id r = cx_request_id context \<and> nr_trace_id r = cx_trace_id context
     \<and> nr_status r = mo_status opts \<and> nr_replayed_from r = mo_replayed_from opts
     \<and> nr_completed_at r = mo_completed_at opts \<and> nr_failure_code r = None
     \<and> nr_fingerprint_version r = REQUEST_FINGERPRINT_VERSION
     \<and> nr_request_fingerprint r = sha (canonical_text operation (pr_organization_id (cx_principal context))
            (pr_user_id (cx_principal context)) session (map_option u override)
            (pr_tenant_id (cx_principal context)) (sha user_text))"
  by (auto simp: map_request_def fingerprint_text check_new_agent_request_def bind_res_Inr_iff)

text \<open>A request context for concrete runs, with the development identity.\<close>

definition demo_principal :: principal where
  "demo_principal = fst development_security_context"

definition demo_context :: "pystr \<Rightarrow> request_context" where
  "demo_context request_id =
     \<lparr>cx_request_id = request_id, cx_trace_id = [116], cx_session_id = [115],
      cx_principal = demo_principal, cx_authorization = snd development_security_context,
      cx_versions = development_versions, cx_received_at = utc 0, cx_idempotency_key = Some [107]\<rparr>"

text \<open>
  C19: the request fingerprint identifies the request. Two requests get the same fingerprint
  only if they agree in the operation, the tenant, the organization, the user, the session, the
  task override and the text; SHA-256 is assumed not to collide on the texts hashed here.
\<close>

theorem fingerprint_identifies_request:
  assumes "map_request sha fl c1 op1 t1 ov1 s1 at1 o1 = Inr r1" "map_request sha fl c2 op2 t2 ov2 s2 at2 o2 = Inr r2"
    and "nr_request_fingerprint r1 = nr_request_fingerprint r2"
    and "inj_on sha {t1, t2}"
    and "\<And>x y. json_dumps fl (fingerprint_payload sha c1 op1 t1 ov1 s1) = Inr x \<Longrightarrow>
           json_dumps fl (fingerprint_payload sha c2 op2 t2 ov2 s2) = Inr y \<Longrightarrow> sha x = sha y \<Longrightarrow> x = y"
  shows "op1 = op2 \<and> t1 = t2 \<and> ov1 = ov2 \<and> s1 = s2
    \<and> pr_tenant_id (cx_principal c1) = pr_tenant_id (cx_principal c2)
    \<and> pr_organization_id (cx_principal c1) = pr_organization_id (cx_principal c2)
    \<and> pr_user_id (cx_principal c1) = pr_user_id (cx_principal c2)"
proof -
  note r1 = map_request_Inr[OF assms(1)] and r2 = map_request_Inr[OF assms(2)]
  have "inj (map_option u)" by (rule option.inj_map) (simp add: inj_def)
  moreover have "canonical_text op1 (pr_organization_id (cx_principal c1)) (pr_user_id (cx_principal c1)) s1
      (map_option u ov1) (pr_tenant_id (cx_principal c1)) (sha t1)
    = canonical_text op2 (pr_organization_id (cx_principal c2)) (pr_user_id (cx_principal c2)) s2
      (map_option u ov2) (pr_tenant_id (cx_principal c2)) (sha t2)"
    using assms(3,5) r1 r2 by (simp add: fingerprint_text)
  note canonical_text_inj[OF this]
  ultimately show ?thesis using assms(4) by (auto dest: injD inj_onD)
qed

theorem fingerprint_identifies_request_witness:
  "\<exists>r1 r2. map_request id (\<lambda>q. []) (demo_context [49]) [111] [113] None None (utc 0) default_map_options = Inr r1
    \<and> map_request id (\<lambda>q. []) (demo_context [50]) [111] [113] None None (utc 1) default_map_options = Inr r2
    \<and> nr_request_fingerprint r1 = nr_request_fingerprint r2
    \<and> pr_user_id (cx_principal (demo_context [49])) = pr_user_id (cx_principal (demo_context [50]))"
proof -
  obtain r1 r2 where
    r: "map_request id (\<lambda>q. []) (demo_context [49]) [111] [113] None None (utc 0) default_map_options = Inr r1"
       "map_request id (\<lambda>q. []) (demo_context [50]) [111] [113] None None (utc 1) default_map_options = Inr r2"
    by (simp add: map_request_def fingerprint_text check_new_agent_request_def default_map_options_def)
  then have f: "nr_request_fingerprint r1 = nr_request_fingerprint r2"
    using map_request_Inr[OF r(1)] map_request_Inr[OF r(2)] by (simp add: demo_context_def)
  show ?thesis using fingerprint_identifies_request[OF r f] r f by simp
qed

end
