(* ===== verification/Replay_Snapshots.thy ===== *)
theory Replay_Snapshots
  imports Persistence_Mappers
begin

text \<open>
  \<open>application/idempotency_mappers.py\<close>: the replay snapshot that a completed claim stores, and
  the result that a replay restores from it. The readers below are the pydantic validations of
  the nested models on JSON values, without pydantic's conversions from strings to numbers and
  flags, which no written snapshot needs.
\<close>

section \<open>Writing\<close>

definition REPLAY_SNAPSHOT_VERSION :: int where "REPLAY_SNAPSHOT_VERSION = 1"

definition SUPPORTED_REPLAY_SNAPSHOT_READER_VERSIONS :: "int list" where
  "SUPPORTED_REPLAY_SNAPSHOT_READER_VERSIONS = [1]"

definition FORBIDDEN_KEYS :: "pystr list" where
  "FORBIDDEN_KEYS = map u [''raw_response'', ''debug'', ''token'', ''jwt'', ''claims'', ''email'',
     ''prompt'', ''authorization'', ''security_trace'']"

fun safe_json :: "ucd \<Rightarrow> pyval \<Rightarrow> pyval res" where
  "safe_json T PNone = Inr PNone"
| "safe_json T (PBool b) = Inr (PBool b)"
| "safe_json T (PInt n) = Inr (PInt n)"
| "safe_json T (PStr s) = Inr (PStr s)"
| "safe_json T (PFloat (Fin q)) = Inr (PFloat (Fin q))"
| "safe_json T (PFloat (NonFinite n)) = Inl ReplaySnapshotError"
| "safe_json T (PList vs) = bind_res (map_res (safe_json T) vs) (\<lambda>ws. Inr (PList ws))"
| "safe_json T (PDict kvs) =
     bind_res (map_res (\<lambda>(k, v). if u_lower T k \<in> set FORBIDDEN_KEYS then Inl ReplaySnapshotError
                         else bind_res (safe_json T v) (\<lambda>w. Inr (k, w))) kvs)
       (\<lambda>ws. Inr (PDict ws))"
| "safe_json T POther = Inl ReplaySnapshotError"

definition evidence_payload :: "ucd \<Rightarrow> rag_evidence \<Rightarrow> pyval res" where
  "evidence_payload T e =
     bind_res (safe_json T (pv_opt PFloat (re_score e))) (\<lambda>score.
     bind_res (safe_json T (PDict (re_metadata e))) (\<lambda>metadata.
     Inr (pv_obj
       [(''source_id'', PStr (re_source_id e)), (''title'', pv_opt PStr (re_title e)),
        (''source_path'', pv_opt PStr (re_source_path e)), (''text'', PStr (re_text e)),
        (''score'', score), (''metadata'', metadata)])))"

definition diagnostic_payload :: "rag_call_diagnostic \<Rightarrow> pyval" where
  "diagnostic_payload d =
     pv_obj
       [(''step_name'', PStr (dg_step_name d)), (''provider'', PStr (dg_provider d)),
        (''success'', PBool (dg_success d)), (''error_type'', pv_opt PStr (dg_error_type d)),
        (''message'', pv_opt PStr (dg_message d)), (''latency_ms'', pv_opt pv_rat (dg_latency_ms d))]"

definition rag_payload :: "ucd \<Rightarrow> rag_result \<Rightarrow> pyval res" where
  "rag_payload T r =
     bind_res (map_res (evidence_payload T) (rg_evidence r)) (\<lambda>evidence.
     bind_res (safe_json T (PList (rg_sources r))) (\<lambda>sources.
     Inr (pv_obj
       [(''answer'', PStr (rg_answer r)), (''evidence'', PList evidence), (''sources'', sources),
        (''confidence'', pv_rat (rg_confidence r)),
        (''warnings'', PList (map PStr (rg_warnings r))),
        (''provider'', pv_str (rag_provider_value (rg_provider r))),
        (''diagnostics'', PList (map diagnostic_payload (rg_diagnostics r)))])))"

definition policy_payload :: "policy_decision \<Rightarrow> pyval" where
  "policy_payload p =
     pv_obj
       [(''status'', pv_str (policy_status_name (pd_status p))), (''reason'', PStr (pd_reason p)),
        (''matched_rules'', PList (map PStr (pd_matched_rules p))),
        (''warnings'', PList (map PStr (pd_warnings p))),
        (''classifier_used'', PBool (pd_classifier_used p)), (''confidence'', pv_rat (pd_confidence p))]"

text \<open>\<open>model_dump(mode="json")\<close> of the two small models.\<close>

definition intent_payload :: "intent_result \<Rightarrow> pyval" where
  "intent_payload i =
     pv_obj
       [(''intent'', pv_str (intent_value (ir_intent i))), (''confidence'', pv_rat (ir_confidence i)),
        (''reasoning'', PStr (ir_reasoning i)),
        (''alternative_intents'', PList (map (\<lambda>x. pv_str (intent_value x)) (ir_alternative_intents i)))]"

definition route_payload :: "task_route \<Rightarrow> pyval" where
  "route_payload r =
     pv_obj
       [(''task'', pv_str (task_value (tr_task r))), (''confidence'', pv_rat (tr_confidence r)),
        (''reason'', PStr (tr_reason r))]"

fun opt_res :: "('a \<Rightarrow> pyval res) \<Rightarrow> 'a option \<Rightarrow> pyval res" where
  "opt_res f None = Inr PNone"
| "opt_res f (Some x) = f x"

definition snapshot_payload :: "ucd \<Rightarrow> application_result \<Rightarrow> pyval res" where
  "snapshot_payload T result =
     (let orch = ar_orchestration result
      in bind_res (opt_res (rag_payload T) (or_rag_result orch)) (\<lambda>rag.
         bind_res (safe_json T (PList (or_citations orch))) (\<lambda>citations.
         Inr (pv_obj
           [(''snapshot_schema_version'', PInt REPLAY_SNAPSHOT_VERSION),
            (''policy'', policy_payload (or_policy orch)),
            (''intent_result'', pv_opt intent_payload (or_intent_result orch)),
            (''task_route'', pv_opt route_payload (or_task_route orch)),
            (''final_response'', PStr (or_final_response orch)),
            (''rag_result'', rag), (''citations'', citations),
            (''confidence'', pv_rat (or_confidence orch))]))))"

text \<open>
  \<open>ReplaySnapshotMapper.map\<close>; \<open>json.loads\<close> of the printed text gives the printed value back,
  with its dictionaries in the order of the text.
\<close>

definition map_snapshot ::
  "ucd \<Rightarrow> (rat \<Rightarrow> pystr) \<Rightarrow> int \<Rightarrow> application_result \<Rightarrow> pyval res" where
  "map_snapshot T fl max_bytes result =
     bind_res (snapshot_payload T result) (\<lambda>payload.
     bind_res (safe_json T payload) (\<lambda>safe_payload.
     bind_res (json_dumps fl safe_payload) (\<lambda>txt.
     bind_res (utf8_length txt) (\<lambda>n.
       if int n > max_bytes then Inl ReplaySnapshotError else Inr (sort_keys safe_payload)))))"

section \<open>Reading\<close>

definition field :: "(pystr \<times> pyval) list \<Rightarrow> string \<Rightarrow> 'a res \<Rightarrow> (pyval \<Rightarrow> 'a res) \<Rightarrow> 'a res" where
  "field kvs name missing read = (case dict_get kvs (u name) of None \<Rightarrow> missing | Some v \<Rightarrow> read v)"

fun read_str :: "pyval \<Rightarrow> pystr res" where
  "read_str (PStr s) = Inr s"
| "read_str _ = Inl ValidationError"

fun read_bool :: "pyval \<Rightarrow> bool res" where
  "read_bool (PBool b) = Inr b"
| "read_bool _ = Inl ValidationError"

fun read_float :: "pyval \<Rightarrow> rat res" where
  "read_float (PFloat (Fin q)) = Inr q"
| "read_float (PInt n) = Inr (of_int n)"
| "read_float _ = Inl ValidationError"

definition read_unit_float :: "pyval \<Rightarrow> rat res" where
  "read_unit_float v =
     bind_res (read_float v) (\<lambda>q. if 0 \<le> q \<and> q \<le> 1 then Inr q else Inl ValidationError)"

fun read_list :: "(pyval \<Rightarrow> 'a res) \<Rightarrow> pyval \<Rightarrow> 'a list res" where
  "read_list f (PList vs) = map_res f vs"
| "read_list f _ = Inl ValidationError"

fun read_opt :: "(pyval \<Rightarrow> 'a res) \<Rightarrow> pyval \<Rightarrow> 'a option res" where
  "read_opt f PNone = Inr None"
| "read_opt f v = bind_res (f v) (\<lambda>x. Inr (Some x))"

fun read_dict :: "pyval \<Rightarrow> (pystr \<times> pyval) list res" where
  "read_dict (PDict kvs) = Inr kvs"
| "read_dict _ = Inl ValidationError"

definition read_enum :: "('a \<Rightarrow> string) \<Rightarrow> 'a list \<Rightarrow> pyval \<Rightarrow> 'a res" where
  "read_enum val members v =
     bind_res (read_str v) (\<lambda>s.
     case find (\<lambda>x. u (val x) = s) members of None \<Rightarrow> Inl ValidationError | Some x \<Rightarrow> Inr x)"

abbreviation "statuses \<equiv> [SAFE, UNCERTAIN, BLOCKED]"
abbreviation "intents \<equiv> [CUSTOMER_INTAKE, MEETING_NOTE, QUERY, EMAIL_DRAFT, REPORT, PODCAST_SCRIPT]"
abbreviation "tasks \<equiv> [TaskQa, TaskSalesAnalysis, TaskWeeklyReport, TaskPodcastScript, TaskEmailDraft]"
abbreviation "providers \<equiv> [RagExternal, RagLocal, RagFallback, RagNone]"

definition read_policy :: "pyval \<Rightarrow> policy_decision res" where
  "read_policy v =
     bind_res (read_dict v) (\<lambda>kvs.
     if \<not> set (map fst kvs) \<subseteq> set (map u [''status'', ''reason'', ''matched_rules'', ''warnings'',
          ''classifier_used'', ''confidence'']) then Inl ValidationError
     else
     bind_res (field kvs ''status'' (Inl ValidationError) (read_enum policy_status_name statuses)) (\<lambda>status.
     bind_res (field kvs ''reason'' (Inr []) read_str) (\<lambda>reason.
     bind_res (field kvs ''matched_rules'' (Inr []) (read_list read_str)) (\<lambda>matched.
     bind_res (field kvs ''warnings'' (Inr []) (read_list read_str)) (\<lambda>warnings.
     bind_res (field kvs ''classifier_used'' (Inr False) read_bool) (\<lambda>used.
     bind_res (field kvs ''confidence'' (Inr 1) read_unit_float) (\<lambda>confidence.
     Inr \<lparr>pd_status = status, pd_reason = reason, pd_matched_rules = matched, pd_warnings = warnings,
          pd_classifier_used = used, pd_confidence = confidence\<rparr>)))))))"

definition read_intent :: "pyval \<Rightarrow> intent_result res" where
  "read_intent v =
     bind_res (read_dict v) (\<lambda>kvs.
     bind_res (field kvs ''intent'' (Inl ValidationError) (read_enum intent_value intents)) (\<lambda>i.
     bind_res (field kvs ''confidence'' (Inl ValidationError) read_unit_float) (\<lambda>confidence.
     bind_res (field kvs ''reasoning'' (Inr []) read_str) (\<lambda>reasoning.
     bind_res (field kvs ''alternative_intents'' (Inr []) (read_list (read_enum intent_value intents))) (\<lambda>alts.
     Inr \<lparr>ir_intent = i, ir_confidence = confidence, ir_reasoning = reasoning, ir_alternative_intents = alts\<rparr>)))))"

definition read_route :: "pyval \<Rightarrow> task_route res" where
  "read_route v =
     bind_res (read_dict v) (\<lambda>kvs.
     bind_res (field kvs ''task'' (Inl ValidationError) (read_enum task_value tasks)) (\<lambda>t.
     bind_res (field kvs ''confidence'' (Inr (1 / 2)) read_unit_float) (\<lambda>confidence.
     bind_res (field kvs ''reason'' (Inr []) read_str) (\<lambda>reason.
     Inr \<lparr>tr_task = t, tr_confidence = confidence, tr_reason = reason\<rparr>))))"

definition read_evidence :: "pyval \<Rightarrow> rag_evidence res" where
  "read_evidence v =
     bind_res (read_dict v) (\<lambda>kvs.
     bind_res (field kvs ''source_id'' (Inl ValidationError) read_str) (\<lambda>source.
     bind_res (field kvs ''title'' (Inr None) (read_opt read_str)) (\<lambda>title.
     bind_res (field kvs ''source_path'' (Inr None) (read_opt read_str)) (\<lambda>path.
     bind_res (field kvs ''text'' (Inr []) read_str) (\<lambda>txt.
     bind_res (field kvs ''score'' (Inr None) (read_opt (\<lambda>v. bind_res (read_float v) (\<lambda>q. Inr (Fin q))))) (\<lambda>score.
     bind_res (field kvs ''metadata'' (Inr []) read_dict) (\<lambda>metadata.
     Inr \<lparr>re_source_id = source, re_title = title, re_source_path = path, re_text = txt,
          re_score = score, re_metadata = metadata\<rparr>)))))))"

definition read_diagnostic :: "pyval \<Rightarrow> rag_call_diagnostic res" where
  "read_diagnostic v =
     bind_res (read_dict v) (\<lambda>kvs.
     bind_res (field kvs ''step_name'' (Inl ValidationError) read_str) (\<lambda>step.
     bind_res (field kvs ''provider'' (Inl ValidationError) read_str) (\<lambda>provider.
     bind_res (field kvs ''success'' (Inl ValidationError) read_bool) (\<lambda>success.
     bind_res (field kvs ''error_type'' (Inr None) (read_opt read_str)) (\<lambda>err.
     bind_res (field kvs ''message'' (Inr None) (read_opt read_str)) (\<lambda>message.
     bind_res (field kvs ''latency_ms'' (Inr None) (read_opt read_float)) (\<lambda>latency.
     Inr \<lparr>dg_step_name = step, dg_provider = provider, dg_success = success, dg_error_type = err,
          dg_message = message, dg_latency_ms = latency\<rparr>)))))))"

definition read_rag :: "pyval \<Rightarrow> rag_result res" where
  "read_rag v =
     bind_res (read_dict v) (\<lambda>kvs.
     bind_res (field kvs ''answer'' (Inl ValidationError) read_str) (\<lambda>answer.
     bind_res (field kvs ''evidence'' (Inr []) (read_list read_evidence)) (\<lambda>evidence.
     bind_res (field kvs ''sources'' (Inr []) (read_list (\<lambda>x. bind_res (read_dict x) (\<lambda>_. Inr x)))) (\<lambda>sources.
     bind_res (field kvs ''confidence'' (Inr 0) read_unit_float) (\<lambda>confidence.
     bind_res (field kvs ''warnings'' (Inr []) (read_list read_str)) (\<lambda>warnings.
     bind_res (field kvs ''provider'' (Inr RagNone) (read_enum rag_provider_value providers)) (\<lambda>provider.
     bind_res (field kvs ''diagnostics'' (Inr []) (read_list read_diagnostic)) (\<lambda>diagnostics.
     bind_res (field kvs ''raw_response'' (Inr None) (read_opt (\<lambda>x. bind_res (read_dict x) (\<lambda>_. Inr x)))) (\<lambda>raw.
     Inr \<lparr>rg_answer = answer, rg_evidence = evidence, rg_sources = sources, rg_confidence = confidence,
          rg_warnings = warnings, rg_provider = provider, rg_diagnostics = diagnostics,
          rg_raw_response = raw\<rparr>)))))))))"

definition read_snapshot ::
  "(pystr \<times> pyval) list \<Rightarrow> request_context \<Rightarrow> pystr \<Rightarrow> datetime \<Rightarrow> orchestration_result res" where
  "read_snapshot kvs context user_text replayed_at =
     bind_res (field kvs ''policy'' (Inl KeyError) read_policy) (\<lambda>policy.
     bind_res (field kvs ''intent_result'' (Inr None) (read_opt read_intent)) (\<lambda>intent.
     bind_res (field kvs ''task_route'' (Inr None) (read_opt read_route)) (\<lambda>route.
     bind_res (field kvs ''rag_result'' (Inr None) (read_opt read_rag)) (\<lambda>rag.
     bind_res (field kvs ''final_response'' (Inl KeyError) read_str) (\<lambda>final.
     bind_res (field kvs ''citations'' (Inr []) (read_list (\<lambda>x. bind_res (read_dict x) (\<lambda>_. Inr x)))) (\<lambda>citations.
     bind_res (field kvs ''confidence'' (Inl KeyError) read_unit_float) (\<lambda>confidence.
     Inr \<lparr>or_session_id = cx_session_id context, or_user_input = user_text, or_policy = policy,
          or_intent_result = intent, or_task_route = route, or_final_response = final,
          or_rag_result = rag, or_citations = citations, or_confidence = confidence,
          or_trace = [step_of ''idempotency_replay'' (u ''A persisted result was replayed.'') (Some confidence)],
          or_metadata = default_metadata, or_timestamp = replayed_at\<rparr>)))))))"

text \<open>\<open>ReplaySnapshotMapper.restore\<close>: every error of the reading becomes \<open>ReplaySnapshotError\<close>.\<close>

definition restore_snapshot ::
  "pyval \<Rightarrow> int \<Rightarrow> request_context \<Rightarrow> pystr \<Rightarrow> datetime \<Rightarrow> application_result res" where
  "restore_snapshot snapshot version context user_text replayed_at =
     (if version \<notin> set SUPPORTED_REPLAY_SNAPSHOT_READER_VERSIONS
      then Inl UnsupportedReplaySnapshotVersionError
      else case read_dict snapshot of
        Inl e \<Rightarrow> Inl (TypeError ''dict'')
      | Inr kvs \<Rightarrow>
          if dict_get kvs (u ''snapshot_schema_version'') \<noteq> Some (PInt REPLAY_SNAPSHOT_VERSION)
          then Inl ReplaySnapshotError
          else case read_snapshot kvs context user_text replayed_at of
            Inl e \<Rightarrow> Inl ReplaySnapshotError
          | Inr orch \<Rightarrow> Inr \<lparr>ar_context = context, ar_orchestration = orch\<rparr>)"

section \<open>What a replay gives back\<close>

lemma safe_json_id: "safe_json T v = Inr w \<Longrightarrow> w = v"
proof (induction T v arbitrary: w rule: safe_json.induct)
  case (7 T vs)
  then obtain ws where ws: "map_res (safe_json T) vs = Inr ws" "w = PList ws"
    by (auto simp: bind_res_Inr_iff)
  have "list_all2 (\<lambda>x y. y = x) vs ws"
    using ws(1) 7(1) unfolding map_res_Inr by (auto elim!: list.rel_mono_strong)
  then show ?case using ws(2) by (simp add: list_all2_conv_all_nth list_eq_iff_nth_eq)
next
  case (8 T kvs)
  let ?f = "\<lambda>(k, v). if u_lower T k \<in> set FORBIDDEN_KEYS then Inl ReplaySnapshotError
                   else bind_res (safe_json T v) (\<lambda>w. Inr (k, w))"
  obtain ws where ws: "map_res ?f kvs = Inr ws" "w = PDict ws"
    using 8(2) by (auto simp: bind_res_Inr_iff)
  have "list_all2 (\<lambda>x y. y = x) kvs ws"
  proof (rule list.rel_mono_strong[OF ws(1)[unfolded map_res_Inr]])
    fix x y assume "x \<in> set kvs" and "?f x = Inr y"
    then show "y = x" using 8(1)[of x "fst x" "snd x"]
      by (auto simp: bind_res_Inr_iff split: prod.splits if_splits)
  qed
  then show ?case using ws(2) by (simp add: list_all2_conv_all_nth list_eq_iff_nth_eq)
qed auto

abbreviation sorted_fields :: "(pystr \<times> pyval) list \<Rightarrow> (pystr \<times> pyval) list" where
  "sorted_fields kvs \<equiv> sort_key fst (map (\<lambda>(k, v). (k, sort_keys v)) kvs)"

lemma map_of_sort_key: "distinct (map fst xs) \<Longrightarrow> map_of (sort_key f xs) k = map_of xs k"
proof -
  assume d: "distinct (map fst xs)"
  then have "distinct (map fst (sort_key f xs))" by (simp add: distinct_map)
  then have "map_of (sort_key f xs) k = Some v \<longleftrightarrow> map_of xs k = Some v" for v
    using d by (simp add: map_of_eq_Some_iff)
  then show ?thesis by (metis not_Some_eq)
qed

lemma map_of_sorted_fields:
  assumes "distinct (map fst kvs)"
  shows "map_of (sorted_fields kvs) k = map_option sort_keys (map_of kvs k)"
proof -
  have fst: "map fst (map (\<lambda>(k, v). (k, sort_keys v)) kvs) = map fst kvs" by (induction kvs) auto
  have "map_of (map (\<lambda>(k, v). (k, sort_keys v)) kvs) k = map_option sort_keys (map_of kvs k)"
    by (induction kvs) auto
  moreover have "map_of (sorted_fields kvs) k = map_of (map (\<lambda>(k, v). (k, sort_keys v)) kvs) k"
    by (rule map_of_sort_key) (simp only: fst assms)
  ultimately show ?thesis by simp
qed

lemma field_sorted [simp]:
  "distinct (map fst kvs) \<Longrightarrow>
     field (sorted_fields kvs) name missing read = field kvs name missing (\<lambda>v. read (sort_keys v))"
  by (simp add: field_def map_of_sorted_fields split: option.split)

lemma sort_keys_pv_obj:
  "sort_keys (pv_obj kvs) = PDict (sorted_fields (map (\<lambda>(k, v). (u k, v)) kvs))"
  by (simp add: pv_obj_def)

lemma read_dict_sorted [simp]:
  "read_dict (sort_keys (pv_obj kvs)) = Inr (sorted_fields (map (\<lambda>(k, v). (u k, v)) kvs))"
  by (simp add: sort_keys_pv_obj)

lemma field_obj [simp]:
  "distinct (map fst kvs) \<Longrightarrow>
     field (sorted_fields (map (\<lambda>(k, v). (u k, v)) kvs)) name missing read =
       (case map_of kvs name of None \<Rightarrow> missing | Some v \<Rightarrow> read (sort_keys v))"
proof -
  assume d: "distinct (map fst kvs)"
  have "map fst (map (\<lambda>(k, v). (u k, v)) kvs) = map u (map fst kvs)" by (induction kvs) auto
  then have "distinct (map fst (map (\<lambda>(k, v). (u k, v)) kvs))"
    using d by (simp only: distinct_map) (auto simp: inj_on_def)
  from map_of_sorted_fields[OF this]
  have "map_of (sorted_fields (map (\<lambda>(k, v). (u k, v)) kvs)) (u name)
      = map_option sort_keys (map_of (map (\<lambda>(k, v). (u k, v)) kvs) (u name))" .
  moreover have "map_of (map (\<lambda>(k, v). (u k, v)) kvs) (u name) = map_of kvs name"
    by (induction kvs) auto
  ultimately show ?thesis unfolding field_def by (simp only:) (simp split: option.split)
qed

lemma sorted_fields_keys:
  "set (map fst (sorted_fields (map (\<lambda>(k, v). (u k, v)) kvs))) = u ` fst ` set kvs"
  by (auto simp: image_image split_def)

lemma sort_keys_pv [simp]:
  "sort_keys (pv_str s) = pv_str s" "sort_keys (pv_rat q) = pv_rat q"
  "sort_keys (pv_opt PStr x) = pv_opt PStr x" "sort_keys (pv_opt pv_rat y) = pv_opt pv_rat y"
  "sort_keys (PList (map PStr ss)) = PList (map PStr ss)"
  by (cases x; cases y; simp add: pv_str_def pv_rat_def comp_def)+

lemma map_res_map: "map_res f (map g xs) = map_res (\<lambda>x. f (g x)) xs"
  by (induction xs) auto

lemma map_res_all_Inr: "(\<And>x. x \<in> set xs \<Longrightarrow> f x = Inr (g x)) \<Longrightarrow> map_res f xs = Inr (map g xs)"
  by (induction xs) auto

lemma read_values [simp]:
  "read_list read_str (PList (map PStr ss)) = Inr ss"
  "read_opt read_str (pv_opt PStr x) = Inr x"
  "read_opt read_float (pv_opt pv_rat y) = Inr y"
  "0 \<le> q \<Longrightarrow> q \<le> 1 \<Longrightarrow> read_unit_float (pv_rat q) = Inr q"
  by (cases x; cases y; simp add: map_res_map map_res_all_Inr[where g = id, simplified] pv_rat_def
      read_unit_float_def)+

lemma read_policy_status: "read_enum policy_status_name statuses (pv_str (policy_status_name a)) = Inr a"
  by (cases a; simp add: read_enum_def pv_str_def del: u_Cons)

lemma read_intent: "read_enum intent_value intents (pv_str (intent_value b)) = Inr b"
  by (cases b; simp add: read_enum_def pv_str_def del: u_Cons)

lemma read_task: "read_enum task_value tasks (pv_str (task_value c)) = Inr c"
  by (cases c; simp add: read_enum_def pv_str_def del: u_Cons)

lemma read_provider: "read_enum rag_provider_value providers (pv_str (rag_provider_value d)) = Inr d"
  by (cases d; simp add: read_enum_def pv_str_def del: u_Cons)

lemmas read_enums [simp] = read_policy_status read_intent read_task read_provider

text \<open>
  What a result looks like after the round trip: the order of the keys in its free dictionaries
  is that of the printed text, the raw response and the trace are not stored, and the session,
  the text and the time are those of the replaying request.
\<close>

fun is_dict :: "pyval \<Rightarrow> bool" where
  "is_dict (PDict kvs) = True"
| "is_dict _ = False"

definition canonical_evidence :: "rag_evidence \<Rightarrow> rag_evidence" where
  "canonical_evidence e = e\<lparr>re_metadata := sorted_fields (re_metadata e)\<rparr>"

definition canonical_rag :: "rag_result \<Rightarrow> rag_result" where
  "canonical_rag r =
     r\<lparr>rg_evidence := map canonical_evidence (rg_evidence r),
       rg_sources := map sort_keys (rg_sources r), rg_raw_response := None\<rparr>"

definition replayed_result ::
  "request_context \<Rightarrow> pystr \<Rightarrow> datetime \<Rightarrow> orchestration_result \<Rightarrow> application_result" where
  "replayed_result context user_text replayed_at orch =
     \<lparr>ar_context = context,
      ar_orchestration = orch\<lparr>or_session_id := cx_session_id context, or_user_input := user_text,
        or_rag_result := map_option canonical_rag (or_rag_result orch),
        or_citations := map sort_keys (or_citations orch),
        or_trace := [step_of ''idempotency_replay'' (u ''A persisted result was replayed.'')
                       (Some (or_confidence orch))],
        or_metadata := default_metadata, or_timestamp := replayed_at\<rparr>\<rparr>"

text \<open>The ranges that the validations of the models keep.\<close>

definition unit_range :: "rat \<Rightarrow> bool" where
  "unit_range q \<longleftrightarrow> 0 \<le> q \<and> q \<le> 1"

definition orchestration_ok :: "orchestration_result \<Rightarrow> bool" where
  "orchestration_ok orch \<longleftrightarrow>
     unit_range (pd_confidence (or_policy orch)) \<and> unit_range (or_confidence orch)
     \<and> (case or_intent_result orch of None \<Rightarrow> True | Some i \<Rightarrow> unit_range (ir_confidence i))
     \<and> (case or_task_route orch of None \<Rightarrow> True | Some r \<Rightarrow> unit_range (tr_confidence r))
     \<and> (case or_rag_result orch of None \<Rightarrow> True
        | Some r \<Rightarrow> unit_range (rg_confidence r) \<and> list_all is_dict (rg_sources r))
     \<and> list_all is_dict (or_citations orch)"

lemmas read_payload = field_def comp_def map_res_map map_res_all_Inr[where g = id, simplified]
  sort_keys_pv_obj unit_range_def pv_obj_def split_def

lemma sort_keys_enum [simp]: "sort_keys (PList (map (\<lambda>x. pv_str (f x)) xs)) = PList (map (\<lambda>x. pv_str (f x)) xs)"
  by (simp add: comp_def)

lemma read_policy_payload:
  "unit_range (pd_confidence p) \<Longrightarrow> read_policy (sort_keys (policy_payload p)) = Inr p"
  by (simp add: read_policy_def policy_payload_def read_payload)

lemma read_intent_payload:
  "unit_range (ir_confidence i) \<Longrightarrow> read_intent (sort_keys (intent_payload i)) = Inr i"
  by (simp add: read_intent_def intent_payload_def read_payload)

lemma read_route_payload:
  "unit_range (tr_confidence r) \<Longrightarrow> read_route (sort_keys (route_payload r)) = Inr r"
  by (simp add: read_route_def route_payload_def read_payload)

lemma read_score:
  "safe_json T (pv_opt PFloat y) = Inr w \<Longrightarrow>
     read_opt (\<lambda>v. bind_res (read_float v) (\<lambda>q. Inr (Fin q))) (sort_keys (pv_opt PFloat y)) = Inr y"
proof (cases y)
  case (Some f)
  assume "safe_json T (pv_opt PFloat y) = Inr w"
  with Some show ?thesis by (cases f) auto
qed simp

lemma read_evidence_payload:
  "evidence_payload T e = Inr v \<Longrightarrow> read_evidence (sort_keys v) = Inr (canonical_evidence e)"
proof -
  assume e: "evidence_payload T e = Inr v"
  then obtain w where "safe_json T (pv_opt PFloat (re_score e)) = Inr w"
    by (auto simp: evidence_payload_def bind_res_Inr_iff simp del: safe_json.simps)
  note score = read_score[OF this]
  from e show ?thesis
    by (auto simp: evidence_payload_def bind_res_Inr_iff canonical_evidence_def read_evidence_def read_payload score
        simp del: safe_json.simps dest!: safe_json_id)
qed

lemma read_diagnostic_payload: "read_diagnostic (sort_keys (diagnostic_payload d)) = Inr d"
  by (simp add: read_diagnostic_def diagnostic_payload_def read_payload)

lemma read_dicts:
  "list_all is_dict vs \<Longrightarrow>
     read_list (\<lambda>x. bind_res (read_dict x) (\<lambda>_. Inr x)) (sort_keys (PList vs)) = Inr (map sort_keys vs)"
proof -
  assume d: "list_all is_dict vs"
  have "bind_res (read_dict (sort_keys v)) (\<lambda>_. Inr (sort_keys v)) = Inr (sort_keys v)" if "v \<in> set vs" for v
    using d that by (cases v) (auto simp: list_all_iff)
  then show ?thesis by (simp add: map_res_map map_res_all_Inr[where g = sort_keys])
qed

lemma map_res_compose:
  "map_res f xs = Inr ys \<Longrightarrow> (\<And>x y. f x = Inr y \<Longrightarrow> g y = Inr (h x)) \<Longrightarrow> map_res g ys = Inr (map h xs)"
  by (induction xs arbitrary: ys) (auto simp: bind_res_Inr_iff)

lemma sort_keys_atoms: "sort_keys (PStr x) = PStr x" "sort_keys (PInt n) = PInt n"
  by simp_all

lemma read_rag_payload:
  assumes "rag_payload T r = Inr v" "unit_range (rg_confidence r)" "list_all is_dict (rg_sources r)"
  shows "read_rag (sort_keys v) = Inr (canonical_rag r)"
proof -
  from assms(1) obtain evs srcs where
    e: "map_res (evidence_payload T) (rg_evidence r) = Inr evs" and
    s: "safe_json T (PList (rg_sources r)) = Inr srcs" and
    v: "v = pv_obj
       [(''answer'', PStr (rg_answer r)), (''evidence'', PList evs), (''sources'', srcs),
        (''confidence'', pv_rat (rg_confidence r)), (''warnings'', PList (map PStr (rg_warnings r))),
        (''provider'', pv_str (rag_provider_value (rg_provider r))),
        (''diagnostics'', PList (map diagnostic_payload (rg_diagnostics r)))]"
    by (auto simp: rag_payload_def bind_res_Inr_iff)
  have ev: "read_list read_evidence (sort_keys (PList evs)) = Inr (map canonical_evidence (rg_evidence r))"
    using map_res_compose[OF e, of "\<lambda>x. read_evidence (sort_keys x)" canonical_evidence] read_evidence_payload
    by (simp add: map_res_map)
  have dg: "read_list read_diagnostic (sort_keys (PList (map diagnostic_payload (rg_diagnostics r))))
      = Inr (rg_diagnostics r)"
    by (simp add: map_res_map read_diagnostic_payload map_res_all_Inr[where g = id, simplified])
  note src = read_dicts[OF assms(3)] safe_json_id[OF s]
  show ?thesis
    using assms(2) unfolding v read_rag_def canonical_rag_def unit_range_def
    by (simp add: ev dg src field_def sort_keys_atoms del: sort_keys.simps read_list.simps)
qed

lemma read_opt_payload:
  "(\<forall>x. a = Some x \<longrightarrow> read (sort_keys (f x)) = Inr x \<and> sort_keys (f x) \<noteq> PNone) \<Longrightarrow>
     read_opt read (sort_keys (pv_opt f a)) = Inr a"
proof (cases a)
  case (Some x)
  assume "\<forall>x. a = Some x \<longrightarrow> read (sort_keys (f x)) = Inr x \<and> sort_keys (f x) \<noteq> PNone"
  with Some show ?thesis by (cases "sort_keys (f x)") auto
qed simp

lemma pv_obj_not_none: "sort_keys (pv_obj kvs) \<noteq> PNone"
  by (simp add: pv_obj_def)

lemma read_opt_rag:
  assumes "opt_res (rag_payload T) a = Inr v"
    and "\<forall>r. a = Some r \<longrightarrow> unit_range (rg_confidence r) \<and> list_all is_dict (rg_sources r)"
  shows "read_opt read_rag (sort_keys v) = Inr (map_option canonical_rag a)"
proof (cases a)
  case (Some r)
  then have p: "rag_payload T r = Inr v" using assms(1) by simp
  then have "\<exists>kvs. v = pv_obj kvs" by (auto simp: rag_payload_def bind_res_Inr_iff)
  then have "sort_keys v \<noteq> PNone" using pv_obj_not_none by blast
  then have "read_opt read_rag (sort_keys v) = bind_res (read_rag (sort_keys v)) (\<lambda>x. Inr (Some x))"
    by (cases "sort_keys v") auto
  then show ?thesis using Some assms(2) read_rag_payload[OF p] by simp
qed (use assms(1) in auto)

lemma restore_payload:
  assumes "snapshot_payload T result = Inr payload" "orchestration_ok (ar_orchestration result)"
  shows "restore_snapshot (sort_keys payload) 1 context user_text replayed_at
    = Inr (replayed_result context user_text replayed_at (ar_orchestration result))"
proof -
  let ?o = "ar_orchestration result"
  from assms(1) obtain rag cits where
    r: "opt_res (rag_payload T) (or_rag_result ?o) = Inr rag" and
    c: "safe_json T (PList (or_citations ?o)) = Inr cits" and
    p: "payload = pv_obj
           [(''snapshot_schema_version'', PInt REPLAY_SNAPSHOT_VERSION),
            (''policy'', policy_payload (or_policy ?o)),
            (''intent_result'', pv_opt intent_payload (or_intent_result ?o)),
            (''task_route'', pv_opt route_payload (or_task_route ?o)),
            (''final_response'', PStr (or_final_response ?o)),
            (''rag_result'', rag), (''citations'', cits),
            (''confidence'', pv_rat (or_confidence ?o))]"
    by (auto simp: snapshot_payload_def Let_def bind_res_Inr_iff)
  have ok: "unit_range (pd_confidence (or_policy ?o))" "unit_range (or_confidence ?o)"
    "list_all is_dict (or_citations ?o)"
    "\<forall>i. or_intent_result ?o = Some i \<longrightarrow> unit_range (ir_confidence i)"
    "\<forall>t. or_task_route ?o = Some t \<longrightarrow> unit_range (tr_confidence t)"
    "\<forall>g. or_rag_result ?o = Some g \<longrightarrow> unit_range (rg_confidence g) \<and> list_all is_dict (rg_sources g)"
    using assms(2) by (auto simp: orchestration_ok_def)
  note parts = read_policy_payload[OF ok(1)] read_opt_rag[OF r ok(6)] read_dicts[OF ok(3)] safe_json_id[OF c]
  have i: "read_opt read_intent (sort_keys (pv_opt intent_payload (or_intent_result ?o))) = Inr (or_intent_result ?o)"
    by (rule read_opt_payload) (use ok(4) read_intent_payload pv_obj_not_none in \<open>auto simp: intent_payload_def\<close>)
  have t: "read_opt read_route (sort_keys (pv_opt route_payload (or_task_route ?o))) = Inr (or_task_route ?o)"
    by (rule read_opt_payload) (use ok(5) read_route_payload pv_obj_not_none in \<open>auto simp: route_payload_def\<close>)
  have "read_snapshot (sorted_fields (map (\<lambda>(k, v). (u k, v))
           [(''snapshot_schema_version'', PInt REPLAY_SNAPSHOT_VERSION),
            (''policy'', policy_payload (or_policy ?o)),
            (''intent_result'', pv_opt intent_payload (or_intent_result ?o)),
            (''task_route'', pv_opt route_payload (or_task_route ?o)),
            (''final_response'', PStr (or_final_response ?o)),
            (''rag_result'', rag), (''citations'', cits),
            (''confidence'', pv_rat (or_confidence ?o))])) context user_text replayed_at
    = Inr (ar_orchestration (replayed_result context user_text replayed_at ?o))"
    using ok(2) unfolding read_snapshot_def replayed_result_def unit_range_def
    by (simp add: parts i t field_def sort_keys_atoms del: sort_keys.simps read_list.simps)
  then show ?thesis
    unfolding p restore_snapshot_def read_dict_sorted
    by (simp add: SUPPORTED_REPLAY_SNAPSHOT_READER_VERSIONS_def replayed_result_def sort_keys_atoms
        del: sort_keys.simps)
qed

section \<open>What a snapshot may contain\<close>

fun json_clean :: "ucd \<Rightarrow> pyval \<Rightarrow> bool" where
  "json_clean T (PFloat (NonFinite n)) \<longleftrightarrow> False"
| "json_clean T POther \<longleftrightarrow> False"
| "json_clean T (PList vs) \<longleftrightarrow> list_all (json_clean T) vs"
| "json_clean T (PDict kvs) \<longleftrightarrow> list_all (\<lambda>(k, v). u_lower T k \<notin> set FORBIDDEN_KEYS \<and> json_clean T v) kvs"
| "json_clean T _ \<longleftrightarrow> True"

lemma safe_json_clean: "safe_json T v = Inr w \<Longrightarrow> json_clean T v"
proof (induction T v arbitrary: w rule: safe_json.induct)
  case (7 T vs)
  then obtain ws where "map_res (safe_json T) vs = Inr ws" by (auto simp: bind_res_Inr_iff)
  then have "\<forall>x \<in> set vs. \<exists>y. safe_json T x = Inr y"
    unfolding map_res_Inr by (meson list_all2_partner in_set_zipE)
  then show ?case using 7(1) by (auto simp: list_all_iff)
next
  case (8 T kvs)
  let ?f = "\<lambda>(k, v). if u_lower T k \<in> set FORBIDDEN_KEYS then Inl ReplaySnapshotError
                   else bind_res (safe_json T v) (\<lambda>w. Inr (k, w))"
  obtain ws where "map_res ?f kvs = Inr ws" using 8(2) by (auto simp: bind_res_Inr_iff)
  then have "\<forall>x \<in> set kvs. \<exists>y. ?f x = Inr y"
    unfolding map_res_Inr by (meson list_all2_partner in_set_zipE)
  then have "\<forall>(k, v) \<in> set kvs. u_lower T k \<notin> set FORBIDDEN_KEYS \<and> (\<exists>w. safe_json T v = Inr w)"
    by (fastforce simp: bind_res_Inr_iff split: if_splits)
  then show ?case using 8(1) by (fastforce simp: list_all_iff)
qed auto

lemma json_clean_sort_keys: "json_clean T (sort_keys v) = json_clean T v"
  by (induction v rule: sort_keys.induct) (fastforce simp: list_all_iff)+

text \<open>
  A stored snapshot has no forbidden key at any depth, no number that is not finite and no
  value of another class, and its UTF-8 text stays within the configured limit.
\<close>

theorem snapshot_is_clean:
  assumes "map_snapshot T fl max_bytes result = Inr snap"
  shows "json_clean T snap
    \<and> (\<exists>txt n. json_value fl snap = Inr txt \<and> utf8_length txt = Inr n \<and> int n \<le> max_bytes)"
proof -
  from assms obtain payload where
    p: "safe_json T payload = Inr payload" "snap = sort_keys payload" and
    len: "\<exists>txt n. json_dumps fl payload = Inr txt \<and> utf8_length txt = Inr n \<and> int n \<le> max_bytes"
    unfolding map_snapshot_def bind_res_Inr_iff
    by (metis safe_json_id linorder_not_le sum.inject(2) sum.distinct(1))
  from p safe_json_clean[OF p(1)] len show ?thesis
    by (simp add: json_clean_sort_keys json_dumps_def)
qed

text \<open>
  C16: what was stored is what is replayed. The snapshot that \<open>map\<close> writes is read back by
  \<open>restore\<close> to the same policy decision, intent, route, answer, evidence, citations and confidence,
  with the identity, the text and the time of the replaying request.
\<close>

theorem snapshot_roundtrip:
  assumes "map_snapshot T fl max_bytes result = Inr snap" "orchestration_ok (ar_orchestration result)"
  shows "restore_snapshot snap REPLAY_SNAPSHOT_VERSION context user_text replayed_at
    = Inr (replayed_result context user_text replayed_at (ar_orchestration result))"
proof -
  from assms(1) obtain payload where
    "snapshot_payload T result = Inr payload" "snap = sort_keys payload"
    unfolding map_snapshot_def bind_res_Inr_iff by (metis safe_json_id sum.inject(2) sum.distinct(1))
  then show ?thesis using restore_payload[OF _ assms(2)] by (simp add: REPLAY_SNAPSHOT_VERSION_def)
qed

section \<open>A concrete result\<close>

definition demo_result :: "request_context \<Rightarrow> application_result" where
  "demo_result context =
     \<lparr>ar_context = context,
      ar_orchestration =
        \<lparr>or_session_id = [115], or_user_input = [113],
         or_policy = \<lparr>pd_status = SAFE, pd_reason = [], pd_matched_rules = [], pd_warnings = [],
                      pd_classifier_used = False, pd_confidence = 1\<rparr>,
         or_intent_result = None, or_task_route = None, or_final_response = [97], or_rag_result = None,
         or_citations = [PDict [([98], PInt 1), ([97], PNone)]], or_confidence = 1, or_trace = [],
         or_metadata = default_metadata, or_timestamp = utc 0\<rparr>\<rparr>"

lemmas demo_snapshot_run = map_snapshot_def snapshot_payload_def policy_payload_def pv_obj_def pv_str_def
  pv_rat_def FORBIDDEN_KEYS_def json_dumps_def json_int_def json_string_def json_escape_char_def
  py_join_def py_str_nat.simps REPLAY_SNAPSHOT_VERSION_def

lemma demo_snapshot:
  "\<exists>snap. map_snapshot basic_ucd (\<lambda>q. [49]) 262144 (demo_result context) = Inr snap"
  by (simp add: demo_snapshot_run demo_result_def Let_def basic_ucd_def basic_lower_cp_def)

lemma demo_result_ok: "orchestration_ok (ar_orchestration (demo_result context))"
  by (simp add: orchestration_ok_def demo_result_def unit_range_def)

theorem snapshot_is_clean_witness:
  "\<exists>snap. map_snapshot basic_ucd (\<lambda>q. [49]) 262144 (demo_result (demo_context [49])) = Inr snap
    \<and> json_clean basic_ucd snap"
  using demo_snapshot snapshot_is_clean by blast

theorem snapshot_roundtrip_witness:
  "\<exists>snap r. map_snapshot basic_ucd (\<lambda>q. [49]) 262144 (demo_result (demo_context [49])) = Inr snap
    \<and> restore_snapshot snap 1 (demo_context [50]) [113] (utc 5) = Inr r
    \<and> or_final_response (ar_orchestration r) = [97]"
proof -
  obtain snap where s: "map_snapshot basic_ucd (\<lambda>q. [49]) 262144 (demo_result (demo_context [49])) = Inr snap"
    using demo_snapshot by blast
  from snapshot_roundtrip[OF s demo_result_ok, of "demo_context [50]" "[113]" "utc 5"] s show ?thesis
    by (simp add: REPLAY_SNAPSHOT_VERSION_def replayed_result_def demo_result_def)
qed

end
