(* ===== verification/Durable_Service.thy ===== *)
theory Durable_Service
  imports Unit_Of_Work Replay_Snapshots
begin

text \<open>
  \<open>application/durable_service.py\<close>: accept the request in one short transaction, run the
  application outside of any transaction, finalize in a second one. The chat service, which runs
  in another thread, is a program over the same world: other transactions may happen meanwhile.
\<close>

section \<open>The service\<close>

record service =
  sv_sha :: digest_fn
  sv_float :: "rat \<Rightarrow> pystr"
  sv_ucd :: ucd
  sv_policy :: idempotency_policy
  sv_chat :: "user_request \<Rightarrow> request_context \<Rightarrow> task_name option \<Rightarrow> application_result prog"

text \<open>\<open>forced_task or request.task_override\<close>, as its string\<close>

definition task_override_value :: "task_name option \<Rightarrow> user_request \<Rightarrow> string option" where
  "task_override_value forced_task request =
     map_option task_value (case forced_task of None \<Rightarrow> ur_task_override request | Some t \<Rightarrow> Some t)"

text \<open>The failure code of an exception of the application.\<close>

definition failure_code_of :: "exn \<Rightarrow> string" where
  "failure_code_of e =
     (if e = ApplicationExecutionError then ''application_service_failed'' else ''coordinator_execution_failed'')"

definition accept_request ::
  "request_context \<Rightarrow> pystr \<Rightarrow> new_agent_request \<Rightarrow> datetime \<Rightarrow> request_ref prog" where
  "accept_request context operation record event_time =
     with_uow (
       bind_op (create_request record) (\<lambda>request_ref.
       bind_op fresh_event_id (\<lambda>event_id.
       bind_op (lift_res (audit_request_accepted context event_id operation event_time None None False False)) (\<lambda>event.
       bind_op (create_audit_event event) (\<lambda>_.
       bind_op commit (\<lambda>_. ret request_ref))))))"

text \<open>The audit event of a result: refusals are audited as such.\<close>

definition audit_of_result ::
  "application_result \<Rightarrow> pystr \<Rightarrow> pystr \<Rightarrow> datetime \<Rightarrow> new_audit_event res" where
  "audit_of_result result event_id run_id created_at =
     (if is_blocked (or_policy (ar_orchestration result))
      then audit_policy_blocked result event_id run_id created_at
      else audit_request_completed result event_id run_id created_at)"

definition durable_finalize_result ::
  "service \<Rightarrow> application_result \<Rightarrow> request_ref \<Rightarrow> pystr \<Rightarrow> datetime \<Rightarrow> datetime \<Rightarrow> unit prog" where
  "durable_finalize_result S result request run_id started_at completed_at =
     bind_op (lift_res (run_completed (sv_sha S) result request run_id started_at completed_at)) (\<lambda>run.
     bind_op fresh_event_id (\<lambda>event_id.
     bind_op (lift_res (audit_of_result result event_id run_id completed_at)) (\<lambda>audit.
     with_uow (
       bind_op (get_request_for_update (rf_request_id request)) (\<lambda>locked.
       bind_op (create_run run) (\<lambda>_.
       bind_op (finalize_request_completed locked completed_at) (\<lambda>_.
       bind_op (create_audit_event audit) (\<lambda>_. commit))))))))"

definition durable_finalize_failed ::
  "request_context \<Rightarrow> request_ref \<Rightarrow> pystr \<Rightarrow> string \<Rightarrow> datetime \<Rightarrow> datetime \<Rightarrow> unit prog" where
  "durable_finalize_failed context request run_id failure_code started_at completed_at =
     bind_op (lift_res (run_failed context request run_id failure_code started_at completed_at)) (\<lambda>run.
     bind_op fresh_event_id (\<lambda>event_id.
     bind_op (lift_res (audit_request_failed context event_id run_id failure_code completed_at)) (\<lambda>audit.
     with_uow (
       bind_op (get_request_for_update (rf_request_id request)) (\<lambda>locked.
       bind_op (create_run run) (\<lambda>_.
       bind_op (finalize_request_failed locked completed_at failure_code) (\<lambda>_.
       bind_op (create_audit_event audit) (\<lambda>_. commit))))))))"

text \<open>\<open>except Exception: raise error\<close>\<close>

definition raising :: "exn \<Rightarrow> 'a prog \<Rightarrow> 'a prog" where
  "raising error m = try_op m (\<lambda>_. Some (raise_op error))"

definition durable_execute ::
  "service \<Rightarrow> user_request \<Rightarrow> request_context \<Rightarrow> pystr \<Rightarrow> task_name option \<Rightarrow> application_result prog" where
  "durable_execute S request context operation forced_task =
     bind_op now_op (\<lambda>accepted_at.
     bind_op (lift_res (map_request (sv_sha S) (sv_float S) context operation (ur_text request)
                (task_override_value forced_task request) (ur_session_id request) accepted_at
                default_map_options)) (\<lambda>request_record.
     bind_op (raising RequestInitializationError
                (accept_request context operation request_record accepted_at)) (\<lambda>persisted.
     bind_op fresh_run_id (\<lambda>run_id.
     bind_op now_op (\<lambda>started_at.
     bind_op (try_op (sv_chat S request context forced_task)
       (\<lambda>e. Some (
          bind_op now_op (\<lambda>completed_at.
          bind_op (lift_res (require_failure_code (failure_code_of e))) (\<lambda>failure_code.
          bind_op (raising PersistenceFinalizationError
                     (durable_finalize_failed context persisted run_id failure_code started_at completed_at)) (\<lambda>_.
          raise_op DurableApplicationExecutionError)))))) (\<lambda>result.
     bind_op now_op (\<lambda>completed_at.
     bind_op (raising PersistenceFinalizationError
                (durable_finalize_result S result persisted run_id started_at completed_at)) (\<lambda>_.
     ret result))))))))"

end
