(* ===== verification/Idempotent_Service.thy ===== *)
theory Idempotent_Service
  imports Durable_Service
begin

text \<open>
  \<open>application/idempotent_durable_service.py\<close>: the durable service with a persistent claim per
  idempotency key. Transaction A claims the key and accepts the request, or replays, or refuses;
  transaction B checks that the claim is still owned and finalizes.
\<close>

record idempotent_result =
  re_outcome :: result_outcome
  re_request_id :: pystr
  re_application_result :: "application_result option"
  re_original_request_id :: "pystr option"
  re_claim_version :: "int option"
  re_safe_failure_code :: "string option"

definition result_of :: "result_outcome \<Rightarrow> pystr \<Rightarrow> idempotent_result" where
  "result_of outcome request_id =
     \<lparr>re_outcome = outcome, re_request_id = request_id, re_application_result = None,
      re_original_request_id = None, re_claim_version = None, re_safe_failure_code = None\<rparr>"

lemma result_of_sel [simp]:
  "re_outcome (result_of x r) = x" "re_request_id (result_of x r) = r"
  "re_application_result (result_of x r) = None"
  by (simp_all add: result_of_def)

text \<open>What \<open>_claim_and_accept\<close> returns: a claim with the accepted request, or an answer.\<close>

datatype accepted = Accepted claim_token request_ref | Answered idempotent_result

definition finalize_reclaimed_owner ::
  "request_context \<Rightarrow> claim_decision \<Rightarrow> datetime \<Rightarrow> unit prog" where
  "finalize_reclaimed_owner context decision event_time =
     (case (cd_reclaimed_request decision, cd_token decision) of
        (Some old_request, Some token) \<Rightarrow>
          bind_op fresh_run_id (\<lambda>run_id.
          bind_op (lift_res (run_lease_reclaimed old_request run_id event_time)) (\<lambda>run.
          bind_op (create_run run) (\<lambda>_.
          bind_op (lift_res (require_failure_code ''idempotency_lease_reclaimed'')) (\<lambda>failure_code.
          bind_op (finalize_request_failed old_request event_time failure_code) (\<lambda>_.
          bind_op fresh_event_id (\<lambda>event_id.
          bind_op (lift_res (audit_lease_reclaimed context old_request event_id run_id (ct_claim_version token) event_time)) (\<lambda>event.
          bind_op (create_audit_event event) (\<lambda>_. ret ()))))))))
      | _ \<Rightarrow> raise_op AssertionError)"

definition restore_replay ::
  "user_request \<Rightarrow> request_context \<Rightarrow> claim_decision \<Rightarrow> datetime \<Rightarrow> application_result res" where
  "restore_replay request context decision replayed_at =
     (case (cd_replay_snapshot decision, cd_replay_snapshot_version decision) of
        (Some snapshot, Some version) \<Rightarrow> restore_snapshot snapshot version context (ur_text request) replayed_at
      | _ \<Rightarrow> Inl RequestInitializationError)"

text \<open>The branch of \<open>_claim_and_accept\<close> for a claim that was acquired or reclaimed.\<close>

definition accept_claimed ::
  "request_context \<Rightarrow> pystr \<Rightarrow> new_agent_request \<Rightarrow> claim_decision \<Rightarrow> datetime \<Rightarrow> accepted prog" where
  "accept_claimed context operation request_record decision accepted_at =
     (case cd_token decision of
        None \<Rightarrow> raise_op AssertionError
      | Some token \<Rightarrow>
          bind_op (if cd_outcome decision = RECLAIMED
                   then finalize_reclaimed_owner context decision accepted_at else ret ()) (\<lambda>_.
          bind_op (create_request request_record) (\<lambda>request_ref.
          bind_op fresh_event_id (\<lambda>event_id.
          bind_op (lift_res (audit_request_accepted context event_id operation accepted_at
                     (Some (claim_outcome_value (cd_outcome decision))) (Some (ct_claim_version token))
                     (cd_outcome decision = RECLAIMED) (cd_expired_reuse decision))) (\<lambda>event.
          bind_op (create_audit_event event) (\<lambda>_.
          bind_op commit (\<lambda>_. ret (Accepted token request_ref))))))))"

text \<open>The branch for a replay. The record of the replaying request is made from
  \<open>request.task_override\<close> alone.\<close>

definition accept_replay ::
  "service \<Rightarrow> user_request \<Rightarrow> request_context \<Rightarrow> pystr \<Rightarrow> claim_request \<Rightarrow> claim_decision \<Rightarrow> datetime \<Rightarrow> accepted prog" where
  "accept_replay S request context operation claim_req decision accepted_at =
     bind_op (lift_res (restore_replay request context decision accepted_at)) (\<lambda>result.
     bind_op (lift_res (map_request (sv_sha S) (sv_float S) context operation (ur_text request)
                (map_option task_value (ur_task_override request)) (ur_session_id request) accepted_at
                \<lparr>mo_idempotency_key_hash = Some (is_key_hash (cr_scope claim_req)), mo_status = ''completed'',
                 mo_replayed_from = cd_original_request_record_id decision,
                 mo_completed_at = Some accepted_at\<rparr>)) (\<lambda>replay_record.
     bind_op (create_request replay_record) (\<lambda>_.
     bind_op fresh_event_id (\<lambda>event_id.
     bind_op (lift_res (audit_request_replayed context event_id operation accepted_at)) (\<lambda>event.
     bind_op (create_audit_event event) (\<lambda>_.
     bind_op commit (\<lambda>_.
     ret (Answered ((result_of ResREPLAYED (cx_request_id context))
            \<lparr>re_original_request_id := cd_original_request_id decision,
             re_application_result := Some result\<rparr>)))))))))"

text \<open>The answers that change nothing.\<close>

definition refusal :: "request_context \<Rightarrow> claim_decision \<Rightarrow> idempotent_result" where
  "refusal context decision =
     (if cd_outcome decision = IN_PROGRESS
      then (result_of ResIN_PROGRESS (cx_request_id context))
             \<lparr>re_claim_version := map_option ct_claim_version (cd_token decision)\<rparr>
      else if cd_outcome decision = CONFLICT then result_of ResCONFLICT (cx_request_id context)
      else (result_of ResPREVIOUS_FAILURE (cx_request_id context))
             \<lparr>re_safe_failure_code := cd_previous_failure_code decision\<rparr>)"

definition claim_and_accept ::
  "service \<Rightarrow> user_request \<Rightarrow> request_context \<Rightarrow> pystr \<Rightarrow> new_agent_request \<Rightarrow> claim_request \<Rightarrow> datetime \<Rightarrow> accepted prog" where
  "claim_and_accept S request context operation request_record claim_req accepted_at =
     with_uow (
       bind_op (claim claim_req) (\<lambda>decision.
       if cd_outcome decision \<in> {ACQUIRED, RECLAIMED}
       then accept_claimed context operation request_record decision accepted_at
       else if cd_outcome decision = REPLAY
       then accept_replay S request context operation claim_req decision accepted_at
       else bind_op rollback (\<lambda>_. ret (Answered (refusal context decision)))))"

definition finalize_result ::
  "service \<Rightarrow> application_result \<Rightarrow> request_ref \<Rightarrow> claim_token \<Rightarrow> pystr \<Rightarrow> datetime \<Rightarrow> datetime \<Rightarrow> unit prog" where
  "finalize_result S result request token run_id started_at completed_at =
     bind_op (lift_res (run_completed (sv_sha S) result request run_id started_at completed_at)) (\<lambda>run.
     bind_op fresh_event_id (\<lambda>event_id.
     bind_op (lift_res (audit_of_result result event_id run_id completed_at)) (\<lambda>audit.
     with_uow (
       bind_op (check_current_owner token) (\<lambda>_.
       bind_op (get_request_for_update (rf_request_id request)) (\<lambda>locked.
       bind_op (lift_res (map_snapshot (sv_ucd S) (sv_float S) (ip_max_replay_snapshot_bytes (sv_policy S)) result)) (\<lambda>replay_snapshot.
       bind_op (create_run run) (\<lambda>run_record_id.
       bind_op (finalize_request_completed locked completed_at) (\<lambda>_.
       bind_op (create_audit_event audit) (\<lambda>_.
       bind_op (complete_claim token run_record_id replay_snapshot 1 (ip_replay_ttl_seconds (sv_policy S))) (\<lambda>_.
       commit)))))))))))"

definition finalize_failed ::
  "service \<Rightarrow> request_context \<Rightarrow> request_ref \<Rightarrow> claim_token \<Rightarrow> pystr \<Rightarrow> string \<Rightarrow> datetime \<Rightarrow> datetime \<Rightarrow> unit prog" where
  "finalize_failed S context request token run_id failure_code started_at completed_at =
     bind_op (lift_res (run_failed context request run_id failure_code started_at completed_at)) (\<lambda>run.
     bind_op fresh_event_id (\<lambda>event_id.
     bind_op (lift_res (audit_request_failed context event_id run_id failure_code completed_at)) (\<lambda>audit.
     with_uow (
       bind_op (check_current_owner token) (\<lambda>_.
       bind_op (get_request_for_update (rf_request_id request)) (\<lambda>locked.
       bind_op (create_run run) (\<lambda>_.
       bind_op (finalize_request_failed locked completed_at failure_code) (\<lambda>_.
       bind_op (create_audit_event audit) (\<lambda>_.
       bind_op (fail_claim token (ip_failure_ttl_seconds (sv_policy S))) (\<lambda>_.
       commit))))))))))"

text \<open>\<open>except IdempotencyError: raise\<close>, \<open>except Exception: raise RequestInitializationError\<close>\<close>

definition accepting :: "'a prog \<Rightarrow> 'a prog" where
  "accepting m = try_op m (\<lambda>e. if is_idempotency_error e then None else Some (raise_op RequestInitializationError))"

definition execute ::
  "service \<Rightarrow> user_request \<Rightarrow> request_context \<Rightarrow> pystr \<Rightarrow> pystr \<Rightarrow> task_name option \<Rightarrow> idempotent_result prog" where
  "execute S request context operation idempotency_key forced_task =
     (if \<not> az_allowed (cx_authorization context) then raise_op RequestInitializationError
      else if idempotency_key = [] then raise_op RequestInitializationError
      else
     bind_op now_op (\<lambda>accepted_at.
     let scope = scope_from_values (sv_sha S) (pr_tenant_id (cx_principal context))
                   (pr_organization_id (cx_principal context)) (pr_user_id (cx_principal context))
                   operation idempotency_key
     in
     bind_op (lift_res (map_request (sv_sha S) (sv_float S) context operation (ur_text request)
                (task_override_value forced_task request) (ur_session_id request) accepted_at
                (default_map_options\<lparr>mo_idempotency_key_hash := Some (is_key_hash scope)\<rparr>))) (\<lambda>request_record.
     bind_op (accepting (claim_and_accept S request context operation request_record
                \<lparr>cr_scope = scope, cr_request_fingerprint = nr_request_fingerprint request_record,
                 cr_fingerprint_version = nr_fingerprint_version request_record,
                 cr_owner_request_id = cx_request_id context,
                 cr_lease_duration_seconds = ip_lease_duration_seconds (sv_policy S)\<rparr> accepted_at)) (\<lambda>accepted.
     case accepted of
       Answered answer \<Rightarrow> ret answer
     | Accepted token persisted \<Rightarrow>
     bind_op fresh_run_id (\<lambda>run_id.
     bind_op now_op (\<lambda>started_at.
     bind_op (try_op (sv_chat S request context forced_task)
       (\<lambda>e. Some (
          bind_op now_op (\<lambda>completed_at.
          bind_op (lift_res (require_failure_code (failure_code_of e))) (\<lambda>failure_code.
          bind_op (raising PersistenceFinalizationError
                     (finalize_failed S context persisted token run_id failure_code started_at completed_at)) (\<lambda>_.
          raise_op DurableApplicationExecutionError)))))) (\<lambda>result.
     bind_op now_op (\<lambda>completed_at.
     bind_op (raising PersistenceFinalizationError
                (finalize_result S result persisted token run_id started_at completed_at)) (\<lambda>_.
     ret ((result_of ResEXECUTED (cx_request_id context))
            \<lparr>re_application_result := Some result, re_claim_version := Some (ct_claim_version token)\<rparr>))))))))))"

end
