(* ===== verification/Execution_Gateway.thy ===== *)
theory Execution_Gateway
  imports Idempotent_Service
begin

text \<open>
  \<open>application/execution_gateway.py\<close>: the choice of the execution path from the persistence mode,
  the header mode and the idempotency key, and the mapping of the outcomes of the idempotent
  service to answers and errors. The two durable services are optional parts of the gateway.
\<close>

datatype persistence_mode = POSTGRES | NULL_MODE | FAKE

datatype idempotency_header_mode = HEADER_OPTIONAL | HEADER_REQUIRED

record gateway =
  gw_persistence_mode :: persistence_mode
  gw_header_mode :: idempotency_header_mode
  gw_chat :: "user_request \<Rightarrow> request_context \<Rightarrow> task_name option \<Rightarrow> application_result prog"
  gw_durable :: "service option"
  gw_idempotent :: "service option"

record gateway_execution_result =
  gr_application_result :: application_result
  gr_idempotency_status :: "string option"

text \<open>The part of \<open>execute\<close> after the call of the idempotent service.\<close>

definition gateway_answer :: "idempotent_result \<Rightarrow> gateway_execution_result res" where
  "gateway_answer outcome =
     (if re_outcome outcome = ResIN_PROGRESS then Inl (ExecutionGatewayError ''idempotency_request_in_progress'' 409)
      else if re_outcome outcome = ResCONFLICT then Inl (ExecutionGatewayError ''idempotency_key_conflict'' 409)
      else if re_outcome outcome = ResPREVIOUS_FAILURE then Inl (ExecutionGatewayError ''idempotency_previous_failure'' 409)
      else (case re_application_result outcome of
          None \<Rightarrow> Inl (ExecutionGatewayError ''invalid_idempotency_state'' 500)
        | Some result \<Rightarrow>
            Inr \<lparr>gr_application_result = result,
                 gr_idempotency_status =
                   Some (if re_outcome outcome = ResREPLAYED then ''replayed'' else ''executed'')\<rparr>))"

definition gateway_execute ::
  "gateway \<Rightarrow> user_request \<Rightarrow> request_context \<Rightarrow> pystr \<Rightarrow> pystr option \<Rightarrow> bool \<Rightarrow> task_name option
     \<Rightarrow> gateway_execution_result prog" where
  "gateway_execute G request context operation idempotency_key replay_compatible forced_task =
     (case idempotency_key of
        None \<Rightarrow>
          if gw_header_mode G = HEADER_REQUIRED then raise_op (ExecutionGatewayError ''missing_idempotency_key'' 400)
          else if gw_persistence_mode G = NULL_MODE then
            bind_op (gw_chat G request context forced_task) (\<lambda>result.
            ret \<lparr>gr_application_result = result, gr_idempotency_status = None\<rparr>)
          else (case gw_durable G of
              None \<Rightarrow> raise_op (ExecutionGatewayError ''persistence_unavailable'' 503)
            | Some S \<Rightarrow>
                bind_op (durable_execute S request context operation forced_task) (\<lambda>result.
                ret \<lparr>gr_application_result = result, gr_idempotency_status = None\<rparr>))
      | Some key \<Rightarrow>
          if \<not> replay_compatible then raise_op (ExecutionGatewayError ''idempotency_not_supported_for_raw_response'' 400)
          else if gw_persistence_mode G = NULL_MODE then raise_op (ExecutionGatewayError ''idempotency_unavailable'' 503)
          else (case gw_idempotent G of
              None \<Rightarrow> raise_op (ExecutionGatewayError ''persistence_unavailable'' 503)
            | Some S \<Rightarrow>
                bind_op (execute S request context operation key forced_task) (\<lambda>outcome.
                lift_res (gateway_answer outcome))))"

section \<open>What an answer of the gateway means\<close>

lemma gateway_answer_Inr:
  "gateway_answer outcome = Inr r \<longleftrightarrow>
     re_outcome outcome \<in> {ResEXECUTED, ResREPLAYED}
     \<and> re_application_result outcome = Some (gr_application_result r)
     \<and> gr_idempotency_status r = Some (if re_outcome outcome = ResREPLAYED then ''replayed'' else ''executed'')"
  by (cases "re_outcome outcome"; cases "re_application_result outcome"; cases r)
     (auto simp: gateway_answer_def)

lemma gateway_answer_Inl:
  "gateway_answer outcome = Inl e \<Longrightarrow>
     e = ExecutionGatewayError ''idempotency_request_in_progress'' 409 \<and> re_outcome outcome = ResIN_PROGRESS
     \<or> e = ExecutionGatewayError ''idempotency_key_conflict'' 409 \<and> re_outcome outcome = ResCONFLICT
     \<or> e = ExecutionGatewayError ''idempotency_previous_failure'' 409 \<and> re_outcome outcome = ResPREVIOUS_FAILURE
     \<or> e = ExecutionGatewayError ''invalid_idempotency_state'' 500 \<and> re_application_result outcome = None"
  by (cases "re_outcome outcome"; cases "re_application_result outcome") (auto simp: gateway_answer_def)

end
