(* ===== verification/Access_Control.thy ===== *)
theory Access_Control
  imports Runtime_Models
begin

text \<open>
  \<open>authorization/service.py\<close>: the permissions of the roles and the decision for a route. The
  decision and its scope are pydantic models, so making one may raise; \<open>authorize_total\<close> shows that
  it does not for a validated principal.
\<close>

definition ROLE_PERMISSIONS :: "(pystr, pystr list) dict" where
  "ROLE_PERMISSIONS =
     [(u ''agent_user'', map u [''chat:invoke'', ''qa:invoke'', ''rag:read'', ''crm:read'']),
      (u ''knowledge_user'', map u [''qa:invoke'', ''rag:read'']),
      (u ''sales_user'', map u [''chat:invoke'', ''rag:read'', ''crm:read'']),
      (u ''debug_viewer'', map u [''raw_response:view''])]"

definition AUTHORIZATION_POLICY_VERSION :: pystr where
  "AUTHORIZATION_POLICY_VERSION = u ''rbac_abac_v1''"

definition role_permissions :: "pystr \<Rightarrow> pystr list" where
  "role_permissions role = (case dict_get ROLE_PERMISSIONS role of None \<Rightarrow> [] | Some ps \<Rightarrow> ps)"

definition effective_permissions :: "principal \<Rightarrow> pystr list" where
  "effective_permissions p = sort (remdups (concat (map role_permissions (pr_roles p))))"

definition denial :: "ucd \<Rightarrow> string \<Rightarrow> string \<Rightarrow> pystr list \<Rightarrow> resource_scope \<Rightarrow> authorization_decision res" where
  "denial T code reason permissions scope =
     validate_authorization T
       \<lparr>az_allowed = False, az_code = u code, az_reason = u reason, az_permissions = permissions,
        az_resource_scopes = [scope]\<rparr>"

definition authorize :: "ucd \<Rightarrow> principal \<Rightarrow> pystr list \<Rightarrow> authorization_decision res" where
  "authorize T p required_permissions =
     (let permissions = effective_permissions p
      in bind_res (validate_resource_scope T
           \<lparr>sc_tenant_id = pr_tenant_id p, sc_organization_id = pr_organization_id p,
            sc_resource_type = u ''organization'', sc_scope_type = ScopeOrganization, sc_resource_ids = []\<rparr>) (\<lambda>scope.
         if \<not> pr_enabled p
         then denial T ''denied_disabled_principal'' ''The authenticated principal is disabled.'' permissions scope
         else if \<not> list_all (\<lambda>q. q \<in> set permissions) required_permissions
         then denial T ''denied_missing_permission''
                ''The principal lacks permissions required by this route.'' permissions scope
         else validate_authorization T
           \<lparr>az_allowed = True, az_code = u ''allowed'', az_reason = [], az_permissions = permissions,
            az_resource_scopes = [scope]\<rparr>))"

section \<open>Lemmas\<close>

definition principal_ok :: "ucd \<Rightarrow> principal \<Rightarrow> bool" where
  "principal_ok T p \<longleftrightarrow> validate_principal T p = Inr p"

lemma validate_principal_Inr:
  "validate_principal T p = Inr q \<Longrightarrow>
     str_field T 1 (Some 128) (pr_tenant_id p) = Inr (pr_tenant_id q)
     \<and> str_field T 1 (Some 128) (pr_organization_id p) = Inr (pr_organization_id q)
     \<and> str_field T 1 (Some 128) (pr_user_id p) = Inr (pr_user_id q)
     \<and> stable_values T (pr_roles p) = Inr (pr_roles q) \<and> pr_enabled q = pr_enabled p"
  by (auto simp: validate_principal_def bind_res_Inr_iff)

lemma principal_ok_fields:
  "principal_ok T p \<Longrightarrow> str_field T 1 (Some 128) (pr_tenant_id p) = Inr (pr_tenant_id p)
     \<and> str_field T 1 (Some 128) (pr_organization_id p) = Inr (pr_organization_id p)
     \<and> str_field T 1 (Some 128) (pr_user_id p) = Inr (pr_user_id p)"
  unfolding principal_ok_def by (drule validate_principal_Inr) blast

text \<open>A validated principal is validated again as it is.\<close>

lemma validate_principal_idem: "validate_principal T p = Inr q \<Longrightarrow> principal_ok T q"
  unfolding principal_ok_def validate_principal_def
  by (clarsimp simp: bind_res_Inr_iff)
    (intro exI conjI refl str_field_idem opt_field_idem stable_values_idem; assumption?)+

text \<open>The policy texts are free of blanks at the ends, for any table that does not call an ASCII
  letter or a full stop a blank.\<close>

definition plain_text :: "ucd \<Rightarrow> bool" where
  "plain_text T \<longleftrightarrow> (\<forall>c. (c = 46 \<or> 65 \<le> c \<and> c \<le> 90 \<or> 97 \<le> c \<and> c \<le> 122) \<longrightarrow> \<not> u_space T c)"

lemma py_strip_same:
  assumes "s \<noteq> []" "\<not> u_space T (hd s)" "\<not> u_space T (last s)"
  shows "py_strip T s = s"
proof -
  have "dropWhile (u_space T) s = s" using assms(1,2) by (cases s) auto
  moreover have "dropWhile (u_space T) (rev s) = rev s"
    using assms(1,3) by (cases s rule: rev_cases) auto
  ultimately show ?thesis by (simp add: py_strip_def py_rstrip_def)
qed

lemma permission_strip:
  assumes "plain_text T" "q \<in> set (role_permissions role)"
  shows "py_strip T q = q \<and> q \<noteq> []"
proof -
  have "q \<in> set (map u [''chat:invoke'', ''qa:invoke'', ''rag:read'', ''crm:read'', ''raw_response:view''])"
    using assms(2) by (auto simp: role_permissions_def ROLE_PERMISSIONS_def split: if_splits)
  moreover have "\<not> u_space T 99" "\<not> u_space T 113" "\<not> u_space T 114" "\<not> u_space T 101" "\<not> u_space T 100" "\<not> u_space T 119"
    using assms(1) by (simp_all add: plain_text_def)
  ultimately show ?thesis by (auto intro!: py_strip_same)
qed

lemma effective_permissions_set: "set (effective_permissions p) = (\<Union>role \<in> set (pr_roles p). set (role_permissions role))"
  by (simp add: effective_permissions_def)

lemma effective_permissions_stable:
  assumes "plain_text T"
  shows "stable_values T (effective_permissions p) = Inr (effective_permissions p)"
proof -
  have s: "py_strip T q = q \<and> q \<noteq> []" if "q \<in> set (effective_permissions p)" for q
    using that permission_strip[OF assms] by (auto simp: effective_permissions_set)
  have "map (py_strip T) (effective_permissions p) = effective_permissions p" using s by (simp add: map_idI)
  moreover have "sorted (effective_permissions p)" "distinct (effective_permissions p)"
    by (simp_all add: effective_permissions_def)
  moreover have "[] \<notin> set (effective_permissions p)" using s by blast
  ultimately show ?thesis
    by (simp add: stable_values_def Let_def distinct_remdups_id sorted_sort_id)
qed

text \<open>The decision, for a validated principal.\<close>

lemma authorize_eq:
  assumes T: "plain_text T" and p: "principal_ok T p"
  shows "authorize T p required = Inr
     \<lparr>az_allowed = (pr_enabled p \<and> set required \<subseteq> set (effective_permissions p)),
      az_code = (if \<not> pr_enabled p then u ''denied_disabled_principal''
                 else if set required \<subseteq> set (effective_permissions p) then u ''allowed''
                 else u ''denied_missing_permission''),
      az_reason = (if \<not> pr_enabled p then u ''The authenticated principal is disabled.''
                 else if set required \<subseteq> set (effective_permissions p) then []
                 else u ''The principal lacks permissions required by this route.''),
      az_permissions = effective_permissions p,
      az_resource_scopes = [\<lparr>sc_tenant_id = pr_tenant_id p, sc_organization_id = pr_organization_id p,
        sc_resource_type = u ''organization'', sc_scope_type = ScopeOrganization, sc_resource_ids = []\<rparr>]\<rparr>"
proof -
  have sp: "\<not> u_space T c" if "c = 46 \<or> 65 \<le> c \<and> c \<le> 90 \<or> 97 \<le> c \<and> c \<le> 122" for c
    using T that unfolding plain_text_def by blast
  have str: "str_field T lo hi (u s) = Inr (u s)"
    if "s \<noteq> []" "\<not> u_space T (hd (u s))" "\<not> u_space T (last (u s))" "lo \<le> length s"
      "\<forall>n. hi = Some n \<longrightarrow> length s \<le> n" for lo hi s
    using that py_strip_same[of "u s" T] by (simp add: str_field_Inr u_def)
  have texts: "str_field T 1 (Some 128) (u ''organization'') = Inr (u ''organization'')"
    "str_field T 1 (Some 128) (u ''allowed'') = Inr (u ''allowed'')"
    "str_field T 1 (Some 128) (u ''denied_disabled_principal'') = Inr (u ''denied_disabled_principal'')"
    "str_field T 1 (Some 128) (u ''denied_missing_permission'') = Inr (u ''denied_missing_permission'')"
    "str_field T 0 None (u ''The authenticated principal is disabled.'') = Inr (u ''The authenticated principal is disabled.'')"
    "str_field T 0 None (u ''The principal lacks permissions required by this route.'')
       = Inr (u ''The principal lacks permissions required by this route.'')"
    by (rule str; simp add: sp)+
  have empty: "str_field T 0 None [] = Inr []" by (simp add: str_field_def py_strip_def py_rstrip_def)
  have nil: "stable_values T [] = Inr []" by (simp add: stable_values_def)
  note f = principal_ok_fields[OF p] and e = effective_permissions_stable[OF T]
  have all: "list_all (\<lambda>q. q \<in> set (effective_permissions p)) required \<longleftrightarrow> set required \<subseteq> set (effective_permissions p)"
    by (auto simp: list_all_iff)
  show ?thesis
    unfolding authorize_def Let_def validate_resource_scope_def denial_def validate_authorization_def
      decision_invariants_def
    by (simp add: f e texts empty all nil del: u_Cons One_nat_def)
qed

text \<open>
  C24: the authorization service decides exactly. For a validated principal it answers without an
  error; it allows a route if and only if the principal is enabled and every required permission
  belongs to one of its roles; the permissions it answers are those of the roles, and it answers exactly one
  scope, the organization of the principal in its tenant.
\<close>

theorem authorize_exact:
  assumes "plain_text T" "principal_ok T p"
  shows "\<exists>d. authorize T p required = Inr d
    \<and> (az_allowed d \<longleftrightarrow> pr_enabled p \<and> (\<forall>q \<in> set required. \<exists>role \<in> set (pr_roles p). q \<in> set (role_permissions role)))
    \<and> decision_invariants d
    \<and> az_permissions d = effective_permissions p
    \<and> (\<exists>sc. az_resource_scopes d = [sc] \<and> scope_matches_principal p sc \<and> sc_scope_type sc = ScopeOrganization
         \<and> sc_tenant_id sc = pr_tenant_id p \<and> sc_organization_id sc = pr_organization_id p \<and> sc_resource_ids sc = [])"
  unfolding authorize_eq[OF assms]
  by (auto simp: effective_permissions_set decision_invariants_def scope_matches_principal_def simp del: u_Cons)

lemma basic_ucd_plain: "plain_text basic_ucd"
  by (auto simp: plain_text_def basic_ucd_def)

lemma development_principal_ok: "principal_ok basic_ucd (fst development_security_context)"
  by (simp add: principal_ok_def validate_principal_def development_security_context_def str_field_def
      opt_field_def stable_values_def py_strip_def py_rstrip_def basic_ucd_def)

theorem authorize_exact_witness:
  "\<exists>d. authorize basic_ucd (fst development_security_context) [u ''chat:invoke''] = Inr d \<and> az_allowed d"
  using authorize_exact[OF basic_ucd_plain development_principal_ok, of "[u ''chat:invoke'']"]
  by (auto simp: development_security_context_def role_permissions_def ROLE_PERMISSIONS_def simp del: u_Cons)

end
