(* ===== verification/Authentication.thy ===== *)
theory Authentication
  imports Access_Control
begin

text \<open>
  \<open>identity/authentication.py\<close>: the bearer header, the checks on the header and the claims of a
  token, and the mapping of verified claims to a principal. \<open>jwt\<close> is the record of the two library
  functions that the verifier calls, and the key provider is a program over some state.
\<close>

section \<open>Bytes\<close>

type_synonym bytes = "nat list"

definition byte_lower :: "nat \<Rightarrow> nat" where
  "byte_lower b = (if 65 \<le> b \<and> b \<le> 90 then b + 32 else b)"

text \<open>\<open>raw.split(b" ", 1)\<close> and the part before the first blank.\<close>

definition split_space :: "bytes \<Rightarrow> (bytes \<times> bytes) option" where
  "split_space raw =
     (case dropWhile (\<lambda>b. b \<noteq> 32) raw of [] \<Rightarrow> None
      | s # rest \<Rightarrow> Some (takeWhile (\<lambda>b. b \<noteq> 32) raw, rest))"

definition ascii :: "bytes \<Rightarrow> bool" where
  "ascii s \<longleftrightarrow> list_all (\<lambda>b. b < 128) s"

section \<open>The bearer header\<close>

definition invalid_request :: exn where
  "invalid_request = AuthenticationFailure ''invalid_request'' 400 (Some ''Bearer error=\"invalid_request\"'')"

definition invalid_token :: exn where
  "invalid_token = AuthenticationFailure ''invalid_access_token'' 401 (Some ''Bearer error=\"invalid_token\"'')"

definition header_values :: "pystr \<Rightarrow> (bytes \<times> bytes) list \<Rightarrow> bytes list" where
  "header_values name headers = map snd (filter (\<lambda>(n, v). map byte_lower n = name) headers)"

definition parse_bearer :: "nat \<Rightarrow> (bytes \<times> bytes) list \<Rightarrow> pystr option res" where
  "parse_bearer max_token_bytes headers =
     (let values = header_values (u ''authorization'') headers
      in if values = [] then Inr None
         else if length values \<noteq> 1 then Inl invalid_request
         else let raw = hd values
         in if max_token_bytes + length ''Bearer '' < length raw then Inl invalid_request
         else (case split_space raw of
             None \<Rightarrow> Inl invalid_request
           | Some (scheme, token) \<Rightarrow>
               if \<not> ascii token then Inl invalid_request
               else if map byte_lower scheme \<noteq> u ''bearer'' \<or> token = [] \<or> 32 \<in> set token then Inl invalid_request
               else if max_token_bytes < length token then Inl invalid_request
               else Inr (Some token)))"

section \<open>The verifier\<close>

record oidc_config =
  oc_issuer :: pystr
  oc_audience :: pystr
  oc_tenant_id :: pystr
  oc_expected_organization_id :: pystr
  oc_clock_skew_seconds :: int
  oc_max_token_lifetime_seconds :: int
  oc_max_token_bytes :: nat
  oc_min_rsa_key_size_bits :: nat
  oc_max_kid_bytes :: nat
  oc_jwks_cache_ttl_seconds :: rat
  oc_negative_kid_ttl_seconds :: rat
  oc_jwks_max_response_bytes :: nat
  oc_jwks_max_keys :: nat
  oc_required_token_use_claim :: "pystr option"
  oc_required_token_use_value :: "pystr option"
  oc_required_typ_header :: "pystr option"

record verified_claims =
  vc_subject :: pystr
  vc_issuer :: pystr
  vc_audiences :: "pystr list"
  vc_organization_id :: pystr
  vc_department_id :: "pystr option"
  vc_display_name :: "pystr option"
  vc_email :: "pystr option"
  vc_roles :: "pystr list"
  vc_groups :: "pystr list"
  vc_enabled :: bool
  vc_issued_at :: int
  vc_expires_at :: int
  vc_not_before :: "int option"

text \<open>\<open>d.get(name)\<close>; a missing member reads as \<open>None\<close>.\<close>

definition member_or :: "pyval \<Rightarrow> (pystr \<times> pyval) list \<Rightarrow> string \<Rightarrow> pyval" where
  "member_or missing d name = (case map_of d (u name) of None \<Rightarrow> missing | Some v \<Rightarrow> v)"

abbreviation member :: "(pystr \<times> pyval) list \<Rightarrow> string \<Rightarrow> pyval" where
  "member \<equiv> member_or PNone"

definition validate_header :: "oidc_config \<Rightarrow> pyval \<Rightarrow> pystr res" where
  "validate_header cfg header =
     (case header of
        PDict d \<Rightarrow>
          if member d ''alg'' \<noteq> PStr (u ''RS256'') then Inl invalid_token
          else if list_ex (\<lambda>name. map_of d (u name) \<noteq> None) [''jku'', ''x5u'', ''jwk'', ''x5c'', ''crit'']
          then Inl invalid_token
          else (case member d ''kid'' of
              PStr kid \<Rightarrow>
                if kid = [] \<or> \<not> ascii kid then Inl invalid_token
                else if oc_max_kid_bytes cfg < length kid \<or> list_ex (\<lambda>b. b < 32 \<or> 126 < b) kid
                then Inl invalid_token
                else (case oc_required_typ_header cfg of
                    None \<Rightarrow> Inr kid
                  | Some typ \<Rightarrow> if member d ''typ'' \<noteq> PStr typ then Inl invalid_token else Inr kid)
            | _ \<Rightarrow> Inl invalid_token)
      | _ \<Rightarrow> Inl invalid_token)"

definition require_numeric_date :: "pyval \<Rightarrow> int res" where
  "require_numeric_date v = (case v of PInt n \<Rightarrow> Inr n | _ \<Rightarrow> Inl invalid_token)"

definition strict_string :: "ucd \<Rightarrow> nat option \<Rightarrow> pyval \<Rightarrow> pystr res" where
  "strict_string T max_length v =
     (case v of
        PStr s \<Rightarrow>
          (let t = py_strip T s
           in if t = [] then Inl invalid_token
              else if (case max_length of None \<Rightarrow> False | Some n \<Rightarrow> n < length t) then Inl invalid_token
              else Inr t)
      | _ \<Rightarrow> Inl invalid_token)"

definition optional_string :: "ucd \<Rightarrow> nat \<Rightarrow> pyval \<Rightarrow> pystr option res" where
  "optional_string T max_length v =
     (if v = PNone then Inr None else bind_res (strict_string T (Some max_length) v) (\<lambda>s. Inr (Some s)))"

definition the_str :: "pyval \<Rightarrow> pystr option" where
  "the_str v = (case v of PStr s \<Rightarrow> Some s | _ \<Rightarrow> None)"

definition string_array :: "ucd \<Rightarrow> pyval \<Rightarrow> pystr list res" where
  "string_array T v =
     (case v of
        PList items \<Rightarrow>
          if list_ex (\<lambda>i. the_str i = None) items then Inl invalid_token
          else (let values = remdups (map (\<lambda>i. py_strip T (the (the_str i))) items)
                in if [] \<in> set values then Inl invalid_token else Inr (sort values))
      | _ \<Rightarrow> Inl invalid_token)"

definition audiences_of :: "pyval \<Rightarrow> pystr list res" where
  "audiences_of v =
     (case v of
        PStr s \<Rightarrow> if s = [] then Inl invalid_token else Inr [s]
      | PList items \<Rightarrow>
          if items = [] \<or> list_ex (\<lambda>i. the_str i \<in> {None, Some []}) items then Inl invalid_token
          else if \<not> distinct items then Inl invalid_token
          else Inr (map (\<lambda>i. the (the_str i)) items)
      | _ \<Rightarrow> Inl invalid_token)"

text \<open>\<open>int(x)\<close> of a finite float: towards zero.\<close>

definition int_of_float :: "rat \<Rightarrow> int" where
  "int_of_float x = (if 0 \<le> x then \<lfloor>x\<rfloor> else - \<lfloor>- x\<rfloor>)"

text \<open>The length bounds that the constructor of \<open>VerifiedClaims\<close> adds.\<close>

definition check_claims :: "verified_claims \<Rightarrow> verified_claims res" where
  "check_claims c =
     (if 1 \<le> length (vc_subject c) \<and> length (vc_subject c) \<le> 255 \<and> 1 \<le> length (vc_issuer c)
         \<and> 1 \<le> length (vc_organization_id c) \<and> length (vc_organization_id c) \<le> 128
         \<and> (\<forall>x \<in> set_option (vc_department_id c). length x \<le> 128)
         \<and> (\<forall>x \<in> set_option (vc_display_name c). length x \<le> 255)
         \<and> (\<forall>x \<in> set_option (vc_email c). length x \<le> 320)
      then Inr c else Inl ValidationError)"

definition validate_claims :: "ucd \<Rightarrow> oidc_config \<Rightarrow> rat \<Rightarrow> pyval \<Rightarrow> verified_claims res" where
  "validate_claims T cfg clock payload =
     (case payload of
        PDict d \<Rightarrow>
     bind_res (strict_string T None (member d ''iss'')) (\<lambda>issuer.
     bind_res (strict_string T (Some 255) (member d ''sub'')) (\<lambda>subject.
     bind_res (strict_string T None (member d ''organization_id'')) (\<lambda>organization.
     if organization \<noteq> oc_expected_organization_id cfg then Inl invalid_token else
     bind_res (audiences_of (member d ''aud'')) (\<lambda>audiences.
     if oc_audience cfg \<notin> set audiences then Inl invalid_token else
     bind_res (require_numeric_date (member d ''iat'')) (\<lambda>issued_at.
     bind_res (require_numeric_date (member d ''exp'')) (\<lambda>expires_at.
     bind_res (case map_of d (u ''nbf'') of None \<Rightarrow> Inr None
               | Some v \<Rightarrow> bind_res (require_numeric_date v) (\<lambda>n. Inr (Some n))) (\<lambda>not_before.
     let now = int_of_float clock; skew = oc_clock_skew_seconds cfg in
     if expires_at \<le> issued_at \<or> oc_max_token_lifetime_seconds cfg < expires_at - issued_at
     then Inl invalid_token
     else if now + skew < issued_at \<or> (case not_before of None \<Rightarrow> False | Some n \<Rightarrow> now + skew < n)
     then Inl invalid_token
     else
     bind_res (case (oc_required_token_use_claim cfg, oc_required_token_use_value cfg) of
         (Some (c # cs), Some (w # ws)) \<Rightarrow>
           bind_res (strict_string T None (case map_of d (c # cs) of None \<Rightarrow> PNone | Some v \<Rightarrow> v)) (\<lambda>use.
           if use \<noteq> w # ws then Inl invalid_token else Inr ())
       | _ \<Rightarrow> Inr ()) (\<lambda>_.
     bind_res (string_array T (member_or (PList []) d ''roles'')) (\<lambda>roles.
     bind_res (string_array T (member_or (PList []) d ''groups'')) (\<lambda>groups.
     bind_res (case member_or (PBool True) d ''enabled'' of PBool b \<Rightarrow> Inr b | _ \<Rightarrow> Inl invalid_token) (\<lambda>enabled.
     bind_res (optional_string T 128 (member d ''department_id'')) (\<lambda>department.
     bind_res (optional_string T 255 (member d ''display_name'')) (\<lambda>display.
     bind_res (optional_string T 320 (member d ''email'')) (\<lambda>email.
     check_claims
       \<lparr>vc_subject = subject, vc_issuer = issuer, vc_audiences = audiences,
        vc_organization_id = organization, vc_department_id = department, vc_display_name = display,
        vc_email = email, vc_roles = roles, vc_groups = groups, vc_enabled = enabled,
        vc_issued_at = issued_at, vc_expires_at = expires_at, vc_not_before = not_before\<rparr>))))))))))))))
      | _ \<Rightarrow> Inl invalid_token)"

section \<open>Verification\<close>

text \<open>
  \<open>jl_header\<close> is \<open>jwt.get_unverified_header\<close>, \<open>jl_decode\<close> is \<open>jwt.decode\<close> with the algorithm,
  issuer, audience, leeway and options that the code passes.
\<close>

record 'k jwt_library =
  jl_header :: "pystr \<Rightarrow> pyval res"
  jl_decode :: "pystr \<Rightarrow> 'k \<Rightarrow> oidc_config \<Rightarrow> pyval res"

fun is_authentication_failure :: "exn \<Rightarrow> bool" where
  "is_authentication_failure (AuthenticationFailure code status challenge) = True"
| "is_authentication_failure e = False"

text \<open>\<open>except AuthenticationFailure: raise\<close>, \<open>except Exception: self._invalid_token()\<close>\<close>

definition guarded :: "'a res \<Rightarrow> 'a res" where
  "guarded r = (case r of Inl e \<Rightarrow> Inl (if is_authentication_failure e then e else invalid_token) | Inr x \<Rightarrow> Inr x)"

definition service_unavailable :: exn where
  "service_unavailable = AuthenticationFailure ''authentication_service_unavailable'' 503 None"

definition verify ::
  "ucd \<Rightarrow> oidc_config \<Rightarrow> 'k jwt_library \<Rightarrow> (pystr \<Rightarrow> ('s, 'k) op) \<Rightarrow> rat \<Rightarrow> pystr \<Rightarrow> ('s, verified_claims) op" where
  "verify T cfg jwt get_signing_key clock token =
     (if length (filter (\<lambda>c. c = 46) token) \<noteq> 2 then raise_op invalid_token
      else bind_op (lift_res (guarded (bind_res (jl_header jwt token) (validate_header cfg)))) (\<lambda>kid.
           bind_op (try_op (get_signing_key kid) (\<lambda>e.
               if e = UnknownSigningKey then Some (raise_op invalid_token)
               else (case e of JwksUnavailable m \<Rightarrow> Some (raise_op service_unavailable) | _ \<Rightarrow> None))) (\<lambda>key.
           lift_res (guarded (bind_res (jl_decode jwt token key cfg) (validate_claims T cfg clock))))))"

definition map_claims :: "ucd \<Rightarrow> oidc_config \<Rightarrow> verified_claims \<Rightarrow> principal res" where
  "map_claims T cfg claims =
     validate_principal T
       \<lparr>pr_tenant_id = oc_tenant_id cfg, pr_organization_id = oc_expected_organization_id cfg,
        pr_user_id = vc_subject claims, pr_display_name = vc_display_name claims,
        pr_email = vc_email claims, pr_department_id = vc_department_id claims,
        pr_team_id = None, pr_region_id = None, pr_roles = vc_roles claims,
        pr_groups = vc_groups claims, pr_enabled = vc_enabled claims\<rparr>"

section \<open>Lemmas\<close>

lemma split_space_Some:
  "split_space raw = Some (a, b) \<longleftrightarrow> raw = a @ [32] @ b \<and> 32 \<notin> set a"
proof
  assume s: "split_space raw = Some (a, b)"
  then have d: "dropWhile (\<lambda>b. b \<noteq> 32) raw = 32 # b" "a = takeWhile (\<lambda>b. b \<noteq> 32) raw"
    by (auto simp: split_space_def dropWhile_eq_Cons_conv split: list.splits)
  have "raw = takeWhile (\<lambda>b. b \<noteq> 32) raw @ dropWhile (\<lambda>b. b \<noteq> 32) raw" by simp
  then have "raw = a @ [32] @ b" using d by simp
  moreover have "32 \<notin> set a" using d(2) by (auto dest: set_takeWhileD)
  ultimately show "raw = a @ [32] @ b \<and> 32 \<notin> set a" by blast
next
  assume r: "raw = a @ [32] @ b \<and> 32 \<notin> set a"
  then have "\<forall>x \<in> set a. x \<noteq> 32" by auto
  then show "split_space raw = Some (a, b)"
    using r by (simp add: split_space_def takeWhile_append2 dropWhile_append2)
qed

text \<open>What a bearer header is.\<close>

definition bearer_header :: "nat \<Rightarrow> bytes \<Rightarrow> pystr \<Rightarrow> bool" where
  "bearer_header max_token_bytes raw token \<longleftrightarrow>
     (\<exists>scheme. map byte_lower scheme = u ''bearer'' \<and> raw = scheme @ [32] @ token
        \<and> token \<noteq> [] \<and> ascii token \<and> 32 \<notin> set token \<and> length token \<le> max_token_bytes)"

lemma bearer_scheme: "map byte_lower scheme = u ''bearer'' \<Longrightarrow> length scheme = 6 \<and> 32 \<notin> set scheme"
proof
  assume s: "map byte_lower scheme = u ''bearer''"
  show "length scheme = 6" using arg_cong[OF s, of length] by simp
  have "32 \<notin> set (map byte_lower scheme)" unfolding s by simp
  then show "32 \<notin> set scheme" by (force simp: byte_lower_def)
qed

text \<open>
  The bearer parser accepts exactly the well-formed credentials. It returns a token only for
  a single Authorization header that is the word Bearer, one blank and a non-empty ASCII token
  without blanks within the size limit; it returns nothing only when there is no such header, and
  every other request is refused with status 400.
\<close>

theorem parse_bearer_exact:
  "(parse_bearer max_token_bytes headers = Inr (Some token) \<longleftrightarrow>
      (\<exists>raw. header_values (u ''authorization'') headers = [raw] \<and> bearer_header max_token_bytes raw token))
   \<and> (parse_bearer max_token_bytes headers = Inr None \<longleftrightarrow> header_values (u ''authorization'') headers = [])
   \<and> parse_bearer max_token_bytes headers \<in> {Inl invalid_request, Inr None} \<union> range (\<lambda>t. Inr (Some t))"
proof (cases "header_values (u ''authorization'') headers")
  case Nil
  then show ?thesis by (simp add: parse_bearer_def)
next
  case (Cons raw rest)
  show ?thesis
  proof (cases rest)
    case (Cons a b)
    then show ?thesis using \<open>header_values _ _ = raw # rest\<close> by (simp add: parse_bearer_def)
  next
    case Nil
    with Cons have one: "header_values (u ''authorization'') headers = [raw]" by simp
    have p: "parse_bearer max_token_bytes headers =
      (if max_token_bytes + 7 < length raw then Inl invalid_request
       else (case split_space raw of None \<Rightarrow> Inl invalid_request
         | Some (scheme, token) \<Rightarrow>
             if ascii token \<and> map byte_lower scheme = u ''bearer'' \<and> token \<noteq> [] \<and> 32 \<notin> set token
                \<and> length token \<le> max_token_bytes
             then Inr (Some token) else Inl invalid_request))"
      unfolding parse_bearer_def Let_def one by (auto split: option.splits)
    have fwd: "bearer_header max_token_bytes raw token"
      if tok: "parse_bearer max_token_bytes headers = Inr (Some token)" for token
    proof -
      from tok obtain scheme where "split_space raw = Some (scheme, token)" "ascii token"
        "map byte_lower scheme = u ''bearer''" "token \<noteq> []" "32 \<notin> set token" "length token \<le> max_token_bytes"
        unfolding p by (auto split: if_splits option.splits)
      then show ?thesis unfolding bearer_header_def split_space_Some by blast
    qed
    have bwd: "parse_bearer max_token_bytes headers = Inr (Some token)"
      if hdr: "bearer_header max_token_bytes raw token" for token
    proof -
      from hdr obtain scheme where h: "map byte_lower scheme = u ''bearer''" "raw = scheme @ [32] @ token"
        "token \<noteq> []" "ascii token" "32 \<notin> set token" "length token \<le> max_token_bytes"
        unfolding bearer_header_def by blast
      note sch = bearer_scheme[OF h(1)]
      have "split_space raw = Some (scheme, token)" using h(2) sch by (simp add: split_space_Some)
      then show ?thesis using h sch unfolding p by simp
    qed
    have "parse_bearer max_token_bytes headers \<noteq> Inr None"
      "parse_bearer max_token_bytes headers \<in> {Inl invalid_request, Inr None} \<union> range (\<lambda>t. Inr (Some t))"
      unfolding p by (auto split: option.splits)
    moreover have "(\<exists>r. header_values (u ''authorization'') headers = [r] \<and> bearer_header max_token_bytes r token)
        \<longleftrightarrow> bearer_header max_token_bytes raw token" unfolding one by blast
    moreover have "header_values (u ''authorization'') headers \<noteq> []" unfolding one by simp
    ultimately show ?thesis using fwd[of token] bwd[of token] by blast
  qed
qed

lemma validate_header_Inr:
  "validate_header cfg h = Inr kid \<Longrightarrow>
     kid \<noteq> [] \<and> length kid \<le> oc_max_kid_bytes cfg \<and> (\<forall>b \<in> set kid. 32 \<le> b \<and> b \<le> 126)
     \<and> (\<exists>d. h = PDict d \<and> member d ''alg'' = PStr (u ''RS256'') \<and> member d ''kid'' = PStr kid
          \<and> (\<forall>name \<in> {''jku'', ''x5u'', ''jwk'', ''x5c'', ''crit''}. map_of d (u name) = None)
          \<and> (\<forall>typ. oc_required_typ_header cfg = Some typ \<longrightarrow> member d ''typ'' = PStr typ))"
  by (auto simp: validate_header_def list_ex_iff split: pyval.splits if_splits option.splits)

lemma validate_claims_Inr:
  assumes "validate_claims T cfg clock payload = Inr c"
  shows "vc_organization_id c = oc_expected_organization_id cfg \<and> oc_audience cfg \<in> set (vc_audiences c)
    \<and> vc_issued_at c < vc_expires_at c
    \<and> vc_expires_at c - vc_issued_at c \<le> oc_max_token_lifetime_seconds cfg
    \<and> vc_issued_at c \<le> int_of_float clock + oc_clock_skew_seconds cfg
    \<and> (\<forall>n. vc_not_before c = Some n \<longrightarrow> n \<le> int_of_float clock + oc_clock_skew_seconds cfg)
    \<and> vc_subject c \<noteq> [] \<and> length (vc_subject c) \<le> 255
    \<and> (\<exists>d. payload = PDict d \<and> member d ''exp'' = PInt (vc_expires_at c) \<and> member d ''iat'' = PInt (vc_issued_at c))"
proof -
  from assms obtain d where d: "payload = PDict d" by (cases payload) (simp_all add: validate_claims_def)
  have guard: "(if b then Inl e else m) = Inr x \<longleftrightarrow> \<not> b \<and> m = Inr x" for b e and m :: "'x res" and x by simp
  have date: "require_numeric_date v = Inr n \<longleftrightarrow> v = PInt n" for v n
    by (cases v) (auto simp: require_numeric_date_def)
  have strict: "strict_string T hi v = Inr t \<Longrightarrow> t \<noteq> [] \<and> (\<forall>n. hi = Some n \<longrightarrow> length t \<le> n)" for hi v t
    by (auto simp: strict_string_def Let_def split: pyval.splits if_splits option.splits)
  from assms show ?thesis
    unfolding d validate_claims_def pyval.case Let_def bind_res_Inr_iff guard date check_claims_def
    by (elim exE conjE) (auto dest: strict split: if_splits option.splits)
qed

text \<open>The strings of the claims are stripped and within the bounds of the principal, except that a
  subject may have 255 characters where a user id has 128.\<close>

lemma strict_string_Inr:
  "strict_string T hi v = Inr t \<Longrightarrow> t \<noteq> [] \<and> py_strip T t = t \<and> (\<forall>n. hi = Some n \<longrightarrow> length t \<le> n)"
  by (auto simp: strict_string_def Let_def split: pyval.splits if_splits option.splits)

lemma optional_string_Inr:
  "optional_string T n v = Inr w \<Longrightarrow> \<forall>x \<in> set_option w. x \<noteq> [] \<and> py_strip T x = x \<and> length x \<le> n"
  by (auto simp: optional_string_def bind_res_Inr_iff dest!: strict_string_Inr split: if_splits)

lemma string_array_Inr:
  assumes "string_array T v = Inr w"
  shows "stable_values T w = Inr w"
proof -
  from assms obtain items where w: "w = sort (remdups (map (\<lambda>i. py_strip T (the (the_str i))) items))" "[] \<notin> set w"
    by (auto simp: string_array_def Let_def split: pyval.splits if_splits)
  then have "map (py_strip T) w = w" by (intro map_idI) auto
  then show ?thesis
    using w by (simp add: stable_values_def Let_def distinct_remdups_id sorted_sort_id)
qed

lemma claims_shape:
  assumes "validate_claims T cfg clock payload = Inr c"
  shows "py_strip T (vc_subject c) = vc_subject c \<and> vc_subject c \<noteq> []
    \<and> (\<forall>x \<in> set_option (vc_department_id c). x \<noteq> [] \<and> py_strip T x = x \<and> length x \<le> 128)
    \<and> (\<forall>x \<in> set_option (vc_display_name c). x \<noteq> [] \<and> py_strip T x = x \<and> length x \<le> 255)
    \<and> (\<forall>x \<in> set_option (vc_email c). x \<noteq> [] \<and> py_strip T x = x \<and> length x \<le> 320)
    \<and> stable_values T (vc_roles c) = Inr (vc_roles c) \<and> stable_values T (vc_groups c) = Inr (vc_groups c)"
proof -
  from assms obtain d where d: "payload = PDict d" by (cases payload) (simp_all add: validate_claims_def)
  have guard: "(if b then Inl e else m) = Inr x \<longleftrightarrow> \<not> b \<and> m = Inr x" for b e and m :: "'x res" and x by simp
  from assms show ?thesis
    unfolding d validate_claims_def pyval.case Let_def bind_res_Inr_iff guard check_claims_def
    by (elim exE conjE) (auto dest: strict_string_Inr optional_string_Inr string_array_Inr split: if_splits option.splits)
qed

text \<open>Where the claims come from.\<close>

lemma strict_string_source: "strict_string T hi v = Inr t \<Longrightarrow> \<exists>s. v = PStr s \<and> t = py_strip T s"
  by (auto simp: strict_string_def Let_def split: pyval.splits if_splits option.splits)

lemma string_array_source:
  "string_array T v = Inr w \<Longrightarrow> \<exists>items. v = PList (map PStr items) \<and> set w = py_strip T ` set items"
proof -
  assume a: "string_array T v = Inr w"
  then obtain items where i: "v = PList items" "\<forall>i \<in> set items. the_str i \<noteq> None"
    "w = sort (remdups (map (\<lambda>i. py_strip T (the (the_str i))) items))"
    by (auto simp: string_array_def Let_def list_ex_iff split: pyval.splits if_splits)
  have "PStr (the (the_str i)) = i" if "the_str i \<noteq> None" for i
    using that by (auto simp: the_str_def split: pyval.splits)
  with i(2) have "items = map PStr (map (\<lambda>i. the (the_str i)) items)" by (simp add: map_idI comp_def)
  moreover have "set w = py_strip T ` set (map (\<lambda>i. the (the_str i)) items)" using i(3) by force
  ultimately show ?thesis using i(1) by blast
qed

lemma audiences_source:
  "audiences_of v = Inr as \<Longrightarrow> v = PList (map PStr as) \<or> (\<exists>a. v = PStr a \<and> as = [a])"
proof (cases v)
  case (PList items)
  assume "audiences_of v = Inr as"
  then have i: "\<forall>i \<in> set items. the_str i \<noteq> None" "as = map (\<lambda>i. the (the_str i)) items"
    by (auto simp: PList audiences_of_def list_ex_iff split: if_splits)
  have "PStr (the (the_str i)) = i" if "the_str i \<noteq> None" for i
    using that by (auto simp: the_str_def split: pyval.splits)
  with i have "items = map PStr as" by (simp add: map_idI comp_def)
  then show ?thesis using PList by simp
qed (auto simp: audiences_of_def split: if_splits)

lemma claims_source:
  assumes "validate_claims T cfg clock (PDict d) = Inr c"
  shows "\<exists>iss. member d ''iss'' = PStr iss \<and> vc_issuer c = py_strip T iss"
    "\<exists>sub. member d ''sub'' = PStr sub \<and> vc_subject c = py_strip T sub"
    "member d ''aud'' = PList (map PStr (vc_audiences c)) \<or> (\<exists>a. member d ''aud'' = PStr a \<and> vc_audiences c = [a])"
    "\<exists>roles. member_or (PList []) d ''roles'' = PList (map PStr roles) \<and> set (vc_roles c) = py_strip T ` set roles"
    "member_or (PBool True) d ''enabled'' = PBool (vc_enabled c)"
    "map_of d (u ''nbf'') = map_option PInt (vc_not_before c)"
    "oc_required_token_use_claim cfg = Some name \<Longrightarrow> oc_required_token_use_value cfg = Some value \<Longrightarrow> name \<noteq> [] \<Longrightarrow> value \<noteq> [] \<Longrightarrow>
       \<exists>use. map_of d name = Some (PStr use) \<and> py_strip T use = value"
    "\<exists>org. member d ''organization_id'' = PStr org \<and> vc_organization_id c = py_strip T org"
proof -
  have guard: "(if b then Inl e else m) = Inr x \<longleftrightarrow> \<not> b \<and> m = Inr x" for b e and m :: "'x res" and x by simp
  have date: "require_numeric_date v = Inr n \<longleftrightarrow> v = PInt n" for v n
    by (cases v) (auto simp: require_numeric_date_def)
  note parts = assms[unfolded validate_claims_def pyval.case Let_def bind_res_Inr_iff guard date check_claims_def]
  note sources = strict_string_source string_array_source audiences_source
  show "\<exists>iss. member d ''iss'' = PStr iss \<and> vc_issuer c = py_strip T iss"
    using parts by (elim exE conjE) (auto dest: sources split: if_splits)
  show "\<exists>sub. member d ''sub'' = PStr sub \<and> vc_subject c = py_strip T sub"
    using parts by (elim exE conjE) (auto dest: sources split: if_splits)
  show "\<exists>org. member d ''organization_id'' = PStr org \<and> vc_organization_id c = py_strip T org"
    using parts by (elim exE conjE) (auto dest: sources split: if_splits)
  show "member d ''aud'' = PList (map PStr (vc_audiences c)) \<or> (\<exists>a. member d ''aud'' = PStr a \<and> vc_audiences c = [a])"
    using parts by (elim exE conjE) (auto dest: sources split: if_splits)
  show "\<exists>roles. member_or (PList []) d ''roles'' = PList (map PStr roles) \<and> set (vc_roles c) = py_strip T ` set roles"
    using parts by (elim exE conjE) (auto dest: sources split: if_splits)
  show "member_or (PBool True) d ''enabled'' = PBool (vc_enabled c)"
    using parts by (elim exE conjE) (auto split: if_splits pyval.splits)
  show "map_of d (u ''nbf'') = map_option PInt (vc_not_before c)"
    using parts by (elim exE conjE) (auto simp: bind_res_Inr_iff date split: if_splits option.splits)
  show "\<exists>use. map_of d name = Some (PStr use) \<and> py_strip T use = value"
    if "oc_required_token_use_claim cfg = Some name" "oc_required_token_use_value cfg = Some value" "name \<noteq> []" "value \<noteq> []"
    using parts that
    by (elim exE conjE) (auto simp: bind_res_Inr_iff neq_Nil_conv dest!: strict_string_source split: if_splits option.splits)
qed

lemma guarded_Inr: "guarded r = Inr x \<longleftrightarrow> r = Inr x"
  by (cases r) (auto simp: guarded_def)

lemma verify_Inr:
  assumes "verify T cfg jwt get_signing_key clock token s = (Inr c, s')"
  obtains h kid key payload where "jl_header jwt token = Inr h" "validate_header cfg h = Inr kid"
    "get_signing_key kid s = (Inr key, s')" "jl_decode jwt token key cfg = Inr payload"
    "validate_claims T cfg clock payload = Inr c"
proof -
  from assms have op: "bind_op (lift_res (guarded (bind_res (jl_header jwt token) (validate_header cfg)))) (\<lambda>kid.
           bind_op (try_op (get_signing_key kid) (\<lambda>e.
               if e = UnknownSigningKey then Some (raise_op invalid_token)
               else (case e of JwksUnavailable m \<Rightarrow> Some (raise_op service_unavailable) | _ \<Rightarrow> None))) (\<lambda>key.
           lift_res (guarded (bind_res (jl_decode jwt token key cfg) (validate_claims T cfg clock))))) s = (Inr c, s')"
    by (simp add: verify_def split: if_splits)
  then obtain kid key s1 where k: "guarded (bind_res (jl_header jwt token) (validate_header cfg)) = Inr kid"
    "try_op (get_signing_key kid) (\<lambda>e.
               if e = UnknownSigningKey then Some (raise_op invalid_token)
               else (case e of JwksUnavailable m \<Rightarrow> Some (raise_op service_unavailable) | _ \<Rightarrow> None)) s = (Inr key, s1)"
    "guarded (bind_res (jl_decode jwt token key cfg) (validate_claims T cfg clock)) = Inr c" "s1 = s'"
    by (auto simp: bind_op_Inr_iff)
  have "get_signing_key kid s = (Inr key, s')"
    using k(2,4) by (auto simp: try_op_def split: prod.splits sum.splits if_splits exn.splits)
  then show thesis using k(1,3) that unfolding guarded_Inr bind_res_Inr_iff by blast
qed

text \<open>
  C32: what a verified token guarantees. Its claims come from a payload that the JWT library decoded
  with the key of the \<open>kid\<close> in the header, which is printable ASCII within the size limit; the algorithm in the
  header is RS256, the type the configured one, and no member of the header offers a key or an extension; the
  organization and one audience are those of the configuration, and so is the use of the token where one is
  configured; the token was issued and became valid no later than the clock plus the allowed skew and lives no longer
  than the configured lifetime. Issuer, subject, audiences, roles, times and the enabled flag are those of the
  payload, and as the JWT library decodes a payload of the configured issuer only, the issuer is the configured one.
\<close>

theorem verified_token_sound:
  assumes "verify T cfg jwt get_signing_key clock token s = (Inr c, s')"
    and issuer: "\<And>key d. jl_decode jwt token key cfg = Inr (PDict d) \<Longrightarrow> member d ''iss'' = PStr (oc_issuer cfg)"
  shows "\<exists>h kid key payload. jl_header jwt token = Inr (PDict h) \<and> member h ''alg'' = PStr (u ''RS256'')
    \<and> (\<forall>name \<in> {''jku'', ''x5u'', ''jwk'', ''x5c'', ''crit''}. map_of h (u name) = None)
    \<and> (\<forall>typ. oc_required_typ_header cfg = Some typ \<longrightarrow> member h ''typ'' = PStr typ)
    \<and> member h ''kid'' = PStr kid \<and> kid \<noteq> [] \<and> length kid \<le> oc_max_kid_bytes cfg \<and> (\<forall>b \<in> set kid. 32 \<le> b \<and> b \<le> 126)
    \<and> get_signing_key kid s = (Inr key, s')
    \<and> jl_decode jwt token key cfg = Inr (PDict payload)
    \<and> vc_issuer c = py_strip T (oc_issuer cfg)
    \<and> (\<exists>sub. member payload ''sub'' = PStr sub \<and> vc_subject c = py_strip T sub) \<and> vc_subject c \<noteq> []
    \<and> (member payload ''aud'' = PList (map PStr (vc_audiences c))
       \<or> (\<exists>a. member payload ''aud'' = PStr a \<and> vc_audiences c = [a]))
    \<and> (\<exists>roles. member_or (PList []) payload ''roles'' = PList (map PStr roles) \<and> set (vc_roles c) = py_strip T ` set roles)
    \<and> member_or (PBool True) payload ''enabled'' = PBool (vc_enabled c)
    \<and> map_of payload (u ''nbf'') = map_option PInt (vc_not_before c)
    \<and> (\<forall>name value. oc_required_token_use_claim cfg = Some name \<and> oc_required_token_use_value cfg = Some value
         \<and> name \<noteq> [] \<and> value \<noteq> [] \<longrightarrow> (\<exists>use. map_of payload name = Some (PStr use) \<and> py_strip T use = value))
    \<and> member payload ''exp'' = PInt (vc_expires_at c) \<and> member payload ''iat'' = PInt (vc_issued_at c)
    \<and> (\<exists>org. member payload ''organization_id'' = PStr org \<and> vc_organization_id c = py_strip T org)
    \<and> vc_organization_id c = oc_expected_organization_id cfg \<and> oc_audience cfg \<in> set (vc_audiences c)
    \<and> vc_issued_at c < vc_expires_at c
    \<and> vc_expires_at c - vc_issued_at c \<le> oc_max_token_lifetime_seconds cfg
    \<and> vc_issued_at c \<le> int_of_float clock + oc_clock_skew_seconds cfg
    \<and> (\<forall>n. vc_not_before c = Some n \<longrightarrow> n \<le> int_of_float clock + oc_clock_skew_seconds cfg)"
  using assms(1)
proof (rule verify_Inr)
  fix h kid key payload
  assume v: "jl_header jwt token = Inr h" "validate_header cfg h = Inr kid"
    "get_signing_key kid s = (Inr key, s')" "jl_decode jwt token key cfg = Inr payload"
    "validate_claims T cfg clock payload = Inr c"
  note claims = validate_claims_Inr[OF v(5)]
  then obtain d where d: "payload = PDict d" by blast
  obtain hd where hd: "h = PDict hd" using validate_header_Inr[OF v(2)] by blast
  note source = claims_source[OF v(5)[unfolded d]]
  have "vc_issuer c = py_strip T (oc_issuer cfg)" using source(1) issuer[OF v(4)[unfolded d]] by auto
  then show ?thesis
    using v(1,3,4) validate_header_Inr[OF v(2)] claims source(2-6,8) source(7) unfolding d hd
    by (intro exI[of _ hd] exI[of _ kid] exI[of _ key] exI[of _ d]) auto
qed

definition demo_oidc :: oidc_config where
  "demo_oidc =
     \<lparr>oc_issuer = u ''iss'', oc_audience = u ''api'', oc_tenant_id = u ''t'',
      oc_expected_organization_id = u ''org'', oc_clock_skew_seconds = 60,
      oc_max_token_lifetime_seconds = 3600, oc_max_token_bytes = 8192, oc_min_rsa_key_size_bits = 2048,
      oc_max_kid_bytes = 128, oc_jwks_cache_ttl_seconds = 300, oc_negative_kid_ttl_seconds = 10,
      oc_jwks_max_response_bytes = 262144, oc_jwks_max_keys = 20,
      oc_required_token_use_claim = None, oc_required_token_use_value = None,
      oc_required_typ_header = None\<rparr>"

text \<open>A library for concrete runs that decodes any token to the claims of the subject \<open>sub\<close>.\<close>

definition demo_jwt :: "pystr \<Rightarrow> unit jwt_library" where
  "demo_jwt sub =
     \<lparr>jl_header = (\<lambda>token. Inr (PDict [(u ''alg'', PStr (u ''RS256'')), (u ''kid'', PStr (u ''k''))])),
      jl_decode = (\<lambda>token key cfg. Inr (PDict
        [(u ''iss'', PStr (u ''iss'')), (u ''sub'', PStr sub), (u ''organization_id'', PStr (u ''org'')),
         (u ''aud'', PStr (u ''api'')), (u ''iat'', PInt 1000), (u ''exp'', PInt 1600)]))\<rparr>"

definition demo_claims :: "pystr \<Rightarrow> verified_claims" where
  "demo_claims sub =
     \<lparr>vc_subject = sub, vc_issuer = u ''iss'', vc_audiences = [u ''api''], vc_organization_id = u ''org'',
      vc_department_id = None, vc_display_name = None, vc_email = None, vc_roles = [], vc_groups = [],
      vc_enabled = True, vc_issued_at = 1000, vc_expires_at = 1600, vc_not_before = None\<rparr>"

lemma demo_verify:
  assumes "sub \<noteq> []" "py_strip basic_ucd sub = sub" "length sub \<le> 255"
  shows "verify basic_ucd demo_oidc (demo_jwt sub) (\<lambda>kid. ret ()) 1000 [97, 46, 98, 46, 99] s = (Inr (demo_claims sub), s)"
  using assms
  by (simp add: verify_def demo_jwt_def demo_oidc_def demo_claims_def bind_op_def try_op_def validate_header_def
      validate_claims_def member_or_def strict_string_def optional_string_def audiences_of_def
      require_numeric_date_def string_array_def check_claims_def guarded_def ascii_def int_of_float_def
      py_strip_def py_rstrip_def basic_ucd_def Let_def Suc_le_eq)

theorem verified_token_sound_witness:
  "\<exists>c. verify basic_ucd demo_oidc (demo_jwt [97]) (\<lambda>kid. ret ()) 1000 [97, 46, 98, 46, 99] () = (Inr c, ())
    \<and> vc_organization_id c = u ''org'' \<and> vc_expires_at c - vc_issued_at c \<le> 3600"
proof -
  have v: "verify basic_ucd demo_oidc (demo_jwt [97]) (\<lambda>kid. ret ()) 1000 [97, 46, 98, 46, 99] () = (Inr (demo_claims [97]), ())"
    by (rule demo_verify) (simp_all add: py_strip_def py_rstrip_def basic_ucd_def)
  have "jl_decode (demo_jwt [97]) token key demo_oidc = Inr (PDict d) \<Longrightarrow> member d ''iss'' = PStr (oc_issuer demo_oidc)" for token key d
    by (auto simp: demo_jwt_def demo_oidc_def member_or_def)
  with verified_token_sound[OF v] have "vc_issuer (demo_claims [97]) = py_strip basic_ucd (oc_issuer demo_oidc)" by blast
  then show ?thesis using v by (simp add: demo_claims_def)
qed

section \<open>Errors\<close>

text \<open>The key providers raise two exceptions for a \<open>kid\<close> in ASCII, the only ones they are asked for, and the JWT library none of the service's own.\<close>

definition provider_errors :: "(pystr \<Rightarrow> ('s, 'k) op) \<Rightarrow> bool" where
  "provider_errors get \<longleftrightarrow>
     (\<forall>kid s e s'. ascii kid \<longrightarrow> get kid s = (Inl e, s') \<longrightarrow> e = UnknownSigningKey \<or> (\<exists>m. e = JwksUnavailable m))"

definition library_errors :: "'k jwt_library \<Rightarrow> bool" where
  "library_errors jwt \<longleftrightarrow>
     (\<forall>t e. jl_header jwt t = Inl e \<longrightarrow> \<not> is_authentication_failure e)
     \<and> (\<forall>t k cfg e. jl_decode jwt t k cfg = Inl e \<longrightarrow> \<not> is_authentication_failure e)"

lemma validate_header_Inl: "validate_header cfg h = Inl e \<Longrightarrow> e = invalid_token"
  by (auto simp: validate_header_def split: pyval.splits if_splits option.splits)

lemma claim_readers_errors [errors_intros]:
  "invalid_token \<in> E \<Longrightarrow> errors_in E (strict_string T hi v)"
  "invalid_token \<in> E \<Longrightarrow> errors_in E (audiences_of v)"
  "invalid_token \<in> E \<Longrightarrow> errors_in E (require_numeric_date v)"
  "invalid_token \<in> E \<Longrightarrow> errors_in E (string_array T v)"
  "invalid_token \<in> E \<Longrightarrow> errors_in E (optional_string T n v)"
  by (cases v; auto simp: strict_string_def audiences_of_def require_numeric_date_def string_array_def Let_def
      optional_string_def intro!: errors_intros)+

lemma validate_claims_errors: "errors_in {invalid_token, ValidationError} (validate_claims T cfg clock payload)"
proof (cases payload)
  case (PDict d)
  have use: "errors_in {invalid_token, ValidationError} (case (a, b) of
         (Some (c # cs), Some (w # ws)) \<Rightarrow>
           bind_res (strict_string T None (case map_of d (c # cs) of None \<Rightarrow> PNone | Some v \<Rightarrow> v)) (\<lambda>use.
           if use \<noteq> w # ws then Inl invalid_token else Inr ())
       | _ \<Rightarrow> Inr ())" for a b :: "pystr option"
    by (auto split: option.splits list.splits intro!: errors_intros)
  have enabled: "errors_in {invalid_token, ValidationError} (case v of PBool b \<Rightarrow> Inr b | _ \<Rightarrow> Inl invalid_token)" for v
    by (cases v) (auto intro!: errors_intros)
  show ?thesis
    unfolding PDict validate_claims_def pyval.case Let_def check_claims_def
    by (intro errors_intros use enabled; simp)
qed (auto simp: validate_claims_def intro!: errors_intros)

lemmas validate_claims_Inl = errors_inD[OF validate_claims_errors]

lemma bind_res_Inl_iff: "bind_res m f = Inl e \<longleftrightarrow> m = Inl e \<or> (\<exists>x. m = Inr x \<and> f x = Inl e)"
  by (cases m) auto

lemma guarded_Inl: "guarded r = Inl e \<Longrightarrow> e = invalid_token \<or> (r = Inl e \<and> is_authentication_failure e)"
  by (cases r) (auto simp: guarded_def split: if_splits)

lemma verify_Inl:
  assumes "verify T cfg jwt get_signing_key clock token s = (Inl e, s')"
    and "provider_errors get_signing_key" "library_errors jwt"
  shows "e \<in> {invalid_token, service_unavailable}"
proof -
  have header: "e = invalid_token" if "guarded (bind_res (jl_header jwt token) (validate_header cfg)) = Inl e" for e
    using guarded_Inl[OF that] assms(3) validate_header_Inl
    by (auto simp: bind_res_Inl_iff library_errors_def)
  have claims: "e = invalid_token" if "guarded (bind_res (jl_decode jwt token key cfg) (validate_claims T cfg clock)) = Inl e" for e key
    using guarded_Inl[OF that] assms(3) by (auto simp: bind_res_Inl_iff library_errors_def dest: validate_claims_Inl)
  have kid: "ascii kid" if "guarded (bind_res (jl_header jwt token) (validate_header cfg)) = Inr kid" for kid
    using that by (force simp: guarded_Inr bind_res_Inr_iff ascii_def list_all_iff dest: validate_header_Inr)
  have key: "e \<in> {invalid_token, service_unavailable}"
    if "try_op (get_signing_key kid) (\<lambda>e. if e = UnknownSigningKey then Some (raise_op invalid_token)
               else (case e of JwksUnavailable m \<Rightarrow> Some (raise_op service_unavailable) | _ \<Rightarrow> None)) s = (Inl e, s1)"
      "guarded (bind_res (jl_header jwt token) (validate_header cfg)) = Inr kid" for kid e s1
  proof (cases "get_signing_key kid s")
    case (Pair r s2)
    show ?thesis
    proof (cases r)
      case (Inl x)
      then have "x = UnknownSigningKey \<or> (\<exists>m. x = JwksUnavailable m)"
        using assms(2) Pair kid[OF that(2)] unfolding provider_errors_def by blast
      then show ?thesis using that(1) Pair Inl by (auto simp: try_op_def)
    next
      case (Inr x)
      then show ?thesis using that(1) Pair by (simp add: try_op_def)
    qed
  qed
  from assms(1) show ?thesis
    unfolding verify_def by (auto simp: bind_op_Inl_iff split: if_splits dest: header claims key)
qed

end
