(* ===== verification/Request_Security.thy ===== *)
theory Request_Security
  imports Authentication
begin

text \<open>
  \<open>api/security.py\<close>: the boundary that every route passes, and \<open>api/idempotency.py\<close>: the
  idempotency header. The verifier is a program over the state of its key provider.
\<close>

section \<open>Trace steps\<close>

definition summaries :: "(pystr, string) dict" where
  "summaries =
     [(u ''authentication_required'', ''Authentication is required.''),
      (u ''invalid_request'', ''The Bearer authentication request is malformed.''),
      (u ''invalid_access_token'', ''Authentication failed.''),
      (u ''authentication_service_unavailable'', ''Authentication service is unavailable.''),
      (u ''authenticated'', ''Authentication succeeded.''),
      (u ''allowed'', ''Authorization succeeded.''),
      (u ''denied_disabled_principal'', ''The principal is disabled.''),
      (u ''denied_missing_permission'', ''Required route permissions are missing.'')]"

definition trace_step :: "string \<Rightarrow> string \<Rightarrow> pystr \<Rightarrow> request_trace_step" where
  "trace_step component status code =
     \<lparr>rt_component = u component, rt_status = status, rt_code = code,
      rt_summary = u (case dict_get summaries code of None \<Rightarrow> ''Security boundary evaluated.'' | Some s \<Rightarrow> s)\<rparr>"

section \<open>The boundary\<close>

record security_context =
  sx_principal :: principal
  sx_authorization :: authorization_decision
  sx_trace :: "request_trace_step list"

record 's security_service =
  ss_runtime_mode :: string
  ss_max_token_bytes :: nat
  ss_verifier :: "(pystr \<Rightarrow> ('s, verified_claims) op) option"
  ss_mapper :: "oidc_config option"

fun authentication_error :: "exn \<Rightarrow> exn" where
  "authentication_error (AuthenticationFailure code status challenge) =
     SecurityBoundaryError status code
       (if status = 503 then ''Authentication service is unavailable.'' else ''Authentication failed.'') challenge
       [trace_step ''authentication'' (if status = 503 then ''failed'' else ''denied'') (u code)]"
| "authentication_error e = e"

definition authentication_required :: exn where
  "authentication_required =
     SecurityBoundaryError 401 ''authentication_required'' ''Authentication is required.'' (Some ''Bearer'')
       [trace_step ''authentication'' ''denied'' (u ''authentication_required'')]"

definition authentication_unavailable :: exn where
  "authentication_unavailable =
     SecurityBoundaryError 503 ''authentication_service_unavailable'' ''Authentication service is unavailable.'' None
       [trace_step ''authentication'' ''failed'' (u ''authentication_service_unavailable'')]"

definition authenticated :: request_trace_step where
  "authenticated = trace_step ''authentication'' ''succeeded'' (u ''authenticated'')"

definition authorization_denied :: "pystr \<Rightarrow> exn" where
  "authorization_denied code =
     SecurityBoundaryError 403 ''authorization_denied''
       ''The authenticated principal is not authorized for this route.'' (Some ''Bearer error=\"insufficient_scope\"'')
       [authenticated, trace_step ''authorization'' ''denied'' code]"

text \<open>\<open>except AuthenticationFailure as exc: raise self._authentication_error(exc)\<close>\<close>

definition translating :: "('s, 'a) op \<Rightarrow> ('s, 'a) op" where
  "translating m =
     try_op m (\<lambda>e. if is_authentication_failure e then Some (raise_op (authentication_error e)) else None)"

definition identify ::
  "ucd \<Rightarrow> 's security_service \<Rightarrow> pystr option \<Rightarrow> ('s, principal) op" where
  "identify T svc token =
     (case token of
        None \<Rightarrow>
          if ss_runtime_mode svc \<noteq> ''demo'' then raise_op authentication_required
          else ret (fst development_security_context)
      | Some t \<Rightarrow>
          (case (ss_verifier svc, ss_mapper svc) of
             (Some verifier, Some cfg) \<Rightarrow>
               bind_op (translating (verifier t)) (\<lambda>claims. lift_res (map_claims T cfg claims))
           | _ \<Rightarrow> raise_op authentication_unavailable))"

definition secure ::
  "ucd \<Rightarrow> 's security_service \<Rightarrow> (bytes \<times> bytes) list \<Rightarrow> pystr list \<Rightarrow> ('s, security_context) op" where
  "secure T svc raw_headers required_permissions =
     bind_op (translating (lift_res (parse_bearer (ss_max_token_bytes svc) raw_headers))) (\<lambda>token.
     bind_op (identify T svc token) (\<lambda>who.
     bind_op (lift_res (authorize T who required_permissions)) (\<lambda>decision.
     if \<not> az_allowed decision then raise_op (authorization_denied (az_code decision))
     else ret \<lparr>sx_principal = who, sx_authorization = decision,
               sx_trace = [authenticated, trace_step ''authorization'' ''succeeded'' (u ''allowed'')]\<rparr>)))"

section \<open>What the boundary guarantees\<close>

lemma translating_Inr: "translating m s = (Inr x, s') \<longleftrightarrow> m s = (Inr x, s')"
  by (auto simp: translating_def try_op_def split: prod.splits sum.splits if_splits)

lemma map_claims_Inr:
  assumes "map_claims T cfg c = Inr p"
  shows "principal_ok T p \<and> pr_enabled p = vc_enabled c
    \<and> str_field T 1 (Some 128) (vc_subject c) = Inr (pr_user_id p)
    \<and> str_field T 1 (Some 128) (oc_tenant_id cfg) = Inr (pr_tenant_id p)
    \<and> str_field T 1 (Some 128) (oc_expected_organization_id cfg) = Inr (pr_organization_id p)
    \<and> stable_values T (vc_roles c) = Inr (pr_roles p)"
  using validate_principal_Inr[OF assms[unfolded map_claims_def]]
    validate_principal_idem[OF assms[unfolded map_claims_def]] by simp

lemma secure_Inr:
  assumes "secure T svc headers required s = (Inr c, s')" "plain_text T"
    "principal_ok T (fst development_security_context)"
  shows "principal_ok T (sx_principal c) \<and> pr_enabled (sx_principal c)
    \<and> (\<forall>q \<in> set required. \<exists>role \<in> set (pr_roles (sx_principal c)). q \<in> set (role_permissions role))
    \<and> az_allowed (sx_authorization c)
    \<and> az_permissions (sx_authorization c) = effective_permissions (sx_principal c)
    \<and> list_all (scope_matches_principal (sx_principal c)) (az_resource_scopes (sx_authorization c))
    \<and> ((ss_runtime_mode svc = ''demo'' \<and> header_values (u ''authorization'') headers = []
          \<and> sx_principal c = fst development_security_context)
       \<or> (\<exists>raw token verifier cfg claims. header_values (u ''authorization'') headers = [raw]
            \<and> bearer_header (ss_max_token_bytes svc) raw token
            \<and> ss_verifier svc = Some verifier \<and> ss_mapper svc = Some cfg
            \<and> verifier token s = (Inr claims, s') \<and> map_claims T cfg claims = Inr (sx_principal c)))"
proof -
  from assms(1) obtain token who decision where p: "parse_bearer (ss_max_token_bytes svc) headers = Inr token"
    and i: "identify T svc token s = (Inr who, s')" and a: "authorize T who required = Inr decision"
    and ok: "az_allowed decision" and c: "c = \<lparr>sx_principal = who, sx_authorization = decision,
               sx_trace = [authenticated, trace_step ''authorization'' ''succeeded'' (u ''allowed'')]\<rparr>"
    unfolding secure_def by (auto simp: bind_op_Inr_iff translating_Inr split: if_splits)
  have who: "principal_ok T who \<and>
      ((ss_runtime_mode svc = ''demo'' \<and> header_values (u ''authorization'') headers = [] \<and> who = fst development_security_context)
       \<or> (\<exists>raw token verifier cfg claims. header_values (u ''authorization'') headers = [raw]
            \<and> bearer_header (ss_max_token_bytes svc) raw token
            \<and> ss_verifier svc = Some verifier \<and> ss_mapper svc = Some cfg
            \<and> verifier token s = (Inr claims, s') \<and> map_claims T cfg claims = Inr who))"
  proof (cases token)
    case None
    then show ?thesis
      using i p assms(3) parse_bearer_exact[of "ss_max_token_bytes svc" headers] by (auto simp: identify_def split: if_splits)
  next
    case (Some t)
    then obtain verifier cfg claims where v: "ss_verifier svc = Some verifier" "ss_mapper svc = Some cfg"
      "verifier t s = (Inr claims, s')" "map_claims T cfg claims = Inr who"
      using i by (auto simp: identify_def bind_op_Inr_iff translating_Inr split: option.splits)
    obtain raw where "header_values (u ''authorization'') headers = [raw]" "bearer_header (ss_max_token_bytes svc) raw t"
      using p Some parse_bearer_exact[of "ss_max_token_bytes svc" headers t] by blast
    then show ?thesis using v map_claims_Inr[OF v(4)] by blast
  qed
  have *: "decision = \<lparr>az_allowed = True, az_code = az_code decision, az_reason = az_reason decision,
      az_permissions = effective_permissions who, az_resource_scopes = az_resource_scopes decision\<rparr>
    \<and> pr_enabled who \<and> set required \<subseteq> set (effective_permissions who)
    \<and> list_all (scope_matches_principal who) (az_resource_scopes decision)"
    using a ok authorize_eq[OF assms(2), of who required] who
    by (auto simp: scope_matches_principal_def simp del: u_Cons)
  then have "az_permissions decision = effective_permissions who" by (metis authorization_decision.select_convs(4))
  with * show ?thesis using who ok c by (auto simp: effective_permissions_set simp del: u_Cons)
qed

lemma map_claims_total:
  assumes "validate_claims T cfg clock payload = Inr c" "length (vc_subject c) \<le> 128"
    and "str_field T 1 (Some 128) (oc_tenant_id cfg) = Inr a"
    and "str_field T 1 (Some 128) (oc_expected_organization_id cfg) = Inr b"
  shows "\<exists>p. map_claims T cfg c = Inr p"
proof -
  note c = claims_shape[OF assms(1)]
  have "str_field T 1 (Some 128) (vc_subject c) = Inr (vc_subject c)"
    using c assms(2) by (auto simp: str_field_Inr Suc_le_eq)
  moreover have "opt_field (str_field T lo (Some n)) v = Inr v"
    if "\<forall>x \<in> set_option v. x \<noteq> [] \<and> py_strip T x = x \<and> length x \<le> n" "lo \<le> 1" for lo n v
  proof (cases v)
    case (Some x)
    then have "str_field T lo (Some n) x = Inr x" using that by (cases x) (auto simp: str_field_Inr)
    then show ?thesis using Some by (simp add: opt_field_def)
  qed (simp add: opt_field_def)
  ultimately show ?thesis
    using c assms(3,4) by (simp add: map_claims_def validate_principal_def stable_values_def opt_field_def)
qed

text \<open>
  C10: no request passes the boundary without the permissions of its route. When \<open>secure\<close> answers,
  the principal is a validated one, it is enabled, every required permission belongs to one of its
  roles, and it is the development principal only in demo mode and without a token; in every other
  case it was mapped from the claims that the verifier returned for the one bearer token.
\<close>

theorem secure_sound:
  assumes "secure T svc headers required s = (Inr c, s')" "plain_text T"
    "principal_ok T (fst development_security_context)"
  shows "principal_ok T (sx_principal c) \<and> pr_enabled (sx_principal c)
    \<and> (\<forall>q \<in> set required. \<exists>role \<in> set (pr_roles (sx_principal c)). q \<in> set (role_permissions role))
    \<and> az_allowed (sx_authorization c)
    \<and> az_permissions (sx_authorization c) = effective_permissions (sx_principal c)
    \<and> list_all (scope_matches_principal (sx_principal c)) (az_resource_scopes (sx_authorization c))
    \<and> ((ss_runtime_mode svc = ''demo'' \<and> header_values (u ''authorization'') headers = []
          \<and> sx_principal c = fst development_security_context)
       \<or> (\<exists>raw token verifier cfg claims. header_values (u ''authorization'') headers = [raw]
            \<and> bearer_header (ss_max_token_bytes svc) raw token
            \<and> ss_verifier svc = Some verifier \<and> ss_mapper svc = Some cfg
            \<and> verifier token s = (Inr claims, s') \<and> map_claims T cfg claims = Inr (sx_principal c)))"
  using assms by (rule secure_Inr)

theorem secure_sound_witness:
  "\<exists>c. secure basic_ucd
        \<lparr>ss_runtime_mode = ''demo'', ss_max_token_bytes = 100,
         ss_verifier = Some (verify basic_ucd demo_oidc (demo_jwt [97]) (\<lambda>kid. ret ()) 1000), ss_mapper = Some demo_oidc\<rparr>
        [(u ''Authorization'', u ''bEARER a.b.c'')] [] () = (Inr c, ())
    \<and> pr_user_id (sx_principal c) = [97] \<and> principal_ok basic_ucd (sx_principal c)"
proof -
  let ?svc = "\<lparr>ss_runtime_mode = ''demo'', ss_max_token_bytes = 100,
         ss_verifier = Some (verify basic_ucd demo_oidc (demo_jwt [97]) (\<lambda>kid. ret ()) 1000), ss_mapper = Some demo_oidc\<rparr>"
  have v: "verify basic_ucd demo_oidc (demo_jwt [97]) (\<lambda>kid. ret ()) 1000 [97, 46, 98, 46, 99] () = (Inr (demo_claims [97]), ())"
    by (rule demo_verify) (simp_all add: py_strip_def py_rstrip_def basic_ucd_def)
  have b: "parse_bearer 100 [(u ''Authorization'', u ''bEARER a.b.c'')] = Inr (Some [97, 46, 98, 46, 99])"
    by (simp add: parse_bearer_def header_values_def byte_lower_def split_space_def ascii_def)
  obtain p where p: "map_claims basic_ucd demo_oidc (demo_claims [97]) = Inr p" "pr_user_id p = [97]" "pr_enabled p"
    by (simp add: map_claims_def demo_claims_def demo_oidc_def validate_principal_def str_field_def opt_field_def
        stable_values_def py_strip_def py_rstrip_def basic_ucd_def)
  have a: "authorize basic_ucd p [] = Inr d \<Longrightarrow> az_allowed d" for d
    using authorize_eq[OF basic_ucd_plain conjunct1[OF map_claims_Inr[OF p(1)]], of "[]"] p(3) by auto
  obtain d where d: "authorize basic_ucd p [] = Inr d"
    using authorize_eq[OF basic_ucd_plain conjunct1[OF map_claims_Inr[OF p(1)]], of "[]"] by blast
  obtain c where c: "secure basic_ucd ?svc [(u ''Authorization'', u ''bEARER a.b.c'')] [] () = (Inr c, ())" "sx_principal c = p"
    using b v p(1) d a[OF d]
    by (simp add: secure_def identify_def translating_def try_op_def bind_op_def del: u_Cons)
  from secure_sound[OF c(1) basic_ucd_plain development_principal_ok] c p(2) show ?thesis by auto
qed

section \<open>Errors of the boundary\<close>

text \<open>The verifier of the service: \<open>verify\<close> with some library, key provider and clock.\<close>

definition verifier_of ::
  "ucd \<Rightarrow> oidc_config \<Rightarrow> (pystr \<Rightarrow> ('s, verified_claims) op) \<Rightarrow> bool" where
  "verifier_of T cfg v \<longleftrightarrow>
     (\<forall>t s e s'. v t s = (Inl e, s') \<longrightarrow> e \<in> {invalid_token, service_unavailable})
     \<and> (\<forall>t s c s'. v t s = (Inr c, s') \<longrightarrow> (\<exists>clock payload. validate_claims T cfg clock payload = Inr c))"

lemma verify_is_verifier:
  "provider_errors get \<Longrightarrow> library_errors jwt \<Longrightarrow> verifier_of T cfg (verify T cfg jwt get clock)"
  unfolding verifier_of_def by (blast elim: verify_Inr dest: verify_Inl)

definition refusal_of :: "exn \<Rightarrow> bool" where
  "refusal_of e \<longleftrightarrow>
     (\<exists>status code message challenge trace.
        e = SecurityBoundaryError status code message challenge trace \<and> status \<in> {400, 401, 403, 503})"

lemma refusals [simp]:
  "refusal_of authentication_required" "refusal_of authentication_unavailable" "refusal_of (authorization_denied code)"
  "refusal_of (authentication_error invalid_request)" "refusal_of (authentication_error invalid_token)"
  "refusal_of (authentication_error service_unavailable)"
  by (simp_all add: refusal_of_def authentication_required_def authentication_unavailable_def
      authorization_denied_def invalid_request_def invalid_token_def service_unavailable_def)

text \<open>
  The boundary fails closed. With a configured organization that is a legal identifier, every
  error of \<open>secure\<close> is a refusal with status 400, 401, 403 or 503, with one exception: a verified
  token whose subject has more than 128 characters, which the claims allow and the principal does
  not, ends in an unhandled validation error.
\<close>

theorem secure_fails_closed:
  assumes "secure T svc headers required s = (Inl e, s')"
    and "ss_verifier svc = Some v" "ss_mapper svc = Some cfg" "verifier_of T cfg v"
    and "plain_text T" "principal_ok T (fst development_security_context)"
    and "str_field T 1 (Some 128) (oc_tenant_id cfg) = Inr a"
    and "str_field T 1 (Some 128) (oc_expected_organization_id cfg) = Inr b"
  shows "refusal_of e \<or> (e = ValidationError
    \<and> (\<exists>token claims s1. v token s = (Inr claims, s1) \<and> 128 < length (vc_subject claims)))"
proof -
  consider (parse) "translating (lift_res (parse_bearer (ss_max_token_bytes svc) headers)) s = (Inl e, s')"
    | (identify) token where "identify T svc token s = (Inl e, s')"
    | (authorize) token who s1 where "identify T svc token s = (Inr who, s1)" "authorize T who required = Inl e"
    | (denied) code where "e = authorization_denied code"
    using assms(1) unfolding secure_def by (auto simp: bind_op_Inl_iff bind_op_Inr_iff translating_Inr split: if_splits)
  then show ?thesis
  proof cases
    case parse
    then obtain x where x: "parse_bearer (ss_max_token_bytes svc) headers = Inl x"
      "e = (if is_authentication_failure x then authentication_error x else x)"
      by (auto simp: translating_def try_op_def split: sum.splits if_splits)
    have "x = invalid_request" using parse_bearer_exact[of "ss_max_token_bytes svc" headers] x(1) by auto
    then show ?thesis using x(2) by (simp add: invalid_request_def refusal_of_def)
  next
    case (identify token)
    show ?thesis
    proof (cases token)
      case None
      then show ?thesis using identify by (auto simp: identify_def split: if_splits)
    next
      case (Some t)
      with identify assms(2,3) have "bind_op (translating (v t)) (\<lambda>claims. lift_res (map_claims T cfg claims)) s = (Inl e, s')"
        by (simp add: identify_def)
      then consider "translating (v t) s = (Inl e, s')"
        | claims s1 where "v t s = (Inr claims, s1)" "map_claims T cfg claims = Inl e"
        by (auto simp: bind_op_Inl_iff translating_Inr)
      then show ?thesis
      proof cases
        case 1
        then obtain x s2 where x: "v t s = (Inl x, s2)" "e = (if is_authentication_failure x then authentication_error x else x)"
          by (auto simp: translating_def try_op_def split: prod.splits sum.splits if_splits)
        then have "x \<in> {invalid_token, service_unavailable}" using assms(4) unfolding verifier_of_def by blast
        then show ?thesis using x(2) by (auto simp: invalid_token_def service_unavailable_def refusal_of_def)
      next
        case (2 claims s1)
        obtain clock payload where "validate_claims T cfg clock payload = Inr claims"
          using 2(1) assms(4) unfolding verifier_of_def by blast
        note total = map_claims_total[OF this _ assms(7,8)]
        have "128 < length (vc_subject claims)" using total 2(2) by (cases "length (vc_subject claims) \<le> 128") auto
        moreover have "errors_in {ValidationError} (map_claims T cfg claims)"
          unfolding map_claims_def validate_principal_def str_field_def opt_field_def stable_values_def Let_def
          by (intro errors_intros; simp)
        ultimately show ?thesis using 2 errors_inD by blast
      qed
    qed
  next
    case (authorize token who s1)
    have "principal_ok T who"
      using authorize(1) assms(2,3,6) by (auto simp: identify_def bind_op_Inr_iff dest!: map_claims_Inr split: option.splits if_splits)
    then show ?thesis using authorize_eq[OF assms(5)] authorize(2) by simp
  next
    case denied
    then show ?thesis by simp
  qed
qed

definition demo_boundary :: "pystr \<Rightarrow> unit security_service" where
  "demo_boundary sub =
     \<lparr>ss_runtime_mode = ''production'', ss_max_token_bytes = 100,
      ss_verifier = Some (verify basic_ucd demo_oidc (demo_jwt sub) (\<lambda>kid. ret ()) 1000), ss_mapper = Some demo_oidc\<rparr>"

lemma demo_jwt_errors: "library_errors (demo_jwt sub)" "provider_errors (\<lambda>kid. ret ())"
  by (simp_all add: library_errors_def provider_errors_def demo_jwt_def ret_def)

lemma strip_replicate: "py_strip basic_ucd (replicate n 97) = replicate n 97"
  proof (cases n)
  case 0
  then show ?thesis by (simp add: py_strip_def py_rstrip_def)
next
  case (Suc k)
  then have "hd (replicate n 97) = (97 :: nat)" "last (replicate n 97) = (97 :: nat)" "0 < n" by (simp_all add: last_replicate)
  then show ?thesis by (intro py_strip_same) (simp_all add: basic_ucd_def)
qed

text \<open>A verified token with a subject of 129 characters.\<close>

lemma long_subject_raises:
  "secure basic_ucd (demo_boundary (replicate 129 97)) [(u ''Authorization'', u ''Bearer a.b.c'')] [] ()
     = (Inl ValidationError, ())"
proof -
  have v: "verify basic_ucd demo_oidc (demo_jwt (replicate 129 97)) (\<lambda>kid. ret ()) 1000 [97, 46, 98, 46, 99] ()
      = (Inr (demo_claims (replicate 129 97)), ())"
    by (rule demo_verify) (simp_all add: strip_replicate)
  have b: "parse_bearer 100 [(u ''Authorization'', u ''Bearer a.b.c'')] = Inr (Some [97, 46, 98, 46, 99])"
    by (simp add: parse_bearer_def header_values_def byte_lower_def split_space_def ascii_def)
  have "str_field basic_ucd 1 (Some 128) (replicate 129 97) = Inl ValidationError"
    by (simp add: str_field_def strip_replicate)
  then have m: "map_claims basic_ucd demo_oidc (demo_claims (replicate 129 97)) = Inl ValidationError"
    by (simp add: map_claims_def demo_claims_def demo_oidc_def validate_principal_def str_field_def[of _ _ _ "[_]"]
        str_field_def[of _ _ _ "_ # _"] py_strip_def py_rstrip_def basic_ucd_def)
  show ?thesis using b v m
    by (simp add: secure_def demo_boundary_def identify_def translating_def try_op_def bind_op_def
        del: u_Cons)
qed

theorem secure_fails_closed_witness:
  "\<exists>token claims s1. verify basic_ucd demo_oidc (demo_jwt (replicate 129 97)) (\<lambda>kid. ret ()) 1000 token () = (Inr claims, s1)
     \<and> 128 < length (vc_subject claims)"
proof -
  have ids: "str_field basic_ucd 1 (Some 128) (oc_tenant_id demo_oidc) = Inr (u ''t'')"
    "str_field basic_ucd 1 (Some 128) (oc_expected_organization_id demo_oidc) = Inr (u ''org'')"
    by (simp_all add: str_field_def demo_oidc_def py_strip_def py_rstrip_def basic_ucd_def)
  have svc: "ss_verifier (demo_boundary (replicate 129 97)) = Some (verify basic_ucd demo_oidc (demo_jwt (replicate 129 97)) (\<lambda>kid. ret ()) 1000)"
    "ss_mapper (demo_boundary (replicate 129 97)) = Some demo_oidc"
    by (simp_all add: demo_boundary_def)
  have "\<not> refusal_of ValidationError" by (simp add: refusal_of_def)
  then show ?thesis
    using secure_fails_closed[OF long_subject_raises svc verify_is_verifier[OF demo_jwt_errors(2,1)] basic_ucd_plain
        development_principal_ok ids] by blast
qed

section \<open>The idempotency header\<close>

text \<open>\<open>raw.strip(b" \t")\<close>\<close>

definition strip_blanks :: "bytes \<Rightarrow> bytes" where
  "strip_blanks raw =
     (let blank = (\<lambda>b. b = 32 \<or> b = 9) in rev (dropWhile blank (rev (dropWhile blank raw))))"

definition parse_idempotency_key :: "nat \<Rightarrow> (bytes \<times> bytes) list \<Rightarrow> pystr option res" where
  "parse_idempotency_key max_bytes raw_headers =
     (let values = header_values (u ''idempotency-key'') raw_headers
      in if values = [] then Inr None
         else if length values \<noteq> 1 then Inl (IdempotencyHTTPError ''duplicate_idempotency_key'' 400)
         else let raw = strip_blanks (hd values)
         in if raw = [] then Inl (IdempotencyHTTPError ''invalid_idempotency_key'' 400)
         else if max_bytes < length raw then Inl (IdempotencyHTTPError ''idempotency_key_too_long'' 400)
         else if list_ex (\<lambda>b. b < 33 \<or> 126 < b) raw then Inl (IdempotencyHTTPError ''invalid_idempotency_key'' 400)
         else if \<not> ascii raw then Inl (IdempotencyHTTPError ''invalid_idempotency_key'' 400)
         else Inr (Some raw))"

lemma key_bytes_ascii: "\<not> list_ex (\<lambda>b. b < 33 \<or> 126 < b) raw \<Longrightarrow> ascii raw"
  by (auto simp: list_ex_iff ascii_def list_all_iff not_less)

text \<open>
  An accepted idempotency key is one header value of 1 to \<open>max_bytes\<close> visible ASCII
  characters; the last check of the code, that the bytes decode as ASCII, never fails.
\<close>

theorem idempotency_key_exact:
  "(parse_idempotency_key max_bytes headers = Inr (Some key) \<longleftrightarrow>
      (\<exists>raw. header_values (u ''idempotency-key'') headers = [raw] \<and> key = strip_blanks raw
         \<and> key \<noteq> [] \<and> length key \<le> max_bytes \<and> set key \<subseteq> {33..126}))
   \<and> (parse_idempotency_key max_bytes headers = Inr None \<longleftrightarrow> header_values (u ''idempotency-key'') headers = [])"
proof -
  have range: "set key \<subseteq> {33..126} \<longleftrightarrow> \<not> list_ex (\<lambda>b. b < 33 \<or> 126 < b) key" for key :: bytes
    by (auto simp: list_ex_iff subset_iff not_less not_le)
  have one: "length xs \<noteq> 1 \<longleftrightarrow> (\<forall>raw. xs \<noteq> [raw])" for xs :: "bytes list"
    by (auto simp: length_Suc_conv)
  show ?thesis
  proof (cases "\<exists>raw. header_values (u ''idempotency-key'') headers = [raw]")
    case True
    then obtain raw where raw: "header_values (u ''idempotency-key'') headers = [raw]" by blast
    show ?thesis
      unfolding parse_idempotency_key_def Let_def raw range
      using key_bytes_ascii[of "strip_blanks raw"] by auto
  next
    case False
    then have "length (header_values (u ''idempotency-key'') headers) \<noteq> 1" unfolding one by blast
    then show ?thesis using False unfolding parse_idempotency_key_def Let_def by simp
  qed
qed

end
