(* ===== verification/Http_Api.thy ===== *)
theory Http_Api
  imports Execution_Gateway Request_Security
begin

text \<open>
  \<open>api/projector.py\<close>, \<open>api/models.py\<close> and the routes of \<open>api/app.py\<close>: the security boundary, the
  idempotency header, the trusted context, the gateway, the projection to the public response, and
  the exception handlers. The dumps of the pydantic models to JSON are parameters, and so is the
  validation of the dumped response; the state is the one of the key provider and the world of the
  durable services.
\<close>

section \<open>Public responses\<close>

record rag_debug_payload =
  rd_provider :: rag_provider
  rd_payload :: pyval

record agent_response =
  ap_request_id :: pystr
  ap_trace_id :: pystr
  ap_session_id :: pystr
  ap_result :: "(pystr \<times> pyval) list"
  ap_trace :: "request_trace_step list"
  ap_debug :: "rag_debug_payload option"

record json_models =
  jm_result :: "orchestration_result \<Rightarrow> (pystr \<times> pyval) list"
  jm_rag :: "rag_result \<Rightarrow> (pystr \<times> pyval) list"
  jm_validate :: "agent_response \<Rightarrow> agent_response res"

text \<open>\<open>RagResult.to_public_dict\<close>\<close>

definition rag_public_dict :: "json_models \<Rightarrow> bool \<Rightarrow> rag_result \<Rightarrow> (pystr \<times> pyval) list" where
  "rag_public_dict M include_raw_response rag =
     (if include_raw_response then jm_rag M rag
      else filter (\<lambda>(k, v). k \<noteq> u ''raw_response'') (jm_rag M rag))"

text \<open>\<open>OrchestrationResult.to_public_dict\<close>\<close>

definition to_public_dict :: "json_models \<Rightarrow> bool \<Rightarrow> orchestration_result \<Rightarrow> (pystr \<times> pyval) list" where
  "to_public_dict M include_raw_response orch =
     dict_set (u ''rag_result'')
       (case or_rag_result orch of None \<Rightarrow> PNone | Some rag \<Rightarrow> PDict (rag_public_dict M include_raw_response rag))
       (jm_result M orch)"

definition step_blocked :: "orchestration_result \<Rightarrow> agent_step \<Rightarrow> bool" where
  "step_blocked orch s \<longleftrightarrow> as_step_name s = u ''policy_engine'' \<and> is_blocked (or_policy orch)"

definition public_step :: "orchestration_result \<Rightarrow> agent_step \<Rightarrow> request_trace_step" where
  "public_step orch s =
     \<lparr>rt_component = as_step_name s,
      rt_status = (if step_blocked orch s then ''blocked'' else ''succeeded''),
      rt_code = (if step_blocked orch s then u ''policy_blocked'' else as_step_name s),
      rt_summary = (if as_output_summary s = [] then u ''Orchestration step completed.'' else as_output_summary s)\<rparr>"

definition project :: "json_models \<Rightarrow> application_result \<Rightarrow> request_trace_step list \<Rightarrow> bool \<Rightarrow> agent_response" where
  "project M result security_trace include_raw_response =
     (let orch = ar_orchestration result
      in \<lparr>ap_request_id = cx_request_id (ar_context result), ap_trace_id = cx_trace_id (ar_context result),
          ap_session_id = cx_session_id (ar_context result), ap_result = to_public_dict M False orch,
          ap_trace = security_trace @ map (public_step orch) (or_trace orch),
          ap_debug =
            (case or_rag_result orch of
               None \<Rightarrow> None
             | Some rag \<Rightarrow>
                 if include_raw_response
                    \<and> u ''raw_response:view'' \<in> set (az_permissions (cx_authorization (ar_context result)))
                 then map_option (\<lambda>payload. \<lparr>rd_provider = rg_provider rag, rd_payload = payload\<rparr>) (rg_raw_response rag)
                 else None)\<rparr>)"

section \<open>The application\<close>

record dependencies =
  dp_gateway :: gateway
  dp_versions :: runtime_version_snapshot
  dp_new_id :: "nat \<Rightarrow> pystr"
  dp_now :: datetime
  dp_max_key_bytes :: nat

record 's http_app =
  ha_ucd :: ucd
  ha_models :: json_models
  ha_security :: "'s security_service"
  ha_dependencies :: "dependencies option"
  ha_include_raw_response :: bool

record http_error =
  he_status :: nat
  he_code :: string
  he_message :: string
  he_trace :: "request_trace_step list"
  he_challenge :: "string option"

datatype http_response = HttpOk agent_response "string option" | HttpError http_error

text \<open>\<open>build_dependencies\<close> of \<open>api/composition.py\<close>: without persistence there are no durable
  services; both stores get services over the same chat service.\<close>

definition build_gateway :: "persistence_mode \<Rightarrow> idempotency_header_mode \<Rightarrow> service \<Rightarrow> gateway" where
  "build_gateway mode header_mode S =
     \<lparr>gw_persistence_mode = mode, gw_header_mode = header_mode, gw_chat = sv_chat S,
      gw_durable = (if mode = NULL_MODE then None else Some S),
      gw_idempotent = (if mode = NULL_MODE then None else Some S)\<rparr>"

text \<open>The two states side by side.\<close>

definition on_keys :: "('s, 'a) op \<Rightarrow> ('s \<times> world, 'a) op" where
  "on_keys m = (\<lambda>(s, w). case m s of (r, s') \<Rightarrow> (r, (s', w)))"

definition on_world :: "'a prog \<Rightarrow> ('s \<times> world, 'a) op" where
  "on_world m = (\<lambda>(s, w). case m w of (r, w') \<Rightarrow> (r, (s, w')))"

definition chat_permissions :: "pystr list" where
  "chat_permissions = [u ''chat:invoke'', u ''rag:read'', u ''crm:read'']"

definition qa_permissions :: "pystr list" where
  "qa_permissions = [u ''qa:invoke'', u ''rag:read'']"

text \<open>\<open>execute\<close> of the routes, up to the answer of the gateway and from there to the response.\<close>

definition route_context ::
  "'s http_app \<Rightarrow> dependencies \<Rightarrow> request_metadata \<Rightarrow> user_request \<Rightarrow> security_context \<Rightarrow> pystr option
     \<Rightarrow> request_context res" where
  "route_context A D meta body security key =
     build_context (ha_ucd A) (dp_versions D) (dp_new_id D) (dp_now D) (sx_principal security) (sx_authorization security)
       (Some (rm_received_at meta)) (ur_session_id body) (Some (rm_request_id meta)) (Some (rm_trace_id meta)) key"

definition route_response ::
  "'s http_app \<Rightarrow> security_context \<Rightarrow> gateway_execution_result \<Rightarrow> (agent_response \<times> string option) res" where
  "route_response A security outcome =
     (case jm_validate (ha_models A)
             (project (ha_models A) (gr_application_result outcome) (sx_trace security) (ha_include_raw_response A)) of
        Inl e \<Rightarrow> Inl ResponseProjectionError
      | Inr response \<Rightarrow> Inr (response, gr_idempotency_status outcome))"

definition route_execute ::
  "'s http_app \<Rightarrow> request_metadata \<Rightarrow> (bytes \<times> bytes) list \<Rightarrow> user_request \<Rightarrow> security_context \<Rightarrow> pystr
     \<Rightarrow> task_name option \<Rightarrow> (agent_response \<times> string option) prog" where
  "route_execute A meta headers body security operation forced_task =
     (case ha_dependencies A of
        None \<Rightarrow> raise_op (ExecutionGatewayError ''persistence_unavailable'' 503)
      | Some D \<Rightarrow>
          bind_op (lift_res (parse_idempotency_key (dp_max_key_bytes D) headers)) (\<lambda>key.
          bind_op (lift_res (route_context A D meta body security key)) (\<lambda>trusted.
          bind_op (gateway_execute (dp_gateway D) body trusted operation key
                     (\<not> (ha_include_raw_response A
                         \<and> u ''raw_response:view'' \<in> set (az_permissions (sx_authorization security))))
                     forced_task) (\<lambda>outcome.
          lift_res (route_response A security outcome)))))"

section \<open>The exception handlers\<close>

fun error_of :: "request_trace_step list \<Rightarrow> exn \<Rightarrow> http_error" where
  "error_of trace (SecurityBoundaryError status code message challenge t) =
     \<lparr>he_status = status, he_code = code, he_message = message, he_trace = t, he_challenge = challenge\<rparr>"
| "error_of trace (IdempotencyHTTPError code status) =
     \<lparr>he_status = status, he_code = code, he_message = ''The Idempotency-Key header is invalid.'',
      he_trace = trace, he_challenge = None\<rparr>"
| "error_of trace (ExecutionGatewayError code status) =
     \<lparr>he_status = status, he_code = code,
      he_message = ''The request could not enter the selected execution mode.'', he_trace = trace, he_challenge = None\<rparr>"
| "error_of trace UnsupportedReplaySnapshotVersionError =
     \<lparr>he_status = 409, he_code = ''replay_snapshot_version_unsupported'',
      he_message = ''The persisted response version is not supported.'', he_trace = trace, he_challenge = None\<rparr>"
| "error_of trace FingerprintVersionError =
     \<lparr>he_status = 409, he_code = ''idempotency_fingerprint_version_incompatible'',
      he_message = ''The persisted request fingerprint version is incompatible.'', he_trace = trace, he_challenge = None\<rparr>"
| "error_of trace IdempotencyOwnershipLostError =
     \<lparr>he_status = 409, he_code = ''idempotency_ownership_lost'',
      he_message = ''The request no longer owns the idempotency claim.'', he_trace = trace, he_challenge = None\<rparr>"
| "error_of trace InvalidIdempotencyStateError =
     \<lparr>he_status = 500, he_code = ''invalid_idempotency_state'',
      he_message = ''The persisted idempotency state is invalid.'', he_trace = trace, he_challenge = None\<rparr>"
| "error_of trace ResponseProjectionError =
     \<lparr>he_status = 500, he_code = ''response_projection_failed'',
      he_message = ''The committed result could not be projected safely.'', he_trace = trace, he_challenge = None\<rparr>"
| "error_of trace e =
     (if e \<in> {RequestInitializationError, PersistenceFinalizationError} \<or> is_persistence_error e
      then \<lparr>he_status = 503, he_code = ''persistence_unavailable'',
            he_message = ''The durable request service is unavailable.'', he_trace = trace, he_challenge = None\<rparr>
      else if e \<in> {DurableApplicationExecutionError, ApplicationExecutionError}
      then \<lparr>he_status = 500, he_code = ''application_execution_error'',
            he_message = ''The orchestration request could not be completed.'',
            he_trace = trace @ [\<lparr>rt_component = u ''application'', rt_status = ''failed'',
                                 rt_code = u ''application_execution_error'',
                                 rt_summary = u ''The orchestration request failed.''\<rparr>],
            he_challenge = None\<rparr>
      else \<lparr>he_status = 500, he_code = ''internal_server_error'',
            he_message = ''The request could not be completed.'', he_trace = trace, he_challenge = None\<rparr>)"

section \<open>The routes\<close>

definition handle ::
  "'s http_app \<Rightarrow> pystr list \<Rightarrow> pystr \<Rightarrow> task_name option \<Rightarrow> request_metadata \<Rightarrow> (bytes \<times> bytes) list \<Rightarrow> user_request
     \<Rightarrow> 's \<times> world \<Rightarrow> http_response \<times> ('s \<times> world)" where
  "handle A permissions operation forced_task meta headers body st =
     (case on_keys (secure (ha_ucd A) (ha_security A) headers permissions) st of
        (Inl e, st') \<Rightarrow> (HttpError (error_of [] e), st')
      | (Inr security, st') \<Rightarrow>
          (case on_world (route_execute A meta headers body security operation forced_task) st' of
             (Inl e, st'') \<Rightarrow> (HttpError (error_of (sx_trace security) e), st'')
           | (Inr (response, status), st'') \<Rightarrow> (HttpOk response status, st'')))"

definition chat_route ::
  "'s http_app \<Rightarrow> request_metadata \<Rightarrow> (bytes \<times> bytes) list \<Rightarrow> user_request \<Rightarrow> 's \<times> world \<Rightarrow> http_response \<times> ('s \<times> world)" where
  "chat_route A = handle A chat_permissions (u ''v1.chat'') None"

definition qa_route ::
  "'s http_app \<Rightarrow> request_metadata \<Rightarrow> (bytes \<times> bytes) list \<Rightarrow> user_request \<Rightarrow> 's \<times> world \<Rightarrow> http_response \<times> ('s \<times> world)" where
  "qa_route A = handle A qa_permissions (u ''v1.qa'') (Some TaskQa)"

end
