(* ===== verification/Store_Invariant.thy ===== *)
theory Store_Invariant
  imports Execution_Store
begin

text \<open>
  The integrity checks of \<open>operations/persistence.py\<close> as functions on the stored state, and an
  inductive invariant of the store that implies that every check counts zero.
\<close>

section \<open>The checks\<close>

abbreviation runs_of :: "execution_state \<Rightarrow> request_row \<Rightarrow> run_row list" where
  "runs_of s r \<equiv>
     filter (\<lambda>v. nu_original_request_record_id (rn_record v) = rq_database_id r) (dict_values (es_runs s))"

abbreviation request_rows :: "execution_state \<Rightarrow> request_row list" where
  "request_rows s \<equiv> dict_values (es_requests s)"

abbreviation terminal :: "string \<Rightarrow> bool" where
  "terminal status \<equiv> status \<in> {''completed'', ''failed''}"

text \<open>The groups of the first query that do not have one run.\<close>

definition actual_request_run_cardinality :: "execution_state \<Rightarrow> nat" where
  "actual_request_run_cardinality s =
     length (filter (\<lambda>r. nr_replayed_from (rq_record r) = None \<and> terminal (rq_status r)
        \<and> length (runs_of s r) \<noteq> 1) (request_rows s))"

definition request_run_status_mismatch :: "execution_state \<Rightarrow> nat" where
  "request_run_status_mismatch s =
     length (concat (map (\<lambda>r. filter (\<lambda>v.
         rq_status r = ''failed'' \<and> nu_status (rn_record v) \<noteq> ''failed''
         \<or> rq_status r = ''completed'' \<and> nu_status (rn_record v) \<notin> {''completed'', ''blocked''})
       (runs_of s r)) (request_rows s)))"

definition replay_has_run :: "execution_state \<Rightarrow> nat" where
  "replay_has_run s =
     length (concat (map (\<lambda>r. if nr_replayed_from (rq_record r) \<noteq> None then runs_of s r else []) (request_rows s)))"

definition replay_lineage_invalid :: "execution_state \<Rightarrow> nat" where
  "replay_lineage_invalid s =
     length (filter (\<lambda>r. case nr_replayed_from (rq_record r) of None \<Rightarrow> False
       | Some i \<Rightarrow> (case find (\<lambda>x. rq_database_id x = i) (request_rows s) of
           None \<Rightarrow> True | Some x \<Rightarrow> nr_replayed_from (rq_record x) \<noteq> None)) (request_rows s))"

definition active_owner_invalid :: "execution_state \<Rightarrow> nat" where
  "active_owner_invalid s =
     length (filter (\<lambda>i. id_status i = ''in_progress'' \<and> (id_claim_version i < 1
       \<or> (case dict_get (es_requests s) (id_owner_request_id i) of
            None \<Rightarrow> True | Some r \<Rightarrow> rq_status r \<noteq> ''in_progress''))) (dict_values (es_idempotency s)))"

definition completed_idempotency_invalid :: "execution_state \<Rightarrow> nat" where
  "completed_idempotency_invalid s =
     length (filter (\<lambda>i. id_status i = ''completed'' \<and> (id_completed_run_record_id i = None
       \<or> \<not> list_ex (\<lambda>v. Some (rn_database_id v) = id_completed_run_record_id i) (dict_values (es_runs s))
       \<or> id_response_snapshot i = None \<or> id_response_snapshot_version i = None))
       (dict_values (es_idempotency s)))"

definition request_accepted_audit_missing :: "execution_state \<Rightarrow> nat" where
  "request_accepted_audit_missing s =
     length (filter (\<lambda>r. nr_replayed_from (rq_record r) = None
       \<and> \<not> list_ex (\<lambda>a. ae_request_id (au_record a) = Some (nr_request_id (rq_record r))
                    \<and> ae_event_type (au_record a) = ''request_accepted'') (es_audits s)) (request_rows s))"

definition terminal_audit_missing :: "execution_state \<Rightarrow> nat" where
  "terminal_audit_missing s =
     length (filter (\<lambda>r. terminal (rq_status r)
       \<and> \<not> list_ex (\<lambda>a. ae_request_id (au_record a) = Some (nr_request_id (rq_record r))
                    \<and> ae_event_type (au_record a) \<in> {''request_completed'', ''request_failed'', ''policy_blocked''})
           (es_audits s)) (request_rows s))"

text \<open>
  The eight structural checks among the eleven of \<open>_run_checks\<close>. The ninth counts failed claims without
  an expiry, which cannot be expressed in the store, as the column \<open>expires_at\<close> is never null; the other
  two search the texts of replay snapshots and audit details for forbidden JSON keys, and are not
  modelled.
\<close>

definition run_checks :: "execution_state \<Rightarrow> (string \<times> nat) list" where
  "run_checks s = filter (\<lambda>(code, n). n \<noteq> 0)
     [(''actual_request_run_cardinality'', actual_request_run_cardinality s),
      (''request_run_status_mismatch'', request_run_status_mismatch s),
      (''replay_has_run'', replay_has_run s),
      (''replay_lineage_invalid'', replay_lineage_invalid s),
      (''active_owner_invalid'', active_owner_invalid s),
      (''completed_idempotency_invalid'', completed_idempotency_invalid s),
      (''request_accepted_audit_missing'', request_accepted_audit_missing s),
      (''terminal_audit_missing'', terminal_audit_missing s)]"

section \<open>The invariant\<close>

definition keys_ok :: "execution_state \<Rightarrow> bool" where
  "keys_ok s \<longleftrightarrow> dict_ok (es_requests s) \<and> dict_ok (es_runs s) \<and> dict_ok (es_idempotency s)"

definition requests_ok :: "execution_state \<Rightarrow> bool" where
  "requests_ok s \<longleftrightarrow>
     (\<forall>k r. dict_get (es_requests s) k = Some r \<longrightarrow>
        nr_request_id (rq_record r) = k \<and> rq_database_id r < es_next_request_id s
        \<and> rq_status r \<in> {''in_progress'', ''completed'', ''failed''})
     \<and> (\<forall>k r k' r'. dict_get (es_requests s) k = Some r \<longrightarrow> dict_get (es_requests s) k' = Some r' \<longrightarrow>
          rq_database_id r = rq_database_id r' \<longrightarrow> k = k')"

definition run_matches :: "request_row \<Rightarrow> run_row \<Rightarrow> bool" where
  "run_matches r v \<longleftrightarrow>
     nu_original_request_record_id (rn_record v) = rq_database_id r
     \<and> nr_replayed_from (rq_record r) = None
     \<and> (rq_status r = ''failed'' \<and> nu_status (rn_record v) = ''failed''
        \<or> rq_status r = ''completed'' \<and> nu_status (rn_record v) \<in> {''completed'', ''blocked''})"

definition runs_ok :: "execution_state \<Rightarrow> bool" where
  "runs_ok s \<longleftrightarrow>
     (\<forall>k v. dict_get (es_runs s) k = Some v \<longrightarrow>
        rn_database_id v < es_next_run_id s
        \<and> (\<exists>q r. dict_get (es_requests s) q = Some r \<and> run_matches r v))
     \<and> (\<forall>k v k' v'. dict_get (es_runs s) k = Some v \<longrightarrow> dict_get (es_runs s) k' = Some v' \<longrightarrow>
          nu_original_request_record_id (rn_record v) = nu_original_request_record_id (rn_record v')
          \<or> rn_database_id v = rn_database_id v' \<longrightarrow> k = k')"

definition lineage_row :: "(pystr, request_row) dict \<Rightarrow> (pystr, run_row) dict \<Rightarrow> request_row \<Rightarrow> bool" where
  "lineage_row R U r \<longleftrightarrow>
     (case nr_replayed_from (rq_record r) of
        None \<Rightarrow> terminal (rq_status r) \<longrightarrow>
          (\<exists>q v. dict_get U q = Some v \<and> nu_original_request_record_id (rn_record v) = rq_database_id r)
      | Some i \<Rightarrow> rq_status r = ''completed'' \<and>
          (\<exists>q x. dict_get R q = Some x \<and> rq_database_id x = i \<and> nr_replayed_from (rq_record x) = None))"

definition lineage_ok :: "execution_state \<Rightarrow> bool" where
  "lineage_ok s \<longleftrightarrow>
     (\<forall>k r. dict_get (es_requests s) k = Some r \<longrightarrow> lineage_row (es_requests s) (es_runs s) r)"

text \<open>One record of the idempotency table, for the requests \<open>R\<close> and the runs \<open>U\<close>.\<close>

definition claim_ok ::
  "(pystr, request_row) dict \<Rightarrow> (pystr, run_row) dict \<Rightarrow> idempotency_row \<Rightarrow> bool" where
  "claim_ok R U i \<longleftrightarrow>
     (case validate_idempotency (stored_of i (id_scope i)) of
        Inl _ \<Rightarrow> False
      | Inr ACTIVE \<Rightarrow> (\<exists>r. dict_get R (id_owner_request_id i) = Some r \<and> rq_status r = ''in_progress''
           \<and> nr_replayed_from (rq_record r) = None)
      | Inr COMPLETED \<Rightarrow> (\<exists>q v. dict_get U q = Some v \<and> Some (rn_database_id v) = id_completed_run_record_id i)
      | Inr FAILED \<Rightarrow> (\<exists>r. dict_get R (id_owner_request_id i) = Some r \<and> rq_status r = ''failed''
           \<and> rq_failure_code r \<notin> {None, Some []}))"

definition claims_ok :: "execution_state \<Rightarrow> bool" where
  "claims_ok s \<longleftrightarrow>
     (\<forall>k i. dict_get (es_idempotency s) k = Some i \<longrightarrow>
        k = scope_key (id_scope i) \<and> claim_ok (es_requests s) (es_runs s) i)
     \<and> (\<forall>k i k' i'. dict_get (es_idempotency s) k = Some i \<longrightarrow> dict_get (es_idempotency s) k' = Some i' \<longrightarrow>
          id_status i = ''in_progress'' \<longrightarrow> id_status i' = ''in_progress'' \<longrightarrow>
          id_owner_request_id i = id_owner_request_id i' \<longrightarrow> k = k')"

definition audited :: "audit_row list \<Rightarrow> pystr \<Rightarrow> string set \<Rightarrow> bool" where
  "audited A k types \<longleftrightarrow>
     (\<exists>a \<in> set A. ae_request_id (au_record a) = Some k \<and> ae_event_type (au_record a) \<in> types)"

abbreviation terminal_events :: "string set" where
  "terminal_events \<equiv> {''request_completed'', ''request_failed'', ''policy_blocked''}"

definition audit_ok_row :: "audit_row list \<Rightarrow> pystr \<Rightarrow> request_row \<Rightarrow> bool" where
  "audit_ok_row A k r \<longleftrightarrow>
     (nr_replayed_from (rq_record r) = None \<longrightarrow> audited A k {''request_accepted''})
     \<and> (terminal (rq_status r) \<longrightarrow> audited A k terminal_events)"

definition audits_ok :: "execution_state \<Rightarrow> bool" where
  "audits_ok s \<longleftrightarrow> (\<forall>k r. dict_get (es_requests s) k = Some r \<longrightarrow> audit_ok_row (es_audits s) k r)"

definition store_ok :: "execution_state \<Rightarrow> bool" where
  "store_ok s \<longleftrightarrow> keys_ok s \<and> requests_ok s \<and> runs_ok s \<and> lineage_ok s \<and> claims_ok s \<and> audits_ok s"

lemma store_ok_empty: "store_ok empty_execution_state"
  by (simp add: store_ok_def keys_ok_def requests_ok_def runs_ok_def lineage_ok_def claims_ok_def
      audits_ok_def empty_execution_state_def)

section \<open>The invariant implies the checks\<close>

lemma dict_row: "dict_ok d \<Longrightarrow> v \<in> set (dict_values d) \<longleftrightarrow> (\<exists>k. dict_get d k = Some v)"
  by (auto simp: dict_get_items) force

lemma dict_row_intro: "dict_get d k = Some v \<Longrightarrow> v \<in> set (dict_values d)"
  by (force dest: map_of_SomeD)

lemma validate_ok:
  "validate_idempotency (stored_of i sc) = Inr st \<Longrightarrow>
     id_status i = idempotency_status_value st \<and> 1 \<le> id_claim_version i \<and> id_owner_request_id i \<noteq> []
     \<and> utc_offset (id_claimed_at i) = Some 0 \<and> utc_offset (id_lease_expires_at i) = Some 0
     \<and> utc_offset (id_expires_at i) = Some 0
     \<and> (st = COMPLETED \<longleftrightarrow> id_response_snapshot i \<noteq> None)
     \<and> (st = COMPLETED \<longleftrightarrow> id_response_snapshot_version i \<noteq> None)
     \<and> (st = COMPLETED \<longleftrightarrow> id_completed_run_record_id i \<noteq> None)"
  by (auto simp: validate_idempotency_def stored_of_def idempotency_status_of_Some valid_time_def
      split: option.splits if_splits idempotency_status.splits)

lemma distinct_singleton: "distinct xs \<Longrightarrow> set xs = {v} \<Longrightarrow> xs = [v]"
  by (cases xs; cases "tl xs") auto

lemma unique_run:
  assumes "store_ok s" "dict_get (es_runs s) k = Some v"
    "nu_original_request_record_id (rn_record v) = rq_database_id r"
  shows "runs_of s r = [v]"
proof -
  have U: "dict_ok (es_runs s)" "runs_ok s" using assms(1) by (auto simp: store_ok_def keys_ok_def)
  have "x \<in> set (runs_of s r) \<longleftrightarrow> x = v" for x
  proof
    assume "x \<in> set (runs_of s r)"
    then obtain k' where k': "dict_get (es_runs s) k' = Some x"
      "nu_original_request_record_id (rn_record x) = rq_database_id r"
      using dict_row[OF U(1)] by auto
    then have "k' = k" using U(2) assms(2,3) unfolding runs_ok_def by metis
    then show "x = v" using k' assms(2) by simp
  next
    assume "x = v"
    then show "x \<in> set (runs_of s r)" using dict_row[OF U(1)] assms(2,3) by auto
  qed
  then have "set (runs_of s r) = {v}" by blast
  moreover have "inj_on snd (set (es_runs s))"
  proof (rule inj_onI)
    fix x y assume "x \<in> set (es_runs s)" "y \<in> set (es_runs s)" "snd x = snd y"
    then obtain a b w where xy: "x = (a, w)" "y = (b, w)" "(a, w) \<in> set (es_runs s)" "(b, w) \<in> set (es_runs s)"
      by (metis prod.collapse)
    then have "dict_get (es_runs s) a = Some w" "dict_get (es_runs s) b = Some w"
      using U(1) by (simp_all only: dict_get_items)
    then have "a = b" using U(2) unfolding runs_ok_def by metis
    then show "x = y" using xy by simp
  qed
  then have "distinct (runs_of s r)" using U(1) by (simp add: distinct_map)
  ultimately show ?thesis by (rule distinct_singleton[rotated])
qed

lemma store_row:
  assumes "store_ok s" "r \<in> set (request_rows s)"
  shows "dict_get (es_requests s) (nr_request_id (rq_record r)) = Some r"
  using assms by (auto simp: store_ok_def keys_ok_def requests_ok_def dict_row)

lemma run_of_terminal:
  assumes "store_ok s" "dict_get (es_requests s) k = Some r" "nr_replayed_from (rq_record r) = None"
    "terminal (rq_status r)"
  shows "\<exists>q v. dict_get (es_runs s) q = Some v \<and> nu_original_request_record_id (rn_record v) = rq_database_id r"
proof -
  have "lineage_row (es_requests s) (es_runs s) r"
    using assms(1,2) unfolding store_ok_def lineage_ok_def by blast
  then show ?thesis using assms(3,4) by (auto simp: lineage_row_def)
qed

lemma checks_of_requests:
  assumes "store_ok s"
  shows "actual_request_run_cardinality s = 0" "request_accepted_audit_missing s = 0"
    "terminal_audit_missing s = 0"
proof -
  have "length (runs_of s r) = 1"
    if "r \<in> set (request_rows s)" "nr_replayed_from (rq_record r) = None" "terminal (rq_status r)" for r
  proof -
    from store_row[OF assms that(1)] obtain k where "dict_get (es_requests s) k = Some r" by blast
    with that(2,3) assms obtain q v where "dict_get (es_runs s) q = Some v"
      "nu_original_request_record_id (rn_record v) = rq_database_id r"
      using run_of_terminal by blast
    then show ?thesis using unique_run[OF assms] by simp
  qed
  then show "actual_request_run_cardinality s = 0"
    by (auto simp: actual_request_run_cardinality_def filter_empty_conv)
  have a: "audit_ok_row (es_audits s) (nr_request_id (rq_record r)) r" if "r \<in> set (request_rows s)" for r
    using assms store_row[OF assms that] unfolding store_ok_def audits_ok_def by blast
  have acc: "list_ex (\<lambda>a. ae_request_id (au_record a) = Some (nr_request_id (rq_record r))
      \<and> ae_event_type (au_record a) = ''request_accepted'') (es_audits s)"
    if "r \<in> set (request_rows s)" "nr_replayed_from (rq_record r) = None" for r
    using a[OF that(1)] that(2) by (auto simp: audit_ok_row_def audited_def list_ex_iff)
  have fin: "list_ex (\<lambda>a. ae_request_id (au_record a) = Some (nr_request_id (rq_record r))
      \<and> ae_event_type (au_record a) \<in> terminal_events) (es_audits s)"
    if "r \<in> set (request_rows s)" "terminal (rq_status r)" for r
    using a[OF that(1)] that(2) unfolding audit_ok_row_def audited_def list_ex_iff by blast
  show "request_accepted_audit_missing s = 0"
    unfolding request_accepted_audit_missing_def length_0_conv filter_empty_conv using acc by blast
  show "terminal_audit_missing s = 0"
    unfolding terminal_audit_missing_def length_0_conv filter_empty_conv using fin by blast
qed

lemma runs_of_match:
  assumes "store_ok s" "r \<in> set (request_rows s)" "v \<in> set (runs_of s r)"
  shows "run_matches r v"
proof -
  have v: "nu_original_request_record_id (rn_record v) = rq_database_id r" "v \<in> set (dict_values (es_runs s))"
    using assms(3) by auto
  then obtain k where "dict_get (es_runs s) k = Some v"
    using assms(1) by (auto simp: store_ok_def keys_ok_def dict_row)
  then obtain q r' where r': "dict_get (es_requests s) q = Some r'" "run_matches r' v"
    using assms(1) unfolding store_ok_def runs_ok_def by metis
  then have "rq_database_id r' = rq_database_id r" using v(1) by (simp add: run_matches_def)
  then have "q = nr_request_id (rq_record r)"
    using assms(1) r'(1) store_row[OF assms(1,2)] unfolding store_ok_def requests_ok_def by metis
  then show ?thesis using r' store_row[OF assms(1,2)] by simp
qed

lemma checks_of_runs:
  assumes "store_ok s"
  shows "request_run_status_mismatch s = 0" "replay_has_run s = 0"
proof -
  note m = runs_of_match[OF assms, unfolded run_matches_def]
  show "request_run_status_mismatch s = 0"
    using m by (fastforce simp: request_run_status_mismatch_def filter_empty_conv)
  have "runs_of s r = []" if "r \<in> set (request_rows s)" "nr_replayed_from (rq_record r) \<noteq> None" for r
    using m[OF that(1)] that(2) by (metis list.set_intros(1) neq_Nil_conv)
  then have "concat (map (\<lambda>r. if nr_replayed_from (rq_record r) \<noteq> None then runs_of s r else []) (request_rows s)) = []"
    by (simp only: concat_eq_Nil_conv set_map[of _ "request_rows s"]) auto
  then show "replay_has_run s = 0" by (simp only: replay_has_run_def list.size)
qed

lemma check_lineage:
  assumes "store_ok s"
  shows "replay_lineage_invalid s = 0"
proof -
  have "case find (\<lambda>x. rq_database_id x = i) (request_rows s) of
           None \<Rightarrow> False | Some x \<Rightarrow> nr_replayed_from (rq_record x) = None"
    if r: "r \<in> set (request_rows s)" "nr_replayed_from (rq_record r) = Some i" for r i
  proof -
    have "lineage_row (es_requests s) (es_runs s) r"
      using assms store_row[OF assms r(1)] unfolding store_ok_def lineage_ok_def by blast
    then obtain q x where x: "dict_get (es_requests s) q = Some x" "rq_database_id x = i"
      "nr_replayed_from (rq_record x) = None"
      using r(2) by (auto simp: lineage_row_def)
    have mem: "x \<in> set (request_rows s)" by (rule dict_row_intro[OF x(1)])
    show ?thesis
    proof (cases "find (\<lambda>x. rq_database_id x = i) (request_rows s)")
      case None
      then show ?thesis using mem x(2) by (auto simp: find_None_iff)
    next
      case (Some y)
      then have y: "y \<in> set (request_rows s)" "rq_database_id y = i"
        by (auto simp: find_Some_iff in_set_conv_nth) force
      then have "nr_request_id (rq_record y) = q"
        using assms x store_row[OF assms y(1)] unfolding store_ok_def requests_ok_def by metis
      then have "y = x" using store_row[OF assms y(1)] x(1) by simp
      then show ?thesis using Some x(3) by simp
    qed
  qed
  then show ?thesis
    by (fastforce simp: replay_lineage_invalid_def filter_empty_conv split: option.splits)
qed

lemma checks_of_claims:
  assumes "store_ok s"
  shows "active_owner_invalid s = 0" "completed_idempotency_invalid s = 0"
proof -
  have c: "\<exists>st. validate_idempotency (stored_of i (id_scope i)) = Inr st \<and> claim_ok (es_requests s) (es_runs s) i"
    if "i \<in> set (dict_values (es_idempotency s))" for i
  proof -
    have "claim_ok (es_requests s) (es_runs s) i"
      using that assms by (auto simp: store_ok_def keys_ok_def claims_ok_def dict_row)
    then show ?thesis by (auto simp: claim_ok_def split: sum.splits)
  qed
  show "active_owner_invalid s = 0"
    unfolding active_owner_invalid_def length_0_conv filter_empty_conv
  proof
    fix i assume "i \<in> set (dict_values (es_idempotency s))"
    from c[OF this] obtain st where st: "validate_idempotency (stored_of i (id_scope i)) = Inr st"
      "claim_ok (es_requests s) (es_runs s) i" by blast
    from validate_ok[OF st(1)] st(2) show "\<not> (id_status i = ''in_progress'' \<and> (id_claim_version i < 1
       \<or> (case dict_get (es_requests s) (id_owner_request_id i) of
            None \<Rightarrow> True | Some r \<Rightarrow> rq_status r \<noteq> ''in_progress'')))"
      by (cases st) (auto simp: claim_ok_def st(1))
  qed
  show "completed_idempotency_invalid s = 0"
    unfolding completed_idempotency_invalid_def length_0_conv filter_empty_conv
  proof
    fix i assume "i \<in> set (dict_values (es_idempotency s))"
    from c[OF this] obtain st where st: "validate_idempotency (stored_of i (id_scope i)) = Inr st"
      "claim_ok (es_requests s) (es_runs s) i" by blast
    from validate_ok[OF st(1)] st(2) show "\<not> (id_status i = ''completed'' \<and> (id_completed_run_record_id i = None
       \<or> \<not> list_ex (\<lambda>v. Some (rn_database_id v) = id_completed_run_record_id i) (dict_values (es_runs s))
       \<or> id_response_snapshot i = None \<or> id_response_snapshot_version i = None))"
      by (cases st) (auto simp: claim_ok_def st(1) list_ex_iff simp del: set_map dest: dict_row_intro)
  qed
qed

lemma run_checks_clean: "store_ok s \<Longrightarrow> run_checks s = []"
  by (simp add: run_checks_def checks_of_requests checks_of_runs check_lineage checks_of_claims)

end
