(* ===== verification/Store_Transitions.thy ===== *)
theory Store_Transitions
  imports Store_Invariant
begin

text \<open>
  The groups of repository operations that the services run in one transaction, and that each of
  them keeps the store invariant. While a claim is being handed over its record does not satisfy
  the invariant, so the intermediate states are those of \<open>store_ok_but K\<close>, where the records
  with a key in \<open>K\<close> are exempt.
\<close>

definition claims_ok_but :: "scope_key set \<Rightarrow> execution_state \<Rightarrow> bool" where
  "claims_ok_but K s \<longleftrightarrow>
     (\<forall>k i. dict_get (es_idempotency s) k = Some i \<longrightarrow>
        k = scope_key (id_scope i) \<and> (k \<notin> K \<longrightarrow> claim_ok (es_requests s) (es_runs s) i))
     \<and> (\<forall>k i k' i'. dict_get (es_idempotency s) k = Some i \<longrightarrow> dict_get (es_idempotency s) k' = Some i' \<longrightarrow>
          k \<notin> K \<longrightarrow> k' \<notin> K \<longrightarrow> id_status i = ''in_progress'' \<longrightarrow> id_status i' = ''in_progress'' \<longrightarrow>
          id_owner_request_id i = id_owner_request_id i' \<longrightarrow> k = k')"

definition store_ok_but :: "scope_key set \<Rightarrow> execution_state \<Rightarrow> bool" where
  "store_ok_but K s \<longleftrightarrow>
     keys_ok s \<and> requests_ok s \<and> runs_ok s \<and> lineage_ok s \<and> claims_ok_but K s \<and> audits_ok s"

lemma store_ok_but_empty: "store_ok_but {} s = store_ok s"
  by (simp add: store_ok_but_def store_ok_def claims_ok_but_def claims_ok_def)

lemma store_ok_but_mono: "store_ok s \<Longrightarrow> store_ok_but K s"
  unfolding store_ok_but_empty[symmetric] store_ok_but_def claims_ok_but_def by blast

lemmas store_parts = keys_ok_def requests_ok_def runs_ok_def lineage_ok_def audits_ok_def run_matches_def

section \<open>Accepting a request\<close>

lemma insert_request_Inr:
  "insert_request r s = (Inr ref, s') \<Longrightarrow>
     dict_get (es_requests s) (nr_request_id r) = None
     \<and> s' = s\<lparr>es_next_request_id := es_next_request_id s + 1,
              es_requests := dict_set (nr_request_id r)
                \<lparr>rq_database_id = es_next_request_id s, rq_record = r, rq_status = nr_status r,
                 rq_completed_at = nr_completed_at r, rq_failure_code = nr_failure_code r\<rparr> (es_requests s)\<rparr>
     \<and> rf_database_id ref = es_next_request_id s \<and> rf_request_id ref = nr_request_id r
     \<and> rf_status ref = nr_status r"
  by (auto simp: insert_request_def Let_def split: if_splits)

lemma insert_audit_Inr:
  "insert_audit e s = (Inr n, s') \<Longrightarrow>
     s' = s\<lparr>es_next_audit_id := es_next_audit_id s + 1,
            es_audits := es_audits s @ [\<lparr>au_database_id = es_next_audit_id s, au_record = e\<rparr>]\<rparr>"
  by (auto simp: insert_audit_def Let_def split: if_splits)

text \<open>A claim only looks at the requests that are in progress or failed, and at the runs.\<close>

lemma claim_ok_mono:
  assumes "claim_ok R U i"
    and "\<And>q r. dict_get R q = Some r \<Longrightarrow>
           (rq_status r = ''in_progress'' \<and> id_status i = ''in_progress'' \<and> q = id_owner_request_id i
            \<or> rq_status r = ''failed'') \<Longrightarrow> dict_get R' q = Some r"
    and "\<And>q v. dict_get U q = Some v \<Longrightarrow> dict_get U' q = Some v"
  shows "claim_ok R' U' i"
proof -
  from assms(1) obtain st where st: "validate_idempotency (stored_of i (id_scope i)) = Inr st"
    by (auto simp: claim_ok_def split: sum.splits)
  then have "id_status i = idempotency_status_value st" by (simp add: validate_ok)
  then show ?thesis using assms st by (cases st) (fastforce simp: claim_ok_def)+
qed

lemma claims_ok_but_mono:
  assumes "claims_ok_but K s" "es_idempotency s' = es_idempotency s"
    and "\<And>i q r. dict_get (es_requests s) q = Some r \<Longrightarrow>
           (\<exists>k. k \<notin> K \<and> dict_get (es_idempotency s) k = Some i) \<Longrightarrow>
           (rq_status r = ''in_progress'' \<and> id_status i = ''in_progress'' \<and> q = id_owner_request_id i
            \<or> rq_status r = ''failed'') \<Longrightarrow> dict_get (es_requests s') q = Some r"
    and "\<And>q v. dict_get (es_runs s) q = Some v \<Longrightarrow> dict_get (es_runs s') q = Some v"
  shows "claims_ok_but K s'"
proof -
  have "claim_ok (es_requests s') (es_runs s') i"
    if "dict_get (es_idempotency s) k = Some i" "k \<notin> K" for k i
  proof (rule claim_ok_mono)
    show "claim_ok (es_requests s) (es_runs s) i"
      using assms(1) that unfolding claims_ok_but_def by blast
  qed (use assms(3,4) that in blast)+
  then show ?thesis using assms(1,2) unfolding claims_ok_but_def by metis
qed

lemma lineage_row_mono:
  assumes "lineage_row R U r"
    and "\<And>q x. dict_get R q = Some x \<Longrightarrow> nr_replayed_from (rq_record x) = None \<Longrightarrow>
           \<exists>y. dict_get R' q = Some y \<and> rq_database_id y = rq_database_id x \<and> nr_replayed_from (rq_record y) = None"
    and "\<And>q v. dict_get U q = Some v \<Longrightarrow> dict_get U' q = Some v"
  shows "lineage_row R' U' r"
proof (cases "nr_replayed_from (rq_record r)")
  case None
  then show ?thesis using assms(1,3) by (auto simp: lineage_row_def)
next
  case (Some i)
  then obtain q x where x: "rq_status r = ''completed''" "dict_get R q = Some x" "rq_database_id x = i"
    "nr_replayed_from (rq_record x) = None"
    using assms(1) by (auto simp: lineage_row_def)
  from assms(2)[OF x(2,4)] x(1,3) Some show ?thesis by (auto simp: lineage_row_def)
qed

lemma audit_ok_row_mono: "audit_ok_row A k r \<Longrightarrow> set A \<subseteq> set B \<Longrightarrow> audit_ok_row B k r"
  unfolding audit_ok_row_def audited_def by blast

lemma runs_ok_mono:
  assumes "runs_ok s" "es_runs s' = es_runs s" "es_next_run_id s' = es_next_run_id s"
    and keep: "\<And>q r. dict_get (es_requests s) q = Some r \<Longrightarrow> dict_get (es_requests s') q = Some r"
  shows "runs_ok s'"
proof -
  have "\<exists>q r. dict_get (es_requests s') q = Some r \<and> run_matches r v"
    if k: "dict_get (es_runs s) k = Some v" for k v
  proof -
    from assms(1) k obtain q r where "dict_get (es_requests s) q = Some r" "run_matches r v"
      unfolding runs_ok_def by metis
    then show ?thesis using keep by blast
  qed
  then show ?thesis using assms(1) unfolding runs_ok_def assms(2,3) by metis
qed

abbreviation row_of :: "int \<Rightarrow> new_agent_request \<Rightarrow> request_row" where
  "row_of i r \<equiv> \<lparr>rq_database_id = i, rq_record = r, rq_status = nr_status r,
                 rq_completed_at = nr_completed_at r, rq_failure_code = nr_failure_code r\<rparr>"

lemma insert_keeps:
  assumes ok: "store_ok_but K s" and ins: "insert_request r s = (Inr ref, s1)"
    and aud: "insert_audit e s1 = (Inr n, s2)"
    and status: "nr_status r \<in> {''in_progress'', ''completed'', ''failed''}"
    and lineage: "lineage_row (es_requests s) (es_runs s) (row_of (es_next_request_id s) r)"
    and audit: "\<And>i. audit_ok_row [\<lparr>au_database_id = i, au_record = e\<rparr>] (nr_request_id r)
                        (row_of (es_next_request_id s) r)"
  shows "store_ok_but K s2 \<and> es_idempotency s2 = es_idempotency s \<and> es_runs s2 = es_runs s
    \<and> dict_get (es_requests s) (nr_request_id r) = None
    \<and> es_requests s2 = dict_set (nr_request_id r) (row_of (rf_database_id ref) r) (es_requests s)"
proof -
  note i = insert_request_Inr[OF ins] and a = insert_audit_Inr[OF aud]
  let ?rid = "nr_request_id r"
  let ?row = "row_of (es_next_request_id s) r"
  have R: "dict_get (es_requests s2) q = (if q = ?rid then Some ?row else dict_get (es_requests s) q)" for q
    using i a by simp
  have U: "es_runs s2 = es_runs s" "es_next_run_id s2 = es_next_run_id s" using i a by simp_all
  have N: "es_next_request_id s2 = es_next_request_id s + 1" using i a by simp
  have keep: "dict_get (es_requests s2) q = Some x" if "dict_get (es_requests s) q = Some x" for q x
    using that i R by auto
  have lt: "rq_database_id x < es_next_request_id s" if "dict_get (es_requests s) q = Some x" for q x
    using ok that unfolding store_ok_but_def requests_ok_def by blast
  have "requests_ok s2"
    unfolding requests_ok_def
  proof (intro conjI allI impI)
    fix q x assume "dict_get (es_requests s2) q = Some x"
    then show "nr_request_id (rq_record x) = q" "rq_database_id x < es_next_request_id s2"
      "rq_status x \<in> {''in_progress'', ''completed'', ''failed''}"
      using ok R N status unfolding store_ok_but_def requests_ok_def by (fastforce split: if_splits)+
  next
    fix q x q' x' assume "dict_get (es_requests s2) q = Some x" "dict_get (es_requests s2) q' = Some x'"
      "rq_database_id x = rq_database_id x'"
    moreover have "dict_get (es_requests s) q = Some x \<Longrightarrow> dict_get (es_requests s) q' = Some x' \<Longrightarrow>
        rq_database_id x = rq_database_id x' \<Longrightarrow> q = q'"
      using ok unfolding store_ok_but_def requests_ok_def by blast
    ultimately show "q = q'" using lt[of q x] lt[of q' x'] unfolding R by (auto split: if_splits)
  qed
  moreover have "runs_ok s2"
    by (rule runs_ok_mono[of s]) (use ok keep U in \<open>simp_all add: store_ok_but_def\<close>)
  moreover have "lineage_ok s2"
    unfolding lineage_ok_def
  proof (intro allI impI)
    fix q x assume "dict_get (es_requests s2) q = Some x"
    then consider "x = ?row" | "dict_get (es_requests s) q = Some x"
      using R[of q] by (cases "q = ?rid") simp_all
    then show "lineage_row (es_requests s2) (es_runs s2) x"
    proof cases
      case 1
      show ?thesis unfolding 1 using lineage by (rule lineage_row_mono) (use keep U in auto)
    next
      case 2
      then have "lineage_row (es_requests s) (es_runs s) x"
        using ok unfolding store_ok_but_def lineage_ok_def by blast
      then show ?thesis by (rule lineage_row_mono) (use keep U in auto)
    qed
  qed
  moreover have "audits_ok s2"
    unfolding audits_ok_def
  proof (intro allI impI)
    fix q x assume "dict_get (es_requests s2) q = Some x"
    then consider "q = ?rid" "x = ?row" | "dict_get (es_requests s) q = Some x"
      using R[of q] by (cases "q = ?rid") simp_all
    then show "audit_ok_row (es_audits s2) q x"
    proof cases
      case 1
      show ?thesis unfolding 1 using audit by (rule audit_ok_row_mono) (use i a in auto)
    next
      case 2
      then have "audit_ok_row (es_audits s) q x"
        using ok unfolding store_ok_but_def audits_ok_def by blast
      then show ?thesis by (rule audit_ok_row_mono) (use i a in auto)
    qed
  qed
  moreover have "keys_ok s2" using ok i a by (simp add: store_ok_but_def keys_ok_def)
  moreover have "claims_ok_but K s2"
    by (rule claims_ok_but_mono[of K s]) (use ok i a keep in \<open>simp_all add: store_ok_but_def\<close>)
  ultimately show ?thesis using i a by (simp add: store_ok_but_def)
qed

text \<open>A request that starts, and one that is answered from the stored result of another.\<close>

lemma accept_keeps:
  assumes ok: "store_ok_but K s" and ins: "insert_request r s = (Inr ref, s1)"
    and aud: "insert_audit e s1 = (Inr n, s2)"
    and r: "nr_status r = ''in_progress''" "nr_replayed_from r = None"
    and e: "ae_request_id e = Some (nr_request_id r)" "ae_event_type e = ''request_accepted''"
  shows "store_ok_but K s2 \<and> es_idempotency s2 = es_idempotency s \<and> es_runs s2 = es_runs s
    \<and> dict_get (es_requests s) (nr_request_id r) = None
    \<and> es_requests s2 = dict_set (nr_request_id r) (row_of (rf_database_id ref) r) (es_requests s)"
  by (rule insert_keeps[OF ok ins aud])
    (use r e in \<open>simp_all add: lineage_row_def audit_ok_row_def audited_def\<close>)

lemma replay_keeps:
  assumes ok: "store_ok_but K s" and ins: "insert_request r s = (Inr ref, s1)"
    and aud: "insert_audit e s1 = (Inr n, s2)"
    and r: "nr_status r = ''completed''" "nr_replayed_from r = Some i"
    and src: "dict_get (es_requests s) q = Some x" "rq_database_id x = i" "nr_replayed_from (rq_record x) = None"
    and e: "ae_request_id e = Some (nr_request_id r)" "ae_event_type e \<in> terminal_events"
  shows "store_ok_but K s2 \<and> es_idempotency s2 = es_idempotency s \<and> es_runs s2 = es_runs s
    \<and> dict_get (es_requests s) (nr_request_id r) = None
    \<and> es_requests s2 = dict_set (nr_request_id r) (row_of (rf_database_id ref) r) (es_requests s)"
proof (rule insert_keeps[OF ok ins aud])
  show "lineage_row (es_requests s) (es_runs s) (row_of (es_next_request_id s) r)"
    using r src by (auto simp: lineage_row_def)
qed (use r e in \<open>auto simp: audit_ok_row_def audited_def\<close>)

section \<open>Closing a request\<close>

lemma insert_run_Inr:
  "insert_run r s = (Inr n, s') \<Longrightarrow>
     dict_get (es_runs s) (nu_run_id r) = None
     \<and> (\<forall>k v. dict_get (es_runs s) k = Some v \<longrightarrow>
          nu_original_request_record_id (rn_record v) \<noteq> nu_original_request_record_id r)
     \<and> n = es_next_run_id s
     \<and> s' = s\<lparr>es_next_run_id := es_next_run_id s + 1,
              es_runs := dict_set (nu_run_id r) \<lparr>rn_database_id = n, rn_record = r\<rparr> (es_runs s)\<rparr>"
  unfolding insert_run_def Let_def
  by (auto simp: list_ex_iff simp del: set_map split: if_splits dest: dict_row_intro)

lemma finalize_request_Inr:
  "finalize_request ref st t fc s = (Inr x, s') \<Longrightarrow>
     \<exists>row. dict_get (es_requests s) (rf_request_id ref) = Some row \<and> rq_status row = ''in_progress''
     \<and> s' = s\<lparr>es_requests := dict_set (rf_request_id ref)
                 (row\<lparr>rq_status := st, rq_completed_at := Some t, rq_failure_code := fc\<rparr>) (es_requests s)\<rparr>"
  by (auto simp: finalize_request_def split: option.splits if_splits)

text \<open>Run, final status and audit event of one request, in the order of the services.\<close>

lemma close_keeps:
  assumes ok: "store_ok_but K s"
    and q: "dict_get (es_requests s) (rf_request_id ref) = Some row" "nr_replayed_from (rq_record row) = None"
    and run: "insert_run v s = (Inr n, s1)" "nu_original_request_record_id v = rq_database_id row"
    and fin: "finalize_request ref st t fc s1 = (Inr x, s2)"
    and aud: "insert_audit e s2 = (Inr m, s3)"
    and e: "ae_request_id e = Some (rf_request_id ref)" "ae_event_type e \<in> terminal_events"
    and st: "st = ''failed'' \<and> nu_status v = ''failed'' \<or> st = ''completed'' \<and> nu_status v \<in> {''completed'', ''blocked''}"
    and owner: "\<And>k i. k \<notin> K \<Longrightarrow> dict_get (es_idempotency s) k = Some i \<Longrightarrow>
                  id_status i = ''in_progress'' \<Longrightarrow> id_owner_request_id i \<noteq> rf_request_id ref"
  shows "store_ok_but K s3 \<and> es_idempotency s3 = es_idempotency s
    \<and> (\<exists>row'. dict_get (es_requests s3) (rf_request_id ref) = Some row' \<and> rq_status row' = st
         \<and> rq_failure_code row' = fc)
    \<and> dict_get (es_runs s3) (nu_run_id v) = Some \<lparr>rn_database_id = n, rn_record = v\<rparr>
    \<and> (\<forall>p. p \<noteq> rf_request_id ref \<longrightarrow> dict_get (es_requests s3) p = dict_get (es_requests s) p)"
proof -
  let ?q = "rf_request_id ref"
  let ?row = "row\<lparr>rq_status := st, rq_completed_at := Some t, rq_failure_code := fc\<rparr>"
  let ?run = "\<lparr>rn_database_id = n, rn_record = v\<rparr>"
  note r = insert_run_Inr[OF run(1)]
  have open_row: "rq_status row = ''in_progress''" and s2: "s2 = s1\<lparr>es_requests := dict_set ?q ?row (es_requests s1)\<rparr>"
    using finalize_request_Inr[OF fin] r q(1) by auto
  note a = insert_audit_Inr[OF aud]
  have R: "dict_get (es_requests s3) p = (if p = ?q then Some ?row else dict_get (es_requests s) p)" for p
    using r s2 a by simp
  have U: "dict_get (es_runs s3) p = (if p = nu_run_id v then Some ?run else dict_get (es_runs s) p)" for p
    using r s2 a by simp
  have N: "es_next_request_id s3 = es_next_request_id s" "es_next_run_id s3 = es_next_run_id s + 1"
    "n = es_next_run_id s" "es_idempotency s3 = es_idempotency s" "set (es_audits s) \<subseteq> set (es_audits s3)"
    using r s2 a by auto
  have keepU: "dict_get (es_runs s) p = Some w \<Longrightarrow> dict_get (es_runs s3) p = Some w" for p w
    using r U by auto
  have old: "dict_get (es_requests s) p = Some y \<Longrightarrow> p \<noteq> ?q \<Longrightarrow> dict_get (es_requests s3) p = Some y" for p y
    using R by simp
  have new: "dict_get (es_requests s3) ?q = Some ?row" using R by simp
  have "requests_ok s3"
    unfolding requests_ok_def
  proof (intro conjI allI impI)
    fix p y assume "dict_get (es_requests s3) p = Some y"
    then obtain z where z: "dict_get (es_requests s) p = Some z" "rq_record y = rq_record z"
      "rq_database_id y = rq_database_id z" "rq_status y = rq_status z \<or> rq_status y = st"
      using q(1) R[of p] by (cases "p = ?q") auto
    have "nr_request_id (rq_record z) = p \<and> rq_database_id z < es_next_request_id s
      \<and> rq_status z \<in> {''in_progress'', ''completed'', ''failed''}"
      using ok z(1) unfolding store_ok_but_def requests_ok_def by blast
    then show "nr_request_id (rq_record y) = p" "rq_database_id y < es_next_request_id s3"
      "rq_status y \<in> {''in_progress'', ''completed'', ''failed''}"
      using z(2-4) N st by auto
  next
    fix p y p' y' assume "dict_get (es_requests s3) p = Some y" "dict_get (es_requests s3) p' = Some y'"
      "rq_database_id y = rq_database_id y'"
    then obtain z z' where "dict_get (es_requests s) p = Some z" "dict_get (es_requests s) p' = Some z'"
      "rq_database_id z = rq_database_id z'"
      using q(1) unfolding R by (auto split: if_splits)
    then show "p = p'" using ok unfolding store_ok_but_def requests_ok_def by metis
  qed
  moreover have "runs_ok s3"
  proof -
    have runs: "runs_ok s" using ok by (simp add: store_ok_but_def)
    have lt: "rn_database_id w < es_next_run_id s" if "dict_get (es_runs s) k = Some w" for k w
      using runs that unfolding runs_ok_def by metis
    have ne: "nu_original_request_record_id (rn_record w) \<noteq> nu_original_request_record_id v"
      if "dict_get (es_runs s) k = Some w" for k w
      using r that by blast
    have m: "\<exists>p y. dict_get (es_requests s3) p = Some y \<and> run_matches y w" if w: "dict_get (es_runs s3) k = Some w" for k w
    proof (cases "k = nu_run_id v")
      case True
      then have "run_matches ?row w" using w U run(2) q(2) st by (auto simp: run_matches_def)
      then show ?thesis using new by blast
    next
      case False
      then have "dict_get (es_runs s) k = Some w" using w U by simp
      then obtain p y where y: "dict_get (es_requests s) p = Some y" "run_matches y w"
        using runs unfolding runs_ok_def by metis
      then have "p \<noteq> ?q" using q(1) open_row by (auto simp: run_matches_def)
      then show ?thesis using y old by blast
    qed
    show ?thesis
      unfolding runs_ok_def
    proof (intro conjI allI impI)
      fix k w assume "dict_get (es_runs s3) k = Some w"
      then show "rn_database_id w < es_next_run_id s3" using lt[of k w] N U by (auto split: if_splits)
    next
      fix k w assume "dict_get (es_runs s3) k = Some w"
      then show "\<exists>p y. dict_get (es_requests s3) p = Some y \<and> run_matches y w" by (rule m)
    next
      fix k w k' w' assume "dict_get (es_runs s3) k = Some w" "dict_get (es_runs s3) k' = Some w'"
        "nu_original_request_record_id (rn_record w) = nu_original_request_record_id (rn_record w')
         \<or> rn_database_id w = rn_database_id w'"
      moreover have "dict_get (es_runs s) k = Some w \<Longrightarrow> dict_get (es_runs s) k' = Some w' \<Longrightarrow> k = k'"
        using runs calculation(3) unfolding runs_ok_def by metis
      ultimately show "k = k'"
        using ne[of k w] ne[of k' w'] lt[of k w] lt[of k' w'] N(3) unfolding U
        by (cases "k = nu_run_id v"; cases "k' = nu_run_id v") (auto dest: sym)
    qed
  qed
  moreover have "lineage_ok s3"
    unfolding lineage_ok_def
  proof (intro allI impI)
    fix p y assume y: "dict_get (es_requests s3) p = Some y"
    show "lineage_row (es_requests s3) (es_runs s3) y"
    proof (cases "p = ?q")
      case True
      have "y = ?row" using True y new by simp
      moreover have "dict_get (es_runs s3) (nu_run_id v) = Some ?run" using U by simp
      ultimately show ?thesis using q(2) run(2) by (auto simp: lineage_row_def intro!: exI[of _ "nu_run_id v"])
    next
      case False
      then have "lineage_row (es_requests s) (es_runs s) y"
        using ok y unfolding R store_ok_but_def lineage_ok_def by (metis (full_types))
      then show ?thesis
        by (rule lineage_row_mono) (use q R keepU in \<open>auto split: if_splits\<close>)
    qed
  qed
  moreover have "audits_ok s3"
    unfolding audits_ok_def
  proof (intro allI impI)
    fix p y assume y: "dict_get (es_requests s3) p = Some y"
    have old_row: "audit_ok_row (es_audits s3) p z" if "dict_get (es_requests s) p = Some z" for z
      using ok that N(5) audit_ok_row_mono unfolding store_ok_but_def audits_ok_def by blast
    show "audit_ok_row (es_audits s3) p y"
    proof (cases "p = ?q")
      case True
      have "audited (es_audits s3) ?q terminal_events" using a e by (auto simp: audited_def)
      then show ?thesis using True y new old_row[of row] q by (auto simp: audit_ok_row_def)
    next
      case False
      then show ?thesis using y old_row R by simp
    qed
  qed
  moreover have "keys_ok s3" using ok r s2 a by (simp add: store_ok_but_def keys_ok_def)
  moreover have "claims_ok_but K s3"
  proof (rule claims_ok_but_mono[of K s])
    fix i p y
    assume y: "dict_get (es_requests s) p = Some y" "\<exists>k. k \<notin> K \<and> dict_get (es_idempotency s) k = Some i"
      "rq_status y = ''in_progress'' \<and> id_status i = ''in_progress'' \<and> p = id_owner_request_id i
       \<or> rq_status y = ''failed''"
    then obtain k where k: "k \<notin> K" "dict_get (es_idempotency s) k = Some i" by blast
    have "p \<noteq> ?q" using y(1,3) owner[OF k] q(1) open_row by auto
    then show "dict_get (es_requests s3) p = Some y" using y(1) old by blast
  qed (use ok N keepU in \<open>auto simp: store_ok_but_def\<close>)
  ultimately show ?thesis using N new U R by (simp add: store_ok_but_def)
qed

end
