(* ===== verification/Claim_Protocol.thy ===== *)
theory Claim_Protocol
  imports Store_Transitions
begin

text \<open>
  The protocol of the idempotency claims: what \<open>claim\<close>, \<open>complete_fenced\<close> and \<open>fail_fenced\<close> do
  to a store that satisfies the invariant, and an abstract protocol per scope that \<open>claim\<close>
  refines.
\<close>

section \<open>The cases of a claim\<close>

lemma claim_ok_cases:
  assumes "claim_ok R U i"
  obtains
    (active) r where "validate_idempotency (stored_of i (id_scope i)) = Inr ACTIVE" "id_status i = ''in_progress''"
      "dict_get R (id_owner_request_id i) = Some r" "rq_status r = ''in_progress''"
      "nr_replayed_from (rq_record r) = None"
  | (completed) q v snap n where "validate_idempotency (stored_of i (id_scope i)) = Inr COMPLETED"
      "id_status i = ''completed''" "dict_get U q = Some v" "id_completed_run_record_id i = Some (rn_database_id v)"
      "id_response_snapshot i = Some snap" "id_response_snapshot_version i = Some n"
  | (failed) r code where "validate_idempotency (stored_of i (id_scope i)) = Inr FAILED" "id_status i = ''failed''"
      "dict_get R (id_owner_request_id i) = Some r" "rq_status r = ''failed''"
      "rq_failure_code r = Some code" "code \<noteq> []"
proof -
  from assms obtain st where st: "validate_idempotency (stored_of i (id_scope i)) = Inr st"
    by (auto simp: claim_ok_def split: sum.splits)
  note v = validate_ok[OF st]
  show thesis
  proof (cases st)
    case ACTIVE
    then show ?thesis using assms st v active by (auto simp: claim_ok_def)
  next
    case COMPLETED
    then obtain q w where w: "dict_get U q = Some w" "Some (rn_database_id w) = id_completed_run_record_id i"
      using assms st by (auto simp: claim_ok_def)
    show ?thesis using COMPLETED st v w completed by (metis idempotency_status_value.simps(2) option.exhaust)
  next
    case FAILED
    then show ?thesis using assms st v failed by (auto simp: claim_ok_def)
  qed
qed

text \<open>The lookups of the replay branch find the run and its request.\<close>

lemma replay_decision_ok:
  assumes ok: "store_ok s" and v: "dict_get (es_runs s) q = Some v"
    and i: "id_completed_run_record_id i = Some (rn_database_id v)"
  shows "\<exists>k r. dict_get (es_requests s) k = Some r \<and> rq_database_id r = nu_original_request_record_id (rn_record v)
    \<and> nr_replayed_from (rq_record r) = None
    \<and> replay_decision s i = Inr ((decision_of REPLAY)
         \<lparr>cd_original_request_record_id := Some (rq_database_id r), cd_original_request_id := Some k,
          cd_replay_snapshot := id_response_snapshot i,
          cd_replay_snapshot_version := id_response_snapshot_version i\<rparr>)"
proof -
  have find_run: "find (\<lambda>row. Some (rn_database_id row) = id_completed_run_record_id i) (dict_values (es_runs s)) = Some v"
  proof (cases "find (\<lambda>row. Some (rn_database_id row) = id_completed_run_record_id i) (dict_values (es_runs s))")
    case None
    then show ?thesis using dict_row_intro[OF v] i by (auto simp: find_None_iff)
  next
    case (Some w)
    then have w: "w \<in> set (dict_values (es_runs s))" "rn_database_id w = rn_database_id v"
      using i by (auto simp: find_Some_iff in_set_conv_nth) force
    then obtain k where "dict_get (es_runs s) k = Some w"
      using ok by (auto simp: store_ok_def keys_ok_def dict_row)
    then have "w = v" using w(2) v ok unfolding store_ok_def runs_ok_def by (metis option.inject)
    then show ?thesis using Some by simp
  qed
  obtain k r where r: "dict_get (es_requests s) k = Some r" "run_matches r v"
    using ok v unfolding store_ok_def runs_ok_def by metis
  have find_request: "find (\<lambda>(request_id, row). rq_database_id row = nu_original_request_record_id (rn_record v))
       (es_requests s) = Some (k, r)"
  proof (cases "find (\<lambda>(request_id, row). rq_database_id row = nu_original_request_record_id (rn_record v)) (es_requests s)")
    case None
    then show ?thesis using r map_of_SomeD[OF r(1)] by (auto simp: find_None_iff run_matches_def)
  next
    case (Some p)
    then obtain k' r' where p: "p = (k', r')" "(k', r') \<in> set (es_requests s)"
      "rq_database_id r' = nu_original_request_record_id (rn_record v)"
      by (cases p) (auto simp: find_Some_iff dest: nth_mem)
    then have "dict_get (es_requests s) k' = Some r'"
      using ok by (simp add: store_ok_def keys_ok_def dict_get_items)
    then have "k' = k" using r p(3) ok unfolding store_ok_def requests_ok_def run_matches_def by metis
    then show ?thesis using Some p r \<open>dict_get (es_requests s) k' = Some r'\<close> by simp
  qed
  show ?thesis using find_run find_request r by (auto simp: replay_decision_def run_matches_def)
qed

section \<open>The abstract protocol\<close>

text \<open>
  What one scope has been used for: nothing, or some request with fingerprint \<open>f\<close>, at its
  \<open>v\<close>-th claim, that is running until its lease ends, or has left an answer or a failure code that
  is kept until an instant.
\<close>

datatype progress =
    Running pystr int
  | Finished pyval int
  | Broken string int

datatype phase = Unclaimed | Claimed int pystr progress

fun expired :: "progress \<Rightarrow> int \<Rightarrow> bool" where
  "expired (Running owner lease) now = False"
| "expired (Finished answer until) now = (until \<le> now)"
| "expired (Broken code until) now = (until \<le> now)"

definition spec_claim :: "int \<Rightarrow> pystr \<Rightarrow> pystr \<Rightarrow> int \<Rightarrow> phase \<Rightarrow> claim_outcome \<times> phase" where
  "spec_claim now owner fingerprint lease ph =
     (case ph of
        Unclaimed \<Rightarrow> (ACQUIRED, Claimed 1 fingerprint (Running owner (now + lease)))
      | Claimed v f p \<Rightarrow>
          if expired p now then (ACQUIRED, Claimed (v + 1) fingerprint (Running owner (now + lease)))
          else if f \<noteq> fingerprint then (CONFLICT, ph)
          else (case p of
              Running holder until \<Rightarrow>
                if until \<le> now then (RECLAIMED, Claimed (v + 1) fingerprint (Running owner (now + lease)))
                else (IN_PROGRESS, ph)
            | Finished answer until \<Rightarrow> (REPLAY, ph)
            | Broken code until \<Rightarrow> (PREVIOUS_FAILURE, ph)))"

text \<open>The abstraction of one record.\<close>

definition progress_of :: "execution_state \<Rightarrow> idempotency_row \<Rightarrow> progress" where
  "progress_of s i =
     (if id_status i = ''in_progress'' then Running (id_owner_request_id i) (instant (id_lease_expires_at i))
      else if id_status i = ''completed''
      then Finished (case id_response_snapshot i of None \<Rightarrow> PNone | Some x \<Rightarrow> x) (instant (id_expires_at i))
      else Broken (case dict_get (es_requests s) (id_owner_request_id i) of None \<Rightarrow> []
                   | Some r \<Rightarrow> (case rq_failure_code r of None \<Rightarrow> [] | Some c \<Rightarrow> c))
             (instant (id_expires_at i)))"

definition phase_of :: "execution_state \<Rightarrow> idempotency_scope \<Rightarrow> phase" where
  "phase_of s sc =
     (case dict_get (es_idempotency s) (scope_key sc) of
        None \<Rightarrow> Unclaimed
      | Some i \<Rightarrow> Claimed (id_claim_version i) (id_request_fingerprint i) (progress_of s i))"

definition fingerprint_version_ok :: "claim_request \<Rightarrow> execution_state \<Rightarrow> bool" where
  "fingerprint_version_ok request s \<longleftrightarrow>
     (\<forall>i. dict_get (es_idempotency s) (scope_key (cr_scope request)) = Some i \<longrightarrow>
        id_fingerprint_version i = cr_fingerprint_version request)"

text \<open>What a claim answers with the stored state unchanged.\<close>

definition answer_of :: "claim_decision \<Rightarrow> phase \<Rightarrow> bool" where
  "answer_of d ph \<longleftrightarrow>
     (case ph of
        Claimed v f (Finished answer until) \<Rightarrow> cd_outcome d = REPLAY \<longrightarrow> cd_replay_snapshot d = Some answer
      | Claimed v f (Broken code until) \<Rightarrow> cd_outcome d = PREVIOUS_FAILURE \<longrightarrow> cd_previous_failure_code d = Some code
      | _ \<Rightarrow> True)"

section \<open>A claim that takes the scope\<close>

text \<open>
  \<open>takes now request d s s'\<close>: the decision \<open>d\<close> gives the request the ownership of its scope; the
  record in the store names it with the next claim version.
\<close>

definition takes ::
  "datetime \<Rightarrow> claim_request \<Rightarrow> claim_decision \<Rightarrow> execution_state \<Rightarrow> execution_state \<Rightarrow> bool" where
  "takes now request d s s' \<longleftrightarrow>
     (\<exists>item token. es_idempotency s' = dict_set (scope_key (cr_scope request)) item (es_idempotency s)
        \<and> es_requests s' = es_requests s \<and> es_runs s' = es_runs s \<and> es_audits s' = es_audits s
        \<and> es_next_request_id s' = es_next_request_id s \<and> es_next_run_id s' = es_next_run_id s
        \<and> id_scope item = cr_scope request \<and> id_status item = ''in_progress''
        \<and> id_owner_request_id item = cr_owner_request_id request
        \<and> id_request_fingerprint item = cr_request_fingerprint request
        \<and> id_fingerprint_version item = cr_fingerprint_version request
        \<and> id_lease_expires_at item = add_seconds now (cr_lease_duration_seconds request)
        \<and> id_claim_version item = (case dict_get (es_idempotency s) (scope_key (cr_scope request)) of
             None \<Rightarrow> 1 | Some old \<Rightarrow> id_claim_version old + 1)
        \<and> (cr_owner_request_id request \<noteq> [] \<longrightarrow>
             validate_idempotency (stored_of item (cr_scope request)) = Inr ACTIVE)
        \<and> cd_token d = Some token \<and> ct_scope token = cr_scope request
        \<and> ct_owner_request_id token = cr_owner_request_id request
        \<and> ct_claim_version token = id_claim_version item)"

text \<open>What a reclaiming decision says of the previous owner.\<close>

definition reclaims :: "claim_request \<Rightarrow> claim_decision \<Rightarrow> execution_state \<Rightarrow> bool" where
  "reclaims request d s \<longleftrightarrow>
     (\<exists>old row ref. dict_get (es_idempotency s) (scope_key (cr_scope request)) = Some old
        \<and> id_status old = ''in_progress'' \<and> dict_get (es_requests s) (id_owner_request_id old) = Some row
        \<and> nr_replayed_from (rq_record row) = None \<and> cd_reclaimed_request d = Some ref
        \<and> rf_request_id ref = id_owner_request_id old \<and> rf_database_id ref = rq_database_id row)"

lemma token_of_Inr:
  assumes "utc_offset (id_claimed_at i) = Some 0" "utc_offset (id_lease_expires_at i) = Some 0"
  shows "token_of i sc = Inr \<lparr>ct_idempotency_record_id = id_database_id i, ct_scope = sc,
        ct_owner_request_id = id_owner_request_id i, ct_claim_version = id_claim_version i,
        ct_claimed_at = id_claimed_at i, ct_lease_expires_at = id_lease_expires_at i\<rparr>"
  using assms by (simp add: token_of_def check_claim_token_def require_utc_def)

text \<open>The records that the three operations write are valid.\<close>

lemma validate_stored:
  assumes "id_status i = idempotency_status_value st" "1 \<le> id_claim_version i" "id_owner_request_id i \<noteq> []"
    "utc_offset (id_claimed_at i) = Some 0" "utc_offset (id_lease_expires_at i) = Some 0"
    "utc_offset (id_expires_at i) = Some 0"
    "id_completed_run_record_id i = None \<longleftrightarrow> st \<noteq> COMPLETED" "id_response_snapshot i = None \<longleftrightarrow> st \<noteq> COMPLETED"
    "id_response_snapshot_version i = None \<longleftrightarrow> st \<noteq> COMPLETED"
  shows "validate_idempotency (stored_of i sc) = Inr st"
  using assms by (cases st) (auto simp: validate_idempotency_def stored_of_def valid_time_def idempotency_status_of_def)

lemma takesI:
  assumes "es_idempotency s' = dict_set (scope_key (cr_scope request)) item (es_idempotency s)"
    "es_requests s' = es_requests s" "es_runs s' = es_runs s" "es_audits s' = es_audits s"
    "es_next_request_id s' = es_next_request_id s" "es_next_run_id s' = es_next_run_id s"
    "item = new_item n request now (add_seconds now (cr_lease_duration_seconds request))
       \<and> dict_get (es_idempotency s) (scope_key (cr_scope request)) = None
     \<or> item = replace_item old request now (add_seconds now (cr_lease_duration_seconds request))
       \<and> dict_get (es_idempotency s) (scope_key (cr_scope request)) = Some old
       \<and> id_scope old = cr_scope request \<and> 1 \<le> id_claim_version old"
    "token_of item (cr_scope request) = Inr token" "cd_token d = Some token" "utc_offset now = Some 0"
  shows "takes now request d s s'"
proof -
  have i: "id_scope item = cr_scope request \<and> id_status item = ''in_progress''
    \<and> id_owner_request_id item = cr_owner_request_id request
    \<and> id_request_fingerprint item = cr_request_fingerprint request
    \<and> id_fingerprint_version item = cr_fingerprint_version request
    \<and> id_lease_expires_at item = add_seconds now (cr_lease_duration_seconds request)
    \<and> id_claim_version item = (case dict_get (es_idempotency s) (scope_key (cr_scope request)) of
             None \<Rightarrow> 1 | Some old \<Rightarrow> id_claim_version old + 1)
    \<and> id_claimed_at item = now"
    using assms(7) by (auto simp: new_item_def replace_item_def)
  have v: "cr_owner_request_id request \<noteq> [] \<longrightarrow> validate_idempotency (stored_of item (cr_scope request)) = Inr ACTIVE"
  proof
    assume "cr_owner_request_id request \<noteq> []"
    then show "validate_idempotency (stored_of item (cr_scope request)) = Inr ACTIVE"
      using assms(7,10) by (intro validate_stored) (auto simp: new_item_def replace_item_def)
  qed
  have t: "ct_scope token = cr_scope request \<and> ct_owner_request_id token = cr_owner_request_id request
    \<and> ct_claim_version token = id_claim_version item"
    using assms(8,10) i by (auto simp: token_of_Inr)
  show ?thesis
    unfolding takes_def
    by (rule exI[of _ item], rule exI[of _ token]) (use assms(1-6,9) i v t in simp)
qed

lemma new_item_takes:
  assumes none: "dict_get (es_idempotency s) (scope_key (cr_scope request)) = None"
    and now: "utc_offset now = Some 0"
  shows "\<exists>d s'. claim_at now request s = (Inr d, s') \<and> cd_outcome d = ACQUIRED \<and> takes now request d s s'"
proof -
  let ?lease = "add_seconds now (cr_lease_duration_seconds request)"
  let ?item = "new_item (es_next_idempotency_id s) request now ?lease"
  obtain token where t: "token_of ?item (cr_scope request) = Inr token"
    using now by (simp add: token_of_Inr new_item_def)
  let ?d = "(decision_of ACQUIRED)\<lparr>cd_token := Some token\<rparr>"
  let ?s = "put_item (cr_scope request) ?item (s\<lparr>es_next_idempotency_id := es_next_idempotency_id s + 1\<rparr>)"
  have "claim_at now request s = (Inr ?d, ?s)" using none t by (simp add: claim_at_def Let_def)
  moreover have "takes now request ?d s ?s"
    by (rule takesI[where item = ?item and token = token and n = "es_next_idempotency_id s"])
      (use none t now in \<open>simp_all add: put_item_def\<close>)
  ultimately show ?thesis by force
qed

lemma replace_item_takes:
  assumes "dict_get (es_idempotency s) (scope_key (cr_scope request)) = Some old" "id_scope old = cr_scope request"
    "1 \<le> id_claim_version old" "utc_offset now = Some 0"
  obtains token where
    "token_of (replace_item old request now (add_seconds now (cr_lease_duration_seconds request)))
       (cr_scope request) = Inr token"
    "\<And>d. cd_token d = Some token \<Longrightarrow> takes now request d s
       (put_item (cr_scope request) (replace_item old request now
          (add_seconds now (cr_lease_duration_seconds request))) s)"
proof -
  let ?lease = "add_seconds now (cr_lease_duration_seconds request)"
  let ?item = "replace_item old request now ?lease"
  obtain token where t: "token_of ?item (cr_scope request) = Inr token"
    using assms(4) by (simp add: token_of_Inr replace_item_def)
  have "takes now request d s (put_item (cr_scope request) ?item s)" if "cd_token d = Some token" for d
    by (rule takesI[where item = ?item and token = token and old = old])
      (use assms t that in \<open>simp_all add: put_item_def\<close>)
  with t show thesis by (rule that)
qed

text \<open>Every outcome of a claim on a store that satisfies the invariant.\<close>

definition claim_contract ::
  "datetime \<Rightarrow> claim_request \<Rightarrow> execution_state \<Rightarrow> claim_decision \<Rightarrow> execution_state \<Rightarrow> bool" where
  "claim_contract now request s d s' \<longleftrightarrow>
     cd_outcome d = fst (spec_claim (instant now) (cr_owner_request_id request) (cr_request_fingerprint request)
         (seconds (cr_lease_duration_seconds request)) (phase_of s (cr_scope request)))
    \<and> (cd_outcome d \<in> {ACQUIRED, RECLAIMED} \<longrightarrow> takes now request d s s')
    \<and> (cd_outcome d \<notin> {ACQUIRED, RECLAIMED} \<longrightarrow> s' = s)
    \<and> (cd_outcome d = RECLAIMED \<longrightarrow> reclaims request d s)
    \<and> (cd_outcome d = REPLAY \<longrightarrow> cd_replay_snapshot_version d \<noteq> None
         \<and> (\<exists>k r. dict_get (es_requests s) k = Some r \<and> cd_original_request_record_id d = Some (rq_database_id r)
              \<and> cd_original_request_id d = Some k \<and> nr_replayed_from (rq_record r) = None))
    \<and> answer_of d (phase_of s (cr_scope request))"

lemma claim_cases:
  assumes ok: "store_ok s" and now: "utc_offset now = Some 0" and fv: "fingerprint_version_ok request s"
  shows "\<exists>d s'. claim_at now request s = (Inr d, s') \<and> claim_contract now request s d s'"
proof (cases "dict_get (es_idempotency s) (scope_key (cr_scope request))")
  case None
  from new_item_takes[OF this now] obtain d s' where
    "claim_at now request s = (Inr d, s')" "cd_outcome d = ACQUIRED" "takes now request d s s'" by blast
  then show ?thesis using None by (auto simp: claim_contract_def phase_of_def spec_claim_def answer_of_def)
next
  case (Some old)
  have c: "id_scope old = cr_scope request" "claim_ok (es_requests s) (es_runs s) old"
    using ok Some unfolding store_ok_def claims_ok_def by (metis scope_key_inj)+
  have fv': "id_fingerprint_version old = cr_fingerprint_version request"
    using fv Some by (simp add: fingerprint_version_ok_def)
  have lt: "dt_le t now = Inr (instant t \<le> instant now)" if "utc_offset t = Some 0" for t
    using now that by (simp add: dt_le_def)
  obtain st where st: "validate_idempotency (stored_of old (cr_scope request)) = Inr st"
    using c by (auto simp: claim_ok_def split: sum.splits)
  note v = validate_ok[OF st]
  obtain token where t: "token_of (replace_item old request now (add_seconds now (cr_lease_duration_seconds request)))
       (cr_scope request) = Inr token"
    "\<And>d. cd_token d = Some token \<Longrightarrow> takes now request d s
       (put_item (cr_scope request) (replace_item old request now
          (add_seconds now (cr_lease_duration_seconds request))) s)"
    using replace_item_takes[OF Some c(1) _ now] v by blast
  have ph: "phase_of s (cr_scope request) = Claimed (id_claim_version old) (id_request_fingerprint old) (progress_of s old)"
    using Some by (simp add: phase_of_def)
  have utc_times: "utc_offset (id_lease_expires_at old) = Some 0" "utc_offset (id_expires_at old) = Some 0"
    using v by blast+
  note run = claim_at_def Let_def Some st fv' lt utc_times ph
  from c(2) show ?thesis
  proof (cases rule: claim_ok_cases)
    case (active r)
    then have a: "st = ACTIVE" using st c by simp
    then have p: "progress_of s old = Running (id_owner_request_id old) (instant (id_lease_expires_at old))"
      using active by (simp add: progress_of_def)
    have own: "owner_ref s (id_owner_request_id old) = Inr \<lparr>rf_database_id = rq_database_id r,
        rf_request_id = id_owner_request_id old, rf_status = ''in_progress'',
        rf_trace_id = Some (nr_trace_id (rq_record r)), rf_session_id = nr_session_id (rq_record r)\<rparr>"
      using active by (simp add: owner_ref_def)
    have old_token: "\<exists>k. token_of old (cr_scope request) = Inr k" using v by (simp add: token_of_Inr)
    have reclaimed: "reclaims request d s"
      if "\<exists>ref. cd_reclaimed_request d = Some ref \<and> rf_database_id ref = rq_database_id r
            \<and> rf_request_id ref = id_owner_request_id old" for d
      using that Some active by (auto simp: reclaims_def)
    show ?thesis
      using a p own old_token t active(3-5) reclaimed
      by (cases "id_request_fingerprint old = cr_request_fingerprint request";
          cases "instant (id_lease_expires_at old) \<le> instant now")
        (auto simp: claim_contract_def run spec_claim_def answer_of_def)
  next
    case (completed q w snap n)
    then have a: "st = COMPLETED" using st c by simp
    then have p: "progress_of s old = Finished snap (instant (id_expires_at old))"
      using completed by (simp add: progress_of_def)
    from replay_decision_ok[OF ok completed(3,4)] obtain k r where r: "dict_get (es_requests s) k = Some r"
      "rq_database_id r = nu_original_request_record_id (rn_record w)" "nr_replayed_from (rq_record r) = None"
      "replay_decision s old = Inr ((decision_of REPLAY)
         \<lparr>cd_original_request_record_id := Some (rq_database_id r), cd_original_request_id := Some k,
          cd_replay_snapshot := id_response_snapshot old,
          cd_replay_snapshot_version := id_response_snapshot_version old\<rparr>)" by blast
    show ?thesis
      using a p t r completed
      by (cases "instant (id_expires_at old) \<le> instant now";
          cases "id_request_fingerprint old = cr_request_fingerprint request")
        (auto simp: claim_contract_def run spec_claim_def answer_of_def)
  next
    case (failed r code)
    then have a: "st = FAILED" using st c by simp
    then have p: "progress_of s old = Broken code (instant (id_expires_at old))"
      using failed by (simp add: progress_of_def)
    have d: "failure_decision s old = Inr ((decision_of PREVIOUS_FAILURE)\<lparr>cd_previous_failure_code := Some code\<rparr>)"
      using failed by (simp add: failure_decision_def)
    show ?thesis
      using a p t d failed
      by (cases "instant (id_expires_at old) \<le> instant now";
          cases "id_request_fingerprint old = cr_request_fingerprint request")
        (auto simp: claim_contract_def run spec_claim_def answer_of_def)
  qed
qed

lemma claim_effect:
  "store_ok s \<Longrightarrow> utc_offset now = Some 0 \<Longrightarrow> fingerprint_version_ok request s \<Longrightarrow>
     claim_at now request s = (Inr d, s') \<Longrightarrow> claim_contract now request s d s'"
  using claim_cases[of s now request] by auto

section \<open>Transactions that hand a claim over\<close>

definition same_rows :: "execution_state \<Rightarrow> execution_state \<Rightarrow> bool" where
  "same_rows s s' \<longleftrightarrow>
     es_requests s' = es_requests s \<and> es_runs s' = es_runs s \<and> es_audits s' = es_audits s
     \<and> es_next_request_id s' = es_next_request_id s \<and> es_next_run_id s' = es_next_run_id s"

lemma store_ok_but_put:
  assumes "store_ok_but K s" "scope_key sc \<in> K" "id_scope item = sc" "same_rows s s'"
    "es_idempotency s' = dict_set (scope_key sc) item (es_idempotency s)"
  shows "store_ok_but K s'"
proof -
  have c: "claims_ok_but K s" using assms(1) by (simp add: store_ok_but_def)
  have I: "dict_get (es_idempotency s') k = (if k = scope_key sc then Some item else dict_get (es_idempotency s) k)" for k
    using assms(5) by simp
  have same: "es_requests s' = es_requests s" "es_runs s' = es_runs s" using assms(4) by (simp_all add: same_rows_def)
  have "claims_ok_but K s'"
    unfolding claims_ok_but_def
  proof (intro conjI allI impI)
    fix k i assume i: "dict_get (es_idempotency s') k = Some i"
    show "k = scope_key (id_scope i)"
    proof (cases "k = scope_key sc")
      case True then show ?thesis using i assms(3) unfolding I by simp
    next
      case False
      then have "dict_get (es_idempotency s) k = Some i" using i unfolding I by simp
      then show ?thesis using c unfolding claims_ok_but_def by blast
    qed
    assume "k \<notin> K"
    then have "k \<noteq> scope_key sc" using assms(2) by blast
    then have "dict_get (es_idempotency s) k = Some i" using i unfolding I by simp
    then show "claim_ok (es_requests s') (es_runs s') i"
      using c \<open>k \<notin> K\<close> unfolding claims_ok_but_def same by blast
  next
    fix k i k' i' assume i: "dict_get (es_idempotency s') k = Some i" "dict_get (es_idempotency s') k' = Some i'"
      "k \<notin> K" "k' \<notin> K" "id_status i = ''in_progress''" "id_status i' = ''in_progress''"
      "id_owner_request_id i = id_owner_request_id i'"
    then have "k \<noteq> scope_key sc" "k' \<noteq> scope_key sc" using assms(2) by blast+
    then have "dict_get (es_idempotency s) k = Some i" "dict_get (es_idempotency s) k' = Some i'"
      using i unfolding I by simp_all
    then show "k = k'" using c i(3-7) unfolding claims_ok_but_def by blast
  qed
  moreover have "requests_ok s' = requests_ok s" "runs_ok s' = runs_ok s" "lineage_ok s' = lineage_ok s"
    "audits_ok s' = audits_ok s"
    using assms(4) unfolding same_rows_def requests_ok_def runs_ok_def lineage_ok_def audits_ok_def
    by (simp_all only:)
  moreover have "keys_ok s'" using assms(1,4,5) by (simp add: store_ok_but_def keys_ok_def same_rows_def)
  ultimately show ?thesis using assms(1) by (simp add: store_ok_but_def)
qed

lemma unexempt:
  assumes but: "store_ok_but {k} s" and i: "dict_get (es_idempotency s) k = Some i"
    and ok: "claim_ok (es_requests s) (es_runs s) i"
    and alone: "\<And>k' i'. k' \<noteq> k \<Longrightarrow> dict_get (es_idempotency s) k' = Some i' \<Longrightarrow>
           id_status i = ''in_progress'' \<Longrightarrow> id_status i' = ''in_progress'' \<Longrightarrow>
           id_owner_request_id i' \<noteq> id_owner_request_id i"
  shows "store_ok s"
proof -
  have c: "claims_ok_but {k} s" using but by (simp add: store_ok_but_def)
  have "claims_ok s"
    unfolding claims_ok_def
  proof (intro conjI allI impI)
    fix k' i' assume "dict_get (es_idempotency s) k' = Some i'"
    then show "k' = scope_key (id_scope i')" "claim_ok (es_requests s) (es_runs s) i'"
      using c i ok unfolding claims_ok_but_def by (metis option.inject singletonD)+
  next
    fix a x b y
    assume *: "dict_get (es_idempotency s) a = Some x" "dict_get (es_idempotency s) b = Some y"
      "id_status x = ''in_progress''" "id_status y = ''in_progress''"
      "id_owner_request_id x = id_owner_request_id y"
    show "a = b"
    proof (cases "a = k \<or> b = k")
      case True
      then show ?thesis using * i alone[of b y] alone[of a x] by (metis option.inject)
    next
      case False
      then show ?thesis using * c unfolding claims_ok_but_def by blast
    qed
  qed
  then show ?thesis using but by (simp add: store_ok_but_def store_ok_def)
qed

lemma active_unique:
  "store_ok s \<Longrightarrow> dict_get (es_idempotency s) k = Some i \<Longrightarrow> dict_get (es_idempotency s) k' = Some i' \<Longrightarrow>
     id_status i = ''in_progress'' \<Longrightarrow> id_status i' = ''in_progress'' \<Longrightarrow>
     id_owner_request_id i = id_owner_request_id i' \<Longrightarrow> k = k'"
  unfolding store_ok_def claims_ok_def by blast

text \<open>A request that is not stored owns no active claim.\<close>

lemma active_owner_stored:
  assumes "claim_ok R U i" "id_status i = ''in_progress''"
  shows "dict_get R (id_owner_request_id i) \<noteq> None"
  using assms(1) by (cases rule: claim_ok_cases) (use assms(2) in auto)

lemma takes_same_rows: "takes now request d s s' \<Longrightarrow> same_rows s s'"
  by (auto simp: takes_def same_rows_def)

lemma takes_item:
  assumes "takes now request d s s'"
  obtains item token where "es_idempotency s' = dict_set (scope_key (cr_scope request)) item (es_idempotency s)"
    "id_scope item = cr_scope request" "id_owner_request_id item = cr_owner_request_id request"
    "cr_owner_request_id request \<noteq> [] \<longrightarrow> validate_idempotency (stored_of item (id_scope item)) = Inr ACTIVE"
    "cd_token d = Some token" "ct_scope token = cr_scope request"
    "ct_owner_request_id token = cr_owner_request_id request" "ct_claim_version token = id_claim_version item"
  using assms unfolding takes_def by metis

lemma takes_keeps:
  assumes "store_ok s" "takes now request d s s'"
  shows "store_ok_but {scope_key (cr_scope request)} s'"
proof -
  from assms(2) obtain item where
    "es_idempotency s' = dict_set (scope_key (cr_scope request)) item (es_idempotency s)"
    "id_scope item = cr_scope request" by (rule takes_item)
  then show ?thesis
    using store_ok_but_put[OF store_ok_but_mono[OF assms(1)] _ _ takes_same_rows[OF assms(2)]] by blast
qed

text \<open>The claim and the request it is for, accepted in one transaction.\<close>

lemma owned_request_keeps:
  assumes but: "store_ok_but {scope_key (cr_scope request)} s1"
    and item: "dict_get (es_idempotency s1) (scope_key (cr_scope request)) = Some item"
      "validate_idempotency (stored_of item (id_scope item)) = Inr ACTIVE"
      "id_owner_request_id item = nr_request_id r"
    and ins: "insert_request r s1 = (Inr ref, s2)" and aud: "insert_audit e s2 = (Inr n, s3)"
    and r: "nr_status r = ''in_progress''" "nr_replayed_from r = None"
    and e: "ae_request_id e = Some (nr_request_id r)" "ae_event_type e = ''request_accepted''"
  shows "store_ok s3"
proof -
  let ?k = "scope_key (cr_scope request)"
  note a = accept_keeps[OF but ins aud r e]
  show ?thesis
  proof (rule unexempt)
    show "store_ok_but {?k} s3" "dict_get (es_idempotency s3) ?k = Some item" using a item by simp_all
    show "claim_ok (es_requests s3) (es_runs s3) item"
      using a item r by (simp add: claim_ok_def)
    fix k' i' assume i': "k' \<noteq> ?k" "dict_get (es_idempotency s3) k' = Some i'" "id_status i' = ''in_progress''"
    then have "claim_ok (es_requests s1) (es_runs s1) i'"
      using a but unfolding store_ok_but_def claims_ok_but_def by (metis singletonD)
    from active_owner_stored[OF this i'(3)] a
    show "id_owner_request_id i' \<noteq> id_owner_request_id item" unfolding item(3) by metis
  qed
qed

lemma acquire_keeps:
  assumes "store_ok s" "takes now request d s s1"
    and r: "cr_owner_request_id request = nr_request_id r" "nr_request_id r \<noteq> []"
      "nr_status r = ''in_progress''" "nr_replayed_from r = None"
    and ins: "insert_request r s1 = (Inr ref, s2)" and aud: "insert_audit e s2 = (Inr n, s3)"
    and e: "ae_request_id e = Some (nr_request_id r)" "ae_event_type e = ''request_accepted''"
  shows "store_ok s3"
proof -
  from assms(2) obtain item where
    "es_idempotency s1 = dict_set (scope_key (cr_scope request)) item (es_idempotency s)"
    "id_owner_request_id item = cr_owner_request_id request"
    "cr_owner_request_id request \<noteq> [] \<longrightarrow> validate_idempotency (stored_of item (id_scope item)) = Inr ACTIVE"
    by (rule takes_item)
  then show ?thesis
    using owned_request_keeps[OF takes_keeps[OF assms(1,2)] _ _ _ ins aud r(3,4) e] r(1,2) by simp
qed

lemma reclaim_keeps:
  assumes ok: "store_ok s" and takes: "takes now request d s s1" and rec: "reclaims request d s"
    and old: "cd_reclaimed_request d = Some old"
    and run: "insert_run v s1 = (Inr n1, s2)" "nu_original_request_record_id v = rf_database_id old"
      "nu_status v = ''failed''"
    and fin: "finalize_request old ''failed'' t fc s2 = (Inr x, s3)"
    and aud1: "insert_audit e1 s3 = (Inr n2, s4)" "ae_request_id e1 = Some (rf_request_id old)"
      "ae_event_type e1 \<in> terminal_events"
    and r: "cr_owner_request_id request = nr_request_id r" "nr_request_id r \<noteq> []"
      "nr_status r = ''in_progress''" "nr_replayed_from r = None"
    and ins: "insert_request r s4 = (Inr ref, s5)" and aud: "insert_audit e s5 = (Inr n, s6)"
    and e: "ae_request_id e = Some (nr_request_id r)" "ae_event_type e = ''request_accepted''"
  shows "store_ok s6"
proof -
  let ?k = "scope_key (cr_scope request)"
  from takes obtain item where item:
    "es_idempotency s1 = dict_set ?k item (es_idempotency s)"
    "id_owner_request_id item = cr_owner_request_id request"
    "cr_owner_request_id request \<noteq> [] \<longrightarrow> validate_idempotency (stored_of item (id_scope item)) = Inr ACTIVE"
    by (rule takes_item)
  from rec old obtain i row where i: "dict_get (es_idempotency s) ?k = Some i" "id_status i = ''in_progress''"
    "dict_get (es_requests s) (id_owner_request_id i) = Some row" "nr_replayed_from (rq_record row) = None"
    "rf_request_id old = id_owner_request_id i" "rf_database_id old = rq_database_id row"
    unfolding reclaims_def by auto
  have q: "dict_get (es_requests s1) (rf_request_id old) = Some row"
    using i takes_same_rows[OF takes] by (simp add: same_rows_def)
  have but1: "store_ok_but {?k} s1" by (rule takes_keeps[OF ok takes])
  have owner: "id_owner_request_id j \<noteq> rf_request_id old"
    if "k \<notin> {?k}" "dict_get (es_idempotency s1) k = Some j" "id_status j = ''in_progress''" for k j
  proof
    assume eq: "id_owner_request_id j = rf_request_id old"
    have "dict_get (es_idempotency s) k = Some j" using that(1,2) item(1) by simp
    from active_unique[OF ok this i(1) that(3) i(2)] have "k = ?k" using i(5) eq by simp
    then show False using that(1) by simp
  qed
  have v: "nu_original_request_record_id v = rq_database_id row" using run(2) i(6) by simp
  have st: "''failed'' = ''failed'' \<and> nu_status v = ''failed'' \<or> ''failed'' = ''completed'' \<and> nu_status v \<in> {''completed'', ''blocked''}"
    using run(3) by simp
  have "store_ok_but {?k} s4 \<and> es_idempotency s4 = es_idempotency s1"
    using close_keeps[OF but1 q i(4) run(1) v fin aud1 st] owner by blast
  then show ?thesis
    using owned_request_keeps[where request = request and item = item, OF _ _ _ _ ins aud r(3,4) e] item r(1,2)
    by simp
qed

section \<open>Transactions that end a claim\<close>

lemma finish_keeps:
  assumes ok: "store_ok s"
    and item: "dict_get (es_idempotency s) (scope_key sc) = Some item" "id_status item = ''in_progress''"
      "id_owner_request_id item = rf_request_id ref"
    and row: "dict_get (es_requests s) (rf_request_id ref) = Some row" "rq_database_id row = rf_database_id ref"
    and run: "insert_run v s = (Inr n, s1)" "nu_original_request_record_id v = rf_database_id ref"
    and fin: "finalize_request ref st t fc s1 = (Inr x, s2)"
    and aud: "insert_audit e s2 = (Inr m, s3)"
      "ae_request_id e = Some (rf_request_id ref)" "ae_event_type e \<in> terminal_events"
    and st: "st = ''failed'' \<and> nu_status v = ''failed'' \<or> st = ''completed'' \<and> nu_status v \<in> {''completed'', ''blocked''}"
    and item': "id_scope item' = sc" "es_idempotency s4 = dict_set (scope_key sc) item' (es_idempotency s3)"
      "same_rows s3 s4"
      "validate_idempotency (stored_of item' sc) = Inr cl"
      "cl = COMPLETED \<and> id_completed_run_record_id item' = Some n
       \<or> cl = FAILED \<and> id_owner_request_id item' = rf_request_id ref \<and> st = ''failed'' \<and> fc \<notin> {None, Some []}"
  shows "store_ok s4"
proof -
  let ?k = "scope_key sc"
  have c: "claims_ok s" using ok by (simp add: store_ok_def)
  have "claim_ok (es_requests s) (es_runs s) item" using c item(1) unfolding claims_ok_def by blast
  then have lin: "nr_replayed_from (rq_record row) = None"
    by (cases rule: claim_ok_cases) (use item(2,3) row in auto)
  have owner: "id_owner_request_id j \<noteq> rf_request_id ref"
    if "k \<notin> {?k}" "dict_get (es_idempotency s) k = Some j" "id_status j = ''in_progress''" for k j
    using active_unique[OF ok that(2) item(1) that(3) item(2)] item(3) that(1) by auto
  have v: "nu_original_request_record_id v = rq_database_id row" using run(2) row(2) by simp
  have close: "store_ok_but {?k} s3 \<and> es_idempotency s3 = es_idempotency s
    \<and> (\<exists>row'. dict_get (es_requests s3) (rf_request_id ref) = Some row' \<and> rq_status row' = st \<and> rq_failure_code row' = fc)
    \<and> dict_get (es_runs s3) (nu_run_id v) = Some \<lparr>rn_database_id = n, rn_record = v\<rparr>"
    using close_keeps[OF store_ok_but_mono[OF ok] row(1) lin run(1) v fin aud st] owner by blast
  have but4: "store_ok_but {?k} s4"
    by (rule store_ok_but_put[OF _ _ item'(1,3,2)]) (use close in simp_all)
  have here: "dict_get (es_idempotency s4) ?k = Some item'" using item'(2) by simp
  show ?thesis
  proof (rule unexempt[OF but4 here])
    show "claim_ok (es_requests s4) (es_runs s4) item'"
      using item' close unfolding same_rows_def claim_ok_def by force
    fix k' i' assume "id_status item' = ''in_progress''"
    moreover have "id_status item' = idempotency_status_value cl" using validate_ok[OF item'(4)] by simp
    ultimately show "id_owner_request_id i' \<noteq> id_owner_request_id item'" using item'(5) by auto
  qed
qed

end
