(* ===== verification/Store_History.thy ===== *)
theory Store_History
  imports Claim_Protocol Persistence_Mappers
begin

text \<open>
  What no transaction takes back: \<open>advances s s'\<close> says that the store only grew from \<open>s\<close> to \<open>s'\<close>.
  Requests keep their identity and a request that was closed keeps its status, runs and audit
  events are never changed, a claim version never falls, a claim that is active and new belongs
  to a request that is new, and every new claim carries the current fingerprint version.
\<close>

definition advances :: "execution_state \<Rightarrow> execution_state \<Rightarrow> bool" where
  "advances s s' \<longleftrightarrow>
     (\<forall>q r. dict_get (es_requests s) q = Some r \<longrightarrow>
        (\<exists>r'. dict_get (es_requests s') q = Some r' \<and> rq_record r' = rq_record r
           \<and> rq_database_id r' = rq_database_id r \<and> (rq_status r = ''in_progress'' \<or> r' = r)))
     \<and> (\<forall>q v. dict_get (es_runs s) q = Some v \<longrightarrow> dict_get (es_runs s') q = Some v)
     \<and> prefix (es_audits s) (es_audits s')
     \<and> (\<forall>k i. dict_get (es_idempotency s) k = Some i \<longrightarrow>
          (\<exists>i'. dict_get (es_idempotency s') k = Some i' \<and> id_claim_version i \<le> id_claim_version i'))
     \<and> (\<forall>k i. dict_get (es_idempotency s') k = Some i \<longrightarrow> id_status i = ''in_progress'' \<longrightarrow>
          dict_get (es_idempotency s) k = Some i \<or> dict_get (es_requests s) (id_owner_request_id i) = None)
     \<and> (\<forall>k i'. dict_get (es_idempotency s') k = Some i' \<longrightarrow>
          id_fingerprint_version i' = REQUEST_FINGERPRINT_VERSION
          \<or> (\<exists>i. dict_get (es_idempotency s) k = Some i \<and> id_fingerprint_version i' = id_fingerprint_version i))"

lemma advances_refl [simp]: "advances s s"
  by (simp add: advances_def)

lemma advances_fingerprint:
  "advances s s' \<Longrightarrow> dict_get (es_idempotency s') k = Some i' \<Longrightarrow>
     id_fingerprint_version i' = REQUEST_FINGERPRINT_VERSION
     \<or> (\<exists>i. dict_get (es_idempotency s) k = Some i \<and> id_fingerprint_version i' = id_fingerprint_version i)"
  unfolding advances_def by metis

lemma advances_request:
  "advances s s' \<Longrightarrow> dict_get (es_requests s) q = Some r \<Longrightarrow>
     \<exists>r'. dict_get (es_requests s') q = Some r' \<and> rq_record r' = rq_record r
       \<and> rq_database_id r' = rq_database_id r \<and> (rq_status r = ''in_progress'' \<or> r' = r)"
  unfolding advances_def by blast

lemma advances_version:
  "advances s s' \<Longrightarrow> dict_get (es_idempotency s) k = Some i \<Longrightarrow>
     \<exists>i'. dict_get (es_idempotency s') k = Some i' \<and> id_claim_version i \<le> id_claim_version i'"
  unfolding advances_def by blast

lemma advances_active:
  "advances s s' \<Longrightarrow> dict_get (es_idempotency s') k = Some i \<Longrightarrow> id_status i = ''in_progress'' \<Longrightarrow>
     dict_get (es_idempotency s) k = Some i \<or> dict_get (es_requests s) (id_owner_request_id i) = None"
  unfolding advances_def by metis

lemma advances_none:
  "advances s s' \<Longrightarrow> dict_get (es_requests s') q = None \<Longrightarrow> dict_get (es_requests s) q = None"
  using advances_request[of s s' q] by (cases "dict_get (es_requests s) q") auto

lemma advances_trans [trans]:
  assumes "advances s s'" "advances s' s''"
  shows "advances s s''"
  unfolding advances_def
proof (intro conjI)
  show "\<forall>q r. dict_get (es_requests s) q = Some r \<longrightarrow>
        (\<exists>r'. dict_get (es_requests s'') q = Some r' \<and> rq_record r' = rq_record r
           \<and> rq_database_id r' = rq_database_id r \<and> (rq_status r = ''in_progress'' \<or> r' = r))"
  proof (intro allI impI)
    fix q r assume "dict_get (es_requests s) q = Some r"
    from advances_request[OF assms(1) this] obtain r' where r': "dict_get (es_requests s') q = Some r'"
      "rq_record r' = rq_record r" "rq_database_id r' = rq_database_id r" "rq_status r = ''in_progress'' \<or> r' = r"
      by blast
    from advances_request[OF assms(2) r'(1)] r'(2-4)
    show "\<exists>r'. dict_get (es_requests s'') q = Some r' \<and> rq_record r' = rq_record r
           \<and> rq_database_id r' = rq_database_id r \<and> (rq_status r = ''in_progress'' \<or> r' = r)" by auto
  qed
  show "\<forall>q v. dict_get (es_runs s) q = Some v \<longrightarrow> dict_get (es_runs s'') q = Some v"
    using assms unfolding advances_def by blast
  show "prefix (es_audits s) (es_audits s'')"
    using assms unfolding advances_def by (meson prefix_order.order_trans)
  show "\<forall>k i. dict_get (es_idempotency s) k = Some i \<longrightarrow>
          (\<exists>i'. dict_get (es_idempotency s'') k = Some i' \<and> id_claim_version i \<le> id_claim_version i')"
    using advances_version[OF assms(1)] advances_version[OF assms(2)] by (meson order_trans)
  show "\<forall>k i. dict_get (es_idempotency s'') k = Some i \<longrightarrow> id_status i = ''in_progress'' \<longrightarrow>
          dict_get (es_idempotency s) k = Some i \<or> dict_get (es_requests s) (id_owner_request_id i) = None"
  proof (intro allI impI)
    fix k i assume i: "dict_get (es_idempotency s'') k = Some i" "id_status i = ''in_progress''"
    then have "dict_get (es_idempotency s') k = Some i \<or> dict_get (es_requests s') (id_owner_request_id i) = None"
      by (rule advances_active[OF assms(2)])
    then show "dict_get (es_idempotency s) k = Some i \<or> dict_get (es_requests s) (id_owner_request_id i) = None"
      using advances_active[OF assms(1) _ i(2)] advances_none[OF assms(1)] by metis
  qed
  show "\<forall>k i'. dict_get (es_idempotency s'') k = Some i' \<longrightarrow>
          id_fingerprint_version i' = REQUEST_FINGERPRINT_VERSION
          \<or> (\<exists>i. dict_get (es_idempotency s) k = Some i \<and> id_fingerprint_version i' = id_fingerprint_version i)"
    using advances_fingerprint[OF assms(1)] advances_fingerprint[OF assms(2)] by metis
qed

section \<open>The operations\<close>

text \<open>An operation that leaves the claims alone.\<close>

lemma advances_rows:
  assumes "es_idempotency s' = es_idempotency s"
    "\<And>q r. dict_get (es_requests s) q = Some r \<Longrightarrow>
        \<exists>r'. dict_get (es_requests s') q = Some r' \<and> rq_record r' = rq_record r
           \<and> rq_database_id r' = rq_database_id r \<and> (rq_status r = ''in_progress'' \<or> r' = r)"
    "\<And>q v. dict_get (es_runs s) q = Some v \<Longrightarrow> dict_get (es_runs s') q = Some v"
    "prefix (es_audits s) (es_audits s')"
  shows "advances s s'"
  using assms unfolding advances_def by (intro conjI) (blast intro: order_refl | simp)+

lemma insert_request_advances: "insert_request r s = (Inr ref, s') \<Longrightarrow> advances s s'"
  by (rule advances_rows) (auto dest!: insert_request_Inr)

lemma insert_run_advances: "insert_run r s = (Inr n, s') \<Longrightarrow> advances s s'"
  by (rule advances_rows) (auto dest!: insert_run_Inr)

lemma insert_audit_advances: "insert_audit e s = (Inr n, s') \<Longrightarrow> advances s s'"
  by (rule advances_rows) (auto dest!: insert_audit_Inr)

lemma finalize_request_advances: "finalize_request ref st t fc s = (Inr x, s') \<Longrightarrow> advances s s'"
  by (rule advances_rows) (auto dest!: finalize_request_Inr)

lemmas op_advances = insert_request_advances insert_run_advances insert_audit_advances finalize_request_advances

lemma put_advances:
  assumes "same_rows s s'" "es_idempotency s' = dict_set k i' (es_idempotency s)"
    "\<And>i. dict_get (es_idempotency s) k = Some i \<Longrightarrow> id_claim_version i \<le> id_claim_version i'"
    "id_status i' = ''in_progress'' \<Longrightarrow> dict_get (es_requests s) (id_owner_request_id i') = None"
    "id_fingerprint_version i' = REQUEST_FINGERPRINT_VERSION
     \<or> (\<exists>i. dict_get (es_idempotency s) k = Some i \<and> id_fingerprint_version i' = id_fingerprint_version i)"
  shows "advances s s'"
  unfolding advances_def
proof (intro conjI)
  show "\<forall>k i. dict_get (es_idempotency s) k = Some i \<longrightarrow>
          (\<exists>i'. dict_get (es_idempotency s') k = Some i' \<and> id_claim_version i \<le> id_claim_version i')"
    using assms(2,3) by simp
  show "\<forall>k i. dict_get (es_idempotency s') k = Some i \<longrightarrow> id_status i = ''in_progress'' \<longrightarrow>
          dict_get (es_idempotency s) k = Some i \<or> dict_get (es_requests s) (id_owner_request_id i) = None"
    using assms(2,4) by auto
  show "\<forall>j j'. dict_get (es_idempotency s') j = Some j' \<longrightarrow>
          id_fingerprint_version j' = REQUEST_FINGERPRINT_VERSION
          \<or> (\<exists>i. dict_get (es_idempotency s) j = Some i \<and> id_fingerprint_version j' = id_fingerprint_version i)"
    using assms(2,5) by auto
qed (use assms(1) in \<open>auto simp: same_rows_def\<close>)

lemma takes_advances:
  assumes "takes now request d s s'" "dict_get (es_requests s) (cr_owner_request_id request) = None"
    "cr_fingerprint_version request = REQUEST_FINGERPRINT_VERSION"
  shows "advances s s'"
proof -
  from assms(1) obtain item where item:
    "es_idempotency s' = dict_set (scope_key (cr_scope request)) item (es_idempotency s)"
    "id_owner_request_id item = cr_owner_request_id request"
    "id_claim_version item = (case dict_get (es_idempotency s) (scope_key (cr_scope request)) of
             None \<Rightarrow> 1 | Some old \<Rightarrow> id_claim_version old + 1)"
    "id_fingerprint_version item = cr_fingerprint_version request"
    unfolding takes_def by blast
  show ?thesis
    by (rule put_advances[OF takes_same_rows[OF assms(1)] item(1)]) (use item assms(2,3) in auto)
qed

end
