(* ===== verification/Transactions.thy ===== *)
theory Transactions
  imports Idempotent_Service Store_History
begin

text \<open>
  The transactions of the two services, seen from the committed state: \<open>publishes m w s\<close> says that
  running \<open>m\<close> in \<open>w\<close> replaces the committed state by \<open>s\<close>. A transaction block that publishes has
  run every one of its repository operations, in order and without an error.
\<close>

definition publishes :: "'a prog \<Rightarrow> world \<Rightarrow> execution_state \<Rightarrow> bool" where
  "publishes m w s \<longleftrightarrow> w_state (snd (m w)) = s \<and> s \<noteq> w_state w"

lemma stages_not_publishes: "stages m \<Longrightarrow> \<not> publishes m w s"
  unfolding stages_def publishes_def by blast

lemma publishes_bind:
  assumes "stages m" "publishes (bind_op m f) w s"
  obtains x w1 where "m w = (Inr x, w1)" "publishes (f x) w1 s"
proof (cases "m w")
  case (Pair r w1)
  have same: "w_state w1 = w_state w" using assms(1) Pair unfolding stages_def by (metis snd_conv)
  show thesis
  proof (cases r)
    case (Inl e)
    then show ?thesis using assms(2) Pair same by (auto simp: publishes_def bind_op_def)
  next
    case (Inr x)
    then show ?thesis using assms(2) Pair same that by (simp add: publishes_def bind_op_def)
  qed
qed

lemma publishes_bind_iff:
  assumes "stages m"
  shows "publishes (bind_op m f) w s \<longleftrightarrow>
    (\<exists>x w1. m w = (Inr x, w1) \<and> w_state w1 = w_state w \<and> publishes (f x) w1 s)"
proof
  assume pub: "publishes (bind_op m f) w s"
  from publishes_bind[OF assms pub] obtain x w1 where "m w = (Inr x, w1)" "publishes (f x) w1 s" by blast
  moreover from this(1) assms have "w_state w1 = w_state w" unfolding stages_def by (metis snd_conv)
  ultimately show "\<exists>x w1. m w = (Inr x, w1) \<and> w_state w1 = w_state w \<and> publishes (f x) w1 s" by blast
qed (auto simp: publishes_def bind_op_def)

lemma publishes_commit: "publishes commit w s \<Longrightarrow> s = w_staged w"
  by (auto simp: publishes_def commit_def Let_def split: if_splits)

lemma publishes_commit_bind:
  assumes "publishes (bind_op commit f) w s" "\<And>x. stages (f x)"
  shows "s = w_staged w"
proof (cases "commit w")
  case (Pair r w1)
  have "w_state (snd (f x w1)) = w_state w1" for x using assms(2) unfolding stages_def by blast
  then have "publishes commit w s"
    using assms(1) Pair by (auto simp: publishes_def bind_op_def split: sum.splits)
  then show ?thesis by (rule publishes_commit)
qed

lemma stages_rollback_bind: "(\<And>x. stages (f x)) \<Longrightarrow> \<not> publishes (bind_op rollback f) w s"
  by (auto simp: publishes_def bind_op_def rollback_def stages_def split: if_splits)

lemma publishes_uow: "publishes (with_uow body) w s \<Longrightarrow> publishes body (enter_uow w) s"
  by (auto simp: publishes_def with_uow_def enter_uow_def exit_uow_def Let_def split: prod.splits if_splits)

lemma publishes_if: "publishes (if c then a else b) w s \<Longrightarrow> c \<and> publishes a w s \<or> \<not> c \<and> publishes b w s"
  by (cases c) simp_all

section \<open>One operation\<close>

text \<open>\<open>same_env w w'\<close>: the two worlds read the same clocks.\<close>

definition same_env :: "world \<Rightarrow> world \<Rightarrow> bool" where
  "same_env w w' \<longleftrightarrow> w_database_clock w' = w_database_clock w \<and> w_clock w' = w_clock w"

lemma same_env_refl [simp]: "same_env w w"
  by (simp add: same_env_def)

lemma enter_uow_sel [simp]: "w_staged (enter_uow w) = w_state w" "same_env w (enter_uow w)"
  by (simp_all add: enter_uow_def same_env_def)

lemma on_staged_Inr:
  "on_staged f w = (Inr x, w') \<longleftrightarrow> (\<exists>s. f (w_staged w) = (Inr x, s) \<and> w' = w\<lparr>w_staged := s\<rparr>)"
  by (auto simp: on_staged_def split: prod.splits)

lemma repository_call_Inr:
  "repository_call name f w = (Inr x, w') \<Longrightarrow> f (w_staged w) = (Inr x, w_staged w') \<and> same_env w w'"
  by (auto simp: repository_call_def active_repository_def record_operation_def on_staged_Inr same_env_def
      bind_op_Inr_iff Let_def split: if_splits)

lemma idempotency_call_Inr:
  "idempotency_call f w = (Inr x, w') \<Longrightarrow> f (w_staged w) = (Inr x, w_staged w') \<and> same_env w w'"
  by (auto simp: idempotency_call_def active_repository_def on_staged_Inr same_env_def
      bind_op_Inr_iff split: if_splits)

lemma claim_Inr:
  "claim request w = (Inr d, w') \<Longrightarrow>
     \<exists>n. claim_at (w_database_clock w n) request (w_staged w) = (Inr d, w_staged w') \<and> same_env w w'"
  by (auto simp: claim_def active_repository_def database_now_def on_staged_Inr same_env_def
      bind_op_Inr_iff split: if_splits)

lemma complete_claim_Inr:
  "complete_claim token i snap v ttl w = (Inr x, w') \<Longrightarrow>
     \<exists>n. complete_fenced (w_database_clock w n) token i snap v ttl (w_staged w) = (Inr (), w_staged w')
       \<and> same_env w w'"
  by (auto simp: complete_claim_def check_current_owner_def idempotency_call_def active_repository_def
      assert_current_owner_def database_now_def on_staged_Inr same_env_def bind_op_Inr_iff
      split: if_splits)

lemma fail_claim_Inr:
  "fail_claim token ttl w = (Inr x, w') \<Longrightarrow>
     \<exists>n. fail_fenced (w_database_clock w n) token ttl (w_staged w) = (Inr (), w_staged w') \<and> same_env w w'"
  by (auto simp: fail_claim_def check_current_owner_def idempotency_call_def active_repository_def
      assert_current_owner_def database_now_def on_staged_Inr same_env_def bind_op_Inr_iff
      split: if_splits)

lemma staged_unchanged:
  "fresh_event_id w = (Inr x, w') \<Longrightarrow> w_staged w' = w_staged w \<and> same_env w w'"
  "fresh_run_id w = (Inr y, w') \<Longrightarrow> w_staged w' = w_staged w \<and> same_env w w'"
  "lift_res r w = (Inr z, w') \<Longrightarrow> r = Inr z \<and> w' = w"
  "ret a w = (Inr b, w') \<Longrightarrow> b = a \<and> w' = w"
  by (auto simp: fresh_event_id_def fresh_run_id_def same_env_def)

lemma lock_request_Inr:
  "lock_request q s = (Inr ref, s') \<Longrightarrow> s' = s \<and> (\<exists>row. dict_get (es_requests s) q = Some row
     \<and> rq_status row = ''in_progress'' \<and> rf_request_id ref = q \<and> rf_database_id ref = rq_database_id row)"
  by (auto simp: lock_request_def split: option.splits if_splits)

lemma assert_current_owner_Inr:
  "assert_current_owner token s = (Inr x, s') \<Longrightarrow> s' = s \<and> (\<exists>item. owned_item token s = Some item)"
  by (auto simp: assert_current_owner_def split: if_splits)

lemma owned_item_Some:
  "owned_item token s = Some item \<Longrightarrow> dict_get (es_idempotency s) (scope_key (ct_scope token)) = Some item
     \<and> id_status item = ''in_progress'' \<and> id_owner_request_id item = ct_owner_request_id token
     \<and> id_claim_version item = ct_claim_version token"
  by (auto simp: owned_item_def owns_def split: option.splits if_splits)

section \<open>Transaction A\<close>

lemma audit_event_Inr:
  "audit_event context event_id event_type outcome details t = Inr e \<Longrightarrow>
     ae_request_id e = Some (cx_request_id context) \<and> ae_event_type e = event_type"
  by (auto simp: audit_event_def check_new_audit_event_def bind_res_Inr_iff)

lemma audit_request_accepted_Inr:
  "audit_request_accepted context event_id operation t io cv rc er = Inr e \<Longrightarrow>
     ae_request_id e = Some (cx_request_id context) \<and> ae_event_type e = ''request_accepted''"
  unfolding audit_request_accepted_def by (rule audit_event_Inr)

lemma terminal_audit_Inr:
  "audit_of_result result event_id run_id t = Inr e \<Longrightarrow>
     ae_request_id e = Some (cx_request_id (ar_context result)) \<and> ae_event_type e \<in> terminal_events"
  "audit_request_failed context event_id run_id code t = Inr e \<Longrightarrow>
     ae_request_id e = Some (cx_request_id context) \<and> ae_event_type e \<in> terminal_events"
  "audit_request_replayed context event_id operation t = Inr e \<Longrightarrow>
     ae_request_id e = Some (cx_request_id context) \<and> ae_event_type e \<in> terminal_events"
  "audit_lease_reclaimed context old event_id run_id v t = Inr e \<Longrightarrow>
     ae_request_id e = Some (rf_request_id old) \<and> ae_event_type e \<in> terminal_events"
  by (auto simp: audit_of_result_def audit_policy_blocked_def audit_request_completed_def
      audit_request_failed_def audit_request_replayed_def audit_lease_reclaimed_def check_new_audit_event_def
      bind_res_Inr_iff dest!: audit_event_Inr split: if_splits)

lemma run_mappers_Inr:
  "run_completed sha result ref run_id t1 t2 = Inr v \<Longrightarrow>
     nu_original_request_record_id v = rf_database_id ref \<and> nu_status v \<in> {''completed'', ''blocked''}"
  "run_failed context ref run_id code t1 t2 = Inr v \<Longrightarrow>
     nu_original_request_record_id v = rf_database_id ref \<and> nu_status v = ''failed''"
  "run_lease_reclaimed ref run_id t = Inr v \<Longrightarrow>
     nu_original_request_record_id v = rf_database_id ref \<and> nu_status v = ''failed''"
  by (auto simp: run_completed_def run_failed_def run_lease_reclaimed_def failed_run_def run_outcome_def
      check_new_agent_run_def bind_res_Inr_iff split: if_splits)

lemmas call_defs = create_request_def create_run_def create_audit_event_def finalize_request_completed_def
  finalize_request_failed_def get_request_for_update_def check_current_owner_def

text \<open>The store operations behind the calls of one program.\<close>

lemmas call_dests = repository_call_Inr idempotency_call_Inr staged_unchanged

lemma accept_request_publishes:
  assumes ok: "store_ok (w_state w)" and pub: "publishes (accept_request context operation r t) w s"
    and r: "nr_request_id r = cx_request_id context" "nr_status r = ''in_progress''" "nr_replayed_from r = None"
  shows "store_ok s \<and> advances (w_state w) s"
proof -
  from pub obtain ref w1 event_id w2 e n w3 where run:
    "create_request r (enter_uow w) = (Inr ref, w1)" "fresh_event_id w1 = (Inr event_id, w2)"
    "audit_request_accepted context event_id operation t None None False False = Inr e"
    "create_audit_event e w2 = (Inr n, w3)" "s = w_staged w3"
    unfolding accept_request_def
    by (auto simp: publishes_bind_iff stages_intros simp del: enter_uow_sel dest!: publishes_uow publishes_commit_bind)
  from run(1,2,4) have ops: "insert_request r (w_state w) = (Inr ref, w_staged w1)"
    "insert_audit e (w_staged w1) = (Inr n, s)"
    using run(5) unfolding call_defs by (auto dest!: call_dests)
  note e = audit_request_accepted_Inr[OF run(3)]
  have "store_ok s"
    using accept_keeps[OF store_ok_but_mono[OF ok, of "{}"] ops r(2,3)] e r(1) by (simp add: store_ok_but_empty)
  moreover have "advances (w_state w) s" using ops op_advances(1,3) advances_trans by blast
  ultimately show ?thesis by blast
qed

lemma finalize_reclaimed_owner_Inr:
  assumes "finalize_reclaimed_owner context decision t w = (Inr x, w')"
  obtains old v n1 s1 s2 e n2 where "cd_reclaimed_request decision = Some old"
    "insert_run v (w_staged w) = (Inr n1, s1)" "nu_original_request_record_id v = rf_database_id old"
    "nu_status v = ''failed''"
    "finalize_request old ''failed'' t (Some ''idempotency_lease_reclaimed'') s1 = (Inr (), s2)"
    "insert_audit e s2 = (Inr n2, w_staged w')" "ae_request_id e = Some (rf_request_id old)"
    "ae_event_type e \<in> terminal_events" "same_env w w'"
proof -
  have code: "require_failure_code ''idempotency_lease_reclaimed'' = Inr ''idempotency_lease_reclaimed''"
    by (simp add: require_failure_code_def FAILURE_CODES_def)
  from assms obtain old token where d: "cd_reclaimed_request decision = Some old" "cd_token decision = Some token"
    by (auto simp: finalize_reclaimed_owner_def split: option.splits)
  from assms d code obtain run_id w1 v n1 w2 w3 event_id w4 e n2 where run:
    "fresh_run_id w = (Inr run_id, w1)" "run_lease_reclaimed old run_id t = Inr v" "create_run v w1 = (Inr n1, w2)"
    "finalize_request_failed old t ''idempotency_lease_reclaimed'' w2 = (Inr (), w3)"
    "fresh_event_id w3 = (Inr event_id, w4)"
    "audit_lease_reclaimed context old event_id run_id (ct_claim_version token) t = Inr e"
    "create_audit_event e w4 = (Inr n2, w')"
    by (auto simp: finalize_reclaimed_owner_def bind_op_Inr_iff)
  then have "insert_run v (w_staged w) = (Inr n1, w_staged w2)"
    "finalize_request old ''failed'' t (Some ''idempotency_lease_reclaimed'') (w_staged w2) = (Inr (), w_staged w3)"
    "insert_audit e (w_staged w3) = (Inr n2, w_staged w')" "same_env w w'"
    unfolding call_defs by (auto dest!: call_dests simp: same_env_def)
  with d(1) run_mappers_Inr(3)[OF run(2)] terminal_audit_Inr(4)[OF run(6)] show thesis using that by blast
qed

text \<open>The part of transaction A that both the new and the reclaimed claims share.\<close>

lemma accept_claimed_publishes:
  assumes ok: "store_ok s" and takes: "takes now request decision s (w_staged w)"
    and rec: "cd_outcome decision = RECLAIMED \<longrightarrow> reclaims request decision s"
    and pub: "publishes (accept_claimed context operation r decision t) w s'"
    and r: "nr_request_id r = cx_request_id context" "cx_request_id context \<noteq> []"
      "cr_owner_request_id request = cx_request_id context"
      "nr_status r = ''in_progress''" "nr_replayed_from r = None"
      "cr_fingerprint_version request = REQUEST_FINGERPRINT_VERSION"
  shows "store_ok s' \<and> advances s s'"
proof -
  from takes obtain token where token: "cd_token decision = Some token" by (auto elim: takes_item)
  have stages: "stages (if c then finalize_reclaimed_owner context decision t else ret ())" for c
    unfolding finalize_reclaimed_owner_def by (auto intro!: stages_intros split: option.splits)
  from pub token obtain x w1 ref w2 event_id w3 e n w4 where run:
    "(if cd_outcome decision = RECLAIMED then finalize_reclaimed_owner context decision t else ret ()) w = (Inr x, w1)"
    "create_request r w1 = (Inr ref, w2)" "fresh_event_id w2 = (Inr event_id, w3)"
    "audit_request_accepted context event_id operation t
       (Some (claim_outcome_value (cd_outcome decision))) (Some (ct_claim_version token))
       (cd_outcome decision = RECLAIMED) (cd_expired_reuse decision) = Inr e"
    "create_audit_event e w3 = (Inr n, w4)" "s' = w_staged w4"
    unfolding accept_claimed_def
    by (auto simp: publishes_bind_iff stages stages_intros simp del: enter_uow_sel dest!: publishes_commit_bind)
  have ops: "insert_request r (w_staged w1) = (Inr ref, w_staged w2)" "insert_audit e (w_staged w2) = (Inr n, s')"
    using run(2,3,5,6) unfolding call_defs by (auto dest!: call_dests)
  note e = audit_request_accepted_Inr[OF run(4)]
  have fresh1: "dict_get (es_requests (w_staged w1)) (nr_request_id r) = None" using insert_request_Inr[OF ops(1)] by simp
  note rest = op_advances(1)[OF ops(1)] op_advances(3)[OF ops(2)]
  show ?thesis
  proof (cases "cd_outcome decision = RECLAIMED")
    case False
    then have w1: "w1 = w" using run(1) by simp
    then have "store_ok s'"
      using acquire_keeps[OF ok takes _ _ r(4,5) _ ops(2)] ops(1) e r(1-3) by simp
    moreover have "dict_get (es_requests s) (cr_owner_request_id request) = None"
      using fresh1 w1 takes_same_rows[OF takes] r(1,3) by (simp add: same_rows_def)
    ultimately show ?thesis using takes_advances[OF takes _ r(6)] rest w1 advances_trans by blast
  next
    case True
    then have fin: "finalize_reclaimed_owner context decision t w = (Inr x, w1)" using run(1) by simp
    from fin obtain old v n1 s1 s2 e' n2 where f: "cd_reclaimed_request decision = Some old"
      "insert_run v (w_staged w) = (Inr n1, s1)" "nu_original_request_record_id v = rf_database_id old"
      "nu_status v = ''failed''"
      "finalize_request old ''failed'' t (Some ''idempotency_lease_reclaimed'') s1 = (Inr (), s2)"
      "insert_audit e' s2 = (Inr n2, w_staged w1)" "ae_request_id e' = Some (rf_request_id old)"
      "ae_event_type e' \<in> terminal_events" by (rule finalize_reclaimed_owner_Inr)
    have own: "cr_owner_request_id request = nr_request_id r" "nr_request_id r \<noteq> []"
      and e': "ae_request_id e = Some (nr_request_id r)" "ae_event_type e = ''request_accepted''"
      using r(1-3) e by simp_all
    have "reclaims request decision s" using rec True by blast
    from reclaim_keeps[OF ok takes this f own r(4,5) ops e'] have "store_ok s'" .
    moreover have mid: "advances (w_staged w) (w_staged w1)"
      using op_advances(2)[OF f(2)] op_advances(4)[OF f(5)] op_advances(3)[OF f(6)] advances_trans by blast
    moreover have "dict_get (es_requests s) (cr_owner_request_id request) = None"
      using advances_none[OF mid fresh1] takes_same_rows[OF takes] own(1) by (simp add: same_rows_def)
    ultimately show ?thesis using takes_advances[OF takes _ r(6)] rest advances_trans by blast
  qed
qed

lemma accept_replay_publishes:
  assumes ok: "store_ok s" and src: "dict_get (es_requests s) q = Some x"
      "cd_original_request_record_id decision = Some (rq_database_id x)" "nr_replayed_from (rq_record x) = None"
    and w: "w_staged w = s"
    and pub: "publishes (accept_replay S request context operation creq decision t) w s'"
  shows "store_ok s' \<and> advances s s'"
proof -
  from pub obtain result r ref w1 event_id w2 e n w3 where run:
    "map_request (sv_sha S) (sv_float S) context operation (ur_text request)
       (map_option task_value (ur_task_override request)) (ur_session_id request) t
       \<lparr>mo_idempotency_key_hash = Some (is_key_hash (cr_scope creq)), mo_status = ''completed'',
        mo_replayed_from = cd_original_request_record_id decision, mo_completed_at = Some t\<rparr> = Inr r"
    "create_request r w = (Inr ref, w1)" "fresh_event_id w1 = (Inr event_id, w2)"
    "audit_request_replayed context event_id operation t = Inr e"
    "create_audit_event e w2 = (Inr n, w3)" "s' = w_staged w3"
    unfolding accept_replay_def
    by (auto simp: publishes_bind_iff stages_intros simp del: enter_uow_sel dest!: publishes_commit_bind)
  have ops: "insert_request r s = (Inr ref, w_staged w1)" "insert_audit e (w_staged w1) = (Inr n, s')"
    using run(2,3,5,6) w unfolding call_defs by (auto dest!: call_dests)
  note r = map_request_Inr[OF run(1)] and e = terminal_audit_Inr(3)[OF run(4)]
  have "store_ok s'"
    using replay_keeps[OF store_ok_but_mono[OF ok, of "{}"] ops _ _ src(1) refl src(3)] r e src(2)
    by (simp add: store_ok_but_empty)
  moreover have "advances s s'" using op_advances(1)[OF ops(1)] op_advances(3)[OF ops(2)] advances_trans by blast
  ultimately show ?thesis by blast
qed

definition utc_clock :: "world \<Rightarrow> bool" where
  "utc_clock w \<longleftrightarrow> (\<forall>n. utc_offset (w_database_clock w n) = Some 0)"

text \<open>The arguments with which \<open>execute\<close> calls \<open>_claim_and_accept\<close>.\<close>

definition claim_matches :: "request_context \<Rightarrow> new_agent_request \<Rightarrow> claim_request \<Rightarrow> bool" where
  "claim_matches context r creq \<longleftrightarrow>
     nr_request_id r = cx_request_id context \<and> cx_request_id context \<noteq> []
     \<and> cr_owner_request_id creq = cx_request_id context
     \<and> cr_fingerprint_version creq = REQUEST_FINGERPRINT_VERSION
     \<and> nr_status r = ''in_progress'' \<and> nr_replayed_from r = None"

lemma claim_and_accept_publishes:
  assumes ok: "store_ok (w_state w)" and clock: "utc_clock w" and fv: "fingerprint_version_ok creq (w_state w)"
    and m: "claim_matches context r creq"
    and pub: "publishes (claim_and_accept S request context operation r creq t) w s"
  shows "store_ok s \<and> advances (w_state w) s"
proof -
  let ?s = "w_state w"
  obtain d w1 where claim: "claim creq (enter_uow w) = (Inr d, w1)"
    and rest: "publishes (if cd_outcome d \<in> {ACQUIRED, RECLAIMED}
       then accept_claimed context operation r d t
       else if cd_outcome d = REPLAY
       then accept_replay S request context operation creq d t
       else bind_op rollback (\<lambda>_. ret (Answered (refusal context d)))) w1 s"
    by (rule publishes_bind[OF stages_calls(9) publishes_uow[OF pub[unfolded claim_and_accept_def]]])
  from claim_Inr[OF claim] obtain n where c: "claim_at (w_database_clock w n) creq ?s = (Inr d, w_staged w1)"
    by (auto simp: enter_uow_def)
  have "utc_offset (w_database_clock w n) = Some 0" using clock by (simp add: utc_clock_def)
  note cases = claim_effect[OF ok this fv c, unfolded claim_contract_def]
  consider (take) "cd_outcome d \<in> {ACQUIRED, RECLAIMED}" | (replay) "cd_outcome d = REPLAY"
    | (refuse) "cd_outcome d \<notin> {ACQUIRED, RECLAIMED, REPLAY}" by blast
  then show ?thesis
  proof cases
    case take
    then have "publishes (accept_claimed context operation r d t) w1 s" using rest by simp
    moreover have "takes (w_database_clock w n) creq d ?s (w_staged w1)"
      "cd_outcome d = RECLAIMED \<longrightarrow> reclaims creq d ?s" using cases take by blast+
    ultimately show ?thesis
      using accept_claimed_publishes[OF ok, where decision = d and w = w1] m unfolding claim_matches_def by blast
  next
    case replay
    then have "publishes (accept_replay S request context operation creq d t) w1 s" using rest by simp
    moreover from cases replay obtain k x where "dict_get (es_requests ?s) k = Some x"
      "cd_original_request_record_id d = Some (rq_database_id x)" "nr_replayed_from (rq_record x) = None"
      "w_staged w1 = ?s" by auto
    ultimately show ?thesis using accept_replay_publishes[OF ok] by blast
  next
    case refuse
    then have "publishes (bind_op rollback (\<lambda>_. ret (Answered (refusal context d)))) w1 s" using rest by auto
    then show ?thesis by (simp add: stages_rollback_bind stages_basic)
  qed
qed

section \<open>Transaction B\<close>

lemma owned_item_mono:
  "es_idempotency s' = es_idempotency s \<Longrightarrow> owned_item token s' = owned_item token s"
  by (simp add: owned_item_def)

text \<open>The record that \<open>complete_fenced\<close> and \<open>fail_fenced\<close> write over the owned one.\<close>

definition completed_item :: "datetime \<Rightarrow> int \<Rightarrow> pyval \<Rightarrow> int \<Rightarrow> int \<Rightarrow> idempotency_row \<Rightarrow> idempotency_row" where
  "completed_item now run_id snapshot version ttl item =
     item\<lparr>id_status := ''completed'', id_completed_run_record_id := Some run_id,
          id_response_snapshot := Some snapshot, id_response_snapshot_version := Some version,
          id_updated_at := now, id_expires_at := add_seconds now ttl\<rparr>"

definition failed_item :: "datetime \<Rightarrow> int \<Rightarrow> idempotency_row \<Rightarrow> idempotency_row" where
  "failed_item now ttl item =
     item\<lparr>id_status := ''failed'', id_completed_run_record_id := None,
          id_response_snapshot := None, id_response_snapshot_version := None,
          id_updated_at := now, id_expires_at := add_seconds now ttl\<rparr>"

lemma complete_fenced_Inr:
  "complete_fenced now token run_id snapshot version ttl s = (Inr x, s') \<Longrightarrow>
     \<exists>item. owned_item token s = Some item
       \<and> s' = put_item (ct_scope token) (completed_item now run_id snapshot version ttl item) s"
  by (auto simp: complete_fenced_def completed_item_def split: option.splits)

lemma fail_fenced_Inr:
  "fail_fenced now token ttl s = (Inr x, s') \<Longrightarrow>
     \<exists>item. owned_item token s = Some item \<and> s' = put_item (ct_scope token) (failed_item now ttl item) s"
  by (auto simp: fail_fenced_def failed_item_def split: option.splits)

definition finished_item :: "claim_token \<Rightarrow> idempotency_row \<Rightarrow> idempotency_row \<Rightarrow> idempotency_status \<Rightarrow> bool" where
  "finished_item token item item' cl \<longleftrightarrow>
     id_scope item' = ct_scope token \<and> id_status item' \<noteq> ''in_progress''
     \<and> id_claim_version item' = id_claim_version item \<and> id_owner_request_id item' = id_owner_request_id item
     \<and> id_fingerprint_version item' = id_fingerprint_version item
     \<and> validate_idempotency (stored_of item' (ct_scope token)) = Inr cl"

lemma finished_items:
  assumes "id_scope item = ct_scope token" "1 \<le> id_claim_version item" "id_owner_request_id item \<noteq> []"
    "utc_offset (id_claimed_at item) = Some 0" "utc_offset (id_lease_expires_at item) = Some 0" "utc_offset now = Some 0"
  shows "finished_item token item (completed_item now n snap version ttl item) COMPLETED"
    "finished_item token item (failed_item now ttl item) FAILED"
  unfolding finished_item_def using assms
  by (intro conjI validate_stored; simp add: completed_item_def failed_item_def)+

lemma put_item_rows: "same_rows s (put_item sc item s)"
  "es_idempotency (put_item sc item s) = dict_set (scope_key sc) item (es_idempotency s)"
  by (simp_all add: same_rows_def put_item_def)

text \<open>What a stored claim says of its own times and versions.\<close>

lemma stored_claim_valid:
  assumes "store_ok s" "dict_get (es_idempotency s) k = Some i"
  shows "1 \<le> id_claim_version i \<and> id_owner_request_id i \<noteq> [] \<and> utc_offset (id_claimed_at i) = Some 0
    \<and> utc_offset (id_lease_expires_at i) = Some 0 \<and> k = scope_key (id_scope i)"
proof -
  have "claims_ok s" using assms(1) by (simp add: store_ok_def)
  then have "claim_ok (es_requests s) (es_runs s) i" "k = scope_key (id_scope i)"
    using assms(2) unfolding claims_ok_def by blast+
  then obtain st where "validate_idempotency (stored_of i (id_scope i)) = Inr st"
    by (auto simp: claim_ok_def split: sum.splits)
  from validate_ok[OF this] \<open>k = _\<close> show ?thesis by simp
qed

text \<open>The run, the final status, the audit event and the record of the claim, in one transaction.\<close>

lemma finish_publishes:
  assumes ok: "store_ok s" and now: "utc_offset now = Some 0"
    and item: "owned_item token s = Some item" and owner: "ct_owner_request_id token = rf_request_id ref"
    and row: "dict_get (es_requests s) (rf_request_id ref) = Some row" "rq_database_id row = rf_database_id ref"
    and run: "insert_run v s = (Inr n, s1)" "nu_original_request_record_id v = rf_database_id ref"
    and fin: "finalize_request ref st t fc s1 = (Inr x, s2)"
    and aud: "insert_audit e s2 = (Inr m, s3)"
      "ae_request_id e = Some (rf_request_id ref)" "ae_event_type e \<in> terminal_events"
    and st: "st = ''failed'' \<and> nu_status v = ''failed'' \<and> fc \<notin> {None, Some []}
        \<and> fail_fenced now token ttl s3 = (Inr y, s4)
      \<or> st = ''completed'' \<and> nu_status v \<in> {''completed'', ''blocked''}
        \<and> complete_fenced now token n snap version ttl s3 = (Inr y, s4)"
  shows "store_ok s4 \<and> advances s s4"
proof -
  note i = owned_item_Some[OF item]
  note valid = stored_claim_valid[OF ok conjunct1[OF i]]
  have scope: "id_scope item = ct_scope token" using valid by simp
  have idem: "es_idempotency s3 = es_idempotency s"
    using insert_run_Inr[OF run(1)] finalize_request_Inr[OF fin] insert_audit_Inr[OF aud(1)] by auto
  then have item3: "owned_item token s3 = Some item" using item owned_item_mono by metis
  note f = finished_items[OF scope _ _ _ _ now]
  have "\<exists>item' cl. s4 = put_item (ct_scope token) item' s3 \<and> finished_item token item item' cl
    \<and> (cl = COMPLETED \<and> id_completed_run_record_id item' = Some n
       \<or> cl = FAILED \<and> st = ''failed'' \<and> fc \<notin> {None, Some []})"
    using st
  proof
    assume *: "st = ''failed'' \<and> nu_status v = ''failed'' \<and> fc \<notin> {None, Some []} \<and> fail_fenced now token ttl s3 = (Inr y, s4)"
    then have "s4 = put_item (ct_scope token) (failed_item now ttl item) s3"
      using fail_fenced_Inr[of now token ttl s3 y s4] item3 by auto
    then show ?thesis using * f(2) valid by blast
  next
    assume *: "st = ''completed'' \<and> nu_status v \<in> {''completed'', ''blocked''}
      \<and> complete_fenced now token n snap version ttl s3 = (Inr y, s4)"
    then have "s4 = put_item (ct_scope token) (completed_item now n snap version ttl item) s3"
      using complete_fenced_Inr[of now token n snap version ttl s3 y s4] item3 by auto
    moreover have "id_completed_run_record_id (completed_item now n snap version ttl item) = Some n"
      by (simp add: completed_item_def)
    ultimately show ?thesis using f(1) valid by blast
  qed
  then obtain item' cl where new: "s4 = put_item (ct_scope token) item' s3" "finished_item token item item' cl"
    "cl = COMPLETED \<and> id_completed_run_record_id item' = Some n
       \<or> cl = FAILED \<and> st = ''failed'' \<and> fc \<notin> {None, Some []}"
    by blast
  note fi = new(2)[unfolded finished_item_def]
  have here: "dict_get (es_idempotency s) (scope_key (ct_scope token)) = Some item" "id_status item = ''in_progress''"
    "id_owner_request_id item = rf_request_id ref" using i owner by simp_all
  have st': "st = ''failed'' \<and> nu_status v = ''failed'' \<or> st = ''completed'' \<and> nu_status v \<in> {''completed'', ''blocked''}"
    using st by blast
  have "store_ok s4"
  proof (rule finish_keeps[OF ok here row run fin aud st'])
    show "cl = COMPLETED \<and> id_completed_run_record_id item' = Some n
       \<or> cl = FAILED \<and> id_owner_request_id item' = rf_request_id ref \<and> st = ''failed'' \<and> fc \<notin> {None, Some []}"
      using new(3) fi here(3) by auto
  qed (use fi new(1) put_item_rows in auto)
  moreover have "advances s3 s4"
    by (rule put_advances[where k = "scope_key (ct_scope token)" and i' = item'])
      (use new(1) fi here(1) idem put_item_rows in auto)
  ultimately show ?thesis
    using op_advances(2)[OF run(1)] op_advances(4)[OF fin] op_advances(3)[OF aud(1)] advances_trans by blast
qed

text \<open>
  \<open>ticket_ok s token ref\<close>: the claim token and the request reference that transaction A returned
  are for the same stored request.
\<close>

definition stored_ref :: "execution_state \<Rightarrow> request_ref \<Rightarrow> bool" where
  "stored_ref s ref \<longleftrightarrow>
     (\<exists>row. dict_get (es_requests s) (rf_request_id ref) = Some row \<and> rq_database_id row = rf_database_id ref
        \<and> nr_replayed_from (rq_record row) = None)"

definition ticket_ok :: "execution_state \<Rightarrow> claim_token \<Rightarrow> request_ref \<Rightarrow> bool" where
  "ticket_ok s token ref \<longleftrightarrow> ct_owner_request_id token = rf_request_id ref \<and> stored_ref s ref"

lemma stored_ref_locked:
  assumes "stored_ref s ref" "lock_request (rf_request_id ref) s = (Inr locked, s')"
  shows "s' = s" "rf_request_id locked = rf_request_id ref" "rf_database_id locked = rf_database_id ref"
    "\<exists>row. dict_get (es_requests s) (rf_request_id ref) = Some row \<and> rq_database_id row = rf_database_id ref
       \<and> nr_replayed_from (rq_record row) = None"
  using assms lock_request_Inr[OF assms(2)] by (auto simp: stored_ref_def)

lemma finalize_result_publishes:
  assumes ok: "store_ok (w_state w)" and clock: "utc_clock w" and ticket: "ticket_ok (w_state w) token ref"
    and id: "cx_request_id (ar_context result) = rf_request_id ref"
    and pub: "publishes (finalize_result S result ref token run_id t1 t2) w s"
  shows "store_ok s \<and> advances (w_state w) s"
proof -
  from pub obtain v event_id w1 e w2 locked w3 snap n w4 w5 m w6 w7 where run:
    "run_completed (sv_sha S) result ref run_id t1 t2 = Inr v" "fresh_event_id w = (Inr event_id, w1)"
    "w_state w1 = w_state w" "audit_of_result result event_id run_id t2 = Inr e"
    "check_current_owner token (enter_uow w1) = (Inr (), w2)"
    "get_request_for_update (rf_request_id ref) w2 = (Inr locked, w3)"
    "create_run v w3 = (Inr n, w4)" "finalize_request_completed locked t2 w4 = (Inr (), w5)"
    "create_audit_event e w5 = (Inr m, w6)"
    "complete_claim token n snap 1 (ip_replay_ttl_seconds (sv_policy S)) w6 = (Inr (), w7)" "s = w_staged w7"
    unfolding finalize_result_def
    by (auto simp: publishes_bind_iff stages_intros simp del: enter_uow_sel dest!: publishes_uow publishes_commit)
  have env: "same_env w w1" using staged_unchanged(1)[OF run(2)] by simp
  have own: "assert_current_owner token (w_state w) = (Inr (), w_staged w2)" "same_env w1 w2"
    using idempotency_call_Inr[OF run(5)[unfolded call_defs]] run(3) by (auto simp: enter_uow_def same_env_def)
  from assert_current_owner_Inr[OF own(1)] obtain item where s2: "w_staged w2 = w_state w"
    and item: "owned_item token (w_state w) = Some item" by blast
  have lock: "lock_request (rf_request_id ref) (w_state w) = (Inr locked, w_staged w3)" "same_env w2 w3"
    using repository_call_Inr[OF run(6)[unfolded call_defs]] s2 by simp_all
  note locked = stored_ref_locked[OF _ lock(1)]
  have ref: "stored_ref (w_state w) ref" using ticket by (simp add: ticket_ok_def)
  from locked(4)[OF ref] obtain row where row: "dict_get (es_requests (w_state w)) (rf_request_id locked) = Some row"
    "rq_database_id row = rf_database_id locked" using locked(2,3)[OF ref] by auto
  have ops: "insert_run v (w_state w) = (Inr n, w_staged w4)" "same_env w3 w4"
    "finalize_request locked ''completed'' t2 None (w_staged w4) = (Inr (), w_staged w5)" "same_env w4 w5"
    "insert_audit e (w_staged w5) = (Inr m, w_staged w6)" "same_env w5 w6"
    using run(7-9)[unfolded call_defs] locked(1)[OF ref] by (auto dest!: call_dests)
  from complete_claim_Inr[OF run(10)] obtain k where
    fenced: "complete_fenced (w_database_clock w6 k) token n snap 1 (ip_replay_ttl_seconds (sv_policy S)) (w_staged w6)
      = (Inr (), s)" using run(11) by blast
  have "utc_offset (w_database_clock w6 k) = Some 0"
    using clock env own(2) lock(2) ops(2,4,6) by (simp add: same_env_def utc_clock_def)
  from finish_publishes[OF ok this item _ row ops(1) _ ops(3,5)] fenced
  show ?thesis
    using run_mappers_Inr(1)[OF run(1)] terminal_audit_Inr(1)[OF run(4)] ticket id locked(2,3)[OF ref]
    by (simp add: ticket_ok_def)
qed

lemma finalize_failed_publishes:
  assumes ok: "store_ok (w_state w)" and clock: "utc_clock w" and ticket: "ticket_ok (w_state w) token ref"
    and id: "cx_request_id context = rf_request_id ref" and code: "code \<noteq> []"
    and pub: "publishes (finalize_failed S context ref token run_id code t1 t2) w s"
  shows "store_ok s \<and> advances (w_state w) s"
proof -
  from pub obtain v event_id w1 e w2 locked w3 n w4 w5 m w6 w7 where run:
    "run_failed context ref run_id code t1 t2 = Inr v" "fresh_event_id w = (Inr event_id, w1)"
    "w_state w1 = w_state w" "audit_request_failed context event_id run_id code t2 = Inr e"
    "check_current_owner token (enter_uow w1) = (Inr (), w2)"
    "get_request_for_update (rf_request_id ref) w2 = (Inr locked, w3)"
    "create_run v w3 = (Inr n, w4)" "finalize_request_failed locked t2 code w4 = (Inr (), w5)"
    "create_audit_event e w5 = (Inr m, w6)"
    "fail_claim token (ip_failure_ttl_seconds (sv_policy S)) w6 = (Inr (), w7)" "s = w_staged w7"
    unfolding finalize_failed_def
    by (auto simp: publishes_bind_iff stages_intros simp del: enter_uow_sel dest!: publishes_uow publishes_commit)
  have env: "same_env w w1" using staged_unchanged(1)[OF run(2)] by simp
  have own: "assert_current_owner token (w_state w) = (Inr (), w_staged w2)" "same_env w1 w2"
    using idempotency_call_Inr[OF run(5)[unfolded call_defs]] run(3) by (auto simp: enter_uow_def same_env_def)
  from assert_current_owner_Inr[OF own(1)] obtain item where s2: "w_staged w2 = w_state w"
    and item: "owned_item token (w_state w) = Some item" by blast
  have lock: "lock_request (rf_request_id ref) (w_state w) = (Inr locked, w_staged w3)" "same_env w2 w3"
    using repository_call_Inr[OF run(6)[unfolded call_defs]] s2 by simp_all
  note locked = stored_ref_locked[OF _ lock(1)]
  have ref: "stored_ref (w_state w) ref" using ticket by (simp add: ticket_ok_def)
  from locked(4)[OF ref] obtain row where row: "dict_get (es_requests (w_state w)) (rf_request_id locked) = Some row"
    "rq_database_id row = rf_database_id locked" using locked(2,3)[OF ref] by auto
  have ops: "insert_run v (w_state w) = (Inr n, w_staged w4)" "same_env w3 w4"
    "finalize_request locked ''failed'' t2 (Some code) (w_staged w4) = (Inr (), w_staged w5)" "same_env w4 w5"
    "insert_audit e (w_staged w5) = (Inr m, w_staged w6)" "same_env w5 w6"
    using run(7-9)[unfolded call_defs] locked(1)[OF ref] by (auto dest!: call_dests)
  from fail_claim_Inr[OF run(10)] obtain k where
    fenced: "fail_fenced (w_database_clock w6 k) token (ip_failure_ttl_seconds (sv_policy S)) (w_staged w6) = (Inr (), s)"
    using run(11) by blast
  have "utc_offset (w_database_clock w6 k) = Some 0"
    using clock env own(2) lock(2) ops(2,4,6) by (simp add: same_env_def utc_clock_def)
  from finish_publishes[OF ok this item _ row ops(1) _ ops(3,5)] fenced
  show ?thesis
    using run_mappers_Inr(2)[OF run(1)] terminal_audit_Inr(2)[OF run(4)] ticket id code locked(2,3)[OF ref]
    by (simp add: ticket_ok_def)
qed

section \<open>Transaction B of the durable service\<close>

definition unclaimed :: "execution_state \<Rightarrow> request_ref \<Rightarrow> bool" where
  "unclaimed s ref \<longleftrightarrow>
     (\<forall>k i. dict_get (es_idempotency s) k = Some i \<longrightarrow> id_status i = ''in_progress'' \<longrightarrow>
        id_owner_request_id i \<noteq> rf_request_id ref)"

lemma close_publishes:
  assumes ok: "store_ok s" and ref: "stored_ref s ref" "unclaimed s ref"
    and lock: "lock_request (rf_request_id ref) s = (Inr locked, s0)"
    and run: "insert_run v s0 = (Inr n, s1)" "nu_original_request_record_id v = rf_database_id ref"
    and fin: "finalize_request locked st t fc s1 = (Inr x, s2)"
    and aud: "insert_audit e s2 = (Inr m, s3)" "ae_request_id e = Some (rf_request_id ref)"
      "ae_event_type e \<in> terminal_events"
    and st: "st = ''failed'' \<and> nu_status v = ''failed'' \<or> st = ''completed'' \<and> nu_status v \<in> {''completed'', ''blocked''}"
  shows "store_ok s3 \<and> advances s s3"
proof -
  note l = stored_ref_locked[OF ref(1) lock]
  from l(4) obtain row where row: "dict_get (es_requests s) (rf_request_id locked) = Some row"
    "rq_database_id row = rf_database_id ref" "nr_replayed_from (rq_record row) = None" using l(2) by auto
  have run': "insert_run v s = (Inr n, s1)" "nu_original_request_record_id v = rq_database_id row"
    and aud': "ae_request_id e = Some (rf_request_id locked)" using run l(1,2) row(2) aud(2) by simp_all
  have owner: "id_owner_request_id i \<noteq> rf_request_id locked"
    if "k \<notin> {}" "dict_get (es_idempotency s) k = Some i" "id_status i = ''in_progress''" for k i
    using ref(2) that l(2) unfolding unclaimed_def by metis
  have "store_ok_but {} s3"
    by (rule conjunct1[OF close_keeps[OF store_ok_but_mono[OF ok] row(1,3) run' fin aud(1) aud' aud(3) st]])
      (rule owner)
  moreover have "advances s s3"
    using op_advances(2)[OF run'(1)] op_advances(4)[OF fin] op_advances(3)[OF aud(1)] advances_trans by blast
  ultimately show ?thesis by (simp add: store_ok_but_empty)
qed

lemma durable_finalize_result_publishes:
  assumes ok: "store_ok (w_state w)" and ref: "stored_ref (w_state w) ref" "unclaimed (w_state w) ref"
    and id: "cx_request_id (ar_context result) = rf_request_id ref"
    and pub: "publishes (durable_finalize_result S result ref run_id t1 t2) w s"
  shows "store_ok s \<and> advances (w_state w) s"
proof -
  from pub obtain v event_id w1 e locked w3 n w4 w5 m w6 where run:
    "run_completed (sv_sha S) result ref run_id t1 t2 = Inr v" "w_state w1 = w_state w"
    "audit_of_result result event_id run_id t2 = Inr e"
    "get_request_for_update (rf_request_id ref) (enter_uow w1) = (Inr locked, w3)"
    "create_run v w3 = (Inr n, w4)" "finalize_request_completed locked t2 w4 = (Inr (), w5)"
    "create_audit_event e w5 = (Inr m, w6)" "s = w_staged w6"
    unfolding durable_finalize_result_def
    by (auto simp: publishes_bind_iff stages_intros simp del: enter_uow_sel dest!: publishes_uow publishes_commit)
  have ops: "lock_request (rf_request_id ref) (w_state w) = (Inr locked, w_staged w3)"
    "insert_run v (w_staged w3) = (Inr n, w_staged w4)"
    "finalize_request locked ''completed'' t2 None (w_staged w4) = (Inr (), w_staged w5)"
    "insert_audit e (w_staged w5) = (Inr m, s)"
    using run(2,4-8) unfolding call_defs by (auto dest!: call_dests simp: enter_uow_def)
  from close_publishes[OF ok ref ops(1,2) _ ops(3,4)] show ?thesis
    using run_mappers_Inr(1)[OF run(1)] terminal_audit_Inr(1)[OF run(3)] id by simp
qed

lemma durable_finalize_failed_publishes:
  assumes ok: "store_ok (w_state w)" and ref: "stored_ref (w_state w) ref" "unclaimed (w_state w) ref"
    and id: "cx_request_id context = rf_request_id ref"
    and pub: "publishes (durable_finalize_failed context ref run_id code t1 t2) w s"
  shows "store_ok s \<and> advances (w_state w) s"
proof -
  from pub obtain v event_id w1 e locked w3 n w4 w5 m w6 where run:
    "run_failed context ref run_id code t1 t2 = Inr v" "w_state w1 = w_state w"
    "audit_request_failed context event_id run_id code t2 = Inr e"
    "get_request_for_update (rf_request_id ref) (enter_uow w1) = (Inr locked, w3)"
    "create_run v w3 = (Inr n, w4)" "finalize_request_failed locked t2 code w4 = (Inr (), w5)"
    "create_audit_event e w5 = (Inr m, w6)" "s = w_staged w6"
    unfolding durable_finalize_failed_def
    by (auto simp: publishes_bind_iff stages_intros simp del: enter_uow_sel dest!: publishes_uow publishes_commit)
  have ops: "lock_request (rf_request_id ref) (w_state w) = (Inr locked, w_staged w3)"
    "insert_run v (w_staged w3) = (Inr n, w_staged w4)"
    "finalize_request locked ''failed'' t2 (Some code) (w_staged w4) = (Inr (), w_staged w5)"
    "insert_audit e (w_staged w5) = (Inr m, s)"
    using run(2,4-8) unfolding call_defs by (auto dest!: call_dests simp: enter_uow_def)
  from close_publishes[OF ok ref ops(1,2) _ ops(3,4)] show ?thesis
    using run_mappers_Inr(2)[OF run(1)] terminal_audit_Inr(2)[OF run(3)] id by simp
qed

section \<open>What transaction A returns\<close>

lemma exit_uow_state [simp]: "w_state (exit_uow w) = w_state w"
  by (simp add: exit_uow_def Let_def)

lemma commit_Inr: "commit w = (Inr x, w') \<Longrightarrow> w_state w' = w_staged w"
  by (auto simp: commit_def Let_def split: if_splits)

lemma accept_request_Inr:
  assumes "accept_request context operation r t w = (Inr ref, w')" "nr_replayed_from r = None"
  shows "rf_request_id ref = nr_request_id r \<and> stored_ref (w_state w') ref"
proof -
  from assms(1) obtain w1 w2 event_id e n w3 w4 where run: "create_request r (enter_uow w) = (Inr ref, w1)"
    "fresh_event_id w1 = (Inr event_id, w2)" "create_audit_event e w2 = (Inr n, w3)" "commit w3 = (Inr (), w4)"
    "w_state w' = w_state w4"
    by (auto simp: accept_request_def with_uow_def bind_op_Inr_iff split: prod.splits)
  then have ops: "insert_request r (w_state w) = (Inr ref, w_staged w1)" "insert_audit e (w_staged w1) = (Inr n, w_staged w3)"
    unfolding call_defs by (auto dest!: call_dests)
  have "w_state w' = w_staged w3" using run(5) commit_Inr[OF run(4)] by simp
  then show ?thesis
    using insert_request_Inr[OF ops(1)] insert_audit_Inr[OF ops(2)] assms(2) by (simp add: stored_ref_def)
qed

lemma claim_and_accept_Inr:
  assumes res: "claim_and_accept S request context operation r creq t w = (Inr (Accepted token ref), w')"
    and ok: "store_ok (w_state w)" and clock: "utc_clock w" and fv: "fingerprint_version_ok creq (w_state w)"
    and m: "claim_matches context r creq"
  shows "rf_request_id ref = cx_request_id context \<and> ticket_ok (w_state w') token ref"
proof -
  let ?body = "\<lambda>d. if cd_outcome d \<in> {ACQUIRED, RECLAIMED}
       then accept_claimed context operation r d t
       else if cd_outcome d = REPLAY
       then accept_replay S request context operation creq d t
       else bind_op rollback (\<lambda>_. ret (Answered (refusal context d)))"
  from res obtain w0 where body: "bind_op (claim creq) ?body (enter_uow w) = (Inr (Accepted token ref), w0)"
    and w0: "w_state w' = w_state w0"
    unfolding claim_and_accept_def with_uow_def by (auto split: prod.splits)
  from body obtain d w1 where claim: "claim creq (enter_uow w) = (Inr d, w1)"
    and rest: "?body d w1 = (Inr (Accepted token ref), w0)"
    unfolding bind_op_Inr_iff by blast
  have "cd_outcome d \<in> {ACQUIRED, RECLAIMED}"
  proof (rule ccontr)
    assume no: "cd_outcome d \<notin> {ACQUIRED, RECLAIMED}"
    have "accept_replay S request context operation creq d t w1 \<noteq> (Inr (Accepted token ref), w0)"
      by (auto simp: accept_replay_def bind_op_Inr_iff)
    then show False using rest no by (auto simp: bind_op_Inr_iff split: if_splits)
  qed
  then have acc: "accept_claimed context operation r d t w1 = (Inr (Accepted token ref), w0)"
    and take: "cd_outcome d \<in> {ACQUIRED, RECLAIMED}" using rest by simp_all
  from acc obtain x w2 w3 event_id e w4 n w5 where run:
    "cd_token d = Some token"
    "create_request r w2 = (Inr ref, w3)" "fresh_event_id w3 = (Inr event_id, w4)"
    "create_audit_event e w4 = (Inr n, w5)" "commit w5 = (Inr (), w0)"
    by (auto simp: accept_claimed_def bind_op_Inr_iff split: option.splits)
  have ops: "insert_request r (w_staged w2) = (Inr ref, w_staged w3)" "insert_audit e (w_staged w3) = (Inr n, w_staged w5)"
    using run(2-4) unfolding call_defs by (auto dest!: call_dests)
  from claim_Inr[OF claim] obtain k where c: "claim_at (w_database_clock w k) creq (w_state w) = (Inr d, w_staged w1)"
    by (auto simp: enter_uow_def)
  have "utc_offset (w_database_clock w k) = Some 0" using clock by (simp add: utc_clock_def)
  note cases = claim_effect[OF ok this fv c, unfolded claim_contract_def]
  then have "takes (w_database_clock w k) creq d (w_state w) (w_staged w1)" using take by blast
  then have "ct_owner_request_id token = cx_request_id context"
    using run(1) m by (auto simp: claim_matches_def elim!: takes_item)
  moreover have "w_state w' = w_staged w5" using w0 commit_Inr[OF run(5)] by simp
  moreover have "nr_request_id r = cx_request_id context" "nr_replayed_from r = None"
    using m by (simp_all add: claim_matches_def)
  ultimately show ?thesis
    using insert_request_Inr[OF ops(1)] insert_audit_Inr[OF ops(2)] by (simp add: ticket_ok_def stored_ref_def)
qed

end
