(* ===== verification/Concurrent_Service.thy ===== *)
theory Concurrent_Service
  imports Transactions
begin

text \<open>
  Any number of requests over one store. A transaction of the store is atomic, so a history of
  the system is a sequence of transactions: claims and acceptances, and the finalizations of the
  requests that were accepted, in any order and any number of times (a retried finalization, one
  that comes after the lease of its claim was taken over), under any clocks, identifiers and
  injected failures.
\<close>

datatype ticket = Owned claim_token request_ref | Plain request_ref

record system =
  sy_store :: execution_state
  sy_tickets :: "ticket set"

definition initial_system :: system where
  "initial_system = \<lparr>sy_store = empty_execution_state, sy_tickets = {}\<rparr>"

text \<open>The claim that \<open>execute\<close> makes for a request record.\<close>

definition claim_request_of ::
  "service \<Rightarrow> request_context \<Rightarrow> idempotency_scope \<Rightarrow> new_agent_request \<Rightarrow> claim_request" where
  "claim_request_of S context scope r =
     \<lparr>cr_scope = scope, cr_request_fingerprint = nr_request_fingerprint r,
      cr_fingerprint_version = nr_fingerprint_version r, cr_owner_request_id = cx_request_id context,
      cr_lease_duration_seconds = ip_lease_duration_seconds (sv_policy S)\<rparr>"

definition runs_on :: "world \<Rightarrow> execution_state \<Rightarrow> bool" where
  "runs_on w s \<longleftrightarrow> w_state w = s \<and> utc_clock w"

fun issued :: "accepted res \<Rightarrow> ticket set" where
  "issued (Inr (Accepted token ref)) = {Owned token ref}"
| "issued r = {}"

inductive step :: "service \<Rightarrow> system \<Rightarrow> system \<Rightarrow> bool" for S where
  accept_idempotent:
    "runs_on w (sy_store y) \<Longrightarrow> cx_request_id context \<noteq> [] \<Longrightarrow>
     map_request (sv_sha S) (sv_float S) context operation text_of override session t
       (default_map_options\<lparr>mo_idempotency_key_hash := Some (is_key_hash scope)\<rparr>) = Inr r \<Longrightarrow>
     claim_and_accept S request context operation r (claim_request_of S context scope r) t w = (res, w') \<Longrightarrow>
     step S y \<lparr>sy_store = w_state w', sy_tickets = issued res \<union> sy_tickets y\<rparr>"
| finish_idempotent:
    "runs_on w (sy_store y) \<Longrightarrow> Owned token ref \<in> sy_tickets y \<Longrightarrow>
     cx_request_id (ar_context result) = rf_request_id ref \<Longrightarrow>
     finalize_result S result ref token run_id t1 t2 w = (out, w') \<Longrightarrow> step S y (y\<lparr>sy_store := w_state w'\<rparr>)"
| fail_idempotent:
    "runs_on w (sy_store y) \<Longrightarrow> Owned token ref \<in> sy_tickets y \<Longrightarrow>
     cx_request_id context = rf_request_id ref \<Longrightarrow> require_failure_code code = Inr code \<Longrightarrow>
     finalize_failed S context ref token run_id code t1 t2 w = (out, w') \<Longrightarrow> step S y (y\<lparr>sy_store := w_state w'\<rparr>)"
| accept_durable:
    "runs_on w (sy_store y) \<Longrightarrow>
     map_request (sv_sha S) (sv_float S) context operation text_of override session t default_map_options = Inr r \<Longrightarrow>
     accept_request context operation r t w = (got, w') \<Longrightarrow>
     step S y \<lparr>sy_store = w_state w',
               sy_tickets = (case got of Inr ref \<Rightarrow> {Plain ref} | Inl e \<Rightarrow> {}) \<union> sy_tickets y\<rparr>"
| finish_durable:
    "runs_on w (sy_store y) \<Longrightarrow> Plain ref \<in> sy_tickets y \<Longrightarrow>
     cx_request_id (ar_context result) = rf_request_id ref \<Longrightarrow>
     durable_finalize_result S result ref run_id t1 t2 w = (out, w') \<Longrightarrow> step S y (y\<lparr>sy_store := w_state w'\<rparr>)"
| fail_durable:
    "runs_on w (sy_store y) \<Longrightarrow> Plain ref \<in> sy_tickets y \<Longrightarrow> cx_request_id context = rf_request_id ref \<Longrightarrow>
     durable_finalize_failed context ref run_id code t1 t2 w = (out, w') \<Longrightarrow> step S y (y\<lparr>sy_store := w_state w'\<rparr>)"

inductive reachable :: "service \<Rightarrow> system \<Rightarrow> bool" for S where
  start: "reachable S initial_system"
| next_step: "reachable S y \<Longrightarrow> step S y y' \<Longrightarrow> reachable S y'"

section \<open>The invariant of the system\<close>

definition ticket_valid :: "execution_state \<Rightarrow> ticket \<Rightarrow> bool" where
  "ticket_valid s t = (case t of Owned token ref \<Rightarrow> ticket_ok s token ref
     | Plain ref \<Rightarrow> stored_ref s ref \<and> unclaimed s ref)"

definition versions_ok :: "execution_state \<Rightarrow> bool" where
  "versions_ok s \<longleftrightarrow>
     (\<forall>k i. dict_get (es_idempotency s) k = Some i \<longrightarrow> id_fingerprint_version i = REQUEST_FINGERPRINT_VERSION)"

definition system_ok :: "system \<Rightarrow> bool" where
  "system_ok y \<longleftrightarrow>
     store_ok (sy_store y) \<and> versions_ok (sy_store y) \<and> (\<forall>t \<in> sy_tickets y. ticket_valid (sy_store y) t)"

lemma versions_ok_advances: "versions_ok s \<Longrightarrow> advances s s' \<Longrightarrow> versions_ok s'"
  unfolding versions_ok_def using advances_fingerprint by metis

lemma versions_ok_claim:
  "versions_ok s \<Longrightarrow> cr_fingerprint_version creq = REQUEST_FINGERPRINT_VERSION \<Longrightarrow> fingerprint_version_ok creq s"
  unfolding versions_ok_def fingerprint_version_ok_def by metis

lemma stored_ref_advances:
  assumes "stored_ref s ref" "advances s s'"
  shows "stored_ref s' ref"
proof -
  from assms(1) obtain row where row: "dict_get (es_requests s) (rf_request_id ref) = Some row"
    "rq_database_id row = rf_database_id ref" "nr_replayed_from (rq_record row) = None"
    by (auto simp: stored_ref_def)
  from advances_request[OF assms(2) row(1)] row(2,3) show ?thesis by (auto simp: stored_ref_def)
qed

lemma unclaimed_advances:
  assumes "unclaimed s ref" "stored_ref s ref" "advances s s'"
  shows "unclaimed s' ref"
  unfolding unclaimed_def
proof (intro allI impI)
  fix k i assume i: "dict_get (es_idempotency s') k = Some i" "id_status i = ''in_progress''"
  from advances_active[OF assms(3) i] show "id_owner_request_id i \<noteq> rf_request_id ref"
  proof
    assume "dict_get (es_idempotency s) k = Some i"
    then show ?thesis using assms(1) i(2) unfolding unclaimed_def by metis
  next
    assume "dict_get (es_requests s) (id_owner_request_id i) = None"
    then show ?thesis using assms(2) by (auto simp: stored_ref_def)
  qed
qed

lemma ticket_valid_advances: "ticket_valid s t \<Longrightarrow> advances s s' \<Longrightarrow> ticket_valid s' t"
  by (cases t) (auto simp: ticket_valid_def ticket_ok_def stored_ref_advances unclaimed_advances)

text \<open>The two cases of a transaction: it left the store as it was, or it has published a state.\<close>

lemma publishes_cases:
  assumes "m w = (r, w')" "w_state w = s"
    and "\<And>t. publishes m w t \<Longrightarrow> store_ok t \<and> advances s t" "store_ok s"
  shows "store_ok (w_state w') \<and> advances s (w_state w')"
  using assms unfolding publishes_def by (cases "w_state w' = s") auto

lemma accept_request_unclaimed:
  assumes ok: "store_ok (w_state w)" and acc: "accept_request context operation r t w = (Inr ref, w')"
    and adv: "advances (w_state w) (w_state w')" and r: "nr_replayed_from r = None"
  shows "unclaimed (w_state w') ref"
  unfolding unclaimed_def
proof (intro allI impI)
  fix k i assume i: "dict_get (es_idempotency (w_state w')) k = Some i" "id_status i = ''in_progress''"
  from acc obtain w1 w2 event_id e n w3 w4 where run: "create_request r (enter_uow w) = (Inr ref, w1)"
    "fresh_event_id w1 = (Inr event_id, w2)" "create_audit_event e w2 = (Inr n, w3)" "commit w3 = (Inr (), w4)"
    "w_state w' = w_state w4"
    by (auto simp: accept_request_def with_uow_def bind_op_Inr_iff split: prod.splits)
  then have ops: "insert_request r (w_state w) = (Inr ref, w_staged w1)" "insert_audit e (w_staged w1) = (Inr n, w_staged w3)"
    unfolding call_defs by (auto dest!: call_dests)
  have "es_idempotency (w_state w') = es_idempotency (w_state w)"
    using insert_request_Inr[OF ops(1)] insert_audit_Inr[OF ops(2)] commit_Inr[OF run(4)] run(5) by simp
  then have "dict_get (es_requests (w_state w)) (id_owner_request_id i) \<noteq> None"
    using ok i active_owner_stored unfolding store_ok_def claims_ok_def by metis
  then show "id_owner_request_id i \<noteq> rf_request_id ref" using insert_request_Inr[OF ops(1)] by auto
qed

lemma claim_matches_execute:
  assumes "map_request sha fl context operation text_of override session t
       (default_map_options\<lparr>mo_idempotency_key_hash := h\<rparr>) = Inr r" "cx_request_id context \<noteq> []"
  shows "claim_matches context r (claim_request_of S context scope r)"
  using map_request_Inr[OF assms(1)] assms(2)
  by (simp add: claim_matches_def claim_request_of_def default_map_options_def)

lemma step_ok:
  assumes "step S y y'" "system_ok y"
  shows "system_ok y' \<and> advances (sy_store y) (sy_store y')"
proof -
  have ok: "store_ok (sy_store y)" "versions_ok (sy_store y)" using assms(2) by (simp_all add: system_ok_def)
  have tickets: "ticket_valid (sy_store y) t" if "t \<in> sy_tickets y" for t
    using assms(2) that by (simp add: system_ok_def)
  have closed: "system_ok y' \<and> advances (sy_store y) (sy_store y')"
    if s: "store_ok (sy_store y') \<and> advances (sy_store y) (sy_store y')"
      and t: "\<And>t. t \<in> sy_tickets y' \<Longrightarrow> t \<in> sy_tickets y \<or> ticket_valid (sy_store y') t"
    using s t tickets versions_ok_advances[OF ok(2)] ticket_valid_advances unfolding system_ok_def by blast
  from assms(1) show ?thesis
  proof cases
    case (accept_idempotent w ctx operation text_of override session t scope r request res w')
    let ?c = "claim_request_of S ctx scope r"
    have w: "w_state w = sy_store y" "utc_clock w" using accept_idempotent(2) by (simp_all add: runs_on_def)
    note m = claim_matches_execute[OF accept_idempotent(4,3), of S scope]
    have fv: "fingerprint_version_ok ?c (w_state w)"
      using m versions_ok_claim[OF ok(2)] w(1) by (simp add: claim_matches_def)
    have s: "store_ok (w_state w') \<and> advances (sy_store y) (w_state w')"
      by (rule publishes_cases[where m = "claim_and_accept S request ctx operation r ?c t", OF accept_idempotent(5) w(1)])
        (use claim_and_accept_publishes[OF _ w(2) fv m] ok w(1) in auto)
    have issued_valid: "ticket_valid (w_state w') t'" if "t' \<in> issued res" for t'
    proof -
      from that obtain token ref where res: "res = Inr (Accepted token ref)" "t' = Owned token ref"
        by (cases res rule: issued.cases) auto
      show ?thesis
        using claim_and_accept_Inr[OF accept_idempotent(5)[unfolded res(1)] _ w(2) fv m] ok(1) w(1) res(2)
        by (simp add: ticket_valid_def)
    qed
    show ?thesis by (rule closed) (use s issued_valid accept_idempotent(1) in auto)
  next
    case (finish_idempotent w token ref result run_id t1 t2 out w')
    have w: "w_state w = sy_store y" "utc_clock w" using finish_idempotent(2) by (simp_all add: runs_on_def)
    have "ticket_ok (w_state w) token ref"
      using tickets[OF finish_idempotent(3)] w(1) by (simp add: ticket_valid_def)
    note p = finalize_result_publishes[OF _ w(2) this finish_idempotent(4)]
    have "store_ok (w_state w') \<and> advances (sy_store y) (w_state w')"
      by (rule publishes_cases[where m = "finalize_result S result ref token run_id t1 t2", OF finish_idempotent(5) w(1)]) (use p ok w(1) in auto)
    then show ?thesis by (intro closed) (use finish_idempotent(1) in auto)
  next
    case (fail_idempotent w token ref ctx code run_id t1 t2 out w')
    have w: "w_state w = sy_store y" "utc_clock w" using fail_idempotent(2) by (simp_all add: runs_on_def)
    have "ticket_ok (w_state w) token ref"
      using tickets[OF fail_idempotent(3)] w(1) by (simp add: ticket_valid_def)
    moreover have "code \<noteq> []" using fail_idempotent(5) by (auto simp: require_failure_code_def FAILURE_CODES_def)
    ultimately have "store_ok s \<and> advances (w_state w) s"
      if "publishes (finalize_failed S ctx ref token run_id code t1 t2) w s" for s
      using finalize_failed_publishes[OF _ w(2) _ fail_idempotent(4) _ that] ok(1) w(1) by simp
    then have "store_ok (w_state w') \<and> advances (sy_store y) (w_state w')"
      by (intro publishes_cases[where m = "finalize_failed S ctx ref token run_id code t1 t2", OF fail_idempotent(6) w(1)]) (use ok w(1) in auto)
    then show ?thesis by (intro closed) (use fail_idempotent(1) in auto)
  next
    case (accept_durable w ctx operation text_of override session t r got w')
    have w: "w_state w = sy_store y" using accept_durable(2) by (simp add: runs_on_def)
    note r = map_request_Inr[OF accept_durable(3)]
    have rep: "nr_replayed_from r = None" "nr_status r = ''in_progress''" "nr_request_id r = cx_request_id ctx"
      using r by (simp_all add: default_map_options_def)
    have s: "store_ok (w_state w') \<and> advances (sy_store y) (w_state w')"
      by (rule publishes_cases[where m = "accept_request ctx operation r t", OF accept_durable(4) w])
        (use accept_request_publishes[where w = w, OF _ _ rep(3,2,1)] ok w in auto)
    have "ticket_valid (w_state w') (Plain ref)" if "got = Inr ref" for ref
    proof -
      note acc = accept_durable(4)[unfolded that]
      have "stored_ref (w_state w') ref" using accept_request_Inr[OF acc rep(1)] by blast
      moreover have "unclaimed (w_state w') ref"
        using accept_request_unclaimed[OF _ acc _ rep(1)] ok(1) s w by simp
      ultimately show ?thesis by (simp add: ticket_valid_def)
    qed
    then show ?thesis by (intro closed) (use s accept_durable(1) in \<open>auto split: sum.splits\<close>)
  next
    case (finish_durable w ref result run_id t1 t2 out w')
    have w: "w_state w = sy_store y" using finish_durable(2) by (simp add: runs_on_def)
    have "stored_ref (w_state w) ref" "unclaimed (w_state w) ref"
      using tickets[OF finish_durable(3)] w by (simp_all add: ticket_valid_def)
    note p = durable_finalize_result_publishes[OF _ this finish_durable(4)]
    have "store_ok (w_state w') \<and> advances (sy_store y) (w_state w')"
      by (rule publishes_cases[where m = "durable_finalize_result S result ref run_id t1 t2", OF finish_durable(5) w]) (use p ok w in auto)
    then show ?thesis by (intro closed) (use finish_durable(1) in auto)
  next
    case (fail_durable w ref ctx run_id code t1 t2 out w')
    have w: "w_state w = sy_store y" using fail_durable(2) by (simp add: runs_on_def)
    have "stored_ref (w_state w) ref" "unclaimed (w_state w) ref"
      using tickets[OF fail_durable(3)] w by (simp_all add: ticket_valid_def)
    note p = durable_finalize_failed_publishes[OF _ this fail_durable(4)]
    have "store_ok (w_state w') \<and> advances (sy_store y) (w_state w')"
      by (rule publishes_cases[where m = "durable_finalize_failed ctx ref run_id code t1 t2", OF fail_durable(5) w]) (use p ok w in auto)
    then show ?thesis by (intro closed) (use fail_durable(1) in auto)
  qed
qed

lemma reachable_ok: "reachable S y \<Longrightarrow> system_ok y"
proof (induction rule: reachable.induct)
  case start
  have "versions_ok empty_execution_state" by (simp add: versions_ok_def empty_execution_state_def)
  then show ?case by (simp add: system_ok_def initial_system_def store_ok_empty)
next
  case (next_step y y')
  then show ?case using step_ok by blast
qed

section \<open>Two concrete requests\<close>

text \<open>
  A client sends a request, does not finish, and sends it again under the same key 61 seconds
  later, after the lease of 60 seconds.
\<close>

definition demo_world :: "execution_state \<Rightarrow> nat \<Rightarrow> world" where
  "demo_world s k =
     \<lparr>w_state = s, w_staged = s, w_finished = True, w_active_uows = 0, w_created_uows = 0,
      w_committed_uows = 0, w_rolled_back_uows = 0, w_commit_attempts = 0, w_ambiguous_commits = 0,
      w_fail_commit_attempts = [], w_ambiguous_commit_attempts = [], w_fail_operations = [],
      w_operation_log = [], w_clock = (\<lambda>n. utc (seconds (int k))), w_clock_calls = 0,
      w_database_clock = (\<lambda>n. utc (seconds (int k))), w_database_clock_calls = 0,
      w_run_ids = (\<lambda>n. [114, k, n]), w_run_id_calls = 0,
      w_event_ids = (\<lambda>n. [101, k, n]), w_event_id_calls = 0\<rparr>"

definition demo_service :: service where
  "demo_service =
     \<lparr>sv_sha = id, sv_float = (\<lambda>q. [49]), sv_ucd = basic_ucd, sv_policy = default_idempotency_policy,
      sv_chat = (\<lambda>request context forced. ret (demo_result context))\<rparr>"

definition demo_request :: user_request where
  "demo_request = \<lparr>ur_text = [113], ur_task_override = None, ur_session_id = None\<rparr>"

definition demo_scope :: idempotency_scope where
  "demo_scope = scope_from_values id (pr_tenant_id demo_principal) (pr_organization_id demo_principal)
     (pr_user_id demo_principal) [111] [107]"

definition demo_record :: "request_context \<Rightarrow> new_agent_request" where
  "demo_record context = projr (map_request id (\<lambda>q. [49]) context [111] [113] None None (utc 0)
     (default_map_options\<lparr>mo_idempotency_key_hash := Some (is_key_hash demo_scope)\<rparr>))"

lemma demo_record: "map_request id (\<lambda>q. [49]) context [111] [113] None None (utc 0)
     (default_map_options\<lparr>mo_idempotency_key_hash := Some (is_key_hash demo_scope)\<rparr>) = Inr (demo_record context)"
  by (simp add: demo_record_def map_request_def fingerprint_text check_new_agent_request_def default_map_options_def)

lemmas demo_record_sel = map_request_Inr[OF demo_record]

definition demo_claim :: "request_context \<Rightarrow> world \<Rightarrow> accepted res \<times> world" where
  "demo_claim context w =
     claim_and_accept demo_service demo_request context [111] (demo_record context)
       (claim_request_of demo_service context demo_scope (demo_record context)) (utc 0) w"

definition demo_first :: "accepted res \<times> world" where
  "demo_first = demo_claim (demo_context [49]) (demo_world empty_execution_state 0)"

definition demo_second :: "accepted res \<times> world" where
  "demo_second = demo_claim (demo_context [50]) (demo_world (w_state (snd demo_first)) 61)"

definition demo_token :: claim_token where
  "demo_token = \<lparr>ct_idempotency_record_id = 1, ct_scope = demo_scope, ct_owner_request_id = [49],
     ct_claim_version = 1, ct_claimed_at = utc 0, ct_lease_expires_at = utc (seconds 60)\<rparr>"

definition demo_ref :: request_ref where
  "demo_ref = \<lparr>rf_database_id = 1, rf_request_id = [49], rf_status = ''in_progress'',
     rf_trace_id = Some [116], rf_session_id = Some [115]\<rparr>"

definition demo_systems :: "nat \<Rightarrow> system" where
  "demo_systems n =
     (if n = 0 then initial_system
      else if n = 1 then \<lparr>sy_store = w_state (snd demo_first), sy_tickets = issued (fst demo_first)\<rparr>
      else \<lparr>sy_store = w_state (snd demo_second), sy_tickets = issued (fst demo_second) \<union> issued (fst demo_first)\<rparr>)"

lemmas demo_run_defs = claim_and_accept_def with_uow_def enter_uow_def exit_uow_def bind_op_def claim_def
  active_repository_def database_now_def on_staged_def claim_at_def token_of_def check_claim_token_def
  require_utc_def accept_claimed_def create_request_def repository_call_def record_operation_def
  insert_request_def fresh_event_id_def audit_request_accepted_def audit_event_def check_new_audit_event_def
  create_audit_event_def insert_audit_def commit_def put_item_def claim_request_of_def demo_claim_def
  demo_world_def empty_execution_state_def Let_def new_item_def demo_record_sel demo_service_def
  default_idempotency_policy_def demo_context_def default_map_options_def

lemmas demo_reclaim_defs = finalize_reclaimed_owner_def fresh_run_id_def run_lease_reclaimed_def failed_run_def
  check_new_agent_run_def create_run_def insert_run_def require_failure_code_def FAILURE_CODES_def
  finalize_request_failed_def finalize_request_def audit_lease_reclaimed_def owner_ref_def validate_idempotency_def
  stored_of_def valid_time_def idempotency_status_of_def dt_le_def seconds_def replace_item_def

definition demo_first_store :: execution_state where
  "demo_first_store =
     empty_execution_state
       \<lparr>es_next_request_id := 2, es_next_audit_id := 2, es_next_idempotency_id := 2,
        es_requests := [([49], row_of 1 (demo_record (demo_context [49])))],
        es_audits := [\<lparr>au_database_id = 1,
           au_record = projr (audit_request_accepted (demo_context [49]) [101, 0, 0] [111] (utc 0)
              (Some ''acquired'') (Some 1) False False)\<rparr>],
        es_idempotency := [(scope_key demo_scope,
           new_item 1 (claim_request_of demo_service (demo_context [49]) demo_scope (demo_record (demo_context [49])))
             (utc 0) (utc (seconds 60)))]\<rparr>"

lemma add_seconds_utc [simp]: "add_seconds (utc t) n = utc (t + seconds n)" "seconds 0 = 0"
  by (simp_all add: add_seconds_def utc_def seconds_def)

lemma demo_first: "w_state (snd demo_first) = demo_first_store"
  "\<exists>ref. fst demo_first = Inr (Accepted demo_token ref)"
  by (simp_all add: demo_first_def demo_first_store_def demo_token_def demo_run_defs)

lemma demo_first_valid:
  "validate_idempotency (stored_of (new_item 1 (claim_request_of demo_service (demo_context [49]) demo_scope r)
     (utc 0) (utc (seconds 60))) sc) = Inr ACTIVE"
  by (rule validate_stored) (simp_all add: new_item_def claim_request_of_def demo_context_def)

lemma demo_second:
  "map_option id_claim_version (dict_get (es_idempotency (w_state (snd demo_second))) (scope_key demo_scope)) = Some 2"
  "\<exists>token ref. fst demo_second = Inr (Accepted token ref) \<and> ct_claim_version token = 2"
  unfolding demo_second_def demo_first
  by (simp_all add: demo_first_store_def demo_run_defs demo_reclaim_defs demo_first_valid)

lemma demo_world_runs_on: "runs_on (demo_world s k) s"
  by (simp add: runs_on_def demo_world_def utc_clock_def)

lemma demo_step:
  assumes "q \<noteq> []"
  shows "step demo_service y \<lparr>sy_store = w_state (snd (demo_claim (demo_context q) (demo_world (sy_store y) k))),
      sy_tickets = issued (fst (demo_claim (demo_context q) (demo_world (sy_store y) k))) \<union> sy_tickets y\<rparr>"
proof (rule step.accept_idempotent)
  show "runs_on (demo_world (sy_store y) k) (sy_store y)" by (rule demo_world_runs_on)
  show "cx_request_id (demo_context q) \<noteq> []" using assms by (simp add: demo_context_def)
  show "map_request (sv_sha demo_service) (sv_float demo_service) (demo_context q) [111] [113] None None (utc 0)
       (default_map_options\<lparr>mo_idempotency_key_hash := Some (is_key_hash demo_scope)\<rparr>) = Inr (demo_record (demo_context q))"
    using demo_record by (simp add: demo_service_def)
  show "claim_and_accept demo_service demo_request (demo_context q) [111] (demo_record (demo_context q))
       (claim_request_of demo_service (demo_context q) demo_scope (demo_record (demo_context q))) (utc 0)
       (demo_world (sy_store y) k)
     = (fst (demo_claim (demo_context q) (demo_world (sy_store y) k)), snd (demo_claim (demo_context q) (demo_world (sy_store y) k)))"
    by (simp add: demo_claim_def)
qed

lemma demo_steps: "step demo_service (demo_systems 0) (demo_systems 1)" "step demo_service (demo_systems 1) (demo_systems 2)"
  using demo_step[of "[49]" initial_system 0] demo_step[of "[50]" "demo_systems 1" 61]
  by (simp_all add: demo_systems_def demo_first_def demo_second_def initial_system_def)

lemma demo_reachable: "reachable demo_service (demo_systems 1)" "reachable demo_service (demo_systems 2)"
  using demo_steps reachable.intros by (simp_all add: demo_systems_def) blast+

section \<open>Properties\<close>

text \<open>The state after a claim, in the abstract protocol.\<close>

lemma takes_phase:
  assumes t: "takes now request d s s'"
  shows "phase_of s' (cr_scope request) =
      Claimed (case phase_of s (cr_scope request) of Unclaimed \<Rightarrow> 1 | Claimed v f p \<Rightarrow> v + 1)
        (cr_request_fingerprint request)
        (Running (cr_owner_request_id request) (instant now + seconds (cr_lease_duration_seconds request)))"
    "sc \<noteq> cr_scope request \<Longrightarrow> phase_of s' sc = phase_of s sc"
proof -
  from t obtain item where i: "es_idempotency s' = dict_set (scope_key (cr_scope request)) item (es_idempotency s)"
    "id_status item = ''in_progress''" "id_owner_request_id item = cr_owner_request_id request"
    "id_request_fingerprint item = cr_request_fingerprint request"
    "id_lease_expires_at item = add_seconds now (cr_lease_duration_seconds request)"
    "id_claim_version item = (case dict_get (es_idempotency s) (scope_key (cr_scope request)) of
             None \<Rightarrow> 1 | Some old \<Rightarrow> id_claim_version old + 1)"
    unfolding takes_def by blast
  show "phase_of s' (cr_scope request) =
      Claimed (case phase_of s (cr_scope request) of Unclaimed \<Rightarrow> 1 | Claimed v f p \<Rightarrow> v + 1)
        (cr_request_fingerprint request)
        (Running (cr_owner_request_id request) (instant now + seconds (cr_lease_duration_seconds request)))"
    using i by (simp add: phase_of_def progress_of_def split: option.splits)
  show "sc \<noteq> cr_scope request \<Longrightarrow> phase_of s' sc = phase_of s sc"
    using i(1) takes_same_rows[OF t] by (auto simp: phase_of_def progress_of_def same_rows_def split: option.splits)
qed

lemma spec_claim_taken:
  "fst (spec_claim now owner fp lease ph) \<in> {ACQUIRED, RECLAIMED} \<Longrightarrow>
     snd (spec_claim now owner fp lease ph) =
       Claimed (case ph of Unclaimed \<Rightarrow> 1 | Claimed v f p \<Rightarrow> v + 1) fp (Running owner (now + lease))"
  "fst (spec_claim now owner fp lease ph) \<notin> {ACQUIRED, RECLAIMED} \<Longrightarrow> snd (spec_claim now owner fp lease ph) = ph"
  by (auto simp: spec_claim_def split: phase.splits progress.splits if_splits)

text \<open>
  C8: \<open>claim\<close> refines the abstract protocol. On every store the services can reach it never
  raises; its outcome and the new phase of its scope are those of the protocol, the other scopes
  are not touched, and a replay or a previous failure carries the stored answer or failure code.
\<close>

theorem claim_refines_protocol:
  assumes "reachable S y" "utc_offset now = Some 0" "cr_fingerprint_version request = REQUEST_FINGERPRINT_VERSION"
  shows "\<exists>d s'. claim_at now request (sy_store y) = (Inr d, s')
    \<and> (cd_outcome d, phase_of s' (cr_scope request)) =
        spec_claim (instant now) (cr_owner_request_id request) (cr_request_fingerprint request)
          (seconds (cr_lease_duration_seconds request)) (phase_of (sy_store y) (cr_scope request))
    \<and> (\<forall>sc. sc \<noteq> cr_scope request \<longrightarrow> phase_of s' sc = phase_of (sy_store y) sc)
    \<and> answer_of d (phase_of (sy_store y) (cr_scope request))"
proof -
  have "store_ok (sy_store y)" "versions_ok (sy_store y)" using reachable_ok[OF assms(1)] by (simp_all add: system_ok_def)
  from claim_cases[OF this(1) assms(2) versions_ok_claim[OF this(2) assms(3)]] obtain d s' where
    c: "claim_at now request (sy_store y) = (Inr d, s')" and "claim_contract now request (sy_store y) d s'" by blast
  note k = this(2)[unfolded claim_contract_def]
  let ?spec = "spec_claim (instant now) (cr_owner_request_id request) (cr_request_fingerprint request)
          (seconds (cr_lease_duration_seconds request)) (phase_of (sy_store y) (cr_scope request))"
  have out: "cd_outcome d = fst ?spec" using k by blast
  have "phase_of s' (cr_scope request) = snd ?spec \<and> (\<forall>sc. sc \<noteq> cr_scope request \<longrightarrow> phase_of s' sc = phase_of (sy_store y) sc)"
  proof (cases "cd_outcome d \<in> {ACQUIRED, RECLAIMED}")
    case True
    then have t: "takes now request d (sy_store y) s'" using k by blast
    have "fst ?spec \<in> {ACQUIRED, RECLAIMED}" using out True by simp
    from spec_claim_taken(1)[OF this] show ?thesis using takes_phase(1)[OF t] takes_phase(2)[OF t] by simp
  next
    case False
    then have "s' = sy_store y" using k by blast
    moreover have "fst ?spec \<notin> {ACQUIRED, RECLAIMED}" using out False by simp
    ultimately show ?thesis using spec_claim_taken(2) by simp
  qed
  moreover have "(cd_outcome d, phase_of s' (cr_scope request)) = ?spec"
    using calculation out by (simp add: prod_eq_iff)
  ultimately show ?thesis using c k by blast
qed

theorem claim_refines_protocol_witness:
  "reachable demo_service (demo_systems 2) \<and>
   (let request = claim_request_of demo_service (demo_context [51]) demo_scope (demo_record (demo_context [51])) in
    \<exists>d s'. claim_at (utc (seconds 62)) request (sy_store (demo_systems 2)) = (Inr d, s')
      \<and> (cd_outcome d, phase_of s' (cr_scope request)) =
        spec_claim (instant (utc (seconds 62))) (cr_owner_request_id request) (cr_request_fingerprint request)
          (seconds (cr_lease_duration_seconds request)) (phase_of (sy_store (demo_systems 2)) (cr_scope request)))"
proof -
  have "cr_fingerprint_version (claim_request_of demo_service (demo_context [51]) demo_scope (demo_record (demo_context [51])))
      = REQUEST_FINGERPRINT_VERSION" by (simp add: claim_request_of_def demo_record_sel)
  from claim_refines_protocol[OF demo_reachable(2) _ this, of "utc (seconds 62)"] demo_reachable(2)
  show ?thesis by (auto simp: Let_def)
qed

text \<open>\<open>refuses m w\<close>: the program raises and the committed state stays.\<close>

definition refuses :: "'a prog \<Rightarrow> world \<Rightarrow> bool" where
  "refuses m w \<longleftrightarrow> (\<exists>e w'. m w = (Inl e, w') \<and> w_state w' = w_state w)"

lemma refuses_bind:
  "(\<And>x. refuses (f x) w) \<Longrightarrow> refuses (bind_op (lift_res r) f) w"
  "(\<And>x w'. w_state w' = w_state w \<Longrightarrow> refuses (g x) w') \<Longrightarrow> refuses (bind_op fresh_event_id g) w"
  by (cases r) (auto simp: refuses_def bind_op_def fresh_event_id_def)

lemma not_owner_refuses:
  "owned_item token (w_state w) = None \<Longrightarrow> refuses (with_uow (bind_op (check_current_owner token) f)) w"
  by (simp add: refuses_def with_uow_def enter_uow_def bind_op_def check_current_owner_def idempotency_call_def
      active_repository_def on_staged_def assert_current_owner_def)

lemma not_owner_finalize:
  assumes "owned_item token (w_state w) = None"
  shows "refuses (finalize_result S result ref token run_id t1 t2) w"
    "refuses (finalize_failed S context ref token run_id code t1 t2) w"
  unfolding finalize_result_def finalize_failed_def
  by (intro refuses_bind not_owner_refuses; simp add: assms)+

lemma steps_advance:
  assumes "(step S)\<^sup>*\<^sup>* y y'" "reachable S y"
  shows "reachable S y' \<and> advances (sy_store y) (sy_store y')"
  using assms
proof (induction rule: rtranclp_induct)
  case (step y' y'')
  then show ?case
    using step_ok[OF step(2)] reachable_ok[of S y'] next_step[of S y' y''] advances_trans by blast
qed simp

text \<open>
  C6: fencing. When a scope was claimed again after the claim of a token, then from that moment
  on, in every later state of the system, the holder of the token can finalize neither a result
  nor a failure: both transactions raise and leave the committed state as it is.
\<close>

theorem fenced_owner_cannot_finalize:
  assumes "reachable S y" "dict_get (es_idempotency (sy_store y)) (scope_key (ct_scope token)) = Some i"
    "ct_claim_version token < id_claim_version i" "(step S)\<^sup>*\<^sup>* y y'" "w_state w = sy_store y'"
  shows "(\<exists>e w'. finalize_result S result ref token run_id t1 t2 w = (Inl e, w') \<and> w_state w' = sy_store y')
    \<and> (\<exists>e w'. finalize_failed S context ref token run_id code t1 t2 w = (Inl e, w') \<and> w_state w' = sy_store y')"
proof -
  have "advances (sy_store y) (sy_store y')" using steps_advance[OF assms(4,1)] by blast
  from advances_version[OF this assms(2)] obtain j where
    j: "dict_get (es_idempotency (sy_store y')) (scope_key (ct_scope token)) = Some j" "id_claim_version i \<le> id_claim_version j"
    by blast
  then have "owned_item token (w_state w) = None" using assms(3,5) by (simp add: owned_item_def owns_def)
  from not_owner_finalize[OF this] show ?thesis unfolding refuses_def assms(5) by blast
qed

theorem fenced_owner_cannot_finalize_witness:
  "\<exists>e w'. finalize_result demo_service (demo_result (demo_context [49])) demo_ref demo_token [114] (utc 0) (utc 1)
      (demo_world (sy_store (demo_systems 2)) 62) = (Inl e, w') \<and> w_state w' = sy_store (demo_systems 2)"
proof -
  obtain i where i: "dict_get (es_idempotency (sy_store (demo_systems 2))) (scope_key demo_scope) = Some i"
    "id_claim_version i = 2"
    using demo_second(1) by (auto simp: demo_systems_def)
  then have "ct_claim_version demo_token < id_claim_version i" by (simp add: demo_token_def)
  from fenced_owner_cannot_finalize[OF demo_reachable(2) _ this rtranclp.rtrancl_refl] i(1)
  show ?thesis by (simp add: demo_token_def demo_world_def)
qed

text \<open>
  \<open>held s sc now\<close>: the scope has an answer or a failure that is still kept, or an owner whose
  lease still runs.
\<close>

definition held :: "execution_state \<Rightarrow> idempotency_scope \<Rightarrow> int \<Rightarrow> bool" where
  "held s sc now \<longleftrightarrow>
     (case phase_of s sc of
        Unclaimed \<Rightarrow> False
      | Claimed v f (Running owner until) \<Rightarrow> now < until
      | Claimed v f p \<Rightarrow> \<not> expired p now)"

lemma held_outcome:
  "held s sc now \<Longrightarrow> fst (spec_claim now owner fp lease (phase_of s sc)) \<notin> {ACQUIRED, RECLAIMED}"
  by (auto simp: held_def spec_claim_def split: phase.splits progress.splits if_splits)

lemma held_not_accepted:
  assumes ok: "store_ok (w_state w)" and clock: "utc_clock w" and fv: "fingerprint_version_ok creq (w_state w)"
    and held: "held (w_state w) (cr_scope creq) (instant (w_database_clock w (w_database_clock_calls w)))"
  shows "fst (claim_and_accept S request context operation r creq t w) \<noteq> Inr (Accepted token ref)"
proof -
  let ?now = "w_database_clock w (w_database_clock_calls w)"
  have now: "utc_offset ?now = Some 0" using clock by (simp add: utc_clock_def)
  from claim_cases[OF ok this fv] obtain d s' where c: "claim_at ?now creq (w_state w) = (Inr d, s')"
    and "claim_contract ?now creq (w_state w) d s'" by blast
  then have "cd_outcome d = fst (spec_claim (instant ?now) (cr_owner_request_id creq) (cr_request_fingerprint creq)
         (seconds (cr_lease_duration_seconds creq)) (phase_of (w_state w) (cr_scope creq)))"
    unfolding claim_contract_def by blast
  then have out: "cd_outcome d \<notin> {ACQUIRED, RECLAIMED}" using held_outcome[OF held] by simp
  obtain w1 where claim: "claim creq (enter_uow w) = (Inr d, w1)"
    using c by (simp add: claim_def bind_op_def active_repository_def database_now_def on_staged_def enter_uow_def)
  have "accept_replay S request context operation creq d t w1 \<noteq> (Inr (Accepted token ref), w')" for w'
    by (auto simp: accept_replay_def bind_op_Inr_iff)
  then have "fst (accept_replay S request context operation creq d t w1) \<noteq> Inr (Accepted token ref)"
    by (metis prod.collapse)
  moreover have "bind_op rollback (\<lambda>_. ret (Answered a)) w1 \<noteq> (Inr (Accepted token ref), w')" for a w'
    by (auto simp: bind_op_Inr_iff)
  then have "fst (bind_op rollback (\<lambda>_. ret (Answered (refusal context d))) w1) \<noteq> Inr (Accepted token ref)"
    by (metis prod.collapse)
  moreover have "fst (with_uow (bind_op (claim creq) F) w) = fst (F d w1)" for F :: "claim_decision \<Rightarrow> accepted prog"
    using claim by (simp add: with_uow_def bind_op_def split: prod.splits)
  ultimately show ?thesis using out unfolding claim_and_accept_def by simp
qed

lemma accept_replay_chat:
  "accept_replay (S\<lparr>sv_chat := f\<rparr>) request context operation creq d t
     = accept_replay S request context operation creq d t"
  by (simp add: accept_replay_def)

lemma claim_and_accept_chat:
  "claim_and_accept (S\<lparr>sv_chat := f\<rparr>) request context operation r creq t
     = claim_and_accept S request context operation r creq t"
  by (simp add: claim_and_accept_def accept_replay_chat cong: if_cong)

lemma bind_op_cong_result:
  "(\<And>x s. m w = (Inr x, s) \<Longrightarrow> f x s = g x s) \<Longrightarrow> bind_op m f w = bind_op m g w"
  by (auto simp: bind_op_def split: prod.splits sum.splits)

lemma accepting_Inr: "accepting m w = (Inr x, s) \<Longrightarrow> m w = (Inr x, s)"
  by (auto simp: accepting_def try_op_def split: prod.splits sum.splits if_splits)

lemma map_request_version:
  "map_request sha fl context operation user_text override session created opts = Inr r \<Longrightarrow>
     nr_fingerprint_version r = REQUEST_FINGERPRINT_VERSION"
  using map_request_Inr by blast

lemma held_execute:
  assumes "reachable S y" "runs_on w (sy_store y)"
    "held (sy_store y)
       (scope_from_values (sv_sha S) (pr_tenant_id (cx_principal context))
          (pr_organization_id (cx_principal context)) (pr_user_id (cx_principal context)) operation key)
       (instant (w_database_clock w (w_database_clock_calls w)))"
  shows "execute (S\<lparr>sv_chat := f\<rparr>) request context operation key forced w
       = execute S request context operation key forced w"
proof -
  have ok: "store_ok (sy_store y)" "versions_ok (sy_store y)" using reachable_ok[OF assms(1)] by (simp_all add: system_ok_def)
  have w: "w_state w = sy_store y" "utc_clock w" using assms(2) by (simp_all add: runs_on_def)
  show ?thesis
  proof (cases "now_op w")
    case (Pair t w1)
    then have w1: "w_state w1 = sy_store y" "utc_clock w1" "w_database_clock w1 = w_database_clock w"
      "w_database_clock_calls w1 = w_database_clock_calls w"
      using w by (auto simp: now_op_def Let_def utc_clock_def)
    let ?c = "\<lambda>fp. \<lparr>cr_scope = scope_from_values (sv_sha S) (pr_tenant_id (cx_principal context))
          (pr_organization_id (cx_principal context)) (pr_user_id (cx_principal context)) operation key,
         cr_request_fingerprint = fp, cr_fingerprint_version = REQUEST_FINGERPRINT_VERSION,
         cr_owner_request_id = cx_request_id context,
         cr_lease_duration_seconds = ip_lease_duration_seconds (sv_policy S)\<rparr>"
    have no: "claim_and_accept S request context operation r (?c fp) u w1 \<noteq> (Inr (Accepted token ref), w2)"
      for r fp u token ref w2
    proof -
      have "fst (claim_and_accept S request context operation r (?c fp) u w1) \<noteq> Inr (Accepted token ref)"
        by (rule held_not_accepted) (use ok w1 assms(3) versions_ok_claim in simp_all)
      then show ?thesis by (metis fst_conv)
    qed
    show ?thesis
      unfolding execute_def service.simps claim_and_accept_chat
      by (simp add: bind_op_step[of now_op] Pair split: sum.splits)
         (auto intro!: bind_op_cong_result dest!: accepting_Inr map_request_version split: accepted.splits
           simp: Let_def no)
  qed
qed

text \<open>
  C4: a request whose key is held never runs the application. While the scope of a request keeps an
  answer, a failure or a running owner, \<open>execute\<close> behaves the same for every chat service, so it
  does not call it, whatever the fingerprint of the request is.
\<close>

theorem held_key_never_executes:
  assumes "reachable S y" "runs_on w (sy_store y)"
    "held (sy_store y)
       (scope_from_values (sv_sha S) (pr_tenant_id (cx_principal context))
          (pr_organization_id (cx_principal context)) (pr_user_id (cx_principal context)) operation key)
       (instant (w_database_clock w (w_database_clock_calls w)))"
  shows "execute (S\<lparr>sv_chat := f\<rparr>) request context operation key forced w
       = execute S request context operation key forced w"
  using assms by (rule held_execute)

lemma demo_held:
  "held (sy_store (demo_systems 1)) demo_scope
     (instant (w_database_clock (demo_world s 30) (w_database_clock_calls (demo_world s 30))))"
  by (simp add: demo_systems_def demo_first demo_world_def held_def phase_of_def progress_of_def
      demo_first_store_def new_item_def empty_execution_state_def seconds_def)

theorem held_key_never_executes_witness:
  "execute (demo_service\<lparr>sv_chat := (\<lambda>request context forced. raise_op ApplicationExecutionError)\<rparr>)
      demo_request (demo_context [50]) [111] [107] None (demo_world (sy_store (demo_systems 1)) 30)
   = execute demo_service demo_request (demo_context [50]) [111] [107] None (demo_world (sy_store (demo_systems 1)) 30)"
proof (rule held_key_never_executes[OF demo_reachable(1) demo_world_runs_on])
  show "held (sy_store (demo_systems 1))
       (scope_from_values (sv_sha demo_service) (pr_tenant_id (cx_principal (demo_context [50])))
          (pr_organization_id (cx_principal (demo_context [50]))) (pr_user_id (cx_principal (demo_context [50]))) [111] [107])
       (instant (w_database_clock (demo_world (sy_store (demo_systems 1)) 30)
          (w_database_clock_calls (demo_world (sy_store (demo_systems 1)) 30))))"
    using demo_held by (simp add: demo_scope_def demo_service_def demo_context_def)
qed

end
