(* ===== verification/Http_Safety.thy ===== *)
theory Http_Safety
  imports Http_Api Concurrent_Service
begin

text \<open>
  Properties of the routes: they compose the security boundary, the gateway, the idempotent
  service and the projection.
\<close>

section \<open>The context of a result\<close>

definition keeps_context :: "(user_request \<Rightarrow> request_context \<Rightarrow> task_name option \<Rightarrow> application_result prog) \<Rightarrow> bool" where
  "keeps_context chat \<longleftrightarrow>
     (\<forall>request ctx forced w r w'. chat request ctx forced w = (Inr r, w') \<longrightarrow> ar_context r = ctx)"

lemma keeps_contextD:
  "keeps_context chat \<Longrightarrow> chat request ctx forced w = (Inr r, w') \<Longrightarrow> ar_context r = ctx"
  unfolding keeps_context_def by blast

lemma try_raise_Inr:
  assumes "\<And>e s. fst (h e s) \<in> range Inl"
  shows "try_op m (\<lambda>e. Some (h e)) w = (Inr x, w') \<longleftrightarrow> m w = (Inr x, w')"
proof -
  have "h e s \<noteq> (Inr x, w')" for e s using assms[of e s] by (cases "h e s") auto
  then show ?thesis by (auto simp: try_op_def split: prod.splits sum.splits)
qed

lemma bind_raise_fst:
  "(\<And>x s. fst (f x s) \<in> range Inl) \<Longrightarrow> fst (bind_op m f w) \<in> range Inl"
  by (auto simp: bind_op_def split: prod.splits sum.splits)

lemma raise_fst: "fst (raise_op e s) \<in> range Inl"
  by simp

lemma durable_execute_Inr:
  assumes "durable_execute S request ctx operation forced w = (Inr r, w')"
  obtains w1 w2 where "sv_chat S request ctx forced w1 = (Inr r, w2)"
  using assms unfolding durable_execute_def
  by (auto simp: bind_op_Inr_iff try_raise_Inr bind_raise_fst)

lemma restore_context: "restore_snapshot snapshot version ctx txt t = Inr r \<Longrightarrow> ar_context r = ctx"
  by (auto simp: restore_snapshot_def split: if_splits sum.splits)

lemma claim_answered_context:
  assumes "claim_and_accept S request ctx operation row creq t w = (Inr (Answered a), w')"
    "re_application_result a = Some r"
  shows "ar_context r = ctx"
proof -
  have uow: "with_uow m w = (Inr x, w') \<Longrightarrow> \<exists>w0 w1. m w0 = (Inr x, w1)" for m :: "accepted prog" and x
    by (auto simp: with_uow_def bind_op_def split: prod.splits)
  from uow[OF assms(1)[unfolded claim_and_accept_def]] show ?thesis using assms(2)
    by (auto simp: bind_op_Inr_iff accept_claimed_def accept_replay_def restore_replay_def refusal_def
        split: if_splits option.splits dest: restore_context)
qed

lemma bind_op_InrE:
  assumes "bind_op m f s = (Inr y, t)"
  obtains x s' where "m s = (Inr x, s')" "f x s' = (Inr y, t)"
  using assms unfolding bind_op_Inr_iff by blast

lemma execute_Inr:
  assumes "execute S request ctx operation key forced w = (Inr a, w')"
  obtains (answered) row creq t w1 w2 where
      "claim_and_accept S request ctx operation row creq t w1 = (Inr (Answered a), w2)"
    | (executed) w1 r w2 where "sv_chat S request ctx forced w1 = (Inr r, w2)"
      "re_outcome a = ResEXECUTED" "re_application_result a = Some r"
  using assms unfolding execute_def Let_def
  apply (simp split: if_split_asm)
  apply (elim bind_op_InrE)
  apply (simp split: accepted.split_asm)
   apply (elim bind_op_InrE)
   apply (simp add: try_raise_Inr bind_raise_fst)
  subgoal by (rule executed) auto
  subgoal by (rule answered) (auto dest: accepting_Inr)
  done

lemma execute_context:
  "execute S request ctx operation key forced w = (Inr a, w') \<Longrightarrow> re_application_result a = Some r \<Longrightarrow>
     keeps_context (sv_chat S) \<Longrightarrow> ar_context r = ctx"
  by (elim execute_Inr) (auto dest: claim_answered_context keeps_contextD)

lemma gateway_context:
  assumes "gateway_execute (build_gateway mode header S) request ctx operation key replay forced w = (Inr r, w')"
    "keeps_context (sv_chat S)"
  shows "ar_context (gr_application_result r) = ctx \<and> (gr_idempotency_status r \<noteq> None \<longrightarrow> replay)
    \<and> (gr_idempotency_status r = None \<longleftrightarrow> key = None)"
proof (cases key)
  case None
  with assms show ?thesis
    by (auto simp: gateway_execute_def build_gateway_def bind_op_Inr_iff
        split: if_splits elim!: durable_execute_Inr dest: keeps_contextD)
next
  case (Some k)
  with assms(1) obtain outcome w1 where "execute S request ctx operation k forced w = (Inr outcome, w1)"
    "gateway_answer outcome = Inr r" "replay"
    by (auto simp: gateway_execute_def build_gateway_def bind_op_Inr_iff split: if_splits)
  then show ?thesis using Some execute_context[OF _ _ assms(2)] by (auto simp: gateway_answer_Inr)
qed

section \<open>What an answered request shows\<close>

text \<open>\<open>model_validate(model_dump(mode="json"))\<close> of a response answers that response, if it answers.\<close>

definition validates_same :: "json_models \<Rightarrow> bool" where
  "validates_same M \<longleftrightarrow> (\<forall>r r'. jm_validate M r = Inr r' \<longrightarrow> r' = r)"

lemma raw_response_hidden:
  "map_of (to_public_dict M False orch) (u ''rag_result'') = Some (PDict d) \<Longrightarrow> u ''raw_response'' \<notin> fst ` set d"
  by (auto simp: to_public_dict_def rag_public_dict_def split: option.splits)

lemma project_debug:
  "ap_debug (project M result trace raw) \<noteq> None \<Longrightarrow>
     raw \<and> u ''raw_response:view'' \<in> set (az_permissions (cx_authorization (ar_context result)))"
  by (auto simp: project_def Let_def split: option.splits if_splits)

lemma route_context_Inr:
  assumes "route_context A D meta body security key = Inr ctx"
  shows "cx_principal ctx = sx_principal security \<and> cx_authorization ctx = sx_authorization security"
  using assms unfolding route_context_def build_context_def validate_request_context_def Let_def
  by (auto simp: bind_res_Inr_iff split: prod.splits if_splits)

lemma handle_Ok:
  assumes "handle A permissions operation forced meta headers body (s, w) = (HttpOk response status, st)"
  obtains security s' w' where "secure (ha_ucd A) (ha_security A) headers permissions s = (Inr security, s')"
    "route_execute A meta headers body security operation forced w = (Inr (response, status), w')"
  using assms unfolding handle_def on_keys_def on_world_def
  by (auto split: prod.splits sum.splits)

lemma route_execute_Inr:
  assumes "route_execute A meta headers body security operation forced w = (Inr (response, status), w')"
    "ha_dependencies A = Some D" "validates_same (ha_models A)"
  obtains key ctx outcome replay where "route_context A D meta body security key = Inr ctx"
    "replay = (\<not> (ha_include_raw_response A \<and> u ''raw_response:view'' \<in> set (az_permissions (sx_authorization security))))"
    "gateway_execute (dp_gateway D) body ctx operation key replay forced w = (Inr outcome, w')"
    "response = project (ha_models A) (gr_application_result outcome) (sx_trace security) (ha_include_raw_response A)"
    "status = gr_idempotency_status outcome"
proof -
  from assms(1)[unfolded route_execute_def assms(2) option.case] obtain key s1 ctx s2 outcome s3
    where "lift_res (parse_idempotency_key (dp_max_key_bytes D) headers) w = (Inr key, s1)"
      "lift_res (route_context A D meta body security key) s1 = (Inr ctx, s2)"
      and g: "gateway_execute (dp_gateway D) body ctx operation key
         (\<not> (ha_include_raw_response A \<and> u ''raw_response:view'' \<in> set (az_permissions (sx_authorization security))))
         forced s2 = (Inr outcome, s3)"
      and r: "lift_res (route_response A security outcome) s3 = (Inr (response, status), w')"
    by (elim bind_op_InrE) blast
  then have c: "route_context A D meta body security key = Inr ctx" "s2 = w" by simp_all
  from r have "s3 = w'" "status = gr_idempotency_status outcome"
    "jm_validate (ha_models A) (project (ha_models A) (gr_application_result outcome) (sx_trace security) (ha_include_raw_response A)) = Inr response"
    by (auto simp: route_response_def split: sum.splits)
  with c g assms(3) show thesis unfolding validates_same_def by (intro that) blast+
qed

text \<open>
  C9: a route answers only the authorized, and shows a raw retrieval response only to those who may
  see it. The chat service answers in the context of its request, and the response models validate to
  themselves. When a route answers, the principal of the request is a validated, enabled one whose roles
  hold every permission of the route: the development principal, in demo mode and without a token,
  or else the one mapped from the claims that the verifier returned for the one bearer token of the
  request. The answer is the projection of a result that carries this principal in its context; the
  trace of the answer begins with the trace of the boundary; the result hides the raw response, and
  the debug part has it only if the configuration includes raw responses and a role of the same
  principal holds the permission, and never together with an idempotency status.
\<close>

theorem answered_request_was_authorized:
  assumes "handle A permissions operation forced meta headers body (s, w) = (HttpOk response status, st)"
    and "plain_text (ha_ucd A)" "principal_ok (ha_ucd A) (fst development_security_context)"
    and "ha_dependencies A = Some D" "dp_gateway D = build_gateway mode header S"
    and "keeps_context (sv_chat S)" "validates_same (ha_models A)"
  shows "\<exists>who. principal_ok (ha_ucd A) who \<and> pr_enabled who
    \<and> (\<forall>q \<in> set permissions. \<exists>role \<in> set (pr_roles who). q \<in> set (role_permissions role))
    \<and> ((ss_runtime_mode (ha_security A) = ''demo'' \<and> header_values (u ''authorization'') headers = []
          \<and> who = fst development_security_context)
       \<or> (\<exists>raw token verifier cfg claims s'. header_values (u ''authorization'') headers = [raw]
            \<and> bearer_header (ss_max_token_bytes (ha_security A)) raw token
            \<and> ss_verifier (ha_security A) = Some verifier \<and> ss_mapper (ha_security A) = Some cfg
            \<and> verifier token s = (Inr claims, s') \<and> map_claims (ha_ucd A) cfg claims = Inr who))
    \<and> (\<exists>result trace. response = project (ha_models A) result trace (ha_include_raw_response A)
          \<and> cx_principal (ar_context result) = who)
    \<and> (\<exists>rest. ap_trace response = authenticated # trace_step ''authorization'' ''succeeded'' (u ''allowed'') # rest)
    \<and> (\<forall>d. map_of (ap_result response) (u ''rag_result'') = Some (PDict d) \<longrightarrow> u ''raw_response'' \<notin> fst ` set d)
    \<and> (ap_debug response \<noteq> None \<longrightarrow>
         ha_include_raw_response A \<and> status = None
         \<and> (\<exists>role \<in> set (pr_roles who). u ''raw_response:view'' \<in> set (role_permissions role)))"
proof -
  from assms(1) obtain security s' w' where sec: "secure (ha_ucd A) (ha_security A) headers permissions s = (Inr security, s')"
    and run: "route_execute A meta headers body security operation forced w = (Inr (response, status), w')" by (rule handle_Ok)
  from run assms(4,7) obtain key ctx outcome replay where ctx: "route_context A D meta body security key = Inr ctx"
    and replay: "replay = (\<not> (ha_include_raw_response A \<and> u ''raw_response:view'' \<in> set (az_permissions (sx_authorization security))))"
    and g: "gateway_execute (dp_gateway D) body ctx operation key replay forced w = (Inr outcome, w')"
    and r: "response = project (ha_models A) (gr_application_result outcome) (sx_trace security) (ha_include_raw_response A)"
    and status: "status = gr_idempotency_status outcome" by (rule route_execute_Inr)
  note allowed = secure_Inr[OF sec assms(2,3)]
  note gate = gateway_context[OF g[unfolded assms(5)] assms(6)]
  have perms: "az_permissions (cx_authorization (ar_context (gr_application_result outcome)))
      = effective_permissions (sx_principal security)"
    using gate route_context_Inr[OF ctx] allowed by simp
  have trace: "sx_trace security = [authenticated, trace_step ''authorization'' ''succeeded'' (u ''allowed'')]"
    using sec by (auto simp: secure_def bind_op_Inr_iff split: if_splits)
  show ?thesis
  proof (intro exI[of _ "sx_principal security"] conjI impI)
    show "(ss_runtime_mode (ha_security A) = ''demo'' \<and> header_values (u ''authorization'') headers = []
          \<and> sx_principal security = fst development_security_context)
       \<or> (\<exists>raw token verifier cfg claims s'. header_values (u ''authorization'') headers = [raw]
            \<and> bearer_header (ss_max_token_bytes (ha_security A)) raw token
            \<and> ss_verifier (ha_security A) = Some verifier \<and> ss_mapper (ha_security A) = Some cfg
            \<and> verifier token s = (Inr claims, s') \<and> map_claims (ha_ucd A) cfg claims = Inr (sx_principal security))"
      using allowed by blast
    show "\<exists>result trace. response = project (ha_models A) result trace (ha_include_raw_response A)
          \<and> cx_principal (ar_context result) = sx_principal security"
      using r gate route_context_Inr[OF ctx] by blast
    show "\<exists>rest. ap_trace response = authenticated # trace_step ''authorization'' ''succeeded'' (u ''allowed'') # rest"
      using r trace by (simp add: project_def Let_def)
    show "\<forall>d. map_of (ap_result response) (u ''rag_result'') = Some (PDict d) \<longrightarrow> u ''raw_response'' \<notin> fst ` set d"
      using r raw_response_hidden by (simp add: project_def Let_def del: u_Cons)
    assume "ap_debug response \<noteq> None"
    note shown = project_debug[OF this[unfolded r]]
    then have d: "ha_include_raw_response A" "u ''raw_response:view'' \<in> set (effective_permissions (sx_principal security))"
      unfolding perms[symmetric] by blast+
    then show "ha_include_raw_response A" by simp
    from d show "\<exists>role \<in> set (pr_roles (sx_principal security)). u ''raw_response:view'' \<in> set (role_permissions role)"
      by (simp add: effective_permissions_set del: u_Cons)
    have "az_permissions (sx_authorization security) = effective_permissions (sx_principal security)" using allowed by blast
    then have "\<not> replay" using replay d by (simp del: u_Cons)
    then show "status = None" using gate status by blast
  qed (use allowed in auto)
qed

section \<open>A retried request\<close>

definition with_service :: "'s http_app \<Rightarrow> dependencies \<Rightarrow> persistence_mode \<Rightarrow> idempotency_header_mode \<Rightarrow> service \<Rightarrow> 's http_app" where
  "with_service A D mode header S = A\<lparr>ha_dependencies := Some (D\<lparr>dp_gateway := build_gateway mode header S\<rparr>)\<rparr>"

lemma with_service_sel [simp]:
  "ha_ucd (with_service A D mode header S) = ha_ucd A" "ha_models (with_service A D mode header S) = ha_models A"
  "ha_security (with_service A D mode header S) = ha_security A"
  "ha_include_raw_response (with_service A D mode header S) = ha_include_raw_response A"
  "ha_dependencies (with_service A D mode header S) = Some (D\<lparr>dp_gateway := build_gateway mode header S\<rparr>)"
  by (simp_all add: with_service_def)

lemma route_context_service [simp]:
  "route_context (with_service A D' mode header S) (D\<lparr>dp_gateway := G\<rparr>) = route_context A D"
  by (simp add: route_context_def fun_eq_iff)

lemma route_response_service [simp]: "route_response (with_service A D mode header S) = route_response A"
  by (simp add: route_response_def fun_eq_iff)

lemma held_gateway:
  assumes "\<And>f. execute (S\<lparr>sv_chat := f\<rparr>) request ctx operation key forced w = execute S request ctx operation key forced w"
  shows "gateway_execute (build_gateway mode header (S\<lparr>sv_chat := f\<rparr>)) request ctx operation (Some key) replay forced w
       = gateway_execute (build_gateway mode header S) request ctx operation (Some key) replay forced w"
  using assms by (simp add: gateway_execute_def build_gateway_def bind_op_step)

text \<open>
  C5: a client may retry without the agent running twice. While the scope of principal, operation
  and \<open>Idempotency-Key\<close> header of a request keeps an answer, a failure or a running owner, the route
  answers the same, byte for byte, whatever the chat service is, so it does not call it.
\<close>

theorem retried_request_never_executes:
  assumes "reachable S y" "runs_on w (sy_store y)"
    and "secure (ha_ucd A) (ha_security A) headers permissions s = (Inr security, s')"
    and "parse_idempotency_key (dp_max_key_bytes D) headers = Inr (Some key)"
    and "held (sy_store y)
       (scope_from_values (sv_sha S) (pr_tenant_id (sx_principal security))
          (pr_organization_id (sx_principal security)) (pr_user_id (sx_principal security)) operation key)
       (instant (w_database_clock w (w_database_clock_calls w)))"
  shows "handle (with_service A D mode header (S\<lparr>sv_chat := f\<rparr>)) permissions operation forced meta headers body (s, w)
       = handle (with_service A D mode header S) permissions operation forced meta headers body (s, w)"
proof -
  have "gateway_execute (build_gateway mode header (S\<lparr>sv_chat := f\<rparr>)) body ctx operation (Some key) replay forced w
      = gateway_execute (build_gateway mode header S) body ctx operation (Some key) replay forced w"
    if "route_context A D meta body security (Some key) = Inr ctx" for ctx replay
    using held_execute[OF assms(1,2)] assms(5) route_context_Inr[OF that] by (intro held_gateway) simp
  then have "route_execute (with_service A D mode header (S\<lparr>sv_chat := f\<rparr>)) meta headers body security operation forced w
      = route_execute (with_service A D mode header S) meta headers body security operation forced w"
    using assms(4) by (cases "route_context A D meta body security (Some key)")
      (auto simp: route_execute_def bind_op_step)
  with assms(3) show ?thesis by (simp add: handle_def on_keys_def on_world_def)
qed

section \<open>Concrete requests\<close>

definition demo_app :: "unit http_app" where
  "demo_app =
     \<lparr>ha_ucd = basic_ucd,
      ha_models = \<lparr>jm_result = (\<lambda>orch. []), jm_rag = (\<lambda>rag. [(u ''raw_response'', PNone)]), jm_validate = Inr\<rparr>,
      ha_security = \<lparr>ss_runtime_mode = ''demo'', ss_max_token_bytes = 100, ss_verifier = None, ss_mapper = None\<rparr>,
      ha_dependencies = None, ha_include_raw_response = True\<rparr>"

definition demo_dependencies :: dependencies where
  "demo_dependencies =
     \<lparr>dp_gateway = build_gateway NULL_MODE HEADER_OPTIONAL demo_service, dp_versions = development_versions,
      dp_new_id = (\<lambda>n. [115]), dp_now = utc 0, dp_max_key_bytes = 255\<rparr>"

definition demo_metadata :: request_metadata where
  "demo_metadata = \<lparr>rm_request_id = [50], rm_trace_id = [116], rm_received_at = utc 0\<rparr>"

definition demo_security :: security_context where
  "demo_security =
     \<lparr>sx_principal = fst development_security_context,
      sx_authorization = projr (authorize basic_ucd (fst development_security_context) chat_permissions),
      sx_trace = [authenticated, trace_step ''authorization'' ''succeeded'' (u ''allowed'')]\<rparr>"

lemma demo_secure:
  assumes "header_values (u ''authorization'') headers = []"
  shows "secure basic_ucd (ha_security demo_app) headers chat_permissions () = (Inr demo_security, ())"
proof -
  have p: "parse_bearer 100 headers = Inr None" using assms by (simp add: parse_bearer_def)
  have e: "set chat_permissions \<subseteq> set (effective_permissions (fst development_security_context))"
    by (simp add: chat_permissions_def effective_permissions_set development_security_context_def role_permissions_def
        ROLE_PERMISSIONS_def)
  have en: "pr_enabled (fst development_security_context)" by (simp add: development_security_context_def)
  show ?thesis
    using authorize_eq[OF basic_ucd_plain development_principal_ok, of chat_permissions] p e en
    by (simp add: secure_def demo_app_def demo_security_def bind_op_def translating_def try_op_def identify_def)
qed

lemma demo_app_sel [simp]: "ha_ucd demo_app = basic_ucd" "jm_validate (ha_models demo_app) r = Inr r"
  by (simp_all add: demo_app_def)

lemma demo_validates: "validates_same (ha_models demo_app)"
  by (simp add: validates_same_def)

lemma demo_keeps_context: "keeps_context (sv_chat demo_service)"
  by (simp add: keeps_context_def demo_service_def demo_result_def)

lemma demo_route_context:
  "\<exists>ctx. route_context A demo_dependencies demo_metadata demo_request demo_security key = Inr ctx"
  if "ha_ucd A = basic_ucd" "key = None \<or> key = Some [107]"
proof -
  have "az_resource_scopes (sx_authorization demo_security) = [\<lparr>sc_tenant_id = pr_tenant_id (sx_principal demo_security),
        sc_organization_id = pr_organization_id (sx_principal demo_security),
        sc_resource_type = u ''organization'', sc_scope_type = ScopeOrganization, sc_resource_ids = []\<rparr>]"
    using authorize_eq[OF basic_ucd_plain development_principal_ok, of chat_permissions]
    by (simp add: demo_security_def del: u_Cons)
  then show ?thesis using that
    by (auto simp: route_context_def build_context_def validate_request_context_def demo_dependencies_def demo_metadata_def
        demo_request_def or_fresh_def str_field_def opt_field_def normalize_utc_def py_strip_def py_rstrip_def basic_ucd_def
        scope_matches_principal_def)
qed

theorem answered_request_was_authorized_witness:
  "\<exists>response st who. handle (with_service demo_app demo_dependencies NULL_MODE HEADER_OPTIONAL demo_service)
        chat_permissions (u ''v1.chat'') None demo_metadata [] demo_request
        ((), demo_world empty_execution_state 0) = (HttpOk response None, st)
     \<and> principal_ok basic_ucd who \<and> pr_enabled who
     \<and> (\<forall>q \<in> set chat_permissions. \<exists>role \<in> set (pr_roles who). q \<in> set (role_permissions role))
     \<and> who = fst development_security_context"
proof -
  let ?A = "with_service demo_app demo_dependencies NULL_MODE HEADER_OPTIONAL demo_service"
  obtain ctx where ctx: "route_context demo_app demo_dependencies demo_metadata demo_request demo_security None = Inr ctx"
    using demo_route_context[of demo_app None] by auto
  have sec: "secure (ha_ucd ?A) (ha_security ?A) [] chat_permissions () = (Inr demo_security, ())"
    using demo_secure[of "[]"] by (simp add: header_values_def)
  have key: "parse_idempotency_key n [] = Inr None" for n by (simp add: parse_idempotency_key_def header_values_def)
  have "\<exists>response st. handle ?A chat_permissions (u ''v1.chat'') None demo_metadata [] demo_request
      ((), demo_world empty_execution_state 0) = (HttpOk response None, st)"
    using sec ctx key
    by (simp add: handle_def on_keys_def on_world_def route_execute_def bind_op_step gateway_execute_def build_gateway_def
        demo_service_def route_response_def del: u_Cons)
  then obtain response st where h: "handle ?A chat_permissions (u ''v1.chat'') None demo_metadata [] demo_request
      ((), demo_world empty_execution_state 0) = (HttpOk response None, st)" by blast
  have "dp_gateway (demo_dependencies\<lparr>dp_gateway := build_gateway NULL_MODE HEADER_OPTIONAL demo_service\<rparr>)
      = build_gateway NULL_MODE HEADER_OPTIONAL demo_service" by simp
  moreover have "plain_text (ha_ucd ?A)" "principal_ok (ha_ucd ?A) (fst development_security_context)"
    "ha_dependencies ?A = Some (demo_dependencies\<lparr>dp_gateway := build_gateway NULL_MODE HEADER_OPTIONAL demo_service\<rparr>)"
    "validates_same (ha_models ?A)"
    using basic_ucd_plain development_principal_ok demo_validates by simp_all
  ultimately obtain who where "principal_ok (ha_ucd ?A) who" "pr_enabled who"
    "\<forall>q \<in> set chat_permissions. \<exists>role \<in> set (pr_roles who). q \<in> set (role_permissions role)"
    "who = fst development_security_context \<or> (\<exists>raw. header_values (u ''authorization'') [] = [raw])"
    using answered_request_was_authorized[OF h _ _ _ _ demo_keeps_context] by blast
  moreover have "header_values (u ''authorization'') [] = []" by (simp add: header_values_def)
  ultimately show ?thesis using h by (intro exI conjI) (simp_all del: u_Cons)
qed

theorem retried_request_never_executes_witness:
  "handle (with_service demo_app demo_dependencies FAKE HEADER_OPTIONAL
        (demo_service\<lparr>sv_chat := (\<lambda>request context forced. raise_op ApplicationExecutionError)\<rparr>))
      chat_permissions [111] None demo_metadata [(u ''Idempotency-Key'', u ''k'')] demo_request
      ((), demo_world (sy_store (demo_systems 1)) 30)
   = handle (with_service demo_app demo_dependencies FAKE HEADER_OPTIONAL demo_service)
      chat_permissions [111] None demo_metadata [(u ''Idempotency-Key'', u ''k'')] demo_request
      ((), demo_world (sy_store (demo_systems 1)) 30)"
proof (rule retried_request_never_executes[OF demo_reachable(1) demo_world_runs_on])
  let ?h = "[(u ''Idempotency-Key'', u ''k'')]"
  show "secure (ha_ucd demo_app) (ha_security demo_app) ?h chat_permissions () = (Inr demo_security, ())"
    using demo_secure[of ?h] by (simp add: header_values_def byte_lower_def)
  show "parse_idempotency_key (dp_max_key_bytes demo_dependencies) ?h = Inr (Some [107])"
    by (simp add: parse_idempotency_key_def header_values_def byte_lower_def strip_blanks_def ascii_def demo_dependencies_def)
  show "held (sy_store (demo_systems 1))
       (scope_from_values (sv_sha demo_service) (pr_tenant_id (sx_principal demo_security))
          (pr_organization_id (sx_principal demo_security)) (pr_user_id (sx_principal demo_security)) [111] [107])
       (instant (w_database_clock (demo_world (sy_store (demo_systems 1)) 30)
          (w_database_clock_calls (demo_world (sy_store (demo_systems 1)) 30))))"
    using demo_held by (simp add: demo_scope_def demo_service_def demo_security_def demo_principal_def)
qed

end
