(* ===== verification/Agent_Safety.thy ===== *)
theory Agent_Safety
  imports Coordinator Policy_Safety Http_Safety
begin

text \<open>
  What a run of the agent shows: the policy gate in front of everything else, the reservation of an
  uncertain answer, that every request is answered; then the chat service over the coordinator and
  its composition with the HTTP routes.
\<close>

section \<open>What a run shows\<close>

lemma mk_orchestration_result_Inr:
  "mk_orchestration_result x = Inr r \<longleftrightarrow> r = x \<and> 0 \<le> or_confidence x \<and> or_confidence x \<le> 1"
  by (auto simp: mk_orchestration_result_def checked_def)

text \<open>The decision of the coordinator's policy on a text.\<close>

definition decides :: "'s coordinator \<Rightarrow> pystr \<Rightarrow> policy_decision res" where
  "decides C txt = decide (lib_ucd (co_library C)) (co_digest C) (co_policy C) txt"

lemma run_InrE:
  assumes "run C txt session override m s = (Inr r, s')"
  obtains (blocked) sid decision step latency now where "decides C txt = Inr decision" "is_blocked decision"
      "blocked_result sid txt decision [step] latency now = Inr r" "as_step_name step = (u ''policy_engine'')"
  | (allowed) sid decision result route oc step1 step2 latency now s1 s2 where "decides C txt = Inr decision" "\<not> is_blocked decision"
      "execute_task C txt route s1 = (Inr oc, s2)"
      "answer_result sid txt decision result route oc (step1 # step2 # oc_steps oc) latency now = Inr r"
proof -
  obtain sid start decision pol dec s1 where d: "decides C txt = Inr decision"
    and gate: "run_gate C sid txt override start decision (policy_step (lib_ucd (co_library C)) txt decision (elapsed_int pol dec)) s1 = (Inr r, s')"
    using assms by (auto simp: run_def bind_op_Inr_iff Let_def decides_def simp del: u_Cons)
  let ?step = "policy_step (lib_ucd (co_library C)) txt decision (elapsed_int pol dec)"
  have "as_step_name ?step = (u ''policy_engine'')" by (simp add: policy_step_def)
  note d = d this
  show thesis
  proof (cases "is_blocked decision")
    case True
    with gate d show thesis by (auto simp: run_gate_def bind_op_Inr_iff simp del: u_Cons intro: blocked)
  next
    case False
    with gate d show thesis by (auto simp: run_gate_def run_allowed_def bind_op_Inr_iff Let_def simp del: u_Cons intro: allowed)
  qed
qed

lemma run_policy: "run C txt session override m s = (Inr r, s') \<Longrightarrow> decides C txt = Inr (or_policy r) \<and> or_user_input r = txt"
  by (elim run_InrE) (auto simp: blocked_result_def answer_result_def mk_orchestration_result_def checked_def split: if_splits)

lemma run_blocked:
  assumes "decides C txt = Inr d" "is_blocked d" "run C txt session override m s = (Inr r, s')"
  shows "or_final_response r = rejection_message d" "or_rag_result r = None" "or_citations r = []" "or_task_route r = None"
    "or_intent_result r = None" "map as_step_name (or_trace r) = [(u ''policy_engine'')]"
  using assms(3,1,2)
  by (elim run_InrE; auto simp: blocked_result_def mk_orchestration_result_def checked_def simp del: u_Cons split: if_splits)+

text \<open>
  C2: a blocked request reaches nothing behind the policy. When the policy blocks a text, the run
  is the same for every keyword table, customer store, retrieval client and forced task, so none of
  them is used; the answer is the refusal, without route, retrieval result or citation, and the
  trace is the single step of the policy.
\<close>

theorem blocked_reaches_nothing:
  assumes "decides C txt = Inr d" "is_blocked d"
  shows "run C txt session override m s
      = run (C\<lparr>co_tables := tables, co_list_all := list_all', co_load := load', co_rag := rag'\<rparr>) txt session override' m s
    \<and> (run C txt session override m s = (Inr r, s') \<longrightarrow>
      or_final_response r = rejection_message d \<and> or_rag_result r = None \<and> or_citations r = [] \<and> or_task_route r = None
      \<and> map as_step_name (or_trace r) = [(u ''policy_engine'')])"
proof (rule conjI)
  let ?D = "C\<lparr>co_tables := tables, co_list_all := list_all', co_load := load', co_rag := rag'\<rparr>"
  have "resolve_request_metadata ?D session m = resolve_request_metadata C session m"
    by (cases m) (simp_all add: resolve_request_metadata_def cong: if_cong)
  then show "run C txt session override m s = run ?D txt session override' m s"
    using assms by (simp add: run_def run_gate_def decides_def Let_def bind_op_def del: u_Cons split: prod.split sum.split)
  show "run C txt session override m s = (Inr r, s') \<longrightarrow>
      or_final_response r = rejection_message d \<and> or_rag_result r = None \<and> or_citations r = [] \<and> or_task_route r = None
      \<and> map as_step_name (or_trace r) = [(u ''policy_engine'')]"
    by (intro impI conjI; rule run_blocked[OF assms], assumption)
qed

text \<open>
  C14: an uncertain request is answered with the reservation in front. Every result carries the
  decision of the policy on its text and a confidence within 0 and 1; when the policy is uncertain the
  response starts with its message and the confidence is at most that of the decision; the
  citations are the sources of the retrieval result, if there is one.
\<close>

theorem uncertain_is_marked:
  assumes "run C txt session override m s = (Inr r, s')"
  shows "decides C txt = Inr (or_policy r) \<and> 0 \<le> or_confidence r \<and> or_confidence r \<le> 1
    \<and> (is_uncertain (or_policy r) \<longrightarrow>
         prefix (rejection_message (or_policy r)) (or_final_response r) \<and> or_confidence r \<le> pd_confidence (or_policy r))
    \<and> or_citations r = (case or_rag_result r of None \<Rightarrow> [] | Some x \<Rightarrow> rg_sources x)"
  using assms
  by (elim run_InrE; simp add: blocked_result_def answer_result_def mk_orchestration_result_Inr is_uncertain_def is_blocked_def del: u_Cons)

lemma configured_run_answers:
  assumes d: "decides C txt = Inr d" "0 \<le> pd_confidence d" "pd_confidence d \<le> 1"
    and tables: "co_tables C \<noteq> []"
    and store: "answers (co_list_all C)" "\<And>i. answers (co_load C i)"
    and rag: "\<And>q. answers (create_rag_client (co_library C) post files (co_clock C) config q)"
  shows "\<exists>r s'. run (configured post files config C) txt None override (Some m) s = (Inr r, s')"
proof -
  let ?A = "configured post files config C"
  have same [simp]: "co_library ?A = co_library C" "co_tables ?A = co_tables C" "co_list_all ?A = co_list_all C"
    "co_load ?A = co_load C" "co_rag ?A = create_rag_client (co_library C) post files (co_clock C) config" "decides ?A = decides C"
    "co_digest ?A = co_digest C" "co_policy ?A = co_policy C" "co_clock ?A = co_clock C"
    by (simp_all add: configured_def decides_def fun_eq_iff)
  obtain result where r: "route_intent (lib_ucd (co_library ?A)) (co_tables ?A) txt = Inr result" "0 \<le> ir_confidence result" "ir_confidence result \<le> 1"
    using route_intent_Inr[of "co_tables ?A" "lib_ucd (co_library ?A)" "txt"] tables by auto
  obtain route where route: "route_task (lib_ucd (co_library ?A)) txt (Some result) = Inr route"
    using route_task_Inr[of "Some result"] r(2,3) by auto
  have task: "answers (execute_task ?A txt x)" for x
    by (rule agent.task_answers) (simp_all add: store rag)
  have conf: "execute_task ?A txt x t = (Inr oc, t') \<Longrightarrow> 0 \<le> oc_confidence oc \<and> oc_confidence oc \<le> 1" for x t oc t'
    by (rule agent.task_confidence)
  have "answers (run ?A txt None override (Some m))"
    unfolding run_def run_gate_def run_allowed_def Let_def resolve_request_metadata_def
    using d r route conf task
    by (intro answers_intros; auto simp: decides_def mk_task_route_def checked_def blocked_result_def answer_result_def mk_orchestration_result_def
        simp del: u_Cons split: option.split intro!: answers_intros)
  then show ?thesis unfolding answers_def by blast
qed


section \<open>The chat service\<close>

lemma chat_InrE:
  assumes "execute_with_context C request ctx forced s = (Inr r, s')"
  obtains m override orch where "run C (ur_text request) (Some (cx_session_id ctx)) override (Some m) s = (Inr orch, s')"
    "r = \<lparr>ar_context = ctx, ar_orchestration = orch\<rparr>"
  using assms
  by (auto simp: execute_with_context_def bind_op_Inr_iff Let_def try_raise_Inr intro: that)

lemma validated_metadata:
  assumes "validate_request_context T c = Inr ctx"
  shows "mk_request_metadata T (cx_request_id ctx) (cx_trace_id ctx) (cx_session_id ctx)
    = Inr \<lparr>om_request_id = cx_request_id ctx, om_trace_id = cx_trace_id ctx, om_session_id = cx_session_id ctx\<rparr>"
proof -
  from assms obtain rid tid sid where
    "str_field T 1 (Some 128) (cx_request_id c) = Inr rid" "str_field T 1 (Some 128) (cx_trace_id c) = Inr tid"
    "str_field T 1 (Some 128) (cx_session_id c) = Inr sid"
    and ctx: "cx_request_id ctx = rid" "cx_trace_id ctx = tid" "cx_session_id ctx = sid"
    by (auto simp: validate_request_context_def bind_res_Inr_iff split: if_splits)
  from this(1-3)[THEN str_field_idem] show ?thesis by (simp add: mk_request_metadata_def ctx)
qed

lemma chat_keeps_context: "keeps_context (execute_with_context C)"
  by (auto simp: keeps_context_def elim: chat_InrE)

text \<open>
  C18: the chat service fails with one exception. For a validated request context every failure of
  the coordinator, whatever its exception, leaves the service as \<open>ApplicationExecutionError\<close>, and a
  result carries the context of the request and the decision of the policy on its text.
\<close>

theorem chat_fails_as_one:
  assumes "validate_request_context (lib_ucd (co_library C)) c = Inr ctx"
    and "execute_with_context C request ctx forced s = (x, s')"
  shows "case x of Inl e \<Rightarrow> e = ApplicationExecutionError
    | Inr r \<Rightarrow> ar_context r = ctx \<and> or_user_input (ar_orchestration r) = ur_text request
        \<and> decides C (ur_text request) = Inr (or_policy (ar_orchestration r))"
proof (cases x)
  case (Inr r)
  with assms(2) show ?thesis by (auto elim!: chat_InrE dest: run_policy)
next
  case (Inl e)
  note validated_metadata[OF assms(1)]
  with assms(2) Inl show ?thesis
    by (auto simp: execute_with_context_def Let_def bind_op_Inl_iff try_op_def split: prod.splits sum.splits)
qed

section \<open>A blocked request over HTTP\<close>

lemma gateway_keyless:
  assumes "gateway_execute (build_gateway mode header S) request ctx operation None replay forced w = (Inr g, w')"
  obtains w1 w2 where "sv_chat S request ctx forced w1 = (Inr (gr_application_result g), w2)" "gr_idempotency_status g = None"
  using assms
  by (auto simp: gateway_execute_def build_gateway_def bind_op_Inr_iff split: if_splits elim!: durable_execute_Inr intro: that)

lemma route_execute_keyless:
  assumes "route_execute A meta headers body security operation forced w = (Inr (response, status), w')"
    "ha_dependencies A = Some D" "validates_same (ha_models A)" "header_values (u ''idempotency-key'') headers = []"
  obtains ctx outcome replay w1 w2 where
    "gateway_execute (dp_gateway D) body ctx operation None replay forced w1 = (Inr outcome, w2)"
    "response = project (ha_models A) (gr_application_result outcome) (sx_trace security) (ha_include_raw_response A)"
    "status = gr_idempotency_status outcome"
proof -
  from assms(1)[unfolded route_execute_def assms(2) option.case] obtain key s1 ctx s2 outcome s3 replay
    where "lift_res (parse_idempotency_key (dp_max_key_bytes D) headers) w = (Inr key, s1)"
      and g: "gateway_execute (dp_gateway D) body ctx operation key replay forced s2 = (Inr outcome, s3)"
      and r: "lift_res (route_response A security outcome) s3 = (Inr (response, status), w')"
    by (elim bind_op_InrE) blast
  moreover have "parse_idempotency_key n headers = Inr None" for n
    using assms(4) by (simp add: parse_idempotency_key_def)
  ultimately have "key = None" by simp
  moreover from r have "status = gr_idempotency_status outcome"
    "jm_validate (ha_models A) (project (ha_models A) (gr_application_result outcome) (sx_trace security) (ha_include_raw_response A)) = Inr response"
    by (auto simp: route_response_def split: sum.splits)
  ultimately show thesis using g assms(3) unfolding validates_same_def by (intro that) blast+
qed

text \<open>
  C7: a blocked request gets nothing but the refusal. When a route without idempotency key answers a
  body whose text the policy blocks, the result has no retrieval result, there is no debug part
  and no idempotency status, and the trace shows the steps of the security boundary and then the one
  step of the policy, reported as blocked.
\<close>

theorem blocked_over_http:
  assumes "handle A permissions operation forced meta headers body (s, w) = (HttpOk response status, st)"
    and "ha_dependencies A = Some D" "dp_gateway D = build_gateway mode header S" "validates_same (ha_models A)"
    and "sv_chat S = execute_with_context C" "header_values (u ''idempotency-key'') headers = []"
    and "decides C (ur_text body) = Inr d" "is_blocked d"
  shows "map_of (ap_result response) (u ''rag_result'') = Some PNone \<and> ap_debug response = None \<and> status = None
    \<and> (\<exists>security_trace summary. ap_trace response = security_trace @
         [\<lparr>rt_component = u ''policy_engine'', rt_status = ''blocked'', rt_code = u ''policy_blocked'', rt_summary = summary\<rparr>])"
proof -
  from assms(1) obtain security s' w' where "route_execute A meta headers body security operation forced w = (Inr (response, status), w')"
    by (rule handle_Ok)
  from this assms(2,4,6) obtain ctx outcome replay w1 w2 where
    g: "gateway_execute (dp_gateway D) body ctx operation None replay forced w1 = (Inr outcome, w2)"
    and r: "response = project (ha_models A) (gr_application_result outcome) (sx_trace security) (ha_include_raw_response A)"
    and st: "status = gr_idempotency_status outcome"
    by (rule route_execute_keyless)
  from g[unfolded assms(3)] obtain w1 w2 where "sv_chat S body ctx forced w1 = (Inr (gr_application_result outcome), w2)"
    "gr_idempotency_status outcome = None" by (rule gateway_keyless)
  then obtain m override orch where run: "run C (ur_text body) (Some (cx_session_id ctx)) override (Some m) w1 = (Inr orch, w2)"
    and o: "ar_orchestration (gr_application_result outcome) = orch" and none: "gr_idempotency_status outcome = None"
    unfolding assms(5) by (elim chat_InrE) simp
  note b = run_blocked[OF assms(7,8) run]
  obtain p where p: "or_trace orch = [p]" "as_step_name p = (u ''policy_engine'')" using b(6) by auto
  have "is_blocked (or_policy orch)" using run_policy[OF run] assms(7,8) by simp
  then show ?thesis using r st none o b p
    by (simp add: project_def Let_def to_public_dict_def public_step_def step_blocked_def del: u_Cons)
qed

section \<open>Concrete runs\<close>

definition demo_decision :: "policy_status \<Rightarrow> policy_decision" where
  "demo_decision status =
     \<lparr>pd_status = status, pd_reason = [114], pd_matched_rules = [], pd_warnings = [], pd_classifier_used = True,
      pd_confidence = 1 / 2\<rparr>"

text \<open>A coordinator over one knowledge file, with no rules and a classifier of one opinion.\<close>

definition demo_coordinator :: "policy_status \<Rightarrow> 's coordinator" where
  "demo_coordinator status =
     \<lparr>co_library = demo_library, co_digest = id,
      co_policy = make_engine (Some (\<lambda>s. Inr (ClsDecision (demo_decision status)))) [],
      co_tables = SIGNAL_TABLES, co_list_all = ret [], co_load = (\<lambda>i. ret None),
      co_rag = (\<lambda>q. raise_op OSError), co_clock = (\<lambda>s. (utc 0, s)), co_uuid = (\<lambda>s. ([97], s))\<rparr>"

lemma demo_coordinator_sel [simp]:
  "co_library (demo_coordinator st) = demo_library" "co_tables (demo_coordinator st) = SIGNAL_TABLES"
  "co_list_all (demo_coordinator st) = ret []" "co_load (demo_coordinator st) i = ret None"
  "co_clock (demo_coordinator st) s = (utc 0, s)"
  by (simp_all add: demo_coordinator_def)

lemma demo_library_ucd [simp]: "lib_ucd demo_library = basic_ucd"
  by (simp add: demo_library_def)

lemma demo_decision_sel [simp]:
  "pd_status (demo_decision st) = st" "pd_confidence (demo_decision st) = 1 / 2"
  by (simp_all add: demo_decision_def)

lemma demo_decides: "decides (demo_coordinator st) [113] = Inr (demo_decision st)"
  by (simp add: decides_def demo_coordinator_def decide_def Let_def demo_run classify_def coerce_classifier_result_def demo_decision_def)

definition demo_metadata_of :: orchestration_request_metadata where
  "demo_metadata_of = \<lparr>om_request_id = [50], om_trace_id = [116], om_session_id = [115]\<rparr>"

lemma local_client_answers:
  assumes "\<And>s. \<exists>records. load_knowledge L (fst (files s)) = Inr records"
  shows "answers (local_query L files clock q)"
  unfolding answers_def
proof
  fix s
  obtain x s' where x: "local_query L files clock q s = (x, s')" by fastforce
  have "x \<noteq> Inl e" for e
    using x local_query_Inl[of L files clock q s e s'] assms by (metis fst_conv sum.distinct(1))
  then show "\<exists>x s'. local_query L files clock q s = (Inr x, s')" using x by (cases x) auto
qed

definition demo_local_config :: rag_service_config where
  "demo_local_config = \<lparr>rs_external = False, rs_timeout = [], rs_fallback_to_local = True\<rparr>"

lemma demo_client_answers:
  "answers (create_rag_client demo_library post (\<lambda>s. ([demo_file], s)) clock demo_local_config q)"
proof -
  have "create_rag_client demo_library post (\<lambda>s. ([demo_file], s)) clock demo_local_config
      = local_query demo_library (\<lambda>s. ([demo_file], s)) clock"
    by (simp add: create_rag_client_def demo_local_config_def Let_def)
  then show ?thesis using local_client_answers[of demo_library "\<lambda>s. ([demo_file], s)"] demo_knowledge by simp
qed

lemma demo_tables: "SIGNAL_TABLES \<noteq> []"
  by (simp add: SIGNAL_TABLES_def)

abbreviation demo_agent :: "policy_status \<Rightarrow> unit coordinator" where
  "demo_agent status \<equiv>
     configured (\<lambda>q. raise_op (ConnectError [])) (\<lambda>s. ([demo_file], s)) demo_local_config (demo_coordinator status)"

lemma demo_agent_run: obtains r where "run (demo_agent st) [113] None override (Some demo_metadata_of) () = (Inr r, ())"
  using configured_run_answers[of "demo_coordinator st" "[113]" "demo_decision st" "\<lambda>q. raise_op (ConnectError [])"
      "\<lambda>s. ([demo_file], s)" demo_local_config override demo_metadata_of "()", OF demo_decides] demo_client_answers
  by (auto simp: demo_tables answers_ret)

lemma demo_agent_decides: "decides (demo_agent st) [113] = Inr (demo_decision st)"
  using demo_decides[of st] by (simp add: decides_def configured_def)

theorem blocked_reaches_nothing_witness:
  "\<exists>r. run (demo_agent BLOCKED) [113] None (Some TaskQa) (Some demo_metadata_of) () = (Inr r, ())
     \<and> or_final_response r = rejection_message (demo_decision BLOCKED) \<and> or_rag_result r = None"
proof -
  obtain r where "run (demo_agent BLOCKED) [113] None (Some TaskQa) (Some demo_metadata_of) () = (Inr r, ())" by (rule demo_agent_run)
  moreover have "is_blocked (demo_decision BLOCKED)" by (simp add: is_blocked_def)
  ultimately show ?thesis
    using blocked_reaches_nothing[OF demo_agent_decides, of BLOCKED None "Some TaskQa" "Some demo_metadata_of" "()"] by blast
qed

theorem uncertain_is_marked_witness:
  "\<exists>r. run (demo_agent UNCERTAIN) [113] None (Some TaskQa) (Some demo_metadata_of) () = (Inr r, ())
     \<and> prefix (rejection_message (demo_decision UNCERTAIN)) (or_final_response r) \<and> or_confidence r \<le> 1 / 2"
proof -
  obtain r where r: "run (demo_agent UNCERTAIN) [113] None (Some TaskQa) (Some demo_metadata_of) () = (Inr r, ())" by (rule demo_agent_run)
  from uncertain_is_marked[OF this] have "or_policy r = demo_decision UNCERTAIN" by (simp add: demo_agent_decides)
  with uncertain_is_marked[OF r] r show ?thesis by (auto simp: is_uncertain_def)
qed


lemma route_context_validated:
  "route_context A D meta body security key = Inr ctx \<Longrightarrow> \<exists>c. validate_request_context (ha_ucd A) c = Inr ctx"
  by (auto simp: route_context_def build_context_def split: prod.splits)

lemma demo_validated: obtains c ctx where "validate_request_context basic_ucd c = Inr ctx"
  "route_context demo_app demo_dependencies demo_metadata demo_request demo_security None = Inr ctx"
proof -
  obtain ctx where ctx: "route_context demo_app demo_dependencies demo_metadata demo_request demo_security None = Inr ctx"
    using demo_route_context[of demo_app None] by auto
  then obtain c where "validate_request_context basic_ucd c = Inr ctx" using route_context_validated by fastforce
  then show thesis using ctx by (rule that)
qed

text \<open>A coordinator without keyword tables fails with an \<open>IndexError\<close>.\<close>

abbreviation demo_untabled :: "unit coordinator" where
  "demo_untabled \<equiv> demo_coordinator SAFE\<lparr>co_tables := []\<rparr>"

lemma demo_untabled_fails: "run demo_untabled [113] (Some sid) override (Some \<lparr>om_request_id = a, om_trace_id = b, om_session_id = sid\<rparr>) ()
    = (Inl IndexError, ())"
proof -
  have "decides demo_untabled [113] = Inr (demo_decision SAFE)" using demo_decides[of SAFE] by (simp add: decides_def)
  moreover have "route_intent basic_ucd [] [113] = Inl IndexError"
    by (simp add: route_intent_def ranked_intents_def py_strip_def py_rstrip_def basic_ucd_def Let_def)
  ultimately show ?thesis
    by (simp add: run_def run_gate_def run_allowed_def resolve_request_metadata_def bind_op_def read_op_def decides_def is_blocked_def Let_def)
qed

theorem chat_fails_as_one_witness:
  "\<exists>ctx. execute_with_context demo_untabled demo_request ctx None () = (Inl ApplicationExecutionError, ())"
proof -
  obtain c ctx where c: "validate_request_context basic_ucd c = Inr ctx" by (rule demo_validated)
  have "execute_with_context demo_untabled demo_request ctx None () = (Inl ApplicationExecutionError, ())"
    using validated_metadata[OF c] demo_untabled_fails
    by (simp add: execute_with_context_def demo_request_def bind_op_def try_op_def)
  moreover obtain x where x: "execute_with_context demo_untabled demo_request ctx None () = (x, ())"
    by (cases "execute_with_context demo_untabled demo_request ctx None ()") auto
  moreover have "case x of Inl e \<Rightarrow> e = ApplicationExecutionError
    | Inr r \<Rightarrow> ar_context r = ctx \<and> or_user_input (ar_orchestration r) = ur_text demo_request
        \<and> decides demo_untabled (ur_text demo_request) = Inr (or_policy (ar_orchestration r))"
    by (rule chat_fails_as_one[OF _ x, of c]) (simp add: c)
  ultimately show ?thesis by (auto split: sum.splits)
qed

definition demo_agent_service :: service where
  "demo_agent_service = demo_service\<lparr>sv_chat := execute_with_context (demo_coordinator BLOCKED)\<rparr>"

lemma demo_chat_blocked:
  fixes w :: 's
  assumes "validate_request_context basic_ucd c = Inr ctx"
  shows "\<exists>r. execute_with_context (demo_coordinator BLOCKED) demo_request ctx None w = (Inr r, w)"
proof -
  have "decides (demo_coordinator BLOCKED :: 's coordinator) [113] = Inr (demo_decision BLOCKED)" by (rule demo_decides)
  then have d: "decide basic_ucd (co_digest (demo_coordinator BLOCKED :: 's coordinator)) (co_policy (demo_coordinator BLOCKED :: 's coordinator)) [113]
      = Inr (demo_decision BLOCKED)"
    by (simp add: decides_def)
  have "\<exists>r. run (demo_coordinator BLOCKED) [113] (Some (cx_session_id ctx)) override
     (Some \<lparr>om_request_id = a, om_trace_id = b, om_session_id = cx_session_id ctx\<rparr>) w = (Inr r, w)" for override a b
    by (simp add: run_def run_gate_def resolve_request_metadata_def bind_op_def read_op_def d is_blocked_def Let_def
        blocked_result_def mk_orchestration_result_def checked_def)
  then obtain r where "run (demo_coordinator BLOCKED) [113] (Some (cx_session_id ctx)) None
     (Some \<lparr>om_request_id = cx_request_id ctx, om_trace_id = cx_trace_id ctx, om_session_id = cx_session_id ctx\<rparr>) w = (Inr r, w)" by blast
  then show ?thesis using validated_metadata[OF assms]
    by (simp add: execute_with_context_def demo_request_def bind_op_def try_op_def)
qed

theorem blocked_over_http_witness:
  "\<exists>response st. handle (with_service demo_app demo_dependencies NULL_MODE HEADER_OPTIONAL demo_agent_service)
        chat_permissions (u ''v1.chat'') None demo_metadata [] demo_request
        ((), demo_world empty_execution_state 0) = (HttpOk response None, st)
     \<and> map_of (ap_result response) (u ''rag_result'') = Some PNone"
proof -
  let ?A = "with_service demo_app demo_dependencies NULL_MODE HEADER_OPTIONAL demo_agent_service"
  let ?w = "demo_world empty_execution_state 0"
  obtain c ctx where c: "validate_request_context basic_ucd c = Inr ctx"
    and ctx: "route_context demo_app demo_dependencies demo_metadata demo_request demo_security None = Inr ctx" by (rule demo_validated)
  obtain r where chat: "sv_chat demo_agent_service demo_request ctx None ?w = (Inr r, ?w)"
    using demo_chat_blocked[OF c, of ?w] unfolding demo_agent_service_def by auto
  have sec: "secure (ha_ucd ?A) (ha_security ?A) [] chat_permissions () = (Inr demo_security, ())"
    using demo_secure[of "[]"] by (simp add: header_values_def)
  have key: "parse_idempotency_key n [] = Inr None" for n by (simp add: parse_idempotency_key_def header_values_def)
  have "\<exists>response st. handle ?A chat_permissions (u ''v1.chat'') None demo_metadata [] demo_request ((), ?w) = (HttpOk response None, st)"
    using sec ctx key chat
    by (simp add: handle_def on_keys_def on_world_def route_execute_def bind_op_step gateway_execute_def build_gateway_def
        route_response_def del: u_Cons)
  then obtain response st where h: "handle ?A chat_permissions (u ''v1.chat'') None demo_metadata [] demo_request ((), ?w)
      = (HttpOk response None, st)" by blast
  have "map_of (ap_result response) (u ''rag_result'') = Some PNone"
    using blocked_over_http[OF h, of "demo_dependencies\<lparr>dp_gateway := build_gateway NULL_MODE HEADER_OPTIONAL demo_agent_service\<rparr>"
        NULL_MODE HEADER_OPTIONAL demo_agent_service "demo_coordinator BLOCKED" "demo_decision BLOCKED"] demo_validates
      demo_decides[of BLOCKED, where ?'a = world]
    by (simp add: demo_agent_service_def header_values_def demo_request_def is_blocked_def del: u_Cons)
  with h show ?thesis by blast
qed

end
