(* ===== verification/Customer_Store.thy ===== *)
theory Customer_Store
  imports Local_Retrieval "HOL-Library.Countable"
begin

text \<open>
  \<open>memory/customer_store.py\<close>: one JSON file per customer, written through a temporary file, with
  backups and an index of names. The disk is a dictionary of files; every write, move, copy,
  removal and read of a file may fail with an \<open>OSError\<close>, a failing write or copy leaving the target as
  it was or with any content.
\<close>

section \<open>The disk\<close>

text \<open>\<open>None\<close> is a content that is not valid UTF-8.\<close>

type_synonym content = "pystr option"

datatype file_path =
    CustomerFile pystr | TempFile pystr | BackupFile pystr | AliasesFile | AliasesTemp
  | InteractionFile pystr pystr

datatype fault = Works | Fails "content option"

record disk =
  dk_files :: "(file_path, content) dict"
  dk_faults :: "fault list"

type_synonym 'a disk_op = "(disk, 'a) op"

definition file_exists :: "file_path \<Rightarrow> disk \<Rightarrow> bool" where
  "file_exists p D \<longleftrightarrow> dict_get (dk_files D) p \<noteq> None"

text \<open>The next of the faults that lie ahead.\<close>

definition next_fault :: "fault disk_op" where
  "next_fault D = (case dk_faults D of [] \<Rightarrow> (Inr Works, D) | f # fs \<Rightarrow> (Inr f, D\<lparr>dk_faults := fs\<rparr>))"

definition put_file :: "file_path \<Rightarrow> content \<Rightarrow> disk \<Rightarrow> disk" where
  "put_file p c D = D\<lparr>dk_files := dict_set p c (dk_files D)\<rparr>"

definition drop_file :: "file_path \<Rightarrow> disk \<Rightarrow> disk" where
  "drop_file p D = D\<lparr>dk_files := AList.delete p (dk_files D)\<rparr>"

definition read_text :: "file_path \<Rightarrow> pystr disk_op" where
  "read_text p =
     bind_op next_fault (\<lambda>f. if f \<noteq> Works then raise_op OSError
       else bind_op (get_op (\<lambda>D. dict_get (dk_files D) p)) (\<lambda>c.
         case c of None \<Rightarrow> raise_op OSError | Some None \<Rightarrow> raise_op UnicodeDecodeError | Some (Some s) \<Rightarrow> ret s))"

definition leave :: "file_path \<Rightarrow> fault \<Rightarrow> unit disk_op" where
  "leave p f = (case f of Fails (Some c) \<Rightarrow> put_op (put_file p c) | _ \<Rightarrow> ret ())"

definition write_text :: "file_path \<Rightarrow> pystr \<Rightarrow> unit disk_op" where
  "write_text p s =
     bind_op next_fault (\<lambda>f. if f = Works then put_op (put_file p (Some s))
       else bind_op (leave p f) (\<lambda>_. raise_op OSError))"

definition copy_file :: "file_path \<Rightarrow> file_path \<Rightarrow> unit disk_op" where
  "copy_file p q =
     bind_op next_fault (\<lambda>f. if f \<noteq> Works then bind_op (leave q f) (\<lambda>_. raise_op OSError)
       else bind_op (get_op (\<lambda>D. dict_get (dk_files D) p)) (\<lambda>c.
         case c of None \<Rightarrow> raise_op OSError | Some c \<Rightarrow> put_op (put_file q c)))"

definition replace_file :: "file_path \<Rightarrow> file_path \<Rightarrow> unit disk_op" where
  "replace_file p q =
     bind_op next_fault (\<lambda>f. if f \<noteq> Works then raise_op OSError
       else bind_op (get_op (\<lambda>D. dict_get (dk_files D) p)) (\<lambda>c.
         case c of None \<Rightarrow> raise_op OSError | Some c \<Rightarrow> put_op (drop_file p \<circ> put_file q c)))"

definition unlink :: "file_path \<Rightarrow> unit disk_op" where
  "unlink p = bind_op next_fault (\<lambda>f. if f \<noteq> Works then raise_op OSError else put_op (drop_file p))"

section \<open>The store\<close>

text \<open>
  \<open>cc_dumps\<close> is \<open>json.dumps\<close>, \<open>cc_loads\<close> is \<open>json.loads\<close> (\<open>None\<close>: a \<open>JSONDecodeError\<close>), \<open>cc_dump\<close> the
  JSON dump of a profile, and \<open>cc_profile\<close> is \<open>CustomerProfile(**data)\<close> (\<open>None\<close>: any exception).
\<close>

record codec =
  cc_dumps :: "pyval \<Rightarrow> pystr"
  cc_loads :: "pystr \<Rightarrow> pyval option"
  cc_dump :: "customer_profile \<Rightarrow> pyval"
  cc_profile :: "pyval \<Rightarrow> customer_profile option"

record customer_store =
  ct_codec :: codec
  ct_library :: library
  ct_backup_enabled :: bool
  ct_backup_max_keep :: nat
  ct_schema_version :: int
  ct_mtime :: "pystr \<Rightarrow> int"

definition loads_op :: "customer_store \<Rightarrow> pystr \<Rightarrow> pyval disk_op" where
  "loads_op S s = (case cc_loads (ct_codec S) s of None \<Rightarrow> raise_op JSONDecodeError | Some v \<Rightarrow> ret v)"

text \<open>\<open>except (json.JSONDecodeError, OSError)\<close>\<close>

definition rescued :: "'a disk_op \<Rightarrow> 'a \<Rightarrow> 'a disk_op" where
  "rescued m x = try_op m (\<lambda>e. if e \<in> {JSONDecodeError, OSError} then Some (ret x) else None)"

text \<open>\<open>except OSError\<close>\<close>

definition on_os_error :: "'a disk_op \<Rightarrow> 'a disk_op \<Rightarrow> 'a disk_op" where
  "on_os_error m k = try_op m (\<lambda>e. if e = OSError then Some k else None)"

text \<open>\<open>sv < self._schema_version\<close> is a \<open>TypeError\<close> unless \<open>sv\<close> is a number.\<close>

definition check_schema_member :: "(pystr \<times> pyval) list \<Rightarrow> unit disk_op" where
  "check_schema_member d =
     (case map_of d (u ''schema_version'') of
        None \<Rightarrow> ret () | Some (PInt n) \<Rightarrow> ret () | Some (PBool b) \<Rightarrow> ret () | Some (PFloat x) \<Rightarrow> ret ()
      | Some _ \<Rightarrow> raise_op (TypeError ''not supported between instances''))"

definition load :: "customer_store \<Rightarrow> pystr \<Rightarrow> customer_profile option disk_op" where
  "load S cid =
     bind_op (get_op (file_exists (CustomerFile cid))) (\<lambda>found.
     if \<not> found then ret None
     else bind_op (rescued (bind_op (read_text (CustomerFile cid)) (\<lambda>s. bind_op (loads_op S s) (\<lambda>v. ret (Some v)))) None) (\<lambda>data.
       case data of
         None \<Rightarrow> ret None
       | Some (PDict d) \<Rightarrow> bind_op (check_schema_member d) (\<lambda>_. ret (cc_profile (ct_codec S) (PDict d)))
       | Some _ \<Rightarrow> raise_op AttributeError))"

definition bak_name :: "pystr \<Rightarrow> pystr" where
  "bak_name cid = cid @ (u ''.bak'')"

definition backup_names :: "disk \<Rightarrow> pystr list" where
  "backup_names D = concat (map (\<lambda>(p, c). case p of BackupFile name \<Rightarrow> [name] | _ \<Rightarrow> []) (dk_files D))"

text \<open>\<open>for old in backups[keep:]: try: old.unlink() except OSError: pass\<close>\<close>

fun unlink_all :: "file_path list \<Rightarrow> unit disk_op" where
  "unlink_all [] = ret ()"
| "unlink_all (p # ps) = bind_op (on_os_error (unlink p) (ret ())) (\<lambda>_. unlink_all ps)"

definition rotate_backups :: "customer_store \<Rightarrow> pystr \<Rightarrow> unit disk_op" where
  "rotate_backups S cid =
     (if ct_backup_max_keep S = 0 then ret ()
      else bind_op (get_op backup_names) (\<lambda>names.
        let backups = rev (sort_key (ct_mtime S) (rev (filter (prefix (bak_name cid)) names)))
        in unlink_all (map BackupFile (drop (ct_backup_max_keep S) backups))))"

definition create_backup :: "customer_store \<Rightarrow> pystr \<Rightarrow> unit disk_op" where
  "create_backup S cid =
     on_os_error (bind_op (copy_file (CustomerFile cid) (BackupFile (bak_name cid))) (\<lambda>_. rotate_backups S cid)) (ret ())"

definition load_aliases :: "customer_store \<Rightarrow> pyval disk_op" where
  "load_aliases S =
     bind_op (get_op (file_exists AliasesFile)) (\<lambda>found.
     if \<not> found then ret (PDict [])
     else rescued (bind_op (read_text AliasesFile) (loads_op S)) (PDict []))"

definition save_aliases :: "customer_store \<Rightarrow> pyval \<Rightarrow> unit disk_op" where
  "save_aliases S mapping =
     on_os_error (bind_op (write_text AliasesTemp (cc_dumps (ct_codec S) mapping)) (\<lambda>_. replace_file AliasesTemp AliasesFile)) (ret ())"

text \<open>\<open>mapping[name] = customer_id\<close>\<close>

definition store_name :: "pystr \<Rightarrow> pystr \<Rightarrow> pyval \<Rightarrow> pyval res" where
  "store_name name cid mapping =
     (case mapping of PDict d \<Rightarrow> Inr (PDict (dict_set name (PStr cid) d)) | _ \<Rightarrow> Inl (TypeError ''item assignment''))"

fun store_names :: "pystr list \<Rightarrow> pystr \<Rightarrow> pyval \<Rightarrow> pyval res" where
  "store_names [] cid mapping = Inr mapping"
| "store_names (name # names) cid mapping = bind_res (store_name name cid mapping) (store_names names cid)"

definition sync_alias :: "customer_store \<Rightarrow> pystr \<Rightarrow> pystr \<Rightarrow> pystr list \<Rightarrow> unit disk_op" where
  "sync_alias S cid name aliases =
     bind_op (load_aliases S) (\<lambda>mapping.
     bind_op (lift_res (store_names (name # aliases) cid mapping)) (save_aliases S))"

definition remove_alias :: "customer_store \<Rightarrow> pystr \<Rightarrow> unit disk_op" where
  "remove_alias S cid =
     bind_op (load_aliases S) (\<lambda>mapping.
     case mapping of
       PDict d \<Rightarrow> save_aliases S (PDict (filter (\<lambda>(k, v). v \<noteq> PStr cid) d))
     | _ \<Rightarrow> raise_op AttributeError)"

text \<open>The atomic write: a temporary file, then a move.\<close>

definition write_profile :: "customer_store \<Rightarrow> customer_profile \<Rightarrow> unit disk_op" where
  "write_profile S p =
     (let tmp = TempFile (cp_customer_id p)
      in bind_op (write_text tmp (cc_dumps (ct_codec S) (cc_dump (ct_codec S) p))) (\<lambda>_. replace_file tmp (CustomerFile (cp_customer_id p))))"

text \<open>The profile that was handed in is the one returned: \<open>save\<close> raises its version.\<close>

definition save :: "customer_store \<Rightarrow> datetime \<Rightarrow> customer_profile \<Rightarrow> customer_profile disk_op" where
  "save S now profile =
     (let p = bump_version now profile; cid = cp_customer_id p
      in bind_op (get_op (file_exists (CustomerFile cid))) (\<lambda>found.
         bind_op (if ct_backup_enabled S \<and> found then create_backup S cid else ret ()) (\<lambda>_.
         bind_op (on_os_error (write_profile S p)
           (bind_op (get_op (file_exists (TempFile cid))) (\<lambda>left.
            bind_op (if left then unlink (TempFile cid) else ret ()) (\<lambda>_. raise_op OSError)))) (\<lambda>_.
         bind_op (sync_alias S cid (cp_customer_name p) (cp_aliases p)) (\<lambda>_. ret p)))))"

definition delete :: "customer_store \<Rightarrow> pystr \<Rightarrow> bool disk_op" where
  "delete S cid =
     bind_op (get_op (file_exists (CustomerFile cid))) (\<lambda>found.
     if \<not> found then ret False
     else on_os_error
       (bind_op (copy_file (CustomerFile cid) (BackupFile (cid @ (u ''.deleted.bak'')))) (\<lambda>_.
        bind_op (unlink (CustomerFile cid)) (\<lambda>_.
        bind_op (remove_alias S cid) (\<lambda>_. ret True))))
       (ret False))"

text \<open>\<open>except Exception\<close>\<close>

definition restore :: "customer_store \<Rightarrow> pystr \<Rightarrow> customer_profile option disk_op" where
  "restore S cid =
     bind_op (get_op (file_exists (BackupFile (bak_name cid)))) (\<lambda>found.
     if \<not> found then ret None
     else try_op
       (bind_op (read_text (BackupFile (bak_name cid))) (\<lambda>s.
        bind_op (loads_op S s) (\<lambda>data.
        case cc_profile (ct_codec S) data of
          None \<Rightarrow> raise_op ValidationError
        | Some p \<Rightarrow> bind_op (write_text (CustomerFile cid) (cc_dumps (ct_codec S) data)) (\<lambda>_. ret (Some p)))))
       (\<lambda>e. Some (ret None)))"

section \<open>Listing and search\<close>

definition customer_ids :: "disk \<Rightarrow> pystr list" where
  "customer_ids D =
     sort_key (\<lambda>cid. cid @ (u ''.json''))
       (concat (map (\<lambda>(p, c). case p of CustomerFile cid \<Rightarrow> [cid] | _ \<Rightarrow> []) (dk_files D)))"

fun load_all :: "customer_store \<Rightarrow> pystr list \<Rightarrow> customer_profile list disk_op" where
  "load_all S [] = ret []"
| "load_all S (cid # cids) =
     bind_op (load S cid) (\<lambda>p. bind_op (load_all S cids) (\<lambda>ps. ret (case p of None \<Rightarrow> ps | Some x \<Rightarrow> x # ps)))"

definition list_all_customers :: "customer_store \<Rightarrow> customer_profile list disk_op" where
  "list_all_customers S = bind_op (get_op customer_ids) (load_all S)"

definition count_customers :: "disk \<Rightarrow> nat" where
  "count_customers D = length (customer_ids D)"

definition list_backups :: "disk \<Rightarrow> pystr list" where
  "list_backups D =
     sort (filter (\<lambda>stem. \<not> suffix (u ''.deleted'') stem)
       (map (\<lambda>name. take (length name - 4) name) (filter (suffix (u ''.bak'')) (backup_names D))))"

definition find_by_name :: "customer_store \<Rightarrow> pystr \<Rightarrow> customer_profile option disk_op" where
  "find_by_name S name =
     bind_op (load_aliases S) (\<lambda>aliases.
     case aliases of
       PDict d \<Rightarrow>
         if truth (member_of d name) then load S (py_str (ct_library S) (member_of d name))
         else bind_op (list_all_customers S) (\<lambda>ps. ret (find (\<lambda>p. cp_customer_name p = name) ps))
     | _ \<Rightarrow> raise_op AttributeError)"

definition filtered :: "customer_store \<Rightarrow> (customer_profile \<Rightarrow> bool) \<Rightarrow> customer_profile list disk_op" where
  "filtered S P = bind_op (list_all_customers S) (\<lambda>ps. ret (filter P ps))"

definition find_by_industry :: "customer_store \<Rightarrow> pystr \<Rightarrow> customer_profile list disk_op" where
  "find_by_industry S industry = filtered S (\<lambda>p. cp_industry p = Some industry)"

definition find_by_sales_stage :: "customer_store \<Rightarrow> pystr \<Rightarrow> customer_profile list disk_op" where
  "find_by_sales_stage S stage = filtered S (\<lambda>p. u (stage_value (cp_sales_stage p)) = stage)"

definition find_by_status :: "customer_store \<Rightarrow> pystr \<Rightarrow> customer_profile list disk_op" where
  "find_by_status S status = filtered S (\<lambda>p. u (customer_status_value (cp_status p)) = status)"

text \<open>An absent filter and an empty one are the same.\<close>

definition search_matches ::
  "ucd \<Rightarrow> pystr option \<Rightarrow> pystr option \<Rightarrow> pystr option \<Rightarrow> pystr option \<Rightarrow> customer_profile \<Rightarrow> bool" where
  "search_matches T name industry stage status p \<longleftrightarrow>
     (truthy name \<longrightarrow> list_ex (\<lambda>x. py_in (u_lower T (the name)) (u_lower T x)) (cp_customer_name p # cp_aliases p))
     \<and> (truthy industry \<longrightarrow> cp_industry p = industry)
     \<and> (truthy stage \<longrightarrow> Some (u (stage_value (cp_sales_stage p))) = stage)
     \<and> (truthy status \<longrightarrow> Some (u (customer_status_value (cp_status p))) = status)"

definition search ::
  "customer_store \<Rightarrow> pystr option \<Rightarrow> pystr option \<Rightarrow> pystr option \<Rightarrow> pystr option \<Rightarrow> customer_profile list disk_op" where
  "search S name industry stage status = filtered S (search_matches (lib_ucd (ct_library S)) name industry stage status)"

definition shares_three :: "pystr \<Rightarrow> pystr \<Rightarrow> bool" where
  "shares_three a b \<longleftrightarrow> 3 \<le> length (filter (\<lambda>c. c \<in> set b) (remdups a))"

definition similar_hits :: "pystr \<Rightarrow> customer_profile \<Rightarrow> customer_profile list" where
  "similar_hits name p =
     (if cp_customer_name p = name then []
      else (if shares_three name (cp_customer_name p) then [p] else [])
         @ (if list_ex (shares_three name) (cp_aliases p) then [p] else []))"

definition find_similar :: "customer_store \<Rightarrow> pystr \<Rightarrow> customer_profile list disk_op" where
  "find_similar S name = bind_op (list_all_customers S) (\<lambda>ps. ret (concat (map (similar_hits name) ps)))"

section \<open>What any operation leaves alone\<close>

abbreviation file_at :: "disk \<Rightarrow> file_path \<Rightarrow> content option" where
  "file_at D p \<equiv> dict_get (dk_files D) p"

lemma file_at_put [simp]: "file_at (put_file p c D) q = (if q = p then Some c else file_at D q)"
  by (simp add: put_file_def)

lemma file_at_drop [simp]: "file_at (drop_file p D) q = (if q = p then None else file_at D q)"
  by (auto simp: drop_file_def delete_conv')

text \<open>An operation that changes only files of \<open>P\<close>, whatever fails.\<close>

definition touches :: "file_path set \<Rightarrow> 'a disk_op \<Rightarrow> bool" where
  "touches P m \<longleftrightarrow> (\<forall>D x D' p. m D = (x, D') \<and> p \<notin> P \<longrightarrow> file_at D' p = file_at D p)"

named_theorems touches_intros

lemma touchesD: "touches P m \<Longrightarrow> m D = (x, D') \<Longrightarrow> p \<notin> P \<Longrightarrow> file_at D' p = file_at D p"
  unfolding touches_def by blast

lemma touches_basic [touches_intros]:
  "touches P (ret x)" "touches P (raise_op e)" "touches P (get_op g)" "touches P (lift_res r)" "touches P next_fault"
  by (auto simp: touches_def next_fault_def split: list.splits)

lemma touches_bind [touches_intros]: "touches P m \<Longrightarrow> (\<And>x. touches P (f x)) \<Longrightarrow> touches P (bind_op m f)"
  unfolding touches_def bind_op_def by (fastforce split: prod.splits sum.splits)

lemma touches_try [touches_intros]:
  "touches P m \<Longrightarrow> (\<And>e k. h e = Some k \<Longrightarrow> touches P k) \<Longrightarrow> touches P (try_op m h)"
  unfolding touches_def try_op_def by (fastforce split: prod.splits sum.splits option.splits)

lemma touches_if [touches_intros]: "touches P m \<Longrightarrow> touches P n \<Longrightarrow> touches P (if b then m else n)"
  by simp

lemma touches_option [touches_intros]:
  "touches P m \<Longrightarrow> (\<And>x. touches P (f x)) \<Longrightarrow> touches P (case v of None \<Rightarrow> m | Some x \<Rightarrow> f x)"
  by (cases v) simp_all

lemma touches_put [touches_intros]:
  "p \<in> P \<Longrightarrow> touches P (put_op (put_file p c))" "p \<in> P \<Longrightarrow> touches P (put_op (drop_file p))"
  "p \<in> P \<Longrightarrow> q \<in> P \<Longrightarrow> touches P (put_op (drop_file p \<circ> put_file q c))"
  by (auto simp: touches_def)

lemma touches_leave [touches_intros]: "p \<in> P \<Longrightarrow> touches P (leave p f)"
  unfolding leave_def by (cases f) (auto intro!: touches_intros split: option.split)

lemma touches_rescue [touches_intros]:
  "touches P m \<Longrightarrow> touches P (rescued m x)" "touches P m \<Longrightarrow> touches P k \<Longrightarrow> touches P (on_os_error m k)"
  unfolding rescued_def on_os_error_def by (auto intro!: touches_intros split: if_splits)

lemma touches_files [touches_intros]:
  "touches P (read_text p)" "p \<in> P \<Longrightarrow> touches P (write_text p s)" "q \<in> P \<Longrightarrow> touches P (copy_file p q)"
  "p \<in> P \<Longrightarrow> q \<in> P \<Longrightarrow> touches P (replace_file p q)" "p \<in> P \<Longrightarrow> touches P (unlink p)"
  unfolding read_text_def write_text_def copy_file_def replace_file_def unlink_def
  by (intro touches_intros; simp)+

lemma touches_unlink_all [touches_intros]: "set ps \<subseteq> P \<Longrightarrow> touches P (unlink_all ps)"
  by (induction ps) (auto intro!: touches_intros)

lemma touches_backup [touches_intros]: "range BackupFile \<subseteq> P \<Longrightarrow> touches P (create_backup S cid)"
  unfolding create_backup_def rotate_backups_def Let_def by (intro touches_intros) auto

lemma touches_aliases [touches_intros]:
  "touches P (load_aliases S)" "AliasesFile \<in> P \<Longrightarrow> AliasesTemp \<in> P \<Longrightarrow> touches P (save_aliases S mapping)"
  "AliasesFile \<in> P \<Longrightarrow> AliasesTemp \<in> P \<Longrightarrow> touches P (sync_alias S cid name names)"
  unfolding load_aliases_def save_aliases_def sync_alias_def loads_op_def by (intro touches_intros; simp)+

text \<open>The files that no reader of customers sees.\<close>

definition internal_files :: "file_path set" where
  "internal_files = {p. \<forall>cid. p \<noteq> CustomerFile cid}"

lemma internal_files_simps [simp]:
  "TempFile x \<in> internal_files" "BackupFile x \<in> internal_files" "AliasesFile \<in> internal_files"
  "AliasesTemp \<in> internal_files" "CustomerFile x \<notin> internal_files" "range BackupFile \<subseteq> internal_files"
  by (auto simp: internal_files_def)

lemma customer_kept: "touches internal_files m \<Longrightarrow> m D = (x, D') \<Longrightarrow> file_at D' (CustomerFile cid) = file_at D (CustomerFile cid)"
  using touchesD[of internal_files m D x D' "CustomerFile cid"] by simp

lemma write_profile_files:
  assumes "write_profile S p D = (x, D')"
  shows "q \<noteq> CustomerFile (cp_customer_id p) \<Longrightarrow> q \<notin> internal_files \<Longrightarrow> file_at D' q = file_at D q"
    and "file_at D' (CustomerFile (cp_customer_id p)) = (case x of
       Inl e \<Rightarrow> file_at D (CustomerFile (cp_customer_id p))
     | Inr y \<Rightarrow> Some (Some (cc_dumps (ct_codec S) (cc_dump (ct_codec S) p))))"
proof -
  let ?tmp = "TempFile (cp_customer_id p)" and ?s = "cc_dumps (ct_codec S) (cc_dump (ct_codec S) p)"
  have temp: "touches internal_files (write_text ?tmp ?s)" by (intro touches_intros) simp
  have written: "write_text ?tmp ?s D = (Inr y, D1) \<Longrightarrow> file_at D1 ?tmp = Some (Some ?s)" for y D1
    by (auto simp: write_text_def bind_op_Inr_iff split: if_splits)
  obtain y D1 where w: "write_text ?tmp ?s D = (y, D1)" by fastforce
  have kept: "file_at D1 (CustomerFile cid) = file_at D (CustomerFile cid)" for cid
    using customer_kept[OF temp w] .
  have moved: "replace_file ?tmp (CustomerFile (cp_customer_id p)) D1 = (x, D') \<Longrightarrow> file_at D1 ?tmp = Some (Some ?s) \<Longrightarrow>
      (case x of Inl e \<Rightarrow> dk_files D' = dk_files D1
       | Inr z \<Rightarrow> dk_files D' = dk_files (drop_file ?tmp (put_file (CustomerFile (cp_customer_id p)) (Some ?s) D1)))"
    by (auto simp: replace_file_def bind_op_def next_fault_def drop_file_def put_file_def split: list.splits if_splits)
  have "(case x of Inl e \<Rightarrow> (\<forall>cid. file_at D' (CustomerFile cid) = file_at D (CustomerFile cid))
       | Inr z \<Rightarrow> dk_files D' = dk_files (drop_file ?tmp (put_file (CustomerFile (cp_customer_id p)) (Some ?s) D1)))"
    using assms w kept moved written
    by (cases y) (auto simp: write_profile_def bind_op_def Let_def split: sum.splits)
  then show "q \<noteq> CustomerFile (cp_customer_id p) \<Longrightarrow> q \<notin> internal_files \<Longrightarrow> file_at D' q = file_at D q"
    and "file_at D' (CustomerFile (cp_customer_id p)) = (case x of
       Inl e \<Rightarrow> file_at D (CustomerFile (cp_customer_id p)) | Inr y \<Rightarrow> Some (Some ?s))"
    using kept by (auto simp: internal_files_def split: sum.splits)
qed

text \<open>What a file of the store shows after an operation: the old content, or the new one.\<close>

lemma save_files:
  assumes "save S now profile D = (x, D')"
  defines "p \<equiv> bump_version now profile"
  shows "cid \<noteq> cp_customer_id p \<Longrightarrow> file_at D' (CustomerFile cid) = file_at D (CustomerFile cid)"
    and "file_at D' (CustomerFile (cp_customer_id p)) = file_at D (CustomerFile (cp_customer_id p))
       \<or> file_at D' (CustomerFile (cp_customer_id p)) = Some (Some (cc_dumps (ct_codec S) (cc_dump (ct_codec S) p)))"
    and "x = Inr q \<Longrightarrow> q = p
       \<and> file_at D' (CustomerFile (cp_customer_id p)) = Some (Some (cc_dumps (ct_codec S) (cc_dump (ct_codec S) p)))"
proof -
  let ?c = "cp_customer_id p" and ?s = "cc_dumps (ct_codec S) (cc_dump (ct_codec S) p)"
  let ?backup = "\<lambda>found. if ct_backup_enabled S \<and> found then create_backup S ?c else ret ()"
  let ?failed = "bind_op (get_op (file_exists (TempFile ?c))) (\<lambda>left.
      bind_op (if left then unlink (TempFile ?c) else ret ()) (\<lambda>_. raise_op OSError)) :: unit disk_op"
  have t: "touches internal_files (?backup found)" "touches internal_files ?failed"
    "touches internal_files (sync_alias S ?c (cp_customer_name p) (cp_aliases p))" for found
    by (intro touches_intros; simp)+
  obtain b D1 where b: "?backup (file_exists (CustomerFile ?c) D) D = (b, D1)" by fastforce
  obtain y D2 where y: "write_profile S p D1 = (y, D2)" by fastforce
  obtain f D3 where f: "?failed D2 = (f, D3)" by fastforce
  obtain a D4 where a: "sync_alias S ?c (cp_customer_name p) (cp_aliases p) D2 = (a, D4)" by fastforce
  have fails: "\<exists>e. f = Inl e"
    using f by (auto simp: bind_op_def split: if_splits prod.splits sum.splits)
  have "(D', x) \<in> {(D1, Inl e) | e. b = Inl e} \<union> {(D2, Inl e) | e. y = Inl e} \<union> {(D3, Inl e) | e. f = Inl e \<and> (\<exists>e. y = Inl e)}
      \<union> {(D4, z) | z. y = Inr () \<and> z = (case a of Inl e \<Rightarrow> Inl e | Inr _ \<Rightarrow> Inr p)}"
    using assms(1) b y f a fails
    by (auto simp: save_def p_def[symmetric] Let_def bind_op_def on_os_error_def try_op_def split: sum.splits if_splits prod.splits)
  note cases = this
  note kept = customer_kept[OF t(1) b] customer_kept[OF t(2) f] customer_kept[OF t(3) a]
  note w = write_profile_files[OF y]
  show "cid \<noteq> ?c \<Longrightarrow> file_at D' (CustomerFile cid) = file_at D (CustomerFile cid)"
    using cases kept w(1)[of "CustomerFile cid"] by auto
  show "file_at D' (CustomerFile ?c) = file_at D (CustomerFile ?c) \<or> file_at D' (CustomerFile ?c) = Some (Some ?s)"
    using cases kept w(2) by (cases y) auto
  show "x = Inr q \<Longrightarrow> q = p \<and> file_at D' (CustomerFile ?c) = Some (Some ?s)"
    using cases kept w(2) by (auto split: sum.splits)
qed

text \<open>
  C25: saving a customer is atomic. Whatever writes, moves, copies, removals and reads fail, after
  \<open>save\<close> the file of every other customer is as before, and that of the saved one is either as
  before or holds the whole new profile, whose version is one higher; it holds the new profile
  when \<open>save\<close> returns. So no reader ever finds a part of a profile.
\<close>

theorem save_atomic:
  assumes "save S now profile D = (x, D')"
  shows "(\<forall>cid. cid \<noteq> cp_customer_id profile \<longrightarrow> file_at D' (CustomerFile cid) = file_at D (CustomerFile cid))
    \<and> file_at D' (CustomerFile (cp_customer_id profile))
        \<in> {file_at D (CustomerFile (cp_customer_id profile)), Some (Some (cc_dumps (ct_codec S) (cc_dump (ct_codec S) (bump_version now profile))))}
    \<and> (\<forall>q. x = Inr q \<longrightarrow> q = bump_version now profile \<and> cp_version q = cp_version profile + 1
         \<and> file_at D' (CustomerFile (cp_customer_id profile)) = Some (Some (cc_dumps (ct_codec S) (cc_dump (ct_codec S) q))))"
  using save_files[OF assms] by (auto simp: bump_version_def)

section \<open>The store as a map\<close>

text \<open>What \<open>load\<close> and \<open>_load_aliases\<close> make of a content, and the map that a disk stands for.\<close>

definition load_content :: "customer_store \<Rightarrow> content option \<Rightarrow> customer_profile option res" where
  "load_content S c =
     (case c of
        None \<Rightarrow> Inr None
      | Some None \<Rightarrow> Inl UnicodeDecodeError
      | Some (Some s) \<Rightarrow>
          (case cc_loads (ct_codec S) s of
             None \<Rightarrow> Inr None
           | Some (PDict d) \<Rightarrow> bind_res (fst (check_schema_member d undefined)) (\<lambda>_. Inr (cc_profile (ct_codec S) (PDict d)))
           | Some _ \<Rightarrow> Inl AttributeError))"

definition aliases_content :: "customer_store \<Rightarrow> content option \<Rightarrow> pyval res" where
  "aliases_content S c =
     (case c of
        None \<Rightarrow> Inr (PDict [])
      | Some None \<Rightarrow> Inl UnicodeDecodeError
      | Some (Some s) \<Rightarrow> Inr (case cc_loads (ct_codec S) s of None \<Rightarrow> PDict [] | Some v \<Rightarrow> v))"

definition customers :: "customer_store \<Rightarrow> disk \<Rightarrow> pystr \<Rightarrow> customer_profile option" where
  "customers S D cid = (case load_content S (file_at D (CustomerFile cid)) of Inl e \<Rightarrow> None | Inr r \<Rightarrow> r)"

fun json_value :: "pyval \<Rightarrow> bool" where
  "json_value (PList vs) = (\<forall>v \<in> set vs. json_value v)"
| "json_value (PDict d) = (\<forall>(k, v) \<in> set d. json_value v)"
| "json_value POther = False"
| "json_value _ = True"

text \<open>What is relied on of \<open>json\<close> and of the dump of a profile.\<close>

definition json_laws :: "codec \<Rightarrow> bool" where
  "json_laws K \<longleftrightarrow>
     (\<forall>v. json_value v \<longrightarrow> cc_loads K (cc_dumps K v) = Some v) \<and> (\<forall>s v. cc_loads K s = Some v \<longrightarrow> json_value v)"

definition stores_profile :: "codec \<Rightarrow> customer_profile \<Rightarrow> bool" where
  "stores_profile K p \<longleftrightarrow>
     (\<exists>d n. cc_dump K p = PDict d \<and> json_value (PDict d) \<and> map_of d (u ''schema_version'') = Some (PInt n) \<and> cc_profile K (PDict d) = Some p)"

lemma calm_faults [simp]: "dk_faults (put_file p c D) = dk_faults D" "dk_faults (drop_file p D) = dk_faults D"
  by (simp_all add: put_file_def drop_file_def)

lemma calm:
  assumes "dk_faults D = []"
  shows "write_text p s D = (Inr (), put_file p (Some s) D)" "unlink p D = (Inr (), drop_file p D)"
    "read_text p D = (case file_at D p of None \<Rightarrow> Inl OSError | Some None \<Rightarrow> Inl UnicodeDecodeError | Some (Some s) \<Rightarrow> Inr s, D)"
    "file_at D p = Some c \<Longrightarrow> copy_file p q D = (Inr (), put_file q c D)"
    "file_at D p = Some c \<Longrightarrow> replace_file p q D = (Inr (), drop_file p (put_file q c D))"
  using assms
  by (auto simp: write_text_def unlink_def read_text_def copy_file_def replace_file_def bind_op_def next_fault_def split: option.splits)

lemma check_schema_state: "check_schema_member d D = (fst (check_schema_member d undefined), D)"
  by (auto simp: check_schema_member_def split: option.splits pyval.splits)

lemma load_calm: "dk_faults D = [] \<Longrightarrow> load S cid D = (load_content S (file_at D (CustomerFile cid)), D)"
  using check_schema_state[of _ D]
  by (auto simp: load_def load_content_def calm bind_op_def rescued_def try_op_def loads_op_def file_exists_def
      split: option.splits pyval.splits prod.splits sum.splits)

lemma load_aliases_calm: "dk_faults D = [] \<Longrightarrow> load_aliases S D = (aliases_content S (file_at D AliasesFile), D)"
  by (auto simp: load_aliases_def aliases_content_def calm bind_op_def rescued_def try_op_def loads_op_def file_exists_def
      split: option.splits)

lemma stored_content:
  assumes "json_laws (ct_codec S)" "stores_profile (ct_codec S) p"
  shows "load_content S (Some (Some (cc_dumps (ct_codec S) (cc_dump (ct_codec S) p)))) = Inr (Some p)"
  using assms by (auto simp: load_content_def json_laws_def stores_profile_def check_schema_member_def simp del: u_Cons)

lemma write_profile_calm:
  "dk_faults D = [] \<Longrightarrow> write_profile S p D = (Inr (), drop_file (TempFile (cp_customer_id p))
     (put_file (CustomerFile (cp_customer_id p)) (Some (cc_dumps (ct_codec S) (cc_dump (ct_codec S) p)))
       (put_file (TempFile (cp_customer_id p)) (Some (cc_dumps (ct_codec S) (cc_dump (ct_codec S) p))) D)))"
  by (simp add: write_profile_def Let_def bind_op_def calm)

lemma save_aliases_calm:
  "dk_faults D = [] \<Longrightarrow> save_aliases S v D = (Inr (), drop_file AliasesTemp
     (put_file AliasesFile (Some (cc_dumps (ct_codec S) v)) (put_file AliasesTemp (Some (cc_dumps (ct_codec S) v)) D)))"
  by (simp add: save_aliases_def on_os_error_def try_op_def bind_op_def calm)

lemma set_update_subset: "set (AList.update k v d) \<subseteq> insert (k, v) (set d)"
  by (induction d) auto

lemma store_names_Inr:
  obtains d' where "store_names names cid (PDict d) = Inr (PDict d')"
    "\<And>n. map_of d' n = (if n \<in> set names then Some (PStr cid) else map_of d n)" "json_value (PDict d) \<Longrightarrow> json_value (PDict d')"
proof (induction names arbitrary: d thesis)
  case Nil
  then show ?case by simp
next
  case (Cons name names)
  have js: "json_value (PDict d) \<Longrightarrow> json_value (PDict (dict_set name (PStr cid) d))"
    using set_update_subset[of name "PStr cid" d] by fastforce
  obtain d' where d': "store_names names cid (PDict (dict_set name (PStr cid) d)) = Inr (PDict d')"
    "\<And>n. map_of d' n = (if n \<in> set names then Some (PStr cid) else map_of (dict_set name (PStr cid) d) n)"
    "json_value (PDict (dict_set name (PStr cid) d)) \<Longrightarrow> json_value (PDict d')"
    using Cons.IH[of "dict_set name (PStr cid) d"] by blast
  show ?case
  proof (rule Cons.prems(1)[of d'])
    show "store_names (name # names) cid (PDict d) = Inr (PDict d')" using d'(1) by (simp add: store_name_def)
    show "map_of d' n = (if n \<in> set (name # names) then Some (PStr cid) else map_of d n)" for n
      using d'(2)[of n] by (simp add: update_conv')
    show "json_value (PDict d) \<Longrightarrow> json_value (PDict d')" using js d'(3) by (simp del: json_value.simps)
  qed
qed

lemma backup_names_put:
  "length (filter P (backup_names (put_file q c D))) \<le> Suc (length (filter P (backup_names D)))"
proof -
  have "length (filter P (concat (map (\<lambda>(p, c). case p of BackupFile name \<Rightarrow> [name] | _ \<Rightarrow> []) (AList.update q c xs))))
      \<le> Suc (length (filter P (concat (map (\<lambda>(p, c). case p of BackupFile name \<Rightarrow> [name] | _ \<Rightarrow> []) xs))))" for xs
    by (induction xs) (auto split: file_path.split)
  then show ?thesis by (simp add: backup_names_def put_file_def)
qed

text \<open>The backups of a customer leave room for one more.\<close>

definition backup_room :: "customer_store \<Rightarrow> pystr \<Rightarrow> disk \<Rightarrow> bool" where
  "backup_room S cid D \<longleftrightarrow>
     ct_backup_max_keep S = 0 \<or> length (filter (prefix (bak_name cid)) (backup_names D)) < ct_backup_max_keep S"

lemma create_backup_calm:
  assumes "dk_faults D = []" "file_at D (CustomerFile cid) = Some c" "backup_room S cid D"
  shows "create_backup S cid D = (Inr (), put_file (BackupFile (bak_name cid)) c D)"
proof -
  have "drop (ct_backup_max_keep S) (rev (sort_key (ct_mtime S) (rev (filter (prefix (bak_name cid)) (backup_names (put_file (BackupFile (bak_name cid)) c D)))))) = []"
    if "ct_backup_max_keep S \<noteq> 0"
    using backup_names_put[of "prefix (bak_name cid)" "BackupFile (bak_name cid)" c D] assms(3) that by (simp add: backup_room_def)
  then show ?thesis
    using assms(1,2) by (simp add: create_backup_def on_os_error_def try_op_def bind_op_def rotate_backups_def calm Let_def)
qed

lemma sync_alias_calm:
  assumes "dk_faults D = []" "json_laws (ct_codec S)" "aliases_content S (file_at D AliasesFile) = Inr (PDict d)"
  obtains D' d' where "sync_alias S cid name names D = (Inr (), D')" "dk_faults D' = []"
    "\<And>p. p \<notin> {AliasesFile, AliasesTemp} \<Longrightarrow> file_at D' p = file_at D p"
    "aliases_content S (file_at D' AliasesFile) = Inr (PDict d')" "\<And>n. n \<in> set (name # names) \<Longrightarrow> map_of d' n = Some (PStr cid)"
proof -
  obtain d' where d': "store_names (name # names) cid (PDict d) = Inr (PDict d')"
    "\<And>n. map_of d' n = (if n \<in> set (name # names) then Some (PStr cid) else map_of d n)" "json_value (PDict d) \<Longrightarrow> json_value (PDict d')"
    using store_names_Inr[of "name # names" cid d] by blast
  have "json_value (PDict d)"
  proof -
    have "json_value (PDict [])" by simp
    with assms(2,3) show ?thesis
      by (auto simp: aliases_content_def json_laws_def simp del: json_value.simps split: option.splits)
  qed
  then have "cc_loads (ct_codec S) (cc_dumps (ct_codec S) (PDict d')) = Some (PDict d')" using d'(3) assms(2) by (simp add: json_laws_def)
  then show thesis
    using assms(1,3) d'(1,2)
    by (intro that[of "drop_file AliasesTemp (put_file AliasesFile (Some (cc_dumps (ct_codec S) (PDict d')))
        (put_file AliasesTemp (Some (cc_dumps (ct_codec S) (PDict d'))) D))" d']) (auto simp: sync_alias_def bind_op_def load_aliases_calm save_aliases_calm aliases_content_def simp del: store_names.simps)
qed

lemma save_calm:
  fixes S now profile
  defines "p \<equiv> bump_version now profile"
  assumes "dk_faults D = []" "json_laws (ct_codec S)" "aliases_content S (file_at D AliasesFile) = Inr (PDict d)"
    "backup_room S (cp_customer_id p) D"
  obtains D' d' where "save S now profile D = (Inr p, D')" "dk_faults D' = []"
    "\<And>cid. file_at D' (CustomerFile cid) = (if cid = cp_customer_id p
        then Some (Some (cc_dumps (ct_codec S) (cc_dump (ct_codec S) p))) else file_at D (CustomerFile cid))"
    "aliases_content S (file_at D' AliasesFile) = Inr (PDict d')"
    "\<And>n. n \<in> set (cp_customer_name p # cp_aliases p) \<Longrightarrow> map_of d' n = Some (PStr (cp_customer_id p))"
    "\<And>c. ct_backup_enabled S \<Longrightarrow> file_at D (CustomerFile (cp_customer_id p)) = Some c \<Longrightarrow>
        file_at D' (BackupFile (bak_name (cp_customer_id p))) = Some c"
proof -
  let ?c = "cp_customer_id p"
  define D1 where "D1 = (case file_at D (CustomerFile ?c) of Some c \<Rightarrow>
      if ct_backup_enabled S then put_file (BackupFile (bak_name ?c)) c D else D | None \<Rightarrow> D)"
  have backup: "(if ct_backup_enabled S \<and> file_exists (CustomerFile ?c) D then create_backup S ?c else ret ()) D = (Inr (), D1)"
    using create_backup_calm[OF assms(2) _ assms(5)] by (auto simp: D1_def file_exists_def split: option.split)
  have D1: "dk_faults D1 = []" "file_at D1 AliasesFile = file_at D AliasesFile" "file_at D1 (CustomerFile cid) = file_at D (CustomerFile cid)"
    "ct_backup_enabled S \<Longrightarrow> file_at D (CustomerFile ?c) = Some c \<Longrightarrow> file_at D1 (BackupFile (bak_name ?c)) = Some c" for cid c
    using assms(2) by (auto simp: D1_def split: option.split)
  let ?s = "cc_dumps (ct_codec S) (cc_dump (ct_codec S) p)"
  define D2 where "D2 = drop_file (TempFile ?c) (put_file (CustomerFile ?c) (Some ?s) (put_file (TempFile ?c) (Some ?s) D1))"
  have D2: "dk_faults D2 = []" "aliases_content S (file_at D2 AliasesFile) = Inr (PDict d)"
    using D1 assms(4) by (simp_all add: D2_def)
  obtain D3 d' where s: "sync_alias S ?c (cp_customer_name p) (cp_aliases p) D2 = (Inr (), D3)" "dk_faults D3 = []"
    "\<And>q. q \<notin> {AliasesFile, AliasesTemp} \<Longrightarrow> file_at D3 q = file_at D2 q"
    "aliases_content S (file_at D3 AliasesFile) = Inr (PDict d')"
    "\<And>n. n \<in> set (cp_customer_name p # cp_aliases p) \<Longrightarrow> map_of d' n = Some (PStr ?c)"
    using sync_alias_calm[OF D2(1) assms(3) D2(2)] by blast
  have "save S now profile D = (Inr p, D3)"
    using backup s(1) write_profile_calm[OF D1(1), of S p]
    by (simp add: save_def p_def[symmetric] Let_def bind_op_def on_os_error_def try_op_def D2_def[symmetric])
  then show thesis using s D1 by (intro that[of D3 d']) (auto simp: D2_def)
qed

text \<open>
  C26: the store implements a map from identifiers to profiles, with names and an undo. When no file
  operation fails, the index of the names can be read, there is room for the backup, the identifier
  is not empty, and the dump of the new profile can be read back as that profile (which excludes,
  say, a name of more than 256 characters), \<open>save\<close> updates the map at the identifier, every name and
  alias of the profile then finds it, \<open>delete\<close> removes exactly this customer, and \<open>restore\<close> brings
  back the profile that was replaced.
\<close>

theorem store_refines_map:
  fixes S now profile
  defines "p \<equiv> bump_version now profile"
  defines "cid \<equiv> cp_customer_id profile"
  assumes "dk_faults D = []" "json_laws (ct_codec S)" "stores_profile (ct_codec S) p" "cid \<noteq> []"
    and "aliases_content S (file_at D AliasesFile) = Inr (PDict d)" "backup_room S cid D"
  shows "\<exists>D'. save S now profile D = (Inr p, D') \<and> customers S D' = (customers S D)(cid \<mapsto> p)
    \<and> list_all (\<lambda>n. find_by_name S n D' = (Inr (Some p), D')) (cp_customer_name p # cp_aliases p)
    \<and> (\<exists>D2. delete S cid D' = (Inr True, D2) \<and> customers S D2 = (customers S D)(cid := None))
    \<and> (\<forall>old. ct_backup_enabled S \<and> customers S D cid = Some old \<longrightarrow>
         (\<exists>D3. restore S cid D' = (Inr (Some old), D3) \<and> customers S D3 = customers S D))"
proof -
  have cid: "cp_customer_id p = cid" by (simp add: p_def cid_def bump_version_def)
  obtain D' d' where s: "save S now profile D = (Inr p, D')" "dk_faults D' = []"
    "\<And>c. file_at D' (CustomerFile c) = (if c = cid
        then Some (Some (cc_dumps (ct_codec S) (cc_dump (ct_codec S) p))) else file_at D (CustomerFile c))"
    "aliases_content S (file_at D' AliasesFile) = Inr (PDict d')"
    "\<And>n. n \<in> set (cp_customer_name p # cp_aliases p) \<Longrightarrow> map_of d' n = Some (PStr cid)"
    "\<And>c. ct_backup_enabled S \<Longrightarrow> file_at D (CustomerFile cid) = Some c \<Longrightarrow> file_at D' (BackupFile (bak_name cid)) = Some c"
    using save_calm[OF assms(3,4,7), of now profile] assms(8) cid unfolding p_def[symmetric] by metis
  note stored = stored_content[OF assms(4,5)]
  have find: "find_by_name S n D' = (Inr (Some p), D')" if "n \<in> set (cp_customer_name p # cp_aliases p)" for n
  proof -
    have "member_of d' n = PStr cid" using s(5)[OF that] by (simp add: member_of_def)
    then show ?thesis
      using s(2,3,4) assms(6) stored by (simp add: find_by_name_def bind_op_def load_aliases_calm py_str_def load_calm)
  qed
  have "\<exists>D2. delete S cid D' = (Inr True, D2) \<and> customers S D2 = (customers S D)(cid := None)"
    using s(2,3,4)
    by (simp add: delete_def bind_op_def on_os_error_def try_op_def calm file_exists_def remove_alias_def load_aliases_calm save_aliases_calm)
      (auto simp: customers_def load_content_def fun_eq_iff)
  moreover have "\<exists>D3. restore S cid D' = (Inr (Some old), D3) \<and> customers S D3 = customers S D"
    if old: "ct_backup_enabled S" "customers S D cid = Some old" for old
  proof -
    from old(2) obtain t v where t: "file_at D (CustomerFile cid) = Some (Some t)" "cc_loads (ct_codec S) t = Some v" "cc_profile (ct_codec S) v = Some old"
      and same: "load_content S (Some (Some t)) = Inr (Some old)"
      by (auto simp: customers_def load_content_def bind_res_def split: option.splits pyval.splits sum.splits)
    have again: "cc_loads (ct_codec S) (cc_dumps (ct_codec S) v) = Some v" using t(2) assms(4) by (auto simp: json_laws_def)
    then have "load_content S (Some (Some (cc_dumps (ct_codec S) v))) = Inr (Some old)" using same t(2) by (simp add: load_content_def)
    then show ?thesis
      using s(2,3) s(6)[OF old(1) t(1)] t same
      by (auto simp: restore_def bind_op_def try_op_def file_exists_def calm loads_op_def customers_def fun_eq_iff)
  qed
  moreover have "customers S D' = (customers S D)(cid \<mapsto> p)" using s(3) stored by (auto simp: customers_def fun_eq_iff)
  ultimately show ?thesis using s(1) find by (auto simp: list_all_iff)
qed

section \<open>Concrete disks\<close>

instance nonfinite :: countable by countable_datatype

instance pyfloat :: countable by countable_datatype

instance pyval :: countable by countable_datatype

text \<open>A codec that numbers the JSON values.\<close>

definition demo_codec :: codec where
  "demo_codec =
     \<lparr>cc_dumps = (\<lambda>v. [to_nat v]),
      cc_loads = (\<lambda>s. case s of [n] \<Rightarrow> if json_value (from_nat n) then Some (from_nat n) else None | _ \<Rightarrow> None),
      cc_dump = (\<lambda>p. PDict [((u ''schema_version''), PInt 1)]),
      cc_profile = (\<lambda>v. Some (bump_version (utc 1) (demo_profile [97])))\<rparr>"

definition demo_store :: customer_store where
  "demo_store =
     \<lparr>ct_codec = demo_codec, ct_library = demo_library, ct_backup_enabled = True, ct_backup_max_keep = 50,
      ct_schema_version = 1, ct_mtime = (\<lambda>name. 0)\<rparr>"

lemma demo_store_sel [simp]: "ct_codec demo_store = demo_codec" "ct_backup_enabled demo_store = True"
  by (simp_all add: demo_store_def)

lemma demo_codec_ok: "json_laws demo_codec" "stores_profile demo_codec (bump_version (utc 1) (demo_profile [97]))"
  by (auto simp: json_laws_def stores_profile_def demo_codec_def split: list.splits if_splits)

definition demo_disk :: "fault list \<Rightarrow> disk" where
  "demo_disk faults =
     \<lparr>dk_files = [(CustomerFile [97], Some (cc_dumps demo_codec (PDict [((u ''schema_version''), PInt 1)])))], dk_faults = faults\<rparr>"

text \<open>The write of the temporary file stops half way, and the temporary file cannot be removed.\<close>

theorem save_atomic_witness:
  "\<exists>D'. save demo_store (utc 1) (demo_profile [97]) (demo_disk [Works, Fails (Some (Some [0])), Fails None]) = (Inl OSError, D')
     \<and> file_at D' (TempFile [97]) = Some (Some [0])
     \<and> file_at D' (CustomerFile [97]) \<in> {file_at (demo_disk []) (CustomerFile [97]), Some (Some (cc_dumps demo_codec (PDict [((u ''schema_version''), PInt 1)])))}"
proof -
  let ?D = "demo_disk [Works, Fails (Some (Some [0])), Fails None]"
  have "\<exists>D'. save demo_store (utc 1) (demo_profile [97]) ?D = (Inl OSError, D') \<and> file_at D' (TempFile [97]) = Some (Some [0])"
    by (simp add: save_def Let_def bump_version_def demo_profile_def demo_disk_def bind_op_def on_os_error_def try_op_def
        create_backup_def copy_file_def next_fault_def rotate_backups_def backup_names_def put_file_def bak_name_def demo_store_def
        write_profile_def write_text_def leave_def unlink_def file_exists_def)
  then obtain D' where D': "save demo_store (utc 1) (demo_profile [97]) ?D = (Inl OSError, D')" "file_at D' (TempFile [97]) = Some (Some [0])"
    by blast
  have "file_at ?D p = file_at (demo_disk []) p" for p by (simp add: demo_disk_def)
  moreover have "cp_customer_id (demo_profile [97]) = [97]" by (simp add: demo_profile_def)
  ultimately show ?thesis using save_atomic[OF D'(1)] D' by (auto simp: demo_codec_def)
qed

theorem store_refines_map_witness:
  "\<exists>D' D3. save demo_store (utc 1) (demo_profile [97]) (demo_disk []) = (Inr (bump_version (utc 1) (demo_profile [97])), D')
     \<and> find_by_name demo_store [65, 66, 67] D' = (Inr (Some (bump_version (utc 1) (demo_profile [97]))), D')
     \<and> restore demo_store [97] D' = (Inr (Some (bump_version (utc 1) (demo_profile [97]))), D3)"
proof -
  have id: "cp_customer_id (demo_profile [97]) = [97]" "cp_customer_name (bump_version (utc 1) (demo_profile [97])) = [65, 66, 67]"
    by (simp_all add: demo_profile_def bump_version_def)
  have old: "customers demo_store (demo_disk []) [97] = Some (bump_version (utc 1) (demo_profile [97]))"
    by (simp add: customers_def demo_disk_def load_content_def demo_codec_def check_schema_member_def)
  have "dk_faults (demo_disk []) = []" "aliases_content demo_store (file_at (demo_disk []) AliasesFile) = Inr (PDict [])"
    "backup_room demo_store [97] (demo_disk [])"
    by (simp_all add: demo_disk_def aliases_content_def backup_room_def demo_store_def backup_names_def)
  then obtain D' where "save demo_store (utc 1) (demo_profile [97]) (demo_disk []) = (Inr (bump_version (utc 1) (demo_profile [97])), D')"
    "find_by_name demo_store [65, 66, 67] D' = (Inr (Some (bump_version (utc 1) (demo_profile [97]))), D')"
    "\<forall>old. ct_backup_enabled demo_store \<and> customers demo_store (demo_disk []) [97] = Some old \<longrightarrow>
       (\<exists>D3. restore demo_store [97] D' = (Inr (Some old), D3) \<and> customers demo_store D3 = customers demo_store (demo_disk []))"
    using store_refines_map[of "demo_disk []" demo_store "utc 1" "demo_profile [97]" "[]"] demo_codec_ok id by auto
  with old show ?thesis by auto
qed

end
