(* ===== verification/Key_Providers.thy ===== *)
theory Key_Providers
  imports Authentication Float_Arithmetic
begin

text \<open>
  \<open>identity/jwks.py\<close>: the validation of key documents, the static provider, and the remote provider
  with its cache, its lock and its record of unknown keys. Tasks run one at a time between their
  \<open>await\<close> points, so an execution of several requests is a sequence of steps, each the code of one
  task up to its next \<open>await\<close>.
\<close>

section \<open>Key documents\<close>

text \<open>
  The library: \<open>kl_decode hook\<close> decodes UTF-8 and runs \<open>json.loads\<close> with the hook (\<open>None\<close>: one of the
  errors that are caught), \<open>kl_key\<close> is \<open>PyJWK.from_dict\<close> with the size of the key, \<open>kl_hash\<close> the hex digest
  of SHA-256, \<open>kl_int\<close> is \<open>int\<close> of a string.
\<close>

record 'k key_library =
  kl_decode :: "((pystr \<times> pyval) list \<Rightarrow> (pystr \<times> pyval) list res) \<Rightarrow> bytes \<Rightarrow> pyval option"
  kl_key :: "(pystr \<times> pyval) list \<Rightarrow> ('k \<times> nat) option"
  kl_hash :: "pystr \<Rightarrow> pystr"
  kl_int :: "pystr \<Rightarrow> int option"

type_synonym 'k key_map = "(pystr, 'k) dict"

fun reject_duplicates_from :: "(pystr \<times> pyval) list \<Rightarrow> (pystr \<times> pyval) list \<Rightarrow> (pystr \<times> pyval) list res" where
  "reject_duplicates_from result [] = Inr result"
| "reject_duplicates_from result ((key, v) # pairs) =
     (if map_of result key \<noteq> None then Inl (ValueError ''duplicate_json_member'')
      else reject_duplicates_from (dict_set key v result) pairs)"

definition reject_duplicate_members :: "(pystr \<times> pyval) list \<Rightarrow> (pystr \<times> pyval) list res" where
  "reject_duplicate_members pairs = reject_duplicates_from [] pairs"

definition PRIVATE_FIELDS :: "string list" where
  "PRIVATE_FIELDS = [''d'', ''p'', ''q'', ''dp'', ''dq'', ''qi'', ''oth'']"

definition check_key_ops :: "pyval \<Rightarrow> unit res" where
  "check_key_ops v =
     (case v of
        PNone \<Rightarrow> Inr ()
      | PList items \<Rightarrow>
          if list_ex (\<lambda>i. the_str i = None) items then Inl (ValueError ''invalid_jwk_key_ops'')
          else if PStr (u ''verify'') \<notin> set items then Inl (ValueError ''jwk_cannot_verify'') else Inr ()
      | _ \<Rightarrow> Inl (ValueError ''invalid_jwk_key_ops''))"

definition validate_jwk :: "ucd \<Rightarrow> oidc_config \<Rightarrow> 'k key_library \<Rightarrow> pyval \<Rightarrow> (pystr \<times> 'k) res" where
  "validate_jwk T cfg L raw =
     (case raw of
        PDict d \<Rightarrow>
          if list_ex (\<lambda>f. map_of d (u f) \<noteq> None) PRIVATE_FIELDS then Inl (ValueError ''private_jwk_not_allowed'')
          else if member d ''kty'' \<noteq> PStr (u ''RSA'') then Inl (ValueError ''unsupported_jwk_type'')
          else (case member d ''kid'' of
              PStr kid \<Rightarrow>
                if py_strip T kid = [] then Inl (ValueError ''invalid_jwk_kid'')
                else if member d ''alg'' \<notin> {PNone, PStr (u ''RS256'')} then Inl (ValueError ''invalid_jwk_algorithm'')
                else if member d ''use'' \<notin> {PNone, PStr (u ''sig'')} then Inl (ValueError ''invalid_jwk_use'')
                else bind_res (check_key_ops (member d ''key_ops'')) (\<lambda>_.
                   case kl_key L d of
                     None \<Rightarrow> Inl (ValueError ''invalid_rsa_jwk'')
                   | Some (key, bits) \<Rightarrow>
                       if bits < oc_min_rsa_key_size_bits cfg then Inl (ValueError ''rsa_key_too_short'') else Inr (kid, key))
            | _ \<Rightarrow> Inl (ValueError ''invalid_jwk_kid''))
      | _ \<Rightarrow> Inl (ValueError ''jwk_must_be_object''))"

fun collect_keys :: "ucd \<Rightarrow> oidc_config \<Rightarrow> 'k key_library \<Rightarrow> pyval list \<Rightarrow> 'k key_map \<Rightarrow> 'k key_map res" where
  "collect_keys T cfg L [] parsed = Inr parsed"
| "collect_keys T cfg L (raw # raws) parsed =
     bind_res (validate_jwk T cfg L raw) (\<lambda>(kid, key).
     if map_of parsed kid \<noteq> None then Inl (ValueError ''duplicate_jwk_kid'')
     else collect_keys T cfg L raws (dict_set kid key parsed))"

definition parse_jwks :: "ucd \<Rightarrow> oidc_config \<Rightarrow> 'k key_library \<Rightarrow> bytes \<Rightarrow> 'k key_map res" where
  "parse_jwks T cfg L body =
     (case kl_decode L reject_duplicate_members body of
        None \<Rightarrow> Inl (JwksUnavailable ''invalid_jwks_document'')
      | Some (PDict d) \<Rightarrow>
          (case member d ''keys'' of
             PList raw_keys \<Rightarrow>
               if raw_keys = [] \<or> oc_jwks_max_keys cfg < length raw_keys then Inl (JwksUnavailable ''invalid_jwks_key_count'')
               else (case collect_keys T cfg L raw_keys [] of
                   Inl (ValueError code) \<Rightarrow> Inl (JwksUnavailable code)
                 | r \<Rightarrow> r)
           | _ \<Rightarrow> Inl (JwksUnavailable ''invalid_jwks_keys''))
      | Some _ \<Rightarrow> Inl (JwksUnavailable ''invalid_jwks_keys''))"

text \<open>\<open>StaticJwksProvider\<close>\<close>

definition static_signing_key :: "'k key_map \<Rightarrow> pystr \<Rightarrow> ('s, 'k) op" where
  "static_signing_key keys kid = lift_res (case dict_get keys kid of None \<Rightarrow> Inl UnknownSigningKey | Some key \<Rightarrow> Inr key)"

section \<open>Fetching\<close>

text \<open>A response of the stream: after its chunks it may fail with an exception.\<close>

record jwks_response =
  jr_is_redirect :: bool
  jr_status :: nat
  jr_content_length :: "pystr option"
  jr_chunks :: "bytes list"
  jr_broken :: bool

fun read_body :: "nat \<Rightarrow> bytes \<Rightarrow> bytes list \<Rightarrow> bool \<Rightarrow> bytes res" where
  "read_body max_bytes body [] broken = (if broken then Inl (JwksUnavailable ''jwks_fetch_failed'') else Inr body)"
| "read_body max_bytes body (chunk # chunks) broken =
     (if max_bytes < length (body @ chunk) then Inl (JwksUnavailable ''jwks_response_too_large'')
      else read_body max_bytes (body @ chunk) chunks broken)"

definition announced_too_large :: "oidc_config \<Rightarrow> 'k key_library \<Rightarrow> pystr option \<Rightarrow> bool" where
  "announced_too_large cfg L header =
     (case header of
        None \<Rightarrow> False
      | Some s \<Rightarrow> s \<noteq> [] \<and> (case kl_int L s of None \<Rightarrow> False | Some n \<Rightarrow> int (oc_jwks_max_response_bytes cfg) < n))"

text \<open>\<open>_fetch_and_validate\<close>: \<open>None\<close> is an exception of the client before any response.\<close>

definition fetch_and_validate :: "ucd \<Rightarrow> oidc_config \<Rightarrow> 'k key_library \<Rightarrow> jwks_response option \<Rightarrow> 'k key_map res" where
  "fetch_and_validate T cfg L response =
     (case response of
        None \<Rightarrow> Inl (JwksUnavailable ''jwks_fetch_failed'')
      | Some r \<Rightarrow>
          if jr_is_redirect r then Inl (JwksUnavailable ''jwks_redirect_not_allowed'')
          else if \<not> (200 \<le> jr_status r \<and> jr_status r \<le> 299) then Inl (JwksUnavailable ''jwks_fetch_failed'')
          else if announced_too_large cfg L (jr_content_length r) then Inl (JwksUnavailable ''jwks_response_too_large'')
          else bind_res (read_body (oc_jwks_max_response_bytes cfg) [] (jr_chunks r) (jr_broken r)) (parse_jwks T cfg L))"

section \<open>The cache\<close>

record 'k jwks_cache =
  jc_positive_keys :: "'k key_map"
  jc_expires_at :: rat
  jc_negative_kids :: "(pystr, nat \<times> rat) dict"
  jc_generation :: nat

definition empty_cache :: "'k jwks_cache" where
  "empty_cache = \<lparr>jc_positive_keys = [], jc_expires_at = 0, jc_negative_kids = [], jc_generation = 0\<rparr>"

definition kid_hash :: "'k key_library \<Rightarrow> pystr \<Rightarrow> pystr res" where
  "kid_hash L kid = (if ascii kid then Inr (kl_hash L kid) else Inl (ValueError ''UnicodeEncodeError''))"

definition negative_hit :: "'k key_library \<Rightarrow> 'k jwks_cache \<Rightarrow> pystr \<Rightarrow> rat \<Rightarrow> bool res" where
  "negative_hit L c kid now =
     bind_res (kid_hash L kid) (\<lambda>h.
       Inr (case dict_get (jc_negative_kids c) h of
              None \<Rightarrow> False
            | Some (generation, expires_at) \<Rightarrow> generation = jc_generation c \<and> now < expires_at))"

text \<open>What the cache answers at a time, if it does.\<close>

definition cached :: "'k key_library \<Rightarrow> 'k jwks_cache \<Rightarrow> pystr \<Rightarrow> rat \<Rightarrow> 'k res option" where
  "cached L c kid now =
     (if jc_expires_at c \<le> now then None
      else case dict_get (jc_positive_keys c) kid of
             Some key \<Rightarrow> Some (Inr key)
           | None \<Rightarrow>
               (case negative_hit L c kid now of
                  Inl e \<Rightarrow> Some (Inl e)
                | Inr hit \<Rightarrow> if hit then Some (Inl UnknownSigningKey) else None))"

definition refresh :: "oidc_config \<Rightarrow> 'k key_map \<Rightarrow> rat \<Rightarrow> 'k jwks_cache \<Rightarrow> 'k jwks_cache" where
  "refresh cfg keys now c =
     c\<lparr>jc_positive_keys := keys, jc_expires_at := fl (now + oc_jwks_cache_ttl_seconds cfg),
       jc_generation := jc_generation c + 1, jc_negative_kids := []\<rparr>"

text \<open>The end of \<open>get_signing_key\<close>, under the lock.\<close>

definition settle :: "oidc_config \<Rightarrow> 'k key_library \<Rightarrow> pystr \<Rightarrow> rat \<Rightarrow> 'k jwks_cache \<Rightarrow> 'k res \<times> 'k jwks_cache" where
  "settle cfg L kid now c =
     (case dict_get (jc_positive_keys c) kid of
        Some key \<Rightarrow> (Inr key, c)
      | None \<Rightarrow>
          (case kid_hash L kid of
             Inl e \<Rightarrow> (Inl e, c)
           | Inr h \<Rightarrow>
               (Inl UnknownSigningKey,
                c\<lparr>jc_negative_kids := dict_set h (jc_generation c, fl (now + oc_negative_kid_ttl_seconds cfg)) (jc_negative_kids c)\<rparr>)))"

section \<open>Tasks\<close>

text \<open>
  A task of \<open>get_signing_key\<close> before its first step, waiting for the lock with the generation it
  observed, holding the lock while it fetches, or finished.
\<close>

datatype 'k key_task =
    Begun pystr | Waiting pystr nat | Fetching pystr | Finished pystr "'k res"

text \<open>The code up to the lock.\<close>

definition begin_task :: "'k key_library \<Rightarrow> rat \<Rightarrow> pystr \<Rightarrow> 'k jwks_cache \<Rightarrow> 'k key_task" where
  "begin_task L now kid c =
     (case cached L c kid now of Some r \<Rightarrow> Finished kid r | None \<Rightarrow> Waiting kid (jc_generation c))"

text \<open>The code from the lock to the fetch, or to the end.\<close>

definition enter_task :: "oidc_config \<Rightarrow> 'k key_library \<Rightarrow> rat \<Rightarrow> rat \<Rightarrow> pystr \<Rightarrow> nat \<Rightarrow> 'k jwks_cache \<Rightarrow> 'k key_task \<times> 'k jwks_cache" where
  "enter_task cfg L now later kid observed c =
     (case cached L c kid now of
        Some r \<Rightarrow> (Finished kid r, c)
      | None \<Rightarrow>
          if jc_expires_at c \<le> now \<or> jc_generation c = observed then (Fetching kid, c)
          else (case settle cfg L kid later c of (r, c') \<Rightarrow> (Finished kid r, c')))"

text \<open>The code after the fetch.\<close>

definition finish_task ::
  "oidc_config \<Rightarrow> 'k key_library \<Rightarrow> rat \<Rightarrow> rat \<Rightarrow> 'k key_map res \<Rightarrow> pystr \<Rightarrow> 'k jwks_cache \<Rightarrow> 'k key_task \<times> 'k jwks_cache" where
  "finish_task cfg L now later fetched kid c =
     (case fetched of
        Inl e \<Rightarrow> (Finished kid (Inl e), c)
      | Inr keys \<Rightarrow> (case settle cfg L kid later (refresh cfg keys now c) of (r, c') \<Rightarrow> (Finished kid r, c')))"

text \<open>One request alone, the clock and the stream being operations of the state.\<close>

definition remote_signing_key ::
  "ucd \<Rightarrow> oidc_config \<Rightarrow> 'k key_library \<Rightarrow> ('s \<Rightarrow> jwks_response option \<times> 's) \<Rightarrow> ('s \<Rightarrow> rat \<times> 's)
    \<Rightarrow> pystr \<Rightarrow> ('k jwks_cache \<times> 's, 'k) op" where
  "remote_signing_key T cfg L stream clock kid = (\<lambda>(c, s).
     case clock s of (t1, s1) \<Rightarrow>
     (case begin_task L t1 kid c of
        Finished kid' r \<Rightarrow> (r, (c, s1))
      | _ \<Rightarrow>
        (case clock s1 of (t2, s2) \<Rightarrow>
         (case cached L c kid t2 of
            Some r \<Rightarrow> (r, (c, s2))
          | None \<Rightarrow>
            (case stream s2 of (response, s3) \<Rightarrow>
             (case fetch_and_validate T cfg L response of
                Inl e \<Rightarrow> (Inl e, (c, s3))
              | Inr keys \<Rightarrow>
                (case clock s3 of (t3, s4) \<Rightarrow>
                 (case clock s4 of (t4, s5) \<Rightarrow>
                  (case settle cfg L kid t4 (refresh cfg keys t3 c) of (r, c') \<Rightarrow> (r, (c', s5)))))))))))"

section \<open>Interleavings\<close>

text \<open>\<open>js_documents\<close> records the key maps that were fetched and accepted, the latest first.\<close>

record 'k jwks_system =
  js_cache :: "'k jwks_cache"
  js_tasks :: "'k key_task list"
  js_documents :: "'k key_map list"

definition lock_free :: "'k key_task list \<Rightarrow> bool" where
  "lock_free tasks = list_all (\<lambda>t. case t of Fetching kid \<Rightarrow> False | _ \<Rightarrow> True) tasks"

inductive jwks_step :: "ucd \<Rightarrow> oidc_config \<Rightarrow> 'k key_library \<Rightarrow> 'k jwks_system \<Rightarrow> 'k jwks_system \<Rightarrow> bool"
  for T cfg L where
  arrive: "jwks_step T cfg L y (y\<lparr>js_tasks := js_tasks y @ [Begun kid]\<rparr>)"
| start: "i < length (js_tasks y) \<Longrightarrow> js_tasks y ! i = Begun kid \<Longrightarrow>
    jwks_step T cfg L y (y\<lparr>js_tasks := (js_tasks y)[i := begin_task L now kid (js_cache y)]\<rparr>)"
| enter: "i < length (js_tasks y) \<Longrightarrow> js_tasks y ! i = Waiting kid observed \<Longrightarrow> lock_free (js_tasks y) \<Longrightarrow>
    enter_task cfg L now later kid observed (js_cache y) = (t, c) \<Longrightarrow>
    jwks_step T cfg L y (y\<lparr>js_tasks := (js_tasks y)[i := t], js_cache := c\<rparr>)"
| finish: "i < length (js_tasks y) \<Longrightarrow> js_tasks y ! i = Fetching kid \<Longrightarrow>
    fetched = fetch_and_validate T cfg L response \<Longrightarrow>
    finish_task cfg L now later fetched kid (js_cache y) = (t, c) \<Longrightarrow>
    jwks_step T cfg L y
      (y\<lparr>js_tasks := (js_tasks y)[i := t], js_cache := c,
         js_documents := (case fetched of Inl e \<Rightarrow> js_documents y | Inr keys \<Rightarrow> keys # js_documents y)\<rparr>)"

definition initial_jwks :: "'k jwks_system" where
  "initial_jwks = \<lparr>js_cache = empty_cache, js_tasks = [], js_documents = []\<rparr>"

inductive jwks_reachable :: "ucd \<Rightarrow> oidc_config \<Rightarrow> 'k key_library \<Rightarrow> 'k jwks_system \<Rightarrow> bool" for T cfg L where
  jwks_init: "jwks_reachable T cfg L initial_jwks"
| jwks_next: "jwks_reachable T cfg L y \<Longrightarrow> jwks_step T cfg L y y' \<Longrightarrow> jwks_reachable T cfg L y'"

inductive_cases jwks_stepE: "jwks_step T cfg L y y'"

section \<open>The interface of the authenticator\<close>

text \<open>What the authenticator asks of a key provider, and what it makes of its errors.\<close>

locale key_provider =
  fixes get :: "pystr \<Rightarrow> ('s, 'k) op"
  assumes raises: "provider_errors get"
begin

lemma verify_errors:
  "library_errors jwt \<Longrightarrow> verify T cfg jwt get clock token s = (Inl e, s') \<Longrightarrow>
     e \<in> {invalid_token, service_unavailable}"
  using verify_Inl[OF _ raises] by blast

end

abbreviation key_error :: "exn \<Rightarrow> bool" where
  "key_error e \<equiv> e = UnknownSigningKey \<or> (\<exists>m. e = JwksUnavailable m)"

lemma kid_hash_ascii [simp]: "ascii kid \<Longrightarrow> kid_hash L kid = Inr (kl_hash L kid)"
  by (simp add: kid_hash_def)

lemma read_body_Inl: "read_body n body chunks broken = Inl e \<Longrightarrow> \<exists>m. e = JwksUnavailable m"
  by (induction n body chunks broken rule: read_body.induct) (auto split: if_splits)

lemma read_body_Inr:
  "read_body n body chunks broken = Inr r \<Longrightarrow> length body \<le> n \<Longrightarrow> r = body @ concat chunks \<and> length r \<le> n \<and> \<not> broken"
  by (induction n body chunks broken rule: read_body.induct) (auto split: if_splits)

lemma check_key_ops_Inl: "check_key_ops v = Inl e \<Longrightarrow> \<exists>m. e = ValueError m"
  by (auto simp: check_key_ops_def split: pyval.splits if_splits)

lemma validate_jwk_Inl: "validate_jwk T cfg L raw = Inl e \<Longrightarrow> \<exists>m. e = ValueError m"
  by (auto simp: validate_jwk_def bind_res_Inl_iff
      split: pyval.splits if_splits option.splits dest: check_key_ops_Inl)

lemma collect_keys_Inl: "collect_keys T cfg L raws parsed = Inl e \<Longrightarrow> \<exists>m. e = ValueError m"
  by (induction raws arbitrary: parsed)
    (auto simp: bind_res_Inl_iff split: if_splits dest: validate_jwk_Inl)

lemma collected_iff:
  "(case collect_keys T cfg L raws parsed of Inl (ValueError code) \<Rightarrow> Inl (JwksUnavailable code) | r \<Rightarrow> r) = Inr keys
     \<longleftrightarrow> collect_keys T cfg L raws parsed = Inr keys"
  "(case collect_keys T cfg L raws parsed of Inl (ValueError code) \<Rightarrow> Inl (JwksUnavailable code) | r \<Rightarrow> r) = Inl e
     \<longleftrightarrow> (\<exists>code. collect_keys T cfg L raws parsed = Inl (ValueError code) \<and> e = JwksUnavailable code)"
  using collect_keys_Inl[of T cfg L raws parsed] by (cases "collect_keys T cfg L raws parsed"; force)+

lemma parse_jwks_Inl: "parse_jwks T cfg L body = Inl e \<Longrightarrow> \<exists>m. e = JwksUnavailable m"
  by (auto simp: parse_jwks_def collected_iff split: option.splits pyval.splits if_splits)

lemma fetch_Inl: "fetch_and_validate T cfg L response = Inl e \<Longrightarrow> \<exists>m. e = JwksUnavailable m"
  by (auto simp: fetch_and_validate_def bind_res_Inl_iff split: option.splits if_splits
      dest: read_body_Inl parse_jwks_Inl)

lemma cached_Inl: "cached L c kid now = Some (Inl e) \<Longrightarrow> ascii kid \<Longrightarrow> e = UnknownSigningKey"
  by (auto simp: cached_def negative_hit_def split: if_splits option.splits)

lemma settle_Inl: "settle cfg L kid now c = (Inl e, c') \<Longrightarrow> ascii kid \<Longrightarrow> e = UnknownSigningKey"
  by (auto simp: settle_def split: option.splits)

lemma static_errors: "provider_errors (static_signing_key keys)"
  by (auto simp: provider_errors_def static_signing_key_def lift_res_def split: option.splits)

lemma remote_errors: "provider_errors (remote_signing_key T cfg L stream clock)"
  unfolding provider_errors_def remote_signing_key_def begin_task_def
  by (auto split: prod.splits option.splits sum.splits dest: cached_Inl settle_Inl fetch_Inl)

interpretation static: key_provider "static_signing_key keys" for keys
  by unfold_locales (rule static_errors)

interpretation remote: key_provider "remote_signing_key T cfg L stream clock" for T cfg L stream clock
  by unfold_locales (rule remote_errors)

section \<open>What an accepted document holds\<close>

text \<open>A key that passed every check, and a document of such keys.\<close>

definition trusted_key :: "ucd \<Rightarrow> oidc_config \<Rightarrow> 'k key_library \<Rightarrow> pystr \<Rightarrow> 'k \<Rightarrow> bool" where
  "trusted_key T cfg L kid key \<longleftrightarrow>
     (\<exists>d. (\<exists>bits. kl_key L d = Some (key, bits) \<and> oc_min_rsa_key_size_bits cfg \<le> bits)
        \<and> member d ''kid'' = PStr kid \<and> py_strip T kid \<noteq> [] \<and> member d ''kty'' = PStr (u ''RSA'')
        \<and> member d ''alg'' \<in> {PNone, PStr (u ''RS256'')} \<and> member d ''use'' \<in> {PNone, PStr (u ''sig'')}
        \<and> check_key_ops (member d ''key_ops'') = Inr ()
        \<and> (\<forall>f \<in> set PRIVATE_FIELDS. map_of d (u f) = None))"

definition trusted_document :: "ucd \<Rightarrow> oidc_config \<Rightarrow> 'k key_library \<Rightarrow> 'k key_map \<Rightarrow> bool" where
  "trusted_document T cfg L keys \<longleftrightarrow>
     keys \<noteq> [] \<and> length keys \<le> oc_jwks_max_keys cfg \<and> dict_ok keys
     \<and> (\<forall>(kid, key) \<in> set keys. trusted_key T cfg L kid key)"

lemma validate_jwk_Inr: "validate_jwk T cfg L raw = Inr (kid, key) \<Longrightarrow> trusted_key T cfg L kid key"
proof (cases raw)
  case (PDict d)
  assume "validate_jwk T cfg L raw = Inr (kid, key)"
  then show ?thesis
    unfolding trusted_key_def PDict
    by (intro exI[of _ d])
      (auto simp: validate_jwk_def bind_res_Inr_iff list_ex_iff not_less split: pyval.splits if_splits option.splits)
qed (auto simp: validate_jwk_def)

lemma update_new: "map_of d k = None \<Longrightarrow> dict_set k v d = d @ [(k, v)]"
  by (induction d) (auto split: if_splits)

lemma collect_keys_Inr:
  "collect_keys T cfg L raws parsed = Inr keys \<Longrightarrow> dict_ok parsed \<Longrightarrow>
     \<forall>(kid, key) \<in> set parsed. trusted_key T cfg L kid key \<Longrightarrow>
     length keys = length parsed + length raws \<and> dict_ok keys \<and> (\<forall>(kid, key) \<in> set keys. trusted_key T cfg L kid key)"
proof (induction raws arbitrary: parsed)
  case (Cons raw raws)
  from Cons.prems(1) obtain kid key where v: "validate_jwk T cfg L raw = Inr (kid, key)"
    and new: "map_of parsed kid = None"
    and rest: "collect_keys T cfg L raws (dict_set kid key parsed) = Inr keys"
    by (auto simp: bind_res_Inr_iff split: if_splits)
  have "dict_ok (dict_set kid key parsed)" using Cons.prems(2) by simp
  moreover have "\<forall>(kid, key) \<in> set (dict_set kid key parsed). trusted_key T cfg L kid key"
    using Cons.prems(3) validate_jwk_Inr[OF v] by (auto simp: update_new[OF new])
  ultimately have "length keys = length (dict_set kid key parsed) + length raws \<and> dict_ok keys
      \<and> (\<forall>(kid, key) \<in> set keys. trusted_key T cfg L kid key)"
    by (rule Cons.IH[OF rest])
  moreover have "length (dict_set kid key parsed) = Suc (length parsed)" by (simp add: update_new[OF new])
  ultimately show ?case by simp
qed simp

lemma parse_jwks_Inr: "parse_jwks T cfg L body = Inr keys \<Longrightarrow> trusted_document T cfg L keys"
proof -
  assume "parse_jwks T cfg L body = Inr keys"
  then obtain raws where raws: "raws \<noteq> []" "length raws \<le> oc_jwks_max_keys cfg"
    and c: "collect_keys T cfg L raws [] = Inr keys"
    by (auto simp: parse_jwks_def collected_iff not_less split: option.splits pyval.splits if_splits)
  from collect_keys_Inr[OF c] raws show ?thesis
    by (auto simp: trusted_document_def)
qed

lemma fetch_Inr: "fetch_and_validate T cfg L response = Inr keys \<Longrightarrow> trusted_document T cfg L keys"
  by (auto simp: fetch_and_validate_def bind_res_Inr_iff split: option.splits if_splits dest: parse_jwks_Inr)

section \<open>The invariant of the remote provider\<close>

definition fetching :: "'k key_task \<Rightarrow> bool" where
  "fetching t \<longleftrightarrow> (case t of Fetching kid \<Rightarrow> True | _ \<Rightarrow> False)"

text \<open>What a task may have seen of the accepted documents.\<close>

definition task_ok :: "'k key_map list \<Rightarrow> 'k key_task \<Rightarrow> bool" where
  "task_ok docs t \<longleftrightarrow>
     (case t of
        Waiting kid observed \<Rightarrow> observed \<le> length docs
      | Finished kid (Inr key) \<Rightarrow> list_ex (\<lambda>doc. dict_get doc kid = Some key) docs
      | Finished kid (Inl e) \<Rightarrow> ascii kid \<longrightarrow> key_error e
      | _ \<Rightarrow> True)"

text \<open>The cache holds the latest document, and its negative entries are of that document.\<close>

definition cache_ok :: "'k key_library \<Rightarrow> 'k key_map list \<Rightarrow> 'k jwks_cache \<Rightarrow> bool" where
  "cache_ok L docs c \<longleftrightarrow>
     jc_generation c = length docs
     \<and> jc_positive_keys c = (case docs of [] \<Rightarrow> [] | doc # older \<Rightarrow> doc)
     \<and> (\<forall>h g t. dict_get (jc_negative_kids c) h = Some (g, t) \<longrightarrow>
          g = length docs
          \<and> (\<exists>kid. ascii kid \<and> h = kl_hash L kid \<and> dict_get (jc_positive_keys c) kid = None))"

definition jwks_ok :: "ucd \<Rightarrow> oidc_config \<Rightarrow> 'k key_library \<Rightarrow> 'k jwks_system \<Rightarrow> bool" where
  "jwks_ok T cfg L y \<longleftrightarrow>
     length (filter fetching (js_tasks y)) \<le> 1
     \<and> cache_ok L (js_documents y) (js_cache y)
     \<and> list_all (trusted_document T cfg L) (js_documents y)
     \<and> list_all (task_ok (js_documents y)) (js_tasks y)"

lemma count_update:
  "i < length xs \<Longrightarrow>
     length (filter P (xs[i := x])) + (if P (xs ! i) then 1 else 0) = length (filter P xs) + (if P x then 1 else 0)"
proof (induction xs arbitrary: i)
  case (Cons a xs)
  then show ?case by (cases i) auto
qed simp

lemma list_all_update: "list_all P xs \<Longrightarrow> P x \<Longrightarrow> list_all P (xs[i := x])"
  using set_update_subset_insert[of xs i x] by (auto simp: list_all_iff)

lemma lock_free_none: "lock_free tasks \<longleftrightarrow> filter fetching tasks = []"
  by (simp add: lock_free_def fetching_def filter_empty_conv list_all_iff split: key_task.splits)

lemma task_ok_newer: "task_ok docs t \<Longrightarrow> task_ok (doc # docs) t"
  by (auto simp: task_ok_def split: key_task.splits sum.splits)

lemma cached_answer:
  "cache_ok L docs c \<Longrightarrow> cached L c kid now = Some r \<Longrightarrow> task_ok docs (Finished kid r)"
  by (cases docs; cases r)
    (auto simp: cache_ok_def cached_def negative_hit_def task_ok_def split: if_splits option.splits sum.splits)

lemma begin_task_ok:
  "cache_ok L docs c \<Longrightarrow> task_ok docs (begin_task L now kid c) \<and> \<not> fetching (begin_task L now kid c)"
  by (auto simp: begin_task_def fetching_def cached_answer split: option.splits)
    (simp add: task_ok_def cache_ok_def)

lemma settle_ok:
  "cache_ok L docs c \<Longrightarrow> settle cfg L kid now c = (r, c') \<Longrightarrow> cache_ok L docs c' \<and> task_ok docs (Finished kid r)"
  by (cases docs; auto simp: settle_def cache_ok_def task_ok_def kid_hash_def
      split: option.splits sum.splits if_splits; blast)

lemma enter_task_ok:
  "cache_ok L docs c \<Longrightarrow> enter_task cfg L now later kid observed c = (t, c') \<Longrightarrow> cache_ok L docs c' \<and> task_ok docs t"
  by (auto simp: enter_task_def cached_answer split: option.splits if_splits prod.splits dest: settle_ok)
    (simp_all add: task_ok_def)

lemma refresh_ok: "cache_ok L docs c \<Longrightarrow> cache_ok L (doc # docs) (refresh cfg doc now c)"
  by (simp add: cache_ok_def refresh_def)

lemma finish_task_ok:
  assumes c: "cache_ok L docs c" and f: "fetched = fetch_and_validate T cfg L response"
    and t: "finish_task cfg L now later fetched kid c = (t, c')"
    and d: "docs' = (case fetched of Inl e \<Rightarrow> docs | Inr keys \<Rightarrow> keys # docs)"
  shows "cache_ok L docs' c' \<and> task_ok docs' t \<and> \<not> fetching t"
proof (cases fetched)
  case (Inl e)
  then show ?thesis using c t d fetch_Inl[of T cfg L response e] f
    by (auto simp: finish_task_def task_ok_def fetching_def)
next
  case (Inr keys)
  then obtain r where r: "settle cfg L kid later (refresh cfg keys now c) = (r, c')" "t = Finished kid r"
    using t by (auto simp: finish_task_def split: prod.splits)
  from settle_ok[OF refresh_ok[OF c] r(1)] show ?thesis
    using Inr d r(2) by (simp add: fetching_def)
qed

lemma jwks_step_ok: "jwks_step T cfg L y y' \<Longrightarrow> jwks_ok T cfg L y \<Longrightarrow> jwks_ok T cfg L y'"
proof (induction rule: jwks_step.induct)
  case (arrive y kid)
  then show ?case by (simp add: jwks_ok_def fetching_def task_ok_def)
next
  case (start i y kid now)
  then have "\<not> fetching (js_tasks y ! i)" by (simp add: fetching_def)
  with start show ?case
    using begin_task_ok[of L "js_documents y" "js_cache y" now kid]
      count_update[of i "js_tasks y" fetching "begin_task L now kid (js_cache y)"]
    by (simp add: jwks_ok_def list_all_update)
next
  case (enter i y kid observed now later t c)
  then have "filter fetching (js_tasks y) = []" by (simp add: lock_free_none)
  moreover have "cache_ok L (js_documents y) c \<and> task_ok (js_documents y) t"
    using enter by (intro enter_task_ok) (simp_all add: jwks_ok_def)
  ultimately show ?case
    using enter count_update[of i "js_tasks y" fetching t]
    by (simp add: jwks_ok_def list_all_update split: if_splits)
next
  case (finish i y kid fetched response now later t c)
  let ?docs = "case fetched of Inl e \<Rightarrow> js_documents y | Inr keys \<Rightarrow> keys # js_documents y"
  have new: "cache_ok L ?docs c \<and> task_ok ?docs t \<and> \<not> fetching t"
    using finish by (intro finish_task_ok[of L "js_documents y" "js_cache y"]) (auto simp: jwks_ok_def)
  moreover have "list_all (task_ok ?docs) (js_tasks y)"
    using finish.prems by (auto simp: jwks_ok_def list_all_iff task_ok_newer split: sum.splits)
  moreover have "list_all (trusted_document T cfg L) ?docs"
    using finish fetch_Inr[of T cfg L response] by (auto simp: jwks_ok_def split: sum.splits)
  ultimately show ?case
    using finish count_update[of i "js_tasks y" fetching t]
    by (simp add: jwks_ok_def list_all_update split: if_splits)
qed

lemma jwks_reachable_ok: "jwks_reachable T cfg L y \<Longrightarrow> jwks_ok T cfg L y"
proof (induction rule: jwks_reachable.induct)
  case jwks_init
  show ?case by (simp add: initial_jwks_def jwks_ok_def cache_ok_def empty_cache_def)
next
  case (jwks_next y y')
  then show ?case using jwks_step_ok by blast
qed

lemma trusted_lookup:
  "trusted_document T cfg L doc \<Longrightarrow> dict_get doc kid = Some key \<Longrightarrow> trusted_key T cfg L kid key"
  by (auto simp: trusted_document_def dest: map_of_SomeD)

lemma positive_trusted:
  "cache_ok L docs c \<Longrightarrow> list_all (trusted_document T cfg L) docs \<Longrightarrow>
     dict_get (jc_positive_keys c) kid = Some key \<Longrightarrow> trusted_key T cfg L kid key"
  by (cases docs) (auto simp: cache_ok_def dest: trusted_lookup)

text \<open>A task that waited while another one refreshed the keys does not fetch them again.\<close>

lemma no_stampede:
  "observed < jc_generation c \<Longrightarrow> now < jc_expires_at c \<Longrightarrow>
     enter_task cfg L now later kid observed c = (t, c') \<Longrightarrow> \<not> fetching t"
  by (auto simp: enter_task_def fetching_def split: option.splits prod.splits)

section \<open>One request alone\<close>

text \<open>A request that nobody interrupts is one of the interleavings: it begins, enters and finishes.\<close>

lemma remote_cases:
  assumes "remote_signing_key T cfg L stream clock kid (c, s) = (r, (c', s'))"
  obtains (cached) now where "cached L c kid now = Some r" "c' = c"
    | (failed) now1 now2 e response where "cached L c kid now1 = None" "cached L c kid now2 = None"
        "fetch_and_validate T cfg L response = Inl e" "r = Inl e" "c' = c"
    | (fetched) now1 now2 now3 now4 keys response where "cached L c kid now1 = None" "cached L c kid now2 = None"
        "fetch_and_validate T cfg L response = Inr keys"
        "settle cfg L kid now4 (refresh cfg keys now3 c) = (r, c')"
proof -
  obtain t1 s1 where k1: "clock s = (t1, s1)" by (cases "clock s")
  note run = assms[unfolded remote_signing_key_def begin_task_def, simplified k1 prod.case]
  show thesis
  proof (cases "cached L c kid t1")
    case (Some x)
    then have "x = r" "c' = c" using run by simp_all
    then show thesis using Some cached by blast
  next
    case None
    obtain t2 s2 where k2: "clock s1 = (t2, s2)" by (cases "clock s1")
    show thesis
    proof (cases "cached L c kid t2")
      case (Some x)
      then have "x = r" "c' = c" using run None by (simp_all add: k2)
      then show thesis using Some cached by blast
    next
      case None2: None
      obtain response s3 where k3: "stream s2 = (response, s3)" by (cases "stream s2")
      show thesis
      proof (cases "fetch_and_validate T cfg L response")
        case (Inl e)
        then have "r = Inl e" "c' = c" using run None None2 by (simp_all add: k2 k3)
        then show thesis by (rule failed[OF None None2 Inl])
      next
        case (Inr keys)
        obtain t3 s4 where k4: "clock s3 = (t3, s4)" by (cases "clock s3")
        obtain t4 s5 where k5: "clock s4 = (t4, s5)" by (cases "clock s4")
        have "settle cfg L kid t4 (refresh cfg keys t3 c) = (r, c')"
          using run None None2 Inr by (simp add: k2 k3 k4 k5 split: prod.splits)
        then show thesis by (rule fetched[OF None None2 Inr])
      qed
    qed
  qed
qed

lemma remote_key_trusted:
  assumes "remote_signing_key T cfg L stream clock kid (c, s) = (Inr key, (c', s'))"
    and ok: "\<And>kid key. dict_get (jc_positive_keys c) kid = Some key \<Longrightarrow> trusted_key T cfg L kid key"
  shows "trusted_key T cfg L kid key"
  using assms(1)
proof (cases rule: remote_cases)
  case (cached now)
  then show ?thesis by (auto simp: cached_def split: if_splits option.splits sum.splits intro: ok)
next
  case (fetched now1 now2 now3 now4 keys response)
  then have "dict_get keys kid = Some key" by (auto simp: settle_def refresh_def split: option.splits sum.splits)
  then show ?thesis by (rule trusted_lookup[OF fetch_Inr[OF fetched(3)]])
qed simp

lemma begin_step:
  "begin_task L now kid c = t \<Longrightarrow>
     jwks_step T cfg L \<lparr>js_cache = c, js_tasks = [Begun kid], js_documents = docs\<rparr>
                       \<lparr>js_cache = c, js_tasks = [t], js_documents = docs\<rparr>"
  using jwks_step.start[of 0 "\<lparr>js_cache = c, js_tasks = [Begun kid], js_documents = docs\<rparr>" kid T cfg L now]
  by simp

lemma enter_step:
  "cached L c kid now = None \<Longrightarrow>
     jwks_step T cfg L \<lparr>js_cache = c, js_tasks = [Waiting kid (jc_generation c)], js_documents = docs\<rparr>
                       \<lparr>js_cache = c, js_tasks = [Fetching kid], js_documents = docs\<rparr>"
  using jwks_step.enter[of 0 "\<lparr>js_cache = c, js_tasks = [Waiting kid (jc_generation c)], js_documents = docs\<rparr>"
      kid "jc_generation c" cfg L now now "Fetching kid" c T]
  by (simp add: enter_task_def lock_free_def)

lemma enter_cached_step:
  "cached L c kid now = Some r \<Longrightarrow>
     jwks_step T cfg L \<lparr>js_cache = c, js_tasks = [Waiting kid g], js_documents = docs\<rparr>
                       \<lparr>js_cache = c, js_tasks = [Finished kid r], js_documents = docs\<rparr>"
  using jwks_step.enter[of 0 "\<lparr>js_cache = c, js_tasks = [Waiting kid g], js_documents = docs\<rparr>"
      kid g cfg L now now "Finished kid r" c T]
  by (simp add: enter_task_def lock_free_def)

lemma finish_step:
  "finish_task cfg L now later (fetch_and_validate T cfg L response) kid c = (t, c') \<Longrightarrow>
     jwks_step T cfg L \<lparr>js_cache = c, js_tasks = [Fetching kid], js_documents = docs\<rparr>
       \<lparr>js_cache = c', js_tasks = [t],
        js_documents = (case fetch_and_validate T cfg L response of Inl e \<Rightarrow> docs | Inr keys \<Rightarrow> keys # docs)\<rparr>"
  using jwks_step.finish[of 0 "\<lparr>js_cache = c, js_tasks = [Fetching kid], js_documents = docs\<rparr>"
      kid "fetch_and_validate T cfg L response" T cfg L response now later t c']
  by (simp cong: sum.case_cong)

lemma remote_fetches_alone:
  assumes c1: "cached L c kid now1 = None" and c2: "cached L c kid now2 = None"
    and f: "finish_task cfg L now3 now4 (fetch_and_validate T cfg L response) kid c = (Finished kid r, c')"
  shows "\<exists>docs'. (jwks_step T cfg L)\<^sup>*\<^sup>* \<lparr>js_cache = c, js_tasks = [Begun kid], js_documents = docs\<rparr>
     \<lparr>js_cache = c', js_tasks = [Finished kid r], js_documents = docs'\<rparr>"
proof -
  have "begin_task L now1 kid c = Waiting kid (jc_generation c)" using c1 by (simp add: begin_task_def)
  from begin_step[OF this] have "(jwks_step T cfg L)\<^sup>*\<^sup>* \<lparr>js_cache = c, js_tasks = [Begun kid], js_documents = docs\<rparr>
     \<lparr>js_cache = c, js_tasks = [Waiting kid (jc_generation c)], js_documents = docs\<rparr>" by (rule r_into_rtranclp)
  also note enter_step[OF c2]
  also note finish_step[OF f]
  finally show ?thesis by (rule exI)
qed

lemma remote_runs_alone:
  assumes "remote_signing_key T cfg L stream clock kid (c, s) = (r, (c', s'))"
  shows "\<exists>docs'. (jwks_step T cfg L)\<^sup>*\<^sup>* \<lparr>js_cache = c, js_tasks = [Begun kid], js_documents = docs\<rparr>
     \<lparr>js_cache = c', js_tasks = [Finished kid r], js_documents = docs'\<rparr>"
  using assms
proof (cases rule: remote_cases)
  case (cached now)
  then have "begin_task L now kid c = Finished kid r" by (simp add: begin_task_def)
  from begin_step[OF this] show ?thesis using cached(2) by blast
next
  case (failed now1 now2 e response)
  show ?thesis
    by (rule remote_fetches_alone[OF failed(1,2), where response = response]) (simp add: failed(3-5) finish_task_def)
next
  case (fetched now1 now2 now3 now4 keys response)
  show ?thesis
    by (rule remote_fetches_alone[OF fetched(1,2), where response = response and ?now3.0 = now3 and ?now4.0 = now4])
      (simp add: fetched(3,4) finish_task_def)
qed

section \<open>What the provider promises\<close>

text \<open>
  C27: however the requests for signing keys are interleaved: at most one of them fetches the
  document at a time; the cache holds the keys of the latest accepted document and counts the
  accepted documents; every key it holds, and every key it ever gave to a request, is a public RSA
  key of the required size, for verification, out of an accepted document and with the identifier
  asked for; a request for an ASCII identifier that fails does so with one of the two errors of the
  provider; and a request that waited while the keys were refreshed does not fetch them again.
\<close>

theorem jwks_safe:
  assumes "jwks_reachable T cfg L y"
  shows "length (filter fetching (js_tasks y)) \<le> 1
    \<and> jc_generation (js_cache y) = length (js_documents y)
    \<and> (js_documents y \<noteq> [] \<longrightarrow> jc_positive_keys (js_cache y) = hd (js_documents y))
    \<and> (\<forall>kid key. dict_get (jc_positive_keys (js_cache y)) kid = Some key \<longrightarrow> trusted_key T cfg L kid key)
    \<and> (\<forall>kid key. Finished kid (Inr key) \<in> set (js_tasks y) \<longrightarrow>
          trusted_key T cfg L kid key \<and> list_ex (\<lambda>doc. dict_get doc kid = Some key) (js_documents y))
    \<and> (\<forall>kid e. Finished kid (Inl e) \<in> set (js_tasks y) \<and> ascii kid \<longrightarrow> key_error e)
    \<and> (\<forall>kid observed now later t c.
          Waiting kid observed \<in> set (js_tasks y) \<and> observed < length (js_documents y)
          \<and> now < jc_expires_at (js_cache y) \<and> enter_task cfg L now later kid observed (js_cache y) = (t, c)
          \<longrightarrow> \<not> fetching t)"
proof -
  have ok: "length (filter fetching (js_tasks y)) \<le> 1" "cache_ok L (js_documents y) (js_cache y)"
      "list_all (trusted_document T cfg L) (js_documents y)" "list_all (task_ok (js_documents y)) (js_tasks y)"
    using jwks_reachable_ok[OF assms] by (simp_all add: jwks_ok_def)
  have "trusted_key T cfg L kid key \<and> list_ex (\<lambda>doc. dict_get doc kid = Some key) (js_documents y)"
    if "Finished kid (Inr key) \<in> set (js_tasks y)" for kid key
  proof -
    have seen: "list_ex (\<lambda>doc. dict_get doc kid = Some key) (js_documents y)"
      using that ok(4) by (auto simp: list_all_iff task_ok_def)
    then show ?thesis using ok(3) by (auto simp: list_all_iff list_ex_iff intro: trusted_lookup)
  qed
  moreover have "key_error e" if "Finished kid (Inl e) \<in> set (js_tasks y)" "ascii kid" for kid e
    using that ok(4) by (auto simp: list_all_iff task_ok_def)
  moreover have "\<not> fetching t"
    if "observed < length (js_documents y)" "now < jc_expires_at (js_cache y)"
      "enter_task cfg L now later kid observed (js_cache y) = (t, c)" for kid observed now later t c
    using no_stampede[OF _ that(2,3)] that(1) ok(2) by (simp add: cache_ok_def)
  moreover have "js_documents y \<noteq> [] \<longrightarrow> jc_positive_keys (js_cache y) = hd (js_documents y)"
    using ok(2) by (auto simp: cache_ok_def split: list.splits)
  ultimately show ?thesis
    using ok positive_trusted[OF ok(2,3)] by (auto simp: cache_ok_def)
qed

definition demo_key_library :: "unit key_library" where
  "demo_key_library =
     \<lparr>kl_decode = (\<lambda>hook body. Some (PDict [(u ''keys'', PList [PDict [(u ''kty'', PStr (u ''RSA'')), (u ''kid'', PStr body)]])])),
      kl_key = (\<lambda>d. Some ((), 2048)), kl_hash = (\<lambda>s. s), kl_int = (\<lambda>s. None)\<rparr>"

definition demo_jwks_response :: jwks_response where
  "demo_jwks_response =
     \<lparr>jr_is_redirect = False, jr_status = 200, jr_content_length = None, jr_chunks = [[107]], jr_broken = False\<rparr>"

lemma demo_fetch:
  "fetch_and_validate basic_ucd demo_oidc demo_key_library (Some demo_jwks_response) = Inr [([107], ())]"
  by (simp add: fetch_and_validate_def demo_jwks_response_def announced_too_large_def demo_oidc_def
      parse_jwks_def demo_key_library_def validate_jwk_def PRIVATE_FIELDS_def check_key_ops_def member_or_def
      py_strip_def py_rstrip_def basic_ucd_def u_def)

lemma demo_remote:
  "remote_signing_key basic_ucd demo_oidc demo_key_library (\<lambda>s. (Some demo_jwks_response, s)) (\<lambda>s. (1, s))
     [107] (empty_cache, ()) = (Inr (), (refresh demo_oidc [([107], ())] 1 empty_cache, ()))"
  by (simp add: remote_signing_key_def begin_task_def cached_def empty_cache_def demo_fetch settle_def refresh_def)

lemma steps_reachable:
  "(jwks_step T cfg L)\<^sup>*\<^sup>* y y' \<Longrightarrow> jwks_reachable T cfg L y \<Longrightarrow> jwks_reachable T cfg L y'"
  by (induction rule: rtranclp_induct) (auto intro: jwks_next)

lemma demo_jwks_reachable:
  "\<exists>docs. jwks_reachable basic_ucd demo_oidc demo_key_library
     \<lparr>js_cache = refresh demo_oidc [([107], ())] 1 empty_cache, js_tasks = [Finished [107] (Inr ())], js_documents = docs\<rparr>"
proof -
  let ?y = "\<lparr>js_cache = empty_cache, js_tasks = [Begun [107]], js_documents = []\<rparr> :: unit jwks_system"
  have "jwks_step basic_ucd demo_oidc demo_key_library initial_jwks ?y"
    using jwks_step.arrive[of basic_ucd demo_oidc demo_key_library initial_jwks "[107]"] by (simp add: initial_jwks_def)
  then have "jwks_reachable basic_ucd demo_oidc demo_key_library ?y" using jwks_init jwks_next by blast
  then show ?thesis using remote_runs_alone[OF demo_remote, of "[]"] steps_reachable by blast
qed

lemma jwks_safe_witness:
  "\<exists>y. jwks_reachable basic_ucd demo_oidc demo_key_library y \<and> js_tasks y = [Finished [107] (Inr ())]
     \<and> length (js_documents y) = 1 \<and> trusted_key basic_ucd demo_oidc demo_key_library [107] ()"
proof -
  obtain docs where r: "jwks_reachable basic_ucd demo_oidc demo_key_library
     \<lparr>js_cache = refresh demo_oidc [([107], ())] 1 empty_cache, js_tasks = [Finished [107] (Inr ())], js_documents = docs\<rparr>"
    using demo_jwks_reachable by blast
  from jwks_safe[OF r] have "length docs = 1" "trusted_key basic_ucd demo_oidc demo_key_library [107] ()"
    by (simp_all add: refresh_def empty_cache_def)
  with r show ?thesis by fastforce
qed

end
