(* ===== verification/Sql_Session.thy ===== *)
theory Sql_Session
  imports Execution_Store "HOL-Library.Multiset"
begin

text \<open>
  The database below the SQLAlchemy repositories: the statements they issue, as a record of
  operations of a session, and what PostgreSQL documents about them. A table is a multiset of rows,
  a row of \<open>database/models.py\<close> being a row of the transactional store; no column that the
  repositories read back is nullable but those that are optional there.
\<close>

section \<open>Statements\<close>

text \<open>
  A statement fails with an integrity error, which may name the constraint, or with another error of
  SQLAlchemy.
\<close>

datatype sql_error = IntegrityError "string option" | StatementError

type_synonym ('s, 'a) stmt = "'s \<Rightarrow> (sql_error + 'a) \<times> 's"

record 's db_session =
  ds_clock_timestamp :: "('s, datetime) stmt"
  ds_insert_claim :: "(int \<Rightarrow> idempotency_row) \<Rightarrow> ('s, int option) stmt"
  ds_select_claims :: "(idempotency_row \<Rightarrow> bool) \<Rightarrow> ('s, idempotency_row list) stmt"
  ds_update_claims :: "(idempotency_row \<Rightarrow> bool) \<Rightarrow> (idempotency_row \<Rightarrow> idempotency_row) \<Rightarrow> ('s, nat) stmt"
  ds_flush_claim :: "idempotency_row \<Rightarrow> ('s, unit) stmt"
  ds_select_requests :: "(request_row \<Rightarrow> bool) \<Rightarrow> ('s, request_row list) stmt"
  ds_select_run_requests :: "(run_row \<Rightarrow> bool) \<Rightarrow> ('s, (int \<times> pystr) list) stmt"
  ds_update_requests :: "(request_row \<Rightarrow> bool) \<Rightarrow> (request_row \<Rightarrow> request_row) \<Rightarrow> ('s, nat) stmt"
  ds_insert_request :: "(int \<Rightarrow> request_row) \<Rightarrow> ('s, int) stmt"
  ds_insert_run :: "(int \<Rightarrow> run_row) \<Rightarrow> ('s, int) stmt"
  ds_insert_audit :: "(int \<Rightarrow> audit_row) \<Rightarrow> ('s, int) stmt"

text \<open>\<open>try: statement except SQLAlchemyError as exc: raise e from exc\<close>\<close>

definition db_call :: "exn \<Rightarrow> ('s, 'a) stmt \<Rightarrow> ('s, 'a) op" where
  "db_call e m = (\<lambda>s. case m s of (Inl x, s') \<Rightarrow> (Inl e, s') | (Inr x, s') \<Rightarrow> (Inr x, s'))"

text \<open>The same with an \<open>except IntegrityError\<close> clause before it.\<close>

definition db_flush :: "(string option \<Rightarrow> exn) \<Rightarrow> ('s, 'a) stmt \<Rightarrow> ('s, 'a) op" where
  "db_flush h m = (\<lambda>s. case m s of
      (Inl (IntegrityError name), s') \<Rightarrow> (Inl (h name), s')
    | (Inl StatementError, s') \<Rightarrow> (Inl PersistenceWriteError, s')
    | (Inr x, s') \<Rightarrow> (Inr x, s'))"

text \<open>\<open>scalar_one_or_none\<close>: more than one row is an error of SQLAlchemy.\<close>

definition scalar_one_or_none :: "exn \<Rightarrow> 'a list \<Rightarrow> 'a option res" where
  "scalar_one_or_none e rows =
     (case rows of [] \<Rightarrow> Inr None | [row] \<Rightarrow> Inr (Some row) | _ \<Rightarrow> Inl e)"

section \<open>Tables\<close>

record tables =
  db_requests :: "request_row multiset"
  db_runs :: "run_row multiset"
  db_audits :: "audit_row multiset"
  db_claims :: "idempotency_row multiset"

abbreviation request_key :: "request_row \<Rightarrow> pystr" where
  "request_key r \<equiv> nr_request_id (rq_record r)"

abbreviation run_key :: "run_row \<Rightarrow> pystr" where
  "run_key r \<equiv> nu_run_id (rn_record r)"

abbreviation claim_key :: "idempotency_row \<Rightarrow> scope_key" where
  "claim_key r \<equiv> scope_key (id_scope r)"

definition set_where :: "('a \<Rightarrow> bool) \<Rightarrow> ('a \<Rightarrow> 'a) \<Rightarrow> 'a multiset \<Rightarrow> 'a multiset" where
  "set_where P f t = image_mset (\<lambda>x. if P x then f x else x) t"

text \<open>
  What the statements do to the tables of the transaction, when they succeed and no other transaction
  commits in between; a failing statement is left open, except that a violation of the constraint
  \<open>uq_agent_requests_request_id\<close> has a row to show for it. The identifier of a new row is any that no
  row has: sequences skip values.
\<close>

definition reads :: "('s \<Rightarrow> tables) \<Rightarrow> ('s, 'a) stmt \<Rightarrow> (tables \<Rightarrow> 'a \<Rightarrow> bool) \<Rightarrow> bool" where
  "reads view m Q \<longleftrightarrow> (\<forall>s x s'. m s = (Inr x, s') \<longrightarrow> view s' = view s \<and> Q (view s) x)"

definition writes :: "('s \<Rightarrow> tables) \<Rightarrow> ('s, 'a) stmt \<Rightarrow> (tables \<Rightarrow> 'a \<Rightarrow> tables \<Rightarrow> bool) \<Rightarrow> bool" where
  "writes view m Q \<longleftrightarrow> (\<forall>s x s'. m s = (Inr x, s') \<longrightarrow> Q (view s) x (view s'))"

definition inserts_claim :: "(int \<Rightarrow> idempotency_row) \<Rightarrow> idempotency_scope \<Rightarrow> tables \<Rightarrow> int option \<Rightarrow> tables \<Rightarrow> bool" where
  "inserts_claim f sc t x t' \<longleftrightarrow>
     (case x of
        None \<Rightarrow> t' = t \<and> (\<exists>row. row \<in># db_claims t \<and> id_scope row = sc)
      | Some i \<Rightarrow>
          (\<forall>row. row \<in># db_claims t \<longrightarrow> id_scope row \<noteq> sc \<and> id_database_id row \<noteq> i)
          \<and> t' = t\<lparr>db_claims := add_mset (f i) (db_claims t)\<rparr>)"

definition inserts_request :: "(int \<Rightarrow> request_row) \<Rightarrow> pystr \<Rightarrow> tables \<Rightarrow> int \<Rightarrow> tables \<Rightarrow> bool" where
  "inserts_request f k t i t' \<longleftrightarrow>
     (\<forall>row. row \<in># db_requests t \<longrightarrow> request_key row \<noteq> k \<and> rq_database_id row \<noteq> i)
     \<and> t' = t\<lparr>db_requests := add_mset (f i) (db_requests t)\<rparr>"

definition names_duplicates :: "'s db_session \<Rightarrow> ('s \<Rightarrow> tables) \<Rightarrow> (int \<Rightarrow> request_row) \<Rightarrow> pystr \<Rightarrow> bool" where
  "names_duplicates S view f k \<longleftrightarrow>
     (\<forall>s s'. ds_insert_request S f s = (Inl (IntegrityError (Some ''uq_agent_requests_request_id'')), s') \<longrightarrow>
        view s' = view s \<and> (\<exists>row. row \<in># db_requests (view s) \<and> request_key row = k))"

definition claim_statements :: "'s db_session \<Rightarrow> ('s \<Rightarrow> tables) \<Rightarrow> bool" where
  "claim_statements S view \<longleftrightarrow>
     reads view (ds_clock_timestamp S) (\<lambda>t x. True)
     \<and> (\<forall>P. reads view (ds_select_claims S P) (\<lambda>t rows. mset rows = filter_mset P (db_claims t)))
     \<and> (\<forall>f sc. (\<forall>i. id_scope (f i) = sc) \<longrightarrow>
          writes view (ds_insert_claim S f) (inserts_claim f sc))
     \<and> (\<forall>P f. writes view (ds_update_claims S P f) (\<lambda>t n t'.
          n = size (filter_mset P (db_claims t)) \<and> t' = t\<lparr>db_claims := set_where P f (db_claims t)\<rparr>))
     \<and> (\<forall>m. writes view (ds_flush_claim S m) (\<lambda>t x t'.
          t' = t\<lparr>db_claims := set_where (\<lambda>r. id_database_id r = id_database_id m) (\<lambda>r. m) (db_claims t)\<rparr>))"

definition request_statements :: "'s db_session \<Rightarrow> ('s \<Rightarrow> tables) \<Rightarrow> bool" where
  "request_statements S view \<longleftrightarrow>
     (\<forall>P. reads view (ds_select_requests S P) (\<lambda>t rows. mset rows = filter_mset P (db_requests t)))
     \<and> (\<forall>P f. writes view (ds_update_requests S P f) (\<lambda>t n t'.
          n = size (filter_mset P (db_requests t)) \<and> t' = t\<lparr>db_requests := set_where P f (db_requests t)\<rparr>))
     \<and> (\<forall>f k. (\<forall>i. request_key (f i) = k) \<longrightarrow>
          writes view (ds_insert_request S f) (inserts_request f k)
          \<and> names_duplicates S view f k)"

definition run_statements :: "'s db_session \<Rightarrow> ('s \<Rightarrow> tables) \<Rightarrow> bool" where
  "run_statements S view \<longleftrightarrow>
     (\<forall>P. reads view (ds_select_run_requests S P) (\<lambda>t rows. mset rows =
          (\<Sum>v \<in># filter_mset P (db_runs t).
             image_mset (\<lambda>r. (rq_database_id r, request_key r))
               (filter_mset (\<lambda>r. nu_original_request_record_id (rn_record v) = rq_database_id r) (db_requests t)))))
     \<and> (\<forall>r. writes view (ds_insert_run S (\<lambda>i. \<lparr>rn_database_id = i, rn_record = r\<rparr>)) (\<lambda>t i t'.
          (\<forall>row. row \<in># db_runs t \<longrightarrow> run_key row \<noteq> nu_run_id r \<and> rn_database_id row \<noteq> i
             \<and> nu_original_request_record_id (rn_record row) \<noteq> nu_original_request_record_id r)
          \<and> t' = t\<lparr>db_runs := add_mset \<lparr>rn_database_id = i, rn_record = r\<rparr> (db_runs t)\<rparr>))
     \<and> (\<forall>e. writes view (ds_insert_audit S (\<lambda>i. \<lparr>au_database_id = i, au_record = e\<rparr>)) (\<lambda>t i t'.
          (\<forall>row. row \<in># db_audits t \<longrightarrow> ae_event_id (au_record row) \<noteq> ae_event_id e)
          \<and> t' = t\<lparr>db_audits := add_mset \<lparr>au_database_id = i, au_record = e\<rparr> (db_audits t)\<rparr>))"

definition session_laws :: "'s db_session \<Rightarrow> ('s \<Rightarrow> tables) \<Rightarrow> bool" where
  "session_laws S view \<longleftrightarrow> claim_statements S view \<and> request_statements S view \<and> run_statements S view"

section \<open>Tables and dictionaries\<close>

text \<open>A table that holds the rows of a dictionary.\<close>

definition holds :: "('r \<Rightarrow> 'k) \<Rightarrow> 'r multiset \<Rightarrow> ('k, 'r) dict \<Rightarrow> bool" where
  "holds key t d \<longleftrightarrow> dict_ok d \<and> (\<forall>k r. dict_get d k = Some r \<longrightarrow> key r = k) \<and> t = mset (dict_values d)"

definition unique :: "('r \<Rightarrow> 'i) \<Rightarrow> 'r multiset \<Rightarrow> bool" where
  "unique f t \<longleftrightarrow> (\<forall>x y. x \<in># t \<longrightarrow> y \<in># t \<longrightarrow> f x = f y \<longrightarrow> x = y)"

lemma holds_row: "holds key t d \<Longrightarrow> r \<in># t \<longleftrightarrow> dict_get d (key r) = Some r"
proof -
  assume h: "holds key t d"
  have "r \<in># t \<longleftrightarrow> (\<exists>k. (k, r) \<in> set d)" using h by (force simp: holds_def)
  also have "\<dots> \<longleftrightarrow> (\<exists>k. dict_get d k = Some r)" using h by (simp add: holds_def dict_get_items)
  finally show ?thesis using h unfolding holds_def by blast
qed

lemma holds_get: "holds key t d \<Longrightarrow> dict_get d k = Some r \<Longrightarrow> r \<in># t \<and> key r = k"
proof -
  assume h: "holds key t d" and g: "dict_get d k = Some r"
  then have "key r = k" unfolding holds_def by blast
  then show ?thesis using holds_row[OF h, of r] g by simp
qed

lemma holds_filter:
  "holds key t d \<Longrightarrow> filter_mset (\<lambda>r. key r = k) t = (case dict_get d k of None \<Rightarrow> {#} | Some r \<Rightarrow> {#r#})"
proof -
  assume h: "holds key t d"
  then have ok: "dict_ok d" and keys: "\<And>k r. (k, r) \<in> set d \<Longrightarrow> key r = k" and t: "t = mset (dict_values d)"
    by (auto simp: holds_def dict_get_items)
  have "filter (\<lambda>r. key r = k) (dict_values d) = (case dict_get d k of None \<Rightarrow> [] | Some r \<Rightarrow> [r])"
    using ok keys
  proof (induction d)
    case (Cons p d)
    obtain j r where p: "p = (j, r)" by (cases p)
    have "key r = j" using Cons.prems(2)[of j r] p by simp
    moreover have "dict_get d j = None" using Cons.prems(1) p by (simp add: map_of_eq_None_iff)
    ultimately show ?case using Cons p by (auto split: option.splits)
  qed simp
  moreover have "filter_mset (\<lambda>r. key r = k) t = mset (filter (\<lambda>r. key r = k) (dict_values d))"
    unfolding t by (simp only: mset_filter)
  ultimately show ?thesis by (simp only:) (simp split: option.splits)
qed

lemma holds_filter_at:
  "holds key t d \<Longrightarrow> dict_get d k = Some r \<Longrightarrow> (\<And>x. x \<in># t \<Longrightarrow> P x \<longleftrightarrow> key x = k \<and> Q x) \<Longrightarrow>
     filter_mset P t = (if Q r then {#r#} else {#})"
proof -
  assume h: "holds key t d" and g: "dict_get d k = Some r" and P: "\<And>x. x \<in># t \<Longrightarrow> P x \<longleftrightarrow> key x = k \<and> Q x"
  have "filter_mset P t = filter_mset Q (filter_mset (\<lambda>x. key x = k) t)"
    using P by (auto simp: filter_filter_mset intro: filter_mset_cong)
  also have "\<dots> = (if Q r then {#r#} else {#})" using holds_filter[OF h, of k] g by simp
  finally show ?thesis .
qed

lemma holds_add:
  "holds key t d \<Longrightarrow> dict_get d (key r) = None \<Longrightarrow> holds key (add_mset r t) (dict_set (key r) r d)"
proof -
  assume h: "holds key t d" and new: "dict_get d (key r) = None"
  have "dict_set (key r) r d = d @ [(key r, r)]" using new by (induction d) (auto split: if_splits)
  then have "mset (dict_values (dict_set (key r) r d)) = add_mset r (mset (dict_values d))" by simp
  then show ?thesis using h by (auto simp: holds_def)
qed

lemma holds_set:
  "holds key t d \<Longrightarrow> dict_get d (key r) = Some q \<Longrightarrow>
     holds key (set_where (\<lambda>x. key x = key r) (\<lambda>x. r) t) (dict_set (key r) r d)"
proof -
  assume h: "holds key t d" and g: "dict_get d (key r) = Some q"
  then have ok: "dict_ok d" and keys: "\<And>k x. (k, x) \<in> set d \<Longrightarrow> key x = k" and t: "t = mset (dict_values d)"
    by (auto simp: holds_def dict_get_items)
  have "dict_values (dict_set (key r) r d) = map (\<lambda>x. if key x = key r then r else x) (dict_values d)"
    using ok keys g
  proof (induction d)
    case (Cons p d)
    obtain j x where p: "p = (j, x)" by (cases p)
    have j: "key x = j" using Cons.prems(2)[of j x] p by simp
    show ?case
    proof (cases "j = key r")
      case True
      have "key y \<noteq> key r" if "(i, y) \<in> set d" for i y
        using Cons.prems(1) Cons.prems(2)[of i y] that p True by force
      then have "map (\<lambda>x. if key x = key r then r else x) (dict_values d) = dict_values d"
        by (intro map_idI) auto
      then show ?thesis using p j True by simp
    next
      case False
      then have "key x \<noteq> key r" using j by simp
      then show ?thesis using Cons p False by simp
    qed
  qed simp
  then have "mset (dict_values (dict_set (key r) r d)) = set_where (\<lambda>x. key x = key r) (\<lambda>x. r) t"
    by (simp only: t set_where_def mset_map)
  then show ?thesis using h by (auto simp: holds_def)
qed

lemma set_where_cong:
  "(\<And>x. x \<in># t \<Longrightarrow> P x \<longleftrightarrow> Q x) \<Longrightarrow> (\<And>x. x \<in># t \<Longrightarrow> P x \<Longrightarrow> f x = g x) \<Longrightarrow> set_where P f t = set_where Q g t"
  unfolding set_where_def by (intro image_mset_cong) auto

lemma set_where_row: "x \<in># set_where P f t \<longleftrightarrow> (\<exists>y. y \<in># t \<and> x = (if P y then f y else y))"
  by (auto simp: set_where_def)

lemma unique_add: "unique f t \<Longrightarrow> (\<And>x. x \<in># t \<Longrightarrow> f x \<noteq> f r) \<Longrightarrow> unique f (add_mset r t)"
  by (auto simp: unique_def dest: sym)

lemma unique_set:
  "unique f t \<Longrightarrow> q \<in># t \<Longrightarrow> (\<And>x. x \<in># t \<Longrightarrow> P x \<longleftrightarrow> x = q) \<Longrightarrow> f r = f q \<Longrightarrow> unique f (set_where P (\<lambda>x. r) t)"
  unfolding unique_def set_where_row by metis

lemma mset_one_row: "mset xs = {#x#} \<longleftrightarrow> xs = [x]"
  by (cases xs; cases "tl xs") auto

end
