(* ===== verification/Sql_Repository.thy ===== *)
theory Sql_Repository
  imports Sql_Session
begin

text \<open>
  \<open>database/sqlalchemy_repository.py\<close>, \<open>database/sqlalchemy_idempotency_repository.py\<close> and
  \<open>database/sqlalchemy_uow.py\<close>: the repositories and the unit of work of the PostgreSQL store, over the
  statements of a session.
\<close>

section \<open>Rows of a query\<close>

abbreviation multiple_results :: exn where
  "multiple_results \<equiv> RuntimeError ''MultipleResultsFound''"

definition ref_of :: "request_row \<Rightarrow> request_ref" where
  "ref_of row =
     \<lparr>rf_database_id = rq_database_id row, rf_request_id = request_key row, rf_status = rq_status row,
      rf_trace_id = Some (nr_trace_id (rq_record row)), rf_session_id = nr_session_id (rq_record row)\<rparr>"

text \<open>A query of one row whose result is read inside the \<open>try\<close>.\<close>

definition select_one :: "('s, 'a list) stmt \<Rightarrow> ('s, 'a option) op" where
  "select_one m =
     bind_op (db_call PersistenceWriteError m) (\<lambda>rows. lift_res (scalar_one_or_none PersistenceWriteError rows))"

section \<open>The execution repository\<close>

definition request_row_of :: "new_agent_request \<Rightarrow> int \<Rightarrow> request_row" where
  "request_row_of r i =
     \<lparr>rq_database_id = i, rq_record = r, rq_status = nr_status r, rq_completed_at = nr_completed_at r,
      rq_failure_code = nr_failure_code r\<rparr>"

definition request_conflict :: "string option \<Rightarrow> exn" where
  "request_conflict name =
     (if name = Some ''uq_agent_requests_request_id'' then DuplicateRequestError else PersistenceConflictError)"

definition sql_create_request :: "'s db_session \<Rightarrow> new_agent_request \<Rightarrow> ('s, request_ref) op" where
  "sql_create_request S r =
     bind_op (db_flush request_conflict (ds_insert_request S (request_row_of r))) (\<lambda>i.
     ret (ref_of (request_row_of r i)))"

definition sql_get_request_for_update :: "'s db_session \<Rightarrow> pystr \<Rightarrow> ('s, request_ref) op" where
  "sql_get_request_for_update S request_id =
     bind_op (db_call PersistenceWriteError (ds_select_requests S (\<lambda>r. request_key r = request_id))) (\<lambda>rows.
     bind_op (lift_res (scalar_one_or_none multiple_results rows)) (\<lambda>found.
     case found of
       None \<Rightarrow> raise_op RequestNotFoundError
     | Some row \<Rightarrow>
         if rq_status row \<noteq> ''in_progress'' then raise_op InvalidRequestTransitionError else ret (ref_of row)))"

definition sql_create_run :: "'s db_session \<Rightarrow> new_agent_run \<Rightarrow> ('s, int) op" where
  "sql_create_run S r =
     db_flush (\<lambda>name. PersistenceConflictError) (ds_insert_run S (\<lambda>i. \<lparr>rn_database_id = i, rn_record = r\<rparr>))"

definition sql_finalize :: "'s db_session \<Rightarrow> request_ref \<Rightarrow> string \<Rightarrow> datetime \<Rightarrow> string option \<Rightarrow> ('s, unit) op" where
  "sql_finalize S ref status completed_at failure_code =
     bind_op (lift_res (require_utc completed_at)) (\<lambda>_.
     bind_op (db_call PersistenceWriteError (ds_update_requests S
         (\<lambda>r. rq_database_id r = rf_database_id ref \<and> request_key r = rf_request_id ref \<and> rq_status r = ''in_progress'')
         (\<lambda>r. r\<lparr>rq_status := status, rq_completed_at := Some completed_at, rq_failure_code := failure_code\<rparr>))) (\<lambda>n.
     if n \<noteq> 1 then raise_op InvalidRequestTransitionError else ret ()))"

definition sql_finalize_request_completed :: "'s db_session \<Rightarrow> request_ref \<Rightarrow> datetime \<Rightarrow> ('s, unit) op" where
  "sql_finalize_request_completed S ref completed_at = sql_finalize S ref ''completed'' completed_at None"

definition sql_finalize_request_failed :: "'s db_session \<Rightarrow> request_ref \<Rightarrow> datetime \<Rightarrow> string \<Rightarrow> ('s, unit) op" where
  "sql_finalize_request_failed S ref completed_at code = sql_finalize S ref ''failed'' completed_at (Some code)"

definition sql_create_audit_event :: "'s db_session \<Rightarrow> new_audit_event \<Rightarrow> ('s, int) op" where
  "sql_create_audit_event S e =
     db_flush (\<lambda>name. PersistenceConflictError) (ds_insert_audit S (\<lambda>i. \<lparr>au_database_id = i, au_record = e\<rparr>))"

section \<open>Reading an idempotency record\<close>

fun freeze_json :: "pyval \<Rightarrow> pyval res" where
  "freeze_json (PDict d) =
     bind_res (map_res (\<lambda>(k, v). bind_res (freeze_json v) (\<lambda>w. Inr (k, w))) d) (\<lambda>d'. Inr (PDict d'))"
| "freeze_json (PList vs) = bind_res (map_res freeze_json vs) (\<lambda>ws. Inr (PList ws))"
| "freeze_json POther = Inl InvalidIdempotencyStateError"
| "freeze_json v = Inr v"

definition sql_stored :: "idempotency_row \<Rightarrow> stored_idempotency_record res" where
  "sql_stored row =
     bind_res
       (case id_response_snapshot row of
          None \<Rightarrow> Inr None
        | Some v \<Rightarrow>
            bind_res (freeze_json v) (\<lambda>frozen.
            case frozen of PDict d \<Rightarrow> Inr (Some frozen) | _ \<Rightarrow> Inl InvalidIdempotencyStateError))
       (\<lambda>snapshot. Inr ((stored_of row (id_scope row))\<lparr>si_response_snapshot := snapshot\<rparr>))"

definition sql_token :: "int \<Rightarrow> idempotency_scope \<Rightarrow> pystr \<Rightarrow> int \<Rightarrow> datetime \<Rightarrow> datetime \<Rightarrow> claim_token res" where
  "sql_token database_id sc owner version claimed_at lease =
     check_claim_token
       \<lparr>ct_idempotency_record_id = database_id, ct_scope = sc, ct_owner_request_id = owner,
        ct_claim_version = version, ct_claimed_at = claimed_at, ct_lease_expires_at = lease\<rparr>"

definition sql_token_from :: "stored_idempotency_record \<Rightarrow> claim_token res" where
  "sql_token_from r =
     (case (si_owner_request_id r, si_claim_version r, si_claimed_at r, si_lease_expires_at r) of
        (Some owner, Some version, Some claimed_at, Some lease) \<Rightarrow>
          sql_token (si_database_id r) (si_scope r) owner version claimed_at lease
      | _ \<Rightarrow> Inl AssertionError)"

section \<open>The idempotency repository\<close>

definition sql_database_now :: "'s db_session \<Rightarrow> ('s, datetime) op" where
  "sql_database_now S =
     bind_op (db_call PersistenceWriteError (ds_clock_timestamp S)) (\<lambda>v. ret (utc (instant v)))"

definition load_scope_for_update :: "'s db_session \<Rightarrow> idempotency_scope \<Rightarrow> ('s, idempotency_row) op" where
  "load_scope_for_update S sc =
     bind_op (select_one (ds_select_claims S (\<lambda>r. id_scope r = sc))) (\<lambda>found.
     case found of None \<Rightarrow> raise_op InvalidIdempotencyStateError | Some row \<Rightarrow> ret row)"

definition load_id_for_update :: "'s db_session \<Rightarrow> int \<Rightarrow> ('s, idempotency_row) op" where
  "load_id_for_update S i =
     bind_op (select_one (ds_select_claims S (\<lambda>r. id_database_id r = i))) (\<lambda>found.
     case found of None \<Rightarrow> raise_op IdempotencyOwnershipLostError | Some row \<Rightarrow> ret row)"

text \<open>The row stays in the session, which \<open>session.get\<close> returns it from.\<close>

definition load_owner_row_for_update :: "'s db_session \<Rightarrow> pystr \<Rightarrow> ('s, request_row) op" where
  "load_owner_row_for_update S request_id =
     bind_op (select_one (ds_select_requests S (\<lambda>r. request_key r = request_id))) (\<lambda>found.
     case found of None \<Rightarrow> raise_op InvalidIdempotencyStateError | Some row \<Rightarrow> ret row)"

definition replace_active_owner ::
  "'s db_session \<Rightarrow> idempotency_row \<Rightarrow> claim_request \<Rightarrow> int \<Rightarrow> datetime \<Rightarrow> datetime \<Rightarrow> ('s, unit) op" where
  "replace_active_owner S model request version now lease =
     db_call PersistenceWriteError (ds_flush_claim S
       (model\<lparr>id_status := idempotency_status_value ACTIVE,
              id_request_fingerprint := cr_request_fingerprint request,
              id_fingerprint_version := cr_fingerprint_version request,
              id_claim_version := version, id_owner_request_id := cr_owner_request_id request,
              id_claimed_at := now, id_lease_expires_at := lease, id_completed_run_record_id := None,
              id_response_snapshot := None, id_response_snapshot_version := None,
              id_updated_at := now, id_expires_at := lease\<rparr>))"

definition sql_reclaim ::
  "'s db_session \<Rightarrow> idempotency_row \<Rightarrow> claim_request \<Rightarrow> datetime \<Rightarrow> datetime \<Rightarrow> ('s, claim_decision) op" where
  "sql_reclaim S model request now lease =
     bind_op (load_owner_row_for_update S (id_owner_request_id model)) (\<lambda>prior.
     if rq_status prior \<noteq> ''in_progress'' then raise_op InvalidIdempotencyStateError
     else bind_op (replace_active_owner S model request (id_claim_version model + 1) now lease) (\<lambda>_.
     bind_op (lift_res (sql_token (id_database_id model) (cr_scope request) (cr_owner_request_id request)
                (id_claim_version model + 1) now lease)) (\<lambda>token.
     ret ((decision_of RECLAIMED)\<lparr>cd_token := Some token, cd_reclaimed_request := Some (ref_of prior)\<rparr>))))"

definition sql_reacquire ::
  "'s db_session \<Rightarrow> idempotency_row \<Rightarrow> claim_request \<Rightarrow> datetime \<Rightarrow> datetime \<Rightarrow> ('s, claim_decision) op" where
  "sql_reacquire S model request now lease =
     bind_op (replace_active_owner S model request (id_claim_version model + 1) now lease) (\<lambda>_.
     bind_op (lift_res (sql_token (id_database_id model) (cr_scope request) (cr_owner_request_id request)
                (id_claim_version model + 1) now lease)) (\<lambda>token.
     ret ((decision_of ACQUIRED)\<lparr>cd_token := Some token, cd_expired_reuse := True\<rparr>)))"

definition sql_replay_decision :: "'s db_session \<Rightarrow> stored_idempotency_record \<Rightarrow> ('s, claim_decision) op" where
  "sql_replay_decision S stored =
     (case si_completed_run_record_id stored of
        None \<Rightarrow> raise_op AssertionError
      | Some run_id \<Rightarrow>
          bind_op (select_one (ds_select_run_requests S (\<lambda>v. rn_database_id v = run_id))) (\<lambda>found.
          case found of
            None \<Rightarrow> raise_op InvalidIdempotencyStateError
          | Some (record_id, request_id) \<Rightarrow>
              if si_response_snapshot stored = None then raise_op AssertionError
              else ret ((decision_of REPLAY)
                \<lparr>cd_original_request_record_id := Some record_id, cd_original_request_id := Some request_id,
                 cd_replay_snapshot := si_response_snapshot stored,
                 cd_replay_snapshot_version := si_response_snapshot_version stored\<rparr>)))"

definition sql_previous_failure_decision :: "'s db_session \<Rightarrow> stored_idempotency_record \<Rightarrow> ('s, claim_decision) op" where
  "sql_previous_failure_decision S stored =
     bind_op (load_owner_row_for_update S (case si_owner_request_id stored of None \<Rightarrow> [] | Some i \<Rightarrow> i)) (\<lambda>prior.
     if rq_status prior \<noteq> ''failed'' then raise_op InvalidIdempotencyStateError
     else if rq_failure_code prior \<in> {None, Some []} then raise_op InvalidIdempotencyStateError
     else ret ((decision_of PREVIOUS_FAILURE)\<lparr>cd_previous_failure_code := rq_failure_code prior\<rparr>))"

text \<open>What follows the lock on a record that is there already.\<close>

definition sql_decide ::
  "'s db_session \<Rightarrow> claim_request \<Rightarrow> datetime \<Rightarrow> datetime \<Rightarrow> idempotency_row
     \<Rightarrow> stored_idempotency_record \<Rightarrow> idempotency_status \<Rightarrow> ('s, claim_decision) op" where
  "sql_decide S request now lease model stored status =
     (if status \<in> {COMPLETED, FAILED}
         \<and> (case si_expires_at stored of None \<Rightarrow> False | Some t \<Rightarrow> instant t \<le> instant now)
      then sql_reacquire S model request now lease
      else if si_fingerprint_version stored \<noteq> cr_fingerprint_version request then raise_op FingerprintVersionError
      else if si_request_fingerprint stored \<noteq> cr_request_fingerprint request then ret (decision_of CONFLICT)
      else (case status of
          ACTIVE \<Rightarrow>
            (case si_lease_expires_at stored of
               None \<Rightarrow> raise_op AssertionError
             | Some t \<Rightarrow>
                 if instant now < instant t
                 then bind_op (lift_res (sql_token_from stored)) (\<lambda>token.
                        ret ((decision_of IN_PROGRESS)\<lparr>cd_token := Some token\<rparr>))
                 else sql_reclaim S model request now lease)
        | COMPLETED \<Rightarrow> sql_replay_decision S stored
        | FAILED \<Rightarrow> sql_previous_failure_decision S stored))"

definition sql_claim :: "'s db_session \<Rightarrow> claim_request \<Rightarrow> ('s, claim_decision) op" where
  "sql_claim S request =
     bind_op (sql_database_now S) (\<lambda>now.
     let lease = add_seconds now (cr_lease_duration_seconds request); sc = cr_scope request
     in bind_op (db_call PersistenceWriteError (ds_insert_claim S (\<lambda>i. new_item i request now lease))) (\<lambda>inserted.
        case inserted of
          Some i \<Rightarrow>
            bind_op (lift_res (sql_token i sc (cr_owner_request_id request) 1 now lease)) (\<lambda>token.
            ret ((decision_of ACQUIRED)\<lparr>cd_token := Some token\<rparr>))
        | None \<Rightarrow>
            bind_op (load_scope_for_update S sc) (\<lambda>model.
            bind_op (lift_res (sql_stored model)) (\<lambda>stored.
            bind_op (lift_res (validate_idempotency stored)) (\<lambda>status.
            sql_decide S request now lease model stored status)))))"

definition sql_assert_current_owner :: "'s db_session \<Rightarrow> claim_token \<Rightarrow> ('s, unit) op" where
  "sql_assert_current_owner S token =
     bind_op (load_id_for_update S (ct_idempotency_record_id token)) (\<lambda>model.
     bind_op (lift_res (sql_stored model)) (\<lambda>stored.
     bind_op (lift_res (validate_idempotency stored)) (\<lambda>status.
     if status \<noteq> ACTIVE \<or> si_owner_request_id stored \<noteq> Some (ct_owner_request_id token)
        \<or> si_claim_version stored \<noteq> Some (ct_claim_version token)
     then raise_op IdempotencyOwnershipLostError else ret ())))"

definition fenced :: "claim_token \<Rightarrow> idempotency_row \<Rightarrow> bool" where
  "fenced token r \<longleftrightarrow>
     id_database_id r = ct_idempotency_record_id token \<and> id_status r = idempotency_status_value ACTIVE
     \<and> id_owner_request_id r = ct_owner_request_id token \<and> id_claim_version r = ct_claim_version token"

definition sql_complete_fenced ::
  "'s db_session \<Rightarrow> claim_token \<Rightarrow> int \<Rightarrow> pyval \<Rightarrow> int \<Rightarrow> int \<Rightarrow> ('s, unit) op" where
  "sql_complete_fenced S token run_id snapshot version ttl =
     bind_op (sql_database_now S) (\<lambda>now.
     bind_op (db_call PersistenceWriteError (ds_update_claims S (fenced token)
        (\<lambda>r. r\<lparr>id_status := idempotency_status_value COMPLETED, id_completed_run_record_id := Some run_id,
               id_response_snapshot := Some snapshot, id_response_snapshot_version := Some version,
               id_updated_at := now, id_expires_at := add_seconds now ttl\<rparr>))) (\<lambda>n.
     if n \<noteq> 1 then raise_op IdempotencyOwnershipLostError else ret ()))"

definition sql_fail_fenced :: "'s db_session \<Rightarrow> claim_token \<Rightarrow> int \<Rightarrow> ('s, unit) op" where
  "sql_fail_fenced S token ttl =
     bind_op (sql_database_now S) (\<lambda>now.
     bind_op (db_call PersistenceWriteError (ds_update_claims S (fenced token)
        (\<lambda>r. r\<lparr>id_status := idempotency_status_value FAILED, id_completed_run_record_id := None,
               id_response_snapshot := None, id_response_snapshot_version := None,
               id_updated_at := now, id_expires_at := add_seconds now ttl\<rparr>))) (\<lambda>n.
     if n \<noteq> 1 then raise_op IdempotencyOwnershipLostError else ret ()))"

end
