(* ===== verification/Sql_Refinement.thy ===== *)
theory Sql_Refinement
  imports Sql_Repository
begin

text \<open>
  The repositories over PostgreSQL refine those of the transactional store: whatever a method of
  the SQL repositories returns, apart from the errors of the database itself, the method of the
  store returns on the same rows, and the tables then hold the rows of the store.
\<close>

section \<open>The rows of a store\<close>

definition snapshot_column :: "pyval option \<Rightarrow> bool" where
  "snapshot_column c \<longleftrightarrow>
     (case c of
        None \<Rightarrow> True
      | Some v \<Rightarrow> (case v of PDict d \<Rightarrow> freeze_json v = Inr v | _ \<Rightarrow> False))"

definition represents :: "tables \<Rightarrow> execution_state \<Rightarrow> bool" where
  "represents t st \<longleftrightarrow>
     holds request_key (db_requests t) (es_requests st) \<and> unique rq_database_id (db_requests t)
     \<and> holds run_key (db_runs t) (es_runs st) \<and> unique rn_database_id (db_runs t)
     \<and> db_audits t = mset (es_audits st)
     \<and> holds claim_key (db_claims t) (es_idempotency st) \<and> unique id_database_id (db_claims t)
     \<and> (\<forall>r. r \<in># db_claims t \<longrightarrow> snapshot_column (id_response_snapshot r))"

lemma representsD:
  assumes "represents t st"
  shows "holds request_key (db_requests t) (es_requests st)" "unique rq_database_id (db_requests t)"
    "holds run_key (db_runs t) (es_runs st)" "unique rn_database_id (db_runs t)"
    "holds claim_key (db_claims t) (es_idempotency st)" "unique id_database_id (db_claims t)"
    "db_audits t = mset (es_audits st)"
    "\<And>r. r \<in># db_claims t \<Longrightarrow> snapshot_column (id_response_snapshot r)"
  using assms unfolding represents_def by blast+

lemma represents_next [simp]:
  "represents t (st\<lparr>es_next_idempotency_id := n\<rparr>) = represents t st"
  "represents t (st\<lparr>es_next_request_id := n\<rparr>) = represents t st"
  "represents t (st\<lparr>es_next_run_id := n\<rparr>) = represents t st"
  by (simp_all add: represents_def)

lemma claim_row:
  assumes "represents t st" "dict_get (es_idempotency st) (scope_key sc) = Some item"
  shows "item \<in># db_claims t" "id_scope item = sc" "snapshot_column (id_response_snapshot item)"
    "x \<in># db_claims t \<Longrightarrow> claim_key x = scope_key sc \<longleftrightarrow> x = item"
    "x \<in># db_claims t \<Longrightarrow> id_database_id x = id_database_id item \<longleftrightarrow> x = item"
proof -
  note h = representsD(5)[OF assms(1)]
  show row: "item \<in># db_claims t" and scope: "id_scope item = sc" using holds_get[OF h assms(2)] by simp_all
  show "snapshot_column (id_response_snapshot item)" by (rule representsD(8)[OF assms(1) row])
  show "claim_key x = scope_key sc \<longleftrightarrow> x = item" if "x \<in># db_claims t"
  proof -
    have "dict_get (es_idempotency st) (claim_key x) = Some x" using holds_row[OF h, of x] that by (simp only:)
    then show ?thesis using assms(2) scope by (metis option.inject)
  qed
  show "id_database_id x = id_database_id item \<longleftrightarrow> x = item" if "x \<in># db_claims t"
    using representsD(6)[OF assms(1)] that row unfolding unique_def by blast
qed

lemma represents_put:
  assumes r: "represents t st" and g: "dict_get (es_idempotency st) (scope_key sc) = Some item"
    and new: "id_scope item' = sc" "id_database_id item' = id_database_id item"
      "snapshot_column (id_response_snapshot item')"
    and P: "\<And>x. x \<in># db_claims t \<Longrightarrow> P x \<longleftrightarrow> x = item" "f item = item'"
  shows "represents (t\<lparr>db_claims := set_where P f (db_claims t)\<rparr>) (put_item sc item' st)"
proof -
  let ?t = "set_where (\<lambda>x. claim_key x = claim_key item') (\<lambda>x. item') (db_claims t)"
  have t: "set_where P f (db_claims t) = ?t"
    using P new(1) claim_row(4)[OF r g] by (intro set_where_cong) auto
  have g': "dict_get (es_idempotency st) (claim_key item') = Some item" using g new(1) by simp
  have "holds claim_key ?t (dict_set (claim_key item') item' (es_idempotency st))"
    using holds_set[OF representsD(5)[OF r] g'] .
  moreover have "unique id_database_id ?t"
    using claim_row(4)[OF r g] new
    by (intro unique_set[OF representsD(6)[OF r] claim_row(1)[OF r g]]) auto
  moreover have "snapshot_column (id_response_snapshot x)" if "x \<in># ?t" for x
    using that new(3) representsD(8)[OF r] unfolding set_where_row by (auto split: if_splits)
  ultimately show ?thesis
    unfolding t represents_def put_item_def using representsD[OF r] new(1) by simp
qed

lemma represents_add_claim:
  assumes r: "represents t st" and g: "dict_get (es_idempotency st) (scope_key sc) = None"
    and new: "id_scope item = sc" "id_response_snapshot item = None"
    and fresh: "\<And>x. x \<in># db_claims t \<Longrightarrow> id_database_id x \<noteq> id_database_id item"
  shows "represents (t\<lparr>db_claims := add_mset item (db_claims t)\<rparr>) (put_item sc item st)"
proof -
  have "holds claim_key (add_mset item (db_claims t)) (dict_set (scope_key sc) item (es_idempotency st))"
    using holds_add[OF representsD(5)[OF r], of item] g new(1) by simp
  moreover have "unique id_database_id (add_mset item (db_claims t))"
    using unique_add[OF representsD(6)[OF r], of item] fresh by simp
  ultimately show ?thesis
    unfolding represents_def put_item_def using representsD[OF r] new by (auto simp: snapshot_column_def)
qed

section \<open>Weakest preconditions of statements\<close>

definition wp :: "('s, 'a) op \<Rightarrow> ('a res \<Rightarrow> 's \<Rightarrow> bool) \<Rightarrow> 's \<Rightarrow> bool" where
  "wp m P s \<longleftrightarrow> (case m s of (r, s') \<Rightarrow> P r s')"

named_theorems wp_rules \<open>weakest preconditions of the combinators\<close>

lemma wp_basic [wp_rules]:
  "wp (ret x) P s = P (Inr x) s" "wp (raise_op e) P s = P (Inl e) s" "wp (lift_res r) P s = P r s"
  by (simp_all add: wp_def)

lemma wp_bind [wp_rules]:
  "wp (bind_op m f) P s = wp m (\<lambda>r s'. case r of Inl e \<Rightarrow> P (Inl e) s' | Inr x \<Rightarrow> wp (f x) P s') s"
  by (auto simp: wp_def bind_op_def split: prod.splits sum.splits)

lemma wp_if [wp_rules]: "wp (if c then a else b) P s = (if c then wp a P s else wp b P s)"
  by simp

lemma wp_db_call:
  "(\<And>s'. P (Inl e) s') \<Longrightarrow> (\<And>x s'. m s = (Inr x, s') \<Longrightarrow> P (Inr x) s') \<Longrightarrow> wp (db_call e m) P s"
  by (auto simp: wp_def db_call_def split: prod.splits sum.splits)

lemma wp_db_flush:
  "(\<And>name s'. m s = (Inl (IntegrityError name), s') \<Longrightarrow> P (Inl (h name)) s') \<Longrightarrow>
     (\<And>s'. P (Inl PersistenceWriteError) s') \<Longrightarrow> (\<And>x s'. m s = (Inr x, s') \<Longrightarrow> P (Inr x) s') \<Longrightarrow>
     wp (db_flush h m) P s"
  by (auto simp: wp_def db_flush_def split: prod.splits sum.splits sql_error.splits)

lemma wp_reads:
  "reads view m Q \<Longrightarrow> (\<And>s'. P (Inl e) s') \<Longrightarrow> (\<And>x s'. view s' = view s \<Longrightarrow> Q (view s) x \<Longrightarrow> P (Inr x) s') \<Longrightarrow>
     wp (db_call e m) P s"
  unfolding reads_def by (blast intro: wp_db_call)

lemma wp_writes:
  "writes view m Q \<Longrightarrow> (\<And>s'. P (Inl e) s') \<Longrightarrow> (\<And>x s'. Q (view s) x (view s') \<Longrightarrow> P (Inr x) s') \<Longrightarrow>
     wp (db_call e m) P s"
  unfolding writes_def by (blast intro: wp_db_call)

lemma scalar_of_mset:
  "mset rows = (case v of None \<Rightarrow> {#} | Some x \<Rightarrow> {#x#}) \<Longrightarrow> scalar_one_or_none e rows = Inr v"
  by (cases v) (auto simp: scalar_one_or_none_def mset_one_row)

lemma wp_select_one:
  assumes "reads view m (\<lambda>t rows. mset rows = M t)" "M (view s) = (case v of None \<Rightarrow> {#} | Some x \<Rightarrow> {#x#})"
    and "\<And>s'. P (Inl PersistenceWriteError) s'" "\<And>s'. view s' = view s \<Longrightarrow> P (Inr v) s'"
  shows "wp (select_one m) P s"
  unfolding select_one_def wp_rules
proof (rule wp_reads[OF assms(1)])
  fix rows s' assume "view s' = view s" "mset rows = M (view s)"
  then have "scalar_one_or_none PersistenceWriteError rows = Inr v" "view s' = view s"
    using scalar_of_mset assms(2) by metis+
  then show "case Inr rows of Inl e \<Rightarrow> P (Inl e) s' | Inr x \<Rightarrow> P (scalar_one_or_none PersistenceWriteError x) s'"
    using assms(4) by simp
qed (simp add: assms(3))

section \<open>Simulation\<close>

text \<open>
  \<open>F\<close> holds the operation of the store at every identifier and time the database may choose, \<open>E\<close>
  the errors the database may add.
\<close>

definition simulates ::
  "('s \<Rightarrow> tables) \<Rightarrow> exn set \<Rightarrow> (execution_state \<Rightarrow> bool) \<Rightarrow> ('s, 'a) op \<Rightarrow> 'a store_op set \<Rightarrow> bool" where
  "simulates view E Q m F \<longleftrightarrow>
     (\<forall>s st r s'. represents (view s) st \<and> Q st \<and> m s = (r, s') \<longrightarrow>
        (\<exists>e \<in> E. r = Inl e) \<or> (\<exists>f \<in> F. \<exists>st'. f st = (r, st') \<and> represents (view s') st'))"

abbreviation matched ::
  "('s \<Rightarrow> tables) \<Rightarrow> exn set \<Rightarrow> execution_state \<Rightarrow> 'a store_op set \<Rightarrow> 'a res \<Rightarrow> 's \<Rightarrow> bool" where
  "matched view E st F r s' \<equiv>
     (\<exists>e \<in> E. r = Inl e) \<or> (\<exists>f \<in> F. \<exists>st'. f st = (r, st') \<and> represents (view s') st')"

lemma simulatesI:
  "(\<And>s st. represents (view s) st \<Longrightarrow> Q st \<Longrightarrow> wp m (matched view E st F) s) \<Longrightarrow> simulates view E Q m F"
  unfolding simulates_def wp_def by fastforce

lemma matched_by:
  "f \<in> F \<Longrightarrow> f st = (r, st') \<Longrightarrow> represents (view s') st' \<Longrightarrow> matched view E st F r s'"
  by blast

section \<open>Queries\<close>

lemma session_lawsD:
  assumes "session_laws S view"
  shows "reads view (ds_clock_timestamp S) (\<lambda>t x. True)"
    "reads view (ds_select_claims S P) (\<lambda>t rows. mset rows = filter_mset P (db_claims t))"
    "writes view (ds_update_claims S P f) (\<lambda>t n t'.
       n = size (filter_mset P (db_claims t)) \<and> t' = t\<lparr>db_claims := set_where P f (db_claims t)\<rparr>)"
    "writes view (ds_flush_claim S m) (\<lambda>t x t'.
       t' = t\<lparr>db_claims := set_where (\<lambda>r. id_database_id r = id_database_id m) (\<lambda>r. m) (db_claims t)\<rparr>)"
    "reads view (ds_select_requests S G) (\<lambda>t rows. mset rows = filter_mset G (db_requests t))"
    "writes view (ds_update_requests S G g) (\<lambda>t n t'.
       n = size (filter_mset G (db_requests t)) \<and> t' = t\<lparr>db_requests := set_where G g (db_requests t)\<rparr>)"
    "reads view (ds_select_run_requests S V) (\<lambda>t rows. mset rows =
       (\<Sum>v \<in># filter_mset V (db_runs t).
          image_mset (\<lambda>r. (rq_database_id r, request_key r))
            (filter_mset (\<lambda>r. nu_original_request_record_id (rn_record v) = rq_database_id r) (db_requests t))))"
  using assms unfolding session_laws_def claim_statements_def request_statements_def run_statements_def by blast+

lemma insert_claim_law:
  "session_laws S view \<Longrightarrow>
     writes view (ds_insert_claim S (\<lambda>i. new_item i request now lease))
       (inserts_claim (\<lambda>i. new_item i request now lease) (cr_scope request))"
  unfolding session_laws_def claim_statements_def by (simp add: new_item_def)

lemma insert_request_law:
  "session_laws S view \<Longrightarrow>
     writes view (ds_insert_request S (request_row_of r)) (inserts_request (request_row_of r) (nr_request_id r))
     \<and> names_duplicates S view (request_row_of r) (nr_request_id r)"
  unfolding session_laws_def request_statements_def by (simp add: request_row_of_def)

lemma wp_load_scope:
  assumes "session_laws S view" "represents (view s) st" "dict_get (es_idempotency st) (scope_key sc) = Some item"
    and "\<And>s'. P (Inl PersistenceWriteError) s'" "\<And>s'. view s' = view s \<Longrightarrow> P (Inr item) s'"
  shows "wp (load_scope_for_update S sc) P s"
proof -
  have "filter_mset (\<lambda>r. id_scope r = sc) (db_claims (view s)) = {#item#}"
    using holds_filter[OF representsD(5)[OF assms(2)], of "scope_key sc"] assms(3) by simp
  then show ?thesis
    unfolding load_scope_for_update_def wp_rules
    by (intro wp_select_one[OF session_lawsD(2)[OF assms(1)], where v = "Some item"])
      (simp_all add: wp_rules assms(4,5))
qed

lemma wp_load_id:
  assumes "session_laws S view" "represents (view s) st" "dict_get (es_idempotency st) (scope_key sc) = Some item"
    and "\<And>s'. P (Inl PersistenceWriteError) s'" "\<And>s'. view s' = view s \<Longrightarrow> P (Inr item) s'"
  shows "wp (load_id_for_update S (id_database_id item)) P s"
proof -
  have "filter_mset (\<lambda>r. id_database_id r = id_database_id item) (db_claims (view s)) = {#item#}"
    using holds_filter_at[OF representsD(5)[OF assms(2)] assms(3), of "\<lambda>r. id_database_id r = id_database_id item" "\<lambda>x. True"]
      claim_row(4,5)[OF assms(2,3)] by simp
  then show ?thesis
    unfolding load_id_for_update_def wp_rules
    by (intro wp_select_one[OF session_lawsD(2)[OF assms(1)], where v = "Some item"])
      (simp_all add: wp_rules assms(4,5))
qed

lemma select_request:
  "represents t st \<Longrightarrow> filter_mset (\<lambda>r. request_key r = i) (db_requests t)
     = (case dict_get (es_requests st) i of None \<Rightarrow> {#} | Some r \<Rightarrow> {#r#})"
  using holds_filter[OF representsD(1), of t st i] by simp

lemma wp_load_owner:
  assumes "session_laws S view" "represents (view s) st"
    and "\<And>s'. P (Inl PersistenceWriteError) s'"
    and "\<And>s'. dict_get (es_requests st) i = None \<Longrightarrow> view s' = view s \<Longrightarrow> P (Inl InvalidIdempotencyStateError) s'"
    and "\<And>row s'. dict_get (es_requests st) i = Some row \<Longrightarrow> request_key row = i \<Longrightarrow> view s' = view s \<Longrightarrow> P (Inr row) s'"
  shows "wp (load_owner_row_for_update S i) P s"
  unfolding load_owner_row_for_update_def wp_rules
  by (rule wp_select_one[OF session_lawsD(5)[OF assms(1)] select_request[OF assms(2)]])
    (use assms holds_get[OF representsD(1)[OF assms(2)]] in \<open>auto simp: wp_rules split: option.splits\<close>)

lemma unique_find:
  assumes h: "holds key t d" and u: "unique f t"
  shows "filter_mset (\<lambda>r. f r = i) t = (case find (\<lambda>r. f r = i) (dict_values d) of None \<Rightarrow> {#} | Some r \<Rightarrow> {#r#})"
proof -
  have t: "t = mset (dict_values d)" using h by (simp add: holds_def)
  show ?thesis
  proof (cases "find (\<lambda>r. f r = i) (dict_values d)")
    case None
    then have "filter (\<lambda>r. f r = i) (dict_values d) = []" by (simp only: find_None_iff filter_empty_conv) blast
    then have "filter_mset (\<lambda>r. f r = i) t = mset []" unfolding t by (metis mset_filter)
    then show ?thesis using None by simp
  next
    case (Some r)
    then have r: "r \<in># t" "f r = i" unfolding t by (auto simp: find_Some_iff)
    have "f x = i \<longleftrightarrow> key x = key r \<and> True" if "x \<in># t" for x
    proof -
      have "f x = i \<longleftrightarrow> x = r" using u that r unfolding unique_def by blast
      moreover have "key x = key r \<longleftrightarrow> x = r"
        using holds_row[OF h, of x] holds_row[OF h, of r] that r(1) by (metis option.inject)
      ultimately show ?thesis by simp
    qed
    from holds_filter_at[OF h _ this] holds_row[OF h, of r] r(1) Some show ?thesis by simp
  qed
qed

lemma find_items:
  "find (\<lambda>r. P r) (map snd d) = map_option snd (find (\<lambda>(k, r). P r) d)"
  by (induction d) auto

lemma wp_select_source:
  assumes laws: "session_laws S view" and rep: "represents (view s) st"
    and failed: "\<And>s'. P (Inl PersistenceWriteError) s'"
    and none: "\<And>s'. find (\<lambda>row. rn_database_id row = run_id) (dict_values (es_runs st)) = None \<Longrightarrow> view s' = view s \<Longrightarrow> P (Inr None) s'"
    and orphan: "\<And>run s'. find (\<lambda>row. rn_database_id row = run_id) (dict_values (es_runs st)) = Some run \<Longrightarrow>
      find (\<lambda>(k, row). rq_database_id row = nu_original_request_record_id (rn_record run)) (es_requests st) = None \<Longrightarrow>
      view s' = view s \<Longrightarrow> P (Inr None) s'"
    and source: "\<And>run k row s'. find (\<lambda>row. rn_database_id row = run_id) (dict_values (es_runs st)) = Some run \<Longrightarrow>
      find (\<lambda>(k, row). rq_database_id row = nu_original_request_record_id (rn_record run)) (es_requests st) = Some (k, row) \<Longrightarrow>
      view s' = view s \<Longrightarrow> P (Inr (Some (nu_original_request_record_id (rn_record run), k))) s'"
  shows "wp (select_one (ds_select_run_requests S (\<lambda>v. rn_database_id v = run_id))) P s"
proof -
  let ?run = "find (\<lambda>row. rn_database_id row = run_id) (dict_values (es_runs st))"
  let ?req = "\<lambda>run. find (\<lambda>(k, row). rq_database_id row = nu_original_request_record_id (rn_record run)) (es_requests st)"
  let ?found = "case ?run of None \<Rightarrow> None
    | Some run \<Rightarrow> map_option (\<lambda>(k, row). (rq_database_id row, request_key row)) (?req run)"
  note runs = unique_find[OF representsD(3,4)[OF rep], of run_id]
  note requests = unique_find[OF representsD(1,2)[OF rep]]
  have "filter_mset (\<lambda>r. nu_original_request_record_id (rn_record run) = rq_database_id r) (db_requests (view s))
      = (case ?req run of None \<Rightarrow> {#} | Some (k, row) \<Rightarrow> {#row#})" for run
  proof -
    have flip: "(\<lambda>r. nu_original_request_record_id (rn_record run) = rq_database_id r)
        = (\<lambda>r. rq_database_id r = nu_original_request_record_id (rn_record run))" by auto
    show ?thesis unfolding flip requests by (simp add: find_items split: option.split)
  qed
  note sub = this
  have "(\<Sum>v \<in># filter_mset (\<lambda>v. rn_database_id v = run_id) (db_runs (view s)).
      image_mset (\<lambda>r. (rq_database_id r, request_key r))
        (filter_mset (\<lambda>r. nu_original_request_record_id (rn_record v) = rq_database_id r) (db_requests (view s))))
      = (case ?found of None \<Rightarrow> {#} | Some x \<Rightarrow> {#x#})"
    by (cases ?run) (simp_all add: runs sub split: option.split)
  then show ?thesis
  proof (rule wp_select_one[where P = P, OF session_lawsD(7)[OF laws]])
    show "P (Inl PersistenceWriteError) s'" for s' by (rule failed)
    fix s' assume same: "view s' = view s"
    show "P (Inr ?found) s'"
    proof (cases ?run)
      case None
      then show ?thesis using none same by simp
    next
      case (Some run)
      show ?thesis
      proof (cases "?req run")
        case None
        then show ?thesis using orphan Some same by simp
      next
        case found: (Some p)
        obtain k row where p: "p = (k, row)" by (cases p)
        have "(k, row) \<in> set (es_requests st)" "rq_database_id row = nu_original_request_record_id (rn_record run)"
          using found p by (auto simp: find_Some_iff in_set_conv_nth)
        moreover from this have "request_key row = k"
          using representsD(1)[OF rep] unfolding holds_def by (metis dict_get_items)
        ultimately show ?thesis using source[OF Some found[unfolded p] same] Some found p by simp
      qed
    qed
  qed
qed

lemma sql_stored_ok: "snapshot_column (id_response_snapshot row) \<Longrightarrow> sql_stored row = Inr (stored_of row (id_scope row))"
  by (auto simp: sql_stored_def snapshot_column_def stored_of_def simp del: freeze_json.simps
      split: option.splits pyval.splits)

section \<open>The decision on a claim\<close>

text \<open>The errors that only the database has: a statement failed, or a constraint the store does not have.\<close>

abbreviation db_errors :: "exn set" where
  "db_errors \<equiv> {PersistenceWriteError}"

lemma dt_le_utc: "utc_offset a = Some 0 \<Longrightarrow> utc_offset b = Some 0 \<Longrightarrow> dt_le a b = Inr (instant a \<le> instant b)"
  by (simp add: dt_le_def)

lemma validate_times:
  "validate_idempotency (stored_of item sc) = Inr status \<Longrightarrow>
     utc_offset (id_expires_at item) = Some 0 \<and> utc_offset (id_lease_expires_at item) = Some 0"
  by (auto simp: validate_idempotency_def stored_of_def valid_time_def split: option.splits if_splits)

lemma wp_replace_owner:
  assumes laws: "session_laws S view" and rep: "represents (view s) st"
    and g: "dict_get (es_idempotency st) (scope_key sc) = Some item"
    and "\<And>s'. P (Inl PersistenceWriteError) s'"
    and "\<And>s'. represents (view s') (put_item sc (replace_item item request now lease) st) \<Longrightarrow> P (Inr ()) s'"
  shows "wp (replace_active_owner S item request (id_claim_version item + 1) now lease) P s"
proof -
  let ?item = "replace_item item request now lease"
  have put: "represents (view s\<lparr>db_claims := set_where (\<lambda>r. id_database_id r = id_database_id ?item) (\<lambda>r. ?item)
      (db_claims (view s))\<rparr>) (put_item sc ?item st)"
    using claim_row[OF rep g] by (intro represents_put[OF rep g]) (simp_all add: replace_item_def snapshot_column_def)
  have "wp (db_call PersistenceWriteError (ds_flush_claim S ?item)) P s"
    by (rule wp_writes[OF session_lawsD(4)[OF laws]]) (use assms(4,5) put in auto)
  then show ?thesis by (cases item) (simp add: replace_active_owner_def replace_item_def)
qed

lemma sql_token_new:
  "sql_token (id_database_id item) (cr_scope request) (cr_owner_request_id request) (id_claim_version item + 1) now lease
     = token_of (replace_item item request now lease) (cr_scope request)"
  by (simp add: sql_token_def token_of_def replace_item_def)

lemma sql_token_from_stored: "sql_token_from (stored_of item sc) = token_of item sc"
  by (simp add: sql_token_from_def sql_token_def token_of_def stored_of_def)

lemma ref_of_owner:
  "dict_get (es_requests st) i = Some row \<Longrightarrow> request_key row = i \<Longrightarrow> owner_ref st i = Inr (ref_of row)"
  by (simp add: owner_ref_def ref_of_def)

lemma stored_of_sel [simp]:
  "si_expires_at (stored_of item sc) = Some (id_expires_at item)"
  "si_lease_expires_at (stored_of item sc) = Some (id_lease_expires_at item)"
  "si_fingerprint_version (stored_of item sc) = id_fingerprint_version item"
  "si_request_fingerprint (stored_of item sc) = id_request_fingerprint item"
  "si_completed_run_record_id (stored_of item sc) = id_completed_run_record_id item"
  "si_owner_request_id (stored_of item sc) = Some (id_owner_request_id item)"
  "si_claim_version (stored_of item sc) = Some (id_claim_version item)"
  "si_response_snapshot (stored_of item sc) = id_response_snapshot item"
  "si_response_snapshot_version (stored_of item sc) = id_response_snapshot_version item"
  by (simp_all add: stored_of_def)

text \<open>The four ways on from a record that is there; \<open>P\<close> is asked of what the store does.\<close>

lemma wp_reacquire:
  assumes laws: "session_laws S view" and rep: "represents (view s) st"
    and found: "dict_get (es_idempotency st) (scope_key (cr_scope request)) = Some item"
    and failed: "\<And>s'. P (Inl PersistenceWriteError) s'"
    and after: "\<And>s'. represents (view s') (put_item (cr_scope request) (replace_item item request now lease) st) \<Longrightarrow>
    P (bind_res (token_of (replace_item item request now lease) (cr_scope request))
        (\<lambda>token. Inr ((decision_of ACQUIRED)\<lparr>cd_token := Some token, cd_expired_reuse := True\<rparr>))) s'"
  shows "wp (sql_reacquire S item request now lease) P s"
  unfolding sql_reacquire_def wp_rules sql_token_new
  by (rule wp_replace_owner[OF laws rep found])
    (use failed after in \<open>auto simp: bind_res_def split: sum.splits\<close>)

lemma wp_reclaim:
  assumes laws: "session_laws S view" and rep: "represents (view s) st"
    and found: "dict_get (es_idempotency st) (scope_key (cr_scope request)) = Some item"
    and failed: "\<And>s'. P (Inl PersistenceWriteError) s'"
    and orphan: "\<And>s'. owner_ref st (id_owner_request_id item) = Inl InvalidIdempotencyStateError \<Longrightarrow>
      view s' = view s \<Longrightarrow> P (Inl InvalidIdempotencyStateError) s'"
    and closed: "\<And>prior s'. owner_ref st (id_owner_request_id item) = Inr prior \<Longrightarrow> rf_status prior \<noteq> ''in_progress'' \<Longrightarrow>
      view s' = view s \<Longrightarrow> P (Inl InvalidIdempotencyStateError) s'"
    and owned: "\<And>prior s'. owner_ref st (id_owner_request_id item) = Inr prior \<Longrightarrow> rf_status prior = ''in_progress'' \<Longrightarrow>
      represents (view s') (put_item (cr_scope request) (replace_item item request now lease) st) \<Longrightarrow>
      P (bind_res (token_of (replace_item item request now lease) (cr_scope request))
        (\<lambda>token. Inr ((decision_of RECLAIMED)\<lparr>cd_token := Some token, cd_reclaimed_request := Some prior\<rparr>))) s'"
  shows "wp (sql_reclaim S item request now lease) P s"
  unfolding sql_reclaim_def wp_rules sql_token_new
proof (rule wp_load_owner[OF laws rep], goal_cases)
  case (1 s')
  then show ?case by (simp add: failed)
next
  case (2 s')
  then show ?case using orphan by (simp add: owner_ref_def)
next
  case (3 row s')
  note ref = ref_of_owner[OF 3(1,2)]
  have rep': "represents (view s') st" using rep 3(3) by simp
  show ?case
  proof (cases "rq_status row = ''in_progress''")
    case True
    then have "rf_status (ref_of row) = ''in_progress''" by (simp add: ref_of_def)
    from owned[OF ref this] show ?thesis
      using True by (simp, intro wp_replace_owner[OF laws rep' found])
        (auto simp: failed bind_res_def split: sum.splits)
  next
    case False
    then have "rf_status (ref_of row) \<noteq> ''in_progress''" by (simp add: ref_of_def)
    from closed[OF ref this] show ?thesis using False 3(3) by simp
  qed
qed

lemma wp_replay:
  assumes laws: "session_laws S view" and rep: "represents (view s) st"
    and failed: "\<And>s'. P (Inl PersistenceWriteError) s'"
    and completed: "id_completed_run_record_id item \<noteq> None" "id_response_snapshot item \<noteq> None"
    and after: "\<And>s'. view s' = view s \<Longrightarrow> P (replay_decision st item) s'"
  shows "wp (sql_replay_decision S (stored_of item (cr_scope request))) P s"
proof -
  obtain run_id where run_id: "id_completed_run_record_id item = Some run_id" using completed(1) by blast
  have eq: "find (\<lambda>row. Some (rn_database_id row) = id_completed_run_record_id item) (dict_values (es_runs st))
      = find (\<lambda>row. rn_database_id row = run_id) (dict_values (es_runs st))"
    by (rule arg_cong[where f = "\<lambda>f. find f (dict_values (es_runs st))"]) (auto simp: run_id)
  show ?thesis
    unfolding sql_replay_decision_def stored_of_sel run_id option.case wp_rules
    by (rule wp_select_source[OF laws rep])
      (use after completed(2) in \<open>auto simp: failed wp_rules replay_decision_def eq split: option.splits\<close>)
qed

lemma wp_previous_failure:
  assumes laws: "session_laws S view" and rep: "represents (view s) st"
    and failed: "\<And>s'. P (Inl PersistenceWriteError) s'"
    and after: "\<And>s'. view s' = view s \<Longrightarrow> P (failure_decision st item) s'"
  shows "wp (sql_previous_failure_decision S (stored_of item (cr_scope request))) P s"
  unfolding sql_previous_failure_decision_def stored_of_sel option.case wp_rules
  by (rule wp_load_owner[OF laws rep]) (use after in \<open>auto simp: failed failure_decision_def split: option.splits if_splits\<close>)

lemma completed_fields:
  "validate_idempotency (stored_of item sc) = Inr COMPLETED \<Longrightarrow>
     id_completed_run_record_id item \<noteq> None \<and> id_response_snapshot item \<noteq> None"
  by (auto simp: validate_idempotency_def split: option.splits if_splits)

lemma wp_decide:
  assumes laws: "session_laws S view" and rep: "represents (view s) st"
    and found: "dict_get (es_idempotency st) (scope_key (cr_scope request)) = Some item"
    and valid: "validate_idempotency (stored_of item (cr_scope request)) = Inr status"
    and now: "now = utc n" and lease: "lease = add_seconds now (cr_lease_duration_seconds request)"
    and failed: "\<And>s'. P (Inl PersistenceWriteError) s'"
    and after: "\<And>r st' s'. claim_at now request st = (r, st') \<Longrightarrow> represents (view s') st' \<Longrightarrow> P r s'"
  shows "wp (sql_decide S request now lease item (stored_of item (cr_scope request)) status) P s"
proof -
  have times: "dt_le (id_expires_at item) now = Inr (instant (id_expires_at item) \<le> instant now)"
    "dt_le (id_lease_expires_at item) now = Inr (instant (id_lease_expires_at item) \<le> instant now)"
    using validate_times[OF valid] by (simp_all add: dt_le_utc now)
  note claim = claim_at_def[of now request st, unfolded Let_def found option.case valid sum.case times, folded lease]
  have unchanged: "P r s'" if "claim_at now request st = (r, st)" "view s' = view s" for r s'
    using after[OF that(1)] that(2) rep by simp
  show ?thesis
  proof (cases "status \<in> {COMPLETED, FAILED} \<and> instant (id_expires_at item) \<le> instant now")
    case True
    then show ?thesis
      by (auto simp: sql_decide_def claim intro!: wp_reacquire[where P = P and view = view and s = s, OF laws rep found failed] after)
  next
    case False
    then have decide: "sql_decide S request now lease item (stored_of item (cr_scope request)) status
      = (if id_fingerprint_version item \<noteq> cr_fingerprint_version request then raise_op FingerprintVersionError
         else if id_request_fingerprint item \<noteq> cr_request_fingerprint request then ret (decision_of CONFLICT)
         else (case status of
            ACTIVE \<Rightarrow>
              if instant now < instant (id_lease_expires_at item)
              then bind_op (lift_res (token_of item (cr_scope request))) (\<lambda>token.
                     ret ((decision_of IN_PROGRESS)\<lparr>cd_token := Some token\<rparr>))
              else sql_reclaim S item request now lease
          | COMPLETED \<Rightarrow> sql_replay_decision S (stored_of item (cr_scope request))
          | FAILED \<Rightarrow> sql_previous_failure_decision S (stored_of item (cr_scope request))))"
      by (auto simp: sql_decide_def sql_token_from_stored split: idempotency_status.split)
    have open_claim: "(if status \<in> {COMPLETED, FAILED} then Inr (instant (id_expires_at item) \<le> instant now) else Inr False)
      = (Inr False :: bool res)" using False by auto
    note claim = claim[unfolded open_claim sum.case bool.case]
    consider (version) "id_fingerprint_version item \<noteq> cr_fingerprint_version request"
      | (conflict) "id_fingerprint_version item = cr_fingerprint_version request"
          "id_request_fingerprint item \<noteq> cr_request_fingerprint request"
      | (same) "id_fingerprint_version item = cr_fingerprint_version request"
          "id_request_fingerprint item = cr_request_fingerprint request"
      by blast
    then show ?thesis
    proof cases
      case version
      then show ?thesis by (auto simp: decide wp_rules claim intro: unchanged)
    next
      case conflict
      then show ?thesis by (auto simp: decide wp_rules claim intro: unchanged)
    next
      case same
      show ?thesis
      proof (cases status)
        case ACTIVE
        show ?thesis
        proof (cases "instant now < instant (id_lease_expires_at item)")
          case True
          then have "claim_at now request st = (bind_res (token_of item (cr_scope request))
              (\<lambda>token. Inr ((decision_of IN_PROGRESS)\<lparr>cd_token := Some token\<rparr>)), st)"
            using same ACTIVE by (simp add: claim)
          from unchanged[OF this] show ?thesis
            unfolding decide using True same ACTIVE
            by (cases "token_of item (cr_scope request)") (auto simp: wp_rules)
        next
          case expired: False
          have "wp (sql_reclaim S item request now lease) P s"
            by (rule wp_reclaim[where P = P and view = view and s = s, OF laws rep found failed])
              (use same ACTIVE expired in \<open>auto simp: claim rep intro: unchanged after\<close>)
          then show ?thesis unfolding decide using expired same ACTIVE by simp
        qed
      next
        case COMPLETED
        then show ?thesis unfolding decide using same completed_fields valid
          by (auto simp: claim intro!: wp_replay[where P = P and view = view and s = s, OF laws rep failed] unchanged)
      next
        case FAILED
        have "claim_at now request st = (failure_decision st item, st)" using same FAILED by (simp add: claim)
        then show ?thesis unfolding decide using same FAILED
          by (auto intro!: wp_previous_failure[where P = P and view = view and s = s, OF laws rep failed] unchanged)
      qed
    qed
  qed
qed

section \<open>The operations\<close>

lemma sql_token_first:
  "sql_token i (cr_scope request) (cr_owner_request_id request) 1 now lease
     = token_of (new_item i request now lease) (cr_scope request)"
  by (simp add: sql_token_def token_of_def new_item_def)

lemma validate_Inl: "validate_idempotency r = Inl e \<Longrightarrow> e = InvalidIdempotencyStateError"
  by (auto simp: validate_idempotency_def split: option.splits if_splits)

lemma sql_claim_simulates:
  assumes laws: "session_laws S view"
  shows "simulates view {PersistenceWriteError} (\<lambda>st. True) (sql_claim S request)
    {f. \<exists>n i. f = (\<lambda>st. claim_at (utc n) request (st\<lparr>es_next_idempotency_id := i\<rparr>))}" (is "simulates _ ?E _ _ ?F")
proof (rule simulatesI)
  fix s st assume rep: "represents (view s) st"
  let ?sc = "cr_scope request"
  show "wp (sql_claim S request) (matched view ?E st ?F) s"
    unfolding sql_claim_def sql_database_now_def wp_rules Let_def
  proof (rule wp_reads[OF session_lawsD(1)[OF laws]], goal_cases)
    case (2 v s1)
    define now where "now = utc (instant v)"
    define lease where "lease = add_seconds now (cr_lease_duration_seconds request)"
    have rep1: "represents (view s1) st" using rep 2(1) by simp
    have matching: "matched view ?E st ?F r s'"
      if "claim_at now request (st\<lparr>es_next_idempotency_id := i\<rparr>) = (r, st')" "represents (view s') st'" for r s' st' i
      using that unfolding now_def by (intro matched_by[of "\<lambda>st. claim_at (utc (instant v)) request (st\<lparr>es_next_idempotency_id := i\<rparr>)"]) auto
    show ?case
      unfolding sum.case wp_rules now_def[symmetric] lease_def[symmetric] sql_token_first
    proof (rule wp_writes[OF insert_claim_law[OF laws]], goal_cases)
      case (2 x s2)
      show ?case
      proof (cases x)
        case (Some i)
        let ?item = "new_item i request now lease"
        have fresh: "id_scope row \<noteq> ?sc \<and> id_database_id row \<noteq> i" if "row \<in># db_claims (view s1)" for row
          using 2 that Some by (auto simp: inserts_claim_def)
        have none: "dict_get (es_idempotency st) (scope_key ?sc) = None"
          using fresh holds_get[OF representsD(5)[OF rep1]] by (metis scope_key_inj not_Some_eq)
        have "represents (view s2) (put_item ?sc ?item (st\<lparr>es_next_idempotency_id := i + 1\<rparr>))"
          using represents_add_claim[of "view s1" "st\<lparr>es_next_idempotency_id := i + 1\<rparr>" ?sc ?item] rep1 none fresh 2 Some
          by (simp add: inserts_claim_def new_item_def)
        then have "matched view ?E st ?F (bind_res (token_of ?item ?sc) (\<lambda>token. Inr ((decision_of ACQUIRED)\<lparr>cd_token := Some token\<rparr>))) s2"
          using none by (intro matching[of i]) (auto simp: claim_at_def Let_def lease_def)
        then show ?thesis
          using Some by (cases "token_of ?item ?sc") (auto simp: wp_rules)
      next
        case None
        then have same: "view s2 = view s1" using 2 by (simp add: inserts_claim_def)
        then have rep2: "represents (view s2) st" using rep1 by simp
        obtain item where item: "dict_get (es_idempotency st) (scope_key ?sc) = Some item"
          using 2 None holds_row[OF representsD(5)[OF rep1]] by (auto simp: inserts_claim_def)
        note row = claim_row[OF rep2 item]
        have stored: "sql_stored item = Inr (stored_of item ?sc)" using sql_stored_ok[OF row(3)] row(2) by simp
        have "wp (bind_op (load_scope_for_update S ?sc) (\<lambda>model.
            bind_op (lift_res (sql_stored model)) (\<lambda>stored.
            bind_op (lift_res (validate_idempotency stored)) (\<lambda>status.
            sql_decide S request now lease model stored status)))) (matched view ?E st ?F) s2"
          unfolding wp_bind[of "load_scope_for_update S ?sc"]
        proof (rule wp_load_scope[OF laws rep2 item], goal_cases)
          case (2 s3)
          then have rep3: "represents (view s3) st" using rep2 by simp
          have "wp (sql_decide S request now lease item (stored_of item ?sc) status) (matched view ?E st ?F) s3"
            if "validate_idempotency (stored_of item ?sc) = Inr status" for status
            by (rule wp_decide[OF laws rep3 item that now_def lease_def])
              (use matching[of "es_next_idempotency_id st"] in \<open>auto simp del: split_paired_Ex\<close>)
          moreover have "matched view ?E st ?F (Inl e) s3" if "validate_idempotency (stored_of item ?sc) = Inl e" for e
            using that rep3 item by (intro matching[of "es_next_idempotency_id st"]) (auto simp: claim_at_def Let_def)
          ultimately show ?case
            unfolding sum.case wp_rules stored by (simp split: sum.split)
        qed simp
        then show ?thesis unfolding None by (simp only: option.case sum.case)
      qed
    qed simp
  qed simp
qed

text \<open>A token that names the record of its scope, as every token that a claim returned does.\<close>

definition names_record :: "claim_token \<Rightarrow> execution_state \<Rightarrow> bool" where
  "names_record token st \<longleftrightarrow>
     (case dict_get (es_idempotency st) (scope_key (ct_scope token)) of
        None \<Rightarrow> False
      | Some item \<Rightarrow> id_database_id item = ct_idempotency_record_id token
          \<and> (case validate_idempotency (stored_of item (ct_scope token)) of Inl e \<Rightarrow> False | Inr status \<Rightarrow> True))"

lemma names_recordE:
  assumes "names_record token st"
  obtains item status where "dict_get (es_idempotency st) (scope_key (ct_scope token)) = Some item"
    "id_database_id item = ct_idempotency_record_id token"
    "validate_idempotency (stored_of item (ct_scope token)) = Inr status"
  using assms unfolding names_record_def by (auto split: option.splits sum.splits)

lemma validate_status: "validate_idempotency (stored_of item sc) = Inr status \<Longrightarrow> id_status item = idempotency_status_value status"
  by (auto simp: validate_idempotency_def stored_of_def idempotency_status_of_Some split: option.splits if_splits)

lemma idempotency_status_value_inj [simp]: "idempotency_status_value a = idempotency_status_value b \<longleftrightarrow> a = b"
  by (cases a; cases b) simp_all

lemma sql_assert_simulates:
  assumes laws: "session_laws S view"
  shows "simulates view {PersistenceWriteError} (names_record token) (sql_assert_current_owner S token) {assert_current_owner token}"
    (is "simulates _ ?E _ _ ?F")
proof (rule simulatesI)
  fix s st assume rep: "represents (view s) st" and "names_record token st"
  then obtain item status where item: "dict_get (es_idempotency st) (scope_key (ct_scope token)) = Some item"
    and i: "ct_idempotency_record_id token = id_database_id item"
    and v: "validate_idempotency (stored_of item (ct_scope token)) = Inr status"
    by (metis names_recordE)
  note row = claim_row[OF rep item]
  have stored: "sql_stored item = Inr (stored_of item (ct_scope token))" using sql_stored_ok[OF row(3)] row(2) by simp
  show "wp (sql_assert_current_owner S token) (matched view ?E st ?F) s"
    unfolding sql_assert_current_owner_def wp_rules i
    by (rule wp_load_id[OF laws rep item])
      (use validate_status[OF v] rep in \<open>auto simp: wp_rules stored v assert_current_owner_def owned_item_def item owns_def
        simp del: idempotency_status_value.simps\<close>)
qed

lemma set_where_none: "filter_mset P t = {#} \<Longrightarrow> set_where P f t = t"
  using image_mset_cong[of t "\<lambda>x. if P x then f x else x" "\<lambda>x. x"] by (auto simp: set_where_def)

lemma fenced_rows:
  assumes rep: "represents t st" and item: "dict_get (es_idempotency st) (scope_key (ct_scope token)) = Some item"
    and i: "id_database_id item = ct_idempotency_record_id token"
  shows "filter_mset (fenced token) (db_claims t) = (if owns token item then {#item#} else {#})"
    "owns token item \<Longrightarrow> x \<in># db_claims t \<Longrightarrow> fenced token x \<longleftrightarrow> x = item"
proof -
  have iff: "fenced token x \<longleftrightarrow> claim_key x = scope_key (ct_scope token) \<and> owns token x" if "x \<in># db_claims t" for x
    using claim_row(4,5)[OF rep item that] i by (auto simp: fenced_def owns_def)
  show "filter_mset (fenced token) (db_claims t) = (if owns token item then {#item#} else {#})"
    by (rule holds_filter_at[OF representsD(5)[OF rep] item iff])
  show "fenced token x \<longleftrightarrow> x = item" if "owns token item" "x \<in># db_claims t"
    using iff[OF that(2)] claim_row(4)[OF rep item that(2)] that(1) by auto
qed

text \<open>Both ways of finishing a claim are a fenced update.\<close>

lemma wp_fenced_update:
  assumes laws: "session_laws S view" and rep: "represents (view s) st"
    and item: "dict_get (es_idempotency st) (scope_key (ct_scope token)) = Some item"
    and i: "id_database_id item = ct_idempotency_record_id token"
    and f: "id_scope (f item) = id_scope item" "id_database_id (f item) = id_database_id item"
      "snapshot_column (id_response_snapshot (f item))"
    and failed: "\<And>s'. P (Inl PersistenceWriteError) s'"
    and lost: "\<And>s'. \<not> owns token item \<Longrightarrow> represents (view s') st \<Longrightarrow> P (Inl IdempotencyOwnershipLostError) s'"
    and updated: "\<And>s'. owns token item \<Longrightarrow> represents (view s') (put_item (ct_scope token) (f item) st) \<Longrightarrow> P (Inr ()) s'"
  shows "wp (bind_op (db_call PersistenceWriteError (ds_update_claims S (fenced token) f)) (\<lambda>n.
    if n \<noteq> 1 then raise_op IdempotencyOwnershipLostError else ret ())) P s"
  unfolding wp_rules
proof (rule wp_writes[OF session_lawsD(3)[OF laws]], goal_cases)
  case (2 n s')
  note rows = fenced_rows[OF rep item i]
  show ?case
  proof (cases "owns token item")
    case True
    then have "represents (view s') (put_item (ct_scope token) (f item) st)"
    proof -
      have "represents (view s\<lparr>db_claims := set_where (fenced token) f (db_claims (view s))\<rparr>)
          (put_item (ct_scope token) (f item) st)"
        by (rule represents_put[OF rep item])
          (use f claim_row(2)[OF rep item] rows(2)[OF True] in simp_all)
      then show ?thesis using 2 by simp
    qed
    then show ?thesis using 2 rows(1) True updated by simp
  next
    case False
    then have none: "filter_mset (fenced token) (db_claims (view s)) = {#}" using rows(1) by (simp only: if_False)
    then have "n = 0" using 2 by (simp only: size_empty)
    moreover have "view s' = view s" using 2 set_where_none[OF none] by simp
    ultimately show ?thesis using False rep lost by simp
  qed
qed (simp add: failed)

lemma sql_complete_simulates:
  assumes laws: "session_laws S view" and snapshot: "snapshot_column (Some snapshot)"
  shows "simulates view {PersistenceWriteError} (names_record token)
    (sql_complete_fenced S token run_id snapshot version ttl)
    {f. \<exists>n. f = complete_fenced (utc n) token run_id snapshot version ttl}" (is "simulates _ ?E _ _ ?F")
proof (rule simulatesI)
  fix s st assume rep: "represents (view s) st" and "names_record token st"
  then obtain item where item: "dict_get (es_idempotency st) (scope_key (ct_scope token)) = Some item"
    and i: "id_database_id item = ct_idempotency_record_id token" by (metis names_recordE)
  show "wp (sql_complete_fenced S token run_id snapshot version ttl) (matched view ?E st ?F) s"
    unfolding sql_complete_fenced_def sql_database_now_def wp_bind[of "bind_op a b" for a b] wp_bind[of "db_call e (ds_clock_timestamp S)" for e]
  proof (rule wp_reads[OF session_lawsD(1)[OF laws]], goal_cases)
    case (2 v s1)
    then have rep1: "represents (view s1) st" using rep by simp
    show ?case
      unfolding sum.case wp_basic
      by (rule wp_fenced_update[OF laws rep1 item i])
        (use snapshot in \<open>auto simp: complete_fenced_def owned_item_def item\<close>)
  qed simp
qed

lemma sql_fail_simulates:
  assumes laws: "session_laws S view"
  shows "simulates view {PersistenceWriteError} (names_record token) (sql_fail_fenced S token ttl)
    {f. \<exists>n. f = fail_fenced (utc n) token ttl}" (is "simulates _ ?E _ _ ?F")
proof (rule simulatesI)
  fix s st assume rep: "represents (view s) st" and "names_record token st"
  then obtain item where item: "dict_get (es_idempotency st) (scope_key (ct_scope token)) = Some item"
    and i: "id_database_id item = ct_idempotency_record_id token" by (metis names_recordE)
  show "wp (sql_fail_fenced S token ttl) (matched view ?E st ?F) s"
    unfolding sql_fail_fenced_def sql_database_now_def wp_bind[of "bind_op a b" for a b] wp_bind[of "db_call e (ds_clock_timestamp S)" for e]
  proof (rule wp_reads[OF session_lawsD(1)[OF laws]], goal_cases)
    case (2 v s1)
    then have rep1: "represents (view s1) st" using rep by simp
    show ?case
      unfolding sum.case wp_basic
      by (rule wp_fenced_update[OF laws rep1 item i])
        (auto simp: fail_fenced_def owned_item_def item snapshot_column_def)
  qed simp
qed

lemma ref_of_new:
  "ref_of (request_row_of r i) = \<lparr>rf_database_id = i, rf_request_id = nr_request_id r, rf_status = nr_status r,
     rf_trace_id = Some (nr_trace_id r), rf_session_id = nr_session_id r\<rparr>"
  by (simp add: ref_of_def request_row_of_def)

lemma represents_add_request:
  assumes rep: "represents t st" and ins: "inserts_request (request_row_of r) (nr_request_id r) t i t'"
  shows "dict_get (es_requests st) (nr_request_id r) = None"
    "represents t' (st\<lparr>es_next_request_id := n, es_requests := dict_set (nr_request_id r) (request_row_of r i) (es_requests st)\<rparr>)"
proof -
  have fresh: "request_key row \<noteq> nr_request_id r \<and> rq_database_id row \<noteq> i" if "row \<in># db_requests t" for row
    using ins that unfolding inserts_request_def by blast
  show none: "dict_get (es_requests st) (nr_request_id r) = None"
    using fresh holds_get[OF representsD(1)[OF rep]] by (metis not_Some_eq)
  have "holds request_key (add_mset (request_row_of r i) (db_requests t))
      (dict_set (nr_request_id r) (request_row_of r i) (es_requests st))"
    using holds_add[OF representsD(1)[OF rep], of "request_row_of r i"] none by (simp add: request_row_of_def)
  moreover have "unique rq_database_id (add_mset (request_row_of r i) (db_requests t))"
    using fresh by (intro unique_add[OF representsD(2)[OF rep]]) (simp add: request_row_of_def)
  ultimately show "represents t' (st\<lparr>es_next_request_id := n,
      es_requests := dict_set (nr_request_id r) (request_row_of r i) (es_requests st)\<rparr>)"
    using ins rep unfolding inserts_request_def represents_def by simp
qed

lemma sql_create_request_simulates:
  assumes laws: "session_laws S view"
  shows "simulates view {PersistenceWriteError, PersistenceConflictError} (\<lambda>st. True) (sql_create_request S r)
    {f. \<exists>i. f = (\<lambda>st. insert_request r (st\<lparr>es_next_request_id := i\<rparr>))}" (is "simulates _ ?E _ _ ?F")
proof (rule simulatesI)
  fix s st assume rep: "represents (view s) st"
  have matching: "matched view ?E st ?F x s'"
    if "insert_request r (st\<lparr>es_next_request_id := i\<rparr>) = (x, st')" "represents (view s') st'" for x s' st' i
    using that by (intro matched_by[of "\<lambda>st. insert_request r (st\<lparr>es_next_request_id := i\<rparr>)"]) auto
  show "wp (sql_create_request S r) (matched view ?E st ?F) s"
    unfolding sql_create_request_def wp_rules
  proof (rule wp_db_flush, goal_cases)
    case (1 name s')
    show ?case
    proof (cases "name = Some ''uq_agent_requests_request_id''")
      case True
      then obtain row where row: "view s' = view s" "row \<in># db_requests (view s)" "request_key row = nr_request_id r"
        using insert_request_law[OF laws, of r] 1 unfolding names_duplicates_def by blast
      then have "dict_get (es_requests st) (nr_request_id r) \<noteq> None"
        using holds_row[OF representsD(1)[OF rep], of row] by simp
      then have "insert_request r (st\<lparr>es_next_request_id := 0\<rparr>) = (Inl DuplicateRequestError, st\<lparr>es_next_request_id := 0\<rparr>)"
        by (simp add: insert_request_def)
      from matching[OF this] show ?thesis using rep row(1) True by (simp add: request_conflict_def)
    next
      case False
      then show ?thesis by (simp add: request_conflict_def)
    qed
  next
    case (3 i s')
    then have ins: "inserts_request (request_row_of r) (nr_request_id r) (view s) i (view s')"
      using insert_request_law[OF laws, of r] unfolding writes_def by blast
    note new = represents_add_request[OF rep ins]
    have "insert_request r (st\<lparr>es_next_request_id := i\<rparr>) = (Inr (ref_of (request_row_of r i)),
        st\<lparr>es_next_request_id := i + 1, es_requests := dict_set (nr_request_id r) (request_row_of r i) (es_requests st)\<rparr>)"
      using new(1) by (simp add: insert_request_def Let_def ref_of_new) (simp add: request_row_of_def)
    from matching[OF this new(2)] show ?case by (simp only: sum.case wp_basic)
  qed simp
qed

lemma sql_get_request_simulates:
  assumes laws: "session_laws S view"
  shows "simulates view {PersistenceWriteError} (\<lambda>st. True) (sql_get_request_for_update S request_id) {lock_request request_id}"
    (is "simulates _ ?E _ _ ?F")
proof (rule simulatesI)
  fix s st assume rep: "represents (view s) st"
  show "wp (sql_get_request_for_update S request_id) (matched view ?E st ?F) s"
    unfolding sql_get_request_for_update_def wp_rules
  proof (rule wp_reads[OF session_lawsD(5)[OF laws]], goal_cases)
    case (2 rows s')
    then have "scalar_one_or_none multiple_results rows = Inr (dict_get (es_requests st) request_id)"
      by (intro scalar_of_mset) (simp add: select_request[OF rep])
    moreover have "represents (view s') st" using rep 2(1) by simp
    ultimately show ?case
      using holds_get[OF representsD(1)[OF rep], of request_id]
      by (cases "dict_get (es_requests st) request_id") (auto simp: wp_rules lock_request_def ref_of_def)
  qed simp
qed

lemma run_laws:
  assumes "session_laws S view"
  shows "writes view (ds_insert_run S (\<lambda>i. \<lparr>rn_database_id = i, rn_record = r\<rparr>)) (\<lambda>t i t'.
      (\<forall>row. row \<in># db_runs t \<longrightarrow> run_key row \<noteq> nu_run_id r \<and> rn_database_id row \<noteq> i
         \<and> nu_original_request_record_id (rn_record row) \<noteq> nu_original_request_record_id r)
      \<and> t' = t\<lparr>db_runs := add_mset \<lparr>rn_database_id = i, rn_record = r\<rparr> (db_runs t)\<rparr>)"
    "writes view (ds_insert_audit S (\<lambda>i. \<lparr>au_database_id = i, au_record = e\<rparr>)) (\<lambda>t i t'.
      (\<forall>row. row \<in># db_audits t \<longrightarrow> ae_event_id (au_record row) \<noteq> ae_event_id e)
      \<and> t' = t\<lparr>db_audits := add_mset \<lparr>au_database_id = i, au_record = e\<rparr> (db_audits t)\<rparr>)"
  using assms unfolding session_laws_def run_statements_def by blast+

lemma wp_db_flush_writes:
  "writes view m Q \<Longrightarrow> (\<And>name s'. P (Inl (h name)) s') \<Longrightarrow> (\<And>s'. P (Inl PersistenceWriteError) s') \<Longrightarrow>
     (\<And>x s'. Q (view s) x (view s') \<Longrightarrow> P (Inr x) s') \<Longrightarrow> wp (db_flush h m) P s"
  unfolding writes_def by (blast intro: wp_db_flush)

lemma sql_create_run_simulates:
  assumes laws: "session_laws S view"
  shows "simulates view {PersistenceWriteError, PersistenceConflictError} (\<lambda>st. True) (sql_create_run S r)
    {f. \<exists>i. f = (\<lambda>st. insert_run r (st\<lparr>es_next_run_id := i\<rparr>))}" (is "simulates _ ?E _ _ ?F")
proof (rule simulatesI)
  fix s st assume rep: "represents (view s) st"
  show "wp (sql_create_run S r) (matched view ?E st ?F) s"
    unfolding sql_create_run_def
  proof (rule wp_db_flush_writes[OF run_laws(1)[OF laws]], goal_cases)
    case (3 i s')
    let ?row = "\<lparr>rn_database_id = i, rn_record = r\<rparr>"
    let ?st = "st\<lparr>es_next_run_id := i + 1, es_runs := dict_set (nu_run_id r) ?row (es_runs st)\<rparr>"
    have fresh: "run_key row \<noteq> nu_run_id r" "rn_database_id row \<noteq> i"
        "nu_original_request_record_id (rn_record row) \<noteq> nu_original_request_record_id r"
      if "row \<in># db_runs (view s)" for row using 3 that by blast+
    note h = representsD(3)[OF rep]
    have none: "dict_get (es_runs st) (nu_run_id r) = None"
      using fresh(1) holds_get[OF h] by (metis not_Some_eq)
    have "\<not> list_ex (\<lambda>row. nu_original_request_record_id (rn_record row) = nu_original_request_record_id r)
        (dict_values (es_runs st))"
      using fresh(3) h unfolding holds_def by (auto simp: list_ex_iff)
    then have run: "insert_run r (st\<lparr>es_next_run_id := i\<rparr>) = (Inr i, ?st)"
      using none by (simp add: insert_run_def Let_def)
    have "holds run_key (add_mset ?row (db_runs (view s))) (dict_set (nu_run_id r) ?row (es_runs st))"
      using holds_add[OF h, of ?row] none by simp
    moreover have "unique rn_database_id (add_mset ?row (db_runs (view s)))"
      using fresh(2) by (intro unique_add[OF representsD(4)[OF rep]]) simp
    ultimately have "represents (view s') ?st" using rep 3 unfolding represents_def by simp
    with run show ?case by (intro matched_by[of "\<lambda>st. insert_run r (st\<lparr>es_next_run_id := i\<rparr>)"]) auto
  qed simp_all
qed

lemma sql_create_audit_simulates:
  assumes laws: "session_laws S view"
  shows "simulates view {PersistenceWriteError, PersistenceConflictError} (\<lambda>st. True) (sql_create_audit_event S e)
    {f. \<exists>i. f = (\<lambda>st. insert_audit e (st\<lparr>es_next_audit_id := i\<rparr>))}" (is "simulates _ ?E _ _ ?F")
proof (rule simulatesI)
  fix s st assume rep: "represents (view s) st"
  show "wp (sql_create_audit_event S e) (matched view ?E st ?F) s"
    unfolding sql_create_audit_event_def
  proof (rule wp_db_flush_writes[OF run_laws(2)[OF laws]], goal_cases)
    case (3 i s')
    let ?st = "st\<lparr>es_next_audit_id := i + 1, es_audits := es_audits st @ [\<lparr>au_database_id = i, au_record = e\<rparr>]\<rparr>"
    have "\<not> list_ex (\<lambda>row. ae_event_id (au_record row) = ae_event_id e) (es_audits st)"
      using 3 representsD(7)[OF rep] by (auto simp: list_ex_iff)
    then have "insert_audit e (st\<lparr>es_next_audit_id := i\<rparr>) = (Inr i, ?st)" by (simp add: insert_audit_def Let_def)
    moreover have "represents (view s') ?st" using rep 3 unfolding represents_def by simp
    ultimately show ?case by (intro matched_by[of "\<lambda>st. insert_audit e (st\<lparr>es_next_audit_id := i\<rparr>)"]) auto
  qed simp_all
qed

text \<open>A reference to the stored request, as \<open>create_request\<close> returned it.\<close>

definition referred :: "request_ref \<Rightarrow> execution_state \<Rightarrow> bool" where
  "referred ref st \<longleftrightarrow>
     (case dict_get (es_requests st) (rf_request_id ref) of
        None \<Rightarrow> False | Some row \<Rightarrow> rq_database_id row = rf_database_id ref)"

lemma sql_finalize_simulates:
  assumes laws: "session_laws S view" and at: "utc_offset completed_at = Some 0"
  shows "simulates view {PersistenceWriteError} (referred ref) (sql_finalize S ref status completed_at code)
    {finalize_request ref status completed_at code}" (is "simulates _ ?E _ _ ?F")
proof (rule simulatesI)
  fix s st assume rep: "represents (view s) st" and "referred ref st"
  then obtain row where row: "dict_get (es_requests st) (rf_request_id ref) = Some row"
    and i: "rq_database_id row = rf_database_id ref" unfolding referred_def by (auto split: option.splits)
  note h = representsD(1)[OF rep]
  note member = holds_get[OF h row]
  let ?P = "\<lambda>r. rq_database_id r = rf_database_id ref \<and> request_key r = rf_request_id ref \<and> rq_status r = ''in_progress''"
  let ?f = "\<lambda>r. r\<lparr>rq_status := status, rq_completed_at := Some completed_at, rq_failure_code := code\<rparr>"
  have at_row: "x = row" if "x \<in># db_requests (view s)" "request_key x = rf_request_id ref" for x
    using holds_row[OF h, of x] that row by simp
  have rows: "filter_mset ?P (db_requests (view s)) = (if rq_status row = ''in_progress'' then {#row#} else {#})"
    using at_row i by (intro holds_filter_at[OF h row]) auto
  have utc: "require_utc completed_at = Inr ()" using at by (simp add: require_utc_Inr)
  show "wp (sql_finalize S ref status completed_at code) (matched view ?E st ?F) s"
    unfolding sql_finalize_def wp_rules utc sum.case
  proof (rule wp_writes[OF session_lawsD(6)[OF laws]], goal_cases)
    case (2 n s')
    show ?case
    proof (cases "rq_status row = ''in_progress''")
      case True
      let ?st = "st\<lparr>es_requests := dict_set (rf_request_id ref) (?f row) (es_requests st)\<rparr>"
      have "set_where ?P ?f (db_requests (view s)) = set_where (\<lambda>x. request_key x = request_key (?f row)) (\<lambda>x. ?f row) (db_requests (view s))"
        using at_row i True member by (intro set_where_cong) auto
      moreover have "holds request_key (set_where (\<lambda>x. request_key x = request_key (?f row)) (\<lambda>x. ?f row) (db_requests (view s)))
          (dict_set (rf_request_id ref) (?f row) (es_requests st))"
        using holds_set[OF h, of "?f row" row] row member by simp
      moreover have "unique rq_database_id (set_where (\<lambda>x. request_key x = request_key (?f row)) (\<lambda>x. ?f row) (db_requests (view s)))"
        using member at_row by (intro unique_set[OF representsD(2)[OF rep], of row]) auto
      ultimately have "represents (view s') ?st" using 2 rep unfolding represents_def by simp
      moreover have "finalize_request ref status completed_at code st = (Inr (), ?st)"
        using row True by (simp add: finalize_request_def)
      ultimately show ?thesis using 2 rows True by (auto simp: wp_rules)
    next
      case False
      then have none: "filter_mset ?P (db_requests (view s)) = {#}" using rows by (simp only: if_False)
      then have "n = 0" using 2 by (simp only: size_empty)
      moreover have "represents (view s') st" using 2 set_where_none[OF none] rep by simp
      moreover have "finalize_request ref status completed_at code st = (Inl InvalidRequestTransitionError, st)"
        using row False by (simp add: finalize_request_def)
      ultimately show ?thesis by (auto simp: wp_rules)
    qed
  qed simp
qed

section \<open>The refinement\<close>

text \<open>
  C12: the repositories over PostgreSQL do what the repositories of the transactional store do. For
  a transaction that no other one interrupts: a claim, the check of its owner, its completion and its
  failure, and the insertion, the locking and the finalization of requests, runs and audit events
  either end with one of the errors of the database or return what the store returns on the same
  rows, at the time of the database and with the identifier it chose, and leave the tables with the
  rows of the store. So what is shown of the store carries over.
\<close>

theorem sql_refines_store:
  assumes "session_laws S view"
  shows "simulates view {PersistenceWriteError} (\<lambda>st. True) (sql_claim S request)
      {f. \<exists>n i. f = (\<lambda>st. claim_at (utc n) request (st\<lparr>es_next_idempotency_id := i\<rparr>))}
    \<and> simulates view {PersistenceWriteError} (names_record token) (sql_assert_current_owner S token) {assert_current_owner token}
    \<and> (snapshot_column (Some snapshot) \<longrightarrow>
        simulates view {PersistenceWriteError} (names_record token) (sql_complete_fenced S token run_id snapshot version ttl)
          {f. \<exists>n. f = complete_fenced (utc n) token run_id snapshot version ttl})
    \<and> simulates view {PersistenceWriteError} (names_record token) (sql_fail_fenced S token ttl)
        {f. \<exists>n. f = fail_fenced (utc n) token ttl}
    \<and> simulates view {PersistenceWriteError, PersistenceConflictError} (\<lambda>st. True) (sql_create_request S r)
        {f. \<exists>i. f = (\<lambda>st. insert_request r (st\<lparr>es_next_request_id := i\<rparr>))}
    \<and> simulates view {PersistenceWriteError} (\<lambda>st. True) (sql_get_request_for_update S request_id) {lock_request request_id}
    \<and> simulates view {PersistenceWriteError, PersistenceConflictError} (\<lambda>st. True) (sql_create_run S run)
        {f. \<exists>i. f = (\<lambda>st. insert_run run (st\<lparr>es_next_run_id := i\<rparr>))}
    \<and> (utc_offset completed_at = Some 0 \<longrightarrow>
        simulates view {PersistenceWriteError} (referred ref) (sql_finalize_request_completed S ref completed_at)
          {finalize_request ref ''completed'' completed_at None}
        \<and> simulates view {PersistenceWriteError} (referred ref) (sql_finalize_request_failed S ref completed_at code)
          {finalize_request ref ''failed'' completed_at (Some code)})
    \<and> simulates view {PersistenceWriteError, PersistenceConflictError} (\<lambda>st. True) (sql_create_audit_event S e)
        {f. \<exists>i. f = (\<lambda>st. insert_audit e (st\<lparr>es_next_audit_id := i\<rparr>))}"
  unfolding sql_finalize_request_completed_def sql_finalize_request_failed_def
  by (intro conjI impI sql_claim_simulates sql_assert_simulates sql_complete_simulates sql_fail_simulates
      sql_create_request_simulates sql_get_request_simulates sql_create_run_simulates sql_finalize_simulates
      sql_create_audit_simulates assms)

section \<open>A database in memory\<close>

record demo_tables =
  dt_requests :: "request_row list"
  dt_runs :: "run_row list"
  dt_audits :: "audit_row list"
  dt_claims :: "idempotency_row list"

definition demo_view :: "demo_tables \<Rightarrow> tables" where
  "demo_view d = \<lparr>db_requests = mset (dt_requests d), db_runs = mset (dt_runs d), db_audits = mset (dt_audits d),
     db_claims = mset (dt_claims d)\<rparr>"

definition next_id :: "int list \<Rightarrow> int" where
  "next_id ids = 1 + foldr max ids 0"

lemma next_id: "i \<in> set ids \<Longrightarrow> i < next_id ids"
  by (induction ids) (auto simp: next_id_def)

lemma next_id_row: "r \<in> set rows \<Longrightarrow> f r \<noteq> next_id (map f rows)"
  using next_id[of "f r" "map f rows"] by auto

definition demo_session :: "demo_tables db_session" where
  "demo_session =
     \<lparr>ds_clock_timestamp = (\<lambda>d. (Inr (utc 0), d)),
      ds_insert_claim = (\<lambda>f d.
        if list_ex (\<lambda>r. id_scope r = id_scope (f 0)) (dt_claims d) then (Inr None, d)
        else let i = next_id (map id_database_id (dt_claims d)) in (Inr (Some i), d\<lparr>dt_claims := f i # dt_claims d\<rparr>)),
      ds_select_claims = (\<lambda>P d. (Inr (filter P (dt_claims d)), d)),
      ds_update_claims = (\<lambda>P f d.
        (Inr (length (filter P (dt_claims d))), d\<lparr>dt_claims := map (\<lambda>r. if P r then f r else r) (dt_claims d)\<rparr>)),
      ds_flush_claim = (\<lambda>m d.
        (Inr (), d\<lparr>dt_claims := map (\<lambda>r. if id_database_id r = id_database_id m then m else r) (dt_claims d)\<rparr>)),
      ds_select_requests = (\<lambda>P d. (Inr (filter P (dt_requests d)), d)),
      ds_select_run_requests = (\<lambda>P d.
        (Inr (concat (map (\<lambda>v. map (\<lambda>r. (rq_database_id r, request_key r))
           (filter (\<lambda>r. nu_original_request_record_id (rn_record v) = rq_database_id r) (dt_requests d)))
           (filter P (dt_runs d)))), d)),
      ds_update_requests = (\<lambda>P f d.
        (Inr (length (filter P (dt_requests d))), d\<lparr>dt_requests := map (\<lambda>r. if P r then f r else r) (dt_requests d)\<rparr>)),
      ds_insert_request = (\<lambda>f d.
        if list_ex (\<lambda>r. request_key r = request_key (f 0)) (dt_requests d)
        then (Inl (IntegrityError (Some ''uq_agent_requests_request_id'')), d)
        else let i = next_id (map rq_database_id (dt_requests d)) in (Inr i, d\<lparr>dt_requests := f i # dt_requests d\<rparr>)),
      ds_insert_run = (\<lambda>f d.
        if list_ex (\<lambda>r. run_key r = run_key (f 0)
             \<or> nu_original_request_record_id (rn_record r) = nu_original_request_record_id (rn_record (f 0))) (dt_runs d)
        then (Inl (IntegrityError None), d)
        else let i = next_id (map rn_database_id (dt_runs d)) in (Inr i, d\<lparr>dt_runs := f i # dt_runs d\<rparr>)),
      ds_insert_audit = (\<lambda>f d.
        if list_ex (\<lambda>r. ae_event_id (au_record r) = ae_event_id (au_record (f 0))) (dt_audits d)
        then (Inl (IntegrityError None), d)
        else let i = next_id (map au_database_id (dt_audits d)) in (Inr i, d\<lparr>dt_audits := f i # dt_audits d\<rparr>))\<rparr>"

lemma mset_concat_map: "mset (concat (map f xs)) = (\<Sum>x \<in># mset xs. mset (f x))"
  by (induction xs) simp_all

lemma demo_claim_statements: "claim_statements demo_session demo_view"
  unfolding claim_statements_def reads_def writes_def demo_session_def demo_view_def set_where_def
  by (auto simp: inserts_claim_def list_ex_iff Let_def next_id_row next_id_row[THEN not_sym] size_mset[symmetric]
      simp del: size_mset split: if_splits)

lemma demo_request_statements: "request_statements demo_session demo_view"
  unfolding request_statements_def reads_def writes_def demo_session_def demo_view_def set_where_def
  by (auto simp: inserts_request_def names_duplicates_def list_ex_iff Let_def next_id_row size_mset[symmetric]
      simp del: size_mset split: if_splits)

lemma demo_run_statements: "run_statements demo_session demo_view"
  unfolding run_statements_def reads_def writes_def demo_session_def demo_view_def
  by (auto simp: list_ex_iff Let_def next_id_row mset_concat_map split: if_splits)

lemma demo_session_laws: "session_laws demo_session demo_view"
  unfolding session_laws_def by (intro conjI demo_claim_statements demo_request_statements demo_run_statements)

definition demo_sql_request :: claim_request where
  "demo_sql_request =
     \<lparr>cr_scope = \<lparr>is_tenant_id = [116], is_organization_id = [111], is_principal_user_id = [112], is_operation = [99],
        is_key_hash = [104]\<rparr>,
      cr_request_fingerprint = [102], cr_fingerprint_version = 1, cr_owner_request_id = [113],
      cr_lease_duration_seconds = 60\<rparr>"

definition no_rows :: demo_tables where
  "no_rows = \<lparr>dt_requests = [], dt_runs = [], dt_audits = [], dt_claims = []\<rparr>"

lemma demo_represents: "represents (demo_view no_rows) empty_execution_state"
  by (simp add: represents_def holds_def unique_def demo_view_def no_rows_def empty_execution_state_def)

lemma demo_sql_claim:
  "\<exists>d s'. sql_claim demo_session demo_sql_request no_rows = (Inr d, s') \<and> cd_outcome d = ACQUIRED"
  by (simp add: sql_claim_def sql_database_now_def demo_session_def no_rows_def bind_op_def db_call_def next_id_def Let_def require_utc_def
      sql_token_def check_claim_token_def)

lemma sql_refines_store_witness:
  "session_laws demo_session demo_view
   \<and> (\<exists>d s' n i st'. sql_claim demo_session demo_sql_request no_rows = (Inr d, s') \<and> cd_outcome d = ACQUIRED
      \<and> claim_at (utc n) demo_sql_request (empty_execution_state\<lparr>es_next_idempotency_id := i\<rparr>) = (Inr d, st')
      \<and> represents (demo_view s') st')"
proof -
  obtain d s' where run: "sql_claim demo_session demo_sql_request no_rows = (Inr d, s')" "cd_outcome d = ACQUIRED"
    using demo_sql_claim by blast
  note all = sql_refines_store[OF demo_session_laws]
  from all have "simulates demo_view {PersistenceWriteError} (\<lambda>st. True) (sql_claim demo_session demo_sql_request)
      {f. \<exists>n i. f = (\<lambda>st. claim_at (utc n) demo_sql_request (st\<lparr>es_next_idempotency_id := i\<rparr>))}" by (rule conjunct1)
  then have "matched demo_view {PersistenceWriteError} empty_execution_state
      {f. \<exists>n i. f = (\<lambda>st. claim_at (utc n) demo_sql_request (st\<lparr>es_next_idempotency_id := i\<rparr>))} (Inr d) s'"
    using demo_represents run(1) unfolding simulates_def by blast
  then show ?thesis using run demo_session_laws by auto
qed

end
