(* ===== verification/Sql_Unit_Of_Work.thy ===== *)
theory Sql_Unit_Of_Work
  imports Sql_Repository
begin

text \<open>
  \<open>database/sqlalchemy_uow.py\<close>: the unit of work around one session. The session's \<open>commit\<close>, \<open>rollback\<close>
  and \<open>close\<close> may each raise any exception; what is shown is when the transaction is over, that it is
  over only once, and that cleaning up never hides the exception of the body.
\<close>

section \<open>The session and the state of the unit of work\<close>

text \<open>The three calls tell whether they raised.\<close>

record 's session_calls =
  sc_commit :: "'s \<Rightarrow> bool \<times> 's"
  sc_rollback :: "'s \<Rightarrow> bool \<times> 's"
  sc_close :: "'s \<Rightarrow> bool \<times> 's"

record sql_uow =
  su_session :: bool
  su_entered :: bool
  su_finished :: bool
  su_closed :: bool

definition new_sql_uow :: sql_uow where
  "new_sql_uow = \<lparr>su_session = False, su_entered = False, su_finished = False, su_closed = False\<rparr>"

type_synonym ('s, 'a) uow_op = "(sql_uow \<times> 's, 'a) op"

definition attempt_call :: "('s \<Rightarrow> bool \<times> 's) \<Rightarrow> ('s, bool) uow_op" where
  "attempt_call f = (\<lambda>(w, s). case f s of (raised, s') \<Rightarrow> (Inr raised, (w, s')))"

definition put_uow :: "(sql_uow \<Rightarrow> sql_uow) \<Rightarrow> ('s, unit) uow_op" where
  "put_uow f = put_op (\<lambda>(w, s). (f w, s))"

abbreviation not_active :: exn where
  "not_active \<equiv> RuntimeError ''ExecutionUnitOfWork is not active''"

abbreviation already_finished :: exn where
  "already_finished \<equiv> RuntimeError ''ExecutionUnitOfWork transaction is already finished''"

definition open_uow :: "sql_uow \<Rightarrow> bool" where
  "open_uow w \<longleftrightarrow> su_session w \<and> su_entered w \<and> \<not> su_closed w"

section \<open>The operations\<close>

text \<open>\<open>execution_repository\<close> and \<open>idempotency_repository\<close>, which are created with the session.\<close>

definition sql_repository :: "('s, unit) uow_op" where
  "sql_repository = (\<lambda>(w, s). if open_uow w then (Inr (), (w, s)) else (Inl not_active, (w, s)))"

definition sql_enter :: "('s, unit) uow_op" where
  "sql_enter = (\<lambda>(w, s).
     if su_entered w then (Inl (RuntimeError ''ExecutionUnitOfWork cannot be entered twice''), (w, s))
     else (Inr (), (w\<lparr>su_entered := True, su_session := True\<rparr>, s)))"

text \<open>\<open>_close\<close>, with whether it raised.\<close>

definition sql_close :: "'s session_calls \<Rightarrow> ('s, bool) uow_op" where
  "sql_close C = (\<lambda>(w, s).
     if su_session w \<and> \<not> su_closed w
     then (case sc_close C s of (raised, s') \<Rightarrow> (Inr raised, (if raised then w else w\<lparr>su_closed := True\<rparr>, s')))
     else (Inr False, (w\<lparr>su_closed := True\<rparr>, s)))"

definition require_open :: "('s, unit) uow_op" where
  "require_open = (\<lambda>(w, s).
     if \<not> open_uow w then (Inl not_active, (w, s))
     else if su_finished w then (Inl already_finished, (w, s)) else (Inr (), (w, s)))"

definition sql_commit :: "'s session_calls \<Rightarrow> ('s, unit) uow_op" where
  "sql_commit C =
     bind_op require_open (\<lambda>_.
     bind_op (attempt_call (sc_commit C)) (\<lambda>raised.
     if raised
     then bind_op (attempt_call (sc_rollback C)) (\<lambda>_.
          bind_op (put_uow (\<lambda>w. w\<lparr>su_finished := True\<rparr>)) (\<lambda>_.
          bind_op (sql_close C) (\<lambda>_. raise_op PersistenceWriteError)))
     else put_uow (\<lambda>w. w\<lparr>su_finished := True\<rparr>)))"

definition sql_rollback :: "'s session_calls \<Rightarrow> ('s, unit) uow_op" where
  "sql_rollback C =
     bind_op require_open (\<lambda>_.
     bind_op (attempt_call (sc_rollback C)) (\<lambda>raised.
     bind_op (put_uow (\<lambda>w. w\<lparr>su_finished := True\<rparr>)) (\<lambda>_.
     if raised then bind_op (sql_close C) (\<lambda>_. raise_op PersistenceWriteError) else ret ())))"

text \<open>\<open>__aexit__\<close>; \<open>failed\<close> tells whether the body raised. Its result is \<open>False\<close>: nothing is suppressed.\<close>

definition sql_exit :: "'s session_calls \<Rightarrow> bool \<Rightarrow> ('s, bool) uow_op" where
  "sql_exit C failed = (\<lambda>(w, s).
     bind_op
       (if su_session w \<and> \<not> su_closed w
        then bind_op (if failed \<or> \<not> su_finished w then attempt_call (sc_rollback C) else ret False) (\<lambda>r.
             bind_op (sql_close C) (\<lambda>c. ret (r \<or> c)))
        else ret False)
       (\<lambda>cleanup_error. if cleanup_error \<and> \<not> failed then raise_op PersistenceWriteError else ret False) (w, s))"

text \<open>\<open>async with factory() as uow: body\<close>\<close>

definition with_sql_uow :: "'s session_calls \<Rightarrow> ('s, 'a) uow_op \<Rightarrow> ('s, 'a) op" where
  "with_sql_uow C body = (\<lambda>s.
     case bind_op sql_enter (\<lambda>_. body) (new_sql_uow, s) of
       (Inl e, ws) \<Rightarrow> (case sql_exit C True ws of (r, (w, s')) \<Rightarrow> (Inl e, s'))
     | (Inr x, ws) \<Rightarrow> (case sql_exit C False ws of (Inl e, (w, s')) \<Rightarrow> (Inl e, s') | (Inr c, (w, s')) \<Rightarrow> (Inr x, s')))"

lemmas uow_defs = sql_enter_def sql_commit_def sql_rollback_def sql_exit_def sql_close_def require_open_def
  open_uow_def attempt_call_def put_uow_def bind_op_def put_op_def ret_def raise_op_def

section \<open>What the unit of work promises\<close>

text \<open>The body's own exception is never replaced by one of the cleanup.\<close>

lemma exit_never_masks: "fst (sql_exit C True (w, s)) = Inr False"
  by (auto simp: uow_defs split: prod.splits)

lemma exit_of_failed_body: "\<exists>w' s'. sql_exit C True ws = (Inr False, (w', s'))"
  using exit_never_masks[of C "fst ws" "snd ws"] by (cases "sql_exit C True ws") (auto simp: prod_eq_iff)

lemma body_exception_passes:
  "bind_op sql_enter (\<lambda>_. body) (new_sql_uow, s) = (Inl e, ws) \<Longrightarrow> fst (with_sql_uow C body s) = Inl e"
  by (simp add: with_sql_uow_def split: prod.split)

text \<open>A transaction ends once: afterwards neither commit nor rollback reaches the session.\<close>

lemma finished_commit_rollback:
  "open_uow w \<Longrightarrow> su_finished w \<Longrightarrow>
     sql_commit C (w, s) = (Inl already_finished, (w, s)) \<and> sql_rollback C (w, s) = (Inl already_finished, (w, s))"
  by (simp add: uow_defs)

lemma commit_finishes: "sql_commit C (w, s) = (Inr (), (w', s')) \<Longrightarrow> su_finished w' \<and> sc_commit C s = (False, s')"
  by (auto simp: uow_defs split: if_splits prod.splits)

lemma closed_refuses:
  "su_closed w \<Longrightarrow> sql_repository (w, s) = (Inl not_active, (w, s)) \<and> sql_commit C (w, s) = (Inl not_active, (w, s))"
  by (simp add: sql_repository_def uow_defs)

text \<open>A commit that raises is rolled back, reported as a failed write, and the transaction is over.\<close>

lemma commit_raises:
  assumes "open_uow w" "\<not> su_finished w" "sc_commit C s = (True, s1)"
  shows "\<exists>w'. sql_commit C (w, s) = (Inl PersistenceWriteError, (w', snd (sc_close C (snd (sc_rollback C s1)))))
    \<and> su_finished w'"
  using assms by (auto simp: uow_defs split: prod.split)

text \<open>Leaving without a commit rolls back and closes; leaving after one only closes.\<close>

lemma exit_open:
  assumes "open_uow w" "\<not> su_finished w" "sc_rollback C s = (False, s1)" "sc_close C s1 = (False, s2)"
  shows "sql_exit C failed (w, s) = (Inr False, (w\<lparr>su_closed := True\<rparr>, s2))"
  using assms by (simp add: uow_defs)

lemma exit_committed:
  assumes "open_uow w" "su_finished w" "sc_close C s = (False, s1)"
  shows "sql_exit C False (w, s) = (Inr False, (w\<lparr>su_closed := True\<rparr>, s1))"
  using assms by (simp add: uow_defs)

text \<open>
  The whole block: a body that ends in a commit has its writes published exactly when the session's
  commit returns.
\<close>

lemma committed_block:
  assumes body: "body (\<lparr>su_session = True, su_entered = True, su_finished = False, su_closed = False\<rparr>, s)
      = (Inr x, (\<lparr>su_session = True, su_entered = True, su_finished = False, su_closed = False\<rparr>, s1))"
    and commit: "sc_commit C s1 = (False, s2)" and close: "sc_close C s2 = (False, s3)"
  shows "with_sql_uow C (bind_op body (\<lambda>x. bind_op (sql_commit C) (\<lambda>_. ret x))) s = (Inr x, s3)"
  by (simp add: with_sql_uow_def uow_defs new_sql_uow_def body commit close)

lemma uncommitted_block:
  assumes body: "body (\<lparr>su_session = True, su_entered = True, su_finished = False, su_closed = False\<rparr>, s)
      = (Inl e, (\<lparr>su_session = True, su_entered = True, su_finished = False, su_closed = False\<rparr>, s1))"
    and "sc_rollback C s1 = (False, s2)" "sc_close C s2 = (False, s3)"
  shows "with_sql_uow C (bind_op body (\<lambda>x. bind_op (sql_commit C) (\<lambda>_. ret x))) s = (Inl e, s3)"
  using assms by (simp add: with_sql_uow_def uow_defs new_sql_uow_def)

end
