(* ===== verification/Configuration.thy ===== *)
theory Configuration
  imports Http_Api
begin

text \<open>
  \<open>config.py\<close>: the database, OIDC and application settings with their validators, how they are read from
  the environment, and \<open>audit_production_config\<close> of \<open>operations/persistence.py\<close>. The settings of the
  language model and of logging are not part of the model; floats are finite.
\<close>

section \<open>Settings\<close>

datatype runtime_mode = DEMO | TEST | PRODUCTION

datatype database_tls_mode = TLS_DISABLE | TLS_REQUIRE | TLS_VERIFY_CA | TLS_VERIFY_FULL

record database_config =
  dc_persistence_mode :: "persistence_mode option"
  dc_idempotency_header_mode :: "idempotency_header_mode option"
  dc_enabled :: bool
  dc_required :: bool
  dc_url :: pystr
  dc_pool_size :: int
  dc_max_overflow :: int
  dc_pool_timeout_seconds :: rat
  dc_pool_recycle_seconds :: rat
  dc_connect_timeout_seconds :: rat
  dc_statement_timeout_ms :: int
  dc_lock_timeout_ms :: int
  dc_idle_in_transaction_session_timeout_ms :: int
  dc_readiness_timeout_seconds :: rat
  dc_graceful_shutdown_timeout_seconds :: rat
  dc_tls_mode :: database_tls_mode
  dc_tls_ca_file :: pystr
  dc_tls_client_cert_file :: pystr
  dc_tls_client_key_file :: pystr
  dc_schema_name :: pystr
  dc_max_clock_drift_seconds :: rat
  dc_doctor_statement_timeout_ms :: int
  dc_doctor_full_statement_timeout_ms :: int
  dc_doctor_quick_overall_timeout_seconds :: rat
  dc_doctor_full_overall_timeout_seconds :: rat
  dc_echo :: bool
  dc_auto_migrate :: bool
  dc_store_user_text :: bool
  dc_idempotency_ttl_seconds :: int
  dc_stale_in_progress_timeout_seconds :: int
  dc_max_idempotency_key_bytes :: int
  dc_max_replay_snapshot_bytes :: int
  dc_expected_revision :: pystr

record oidc_settings =
  os_config :: oidc_config
  os_jwks_url :: pystr
  os_jwks_timeout_seconds :: rat

record app_config =
  ap_runtime_mode :: runtime_mode
  ap_oidc :: oidc_settings
  ap_docs_enabled :: bool
  ap_database :: database_config
  ap_schema_version :: int

section \<open>Validation\<close>

text \<open>The bounds of the fields.\<close>

definition database_fields :: "database_config \<Rightarrow> bool" where
  "database_fields c \<longleftrightarrow>
     1 \<le> dc_pool_size c \<and> dc_pool_size c \<le> 50 \<and> 0 \<le> dc_max_overflow c \<and> dc_max_overflow c \<le> 100
     \<and> 1 \<le> dc_pool_timeout_seconds c \<and> 1 \<le> dc_pool_recycle_seconds c
     \<and> 0 < dc_connect_timeout_seconds c \<and> dc_connect_timeout_seconds c \<le> 60
     \<and> 0 < dc_statement_timeout_ms c \<and> dc_statement_timeout_ms c \<le> 600000
     \<and> 0 < dc_lock_timeout_ms c \<and> dc_lock_timeout_ms c \<le> 120000
     \<and> 0 < dc_idle_in_transaction_session_timeout_ms c \<and> dc_idle_in_transaction_session_timeout_ms c \<le> 600000
     \<and> 0 < dc_readiness_timeout_seconds c \<and> dc_readiness_timeout_seconds c \<le> 30
     \<and> 0 < dc_graceful_shutdown_timeout_seconds c \<and> dc_graceful_shutdown_timeout_seconds c \<le> 300
     \<and> 1 \<le> length (dc_schema_name c) \<and> length (dc_schema_name c) \<le> 63
     \<and> 0 \<le> dc_max_clock_drift_seconds c \<and> dc_max_clock_drift_seconds c \<le> 300
     \<and> 0 < dc_doctor_statement_timeout_ms c \<and> dc_doctor_statement_timeout_ms c \<le> 60000
     \<and> 0 < dc_doctor_full_statement_timeout_ms c \<and> dc_doctor_full_statement_timeout_ms c \<le> 300000
     \<and> 0 < dc_doctor_quick_overall_timeout_seconds c \<and> dc_doctor_quick_overall_timeout_seconds c \<le> 120
     \<and> 0 < dc_doctor_full_overall_timeout_seconds c \<and> dc_doctor_full_overall_timeout_seconds c \<le> 900
     \<and> 60 \<le> dc_idempotency_ttl_seconds c \<and> 60 \<le> dc_stale_in_progress_timeout_seconds c
     \<and> 1 \<le> dc_max_idempotency_key_bytes c \<and> dc_max_idempotency_key_bytes c \<le> 4096
     \<and> 1024 \<le> dc_max_replay_snapshot_bytes c
     \<and> 1 \<le> length (dc_expected_revision c) \<and> length (dc_expected_revision c) \<le> 64"

text \<open>\<open>re.fullmatch(r"[A-Za-z_][A-Za-z0-9_]*", name)\<close>\<close>

definition identifier_start :: "nat \<Rightarrow> bool" where
  "identifier_start c \<longleftrightarrow> 65 \<le> c \<and> c \<le> 90 \<or> 97 \<le> c \<and> c \<le> 122 \<or> c = 95"

definition schema_name_ok :: "pystr \<Rightarrow> bool" where
  "schema_name_ok name =
     (case name of
        [] \<Rightarrow> False
      | c # cs \<Rightarrow> identifier_start c \<and> list_all (\<lambda>c. identifier_start c \<or> 48 \<le> c \<and> c \<le> 57) cs)"

definition check_database_config :: "database_config \<Rightarrow> database_config res" where
  "check_database_config c =
     (if \<not> database_fields c then Inl ValidationError
      else if \<not> dc_enabled c \<and> dc_required c then Inl ValidationError
      else if \<not> schema_name_ok (dc_schema_name c) then Inl ValidationError
      else if dc_tls_mode c \<in> {TLS_VERIFY_CA, TLS_VERIFY_FULL} \<and> dc_tls_ca_file c = [] then Inl ValidationError
      else if (dc_tls_client_cert_file c \<noteq> []) \<noteq> (dc_tls_client_key_file c \<noteq> []) then Inl ValidationError
      else Inr c)"

definition effective_persistence_mode :: "database_config \<Rightarrow> persistence_mode" where
  "effective_persistence_mode c =
     (case dc_persistence_mode c of
        Some mode \<Rightarrow> mode
      | None \<Rightarrow> if dc_enabled c \<and> dc_url c \<noteq> [] then POSTGRES else NULL_MODE)"

definition effective_idempotency_header_mode :: "database_config \<Rightarrow> idempotency_header_mode" where
  "effective_idempotency_header_mode c =
     (case dc_idempotency_header_mode c of Some mode \<Rightarrow> mode | None \<Rightarrow> HEADER_OPTIONAL)"

definition oidc_fields :: "oidc_settings \<Rightarrow> bool" where
  "oidc_fields s \<longleftrightarrow>
     (let c = os_config s
      in 0 \<le> oc_clock_skew_seconds c \<and> oc_clock_skew_seconds c \<le> 600 \<and> 0 < oc_max_token_lifetime_seconds c
         \<and> 1024 \<le> oc_max_token_bytes c \<and> 2048 \<le> oc_min_rsa_key_size_bits c
         \<and> 1 \<le> oc_max_kid_bytes c \<and> oc_max_kid_bytes c \<le> 1024
         \<and> 0 < oc_jwks_cache_ttl_seconds c \<and> 0 < oc_negative_kid_ttl_seconds c
         \<and> 1024 \<le> oc_jwks_max_response_bytes c \<and> 1 \<le> oc_jwks_max_keys c \<and> oc_jwks_max_keys c \<le> 1000
         \<and> 0 < os_jwks_timeout_seconds s)"

definition check_oidc_settings :: "oidc_settings \<Rightarrow> oidc_settings res" where
  "check_oidc_settings s = (if oidc_fields s then Inr s else Inl ValidationError)"

definition oidc_is_configured :: "oidc_settings \<Rightarrow> bool" where
  "oidc_is_configured s \<longleftrightarrow> oc_issuer (os_config s) \<noteq> [] \<and> oc_audience (os_config s) \<noteq> [] \<and> os_jwks_url s \<noteq> []"

text \<open>\<open>bool(value)\<close> of an optional string, and \<open>str.startswith\<close>.\<close>

definition has_content :: "pystr option \<Rightarrow> bool" where
  "has_content v \<longleftrightarrow> (case v of None \<Rightarrow> False | Some s \<Rightarrow> s \<noteq> [])"

definition starts_with :: "pystr \<Rightarrow> pystr \<Rightarrow> bool" where
  "starts_with pre s \<longleftrightarrow> take (length pre) s = pre"

definition LOCAL_HOSTS :: "pystr list" where
  "LOCAL_HOSTS = [(u ''localhost''), (u ''127.0.0.1''), (u ''::1'')]"

text \<open>
  \<open>_validate_production_security\<close>; \<open>hostname\<close> is \<open>urlsplit(url).hostname\<close>, where \<open>Inl\<close> is its
  \<open>ValueError\<close> for a URL it cannot split.
\<close>

definition validate_production_security ::
  "(pystr \<Rightarrow> pystr option res) \<Rightarrow> app_config \<Rightarrow> app_config res" where
  "validate_production_security hostname cfg =
     (let db = ap_database cfg; mode = effective_persistence_mode db; oidc = ap_oidc cfg
      in if mode = NULL_MODE \<and> effective_idempotency_header_mode db = HEADER_REQUIRED then Inl ValidationError
         else if mode = POSTGRES \<and> dc_url db = [] then Inl ValidationError
         else if mode = POSTGRES \<and> \<not> starts_with (u ''postgresql+asyncpg://'') (dc_url db) then Inl ValidationError
         else if mode = FAKE \<and> ap_runtime_mode cfg \<noteq> TEST then Inl ValidationError
         else if ap_runtime_mode cfg = PRODUCTION
         then if \<not> oidc_is_configured oidc then Inl ValidationError
              else if \<not> (has_content (oc_required_typ_header (os_config oidc))
                         \<or> has_content (oc_required_token_use_claim (os_config oidc))
                           \<and> has_content (oc_required_token_use_value (os_config oidc))) then Inl ValidationError
              else if \<not> starts_with (u ''https://'') (os_jwks_url oidc) then Inl ValidationError
              else if dc_persistence_mode db = None then Inl ValidationError
              else if dc_idempotency_header_mode db = None then Inl ValidationError
              else if mode \<noteq> POSTGRES then Inl ValidationError
              else if dc_auto_migrate db then Inl ValidationError
              else (case hostname (dc_url db) of
                  Inl e \<Rightarrow> Inl ValidationError
                | Inr host \<Rightarrow>
                    if (case host of None \<Rightarrow> False | Some h \<Rightarrow> h \<notin> set LOCAL_HOSTS) \<and> dc_tls_mode db = TLS_DISABLE
                    then Inl ValidationError else Inr cfg)
         else Inr cfg)"

definition check_app_config :: "(pystr \<Rightarrow> pystr option res) \<Rightarrow> app_config \<Rightarrow> app_config res" where
  "check_app_config hostname cfg =
     bind_res (check_oidc_settings (ap_oidc cfg)) (\<lambda>_.
     bind_res (check_database_config (ap_database cfg)) (\<lambda>_.
     if ap_schema_version cfg < 1 then Inl ValidationError else validate_production_security hostname cfg))"

section \<open>The audit\<close>

record configuration_audit =
  ca_status :: string
  ca_violations :: "pystr list"
  ca_warnings :: "pystr list"
  ca_maximum_connections :: int

definition audit_production_config :: "app_config \<Rightarrow> configuration_audit" where
  "audit_production_config cfg =
     (let db = ap_database cfg;
          positive = [(''connect_timeout'', dc_connect_timeout_seconds db), (''pool_timeout'', dc_pool_timeout_seconds db),
            (''statement_timeout'', of_int (dc_statement_timeout_ms db)), (''lock_timeout'', of_int (dc_lock_timeout_ms db)),
            (''idle_transaction_timeout'', of_int (dc_idle_in_transaction_session_timeout_ms db)),
            (''readiness_timeout'', dc_readiness_timeout_seconds db),
            (''shutdown_timeout'', dc_graceful_shutdown_timeout_seconds db)];
          violations =
            (if effective_persistence_mode db \<noteq> POSTGRES then [''persistence_mode_must_be_postgres''] else [])
            @ (if dc_url db = [] then [''database_url_missing''] else [])
            @ (if dc_idempotency_header_mode db = None then [''idempotency_header_mode_not_explicit''] else [])
            @ (if dc_auto_migrate db then [''automatic_migration_forbidden''] else [])
            @ (if dc_echo db then [''sql_echo_forbidden''] else [])
            @ map (\<lambda>(name, v). name @ ''_must_be_positive'') (filter (\<lambda>(name, v). v \<le> 0) positive);
          warnings =
            (if ap_runtime_mode cfg \<noteq> PRODUCTION then [''environment_is_not_production''] else [])
            @ (if dc_stale_in_progress_timeout_seconds db \<le> 60 then [''lease_duration_has_limited_execution_margin''] else [])
            @ (if dc_schema_name db \<noteq> u ''public'' then [''non_default_schema_requires_role_review''] else [])
      in \<lparr>ca_status = (if violations = [] then ''healthy'' else ''unhealthy''),
          ca_violations = sort (map u violations), ca_warnings = sort (map u warnings),
          ca_maximum_connections = dc_pool_size db + dc_max_overflow db\<rparr>)"

section \<open>The environment\<close>

text \<open>\<open>os.getenv\<close>, and the builtin \<open>int\<close> and \<open>float\<close> of a string, which raise \<open>ValueError\<close>.\<close>

type_synonym environment = "string \<Rightarrow> pystr option"

record number_reader =
  nr_int :: "pystr \<Rightarrow> int res"
  nr_float :: "pystr \<Rightarrow> rat res"

definition getenv :: "environment \<Rightarrow> string \<Rightarrow> string \<Rightarrow> pystr" where
  "getenv E name default_value = (case E name of None \<Rightarrow> u default_value | Some v \<Rightarrow> v)"

definition env_text :: "ucd \<Rightarrow> environment \<Rightarrow> string \<Rightarrow> string \<Rightarrow> pystr" where
  "env_text T E name default_value = py_strip T (getenv E name default_value)"

text \<open>\<open>os.getenv(name, default).strip() or default\<close>\<close>

definition env_text_or :: "ucd \<Rightarrow> environment \<Rightarrow> string \<Rightarrow> string \<Rightarrow> pystr" where
  "env_text_or T E name default_value =
     (let v = env_text T E name default_value in if v = [] then u default_value else v)"

definition env_optional :: "ucd \<Rightarrow> environment \<Rightarrow> string \<Rightarrow> string \<Rightarrow> pystr option" where
  "env_optional T E name default_value =
     (let v = env_text T E name default_value in if v = [] then None else Some v)"

definition env_bool :: "ucd \<Rightarrow> environment \<Rightarrow> string \<Rightarrow> bool \<Rightarrow> bool" where
  "env_bool T E name default_value =
     (case E name of
        None \<Rightarrow> default_value
      | Some v \<Rightarrow> u_lower T (py_strip T v) \<in> set [(u ''1''), (u ''true''), (u ''yes''), (u ''on'')])"

definition first_non_empty_env :: "ucd \<Rightarrow> environment \<Rightarrow> string list \<Rightarrow> string \<Rightarrow> pystr" where
  "first_non_empty_env T E names default_value =
     (case filter (\<lambda>v. v \<noteq> []) (map (\<lambda>name. env_text T E name []) names) of
        [] \<Rightarrow> u default_value | v # vs \<Rightarrow> v)"

definition env_int :: "number_reader \<Rightarrow> environment \<Rightarrow> string \<Rightarrow> string \<Rightarrow> int res" where
  "env_int N E name default_value = nr_int N (getenv E name default_value)"

definition env_nat :: "number_reader \<Rightarrow> environment \<Rightarrow> string \<Rightarrow> string \<Rightarrow> nat res" where
  "env_nat N E name default_value =
     bind_res (env_int N E name default_value) (\<lambda>n. if n < 0 then Inl ValidationError else Inr (nat n))"

definition env_float :: "number_reader \<Rightarrow> environment \<Rightarrow> string \<Rightarrow> string \<Rightarrow> rat res" where
  "env_float N E name default_value = nr_float N (getenv E name default_value)"

text \<open>The enumerations by value.\<close>

definition enum_of :: "(string \<times> 'a) list \<Rightarrow> pystr \<Rightarrow> 'a res" where
  "enum_of members v =
     (case find (\<lambda>(name, x). u name = v) members of None \<Rightarrow> Inl (ValueError ''is not a valid member'') | Some (name, x) \<Rightarrow> Inr x)"

definition PERSISTENCE_MODES :: "(string \<times> persistence_mode) list" where
  "PERSISTENCE_MODES = [(''postgres'', POSTGRES), (''null'', NULL_MODE), (''fake'', FAKE)]"

definition HEADER_MODES :: "(string \<times> idempotency_header_mode) list" where
  "HEADER_MODES = [(''optional'', HEADER_OPTIONAL), (''required'', HEADER_REQUIRED)]"

definition TLS_MODES :: "(string \<times> database_tls_mode) list" where
  "TLS_MODES = [(''disable'', TLS_DISABLE), (''require'', TLS_REQUIRE), (''verify_ca'', TLS_VERIFY_CA),
     (''verify_full'', TLS_VERIFY_FULL)]"

definition RUNTIME_MODES :: "(string \<times> runtime_mode) list" where
  "RUNTIME_MODES = [(''demo'', DEMO), (''test'', TEST), (''production'', PRODUCTION)]"

definition optional_enum :: "(string \<times> 'a) list \<Rightarrow> pystr \<Rightarrow> 'a option res" where
  "optional_enum members v = (if v = [] then Inr None else bind_res (enum_of members v) (\<lambda>x. Inr (Some x)))"

definition build_database_config :: "ucd \<Rightarrow> number_reader \<Rightarrow> environment \<Rightarrow> database_config res" where
  "build_database_config T N E =
     bind_res (optional_enum PERSISTENCE_MODES (env_text T E ''CONVAGENT_PERSISTENCE_MODE'' [])) (\<lambda>v_persistence_mode.
     bind_res (optional_enum HEADER_MODES (env_text T E ''CONVAGENT_IDEMPOTENCY_HEADER_MODE'' [])) (\<lambda>v_header_mode.
     bind_res (env_int N E ''CONVAGENT_DATABASE_POOL_SIZE'' ''5'') (\<lambda>v_pool_size.
     bind_res (env_int N E ''CONVAGENT_DATABASE_MAX_OVERFLOW'' ''10'') (\<lambda>v_max_overflow.
     bind_res (env_float N E ''CONVAGENT_DATABASE_POOL_TIMEOUT'' ''30'') (\<lambda>v_pool_timeout_seconds.
     bind_res (env_float N E ''CONVAGENT_DATABASE_POOL_RECYCLE'' ''3600'') (\<lambda>v_pool_recycle_seconds.
     bind_res (env_float N E ''CONVAGENT_DATABASE_CONNECT_TIMEOUT'' ''5'') (\<lambda>v_connect_timeout_seconds.
     bind_res (env_int N E ''CONVAGENT_DATABASE_STATEMENT_TIMEOUT_MS'' ''45000'') (\<lambda>v_statement_timeout_ms.
     bind_res (env_int N E ''CONVAGENT_DATABASE_LOCK_TIMEOUT_MS'' ''5000'') (\<lambda>v_lock_timeout_ms.
     bind_res (env_int N E ''CONVAGENT_DATABASE_IDLE_TRANSACTION_TIMEOUT_MS'' ''30000'') (\<lambda>v_idle_in_transaction_session_timeout_ms.
     bind_res (env_float N E ''CONVAGENT_DATABASE_READINESS_TIMEOUT'' ''3'') (\<lambda>v_readiness_timeout_seconds.
     bind_res (env_float N E ''CONVAGENT_DATABASE_SHUTDOWN_TIMEOUT'' ''30'') (\<lambda>v_graceful_shutdown_timeout_seconds.
     bind_res (enum_of TLS_MODES (env_text_or T E ''CONVAGENT_DATABASE_TLS_MODE'' ''disable'')) (\<lambda>v_tls_mode.
     bind_res (env_float N E ''CONVAGENT_DATABASE_MAX_CLOCK_DRIFT'' ''5'') (\<lambda>v_max_clock_drift_seconds.
     bind_res (env_int N E ''CONVAGENT_DATABASE_DOCTOR_TIMEOUT_MS'' ''3000'') (\<lambda>v_doctor_statement_timeout_ms.
     bind_res (env_int N E ''CONVAGENT_DATABASE_DOCTOR_FULL_TIMEOUT_MS'' ''15000'') (\<lambda>v_doctor_full_statement_timeout_ms.
     bind_res (env_float N E ''CONVAGENT_DATABASE_DOCTOR_QUICK_DEADLINE'' ''10'') (\<lambda>v_doctor_quick_overall_timeout_seconds.
     bind_res (env_float N E ''CONVAGENT_DATABASE_DOCTOR_FULL_DEADLINE'' ''60'') (\<lambda>v_doctor_full_overall_timeout_seconds.
     bind_res (env_int N E ''CONVAGENT_IDEMPOTENCY_TTL'' ''3600'') (\<lambda>v_idempotency_ttl_seconds.
     bind_res (env_int N E ''CONVAGENT_IDEMPOTENCY_STALE_TIMEOUT'' ''300'') (\<lambda>v_stale_in_progress_timeout_seconds.
     bind_res (env_int N E ''CONVAGENT_IDEMPOTENCY_MAX_KEY_BYTES'' ''255'') (\<lambda>v_max_idempotency_key_bytes.
     bind_res (env_int N E ''CONVAGENT_IDEMPOTENCY_MAX_SNAPSHOT_BYTES'' ''262144'') (\<lambda>v_max_replay_snapshot_bytes.
     check_database_config
       \<lparr>dc_persistence_mode = v_persistence_mode, dc_idempotency_header_mode = v_header_mode,
        dc_enabled = env_bool T E ''CONVAGENT_DATABASE_ENABLED'' True,
        dc_required = env_bool T E ''CONVAGENT_DATABASE_REQUIRED'' False,
        dc_url = env_text T E ''CONVAGENT_DATABASE_URL'' [],
        dc_pool_size = v_pool_size,
        dc_max_overflow = v_max_overflow,
        dc_pool_timeout_seconds = v_pool_timeout_seconds,
        dc_pool_recycle_seconds = v_pool_recycle_seconds,
        dc_connect_timeout_seconds = v_connect_timeout_seconds,
        dc_statement_timeout_ms = v_statement_timeout_ms,
        dc_lock_timeout_ms = v_lock_timeout_ms,
        dc_idle_in_transaction_session_timeout_ms = v_idle_in_transaction_session_timeout_ms,
        dc_readiness_timeout_seconds = v_readiness_timeout_seconds,
        dc_graceful_shutdown_timeout_seconds = v_graceful_shutdown_timeout_seconds,
        dc_tls_mode = v_tls_mode,
        dc_tls_ca_file = env_text T E ''CONVAGENT_DATABASE_TLS_CA_FILE'' [],
        dc_tls_client_cert_file = env_text T E ''CONVAGENT_DATABASE_TLS_CLIENT_CERT_FILE'' [],
        dc_tls_client_key_file = env_text T E ''CONVAGENT_DATABASE_TLS_CLIENT_KEY_FILE'' [],
        dc_schema_name = env_text_or T E ''CONVAGENT_DATABASE_SCHEMA'' ''public'',
        dc_max_clock_drift_seconds = v_max_clock_drift_seconds,
        dc_doctor_statement_timeout_ms = v_doctor_statement_timeout_ms,
        dc_doctor_full_statement_timeout_ms = v_doctor_full_statement_timeout_ms,
        dc_doctor_quick_overall_timeout_seconds = v_doctor_quick_overall_timeout_seconds,
        dc_doctor_full_overall_timeout_seconds = v_doctor_full_overall_timeout_seconds,
        dc_echo = env_bool T E ''CONVAGENT_DATABASE_ECHO'' False,
        dc_auto_migrate = env_bool T E ''CONVAGENT_DATABASE_AUTO_MIGRATE'' False,
        dc_store_user_text = env_bool T E ''CONVAGENT_DATABASE_STORE_USER_TEXT'' False,
        dc_idempotency_ttl_seconds = v_idempotency_ttl_seconds,
        dc_stale_in_progress_timeout_seconds = v_stale_in_progress_timeout_seconds,
        dc_max_idempotency_key_bytes = v_max_idempotency_key_bytes,
        dc_max_replay_snapshot_bytes = v_max_replay_snapshot_bytes,
        dc_expected_revision = env_text_or T E ''CONVAGENT_DATABASE_EXPECTED_REVISION'' ''0001''\<rparr>
     ))))))))))))))))))))))"

definition build_oidc_settings :: "ucd \<Rightarrow> number_reader \<Rightarrow> environment \<Rightarrow> oidc_settings res" where
  "build_oidc_settings T N E =
     bind_res (env_int N E ''CONVAGENT_OIDC_CLOCK_SKEW_SECONDS'' ''60'') (\<lambda>v_clock_skew_seconds.
     bind_res (env_int N E ''CONVAGENT_OIDC_MAX_TOKEN_LIFETIME_SECONDS'' ''3600'') (\<lambda>v_max_token_lifetime_seconds.
     bind_res (env_nat N E ''CONVAGENT_OIDC_MAX_TOKEN_BYTES'' ''8192'') (\<lambda>v_max_token_bytes.
     bind_res (env_nat N E ''CONVAGENT_OIDC_MIN_RSA_KEY_SIZE_BITS'' ''2048'') (\<lambda>v_min_rsa_key_size_bits.
     bind_res (env_nat N E ''CONVAGENT_OIDC_MAX_KID_BYTES'' ''128'') (\<lambda>v_max_kid_bytes.
     bind_res (env_float N E ''CONVAGENT_OIDC_JWKS_CACHE_TTL_SECONDS'' ''300'') (\<lambda>v_jwks_cache_ttl_seconds.
     bind_res (env_float N E ''CONVAGENT_OIDC_NEGATIVE_KID_TTL_SECONDS'' ''10'') (\<lambda>v_negative_kid_ttl_seconds.
     bind_res (env_nat N E ''CONVAGENT_OIDC_JWKS_MAX_RESPONSE_BYTES'' ''262144'') (\<lambda>v_jwks_max_response_bytes.
     bind_res (env_nat N E ''CONVAGENT_OIDC_JWKS_MAX_KEYS'' ''20'') (\<lambda>v_jwks_max_keys.
     bind_res (env_float N E ''CONVAGENT_OIDC_JWKS_TIMEOUT_SECONDS'' ''5'') (\<lambda>v_jwks_timeout_seconds.
     check_oidc_settings
       \<lparr>os_config =
          \<lparr>oc_issuer = env_text T E ''CONVAGENT_OIDC_ISSUER'' [],
           oc_audience = env_text T E ''CONVAGENT_OIDC_AUDIENCE'' [],
           oc_tenant_id = env_text T E ''CONVAGENT_OIDC_TENANT_ID'' ''single_tenant'',
           oc_expected_organization_id = env_text T E ''CONVAGENT_OIDC_EXPECTED_ORGANIZATION_ID'' ''default_organization'',
           oc_clock_skew_seconds = v_clock_skew_seconds,
           oc_max_token_lifetime_seconds = v_max_token_lifetime_seconds,
           oc_max_token_bytes = v_max_token_bytes,
           oc_min_rsa_key_size_bits = v_min_rsa_key_size_bits,
           oc_max_kid_bytes = v_max_kid_bytes,
           oc_jwks_cache_ttl_seconds = v_jwks_cache_ttl_seconds,
           oc_negative_kid_ttl_seconds = v_negative_kid_ttl_seconds,
           oc_jwks_max_response_bytes = v_jwks_max_response_bytes,
           oc_jwks_max_keys = v_jwks_max_keys,
           oc_required_token_use_claim = env_optional T E ''CONVAGENT_OIDC_TOKEN_USE_CLAIM'' ''token_use'',
           oc_required_token_use_value = env_optional T E ''CONVAGENT_OIDC_TOKEN_USE_VALUE'' ''access'',
           oc_required_typ_header = env_optional T E ''CONVAGENT_OIDC_REQUIRED_TYP'' []\<rparr>,
        os_jwks_url = env_text T E ''CONVAGENT_OIDC_JWKS_URL'' [],
        os_jwks_timeout_seconds = v_jwks_timeout_seconds\<rparr>))))))))))"

text \<open>
  \<open>_build_default_config\<close>, as far as these settings go. The classes of the settings are called before
  that of the application, whose mode is then one of the three.
\<close>

definition build_default_config ::
  "ucd \<Rightarrow> number_reader \<Rightarrow> (pystr \<Rightarrow> pystr option res) \<Rightarrow> environment \<Rightarrow> app_config res" where
  "build_default_config T N hostname E =
     (let mode = env_text_or T E ''CONVAGENT_RUNTIME_MODE'' ''demo''
      in bind_res (build_database_config T N E) (\<lambda>db.
         bind_res (build_oidc_settings T N E) (\<lambda>oidc.
         case enum_of RUNTIME_MODES mode of
           Inl e \<Rightarrow> Inl ValidationError
         | Inr runtime \<Rightarrow>
             check_app_config hostname
               \<lparr>ap_runtime_mode = runtime, ap_oidc = oidc,
                ap_docs_enabled = env_bool T E ''CONVAGENT_API_DOCS_ENABLED'' (mode \<noteq> u ''production''),
                ap_database = db, ap_schema_version = 1\<rparr>)))"

section \<open>What an accepted configuration promises\<close>

lemma check_app_config_Inr:
  "check_app_config hostname cfg = Inr cfg' \<longleftrightarrow>
     cfg' = cfg \<and> oidc_fields (ap_oidc cfg) \<and> check_database_config (ap_database cfg) = Inr (ap_database cfg)
     \<and> 1 \<le> ap_schema_version cfg \<and> validate_production_security hostname cfg = Inr cfg"
proof -
  have db: "check_database_config c = Inr x \<Longrightarrow> x = c" for c x by (auto simp: check_database_config_def split: if_splits)
  have v: "validate_production_security hostname cfg = Inr cfg' \<Longrightarrow> cfg' = cfg"
    by (auto simp: validate_production_security_def Let_def split: if_splits sum.splits)
  show ?thesis
    by (auto simp: check_app_config_def check_oidc_settings_def bind_res_Inr_iff not_less dest: db v split: if_splits)
qed

lemma audit_timeouts:
  "database_fields db \<Longrightarrow>
     0 < dc_connect_timeout_seconds db \<and> 0 < dc_pool_timeout_seconds db \<and> 0 < dc_statement_timeout_ms db
     \<and> 0 < dc_lock_timeout_ms db \<and> 0 < dc_idle_in_transaction_session_timeout_ms db
     \<and> 0 < dc_readiness_timeout_seconds db \<and> 0 < dc_graceful_shutdown_timeout_seconds db"
  by (simp add: database_fields_def)

lemma production_rules:
  assumes "validate_production_security hostname cfg = Inr cfg" "ap_runtime_mode cfg = PRODUCTION"
  shows "effective_persistence_mode (ap_database cfg) = POSTGRES"
    "starts_with (u ''postgresql+asyncpg://'') (dc_url (ap_database cfg))" "dc_url (ap_database cfg) \<noteq> []"
    "oidc_is_configured (ap_oidc cfg)" "starts_with (u ''https://'') (os_jwks_url (ap_oidc cfg))"
    "dc_idempotency_header_mode (ap_database cfg) \<noteq> None" "\<not> dc_auto_migrate (ap_database cfg)"
    "has_content (oc_required_typ_header (os_config (ap_oidc cfg)))
       \<or> has_content (oc_required_token_use_claim (os_config (ap_oidc cfg)))
         \<and> has_content (oc_required_token_use_value (os_config (ap_oidc cfg)))"
    "\<exists>host. hostname (dc_url (ap_database cfg)) = Inr host
       \<and> (host \<noteq> None \<and> host \<notin> Some ` set LOCAL_HOSTS \<longrightarrow> dc_tls_mode (ap_database cfg) \<noteq> TLS_DISABLE)"
    "dc_persistence_mode (ap_database cfg) = Some POSTGRES"
  using assms
  by (auto simp: validate_production_security_def Let_def effective_persistence_mode_def simp del: u_Cons
      split: if_splits sum.splits option.splits)

lemma audit_of_production:
  assumes "database_fields (ap_database cfg)" "effective_persistence_mode (ap_database cfg) = POSTGRES"
    "dc_url (ap_database cfg) \<noteq> []" "dc_idempotency_header_mode (ap_database cfg) \<noteq> None"
    "\<not> dc_auto_migrate (ap_database cfg)"
  shows "ca_violations (audit_production_config cfg) = (if dc_echo (ap_database cfg) then [u ''sql_echo_forbidden''] else [])"
  using assms audit_timeouts[OF assms(1)] by (auto simp: audit_production_config_def Let_def not_le)

text \<open>
  C29: a configuration that the application accepts for production has complete OIDC settings with an
  HTTPS address of the keys and a rule for the type of the token, RSA keys of at least 2048 bits, an
  explicit PostgreSQL store with the asyncpg driver, an explicit header mode and no automatic
  migration; it uses TLS unless the host that the URL names before its path is a local one or
  absent, and a certificate authority when it verifies TLS; the audit finds nothing but the echo of SQL statements; and the gateway that is built of it has the
  durable services.
\<close>

theorem production_config_secure:
  assumes "check_app_config hostname cfg = Inr cfg'" and "ap_runtime_mode cfg = PRODUCTION"
  shows "cfg' = cfg
    \<and> dc_persistence_mode (ap_database cfg) = Some POSTGRES
    \<and> effective_persistence_mode (ap_database cfg) = POSTGRES
    \<and> dc_idempotency_header_mode (ap_database cfg) = Some (effective_idempotency_header_mode (ap_database cfg))
    \<and> starts_with (u ''postgresql+asyncpg://'') (dc_url (ap_database cfg)) \<and> \<not> dc_auto_migrate (ap_database cfg)
    \<and> oidc_is_configured (ap_oidc cfg) \<and> starts_with (u ''https://'') (os_jwks_url (ap_oidc cfg))
    \<and> 2048 \<le> oc_min_rsa_key_size_bits (os_config (ap_oidc cfg))
    \<and> (has_content (oc_required_typ_header (os_config (ap_oidc cfg)))
        \<or> has_content (oc_required_token_use_claim (os_config (ap_oidc cfg)))
          \<and> has_content (oc_required_token_use_value (os_config (ap_oidc cfg))))
    \<and> (\<exists>host. hostname (dc_url (ap_database cfg)) = Inr host
        \<and> (host \<noteq> None \<and> host \<notin> Some ` set LOCAL_HOSTS \<longrightarrow> dc_tls_mode (ap_database cfg) \<noteq> TLS_DISABLE))
    \<and> (dc_tls_mode (ap_database cfg) \<in> {TLS_VERIFY_CA, TLS_VERIFY_FULL} \<longrightarrow> dc_tls_ca_file (ap_database cfg) \<noteq> [])
    \<and> ca_violations (audit_production_config cfg)
        = (if dc_echo (ap_database cfg) then [u ''sql_echo_forbidden''] else [])
    \<and> gw_durable (build_gateway (effective_persistence_mode (ap_database cfg))
        (effective_idempotency_header_mode (ap_database cfg)) S) = Some S"
proof -
  have parts: "cfg' = cfg" "oidc_fields (ap_oidc cfg)" "check_database_config (ap_database cfg) = Inr (ap_database cfg)"
    "validate_production_security hostname cfg = Inr cfg"
    using assms(1) by (simp_all add: check_app_config_Inr)
  note rules = production_rules[OF parts(4) assms(2)]
  have db: "database_fields (ap_database cfg)"
    "dc_tls_mode (ap_database cfg) \<in> {TLS_VERIFY_CA, TLS_VERIFY_FULL} \<longrightarrow> dc_tls_ca_file (ap_database cfg) \<noteq> []"
    using parts(3) by (auto simp: check_database_config_def split: if_splits)
  have "2048 \<le> oc_min_rsa_key_size_bits (os_config (ap_oidc cfg))"
    using parts(2) by (simp add: oidc_fields_def Let_def)
  moreover have "dc_idempotency_header_mode (ap_database cfg) = Some (effective_idempotency_header_mode (ap_database cfg))"
    using rules(6) by (auto simp: effective_idempotency_header_mode_def)
  moreover have "gw_durable (build_gateway POSTGRES m S) = Some S" for m by (simp add: build_gateway_def)
  moreover note audit_of_production[OF db(1) rules(1,3,6,7)]
  ultimately show ?thesis using parts(1) rules db(2) by (simp del: u_Cons)
qed

definition demo_database_config :: database_config where
  "demo_database_config =
     \<lparr>dc_persistence_mode = Some POSTGRES, dc_idempotency_header_mode = Some HEADER_REQUIRED, dc_enabled = True,
      dc_required = True, dc_url = (u ''postgresql+asyncpg://db/x''), dc_pool_size = 5, dc_max_overflow = 10,
      dc_pool_timeout_seconds = 30, dc_pool_recycle_seconds = 3600, dc_connect_timeout_seconds = 5,
      dc_statement_timeout_ms = 45000, dc_lock_timeout_ms = 5000, dc_idle_in_transaction_session_timeout_ms = 30000,
      dc_readiness_timeout_seconds = 3, dc_graceful_shutdown_timeout_seconds = 30, dc_tls_mode = TLS_REQUIRE,
      dc_tls_ca_file = [], dc_tls_client_cert_file = [], dc_tls_client_key_file = [], dc_schema_name = (u ''public''),
      dc_max_clock_drift_seconds = 5, dc_doctor_statement_timeout_ms = 3000, dc_doctor_full_statement_timeout_ms = 15000,
      dc_doctor_quick_overall_timeout_seconds = 10, dc_doctor_full_overall_timeout_seconds = 60, dc_echo = False,
      dc_auto_migrate = False, dc_store_user_text = False, dc_idempotency_ttl_seconds = 3600,
      dc_stale_in_progress_timeout_seconds = 300, dc_max_idempotency_key_bytes = 255,
      dc_max_replay_snapshot_bytes = 262144, dc_expected_revision = (u ''0001'')\<rparr>"

definition demo_app_config :: app_config where
  "demo_app_config =
     \<lparr>ap_runtime_mode = PRODUCTION,
      ap_oidc = \<lparr>os_config = demo_oidc\<lparr>oc_required_typ_header := Some (u ''at+jwt'')\<rparr>, os_jwks_url = (u ''https://i/k''), os_jwks_timeout_seconds = 5\<rparr>,
      ap_docs_enabled = False, ap_database = demo_database_config, ap_schema_version = 1\<rparr>"

lemma demo_app_config_accepted: "check_app_config (\<lambda>url. Inr (Some [100, 98])) demo_app_config = Inr demo_app_config"
  by (simp add: check_app_config_def check_oidc_settings_def oidc_fields_def demo_app_config_def demo_oidc_def
      demo_database_config_def check_database_config_def database_fields_def schema_name_ok_def identifier_start_def
      validate_production_security_def effective_persistence_mode_def effective_idempotency_header_mode_def
      starts_with_def oidc_is_configured_def has_content_def LOCAL_HOSTS_def Let_def u_def)

lemma production_config_secure_witness:
  "check_app_config (\<lambda>url. Inr (Some [100, 98])) demo_app_config = Inr demo_app_config
    \<and> ca_violations (audit_production_config demo_app_config) = []
    \<and> dc_tls_mode (ap_database demo_app_config) \<noteq> TLS_DISABLE"
proof -
  have "ap_runtime_mode demo_app_config = PRODUCTION" "\<not> dc_echo (ap_database demo_app_config)"
    by (simp_all add: demo_app_config_def demo_database_config_def)
  with production_config_secure[OF demo_app_config_accepted, of undefined] demo_app_config_accepted
  show ?thesis by (auto simp: LOCAL_HOSTS_def)
qed

text \<open>An accepted environment gives such a configuration.\<close>

lemma build_default_config_Inr:
  "build_default_config T N hostname E = Inr cfg \<Longrightarrow> \<exists>cfg'. check_app_config hostname cfg' = Inr cfg"
proof -
  assume "build_default_config T N hostname E = Inr cfg"
  then show ?thesis
    unfolding build_default_config_def Let_def bind_res_Inr_iff
    by (cases "enum_of RUNTIME_MODES (env_text_or T E ''CONVAGENT_RUNTIME_MODE'' ''demo'')") auto
qed

end
