(* ===== verification/Retention.thy ===== *)
theory Retention
  imports Store_Invariant
begin

text \<open>
  \<open>IdempotencyPruner\<close> of \<open>operations/persistence.py\<close>: the bounded deletion of expired terminal
  idempotency records, and \<open>PersistenceDoctor\<close> as far as it draws its conclusion from the checks.
\<close>

section \<open>The pruner\<close>

record pruner =
  pr_batch_size :: int
  pr_margin :: int
  pr_max_batches :: int
  pr_timeout :: rat

definition check_pruner :: "pruner \<Rightarrow> pruner res" where
  "check_pruner p =
     (if \<not> (1 \<le> pr_batch_size p \<and> pr_batch_size p \<le> 1000)
      then Inl (ValueError ''batch_size must be between 1 and 1000'')
      else if pr_margin p \<le> 0 then Inl (ValueError ''safety_margin_seconds must be positive'')
      else if pr_max_batches p \<le> 0 \<or> pr_timeout p \<le> 0 then Inl (ValueError ''prune bounds must be positive'')
      else Inr p)"

record prune_report =
  pp_applied :: bool
  pp_candidate_count :: nat
  pp_deleted_count :: nat
  pp_batches :: nat
  pp_complete :: bool

text \<open>
  The condition of both statements. The clock of the database runs on while a statement is executed,
  so each row is compared with an instant of its own.
\<close>

definition prunable :: "int \<Rightarrow> (idempotency_row \<Rightarrow> int) \<Rightarrow> idempotency_row \<Rightarrow> bool" where
  "prunable margin clock row \<longleftrightarrow>
     terminal (id_status row) \<and> instant (id_expires_at row) \<le> clock row - seconds margin"

text \<open>
  The surroundings of a batch: the rows that other transactions have locked, the clocks of the query
  for the candidates and of the deletion, and the time that has passed before it.
\<close>

record prune_conditions =
  pc_locked :: "int list"
  pc_clock :: "idempotency_row \<Rightarrow> int"
  pc_delete_clock :: "idempotency_row \<Rightarrow> int"
  pc_elapsed :: rat

definition candidates :: "pruner \<Rightarrow> prune_conditions \<Rightarrow> idempotency_row list \<Rightarrow> idempotency_row list" where
  "candidates p c rows =
     take (nat (pr_batch_size p))
       (sort_key (\<lambda>r. (instant (id_expires_at r), id_database_id r))
         (filter (\<lambda>r. prunable (pr_margin p) (pc_clock c) r \<and> id_database_id r \<notin> set (pc_locked c)) rows))"

definition deleted_by :: "pruner \<Rightarrow> prune_conditions \<Rightarrow> idempotency_row list \<Rightarrow> idempotency_row \<Rightarrow> bool" where
  "deleted_by p c rows r \<longleftrightarrow>
     id_database_id r \<in> set (map id_database_id (candidates p c rows)) \<and> prunable (pr_margin p) (pc_delete_clock c) r"

definition delete_batch :: "pruner \<Rightarrow> prune_conditions \<Rightarrow> idempotency_row list \<Rightarrow> nat \<times> idempotency_row list" where
  "delete_batch p c rows =
     (length (filter (deleted_by p c rows) rows), filter (\<lambda>r. \<not> deleted_by p c rows r) rows)"

text \<open>The loop; the first argument is the number of batches that may still run.\<close>

fun prune_loop ::
  "nat \<Rightarrow> pruner \<Rightarrow> (nat \<Rightarrow> prune_conditions) \<Rightarrow> nat \<Rightarrow> nat \<Rightarrow> idempotency_row list
     \<Rightarrow> (nat \<times> nat \<times> bool) \<times> idempotency_row list" where
  "prune_loop 0 p C deleted batches rows = ((deleted, batches, False), rows)"
| "prune_loop (Suc n) p C deleted batches rows =
     (if pr_timeout p \<le> pc_elapsed (C batches) then ((deleted, batches, False), rows)
      else (case delete_batch p (C batches) rows of (k, rows') \<Rightarrow>
        if k < nat (pr_batch_size p) then ((deleted + k, batches + 1, True), rows')
        else prune_loop n p C (deleted + k) (batches + 1) rows'))"

definition run_pruner ::
  "pruner \<Rightarrow> (nat \<Rightarrow> prune_conditions) \<Rightarrow> bool \<Rightarrow> idempotency_row list \<Rightarrow> prune_report \<times> idempotency_row list" where
  "run_pruner p C apply_it rows =
     (if \<not> apply_it
      then (\<lparr>pp_applied = False,
             pp_candidate_count = length (filter (prunable (pr_margin p) (pc_clock (C 0))) rows),
             pp_deleted_count = 0, pp_batches = 0, pp_complete = True\<rparr>, rows)
      else (case prune_loop (nat (pr_max_batches p)) p C 0 0 rows of ((deleted, batches, finished), rows') \<Rightarrow>
        (\<lparr>pp_applied = True, pp_candidate_count = deleted, pp_deleted_count = deleted, pp_batches = batches,
          pp_complete = finished\<rparr>, rows')))"

section \<open>What it deletes\<close>

lemma candidates_set:
  "r \<in> set (candidates p c rows) \<Longrightarrow>
     r \<in> set rows \<and> prunable (pr_margin p) (pc_clock c) r \<and> id_database_id r \<notin> set (pc_locked c)"
  unfolding candidates_def by (auto dest!: in_set_takeD)

lemma filter_twice_length: "length (filter P xs) + length (filter (\<lambda>x. \<not> P x) xs) = length xs"
  by (induction xs) auto

lemma delete_batch_rows:
  assumes "delete_batch p c rows = (k, rows')"
  shows "length rows' + k = length rows" "rows' = filter (\<lambda>r. r \<in> set rows') rows"
    "r \<in> set rows \<Longrightarrow> r \<notin> set rows' \<Longrightarrow> deleted_by p c rows r"
  using assms filter_twice_length[of "deleted_by p c rows" rows]
  by (auto simp: delete_batch_def intro: filter_cong)

lemma delete_batch_length:
  assumes "delete_batch p c rows = (k, rows')" "distinct (map id_database_id rows)"
  shows "k \<le> nat (pr_batch_size p)"
proof -
  have "distinct (map id_database_id (filter (deleted_by p c rows) rows))"
    using assms(2) by (rule distinct_map_filter)
  moreover have "set (map id_database_id (filter (deleted_by p c rows) rows)) \<subseteq> set (map id_database_id (candidates p c rows))"
    by (auto simp: deleted_by_def)
  ultimately have "k \<le> card (set (map id_database_id (candidates p c rows)))"
    using assms(1) by (metis List.finite_set card_mono delete_batch_def distinct_card length_map prod.inject)
  also have "\<dots> \<le> length (candidates p c rows)" by (metis card_length length_map)
  also have "\<dots> \<le> nat (pr_batch_size p)" by (simp add: candidates_def)
  finally show ?thesis .
qed

text \<open>A full look at a table without locks and with one instant for all rows.\<close>

definition quiet :: "prune_conditions \<Rightarrow> int \<Rightarrow> bool" where
  "quiet c now \<longleftrightarrow> pc_locked c = [] \<and> pc_clock c = (\<lambda>r. now) \<and> pc_delete_clock c = (\<lambda>r. now)"

lemma delete_batch_finishes:
  assumes del: "delete_batch p c rows = (k, rows')" and few: "k < nat (pr_batch_size p)"
    and ids: "distinct (map id_database_id rows)" and q: "quiet c now" and r: "r \<in> set rows'"
  shows "\<not> prunable (pr_margin p) (\<lambda>r. now) r"
proof
  assume expired: "prunable (pr_margin p) (\<lambda>r. now) r"
  let ?all = "sort_key (\<lambda>r. (instant (id_expires_at r), id_database_id r))
    (filter (\<lambda>r. prunable (pr_margin p) (pc_clock c) r \<and> id_database_id r \<notin> set (pc_locked c)) rows)"
  have cands: "candidates p c rows = take (nat (pr_batch_size p)) ?all" by (simp add: candidates_def)
  have sub: "set (candidates p c rows) \<subseteq> set (filter (deleted_by p c rows) rows)"
    using candidates_set[of _ p c rows] q by (auto simp: deleted_by_def quiet_def)
  have "distinct ?all" using ids by (simp add: distinct_map)
  then have "length (candidates p c rows) = card (set (candidates p c rows))"
    by (simp add: cands distinct_card)
  also have "\<dots> \<le> card (set (filter (deleted_by p c rows) rows))" by (rule card_mono[OF _ sub]) simp
  also have "\<dots> \<le> k" using del card_length[of "filter (deleted_by p c rows) rows"] by (simp add: delete_batch_def)
  finally have "candidates p c rows = ?all" using few by (simp add: cands)
  moreover have "r \<in> set rows" "\<not> deleted_by p c rows r" using r del by (auto simp: delete_batch_def)
  ultimately show False using expired q by (auto simp: deleted_by_def quiet_def)
qed

lemma prune_loop_rows:
  assumes "prune_loop n p C d b rows = ((d', b', finished), rows')" "distinct (map id_database_id rows)"
  shows "rows' = filter (\<lambda>r. r \<in> set rows') rows \<and> length rows' + d' = length rows + d
    \<and> b \<le> b' \<and> b' \<le> b + n \<and> d' \<le> d + (b' - b) * nat (pr_batch_size p)
    \<and> (\<forall>r. r \<in> set rows \<longrightarrow> r \<notin> set rows' \<longrightarrow>
        (\<exists>i. b \<le> i \<and> i < b' \<and> prunable (pr_margin p) (pc_clock (C i)) r \<and> id_database_id r \<notin> set (pc_locked (C i))))
    \<and> (finished \<longrightarrow> b < b'
        \<and> (\<forall>now r. quiet (C (b' - 1)) now \<and> r \<in> set rows' \<longrightarrow> \<not> prunable (pr_margin p) (\<lambda>r. now) r))"
  using assms
proof (induction n p C d b rows arbitrary: d' b' finished rows' rule: prune_loop.induct)
  case (1 p C d b rows)
  then show ?case by (auto intro: filter_True[symmetric])
next
  case (2 n p C d b rows)
  show ?case
  proof (cases "pr_timeout p \<le> pc_elapsed (C b)")
    case True
    then show ?thesis using 2(2) by (auto intro: filter_True[symmetric])
  next
    case go: False
    obtain k rows1 where batch: "delete_batch p (C b) rows = (k, rows1)" by (cases "delete_batch p (C b) rows")
    note rows1 = delete_batch_rows[OF batch]
    note bound = delete_batch_length[OF batch 2(3)]
    have gone: "prunable (pr_margin p) (pc_clock (C b)) r \<and> id_database_id r \<notin> set (pc_locked (C b))"
      if "r \<in> set rows" "r \<notin> set rows1" for r
    proof -
      have "id_database_id r \<in> id_database_id ` set (candidates p (C b) rows)"
        using rows1(3)[OF that] by (simp add: deleted_by_def)
      then obtain x where x: "x \<in> set (candidates p (C b) rows)" "id_database_id x = id_database_id r" by auto
      then have "x = r" using candidates_set[OF x(1)] that(1) 2(3) by (simp add: distinct_map inj_on_def)
      then show ?thesis using candidates_set[OF x(1)] by simp
    qed
    show ?thesis
    proof (cases "k < nat (pr_batch_size p)")
      case True
      then have res: "d' = d + k" "b' = b + 1" "finished" "rows' = rows1" using 2(2) go batch by simp_all
      then show ?thesis
        using rows1(1,2) bound gone delete_batch_finishes[OF batch True 2(3)] by auto
    next
      case False
      then have loop: "prune_loop n p C (d + k) (b + 1) rows1 = ((d', b', finished), rows')"
        using 2(2) go batch by simp
      have ids: "distinct (map id_database_id rows1)"
        using 2(3) by (subst rows1(2)) (rule distinct_map_filter)
      note IH = 2(1)[OF go batch[symmetric] False loop ids]
      have nest: "rows' = filter (\<lambda>r. r \<in> set rows') rows"
      proof -
        have "rows' = filter (\<lambda>r. r \<in> set rows') (filter (\<lambda>r. r \<in> set rows1) rows)"
          using IH rows1(2) by (metis (no_types, lifting))
        also have "\<dots> = filter (\<lambda>r. r \<in> set rows') rows"
        proof -
          have "set rows' \<subseteq> set rows1" using IH by (metis filter_is_subset)
          then show ?thesis by (auto intro: filter_cong)
        qed
        finally show ?thesis .
      qed
      have "d' \<le> d + (b' - b) * nat (pr_batch_size p)"
      proof -
        have "d' \<le> d + k + (b' - (b + 1)) * nat (pr_batch_size p)" "b + 1 \<le> b'" using IH by auto
        moreover from this have "(b' - b) * nat (pr_batch_size p)
            = nat (pr_batch_size p) + (b' - (b + 1)) * nat (pr_batch_size p)"
          by (metis Suc_diff_le Suc_eq_plus1 diff_Suc_Suc mult_Suc)
        ultimately show ?thesis using bound by linarith
      qed
      moreover have "\<exists>i. b \<le> i \<and> i < b' \<and> prunable (pr_margin p) (pc_clock (C i)) r \<and> id_database_id r \<notin> set (pc_locked (C i))"
        if r: "r \<in> set rows" "r \<notin> set rows'" for r
      proof (cases "r \<in> set rows1")
        case True
        then obtain i where "b + 1 \<le> i" "i < b'" "prunable (pr_margin p) (pc_clock (C i)) r"
          "id_database_id r \<notin> set (pc_locked (C i))" using IH r(2) by blast
        then show ?thesis by (intro exI[of _ i]) simp
      next
        case False
        then show ?thesis using gone[OF r(1)] IH by (intro exI[of _ b]) simp
      qed
      ultimately show ?thesis using IH nest rows1(1) by auto
    qed
  qed
qed

section \<open>The store after pruning\<close>

definition pruned_store :: "idempotency_row list \<Rightarrow> execution_state \<Rightarrow> execution_state" where
  "pruned_store rows s = s\<lparr>es_idempotency := filter (\<lambda>(k, r). r \<in> set rows) (es_idempotency s)\<rparr>"

lemma pruned_values:
  "rows = filter (\<lambda>r. r \<in> set rows) (dict_values (es_idempotency s)) \<Longrightarrow>
     dict_values (es_idempotency (pruned_store rows s)) = rows"
proof -
  assume rows: "rows = filter (\<lambda>r. r \<in> set rows) (dict_values (es_idempotency s))"
  have "map snd (filter (\<lambda>(k, r). r \<in> A) d) = filter (\<lambda>r. r \<in> A) (map snd d)" for A and d :: "(scope_key, idempotency_row) dict"
    by (induction d) auto
  then show ?thesis by (simp add: pruned_store_def rows[symmetric])
qed

lemma pruned_get:
  "dict_ok (es_idempotency s) \<Longrightarrow>
     dict_get (es_idempotency (pruned_store rows s)) k = Some item \<longleftrightarrow>
     dict_get (es_idempotency s) k = Some item \<and> item \<in> set rows"
proof -
  assume ok: "dict_ok (es_idempotency s)"
  then have "dict_ok (es_idempotency (pruned_store rows s))"
    by (simp add: pruned_store_def distinct_map_filter)
  then show ?thesis using ok by (auto simp: dict_get_items pruned_store_def)
qed

lemma pruned_store_ok: "store_ok s \<Longrightarrow> store_ok (pruned_store rows s)"
proof -
  assume s: "store_ok s"
  then have ok: "dict_ok (es_idempotency s)" by (simp add: store_ok_def keys_ok_def)
  have "claims_ok (pruned_store rows s)"
  proof -
    have "es_requests (pruned_store rows s) = es_requests s" "es_runs (pruned_store rows s) = es_runs s"
      by (simp_all add: pruned_store_def)
    note same = this
    have "claims_ok s" using s by (simp add: store_ok_def)
    then have row: "k = scope_key (id_scope i)" "claim_ok (es_requests s) (es_runs s) i"
        if "dict_get (es_idempotency s) k = Some i" for k i
      using that unfolding claims_ok_def by blast+
    have owner: "k = k'" if "dict_get (es_idempotency s) k = Some i" "dict_get (es_idempotency s) k' = Some i'"
        "id_status i = ''in_progress''" "id_status i' = ''in_progress''" "id_owner_request_id i = id_owner_request_id i'"
      for k i k' i' using \<open>claims_ok s\<close> that unfolding claims_ok_def by metis
    show ?thesis
      unfolding claims_ok_def same pruned_get[OF ok]
      by (intro conjI allI impI; elim conjE) (erule row, erule row, rule owner)
  qed
  moreover have "keys_ok (pruned_store rows s)"
    using s by (simp add: store_ok_def keys_ok_def pruned_store_def distinct_map_filter)
  ultimately show ?thesis
    using s by (simp add: store_ok_def pruned_store_def requests_ok_def runs_ok_def lineage_ok_def audits_ok_def)
qed

lemma prune_bound:
  "check_pruner p = Inr p \<Longrightarrow> d \<le> b * nat (pr_batch_size p) \<Longrightarrow> b \<le> nat (pr_max_batches p) \<Longrightarrow>
     int d \<le> pr_batch_size p * pr_max_batches p"
proof -
  assume p: "check_pruner p = Inr p" and d: "d \<le> b * nat (pr_batch_size p)" and b: "b \<le> nat (pr_max_batches p)"
  have pos: "0 < pr_batch_size p" "0 < pr_max_batches p" using p by (auto simp: check_pruner_def split: if_splits)
  have "d \<le> nat (pr_max_batches p) * nat (pr_batch_size p)" using d b by (meson le_trans mult_le_mono1)
  then have "int d \<le> int (nat (pr_max_batches p)) * int (nat (pr_batch_size p))" by (metis of_nat_le_iff of_nat_mult)
  then show ?thesis using pos by (simp add: mult.commute)
qed

text \<open>The condition with its unit spelled out.\<close>

lemma prunable_margin:
  "prunable margin clock row \<longleftrightarrow>
     terminal (id_status row) \<and> instant (id_expires_at row) + 1000000 * margin \<le> clock row"
  by (auto simp: prunable_def seconds_def)

text \<open>
  C28: pruning is safe for the protocol and bounded. Whatever other transactions have locked and
  however the clock runs, a record that is gone was closed, had expired at least the safety margin
  (in seconds, a microsecond being the unit of an instant) before the instant that a batch of the
  run saw, and was not locked, so a claim in progress is never deleted; every other record is kept
  as it was and the store keeps its invariant, hence the eight structural integrity checks still
  count zero; the report counts what was deleted, at most the size of a batch in each of at most the
  number of batches; a dry run deletes nothing; and when the report calls the run complete, and its
  last batch met no locks and one instant, every closed record that is left expires later than the
  margin before that instant.
\<close>

theorem pruning_is_safe:
  assumes "store_ok s" and "distinct (map id_database_id (dict_values (es_idempotency s)))"
    and "check_pruner p = Inr p"
    and "run_pruner p C apply_it (dict_values (es_idempotency s)) = (rep, rows)"
  shows "store_ok (pruned_store rows s) \<and> run_checks (pruned_store rows s) = []
    \<and> dict_values (es_idempotency (pruned_store rows s)) = rows
    \<and> (\<forall>k item. dict_get (es_idempotency s) k = Some item \<longrightarrow>
        dict_get (es_idempotency (pruned_store rows s)) k = Some item
        \<or> apply_it \<and> id_status item \<in> {''completed'', ''failed''}
          \<and> (\<exists>i. i < pp_batches rep
                \<and> instant (id_expires_at item) + 1000000 * pr_margin p \<le> pc_clock (C i) item
                \<and> id_database_id item \<notin> set (pc_locked (C i))))
    \<and> length rows + pp_deleted_count rep = length (es_idempotency s)
    \<and> int (pp_deleted_count rep) \<le> pr_batch_size p * pr_max_batches p \<and> int (pp_batches rep) \<le> pr_max_batches p
    \<and> (apply_it \<and> pp_complete rep \<longrightarrow>
        (\<forall>now r. quiet (C (pp_batches rep - 1)) now \<and> r \<in> set rows \<and> id_status r \<in> {''completed'', ''failed''}
           \<longrightarrow> now < instant (id_expires_at r) + 1000000 * pr_margin p))"
proof -
  let ?rows = "dict_values (es_idempotency s)"
  have ok: "dict_ok (es_idempotency s)" using assms(1) by (simp add: store_ok_def keys_ok_def)
  have pos: "0 < pr_batch_size p" "0 < pr_max_batches p" using assms(3) by (auto simp: check_pruner_def split: if_splits)
  note healthy = pruned_store_ok[OF assms(1), of rows]
  note checks = run_checks_clean[OF healthy]
  have row: "item \<in> set ?rows" if "dict_get (es_idempotency s) k = Some item" for k item
    using that ok by (force simp: dict_get_items)
  show ?thesis
  proof (cases apply_it)
    case False
    then have rows: "rows = ?rows" and rep: "pp_deleted_count rep = 0" "pp_batches rep = 0"
      using assms(4) by (auto simp: run_pruner_def)
    have "rows = filter (\<lambda>r. r \<in> set rows) ?rows" unfolding rows by (rule filter_True[symmetric]) simp
    from pruned_values[OF this] show ?thesis
      using healthy checks False rep pos row rows by (simp add: pruned_get[OF ok])
  next
    case True
    then obtain d b finished where loop: "prune_loop (nat (pr_max_batches p)) p C 0 0 ?rows = ((d, b, finished), rows)"
      and rep: "pp_deleted_count rep = d" "pp_batches rep = b" "pp_complete rep = finished"
      using assms(4) by (auto simp: run_pruner_def split: prod.splits)
    note L = prune_loop_rows[OF loop assms(2)]
    have kept: "dict_get (es_idempotency (pruned_store rows s)) k = Some item
        \<or> apply_it \<and> id_status item \<in> {''completed'', ''failed''}
          \<and> (\<exists>i. i < b \<and> instant (id_expires_at item) + 1000000 * pr_margin p \<le> pc_clock (C i) item
              \<and> id_database_id item \<notin> set (pc_locked (C i)))"
      if got: "dict_get (es_idempotency s) k = Some item" for k item
    proof (cases "item \<in> set rows")
      case False
      then obtain i where "i < b" "prunable (pr_margin p) (pc_clock (C i)) item" "id_database_id item \<notin> set (pc_locked (C i))"
        using L row[OF got] by blast
      then show ?thesis using True unfolding prunable_margin by blast
    qed (use got pruned_get[OF ok] in blast)
    have "b \<le> nat (pr_max_batches p)" "d \<le> b * nat (pr_batch_size p)" "length rows + d = length (es_idempotency s)"
      using L by auto
    moreover from this have "int d \<le> pr_batch_size p * pr_max_batches p" "int b \<le> pr_max_batches p"
      using prune_bound[OF assms(3)] pos by auto
    moreover have "dict_values (es_idempotency (pruned_store rows s)) = rows" using L by (intro pruned_values) blast
    moreover have "finished \<longrightarrow> (\<forall>now r. quiet (C (b - 1)) now \<and> r \<in> set rows \<and> id_status r \<in> {''completed'', ''failed''}
        \<longrightarrow> now < instant (id_expires_at r) + 1000000 * pr_margin p)"
      using L unfolding prunable_margin by (meson not_le)
    ultimately show ?thesis using healthy checks kept unfolding rep by blast
  qed
qed

text \<open>A store with one failed request, whose record expired at 0, pruned an hour later.\<close>

definition demo_failed_request :: new_agent_request where
  "demo_failed_request =
     \<lparr>nr_request_id = [113], nr_trace_id = [116], nr_session_id = None, nr_operation = [99], nr_principal_user_id = [112],
      nr_tenant_id = [116], nr_organization_id = [111], nr_user_text_hash = [104], nr_user_text_length = 1,
      nr_request_fingerprint = [102], nr_fingerprint_version = 1, nr_authorization_snapshot = PNone,
      nr_authorization_snapshot_schema_version = 1, nr_created_at = utc 0, nr_status = ''in_progress'',
      nr_idempotency_key_hash = None, nr_replayed_from = None, nr_completed_at = None, nr_failure_code = None\<rparr>"

definition demo_failed_run :: new_agent_run where
  "demo_failed_run =
     \<lparr>nu_run_id = [114], nu_original_request_record_id = 1, nu_session_id = None, nu_status = ''failed'',
      nu_routed_task = None, nu_policy_outcome = None, nu_result_snapshot = None, nu_result_snapshot_schema_version = None,
      nu_confidence = None, nu_trace_snapshot = None, nu_trace_snapshot_schema_version = None, nu_rag_provider = None,
      nu_started_at = utc 0, nu_completed_at = utc 0\<rparr>"

definition demo_audit :: "int \<Rightarrow> string \<Rightarrow> audit_row" where
  "demo_audit i event =
     \<lparr>au_database_id = i, au_record =
        \<lparr>ae_event_id = [nat i], ae_request_id = Some [113], ae_trace_id = None, ae_tenant_id = [116], ae_organization_id = [111],
         ae_event_type = event, ae_principal_user_id = None, ae_outcome = ''failed'', ae_details_json = None,
         ae_created_at = utc 0\<rparr>\<rparr>"

definition demo_failed_claim :: idempotency_row where
  "demo_failed_claim =
     \<lparr>id_database_id = 1, id_scope = \<lparr>is_tenant_id = [116], is_organization_id = [111], is_principal_user_id = [112],
        is_operation = [99], is_key_hash = [104]\<rparr>,
      id_request_fingerprint = [102], id_fingerprint_version = 1, id_status = ''failed'', id_claim_version = 1,
      id_owner_request_id = [113], id_claimed_at = utc 0, id_lease_expires_at = utc 0, id_completed_run_record_id = None,
      id_response_snapshot = None, id_response_snapshot_version = None, id_created_at = utc 0, id_updated_at = utc 0,
      id_expires_at = utc 0\<rparr>"

definition demo_failed_store :: execution_state where
  "demo_failed_store =
     \<lparr>es_requests = [([113], \<lparr>rq_database_id = 1, rq_record = demo_failed_request, rq_status = ''failed'',
         rq_completed_at = Some (utc 0), rq_failure_code = Some ''e''\<rparr>)],
      es_runs = [([114], \<lparr>rn_database_id = 1, rn_record = demo_failed_run\<rparr>)],
      es_audits = [demo_audit 1 ''request_accepted'', demo_audit 2 ''request_failed''],
      es_next_request_id = 2, es_next_run_id = 2, es_next_audit_id = 3,
      es_idempotency = [(scope_key (id_scope demo_failed_claim), demo_failed_claim)], es_next_idempotency_id = 2\<rparr>"

definition demo_pruner :: pruner where
  "demo_pruner = \<lparr>pr_batch_size = 100, pr_margin = 300, pr_max_batches = 100, pr_timeout = 30\<rparr>"

definition demo_conditions :: prune_conditions where
  "demo_conditions =
     \<lparr>pc_locked = [], pc_clock = (\<lambda>r. seconds 3600), pc_delete_clock = (\<lambda>r. seconds 3600), pc_elapsed = 0\<rparr>"

lemma demo_failed_store_ok: "store_ok demo_failed_store"
  by (simp add: store_ok_def keys_ok_def requests_ok_def runs_ok_def lineage_ok_def claims_ok_def audits_ok_def
      demo_failed_store_def demo_failed_request_def demo_failed_run_def demo_audit_def demo_failed_claim_def
      run_matches_def lineage_row_def claim_ok_def audit_ok_row_def audited_def validate_idempotency_def
      idempotency_status_of_def stored_of_def valid_time_def)

lemma demo_prune_run:
  "run_pruner demo_pruner (\<lambda>i. demo_conditions) True (dict_values (es_idempotency demo_failed_store))
     = (\<lparr>pp_applied = True, pp_candidate_count = 1, pp_deleted_count = 1, pp_batches = 1, pp_complete = True\<rparr>, [])"
  by (simp add: run_pruner_def demo_pruner_def demo_conditions_def demo_failed_store_def delete_batch_def deleted_by_def
      candidates_def prunable_def demo_failed_claim_def seconds_def numeral_eq_Suc)

lemma pruning_is_safe_witness:
  "store_ok demo_failed_store
   \<and> run_pruner demo_pruner (\<lambda>i. demo_conditions) True (dict_values (es_idempotency demo_failed_store))
       = (\<lparr>pp_applied = True, pp_candidate_count = 1, pp_deleted_count = 1, pp_batches = 1, pp_complete = True\<rparr>, [])
   \<and> run_checks (pruned_store [] demo_failed_store) = []"
proof -
  have "distinct (map id_database_id (dict_values (es_idempotency demo_failed_store)))"
    by (simp add: demo_failed_store_def)
  moreover have "check_pruner demo_pruner = Inr demo_pruner" by (simp add: check_pruner_def demo_pruner_def)
  ultimately show ?thesis
    using pruning_is_safe[OF demo_failed_store_ok _ _ demo_prune_run] demo_failed_store_ok demo_prune_run by blast
qed

section \<open>The doctor\<close>

text \<open>
  A check is its name with whether it passed, warned or failed; the codes are those of
  \<open>DoctorExitCode\<close>. The queries, and with them the reading of the checks, are parameters.
\<close>

datatype check_status = CheckPassed | CheckWarning | CheckFailed

record integrity_report =
  ir_issues :: "(string \<times> nat) list"
  ir_complete :: bool

definition ir_unhealthy :: "integrity_report \<Rightarrow> bool" where
  "ir_unhealthy r \<longleftrightarrow> ir_complete r \<and> ir_issues r \<noteq> []"

text \<open>
  \<open>check\<close> of the integrity checker, over the structural checks of \<open>run_checks\<close>: a statement timeout
  ends it without a verdict.
\<close>

definition check_integrity :: "bool \<Rightarrow> execution_state \<Rightarrow> integrity_report" where
  "check_integrity timed_out s =
     (if timed_out then \<lparr>ir_issues = [], ir_complete = False\<rparr>
      else \<lparr>ir_issues = run_checks s, ir_complete = True\<rparr>)"

definition doctor_exit_code :: "(string \<times> check_status) list \<Rightarrow> integrity_report \<Rightarrow> int" where
  "doctor_exit_code checks integrity =
     (let failed = map fst (filter (\<lambda>(name, st). st = CheckFailed) checks)
      in if ''revision'' \<in> set failed then 4
         else if ''tls'' \<in> set failed then 7
         else if failed \<noteq> [] \<or> ir_unhealthy integrity \<or> \<not> ir_complete integrity then 5
         else 0)"

text \<open>\<open>_run_bounded\<close> within \<open>run\<close>; \<open>None\<close> for the checks is an exception of the connection.\<close>

definition run_doctor ::
  "bool \<Rightarrow> bool \<Rightarrow> (string \<times> check_status) list option \<Rightarrow> bool \<Rightarrow> execution_state \<Rightarrow> int" where
  "run_doctor overall_timeout postgres checks timed_out s =
     (if overall_timeout then 5
      else if \<not> postgres then 2
      else (case checks of None \<Rightarrow> 3 | Some cs \<Rightarrow> doctor_exit_code cs (check_integrity timed_out s)))"

lemma doctor_healthy:
  "run_doctor overall_timeout postgres checks timed_out s = 0 \<longleftrightarrow>
     \<not> overall_timeout \<and> postgres \<and> \<not> timed_out \<and> run_checks s = []
     \<and> (\<exists>cs. checks = Some cs \<and> list_all (\<lambda>(name, st). st \<noteq> CheckFailed) cs)"
  by (auto simp: run_doctor_def doctor_exit_code_def check_integrity_def ir_unhealthy_def Let_def list_all_iff
      filter_empty_conv image_iff split: option.splits if_splits)

end
