(* ===== verification/Store_Lifecycle.thy ===== *)
theory Store_Lifecycle
  imports Concurrent_Service Retention
begin

text \<open>
  The store in operation: the transactions of the two services, in any interleaving, and between
  them the batches of the pruner, each of which \<open>IdempotencyPruner.run\<close> executes in a transaction
  of its own (\<open>operations/persistence.py\<close>). The invariant of the services survives a batch, since
  requests, runs and audit events stay and only closed claims go.
\<close>

section \<open>A batch as a transaction\<close>

definition prune_batch :: "pruner \<Rightarrow> prune_conditions \<Rightarrow> execution_state \<Rightarrow> nat \<times> execution_state" where
  "prune_batch p c s =
     (case delete_batch p c (dict_values (es_idempotency s)) of (k, rows) \<Rightarrow> (k, pruned_store rows s))"

inductive prune_step :: "system \<Rightarrow> system \<Rightarrow> bool" where
  "check_pruner p = Inr p \<Longrightarrow> prune_batch p c (sy_store y) = (k, s') \<Longrightarrow> prune_step y (y\<lparr>sy_store := s'\<rparr>)"

inductive_cases prune_stepE: "prune_step y y'"

inductive lifecycle :: "service \<Rightarrow> system \<Rightarrow> bool" for S where
  opened: "lifecycle S initial_system"
| served: "lifecycle S y \<Longrightarrow> step S y y' \<Longrightarrow> lifecycle S y'"
| pruned: "lifecycle S y \<Longrightarrow> prune_step y y' \<Longrightarrow> lifecycle S y'"

lemma prune_batch_keeps:
  assumes "prune_batch p c s = (k, s')"
  shows "es_requests s' = es_requests s" "es_runs s' = es_runs s" "es_audits s' = es_audits s"
    "es_next_request_id s' = es_next_request_id s" "es_next_run_id s' = es_next_run_id s"
  using assms by (auto simp: prune_batch_def pruned_store_def split: prod.splits)

lemma prune_batch_claims:
  assumes ok: "store_ok s" and batch: "prune_batch p c s = (k, s')"
  shows "dict_get (es_idempotency s') q = Some i \<Longrightarrow> dict_get (es_idempotency s) q = Some i"
    and "dict_get (es_idempotency s) q = Some i \<Longrightarrow>
      dict_get (es_idempotency s') q = Some i
      \<or> dict_get (es_idempotency s') q = None \<and> prunable (pr_margin p) (pc_delete_clock c) i"
proof -
  let ?rows = "dict_values (es_idempotency s)"
  have dict: "dict_ok (es_idempotency s)" using ok by (simp add: store_ok_def keys_ok_def)
  obtain rows where del: "delete_batch p c ?rows = (k, rows)" and s': "s' = pruned_store rows s"
    using batch by (auto simp: prune_batch_def split: prod.splits)
  note get = pruned_get[OF dict, of rows]
  show "dict_get (es_idempotency s') q = Some i \<Longrightarrow> dict_get (es_idempotency s) q = Some i"
    unfolding s' get by blast
  assume i: "dict_get (es_idempotency s) q = Some i"
  show "dict_get (es_idempotency s') q = Some i
      \<or> dict_get (es_idempotency s') q = None \<and> prunable (pr_margin p) (pc_delete_clock c) i"
  proof (cases "i \<in> set rows")
    case True
    then show ?thesis using i unfolding s' get by blast
  next
    case False
    have "i \<in> set ?rows" using i dict by (force simp: dict_get_items)
    then have "prunable (pr_margin p) (pc_delete_clock c) i"
      using delete_batch_rows(3)[OF del _ False] by (simp add: deleted_by_def)
    moreover have "dict_get (es_idempotency s') q = None"
      using i False get[of q] unfolding s' by (metis not_Some_eq option.inject)
    ultimately show ?thesis by blast
  qed
qed

lemma prune_step_ok:
  assumes "prune_step y y'" "system_ok y"
  shows "system_ok y'"
  using assms(1)
proof (rule prune_stepE)
  fix p c k s'
  assume 1: "y' = y\<lparr>sy_store := s'\<rparr>" "check_pruner p = Inr p" "prune_batch p c (sy_store y) = (k, s')"
  have ok: "store_ok (sy_store y)" using assms(2) by (simp add: system_ok_def)
  note keeps = prune_batch_keeps[OF 1(3)] and claims = prune_batch_claims[OF ok 1(3)]
  have "store_ok s'" using 1(3) pruned_store_ok[OF ok] by (auto simp: prune_batch_def split: prod.splits)
  moreover have "versions_ok s'" using assms(2) claims(1) unfolding system_ok_def versions_ok_def by blast
  moreover have "ticket_valid s' t" if "ticket_valid (sy_store y) t" for t
  proof -
    have "stored_ref s' ref \<longleftrightarrow> stored_ref (sy_store y) ref" for ref by (simp add: stored_ref_def keeps)
    moreover have "unclaimed (sy_store y) ref \<Longrightarrow> unclaimed s' ref" for ref
      using claims(1) unfolding unclaimed_def by blast
    ultimately show ?thesis using that by (cases t) (auto simp: ticket_valid_def ticket_ok_def)
  qed
  ultimately show "system_ok y'" using assms(2) 1(1) by (simp add: system_ok_def)
qed

lemma lifecycle_ok: "lifecycle S y \<Longrightarrow> system_ok y"
proof (induction rule: lifecycle.induct)
  case opened
  then show ?case by (rule reachable_ok[OF reachable.start])
next
  case (served y y')
  then show ?case using step_ok by blast
next
  case (pruned y y')
  then show ?case using prune_step_ok by blast
qed

section \<open>A concrete life\<close>

text \<open>The first request of the client fails; two days later the pruner finds its claim.\<close>

definition demo_open_ref :: request_ref where
  "demo_open_ref = demo_ref\<lparr>rf_session_id := nr_session_id (demo_record (demo_context [49]))\<rparr>"

definition demo_failing :: "unit res \<times> world" where
  "demo_failing = finalize_failed demo_service (demo_context [49]) demo_open_ref demo_token [114, 49] ''application_service_failed''
     (utc 1) (utc 2) (demo_world (sy_store (demo_systems 1)) 10)"

definition demo_failed_world :: system where
  "demo_failed_world = (demo_systems 1)\<lparr>sy_store := w_state (snd demo_failing)\<rparr>"

definition demo_late :: prune_conditions where
  "demo_late = \<lparr>pc_locked = [], pc_clock = (\<lambda>r. seconds 1000000), pc_delete_clock = (\<lambda>r. seconds 1000000), pc_elapsed = 0\<rparr>"

definition demo_pruned :: system where
  "demo_pruned = demo_failed_world
     \<lparr>sy_store := snd (prune_batch demo_pruner demo_late (sy_store demo_failed_world))\<rparr>"

lemma demo_first_ticket: "fst demo_first = Inr (Accepted demo_token demo_open_ref)"
  by (simp add: demo_first_def demo_token_def demo_open_ref_def demo_ref_def demo_run_defs)

lemma demo_failing_step: "step demo_service (demo_systems 1) demo_failed_world"
  unfolding demo_failed_world_def
proof (rule step.fail_idempotent)
  show "runs_on (demo_world (sy_store (demo_systems 1)) 10) (sy_store (demo_systems 1))" by (rule demo_world_runs_on)
  show "Owned demo_token demo_open_ref \<in> sy_tickets (demo_systems 1)"
    by (simp add: demo_systems_def demo_first_ticket)
  show "finalize_failed demo_service (demo_context [49]) demo_open_ref demo_token [114, 49] ''application_service_failed'' (utc 1) (utc 2)
      (demo_world (sy_store (demo_systems 1)) 10) = (fst demo_failing, snd demo_failing)"
    by (simp add: demo_failing_def)
qed (simp_all add: demo_context_def demo_open_ref_def demo_ref_def require_failure_code_def FAILURE_CODES_def)

lemma demo_failed_claim_kept:
  "\<exists>i. es_idempotency (sy_store demo_failed_world) = [(scope_key demo_scope, i)]
     \<and> id_status i = ''failed'' \<and> id_expires_at i = utc (seconds 310)"
  unfolding demo_failed_world_def demo_failing_def demo_systems_def
  by (simp add: demo_first demo_first_store_def finalize_failed_def run_failed_def fail_claim_def fail_fenced_def
      check_current_owner_def idempotency_call_def owns_def assert_current_owner_def owned_item_def get_request_for_update_def lock_request_def
      audit_request_failed_def demo_open_ref_def demo_ref_def demo_token_def demo_first_valid demo_run_defs demo_reclaim_defs)

lemma demo_pruning_step: "prune_step demo_failed_world demo_pruned"
  unfolding demo_pruned_def
  by (rule prune_step.intros[of demo_pruner demo_late _ "fst (prune_batch demo_pruner demo_late (sy_store demo_failed_world))"])
    (simp_all add: check_pruner_def demo_pruner_def)

lemma demo_lifecycle: "lifecycle demo_service demo_failed_world" "lifecycle demo_service demo_pruned"
proof -
  have "lifecycle demo_service (demo_systems 1)"
    using lifecycle.served[OF lifecycle.opened] demo_steps(1) by (simp add: demo_systems_def)
  then show "lifecycle demo_service demo_failed_world" by (rule lifecycle.served[OF _ demo_failing_step])
  then show "lifecycle demo_service demo_pruned" by (rule lifecycle.pruned[OF _ demo_pruning_step])
qed

lemma demo_claim_pruned:
  obtains i where "dict_get (es_idempotency (sy_store demo_failed_world)) (scope_key demo_scope) = Some i"
    "dict_get (es_idempotency (sy_store demo_pruned)) (scope_key demo_scope) = None"
proof -
  obtain i where i: "es_idempotency (sy_store demo_failed_world) = [(scope_key demo_scope, i)]"
      "id_status i = ''failed''" "id_expires_at i = utc (seconds 310)" using demo_failed_claim_kept by blast
  then have "es_idempotency (sy_store demo_pruned) = []"
    by (simp add: demo_pruned_def prune_batch_def pruned_store_def delete_batch_def deleted_by_def candidates_def
        prunable_def demo_late_def demo_pruner_def seconds_def numeral_eq_Suc)
  with i show thesis by (intro that[of i]) simp_all
qed

section \<open>Properties\<close>

text \<open>
  C3: whatever the requests do, wherever they fail and whatever the pruner deletes between them, the
  store passes the eight structural checks of the persistence doctor: one run per closed request
  and none beside it, of the status of the request; replays without runs that lead to an original
  request; active claims with an open owner; completed claims with a run and an answer; and the
  audit events of the acceptance and of the end. Of the three other checks of \<open>_run_checks\<close> one
  looks for an expiry that is null, which the column excludes; the two that search the texts of
  replay snapshots and audit details for forbidden JSON keys are not covered.
\<close>

theorem reachable_store_is_healthy:
  assumes "lifecycle S y"
  shows "run_checks (sy_store y) = []"
  using lifecycle_ok[OF assms] run_checks_clean by (simp add: system_ok_def)

theorem reachable_store_is_healthy_witness:
  "lifecycle demo_service demo_pruned \<and> run_checks (sy_store demo_pruned) = []
   \<and> (\<exists>i. dict_get (es_idempotency (sy_store demo_failed_world)) (scope_key demo_scope) = Some i)
   \<and> dict_get (es_idempotency (sy_store demo_pruned)) (scope_key demo_scope) = None"
  using demo_lifecycle(2) reachable_store_is_healthy[OF demo_lifecycle(2)] demo_claim_pruned by blast

text \<open>
  C13: history only grows. Neither a transaction of the services nor a batch of the pruner takes a
  stored request back: it keeps its record and its database id, and a closed one its status; runs and
  audit events are never changed or removed. A claim stays, with a version that never falls, or a
  batch of the pruner deleted it: then it was closed and had expired, at the clock of the deletion, at
  least the safety margin ago.
\<close>

theorem history_only_grows:
  assumes "lifecycle S y"
    and "step S y y' \<or> check_pruner p = Inr p \<and> prune_batch p c (sy_store y) = (n, s') \<and> y' = y\<lparr>sy_store := s'\<rparr>"
  shows "(\<forall>q r. dict_get (es_requests (sy_store y)) q = Some r \<longrightarrow>
        (\<exists>r'. dict_get (es_requests (sy_store y')) q = Some r' \<and> rq_record r' = rq_record r
           \<and> rq_database_id r' = rq_database_id r \<and> (rq_status r = ''in_progress'' \<or> r' = r)))
     \<and> (\<forall>q v. dict_get (es_runs (sy_store y)) q = Some v \<longrightarrow> dict_get (es_runs (sy_store y')) q = Some v)
     \<and> prefix (es_audits (sy_store y)) (es_audits (sy_store y'))
     \<and> (\<forall>k i. dict_get (es_idempotency (sy_store y)) k = Some i \<longrightarrow>
          (\<exists>i'. dict_get (es_idempotency (sy_store y')) k = Some i' \<and> id_claim_version i \<le> id_claim_version i')
          \<or> \<not> step S y y' \<and> dict_get (es_idempotency (sy_store y')) k = None \<and> id_status i \<in> {''completed'', ''failed''}
            \<and> instant (id_expires_at i) + 1000000 * pr_margin p \<le> pc_delete_clock c i)"
proof (cases "step S y y'")
  case True
  have "advances (sy_store y) (sy_store y')" using step_ok[OF True lifecycle_ok[OF assms(1)]] by blast
  then show ?thesis unfolding advances_def by blast
next
  case False
  then have batch: "prune_batch p c (sy_store y) = (n, s')" and y': "sy_store y' = s'" using assms(2) by auto
  have "store_ok (sy_store y)" using lifecycle_ok[OF assms(1)] by (simp add: system_ok_def)
  from prune_batch_claims(2)[OF this batch] have
    "(\<exists>i'. dict_get (es_idempotency s') k = Some i' \<and> id_claim_version i \<le> id_claim_version i')
      \<or> \<not> step S y y' \<and> dict_get (es_idempotency s') k = None \<and> id_status i \<in> {''completed'', ''failed''}
        \<and> instant (id_expires_at i) + 1000000 * pr_margin p \<le> pc_delete_clock c i"
    if "dict_get (es_idempotency (sy_store y)) k = Some i" for k i
    using that False unfolding prunable_margin by blast
  then show ?thesis unfolding y' prune_batch_keeps[OF batch] by auto
qed

theorem history_only_grows_witness:
  "\<exists>i. dict_get (es_idempotency (sy_store demo_failed_world)) (scope_key demo_scope) = Some i
     \<and> dict_get (es_idempotency (sy_store demo_pruned)) (scope_key demo_scope) = None
     \<and> id_status i \<in> {''completed'', ''failed''} \<and> prefix (es_audits (sy_store demo_failed_world)) (es_audits (sy_store demo_pruned))"
proof -
  obtain n s' where b: "check_pruner demo_pruner = Inr demo_pruner"
      "prune_batch demo_pruner demo_late (sy_store demo_failed_world) = (n, s')" "demo_pruned = demo_failed_world\<lparr>sy_store := s'\<rparr>"
    by (cases "prune_batch demo_pruner demo_late (sy_store demo_failed_world)")
      (simp add: demo_pruned_def check_pruner_def demo_pruner_def)
  obtain i where i: "dict_get (es_idempotency (sy_store demo_failed_world)) (scope_key demo_scope) = Some i"
      "dict_get (es_idempotency (sy_store demo_pruned)) (scope_key demo_scope) = None" by (rule demo_claim_pruned)
  have prune: "step demo_service demo_failed_world demo_pruned \<or> check_pruner demo_pruner = Inr demo_pruner
      \<and> prune_batch demo_pruner demo_late (sy_store demo_failed_world) = (n, s')
      \<and> demo_pruned = demo_failed_world\<lparr>sy_store := s'\<rparr>" using b by (intro disjI2 conjI)
  note grows = history_only_grows[OF demo_lifecycle(1) prune]
  from grows i(1) have "(\<exists>i'. dict_get (es_idempotency (sy_store demo_pruned)) (scope_key demo_scope) = Some i')
      \<or> id_status i \<in> {''completed'', ''failed''}" by blast
  then have "id_status i \<in> {''completed'', ''failed''}" unfolding i(2) by simp
  moreover have "prefix (es_audits (sy_store demo_failed_world)) (es_audits (sy_store demo_pruned))" using grows by blast
  ultimately show ?thesis using i by blast
qed

end
