(* ===== verification/Llm_Models.thy ===== *)
theory Llm_Models
  imports Configuration
begin

text \<open>
  \<open>llm/models.py\<close> and \<open>llm/factory.py\<close>: the profiles of the language models, the registry of the four
  profiles with its validators and the validation of routes, the registry that \<open>config.py\<close> reads from
  the environment, and the client that the factory creates. Floats are finite.
\<close>

section \<open>Profiles\<close>

datatype model_capability = CHAT | TOOL_CALLING | STRUCTURED_OUTPUT | THINKING

datatype model_provider =
  ProviderDashscope | ProviderDeepseek | ProviderAnthropic | ProviderLocalOpenai | ProviderNotConfigured

definition MODEL_CAPABILITIES :: "model_capability list" where
  "MODEL_CAPABILITIES = [CHAT, TOOL_CALLING, STRUCTURED_OUTPUT, THINKING]"

definition MODEL_PROFILES :: "model_profile list" where
  "MODEL_PROFILES = [ProfileLightweight, ProfileStandard, ProfileAdvanced, ProfileEvaluator]"

text \<open>The limits that the four profiles have in common.\<close>

record llm_limits =
  ll_timeout_seconds :: rat
  ll_max_retries :: int
  ll_read_timeout_max_retries :: int
  ll_retry_total_budget_seconds :: rat
  ll_overall_deadline_seconds :: rat
  ll_max_output_tokens :: int

record model_profile_config =
  mc_profile :: model_profile
  mc_provider :: model_provider
  mc_model :: pystr
  mc_configured :: bool
  mc_runtime_selectable :: bool
  mc_capabilities :: "model_capability list"
  mc_enable_thinking :: bool
  mc_limits :: llm_limits

definition limits_ok :: "llm_limits \<Rightarrow> bool" where
  "limits_ok l \<longleftrightarrow>
     0 < ll_timeout_seconds l \<and> 0 \<le> ll_max_retries l \<and> ll_max_retries l \<le> 10
     \<and> 0 \<le> ll_read_timeout_max_retries l \<and> ll_read_timeout_max_retries l \<le> 10
     \<and> 0 \<le> ll_retry_total_budget_seconds l \<and> 0 < ll_overall_deadline_seconds l \<and> 1 \<le> ll_max_output_tokens l"

definition stable_capabilities :: "model_capability list \<Rightarrow> model_capability list" where
  "stable_capabilities values = filter (\<lambda>c. c \<in> set values) MODEL_CAPABILITIES"

definition not_configured :: pystr where
  "not_configured = (u ''not_configured'')"

definition validate_profile :: "model_profile_config \<Rightarrow> model_profile_config res" where
  "validate_profile c =
     (if mc_runtime_selectable c \<and> \<not> mc_configured c then Inl ValidationError
      else if mc_configured c \<and> (mc_provider c = ProviderNotConfigured \<or> mc_model c = not_configured) then Inl ValidationError
      else if mc_configured c \<and> CHAT \<notin> set (mc_capabilities c) then Inl ValidationError
      else if \<not> mc_configured c \<and> (mc_provider c \<noteq> ProviderNotConfigured \<or> mc_model c \<noteq> not_configured) then Inl ValidationError
      else if mc_enable_thinking c \<and> THINKING \<notin> set (mc_capabilities c) then Inl ValidationError
      else if ll_overall_deadline_seconds (mc_limits c) \<le> 0 then Inl ValidationError
      else Inr c)"

text \<open>The constructor: fields, then the validator.\<close>

definition mk_profile :: "ucd \<Rightarrow> model_profile_config \<Rightarrow> model_profile_config res" where
  "mk_profile T c =
     (let c' = c\<lparr>mc_model := py_strip T (mc_model c), mc_capabilities := stable_capabilities (mc_capabilities c)\<rparr>
      in if mc_model c' = [] \<or> \<not> limits_ok (mc_limits c') then Inl ValidationError else validate_profile c')"

section \<open>The registry\<close>

record model_registry =
  mr_lightweight :: model_profile_config
  mr_standard :: model_profile_config
  mr_advanced :: model_profile_config
  mr_evaluator :: model_profile_config
  mr_registry_version :: pystr
  mr_default_profile :: model_profile

text \<open>The errors of \<open>llm/errors.py\<close>; all but the last are \<open>ValueError\<close>s.\<close>

datatype llm_error =
    UnconfiguredModelProfile model_profile
  | RuntimeModelProfile model_profile
  | ModelRouteValidation string
  | LLMConfiguration pystr

fun slot :: "model_registry \<Rightarrow> model_profile \<Rightarrow> model_profile_config" where
  "slot r ProfileLightweight = mr_lightweight r"
| "slot r ProfileStandard = mr_standard r"
| "slot r ProfileAdvanced = mr_advanced r"
| "slot r ProfileEvaluator = mr_evaluator r"

definition resolve :: "model_registry \<Rightarrow> model_profile \<Rightarrow> llm_error + model_profile_config" where
  "resolve r p = (if \<not> mc_configured (slot r p) then Inl (UnconfiguredModelProfile p) else Inr (slot r p))"

definition resolve_runtime :: "model_registry \<Rightarrow> model_profile \<Rightarrow> llm_error + model_profile_config" where
  "resolve_runtime r p =
     (case resolve r p of
        Inl e \<Rightarrow> Inl e
      | Inr c \<Rightarrow> if \<not> mc_runtime_selectable c then Inl (RuntimeModelProfile p) else Inr c)"

definition validate_slots :: "model_registry \<Rightarrow> model_registry res" where
  "validate_slots r =
     (if \<not> list_all (\<lambda>p. mc_profile (slot r p) = p) MODEL_PROFILES then Inl ValidationError
      else if \<not> mc_configured (mr_standard r) \<or> \<not> mc_runtime_selectable (mr_standard r) then Inl ValidationError
      else case resolve_runtime r (mr_default_profile r) of Inl e \<Rightarrow> Inl ValidationError | Inr c \<Rightarrow> Inr r)"

definition mk_registry :: "ucd \<Rightarrow> model_registry \<Rightarrow> model_registry res" where
  "mk_registry T r =
     (let r' = r\<lparr>mr_registry_version := py_strip T (mr_registry_version r)\<rparr>
      in if mr_registry_version r' = [] then Inl ValidationError else validate_slots r')"

section \<open>Routes\<close>

record model_route_decision =
  md_task_name :: task_name
  md_selected_profile :: model_profile
  md_provider :: model_provider
  md_model :: pystr
  md_enable_thinking :: bool
  md_reason :: pystr
  md_fallback_profile :: "model_profile option"
  md_routing_policy_version :: pystr

definition mk_route_decision :: "ucd \<Rightarrow> model_route_decision \<Rightarrow> model_route_decision res" where
  "mk_route_decision T d =
     (let d' = d\<lparr>md_model := py_strip T (md_model d), md_reason := py_strip T (md_reason d),
                md_routing_policy_version := py_strip T (md_routing_policy_version d)\<rparr>
      in if md_model d' = [] \<or> md_reason d' = [] \<or> md_routing_policy_version d' = [] then Inl ValidationError
         else if md_fallback_profile d' = Some (md_selected_profile d') then Inl ValidationError
         else Inr d')"

definition validate_route :: "model_registry \<Rightarrow> model_route_decision \<Rightarrow> llm_error + model_profile_config" where
  "validate_route r d =
     (case resolve_runtime r (md_selected_profile d) of
        Inl e \<Rightarrow> Inl e
      | Inr selected \<Rightarrow>
          if md_provider d \<noteq> mc_provider selected then Inl (ModelRouteValidation ''provider_mismatch'')
          else if md_model d \<noteq> mc_model selected then Inl (ModelRouteValidation ''model_mismatch'')
          else if md_enable_thinking d \<noteq> mc_enable_thinking selected then Inl (ModelRouteValidation ''thinking_mismatch'')
          else case md_fallback_profile d of
                 None \<Rightarrow> Inr selected
               | Some p \<Rightarrow> (case resolve_runtime r p of Inl e \<Rightarrow> Inl e | Inr c \<Rightarrow> Inr selected))"

section \<open>The default registry and the environment\<close>

definition default_lightweight :: "llm_limits \<Rightarrow> model_profile_config" where
  "default_lightweight l =
     \<lparr>mc_profile = ProfileLightweight, mc_provider = ProviderNotConfigured, mc_model = not_configured,
      mc_configured = False, mc_runtime_selectable = False, mc_capabilities = [], mc_enable_thinking = False, mc_limits = l\<rparr>"

definition default_standard :: "llm_limits \<Rightarrow> model_profile_config" where
  "default_standard l =
     \<lparr>mc_profile = ProfileStandard, mc_provider = ProviderDashscope, mc_model = (u ''qwen3-8b''),
      mc_configured = True, mc_runtime_selectable = True, mc_capabilities = [CHAT, TOOL_CALLING, STRUCTURED_OUTPUT],
      mc_enable_thinking = False, mc_limits = l\<rparr>"

definition default_advanced :: "llm_limits \<Rightarrow> model_profile_config" where
  "default_advanced l =
     \<lparr>mc_profile = ProfileAdvanced, mc_provider = ProviderDashscope, mc_model = (u ''qwen3-14b''),
      mc_configured = True, mc_runtime_selectable = False, mc_capabilities = [CHAT, TOOL_CALLING, STRUCTURED_OUTPUT],
      mc_enable_thinking = False, mc_limits = l\<rparr>"

definition default_evaluator :: "llm_limits \<Rightarrow> model_profile_config" where
  "default_evaluator l =
     \<lparr>mc_profile = ProfileEvaluator, mc_provider = ProviderDashscope, mc_model = (u ''qwen3-14b''),
      mc_configured = True, mc_runtime_selectable = False, mc_capabilities = [CHAT, STRUCTURED_OUTPUT, THINKING],
      mc_enable_thinking = True, mc_limits = l\<rparr>"

definition default_model_registry :: "ucd \<Rightarrow> llm_limits \<Rightarrow> model_registry res" where
  "default_model_registry T l =
     bind_res (mk_profile T (default_lightweight l)) (\<lambda>lightweight.
     bind_res (mk_profile T (default_standard l)) (\<lambda>standard.
     bind_res (mk_profile T (default_advanced l)) (\<lambda>advanced.
     bind_res (mk_profile T (default_evaluator l)) (\<lambda>evaluator.
     mk_registry T
       \<lparr>mr_lightweight = lightweight, mr_standard = standard, mr_advanced = advanced, mr_evaluator = evaluator,
        mr_registry_version = (u ''qwen3_profiles_v1''), mr_default_profile = ProfileStandard\<rparr>))))"

definition PROFILE_VALUES :: "(string \<times> model_profile) list" where
  "PROFILE_VALUES = [(''lightweight'', ProfileLightweight), (''standard'', ProfileStandard),
     (''advanced'', ProfileAdvanced), (''evaluator'', ProfileEvaluator)]"

definition read_limits :: "number_reader \<Rightarrow> environment \<Rightarrow> llm_limits res" where
  "read_limits N E =
     bind_res (env_float N E ''CONVAGENT_LLM_TIMEOUT_SECONDS'' ''30'') (\<lambda>v_timeout.
     bind_res (env_int N E ''CONVAGENT_LLM_MAX_RETRIES'' ''2'') (\<lambda>v_max_retries.
     bind_res (env_int N E ''CONVAGENT_LLM_READ_TIMEOUT_MAX_RETRIES'' ''1'') (\<lambda>v_read_retries.
     bind_res (env_float N E ''CONVAGENT_LLM_RETRY_TOTAL_BUDGET_SECONDS'' ''10'') (\<lambda>v_retry_budget.
     bind_res (env_float N E ''CONVAGENT_LLM_OVERALL_DEADLINE_SECONDS'' ''45'') (\<lambda>v_deadline.
     bind_res (env_int N E ''CONVAGENT_LLM_MAX_OUTPUT_TOKENS'' ''4096'') (\<lambda>v_max_tokens.
     Inr \<lparr>ll_timeout_seconds = v_timeout, ll_max_retries = v_max_retries, ll_read_timeout_max_retries = v_read_retries,
          ll_retry_total_budget_seconds = v_retry_budget, ll_overall_deadline_seconds = v_deadline,
          ll_max_output_tokens = v_max_tokens\<rparr>))))))"

definition llm_provider :: "ucd \<Rightarrow> environment \<Rightarrow> pystr" where
  "llm_provider T E = env_text_or T E ''CONVAGENT_LLM_PROVIDER'' ''dashscope''"

definition standard_of :: "ucd \<Rightarrow> environment \<Rightarrow> model_provider \<times> pystr" where
  "standard_of T E =
     (if llm_provider T E = (u ''deepseek'') then (ProviderDeepseek, env_text_or T E ''DEEPSEEK_MODEL'' ''deepseek-chat'')
      else if llm_provider T E = (u ''anthropic'') then
        (ProviderAnthropic, first_non_empty_env T E [''ANTHROPIC_MODEL'', ''CONVERSATION_AGENT_MODEL''] ''claude-sonnet-4-6'')
      else (ProviderDashscope, first_non_empty_env T E [''CONVAGENT_LLM_STANDARD_MODEL''] ''qwen3-8b''))"

definition standard_from :: "ucd \<Rightarrow> environment \<Rightarrow> model_profile_config \<Rightarrow> model_profile_config" where
  "standard_from T E c =
     c\<lparr>mc_provider := fst (standard_of T E), mc_model := snd (standard_of T E),
       mc_configured := env_bool T E ''CONVAGENT_LLM_STANDARD_ENABLED'' True, mc_runtime_selectable := True,
       mc_enable_thinking := env_bool T E ''CONVAGENT_LLM_STANDARD_THINKING'' False\<rparr>"

definition advanced_from :: "ucd \<Rightarrow> environment \<Rightarrow> model_profile_config \<Rightarrow> model_profile_config" where
  "advanced_from T E c =
     c\<lparr>mc_model := first_non_empty_env T E [''CONVAGENT_LLM_ADVANCED_MODEL''] ''qwen3-14b'',
       mc_configured := env_bool T E ''CONVAGENT_LLM_ADVANCED_ENABLED'' True,
       mc_enable_thinking := env_bool T E ''CONVAGENT_LLM_ADVANCED_THINKING'' False\<rparr>"

definition evaluator_from :: "ucd \<Rightarrow> environment \<Rightarrow> model_profile_config \<Rightarrow> model_profile_config" where
  "evaluator_from T E c =
     c\<lparr>mc_model := first_non_empty_env T E [''CONVAGENT_LLM_EVALUATOR_MODEL''] ''qwen3-14b'',
       mc_configured := env_bool T E ''CONVAGENT_LLM_EVALUATOR_ENABLED'' True,
       mc_enable_thinking := env_bool T E ''CONVAGENT_LLM_EVALUATOR_THINKING'' True\<rparr>"

definition build_model_registry :: "ucd \<Rightarrow> number_reader \<Rightarrow> environment \<Rightarrow> model_registry res" where
  "build_model_registry T N E =
     bind_res (read_limits N E) (\<lambda>limits.
     bind_res (default_model_registry T limits) (\<lambda>registry.
     bind_res (mk_profile T (standard_from T E (mr_standard registry))) (\<lambda>standard.
     bind_res (mk_profile T (advanced_from T E (mr_advanced registry))) (\<lambda>advanced.
     bind_res (mk_profile T (evaluator_from T E (mr_evaluator registry))) (\<lambda>evaluator.
     bind_res (enum_of PROFILE_VALUES (getenv E ''CONVAGENT_LLM_DEFAULT_PROFILE'' ''standard'')) (\<lambda>default_profile.
     mk_registry T
       \<lparr>mr_lightweight = mr_lightweight registry, mr_standard = standard, mr_advanced = advanced, mr_evaluator = evaluator,
        mr_registry_version = mr_registry_version registry, mr_default_profile = default_profile\<rparr>))))))"

section \<open>The client of a profile\<close>

record llm_config =
  lc_provider :: model_provider
  lc_default_profile :: model_profile
  lc_registry :: model_registry
  lc_api_key :: pystr
  lc_auth_token :: pystr
  lc_base_url :: pystr
  lc_model :: pystr
  lc_max_tool_rounds :: int
  lc_max_retries :: int
  lc_retry_base_delay :: rat
  lc_request_timeout :: rat
  lc_temperature :: rat
  lc_max_tokens :: int

text \<open>What the three constructors keep of their arguments and of the configuration \<open>G\<close> of the process.\<close>

datatype llm_client =
    DashScope (client_key: pystr) pystr model_profile_config
  | DeepSeek (client_key: pystr) pystr
  | Anthropic (client_key: pystr) "pystr option" pystr

definition starts :: "pystr \<Rightarrow> pystr \<Rightarrow> bool" where
  "starts pre s \<longleftrightarrow> take (length pre) s = pre"

definition or_else :: "pystr \<Rightarrow> pystr \<Rightarrow> pystr" where
  "or_else s t = (if s = [] then t else s)"

definition strip_slashes :: "pystr \<Rightarrow> pystr" where
  "strip_slashes s = rev (dropWhile (\<lambda>c. c = 47) (rev s))"

definition new_dashscope :: "ucd \<Rightarrow> llm_config \<Rightarrow> pystr \<Rightarrow> pystr \<Rightarrow> model_profile_config \<Rightarrow> llm_client" where
  "new_dashscope T G api_key base_url c = DashScope (py_strip T api_key) (strip_slashes (or_else base_url (lc_base_url G))) c"

definition new_deepseek :: "llm_config \<Rightarrow> environment \<Rightarrow> pystr \<Rightarrow> llm_client" where
  "new_deepseek G E api_key =
     DeepSeek (or_else api_key (getenv E ''DEEPSEEK_API_KEY'' []))
       (if starts (u ''deepseek'') (lc_model G) then lc_model G else (u ''deepseek-chat''))"

definition new_anthropic :: "llm_config \<Rightarrow> pystr \<Rightarrow> llm_client" where
  "new_anthropic G api_key =
     (let mine = (lc_provider G = ProviderAnthropic)
      in Anthropic api_key (if mine \<and> lc_base_url G \<noteq> [] then Some (lc_base_url G) else None)
           (if mine then lc_model G else (u ''claude-sonnet-4-6'')))"

text \<open>
  The property of the DeepSeek client stands after the return of a function of its module, so the class has
  that of its base class, which is \<open>False\<close>.
\<close>

fun is_configured :: "ucd \<Rightarrow> llm_client \<Rightarrow> bool" where
  "is_configured T (DashScope key url c) \<longleftrightarrow> key \<noteq> [] \<and> mc_configured c"
| "is_configured T (DeepSeek key model) \<longleftrightarrow> False"
| "is_configured T (Anthropic key url model) \<longleftrightarrow> key \<noteq> [] \<and> py_strip T key \<noteq> []"

fun provider_text :: "model_provider \<Rightarrow> pystr" where
  "provider_text ProviderDashscope = (u ''dashscope'')"
| "provider_text ProviderDeepseek = (u ''deepseek'')"
| "provider_text ProviderAnthropic = (u ''anthropic'')"
| "provider_text ProviderLocalOpenai = (u ''local_openai'')"
| "provider_text ProviderNotConfigured = (u ''not_configured'')"

definition create_llm_client ::
  "ucd \<Rightarrow> environment \<Rightarrow> runtime_mode \<Rightarrow> llm_config \<Rightarrow> llm_config option \<Rightarrow> model_profile \<Rightarrow> llm_error + llm_client" where
  "create_llm_client T E mode G config p =
     (let cfg = (case config of None \<Rightarrow> G | Some c \<Rightarrow> c)
      in case resolve_runtime (lc_registry cfg) p of
           Inl e \<Rightarrow> Inl e
         | Inr c \<Rightarrow>
             (case (case mc_provider c of
                      ProviderDashscope \<Rightarrow> Some (new_dashscope T G (lc_api_key cfg) (lc_base_url cfg) c)
                    | ProviderDeepseek \<Rightarrow> Some (new_deepseek G E (lc_api_key cfg))
                    | ProviderAnthropic \<Rightarrow> Some (new_anthropic G (or_else (lc_api_key cfg) (lc_auth_token cfg)))
                    | _ \<Rightarrow> None) of
                None \<Rightarrow> Inl (LLMConfiguration ((u ''Unsupported runtime LLM provider: '') @ provider_text (mc_provider c)))
              | Some client \<Rightarrow>
                  if mode \<in> {TEST, PRODUCTION} \<and> \<not> is_configured T client
                  then Inl (LLMConfiguration ((u ''LLM provider '') @ provider_text (mc_provider c) @ (u '' is not configured'')))
                  else Inr client))"

section \<open>What the environment can switch\<close>

text \<open>No printing ASCII character is a blank.\<close>

definition plain_ascii :: "ucd \<Rightarrow> bool" where
  "plain_ascii T \<longleftrightarrow> (\<forall>c. 33 \<le> c \<and> c \<le> 126 \<longrightarrow> \<not> u_space T c)"

lemma strip_plain:
  assumes "plain_ascii T" "s \<noteq> []" "33 \<le> (of_char (hd s) :: nat)" "(of_char (hd s) :: nat) \<le> 126"
    "33 \<le> (of_char (last s) :: nat)" "(of_char (last s) :: nat) \<le> 126"
  shows "py_strip T (u s) = u s"
  using assms by (intro py_strip_same) (auto simp: plain_ascii_def u_def hd_map last_map)

lemma strip_models:
  assumes "plain_ascii T"
  shows "py_strip T (u ''not_configured'') = (u ''not_configured'')" "py_strip T (u ''qwen3-8b'') = (u ''qwen3-8b'')"
    "py_strip T (u ''qwen3-14b'') = (u ''qwen3-14b'')" "py_strip T (u ''deepseek-chat'') = (u ''deepseek-chat'')"
    "py_strip T (u ''claude-sonnet-4-6'') = (u ''claude-sonnet-4-6'')" "py_strip T (u ''qwen3_profiles_v1'') = (u ''qwen3_profiles_v1'')"
  by (rule strip_plain[OF assms]; simp)+

lemma first_non_empty_stripped:
  assumes "py_strip T (u d) = u d" "d \<noteq> []"
  shows "py_strip T (first_non_empty_env T E names d) = first_non_empty_env T E names d" "first_non_empty_env T E names d \<noteq> []"
proof -
  have "first_non_empty_env T E names d = u d \<or> (\<exists>name. first_non_empty_env T E names d = env_text T E name [] \<and> env_text T E name [] \<noteq> [])"
  proof (cases "filter (\<lambda>v. v \<noteq> []) (map (\<lambda>name. env_text T E name []) names)")
    case (Cons v vs)
    then have "v \<in> set (filter (\<lambda>v. v \<noteq> []) (map (\<lambda>name. env_text T E name []) names))" by simp
    then have "v \<in> (\<lambda>name. env_text T E name []) ` set names" "v \<noteq> []"
      by auto
    then show ?thesis using Cons by (auto simp: first_non_empty_env_def)
  qed (simp add: first_non_empty_env_def)
  then show "py_strip T (first_non_empty_env T E names d) = first_non_empty_env T E names d" "first_non_empty_env T E names d \<noteq> []"
    using assms by (auto simp: env_text_def)
qed

lemma env_text_or_stripped:
  "py_strip T (u d) = u d \<Longrightarrow> d \<noteq> [] \<Longrightarrow> py_strip T (env_text_or T E name d) = env_text_or T E name d \<and> env_text_or T E name d \<noteq> []"
  by (auto simp: env_text_or_def env_text_def Let_def)

lemma standard_model_stripped:
  assumes "plain_ascii T"
  shows "py_strip T (snd (standard_of T E)) = snd (standard_of T E)" "snd (standard_of T E) \<noteq> []"
    "fst (standard_of T E) \<noteq> ProviderNotConfigured"
  using strip_models[OF assms] first_non_empty_stripped env_text_or_stripped
  by (auto simp: standard_of_def simp del: u_Cons)

lemma stable_defaults [simp]:
  "stable_capabilities [] = []" "stable_capabilities [CHAT, TOOL_CALLING, STRUCTURED_OUTPUT] = [CHAT, TOOL_CALLING, STRUCTURED_OUTPUT]"
  "stable_capabilities [CHAT, STRUCTURED_OUTPUT, THINKING] = [CHAT, STRUCTURED_OUTPUT, THINKING]"
  by (simp_all add: stable_capabilities_def MODEL_CAPABILITIES_def)

lemmas default_profiles = default_lightweight_def default_standard_def default_advanced_def default_evaluator_def

definition registry_with :: "llm_limits \<Rightarrow> model_profile_config \<Rightarrow> model_profile_config \<Rightarrow> model_profile_config \<Rightarrow> model_registry" where
  "registry_with l standard advanced evaluator =
     \<lparr>mr_lightweight = default_lightweight l, mr_standard = standard, mr_advanced = advanced, mr_evaluator = evaluator,
      mr_registry_version = (u ''qwen3_profiles_v1''), mr_default_profile = ProfileStandard\<rparr>"

lemma default_model_registry_eq:
  assumes "plain_ascii T"
  shows "default_model_registry T l =
    (if limits_ok l then Inr (registry_with l (default_standard l) (default_advanced l) (default_evaluator l)) else Inl ValidationError)"
proof -
  note strips = strip_models[OF assms]
  have deadline: "limits_ok l \<Longrightarrow> \<not> ll_overall_deadline_seconds l \<le> 0" by (simp add: limits_ok_def)
  have "mk_profile T (default_lightweight l) = (if limits_ok l then Inr (default_lightweight l) else Inl ValidationError)"
    "mk_profile T (default_standard l) = (if limits_ok l then Inr (default_standard l) else Inl ValidationError)"
    "mk_profile T (default_advanced l) = (if limits_ok l then Inr (default_advanced l) else Inl ValidationError)"
    "mk_profile T (default_evaluator l) = (if limits_ok l then Inr (default_evaluator l) else Inl ValidationError)"
    using strips deadline
    by (simp_all add: mk_profile_def validate_profile_def default_profiles not_configured_def Let_def del: u_Cons)
  moreover have "mk_registry T (registry_with l (default_standard l) (default_advanced l) (default_evaluator l))
      = Inr (registry_with l (default_standard l) (default_advanced l) (default_evaluator l))"
    using strips
    by (simp add: mk_registry_def registry_with_def validate_slots_def resolve_runtime_def resolve_def MODEL_PROFILES_def
        default_profiles Let_def del: u_Cons)
  ultimately show ?thesis by (simp add: default_model_registry_def registry_with_def[symmetric] del: u_Cons)
qed

text \<open>The settings of the environment that the validators accept.\<close>

definition switches_ok :: "ucd \<Rightarrow> environment \<Rightarrow> bool" where
  "switches_ok T E \<longleftrightarrow>
     env_bool T E ''CONVAGENT_LLM_STANDARD_ENABLED'' True \<and> \<not> env_bool T E ''CONVAGENT_LLM_STANDARD_THINKING'' False
     \<and> env_bool T E ''CONVAGENT_LLM_ADVANCED_ENABLED'' True \<and> \<not> env_bool T E ''CONVAGENT_LLM_ADVANCED_THINKING'' False
     \<and> env_bool T E ''CONVAGENT_LLM_EVALUATOR_ENABLED'' True
     \<and> getenv E ''CONVAGENT_LLM_DEFAULT_PROFILE'' ''standard'' = (u ''standard'')
     \<and> not_configured \<notin> {snd (standard_of T E), first_non_empty_env T E [''CONVAGENT_LLM_ADVANCED_MODEL''] ''qwen3-14b'',
          first_non_empty_env T E [''CONVAGENT_LLM_EVALUATOR_MODEL''] ''qwen3-14b''}"

definition environment_registry :: "ucd \<Rightarrow> environment \<Rightarrow> llm_limits \<Rightarrow> model_registry" where
  "environment_registry T E l =
     registry_with l (standard_from T E (default_standard l)) (advanced_from T E (default_advanced l))
       (evaluator_from T E (default_evaluator l))"

lemma profile_from_environment:
  assumes "plain_ascii T" "limits_ok l"
  shows "mk_profile T (standard_from T E (default_standard l)) = Inr c \<longleftrightarrow>
      c = standard_from T E (default_standard l) \<and> env_bool T E ''CONVAGENT_LLM_STANDARD_ENABLED'' True
      \<and> \<not> env_bool T E ''CONVAGENT_LLM_STANDARD_THINKING'' False \<and> snd (standard_of T E) \<noteq> not_configured"
    and "mk_profile T (advanced_from T E (default_advanced l)) = Inr c \<longleftrightarrow>
      c = advanced_from T E (default_advanced l) \<and> env_bool T E ''CONVAGENT_LLM_ADVANCED_ENABLED'' True
      \<and> \<not> env_bool T E ''CONVAGENT_LLM_ADVANCED_THINKING'' False
      \<and> first_non_empty_env T E [''CONVAGENT_LLM_ADVANCED_MODEL''] ''qwen3-14b'' \<noteq> not_configured"
    and "mk_profile T (evaluator_from T E (default_evaluator l)) = Inr c \<longleftrightarrow>
      c = evaluator_from T E (default_evaluator l) \<and> env_bool T E ''CONVAGENT_LLM_EVALUATOR_ENABLED'' True
      \<and> first_non_empty_env T E [''CONVAGENT_LLM_EVALUATOR_MODEL''] ''qwen3-14b'' \<noteq> not_configured"
proof -
  have deadline: "\<not> ll_overall_deadline_seconds l \<le> 0" using assms(2) by (simp add: limits_ok_def)
  note first = first_non_empty_stripped[OF strip_models(3)[OF assms(1)]]
  show "mk_profile T (standard_from T E (default_standard l)) = Inr c \<longleftrightarrow>
      c = standard_from T E (default_standard l) \<and> env_bool T E ''CONVAGENT_LLM_STANDARD_ENABLED'' True
      \<and> \<not> env_bool T E ''CONVAGENT_LLM_STANDARD_THINKING'' False \<and> snd (standard_of T E) \<noteq> not_configured"
    using standard_model_stripped[OF assms(1), of E] assms(2) deadline
    by (auto simp: mk_profile_def standard_from_def default_profiles Let_def validate_profile_def simp del: u_Cons)
  show "mk_profile T (advanced_from T E (default_advanced l)) = Inr c \<longleftrightarrow>
      c = advanced_from T E (default_advanced l) \<and> env_bool T E ''CONVAGENT_LLM_ADVANCED_ENABLED'' True
      \<and> \<not> env_bool T E ''CONVAGENT_LLM_ADVANCED_THINKING'' False
      \<and> first_non_empty_env T E [''CONVAGENT_LLM_ADVANCED_MODEL''] ''qwen3-14b'' \<noteq> not_configured"
    using first[of E "[''CONVAGENT_LLM_ADVANCED_MODEL'']"] assms(2) deadline
    by (auto simp: mk_profile_def advanced_from_def default_profiles Let_def validate_profile_def simp del: u_Cons)
  show "mk_profile T (evaluator_from T E (default_evaluator l)) = Inr c \<longleftrightarrow>
      c = evaluator_from T E (default_evaluator l) \<and> env_bool T E ''CONVAGENT_LLM_EVALUATOR_ENABLED'' True
      \<and> first_non_empty_env T E [''CONVAGENT_LLM_EVALUATOR_MODEL''] ''qwen3-14b'' \<noteq> not_configured"
    using first[of E "[''CONVAGENT_LLM_EVALUATOR_MODEL'']"] assms(2) deadline
    by (auto simp: mk_profile_def evaluator_from_def default_profiles Let_def validate_profile_def simp del: u_Cons)
qed

lemma runtime_slots:
  "switches_ok T E \<Longrightarrow> resolve_runtime (environment_registry T E l) p = Inr c \<longleftrightarrow>
     p = ProfileStandard \<and> c = standard_from T E (default_standard l)"
  by (cases p) (auto simp: switches_ok_def environment_registry_def registry_with_def resolve_runtime_def resolve_def
      standard_from_def advanced_from_def evaluator_from_def default_profiles simp del: u_Cons)

text \<open>
  C30: what the environment can set. The registry is built exactly when the numbers keep their bounds,
  the three profiles are enabled, only the evaluator may think, the default profile is the standard
  one and no model has the name of the sentinel; every other environment is refused. The registry
  that is built has one profile that code can select at run time, so a route that passes the
  validation goes to the standard profile, names its provider and model, and has no fallback.
\<close>

theorem registry_exact:
  assumes "plain_ascii T"
  shows "(build_model_registry T N E = Inr r \<longleftrightarrow>
      (\<exists>l. read_limits N E = Inr l \<and> limits_ok l \<and> switches_ok T E \<and> r = environment_registry T E l))
    \<and> (build_model_registry T N E = Inr r \<and> mk_route_decision T d = Inr d' \<and> validate_route r d' = Inr c \<longrightarrow>
      md_selected_profile d' = ProfileStandard \<and> md_fallback_profile d' = None \<and> c = mr_standard r
      \<and> md_provider d' = fst (standard_of T E) \<and> md_model d' = snd (standard_of T E) \<and> \<not> md_enable_thinking d'
      \<and> CHAT \<in> set (mc_capabilities c) \<and> limits_ok (mc_limits c))"
proof -
  have version: "py_strip T (u ''qwen3_profiles_v1'') = (u ''qwen3_profiles_v1'')" by (rule strip_models[OF assms])
  have enum: "enum_of PROFILE_VALUES v = Inr ProfileStandard \<longleftrightarrow> v = (u ''standard'')" for v
    by (auto simp: enum_of_def PROFILE_VALUES_def simp del: u_Cons)
  have registry: "mk_registry T (registry_with l (standard_from T E (default_standard l)) (advanced_from T E (default_advanced l))
      (evaluator_from T E (default_evaluator l))\<lparr>mr_default_profile := p\<rparr>) = Inr r' \<longleftrightarrow>
      p = ProfileStandard \<and> r' = environment_registry T E l"
    if "env_bool T E ''CONVAGENT_LLM_STANDARD_ENABLED'' True" for p l r'
    using version that
    by (cases p) (auto simp: mk_registry_def registry_with_def validate_slots_def MODEL_PROFILES_def resolve_runtime_def resolve_def
      standard_from_def advanced_from_def evaluator_from_def default_profiles environment_registry_def Let_def simp del: u_Cons)
  have exact: "build_model_registry T N E = Inr r \<longleftrightarrow>
      (\<exists>l. read_limits N E = Inr l \<and> limits_ok l \<and> switches_ok T E \<and> r = environment_registry T E l)"
    using registry profile_from_environment[OF assms] enum
    by (auto simp: build_model_registry_def bind_res_Inr_iff default_model_registry_eq[OF assms] registry_with_def switches_ok_def
        simp del: u_Cons split: if_splits)
  moreover have "md_selected_profile d' = ProfileStandard \<and> md_fallback_profile d' = None \<and> c = mr_standard r
      \<and> md_provider d' = fst (standard_of T E) \<and> md_model d' = snd (standard_of T E) \<and> \<not> md_enable_thinking d'
      \<and> CHAT \<in> set (mc_capabilities c) \<and> limits_ok (mc_limits c)"
    if "build_model_registry T N E = Inr r" "mk_route_decision T d = Inr d'" "validate_route r d' = Inr c"
    using that runtime_slots[of T E]
    by (auto simp: exact mk_route_decision_def validate_route_def environment_registry_def registry_with_def standard_from_def
      default_profiles switches_ok_def Let_def simp del: u_Cons split: if_splits sum.splits option.splits)
  ultimately show ?thesis by blast
qed

definition demo_reader :: number_reader where
  "demo_reader = (let digits = foldl (\<lambda>n c. 10 * n + int c - 48) 0
     in \<lparr>nr_int = (\<lambda>s. Inr (digits s)), nr_float = (\<lambda>s. Inr (of_int (digits s)))\<rparr>)"

definition demo_limits :: llm_limits where
  "demo_limits =
     \<lparr>ll_timeout_seconds = 30, ll_max_retries = 2, ll_read_timeout_max_retries = 1, ll_retry_total_budget_seconds = 10,
      ll_overall_deadline_seconds = 45, ll_max_output_tokens = 4096\<rparr>"

definition demo_route :: model_route_decision where
  "demo_route =
     \<lparr>md_task_name = TaskQa, md_selected_profile = ProfileStandard, md_provider = ProviderDashscope, md_model = (u ''qwen3-8b''),
      md_enable_thinking = False, md_reason = (u ''default''), md_fallback_profile = None, md_routing_policy_version = (u ''v1'')\<rparr>"

text \<open>Nothing is set; then the advanced profile is disabled, which no registry survives.\<close>

theorem registry_exact_witness:
  "(\<exists>r. build_model_registry basic_ucd demo_reader (\<lambda>name. None) = Inr r
      \<and> validate_route r demo_route = Inr (mr_standard r) \<and> mc_model (mr_standard r) = (u ''qwen3-8b''))
    \<and> (\<forall>r. build_model_registry basic_ucd demo_reader
        ((\<lambda>name. None)(''CONVAGENT_LLM_ADVANCED_ENABLED'' := Some (u ''false''))) \<noteq> Inr r)"
proof -
  have plain: "plain_ascii basic_ucd" by (auto simp: plain_ascii_def basic_ucd_def)
  let ?E = "\<lambda>name :: string. None :: pystr option"
  let ?r = "environment_registry basic_ucd ?E demo_limits"
  have standard: "standard_of basic_ucd ?E = (ProviderDashscope, (u ''qwen3-8b''))"
    by (simp add: standard_of_def llm_provider_def env_text_or_def env_text_def getenv_def first_non_empty_env_def
        py_strip_def py_rstrip_def basic_ucd_def Let_def)
  have "read_limits demo_reader ?E = Inr demo_limits" "limits_ok demo_limits"
    by (simp_all add: read_limits_def env_float_def env_int_def getenv_def demo_reader_def Let_def demo_limits_def limits_ok_def)
  moreover have "switches_ok basic_ucd ?E"
    using standard
    by (simp add: switches_ok_def env_bool_def getenv_def not_configured_def first_non_empty_env_def env_text_def
        py_strip_def py_rstrip_def del: u_Cons)
  ultimately have r: "build_model_registry basic_ucd demo_reader ?E = Inr ?r" using registry_exact[OF plain] by blast
  have d: "mk_route_decision basic_ucd demo_route = Inr demo_route"
    by (simp add: mk_route_decision_def demo_route_def py_strip_def py_rstrip_def basic_ucd_def Let_def)
  have "mc_model (mr_standard ?r) = (u ''qwen3-8b'')" "mc_provider (mr_standard ?r) = ProviderDashscope" "\<not> mc_enable_thinking (mr_standard ?r)"
    "resolve_runtime ?r ProfileStandard = Inr (mr_standard ?r)"
    using standard
    by (simp_all add: environment_registry_def registry_with_def standard_from_def resolve_runtime_def resolve_def env_bool_def)
  then have "\<exists>c. validate_route ?r demo_route = Inr c" by (simp add: validate_route_def demo_route_def)
  then have "validate_route ?r demo_route = Inr (mr_standard ?r)" using registry_exact[OF plain] r d by blast
  moreover have "\<not> switches_ok basic_ucd (?E(''CONVAGENT_LLM_ADVANCED_ENABLED'' := Some (u ''false'')))"
    by (simp add: switches_ok_def env_bool_def py_strip_def py_rstrip_def basic_ucd_def basic_lower_cp_def)
  ultimately show ?thesis using r registry_exact[OF plain] \<open>mc_model (mr_standard ?r) = (u ''qwen3-8b'')\<close> by blast
qed

text \<open>No DeepSeek client is configured, so the factory refuses it outside the demo mode, whatever the key.\<close>

lemma deepseek_never_created:
  assumes "resolve_runtime (lc_registry cfg) p = Inr c" "mc_provider c = ProviderDeepseek" "mode \<in> {TEST, PRODUCTION}"
  shows "create_llm_client T E mode G (Some cfg) p = Inl (LLMConfiguration (u ''LLM provider deepseek is not configured''))"
  using assms by (simp add: create_llm_client_def new_deepseek_def)

end
