(* ===== verification/Dashscope_Client.thy ===== *)
theory Dashscope_Client
  imports Llm_Models Rag_Clients
begin

text \<open>
  \<open>llm/base.py\<close> and \<open>llm/dashscope_client.py\<close>: what a client answers, the conversion of tools and messages,
  the request with its retries, and the reading of the response. The server, the clocks and the source of
  jitter are sequences that the model reads one after the other; what was posted and slept is recorded.
\<close>

section \<open>Answers of a client\<close>

record tool_call =
  tc_id :: pystr
  tc_name :: pystr
  tc_input :: "(pystr \<times> pyval) list"

record llm_response =
  lr_text :: pystr
  lr_tool_calls :: "tool_call list"
  lr_input_tokens :: int
  lr_output_tokens :: int
  lr_cost_usd :: rat
  lr_model :: pystr
  lr_finish_reason :: pystr

definition FINISH_TOOL_CALLS :: pystr where "FINISH_TOOL_CALLS = (u ''tool_calls'')"
definition FINISH_MISSING_API_KEY :: pystr where "FINISH_MISSING_API_KEY = (u ''missing_api_key'')"
definition FINISH_UNSUPPORTED_CAPABILITY :: pystr where "FINISH_UNSUPPORTED_CAPABILITY = (u ''unsupported_capability'')"
definition FINISH_INVALID_TOOL_SCHEMA :: pystr where "FINISH_INVALID_TOOL_SCHEMA = (u ''invalid_tool_schema'')"
definition FINISH_INVALID_TOOL_CALL :: pystr where "FINISH_INVALID_TOOL_CALL = (u ''invalid_tool_call'')"
definition FINISH_HTTP_ERROR :: pystr where "FINISH_HTTP_ERROR = (u ''http_error'')"
definition FINISH_TIMEOUT :: pystr where "FINISH_TIMEOUT = (u ''timeout'')"
definition FINISH_INVALID_RESPONSE :: pystr where "FINISH_INVALID_RESPONSE = (u ''invalid_response'')"

lemmas finish_defs = FINISH_TOOL_CALLS_def FINISH_MISSING_API_KEY_def FINISH_UNSUPPORTED_CAPABILITY_def
  FINISH_INVALID_TOOL_SCHEMA_def FINISH_INVALID_TOOL_CALL_def FINISH_HTTP_ERROR_def FINISH_TIMEOUT_def FINISH_INVALID_RESPONSE_def

definition TERMINAL_CLIENT_FAILURES :: "pystr list" where
  "TERMINAL_CLIENT_FAILURES =
     [FINISH_MISSING_API_KEY, FINISH_UNSUPPORTED_CAPABILITY, FINISH_INVALID_TOOL_SCHEMA, FINISH_INVALID_TOOL_CALL,
      FINISH_HTTP_ERROR, FINISH_TIMEOUT, FINISH_INVALID_RESPONSE]"

definition is_terminal_client_failure :: "llm_response \<Rightarrow> bool" where
  "is_terminal_client_failure r \<longleftrightarrow> lr_finish_reason r \<in> set TERMINAL_CLIENT_FAILURES"

definition failure :: "pystr \<Rightarrow> pystr \<Rightarrow> pystr \<Rightarrow> llm_response" where
  "failure model reason message =
     \<lparr>lr_text = message, lr_tool_calls = [], lr_input_tokens = 0, lr_output_tokens = 0, lr_cost_usd = 0,
      lr_model = model, lr_finish_reason = reason\<rparr>"

section \<open>The client and its surroundings\<close>

text \<open>
  Parameters of the standard library: \<open>json.loads\<close> and \<open>json.dumps\<close> with the text of their \<open>ValueError\<close>
  or \<open>TypeError\<close>, and \<open>parsedate_to_datetime\<close>, \<open>None\<close> for an error. \<open>hs_json\<close> is \<open>response.json()\<close>,
  \<open>None\<close> for a \<open>ValueError\<close>.
\<close>

record chat_library =
  cb_library :: library
  cb_loads :: "pystr \<Rightarrow> pystr + pyval"
  cb_dumps :: "pyval \<Rightarrow> pystr + pystr"
  cb_parsedate :: "pystr \<Rightarrow> datetime option"

record chat_response =
  hs_status :: int
  hs_json :: "pyval option"
  hs_retry_after :: "pystr option"

datatype post_outcome =
    Posted chat_response | ReadTimedOut | ConnectFailed | OtherTimeout | OtherHttpError | OtherFailure

record chat_world =
  cw_opens :: bool
  cw_server :: "pyval \<Rightarrow> nat \<Rightarrow> post_outcome"
  cw_clock :: "nat \<Rightarrow> rat"
  cw_wall :: "nat \<Rightarrow> datetime"
  cw_jitter :: "nat \<Rightarrow> rat"
  cw_clock_read :: nat
  cw_wall_read :: nat
  cw_jitter_read :: nat
  cw_posts :: "rat list"
  cw_sleeps :: "rat list"

record dashscope_client =
  ds_profile :: model_profile_config
  ds_api_key :: pystr

definition read_clock :: "chat_world \<Rightarrow> rat \<times> chat_world" where
  "read_clock w = (cw_clock w (cw_clock_read w), w\<lparr>cw_clock_read := Suc (cw_clock_read w)\<rparr>)"

definition read_wall :: "chat_world \<Rightarrow> datetime \<times> chat_world" where
  "read_wall w = (cw_wall w (cw_wall_read w), w\<lparr>cw_wall_read := Suc (cw_wall_read w)\<rparr>)"

definition read_jitter :: "chat_world \<Rightarrow> rat \<times> chat_world" where
  "read_jitter w = (cw_jitter w (cw_jitter_read w), w\<lparr>cw_jitter_read := Suc (cw_jitter_read w)\<rparr>)"

definition post_chat :: "pyval \<Rightarrow> rat \<Rightarrow> chat_world \<Rightarrow> post_outcome \<times> chat_world" where
  "post_chat payload timeout w =
     (cw_server w payload (length (cw_posts w)), w\<lparr>cw_posts := cw_posts w @ [timeout]\<rparr>)"

definition sleep_for :: "rat \<Rightarrow> chat_world \<Rightarrow> chat_world" where
  "sleep_for d w = w\<lparr>cw_sleeps := cw_sleeps w @ [d]\<rparr>"

section \<open>Tools and messages\<close>

text \<open>What the conversion raises: an error that \<open>call\<close> catches, with its text, or an \<open>AttributeError\<close>.\<close>

datatype schema_error = Caught pystr | Escapes

definition bind_schema :: "schema_error + 'a \<Rightarrow> ('a \<Rightarrow> schema_error + 'b) \<Rightarrow> schema_error + 'b" where
  "bind_schema m f = (case m of Inl e \<Rightarrow> Inl e | Inr x \<Rightarrow> f x)"

fun map_schema :: "('a \<Rightarrow> schema_error + 'b) \<Rightarrow> 'a list \<Rightarrow> schema_error + 'b list" where
  "map_schema f [] = Inr []"
| "map_schema f (x # xs) = bind_schema (f x) (\<lambda>y. bind_schema (map_schema f xs) (\<lambda>ys. Inr (y # ys)))"

definition has_text :: "ucd \<Rightarrow> pyval \<Rightarrow> bool" where
  "has_text T v \<longleftrightarrow> (case v of PStr s \<Rightarrow> py_strip T s \<noteq> [] | _ \<Rightarrow> False)"

definition is_str :: "pyval \<Rightarrow> bool" where
  "is_str v \<longleftrightarrow> (case v of PStr s \<Rightarrow> True | _ \<Rightarrow> False)"

definition to_openai_tool :: "ucd \<Rightarrow> pyval \<Rightarrow> schema_error + pyval" where
  "to_openai_tool T tool =
     (case tool of
        PDict d \<Rightarrow>
          let name = member_of d (u ''name''); description = member_of d (u ''description''); schema = member_of d (u ''input_schema'')
          in if \<not> has_text T name then Inl (Caught (u ''tool name is required''))
             else if description \<noteq> PNone \<and> \<not> is_str description then Inl (Caught (u ''tool description must be a string''))
             else (case schema of
                     PDict s \<Rightarrow>
                       if member_of s (u ''type'') \<noteq> PStr (u ''object'') then Inl (Caught (u ''tool input_schema must be an object schema''))
                       else Inr (PDict [((u ''type''), PStr (u ''function'')),
                              ((u ''function''), PDict ([((u ''name''), name), ((u ''parameters''), PDict s)]
                                 @ (if description \<noteq> PNone then [((u ''description''), description)] else [])))])
                   | _ \<Rightarrow> Inl (Caught (u ''tool input_schema must be an object schema'')))
      | _ \<Rightarrow> Inl (Caught (u ''tool definition must be an object'')))"

definition to_openai_tools :: "ucd \<Rightarrow> pyval list option \<Rightarrow> schema_error + pyval list" where
  "to_openai_tools T tools = (case tools of None \<Rightarrow> Inr [] | Some ts \<Rightarrow> map_schema (to_openai_tool T) ts)"

text \<open>\<open>message.get(name, default)\<close>, \<open>block[name]\<close> with the text of its \<open>KeyError\<close>, and the type of a block.\<close>

definition get_or :: "(pystr \<times> pyval) list \<Rightarrow> pystr \<Rightarrow> pyval \<Rightarrow> pyval" where
  "get_or d name default_value = (case map_of d name of None \<Rightarrow> default_value | Some v \<Rightarrow> v)"

definition item_of :: "(pystr \<times> pyval) list \<Rightarrow> pystr \<Rightarrow> schema_error + pyval" where
  "item_of d name = (case map_of d name of None \<Rightarrow> Inl (Caught ([39] @ name @ [39])) | Some v \<Rightarrow> Inr v)"

definition as_block :: "pyval \<Rightarrow> schema_error + (pystr \<times> pyval) list" where
  "as_block v = (case v of PDict d \<Rightarrow> Inr d | _ \<Rightarrow> Inl Escapes)"

definition block_type :: "(pystr \<times> pyval) list \<Rightarrow> pyval" where
  "block_type d = member_of d (u ''type'')"

definition tool_use_message :: "chat_library \<Rightarrow> (pystr \<times> pyval) list \<Rightarrow> schema_error + pyval" where
  "tool_use_message B d =
     bind_schema (item_of d (u ''id'')) (\<lambda>i.
     bind_schema (item_of d (u ''name'')) (\<lambda>name.
     case cb_dumps B (get_or d (u ''input'') (PDict [])) of
       Inl message \<Rightarrow> Inl (Caught message)
     | Inr arguments \<Rightarrow>
         Inr (PDict [((u ''id''), i), ((u ''type''), PStr (u ''function'')),
           ((u ''function''), PDict [((u ''name''), name), ((u ''arguments''), PStr arguments)])])))"

definition tool_result_message :: "chat_library \<Rightarrow> (pystr \<times> pyval) list \<Rightarrow> schema_error + pyval" where
  "tool_result_message B d =
     bind_schema (item_of d (u ''tool_use_id'')) (\<lambda>i.
     Inr (PDict [((u ''role''), PStr (u ''tool'')), ((u ''tool_call_id''), i),
       ((u ''content''), PStr (py_str (cb_library B) (get_or d (u ''content'') (PStr []))))]))"

definition to_openai_message :: "chat_library \<Rightarrow> pyval \<Rightarrow> schema_error + pyval list" where
  "to_openai_message B message =
     (case message of
        PDict m \<Rightarrow>
          let role = get_or m (u ''role'') (PStr (u ''user'')); content = get_or m (u ''content'') (PStr [])
          in (case content of
                PStr s \<Rightarrow> Inr [PDict [((u ''role''), role), ((u ''content''), content)]]
              | PList items \<Rightarrow>
                  bind_schema (map_schema as_block items) (\<lambda>blocks.
                  let tool_uses = filter (\<lambda>d. block_type d = PStr (u ''tool_use'')) blocks;
                      tool_results = filter (\<lambda>d. block_type d = PStr (u ''tool_result'')) blocks;
                      text' = py_join [10] (map (\<lambda>d. py_str (cb_library B) (get_or d (u ''text'') (PStr [])))
                        (filter (\<lambda>d. block_type d = PStr (u ''text'')) blocks))
                  in bind_schema
                       (if tool_uses \<noteq> [] then
                          bind_schema (map_schema (tool_use_message B) tool_uses) (\<lambda>calls.
                          Inr [PDict [((u ''role''), PStr (u ''assistant'')), ((u ''content''), if text' = [] then PNone else PStr text'),
                                 ((u ''tool_calls''), PList calls)]])
                        else if text' \<noteq> [] then Inr [PDict [((u ''role''), role), ((u ''content''), PStr text')]]
                        else Inr [])
                       (\<lambda>first. bind_schema (map_schema (tool_result_message B) tool_results) (\<lambda>results. Inr (first @ results))))
              | _ \<Rightarrow> Inl (Caught (u ''message content must be text or a block list'')))
      | _ \<Rightarrow> Inl (Caught (u ''message must be an object'')))"

definition to_openai_messages :: "chat_library \<Rightarrow> pyval list \<Rightarrow> pystr \<Rightarrow> schema_error + pyval list" where
  "to_openai_messages B messages system =
     bind_schema (map_schema (to_openai_message B) messages) (\<lambda>ms.
     Inr ((if system \<noteq> [] then [PDict [((u ''role''), PStr (u ''system'')), ((u ''content''), PStr system)]] else []) @ concat ms))"

section \<open>Reading the response\<close>

definition safe_int :: "pyval \<Rightarrow> int" where
  "safe_int v = (case v of PInt n \<Rightarrow> if 0 \<le> n then n else 0 | PBool b \<Rightarrow> of_bool b | _ \<Rightarrow> 0)"

definition parse_tool_call :: "chat_library \<Rightarrow> pyval \<Rightarrow> pystr + tool_call" where
  "parse_tool_call B v =
     (let T = lib_ucd (cb_library B)
      in case v of
           PDict d \<Rightarrow>
             (case member_of d (u ''id'') of
                PStr call_id \<Rightarrow>
                  if py_strip T call_id = [] then Inl (u ''tool call id is required'')
                  else (case member_of d (u ''function'') of
                          PDict f \<Rightarrow>
                            (case member_of f (u ''name'') of
                               PStr name \<Rightarrow>
                                 if py_strip T name = [] then Inl (u ''function name is required'')
                                 else (case member_of f (u ''arguments'') of
                                         PStr arguments \<Rightarrow>
                                           (case cb_loads B arguments of
                                              Inl message \<Rightarrow> Inl message
                                            | Inr (PDict input) \<Rightarrow> Inr \<lparr>tc_id = call_id, tc_name = name, tc_input = input\<rparr>
                                            | Inr _ \<Rightarrow> Inl (u ''function arguments must decode to an object''))
                                       | _ \<Rightarrow> Inl (u ''function arguments must be a JSON string''))
                             | _ \<Rightarrow> Inl (u ''function name is required''))
                        | _ \<Rightarrow> Inl (u ''tool call function is required''))
              | _ \<Rightarrow> Inl (u ''tool call id is required''))
         | _ \<Rightarrow> Inl (u ''tool call must be an object''))"

fun parse_tool_calls :: "chat_library \<Rightarrow> pyval list \<Rightarrow> pystr + tool_call list" where
  "parse_tool_calls B [] = Inr []"
| "parse_tool_calls B (v # vs) =
     (case parse_tool_call B v of
        Inl message \<Rightarrow> Inl message
      | Inr c \<Rightarrow> (case parse_tool_calls B vs of Inl message \<Rightarrow> Inl message | Inr cs \<Rightarrow> Inr (c # cs)))"

definition ds_failure :: "dashscope_client \<Rightarrow> pystr \<Rightarrow> pystr \<Rightarrow> llm_response" where
  "ds_failure C reason message = failure (mc_model (ds_profile C)) reason message"

definition chat_answer ::
  "chat_library \<Rightarrow> dashscope_client \<Rightarrow> (pystr \<times> pyval) list \<Rightarrow> (pystr \<times> pyval) list \<Rightarrow> pystr \<Rightarrow> tool_call list \<Rightarrow> llm_response" where
  "chat_answer B C data choice answer calls =
     (let usage = (case get_or data (u ''usage'') (PDict []) of PDict d \<Rightarrow> d | _ \<Rightarrow> [])
      in \<lparr>lr_text = answer, lr_tool_calls = calls,
          lr_input_tokens = safe_int (member_of usage (u ''prompt_tokens'')),
          lr_output_tokens = safe_int (member_of usage (u ''completion_tokens'')), lr_cost_usd = 0,
          lr_model = or_text (cb_library B) (member_of data (u ''model'')) (mc_model (ds_profile C)),
          lr_finish_reason = (if calls \<noteq> [] then FINISH_TOOL_CALLS
                              else or_text (cb_library B) (member_of choice (u ''finish_reason'')) (u ''stop''))\<rparr>)"

definition parse_message ::
  "chat_library \<Rightarrow> dashscope_client \<Rightarrow> (pystr \<times> pyval) list \<Rightarrow> (pystr \<times> pyval) list \<Rightarrow> (pystr \<times> pyval) list \<Rightarrow> llm_response" where
  "parse_message B C data choice message =
     (case (case member_of message (u ''content'') of PNone \<Rightarrow> Some [] | PStr s \<Rightarrow> Some s | _ \<Rightarrow> None) of
        None \<Rightarrow> ds_failure C FINISH_INVALID_RESPONSE (u ''DashScope content must be text or null.'')
      | Some answer \<Rightarrow>
          (case (case get_or message (u ''tool_calls'') (PList []) of PNone \<Rightarrow> Some [] | PList vs \<Rightarrow> Some vs | _ \<Rightarrow> None) of
             None \<Rightarrow> ds_failure C FINISH_INVALID_TOOL_CALL (u ''tool_calls must be a list.'')
           | Some vs \<Rightarrow>
               (case parse_tool_calls B vs of
                  Inl reason \<Rightarrow> ds_failure C FINISH_INVALID_TOOL_CALL ((u ''Invalid tool call: '') @ reason)
                | Inr calls \<Rightarrow> chat_answer B C data choice answer calls)))"

definition parse_response :: "chat_library \<Rightarrow> dashscope_client \<Rightarrow> chat_response \<Rightarrow> llm_response" where
  "parse_response B C response =
     (case hs_json response of
        None \<Rightarrow> ds_failure C FINISH_INVALID_RESPONSE (u ''DashScope returned invalid JSON.'')
      | Some (PDict data) \<Rightarrow>
          (case member_of data (u ''choices'') of
             PList (PDict choice # rest) \<Rightarrow>
               (case member_of choice (u ''message'') of
                  PDict message \<Rightarrow> parse_message B C data choice message
                | _ \<Rightarrow> ds_failure C FINISH_INVALID_RESPONSE (u ''DashScope response has no message.''))
           | _ \<Rightarrow> ds_failure C FINISH_INVALID_RESPONSE (u ''DashScope response has no valid choice.''))
      | Some _ \<Rightarrow> ds_failure C FINISH_INVALID_RESPONSE (u ''DashScope response must be an object.''))"

section \<open>Retries\<close>

definition is_retryable_status :: "int \<Rightarrow> bool" where
  "is_retryable_status n \<longleftrightarrow> n = 408 \<or> n = 429 \<or> 500 \<le> n \<and> n \<le> 599"

text \<open>\<open>max(0.0, x)\<close>: a comparison with NaN fails.\<close>

fun max_zero :: "pyfloat \<Rightarrow> pyfloat" where
  "max_zero (Fin x) = Fin (max 0 x)"
| "max_zero (NonFinite PosInfinity) = NonFinite PosInfinity"
| "max_zero (NonFinite n) = Fin 0"

definition aware :: "datetime \<Rightarrow> datetime" where
  "aware d = (if utc_offset d = None then d\<lparr>utc_offset := Some 0\<rparr> else d)"

definition retry_delay :: "chat_library \<Rightarrow> chat_response option \<Rightarrow> nat \<Rightarrow> chat_world \<Rightarrow> pyfloat \<times> chat_world" where
  "retry_delay B response k w =
     (let backoff = (case read_jitter w of (j, w') \<Rightarrow> (Fin (fl (2 ^ k / 2 + max 0 j)), w'))
      in case response of
           None \<Rightarrow> backoff
         | Some r \<Rightarrow>
             (case hs_retry_after r of
                None \<Rightarrow> backoff
              | Some [] \<Rightarrow> backoff
              | Some header \<Rightarrow>
                  (let v = py_strip (lib_ucd (cb_library B)) header
                   in case lib_float (cb_library B) v of
                        Some x \<Rightarrow> (max_zero x, w)
                      | None \<Rightarrow>
                          (case cb_parsedate B v of
                             None \<Rightarrow> backoff
                           | Some retry_at \<Rightarrow>
                               (case read_wall w of (now, w') \<Rightarrow>
                                  (Fin (max 0 (fl (of_int (instant (aware retry_at) - instant now) / 1000000))), w'))))))"

text \<open>
  What an attempt settles: a response (\<open>Inl\<close>), or what has to be retried, the response with a status that
  may pass or \<open>None\<close> for an exception, and the number of read timeouts.
\<close>

definition settle_attempt ::
  "chat_library \<Rightarrow> dashscope_client \<Rightarrow> nat \<Rightarrow> post_outcome \<Rightarrow> llm_response + (chat_response option \<times> nat)" where
  "settle_attempt B C reads outcome =
     (case outcome of
        ReadTimedOut \<Rightarrow>
          if ll_read_timeout_max_retries (mc_limits (ds_profile C)) < int (reads + 1)
          then Inl (ds_failure C FINISH_TIMEOUT (u ''DashScope read timeout.''))
          else Inr (None, reads + 1)
      | ConnectFailed \<Rightarrow> Inr (None, reads)
      | OtherTimeout \<Rightarrow> Inl (ds_failure C FINISH_TIMEOUT (u ''DashScope request timed out.''))
      | OtherHttpError \<Rightarrow> Inl (ds_failure C FINISH_HTTP_ERROR [76, 76, 77, 32, 26381, 21153, 26242, 26102, 19981, 21487, 29992, 12290])
      | OtherFailure \<Rightarrow> Inl (ds_failure C FINISH_HTTP_ERROR [76, 76, 77, 32, 26381, 21153, 26242, 26102, 19981, 21487, 29992, 12290])
      | Posted r \<Rightarrow>
          if 200 \<le> hs_status r \<and> hs_status r < 300 then Inl (parse_response B C r)
          else if \<not> is_retryable_status (hs_status r)
          then Inl (ds_failure C FINISH_HTTP_ERROR ((u ''DashScope returned HTTP '') @ json_int (hs_status r) @ (u ''.'')))
          else Inr (Some r, reads))"

text \<open>The wait before the next attempt: what is left of the budget.\<close>

definition pause ::
  "chat_library \<Rightarrow> dashscope_client \<Rightarrow> rat \<Rightarrow> nat \<Rightarrow> chat_response option \<Rightarrow> rat \<Rightarrow> chat_world
    \<Rightarrow> (llm_response + rat) \<times> chat_world" where
  "pause B C deadline k response budget w =
     (let reason = (if response = None then FINISH_TIMEOUT else FINISH_HTTP_ERROR)
      in if ll_max_retries (mc_limits (ds_profile C)) \<le> int k
         then (Inl (ds_failure C reason (u ''DashScope retry limit reached.'')), w)
         else case retry_delay B response k w of (delay, w1) \<Rightarrow>
              case read_clock w1 of (now, w2) \<Rightarrow>
              let exhausted = (Inl (ds_failure C reason (u ''DashScope retry budget exhausted.'')), w2)
              in case delay of
                   NonFinite n \<Rightarrow> exhausted
                 | Fin d \<Rightarrow> if budget < d \<or> fl (deadline - now) \<le> d then exhausted
                            else (Inr (fl (budget - d)), sleep_for d w2))"

fun attempts ::
  "chat_library \<Rightarrow> dashscope_client \<Rightarrow> pyval \<Rightarrow> rat \<Rightarrow> nat list \<Rightarrow> rat \<Rightarrow> nat \<Rightarrow> chat_world \<Rightarrow> llm_response \<times> chat_world" where
  "attempts B C payload deadline [] budget reads w = (ds_failure C FINISH_HTTP_ERROR (u ''DashScope request failed.''), w)"
| "attempts B C payload deadline (k # rest) budget reads w =
     (case read_clock w of (now, w1) \<Rightarrow>
      let remaining = fl (deadline - now)
      in if remaining \<le> 0 then (ds_failure C FINISH_TIMEOUT (u ''LLM overall deadline exceeded.''), w1)
         else case post_chat payload (min (ll_timeout_seconds (mc_limits (ds_profile C))) remaining) w1 of (outcome, w2) \<Rightarrow>
              (case settle_attempt B C reads outcome of
                 Inl response \<Rightarrow> (response, w2)
               | Inr (response, reads') \<Rightarrow>
                   (case pause B C deadline k response budget w2 of
                      (Inl r, w3) \<Rightarrow> (r, w3)
                    | (Inr budget', w3) \<Rightarrow> attempts B C payload deadline rest budget' reads' w3)))"

definition request_with_retry :: "chat_library \<Rightarrow> dashscope_client \<Rightarrow> pyval \<Rightarrow> chat_world \<Rightarrow> llm_response \<times> chat_world" where
  "request_with_retry B C payload w =
     (let l = mc_limits (ds_profile C)
      in case read_clock w of (now, w1) \<Rightarrow>
         if \<not> cw_opens w1 then (ds_failure C FINISH_HTTP_ERROR [76, 76, 77, 32, 26381, 21153, 26242, 26102, 19981, 21487, 29992, 12290], w1)
         else attempts B C payload (fl (now + ll_overall_deadline_seconds l)) [0..<nat (ll_max_retries l + 1)]
                (ll_retry_total_budget_seconds l) 0 w1)"

definition chat_payload :: "dashscope_client \<Rightarrow> pyval list \<Rightarrow> pyval list \<Rightarrow> pyval" where
  "chat_payload C messages tools =
     PDict ([((u ''model''), PStr (mc_model (ds_profile C))), ((u ''messages''), PList messages), ((u ''stream''), PBool False),
        ((u ''enable_thinking''), PBool (mc_enable_thinking (ds_profile C))),
        ((u ''max_tokens''), PInt (ll_max_output_tokens (mc_limits (ds_profile C))))]
       @ (if tools \<noteq> [] then [((u ''tools''), PList tools)] else []))"

definition dashscope_call ::
  "chat_library \<Rightarrow> dashscope_client \<Rightarrow> pyval list \<Rightarrow> pyval list option \<Rightarrow> pystr \<Rightarrow> (chat_world, llm_response) op" where
  "dashscope_call B C messages tools system =
     (let capabilities = set (mc_capabilities (ds_profile C)); asked = (tools \<notin> {None, Some []})
      in if ds_api_key C = [] then ret (ds_failure C FINISH_MISSING_API_KEY (u ''DashScope API key is not configured.''))
         else if CHAT \<notin> capabilities
         then ret (ds_failure C FINISH_UNSUPPORTED_CAPABILITY (u ''The selected model profile is not approved for chat.''))
         else if asked \<and> (TOOL_CALLING \<notin> capabilities \<or> mc_enable_thinking (ds_profile C))
         then ret (ds_failure C FINISH_UNSUPPORTED_CAPABILITY (u ''The selected model profile is not approved for tool calling.''))
         else case bind_schema (to_openai_tools (lib_ucd (cb_library B)) tools) (\<lambda>ts.
                   bind_schema (to_openai_messages B messages system) (\<lambda>ms. Inr (chat_payload C ms ts))) of
                Inl Escapes \<Rightarrow> raise_op AttributeError
              | Inl (Caught message) \<Rightarrow>
                  ret (ds_failure C (if asked then FINISH_INVALID_TOOL_SCHEMA else FINISH_INVALID_RESPONSE)
                    ((u ''Invalid request schema: '') @ message))
              | Inr payload \<Rightarrow> (\<lambda>w. case request_with_retry B C payload w of (r, w') \<Rightarrow> (Inr r, w')))"

section \<open>Bounds of a request\<close>

text \<open>Waits that a budget allows, each subtracted as a float.\<close>

fun within_budget :: "rat \<Rightarrow> rat list \<Rightarrow> bool" where
  "within_budget b [] \<longleftrightarrow> 0 \<le> b"
| "within_budget b (d # ds) \<longleftrightarrow> 0 \<le> d \<and> d \<le> b \<and> within_budget (fl (b - d)) ds"

definition succeeded :: "post_outcome \<Rightarrow> bool" where
  "succeeded o1 \<longleftrightarrow> (case o1 of Posted r \<Rightarrow> 200 \<le> hs_status r \<and> hs_status r < 300 | _ \<Rightarrow> False)"

definition may_pass :: "post_outcome \<Rightarrow> bool" where
  "may_pass o1 \<longleftrightarrow>
     (case o1 of
        Posted r \<Rightarrow> \<not> succeeded o1 \<and> is_retryable_status (hs_status r)
      | ReadTimedOut \<Rightarrow> True | ConnectFailed \<Rightarrow> True | _ \<Rightarrow> False)"

definition is_failure :: "llm_response \<Rightarrow> bool" where
  "is_failure r \<longleftrightarrow> lr_tool_calls r = [] \<and> lr_finish_reason r \<in> {FINISH_TIMEOUT, FINISH_HTTP_ERROR}"

text \<open>What a response has to do with the outcomes of the attempts.\<close>

definition explains :: "chat_library \<Rightarrow> dashscope_client \<Rightarrow> post_outcome list \<Rightarrow> llm_response \<Rightarrow> bool" where
  "explains B C outcomes r \<longleftrightarrow>
     list_all may_pass (butlast outcomes)
     \<and> (if outcomes \<noteq> [] \<and> succeeded (last outcomes)
        then \<exists>x. last outcomes = Posted x \<and> r = parse_response B C x else is_failure r)"

lemma ds_failure_fails [simp]: "is_failure (ds_failure C FINISH_TIMEOUT m)" "is_failure (ds_failure C FINISH_HTTP_ERROR m)"
  by (simp_all add: is_failure_def ds_failure_def failure_def)

lemma retry_delay_facts:
  assumes "retry_delay B response k w = (delay, w1)"
  shows "delay = Fin d \<Longrightarrow> 0 \<le> d"
    and "cw_posts w1 = cw_posts w" "cw_sleeps w1 = cw_sleeps w" "cw_server w1 = cw_server w" "cw_clock w1 = cw_clock w"
      "cw_clock_read w1 = cw_clock_read w"
proof -
  have fin: "max_zero x = Fin d \<Longrightarrow> 0 \<le> d" for x by (cases x rule: max_zero.cases) auto
  have pos: "0 \<le> fl (2 ^ k / 2 + max 0 j)" for j by (rule fl_nonneg) simp
  show "delay = Fin d \<Longrightarrow> 0 \<le> d"
    using assms fin pos
    by (auto simp: retry_delay_def read_jitter_def read_wall_def Let_def split: option.splits list.splits)
  show "cw_posts w1 = cw_posts w" "cw_sleeps w1 = cw_sleeps w" "cw_server w1 = cw_server w" "cw_clock w1 = cw_clock w"
      "cw_clock_read w1 = cw_clock_read w"
    using assms by (auto simp: retry_delay_def read_jitter_def read_wall_def Let_def split: option.splits list.splits)
qed

lemma pause_Inl:
  assumes "pause B C deadline k response budget w = (Inl r, w')"
  shows "is_failure r" "cw_posts w' = cw_posts w" "cw_sleeps w' = cw_sleeps w"
  using assms retry_delay_facts
  by (auto simp: pause_def read_clock_def Let_def split: if_splits prod.splits pyfloat.splits)

lemma pause_Inr:
  assumes "pause B C deadline k response budget w = (Inr b, w')"
  obtains d where "b = fl (budget - d)" "0 \<le> d" "d \<le> budget" "d < fl (deadline - cw_clock w (cw_clock_read w))"
    "int k < ll_max_retries (mc_limits (ds_profile C))" "cw_posts w' = cw_posts w" "cw_sleeps w' = cw_sleeps w @ [d]"
    "cw_server w' = cw_server w" "cw_clock w' = cw_clock w" "cw_clock_read w' = Suc (cw_clock_read w)"
proof -
  obtain delay w1 where d: "retry_delay B response k w = (delay, w1)" by fastforce
  note facts = retry_delay_facts[OF d]
  show thesis
    using assms d facts
    by (auto simp: pause_def read_clock_def sleep_for_def Let_def intro!: that split: if_splits pyfloat.splits)
qed

lemma settle_attempt_Inl:
  "settle_attempt B C reads o1 = Inl r \<Longrightarrow>
     (if succeeded o1 then \<exists>x. o1 = Posted x \<and> r = parse_response B C x else is_failure r)"
  by (auto simp: settle_attempt_def succeeded_def split: post_outcome.splits if_splits)

lemma settle_attempt_Inr:
  "settle_attempt B C reads o1 = Inr (response, reads') \<Longrightarrow>
     may_pass o1 \<and> reads' = reads + of_bool (o1 = ReadTimedOut)
     \<and> (o1 = ReadTimedOut \<longrightarrow> int reads' \<le> ll_read_timeout_max_retries (mc_limits (ds_profile C)))"
  by (auto simp: settle_attempt_def succeeded_def may_pass_def split: post_outcome.splits if_splits)

lemma bind_schema_Inr: "bind_schema m f = Inr y \<longleftrightarrow> (\<exists>x. m = Inr x \<and> f x = Inr y)"
  by (cases m) (simp_all add: bind_schema_def)

lemma may_pass_failed: "may_pass o1 \<Longrightarrow> \<not> succeeded o1"
  by (cases o1) (auto simp: may_pass_def succeeded_def)

text \<open>The record of the attempts \<open>ks\<close>.\<close>

definition recorded ::
  "dashscope_client \<Rightarrow> rat \<Rightarrow> nat list \<Rightarrow> rat \<Rightarrow> chat_world \<Rightarrow> rat list \<Rightarrow> rat list \<Rightarrow> bool" where
  "recorded C deadline ks budget w posts sleeps \<longleftrightarrow>
     length posts \<le> length ks \<and> length sleeps \<le> length (filter (\<lambda>k. int k < ll_max_retries (mc_limits (ds_profile C))) ks)
     \<and> length posts \<le> Suc (length sleeps) \<and> within_budget budget sleeps
     \<and> (\<forall>i < length posts. 0 < posts ! i \<and> posts ! i \<le> ll_timeout_seconds (mc_limits (ds_profile C))
           \<and> posts ! i \<le> fl (deadline - cw_clock w (cw_clock_read w + 2 * i)))
     \<and> (\<forall>i < length sleeps. sleeps ! i < fl (deadline - cw_clock w (cw_clock_read w + 2 * i + 1)))"

definition outcomes_from :: "chat_world \<Rightarrow> pyval \<Rightarrow> rat list \<Rightarrow> post_outcome list" where
  "outcomes_from w payload posts = map (cw_server w payload) [length (cw_posts w)..<length (cw_posts w) + length posts]"

lemma outcomes_from_simps [simp]:
  "outcomes_from w payload [] = []"
  "outcomes_from w payload (t # ts) =
     cw_server w payload (length (cw_posts w)) # map (cw_server w payload) [Suc (length (cw_posts w))..<Suc (length (cw_posts w)) + length ts]"
  by (simp_all add: outcomes_from_def upt_rec)

lemma recorded_step:
  assumes "recorded C deadline ks (fl (budget - d)) w' posts sleeps" "0 \<le> d" "d \<le> budget"
    "d < fl (deadline - cw_clock w (Suc (cw_clock_read w)))" "int k < ll_max_retries (mc_limits (ds_profile C))"
    "cw_clock w' = cw_clock w" "cw_clock_read w' = Suc (Suc (cw_clock_read w))"
    "0 < t" "t \<le> ll_timeout_seconds (mc_limits (ds_profile C))" "t \<le> fl (deadline - cw_clock w (cw_clock_read w))"
  shows "recorded C deadline (k # ks) budget w (t # posts) (d # sleeps)"
  using assms by (auto simp: recorded_def nth_Cons split: nat.split)

lemma attempts_recorded:
  assumes "attempts B C payload deadline ks budget reads w = (r, w')" "0 \<le> budget" "0 < ll_timeout_seconds (mc_limits (ds_profile C))"
    "int reads \<le> ll_read_timeout_max_retries (mc_limits (ds_profile C))"
  shows "\<exists>posts sleeps. cw_posts w' = cw_posts w @ posts \<and> cw_sleeps w' = cw_sleeps w @ sleeps
    \<and> recorded C deadline ks budget w posts sleeps
    \<and> int (reads + length (filter (\<lambda>o1. o1 = ReadTimedOut) (outcomes_from w payload posts)))
        \<le> ll_read_timeout_max_retries (mc_limits (ds_profile C)) + 1
    \<and> explains B C (outcomes_from w payload posts) r"
  using assms
proof (induction ks arbitrary: budget reads w)
  case Nil
  then show ?case by (auto simp: recorded_def explains_def)
next
  case (Cons k ks)
  let ?now = "cw_clock w (cw_clock_read w)" and ?w1 = "w\<lparr>cw_clock_read := Suc (cw_clock_read w)\<rparr>"
  define t where "t = min (ll_timeout_seconds (mc_limits (ds_profile C))) (fl (deadline - ?now))"
  define o1 where "o1 = cw_server w payload (length (cw_posts w))"
  define w2 where "w2 = ?w1\<lparr>cw_posts := cw_posts w @ [t]\<rparr>"
  have w2: "cw_posts w2 = cw_posts w @ [t]" "cw_sleeps w2 = cw_sleeps w" "cw_server w2 = cw_server w"
    "cw_clock w2 = cw_clock w" "cw_clock_read w2 = Suc (cw_clock_read w)"
    by (simp_all add: w2_def)
  show ?case
  proof (cases "fl (deadline - ?now) \<le> 0")
    case True
    then have "r = ds_failure C FINISH_TIMEOUT (u ''LLM overall deadline exceeded.'') \<and> w' = ?w1"
      using Cons.prems(1) by (simp add: read_clock_def Let_def)
    then show ?thesis using Cons.prems(2,4) by (auto simp: recorded_def explains_def)
  next
    case False
    have t: "0 < t" "t \<le> ll_timeout_seconds (mc_limits (ds_profile C))" "t \<le> fl (deadline - ?now)"
      using False Cons.prems(3) by (simp_all add: t_def)
    have one: "recorded C deadline (k # ks) budget w [t] []" using t Cons.prems(2) by (simp add: recorded_def)
    have posted: "post_chat payload t ?w1 = (o1, w2)" by (simp add: post_chat_def o1_def w2_def)
    have step: "attempts B C payload deadline (k # ks) budget reads w =
        (case settle_attempt B C reads o1 of Inl response \<Rightarrow> (response, w2)
         | Inr (response, reads') \<Rightarrow>
             (case pause B C deadline k response budget w2 of (Inl r, w3) \<Rightarrow> (r, w3)
              | (Inr budget', w3) \<Rightarrow> attempts B C payload deadline ks budget' reads' w3))"
      using False posted by (simp add: read_clock_def Let_def t_def)
    show ?thesis
    proof (cases "settle_attempt B C reads o1")
      case (Inl x)
      then have "r = x \<and> w' = w2" using Cons.prems(1) Inl by (simp add: step del: attempts.simps)
      then show ?thesis
        using settle_attempt_Inl[OF Inl] one w2(1,2) Cons.prems(4)
        by (intro exI[of _ "[t]"] exI[of _ "[]"]) (auto simp: explains_def o1_def)
    next
      case (Inr y)
      obtain response reads' where y: "settle_attempt B C reads o1 = Inr (response, reads')" using Inr by (cases y) simp
      note passed = settle_attempt_Inr[OF y]
      show ?thesis
      proof (cases "pause B C deadline k response budget w2")
        case (Pair z w3)
        show ?thesis
        proof (cases z)
          case (Inl x)
          then have "r = x \<and> w' = w3" using Cons.prems(1) Inl by (simp add: step y Pair del: attempts.simps)
          then show ?thesis
            using pause_Inl[OF Pair[unfolded Inl]] one w2(1,2) Cons.prems(4) may_pass_failed[OF conjunct1[OF passed]]
            by (intro exI[of _ "[t]"] exI[of _ "[]"]) (auto simp: explains_def o1_def)
        next
          case (Inr b)
          obtain d where d: "b = fl (budget - d)" "0 \<le> d" "d \<le> budget" "d < fl (deadline - cw_clock w2 (cw_clock_read w2))"
            "int k < ll_max_retries (mc_limits (ds_profile C))" "cw_posts w3 = cw_posts w2" "cw_sleeps w3 = cw_sleeps w2 @ [d]"
            "cw_server w3 = cw_server w2" "cw_clock w3 = cw_clock w2" "cw_clock_read w3 = Suc (cw_clock_read w2)"
            using pause_Inr[OF Pair[unfolded Inr]] by metis
          have "attempts B C payload deadline ks b reads' w3 = (r, w')" using Cons.prems(1) by (simp add: step y Pair Inr del: attempts.simps)
          moreover have "0 \<le> b" using d(1,3) by (simp add: fl_nonneg)
          moreover have reads': "int reads' \<le> ll_read_timeout_max_retries (mc_limits (ds_profile C))"
            using passed Cons.prems(4) by (cases "o1 = ReadTimedOut") auto
          ultimately obtain posts sleeps where rest: "cw_posts w' = cw_posts w3 @ posts" "cw_sleeps w' = cw_sleeps w3 @ sleeps"
            "recorded C deadline ks b w3 posts sleeps"
            "int (reads' + length (filter (\<lambda>o1. o1 = ReadTimedOut) (outcomes_from w3 payload posts)))
               \<le> ll_read_timeout_max_retries (mc_limits (ds_profile C)) + 1"
            "explains B C (outcomes_from w3 payload posts) r"
            using Cons.IH[of b reads' w3] Cons.prems(3) by blast
          have outcomes: "outcomes_from w payload (t # posts) = o1 # outcomes_from w3 payload posts"
            by (simp add: outcomes_from_def d w2 o1_def del: upt_Suc) (simp add: upt_rec)
          have "recorded C deadline (k # ks) budget w (t # posts) (d # sleeps)"
            using rest(3) d w2 t by (intro recorded_step[of _ _ _ _ _ w3]) simp_all
          moreover have "explains B C (o1 # outcomes_from w3 payload posts) r"
            using rest(5) passed may_pass_failed[OF conjunct1[OF passed]] by (auto simp: explains_def)
          moreover have "int (reads + length (filter (\<lambda>o1. o1 = ReadTimedOut) (o1 # outcomes_from w3 payload posts)))
               \<le> ll_read_timeout_max_retries (mc_limits (ds_profile C)) + 1"
            using rest(4) passed by auto
          ultimately show ?thesis
            using rest(1,2) d(6,7) w2(1,2) outcomes
            by (intro exI[of _ "t # posts"] exI[of _ "d # sleeps"]) simp
        qed
      qed
    qed
  qed
qed

text \<open>
  C17: a request to the model stays within the limits of its profile, whatever the server answers and
  the clocks read. At most \<open>max_retries + 1\<close> attempts are made, at most \<open>read_timeout_max_retries + 1\<close>
  of them end in a read timeout, each has a positive timeout within the limit and the time left; the
  waits between them stay within the budget and the time left. Every attempt sends the same payload. Only
  attempts that may pass are repeated: a status that can be retried, a read timeout or a failed connection.
  If the last attempt was answered with a status of 200 to 299, the answer is what that response says, and
  otherwise it is a failure without tool calls. A request that raises was not sent.
\<close>

theorem retry_bounded:
  assumes "limits_ok (mc_limits (ds_profile C))" "cw_posts w = []" "cw_sleeps w = []" "cw_clock_read w = 0"
    and "dashscope_call B C messages tools system w = (result, w')"
  shows "let l = mc_limits (ds_profile C); deadline = fl (cw_clock w 0 + ll_overall_deadline_seconds l);
             n = length (cw_posts w'); timeouts = cw_posts w'; waits = cw_sleeps w'
    in int n \<le> ll_max_retries l + 1 \<and> int (length waits) \<le> ll_max_retries l \<and> n \<le> length waits + 1
     \<and> within_budget (ll_retry_total_budget_seconds l) waits
     \<and> list_all (\<lambda>i. 0 < timeouts ! i \<and> timeouts ! i \<le> ll_timeout_seconds l
          \<and> timeouts ! i \<le> fl (deadline - cw_clock w (1 + 2 * i))) [0..<n]
     \<and> list_all (\<lambda>i. waits ! i < fl (deadline - cw_clock w (2 + 2 * i))) [0..<length waits]
     \<and> (case result of
          Inl e \<Rightarrow> e = AttributeError \<and> n = 0
        | Inr r \<Rightarrow> n = 0 \<and> is_terminal_client_failure r \<and> lr_tool_calls r = []
            \<or> (\<exists>ts ms. to_openai_tools (lib_ucd (cb_library B)) tools = Inr ts \<and> to_openai_messages B messages system = Inr ms
              \<and> (let outcomes = map (cw_server w (chat_payload C ms ts)) [0..<n]
                in int (length (filter (\<lambda>o1. o1 = ReadTimedOut) outcomes)) \<le> ll_read_timeout_max_retries l + 1
                 \<and> list_all may_pass (butlast outcomes)
                 \<and> (if outcomes \<noteq> [] \<and> succeeded (last outcomes)
                    then \<exists>x. last outcomes = Posted x \<and> r = parse_response B C x
                    else lr_tool_calls r = [] \<and> lr_finish_reason r \<in> {FINISH_TIMEOUT, FINISH_HTTP_ERROR}))))"
proof -
  let ?l = "mc_limits (ds_profile C)" and ?w1 = "w\<lparr>cw_clock_read := 1\<rparr>"
  let ?deadline = "fl (cw_clock w 0 + ll_overall_deadline_seconds ?l)"
  let ?ks = "[0..<nat (ll_max_retries ?l + 1)]"
  have budget: "0 \<le> ll_retry_total_budget_seconds ?l" using assms(1) by (simp add: limits_ok_def)
  have terminal: "is_terminal_client_failure (ds_failure C reason m)" "lr_tool_calls (ds_failure C reason m) = []"
    if "reason \<in> set TERMINAL_CLIENT_FAILURES" for reason m
    using that by (simp_all add: is_terminal_client_failure_def ds_failure_def failure_def)
  have retries: "0 \<le> ll_max_retries ?l" using assms(1) by (simp add: limits_ok_def)
  consider
      (quiet) "w' = w" "result = Inl AttributeError \<or> (\<exists>reason m. reason \<in> set TERMINAL_CLIENT_FAILURES \<and> result = Inr (ds_failure C reason m))"
    | (closed) "w' = ?w1" "result = Inr (ds_failure C FINISH_HTTP_ERROR [76, 76, 77, 32, 26381, 21153, 26242, 26102, 19981, 21487, 29992, 12290])"
    | (sent) payload r ts ms where "result = Inr r" "to_openai_tools (lib_ucd (cb_library B)) tools = Inr ts"
        "to_openai_messages B messages system = Inr ms" "payload = chat_payload C ms ts"
        "attempts B C payload ?deadline ?ks (ll_retry_total_budget_seconds ?l) 0 ?w1 = (r, w')"
    using assms(4,5)
    by (auto simp: dashscope_call_def request_with_retry_def read_clock_def TERMINAL_CLIENT_FAILURES_def Let_def bind_schema_Inr
        simp del: u_Cons split: if_splits sum.splits schema_error.splits prod.splits)
  then show ?thesis
  proof cases
    case quiet
    then show ?thesis using terminal assms(2,3) retries by (auto simp: Let_def budget)
  next
    case closed
    then show ?thesis using terminal assms(2,3) retries by (simp add: Let_def budget TERMINAL_CLIENT_FAILURES_def)
  next
    case sent
    have "0 \<le> ll_retry_total_budget_seconds ?l" "0 < ll_timeout_seconds ?l" "int 0 \<le> ll_read_timeout_max_retries ?l"
      using assms(1) by (simp_all add: limits_ok_def)
    from attempts_recorded[OF sent(5) this] assms(2,3)
    have rec: "recorded C ?deadline ?ks (ll_retry_total_budget_seconds ?l) ?w1 (cw_posts w') (cw_sleeps w')"
      and reads: "int (length (filter (\<lambda>o1. o1 = ReadTimedOut) (map (cw_server w payload) [0..<length (cw_posts w')])))
        \<le> ll_read_timeout_max_retries ?l + 1"
      and expl: "explains B C (map (cw_server w payload) [0..<length (cw_posts w')]) r"
      by (auto simp: outcomes_from_def)
    have "length (filter (\<lambda>k. int k < ll_max_retries ?l) ?ks) = nat (ll_max_retries ?l)"
    proof -
      have "filter (\<lambda>k. int k < ll_max_retries ?l) [0..<nat (ll_max_retries ?l)] = [0..<nat (ll_max_retries ?l)]"
        by (intro filter_True) auto
      then show ?thesis using retries by (simp add: nat_add_distrib)
    qed
    then show ?thesis
      using rec reads expl sent(1-4) retries
      by (auto simp: recorded_def explains_def is_failure_def Let_def list_all_iff simp del: u_Cons)
  qed
qed

definition demo_chat :: chat_library where
  "demo_chat =
     \<lparr>cb_library = demo_library, cb_loads = (\<lambda>s. Inr (PDict [])), cb_dumps = (\<lambda>v. Inr (u ''{}'')), cb_parsedate = (\<lambda>s. None)\<rparr>"

definition demo_dashscope :: dashscope_client where
  "demo_dashscope = \<lparr>ds_profile = default_standard demo_limits, ds_api_key = (u ''k'')\<rparr>"

definition demo_message :: pyval where
  "demo_message = PDict [((u ''role''), PStr (u ''user'')), ((u ''content''), PStr (u ''hi''))]"

text \<open>The server is overloaded, then it does not answer in time, then it answers.\<close>

definition demo_answer :: pyval where
  "demo_answer = PDict [((u ''choices''), PList [PDict [((u ''message''), PDict [((u ''content''), PStr (u ''ok''))])]])]"

definition demo_server :: "pyval \<Rightarrow> nat \<Rightarrow> post_outcome" where
  "demo_server payload n =
     (if n = 0 then Posted \<lparr>hs_status = 503, hs_json = None, hs_retry_after = None\<rparr>
      else if n = 1 then ReadTimedOut
      else Posted \<lparr>hs_status = 200, hs_json = Some demo_answer, hs_retry_after = None\<rparr>)"

definition demo_chat_world :: chat_world where
  "demo_chat_world =
     \<lparr>cw_opens = True, cw_server = demo_server, cw_clock = of_nat, cw_wall = (\<lambda>n. utc 0),
      cw_jitter = (\<lambda>n. if n = 0 then 1 / 2 else 0), cw_clock_read = 0, cw_wall_read = 0, cw_jitter_read = 0,
      cw_posts = [], cw_sleeps = []\<rparr>"

lemma demo_call:
  "\<exists>r w'. dashscope_call demo_chat demo_dashscope [demo_message] None [] demo_chat_world = (Inr r, w')
     \<and> cw_posts w' = [30, 30, 30] \<and> cw_sleeps w' = [1, 1] \<and> lr_text r = (u ''ok'')"
  by (simp add: dashscope_call_def to_openai_tools_def to_openai_messages_def to_openai_message_def bind_schema_def
      demo_message_def get_or_def request_with_retry_def read_clock_def post_chat_def settle_attempt_def pause_def retry_delay_def
      read_jitter_def sleep_for_def parse_response_def parse_message_def chat_answer_def demo_answer_def member_of_def
      is_retryable_status_def demo_chat_def demo_dashscope_def demo_chat_world_def demo_server_def default_standard_def demo_limits_def
      Let_def upt_rec)

theorem retry_bounded_witness:
  "\<exists>r w'. dashscope_call demo_chat demo_dashscope [demo_message] None [] demo_chat_world = (Inr r, w')
     \<and> cw_posts w' = [30, 30, 30] \<and> cw_sleeps w' = [1, 1] \<and> lr_text r = (u ''ok'') \<and> within_budget 10 (cw_sleeps w')"
proof -
  obtain r w' where w': "dashscope_call demo_chat demo_dashscope [demo_message] None [] demo_chat_world = (Inr r, w')"
     "cw_posts w' = [30, 30, 30]" "cw_sleeps w' = [1, 1]" "lr_text r = (u ''ok'')"
    using demo_call by blast
  have "limits_ok (mc_limits (ds_profile demo_dashscope))" "ll_retry_total_budget_seconds (mc_limits (ds_profile demo_dashscope)) = 10"
    "cw_posts demo_chat_world = []" "cw_sleeps demo_chat_world = []" "cw_clock_read demo_chat_world = 0"
    by (simp_all add: limits_ok_def demo_dashscope_def default_standard_def demo_limits_def demo_chat_world_def)
  with retry_bounded[OF _ _ _ _ w'(1)] have "within_budget 10 (cw_sleeps w')" by (simp only: Let_def)
  with w' show ?thesis by blast
qed

end
