(* ===== verification/Tool_Agent.thy ===== *)
theory Tool_Agent
  imports Dashscope_Client Coordinator
begin

text \<open>
  \<open>tools/base.py\<close>, \<open>tools/registry.py\<close> and \<open>agent.py\<close>: the tools that an agent may call, the registry that
  calls them by name, the agent that follows the intent router, and the agent that lets the language
  model call tools. What the agents share with the process, the clock and the numbers of \<open>uuid4\<close>, is the
  state \<open>'s\<close> of the tools.
\<close>

section \<open>Tools\<close>

type_synonym kwargs = "(pystr \<times> pyval) list"

record 's tool =
  to_name :: pystr
  to_description :: pystr
  to_schema :: pyval
  to_execute :: "kwargs \<Rightarrow> ('s, tool_result) op"

definition tool_schema :: "'s tool \<Rightarrow> pyval" where
  "tool_schema t =
     PDict [((u ''name''), PStr (to_name t)), ((u ''description''), PStr (to_description t)), ((u ''input_schema''), to_schema t)]"

definition failed_tool :: "pystr \<Rightarrow> pystr list \<Rightarrow> pystr \<Rightarrow> tool_result" where
  "failed_tool name errors summary =
     \<lparr>tl_success = False, tl_tool_name = name, tl_data = PNone, tl_errors = errors, tl_warnings = [], tl_summary = summary\<rparr>"

text \<open>
  Keyword arguments with the name of a parameter of the function that takes them are a \<open>TypeError\<close> of the
  call. \<open>show_exn\<close> is the text \<open>type(exc).__name__: exc\<close>.
\<close>

definition accepts_kwargs :: "string list \<Rightarrow> kwargs \<Rightarrow> bool" where
  "accepts_kwargs parameters kwargs \<longleftrightarrow> set (map fst kwargs) \<inter> set (map u parameters) = {}"

definition safe_execute :: "(exn \<Rightarrow> pystr) \<Rightarrow> 's tool \<Rightarrow> kwargs \<Rightarrow> ('s, tool_result) op" where
  "safe_execute show_exn t kwargs =
     (if \<not> accepts_kwargs [''tool''] kwargs then raise_op (TypeError ''multiple values for argument'')
      else try_op (to_execute t kwargs) (\<lambda>e.
        Some (ret (failed_tool (to_name t) [show_exn e] ([24037, 20855, 32] @ to_name t @ [32, 25191, 34892, 24322, 24120])))))"

type_synonym 's registry = "(pystr, 's tool) dict"

definition register :: "'s tool \<Rightarrow> 's registry \<Rightarrow> 's registry res" where
  "register t R =
     (if dict_get R (to_name t) \<noteq> None then Inl (ValueError ''is already registered'') else Inr (dict_set (to_name t) t R))"

definition registry_execute :: "(exn \<Rightarrow> pystr) \<Rightarrow> 's registry \<Rightarrow> pystr \<Rightarrow> kwargs \<Rightarrow> ('s, tool_result) op" where
  "registry_execute show_exn R name kwargs =
     (if \<not> accepts_kwargs [''self'', ''name''] kwargs then raise_op (TypeError ''multiple values for argument'')
      else case dict_get R name of
             None \<Rightarrow> ret (failed_tool name [[26410, 30693, 24037, 20855, 58, 32] @ name] ([24037, 20855, 32, 39] @ name @ [39, 32, 26410, 27880, 20876]))
           | Some t \<Rightarrow> safe_execute show_exn t kwargs)"

definition list_tools :: "'s registry \<Rightarrow> pystr list" where
  "list_tools R = sort (map fst R)"

definition registry_schemas :: "'s registry \<Rightarrow> pyval list" where
  "registry_schemas R = map tool_schema (dict_values R)"

section \<open>The protocol of a turn\<close>

record interaction =
  it_session_id :: pystr
  it_user_input :: pystr
  it_intent_result :: intent_result
  it_tools_called :: "tool_result list"
  it_agent_response :: pystr
  it_metadata :: interaction_metadata

definition mk_interaction :: "interaction \<Rightarrow> interaction res" where
  "mk_interaction i = checked (1 \<le> length (it_session_id i) \<and> length (it_session_id i) \<le> 64) i"

definition new_session :: "('s \<Rightarrow> pystr \<times> 's) \<Rightarrow> pystr option \<Rightarrow> ('s, pystr) op" where
  "new_session uuid4 given_id =
     (case given_id of
        Some sid \<Rightarrow> if sid \<noteq> [] then ret sid else bind_op (read_op uuid4) (\<lambda>s. ret (take 8 s))
      | None \<Rightarrow> bind_op (read_op uuid4) (\<lambda>s. ret (take 8 s)))"

section \<open>The agent without a language model\<close>

definition tool_plan :: "intent \<Rightarrow> (pystr \<times> kwargs) list" where
  "tool_plan i =
     (case i of
        CUSTOMER_INTAKE \<Rightarrow> [((u ''customer_memory_search''), []), ((u ''customer_memory_update''), []),
          ((u ''sales_score_calculator''), [((u ''score_type''), PStr (u ''both''))])]
      | MEETING_NOTE \<Rightarrow> [((u ''customer_memory_update''), []), ((u ''sales_score_calculator''), [((u ''score_type''), PStr (u ''both''))])]
      | QUERY \<Rightarrow> [((u ''customer_memory_search''), [])]
      | EMAIL_DRAFT \<Rightarrow> [((u ''customer_memory_search''), [])]
      | _ \<Rightarrow> [])"

definition response_template :: "intent \<Rightarrow> pystr" where
  "response_template i =
     (case i of
        CUSTOMER_INTAKE \<Rightarrow> [24050, 25910, 21040, 23458, 25143, 20449, 24687, 12290, 25105, 20250, 26681, 25454, 25552, 20379, 30340, 20869, 23481, 25552, 21462, 20851, 38190, 37319, 36141, 38656, 27714, 12289, 21019, 24314, 25110, 26356, 26032, 23458, 25143, 26723, 26696, 65292, 24182, 32473, 20986, 21021, 27493, 30340, 25104, 20132, 35780, 20998, 21644, 36319, 36827, 24314, 35758, 12290]
      | MEETING_NOTE \<Rightarrow> [24050, 35760, 24405, 20250, 35758, 32426, 35201, 12290, 25105, 20250, 25552, 21462, 20851, 38190, 20107, 23454, 21644, 37319, 36141, 20449, 21495, 65292, 26356, 26032, 23458, 25143, 26723, 26696, 65292, 24182, 37325, 26032, 35745, 31639, 25104, 20132, 35780, 20998, 21644, 20581, 24247, 24230, 12290]
      | QUERY \<Rightarrow> [24050, 25191, 34892, 23458, 25143, 26597, 35810, 12290, 20320, 21487, 20197, 26597, 30475, 25628, 32034, 32467, 26524, 33719, 21462, 23458, 25143, 35814, 24773, 12290, 22914, 38656, 26597, 30475, 20855, 20307, 23458, 25143, 65292, 35831, 25552, 20379, 23458, 25143, 21517, 31216, 25110, 73, 68, 12290]
      | EMAIL_DRAFT \<Rightarrow> [24050, 29983, 25104, 37038, 20214, 33609, 31295, 12290, 35831, 30830, 35748, 20869, 23481, 21518, 21457, 36865, 12290, 22914, 38656, 35843, 25972, 37038, 20214, 35821, 27668, 25110, 20869, 23481, 65292, 35831, 21578, 35785, 25105, 12290]
      | _ \<Rightarrow> [24050, 25910, 21040, 24744, 30340, 36755, 20837, 65292, 27491, 22312, 22788, 29702, 20013, 12290])"

record 's agent =
  ag_call :: "pyval list \<Rightarrow> pyval list \<Rightarrow> pystr \<Rightarrow> ('s, llm_response) op"
  ag_registry :: "'s registry"
  ag_system :: pystr
  ag_clock :: "'s \<Rightarrow> datetime \<times> 's"
  ag_uuid :: "'s \<Rightarrow> pystr \<times> 's"
  ag_show_exn :: "exn \<Rightarrow> pystr"
  ag_dump :: "pyval \<Rightarrow> pystr"

fun run_plan :: "'s agent \<Rightarrow> (pystr \<times> kwargs) list \<Rightarrow> ('s, tool_result list) op" where
  "run_plan A [] = ret []"
| "run_plan A ((name, kwargs) # plan) =
     bind_op (registry_execute (ag_show_exn A) (ag_registry A) name kwargs) (\<lambda>r.
     bind_op (run_plan A plan) (\<lambda>rs. ret (r # rs)))"

definition mock_run :: "ucd \<Rightarrow> signal_tables \<Rightarrow> 's agent \<Rightarrow> pystr \<Rightarrow> pystr option \<Rightarrow> ('s, interaction) op" where
  "mock_run T tables A user_input session_id =
     bind_op (new_session (ag_uuid A) session_id) (\<lambda>sid.
     bind_op (read_op (ag_clock A)) (\<lambda>start.
     bind_op (lift_res (route_intent T tables user_input)) (\<lambda>intent_result.
     bind_op (run_plan A (tool_plan (ir_intent intent_result))) (\<lambda>tools_called.
     bind_op (read_op (ag_clock A)) (\<lambda>now.
     lift_res (mk_interaction
       \<lparr>it_session_id = sid, it_user_input = user_input, it_intent_result = intent_result, it_tools_called = tools_called,
        it_agent_response = response_template (ir_intent intent_result),
        it_metadata =
          \<lparr>im_session_id = sid, im_intent = Some (intent_value (ir_intent intent_result)),
           im_intent_confidence = Some (ir_confidence intent_result), im_tools_called = map tl_tool_name tools_called,
           im_llm_calls = 0, im_input_tokens = 0, im_output_tokens = 0, im_cost_usd = 0,
           im_latency_ms = elapsed_int start now\<rparr>\<rparr>))))))"

section \<open>The agent with a language model\<close>

text \<open>
  \<open>ag_call\<close> is the call of the client with \<open>max_tool_rounds=1\<close>; \<open>ag_dump\<close> is \<open>json.dumps\<close> with
  \<open>ensure_ascii=False, default=str\<close>. The variables of the loop:
\<close>

record turn =
  tu_messages :: "pyval list"
  tu_tools_called :: "tool_result list"
  tu_input_tokens :: int
  tu_output_tokens :: int
  tu_cost :: rat
  tu_llm_calls :: nat
  tu_text :: pystr
  tu_intent :: "string option"
  tu_confidence :: "rat option"

definition tool_use_block :: "tool_call \<Rightarrow> pyval" where
  "tool_use_block c =
     PDict [((u ''type''), PStr (u ''tool_use'')), ((u ''id''), PStr (tc_id c)), ((u ''name''), PStr (tc_name c)), ((u ''input''), PDict (tc_input c))]"

definition tool_result_block :: "tool_call \<Rightarrow> pystr \<Rightarrow> pyval" where
  "tool_result_block c content =
     PDict [((u ''type''), PStr (u ''tool_result'')), ((u ''tool_use_id''), PStr (tc_id c)), ((u ''content''), PStr content)]"

definition user_message :: "pystr \<Rightarrow> pyval" where
  "user_message s = PDict [((u ''role''), PStr (u ''user'')), ((u ''content''), PStr s)]"

definition block_message :: "pystr \<Rightarrow> pyval list \<Rightarrow> pyval" where
  "block_message role blocks = PDict [((u ''role''), PStr role), ((u ''content''), PList blocks)]"

definition tool_result_to_content :: "'s agent \<Rightarrow> tool_result \<Rightarrow> pystr" where
  "tool_result_to_content A r =
     (if tl_success r then py_join [10] (tl_summary r # (if tl_data r \<noteq> PNone then [ag_dump A (tl_data r)] else []))
      else [38169, 35823, 58, 32] @ tl_summary r @ [10] @ py_join [10] (tl_errors r))"

definition infer_intent_from_tools :: "tool_result list \<Rightarrow> string \<times> rat" where
  "infer_intent_from_tools tools_called =
     (let names = map tl_tool_name tools_called
      in if (u ''sales_score_calculator'') \<in> set names \<and> (u ''customer_memory_update'') \<in> set names
         then (if (u ''customer_memory_search'') \<in> set names then (''customer_intake'', fl (17/20)) else (''meeting_note'', fl (4/5)))
         else if (u ''customer_memory_search'') \<in> set names \<and> length names = 1 then (''query'', fl (4/5))
         else (''query'', fl (3/5)))"

fun execute_calls :: "'s agent \<Rightarrow> tool_call list \<Rightarrow> ('s, tool_result list) op" where
  "execute_calls A [] = ret []"
| "execute_calls A (c # cs) =
     bind_op (registry_execute (ag_show_exn A) (ag_registry A) (tc_name c) (tc_input c)) (\<lambda>r.
     bind_op (execute_calls A cs) (\<lambda>rs. ret (r # rs)))"

definition count_response :: "llm_response \<Rightarrow> turn \<Rightarrow> turn" where
  "count_response r t =
     t\<lparr>tu_input_tokens := tu_input_tokens t + lr_input_tokens r, tu_output_tokens := tu_output_tokens t + lr_output_tokens r,
       tu_cost := fl (tu_cost t + lr_cost_usd r), tu_llm_calls := tu_llm_calls t + 1\<rparr>"

definition after_tools :: "'s agent \<Rightarrow> tool_call list \<Rightarrow> tool_result list \<Rightarrow> turn \<Rightarrow> turn" where
  "after_tools A calls results t =
     t\<lparr>tu_messages := tu_messages t
         @ [block_message (u ''assistant'') (map tool_use_block calls),
            block_message (u ''user'') (map2 (\<lambda>c r. tool_result_block c (tool_result_to_content A r)) calls results)],
       tu_tools_called := tu_tools_called t @ results\<rparr>"

definition fail_turn :: "llm_response \<Rightarrow> turn \<Rightarrow> turn" where
  "fail_turn r t =
     t\<lparr>tu_text := (if lr_text r \<noteq> [] then lr_text r else (u ''LLM client failed to process the request.'')),
       tu_intent := Some ''query'', tu_confidence := Some (fl (1/10))\<rparr>"

definition answer_turn :: "llm_response \<Rightarrow> turn \<Rightarrow> turn" where
  "answer_turn r t =
     (let (intent, confidence) =
        (if tu_tools_called t \<noteq> [] then infer_intent_from_tools (tu_tools_called t) else (''query'', 1/2))
      in t\<lparr>tu_text := lr_text r, tu_intent := Some intent, tu_confidence := Some confidence\<rparr>)"

text \<open>\<open>for _round in range(max_tool_rounds)\<close>, by the number of rounds that are left.\<close>

fun rounds :: "'s agent \<Rightarrow> nat \<Rightarrow> turn \<Rightarrow> ('s, turn) op" where
  "rounds A 0 t = ret t"
| "rounds A (Suc n) t =
     bind_op (ag_call A (tu_messages t) (registry_schemas (ag_registry A)) (ag_system A)) (\<lambda>r.
     let t = count_response r t
     in if is_terminal_client_failure r then ret (fail_turn r t)
        else if lr_tool_calls r \<noteq> []
        then bind_op (execute_calls A (lr_tool_calls r)) (\<lambda>results. rounds A n (after_tools A (lr_tool_calls r) results t))
        else ret (answer_turn r t))"

definition or_default :: "'a option \<Rightarrow> 'a \<Rightarrow> 'a option" where
  "or_default v d = (case v of None \<Rightarrow> Some d | Some x \<Rightarrow> Some x)"

definition fill_text :: "pystr \<Rightarrow> rat \<Rightarrow> turn \<Rightarrow> turn" where
  "fill_text s c t =
     t\<lparr>tu_text := s, tu_intent := or_default (tu_intent t) ''query'', tu_confidence := or_default (tu_confidence t) c\<rparr>"

definition complete_turn :: "turn \<Rightarrow> turn" where
  "complete_turn t =
     (let t = (if tu_text t = [] \<and> tu_tools_called t \<noteq> [] then fill_text [24050, 23436, 25104, 24037, 20855, 35843, 29992, 65292, 35831, 26597, 30475, 32467, 26524, 12290] (1/2) t else t)
      in if tu_text t = [] then fill_text [25265, 27465, 65292, 22788, 29702, 35831, 27714, 26102, 36935, 21040, 38382, 39064, 65292, 35831, 37325, 35797, 12290] (fl (1/10)) t else t)"

definition INTENTS :: "intent list" where
  "INTENTS = [CUSTOMER_INTAKE, MEETING_NOTE, QUERY, EMAIL_DRAFT, REPORT, PODCAST_SCRIPT]"

definition intent_of :: "string option \<Rightarrow> intent" where
  "intent_of v =
     (case v of None \<Rightarrow> QUERY
      | Some name \<Rightarrow> (case find (\<lambda>i. intent_value i = name) INTENTS of None \<Rightarrow> QUERY | Some i \<Rightarrow> i))"

definition py_round6 :: "rat \<Rightarrow> rat" where
  "py_round6 x = fl (of_int (py_round (x * 1000000)) / 1000000)"

definition interaction_of :: "pystr \<Rightarrow> pystr \<Rightarrow> int \<Rightarrow> turn \<Rightarrow> interaction res" where
  "interaction_of sid user_input latency t =
     bind_res (mk_intent_result
       \<lparr>ir_intent = intent_of (tu_intent t), ir_confidence = (case tu_confidence t of None \<Rightarrow> 1/2 | Some c \<Rightarrow> c),
        ir_reasoning = [76, 76, 77, 32, 39537, 21160, 65292] @ py_str_nat (tu_llm_calls t) @ [32, 36718, 32, 76, 76, 77, 32, 35843, 29992], ir_alternative_intents = []\<rparr>) (\<lambda>intent_result.
     mk_interaction
       \<lparr>it_session_id = sid, it_user_input = user_input, it_intent_result = intent_result,
        it_tools_called = tu_tools_called t, it_agent_response = tu_text t,
        it_metadata =
          \<lparr>im_session_id = sid, im_intent = tu_intent t, im_intent_confidence = tu_confidence t,
           im_tools_called = map tl_tool_name (tu_tools_called t), im_llm_calls = int (tu_llm_calls t),
           im_input_tokens = tu_input_tokens t, im_output_tokens = tu_output_tokens t, im_cost_usd = py_round6 (tu_cost t),
           im_latency_ms = latency\<rparr>\<rparr>)"

definition first_turn :: "pystr \<Rightarrow> turn" where
  "first_turn user_input =
     \<lparr>tu_messages = [user_message user_input], tu_tools_called = [], tu_input_tokens = 0, tu_output_tokens = 0, tu_cost = 0,
      tu_llm_calls = 0, tu_text = [], tu_intent = None, tu_confidence = None\<rparr>"

definition agent_run :: "'s agent \<Rightarrow> nat \<Rightarrow> pystr \<Rightarrow> pystr option \<Rightarrow> ('s, interaction) op" where
  "agent_run A max_tool_rounds user_input session_id =
     bind_op (new_session (ag_uuid A) session_id) (\<lambda>sid.
     bind_op (read_op (ag_clock A)) (\<lambda>start.
     bind_op (rounds A max_tool_rounds (first_turn user_input)) (\<lambda>t.
     bind_op (read_op (ag_clock A)) (\<lambda>now.
     lift_res (interaction_of sid user_input (elapsed_int start now) (complete_turn t))))))"

section \<open>What the client sees\<close>

text \<open>A history: the text of the user, then for every round the calls of the model and one result for each.\<close>

type_synonym round = "(tool_call \<times> pystr) list"

definition round_messages :: "round \<Rightarrow> pyval list" where
  "round_messages r =
     [block_message (u ''assistant'') (map (tool_use_block \<circ> fst) r),
      block_message (u ''user'') (map (\<lambda>(c, content). tool_result_block c content) r)]"

definition history :: "pystr \<Rightarrow> round list \<Rightarrow> pyval list" where
  "history user_input rs = user_message user_input # concat (map round_messages rs)"

lemma history_snoc: "history user_input (rs @ [r]) = history user_input rs @ round_messages r"
  by (simp add: history_def)

lemma execute_calls_length: "execute_calls A calls s = (Inr results, s') \<Longrightarrow> length results = length calls"
  by (induction calls arbitrary: s results) (auto simp: bind_op_Inr_iff)

lemma after_tools_history:
  assumes "tu_messages t = history user_input rs" "length results = length calls"
  shows "tu_messages (after_tools A calls results t)
    = history user_input (rs @ [zip calls (map (tool_result_to_content A) results)])"
proof -
  have "map (tool_use_block \<circ> fst) (zip calls (map (tool_result_to_content A) results)) = map tool_use_block calls"
    using assms(2) by (simp add: map_map[symmetric] del: map_map)
  moreover have "map (\<lambda>(c, content). tool_result_block c content) (zip calls (map (tool_result_to_content A) results))
      = map2 (\<lambda>c r. tool_result_block c (tool_result_to_content A r)) calls results"
    by (simp add: zip_map2 split_def)
  ultimately show ?thesis using assms(1) by (simp add: after_tools_def history_snoc round_messages_def)
qed

lemma count_response_sel [simp]:
  "tu_messages (count_response r t) = tu_messages t" "tu_tools_called (count_response r t) = tu_tools_called t"
  "tu_llm_calls (count_response r t) = tu_llm_calls t + 1" "tu_text (count_response r t) = tu_text t"
  "tu_intent (count_response r t) = tu_intent t" "tu_confidence (count_response r t) = tu_confidence t"
  by (simp_all add: count_response_def)

lemma after_tools_sel [simp]:
  "tu_tools_called (after_tools A calls results t) = tu_tools_called t @ results"
  "tu_llm_calls (after_tools A calls results t) = tu_llm_calls t" "tu_text (after_tools A calls results t) = tu_text t"
  "tu_intent (after_tools A calls results t) = tu_intent t" "tu_confidence (after_tools A calls results t) = tu_confidence t"
  by (simp_all add: after_tools_def)

text \<open>Two clients that agree on the histories of the user's text with fewer rounds than the loop has.\<close>

definition same_on_histories :: "'s agent \<Rightarrow> 's agent \<Rightarrow> nat \<Rightarrow> pystr \<Rightarrow> bool" where
  "same_on_histories A B n user_input \<longleftrightarrow>
     ag_registry B = ag_registry A \<and> ag_system B = ag_system A \<and> ag_clock B = ag_clock A \<and> ag_uuid B = ag_uuid A
     \<and> ag_show_exn B = ag_show_exn A \<and> ag_dump B = ag_dump A
     \<and> (\<forall>rs. length rs < n \<and> [] \<notin> set rs \<longrightarrow>
          ag_call B (history user_input rs) (registry_schemas (ag_registry A)) (ag_system A)
            = ag_call A (history user_input rs) (registry_schemas (ag_registry A)) (ag_system A))"

lemma execute_calls_same:
  "ag_registry B = ag_registry A \<Longrightarrow> ag_show_exn B = ag_show_exn A \<Longrightarrow> execute_calls B calls = execute_calls A calls"
  by (induction calls) simp_all

lemma after_tools_same: "ag_dump B = ag_dump A \<Longrightarrow> after_tools B calls results t = after_tools A calls results t"
proof -
  assume "ag_dump B = ag_dump A"
  then have "tool_result_to_content B = tool_result_to_content A" by (simp add: fun_eq_iff tool_result_to_content_def)
  then show ?thesis by (simp add: after_tools_def)
qed

lemma rounds_same:
  assumes "same_on_histories A B total_rounds user_input" "tu_messages t = history user_input rs" "length rs + n \<le> total_rounds"
    "[] \<notin> set rs"
  shows "rounds B n t s = rounds A n t s"
  using assms(2-)
proof (induction n arbitrary: t rs s)
  case (Suc n)
  have fields: "ag_registry B = ag_registry A" "ag_system B = ag_system A" "ag_show_exn B = ag_show_exn A" "ag_dump B = ag_dump A"
    using assms(1) by (simp_all add: same_on_histories_def)
  have call: "ag_call B (tu_messages t) (registry_schemas (ag_registry A)) (ag_system A)
      = ag_call A (tu_messages t) (registry_schemas (ag_registry A)) (ag_system A)"
    using assms(1) Suc.prems by (simp add: same_on_histories_def)
  have step: "rounds B n (after_tools A (lr_tool_calls r) results (count_response r t)) s'
      = rounds A n (after_tools A (lr_tool_calls r) results (count_response r t)) s'"
    if "execute_calls A (lr_tool_calls r) s1 = (Inr results, s')" "lr_tool_calls r \<noteq> []" for r results s1 s'
  proof (rule Suc.IH)
    let ?r = "zip (lr_tool_calls r) (map (tool_result_to_content A) results)"
    have len: "length results = length (lr_tool_calls r)" using that(1) by (rule execute_calls_length)
    then show "tu_messages (after_tools A (lr_tool_calls r) results (count_response r t)) = history user_input (rs @ [?r])"
      using Suc.prems(1) by (intro after_tools_history) simp_all
    show "length (rs @ [?r]) + n \<le> total_rounds" using Suc.prems(2) by simp
    show "[] \<notin> set (rs @ [?r])" using Suc.prems(3) that(2) len by (cases "lr_tool_calls r"; cases results) auto
  qed
  show ?case
    by (auto simp: fields call execute_calls_same[OF fields(1,3)] after_tools_same[OF fields(4)] bind_op_def Let_def step
        split: prod.split sum.split)
qed simp

lemma agent_run_same:
  assumes "same_on_histories A B n user_input"
  shows "agent_run B n user_input session_id = agent_run A n user_input session_id"
proof -
  have "rounds B n (first_turn user_input) = rounds A n (first_turn user_input)"
    using rounds_same[OF assms, of "first_turn user_input" "[]"]
    by (simp add: fun_eq_iff first_turn_def history_def)
  then show ?thesis using assms by (simp add: agent_run_def same_on_histories_def)
qed

section \<open>A turn always ends\<close>

text \<open>A client that answers, and calls tools without the three reserved arguments.\<close>

definition reserved :: "string list" where
  "reserved = [''self'', ''name'', ''tool'']"

definition plain_client :: "'s agent \<Rightarrow> bool" where
  "plain_client A \<longleftrightarrow>
     (\<forall>ms ts system s. \<exists>r s'. ag_call A ms ts system s = (Inr r, s')
        \<and> list_all (\<lambda>c. accepts_kwargs reserved (tc_input c)) (lr_tool_calls r))"

lemma registry_execute_total:
  "accepts_kwargs reserved kwargs \<Longrightarrow> \<exists>r s'. registry_execute show_exn R name kwargs s = (Inr r, s')"
  by (cases "dict_get R name")
    (auto simp: registry_execute_def safe_execute_def accepts_kwargs_def reserved_def try_op_def simp del: u_Cons split: prod.split sum.split)

lemma registry_execute_reserved:
  "\<not> accepts_kwargs [''self'', ''name''] kwargs \<or> \<not> accepts_kwargs [''tool''] kwargs \<and> dict_get R name \<noteq> None \<Longrightarrow>
     registry_execute show_exn R name kwargs s = (Inl (TypeError ''multiple values for argument''), s)"
  by (auto simp: registry_execute_def safe_execute_def)

lemma execute_calls_total:
  "list_all (\<lambda>c. accepts_kwargs reserved (tc_input c)) calls \<Longrightarrow> \<exists>rs s'. execute_calls A calls s = (Inr rs, s')"
proof (induction calls arbitrary: s)
  case (Cons c calls)
  obtain r s1 where "registry_execute (ag_show_exn A) (ag_registry A) (tc_name c) (tc_input c) s = (Inr r, s1)"
    using registry_execute_total Cons.prems by fastforce
  moreover obtain rs s2 where "execute_calls A calls s1 = (Inr rs, s2)" using Cons by fastforce
  ultimately show ?case by (simp add: bind_op_def)
qed simp

definition turn_ok :: "turn \<Rightarrow> bool" where
  "turn_ok t \<longleftrightarrow> (\<forall>c. tu_confidence t = Some c \<longrightarrow> 0 \<le> c \<and> c \<le> 1)"

lemma confidences: "0 \<le> snd (infer_intent_from_tools ts) \<and> snd (infer_intent_from_tools ts) \<le> 1"
  using fl_unit[of "17/20"] fl_unit[of "4/5"] fl_unit[of "3/5"]
  by (simp add: infer_intent_from_tools_def Let_def)

lemma rounds_total:
  assumes "plain_client A" "turn_ok t"
  obtains t' s' where "rounds A n t s = (Inr t', s')" "turn_ok t'" "tu_llm_calls t' \<le> tu_llm_calls t + n"
    "n \<noteq> 0 \<Longrightarrow> tu_llm_calls t < tu_llm_calls t'"
  using assms(2)
proof (induction n arbitrary: t s thesis)
  case (Suc n)
  obtain r s1 where r: "ag_call A (tu_messages t) (registry_schemas (ag_registry A)) (ag_system A) s = (Inr r, s1)"
    "list_all (\<lambda>c. accepts_kwargs reserved (tc_input c)) (lr_tool_calls r)"
    using assms(1) unfolding plain_client_def by blast
  let ?t = "count_response r t"
  consider (failed) "is_terminal_client_failure r" | (tools) "\<not> is_terminal_client_failure r" "lr_tool_calls r \<noteq> []"
    | (answer) "\<not> is_terminal_client_failure r" "lr_tool_calls r = []" by blast
  then show ?case
  proof cases
    case failed
    have "turn_ok (fail_turn r ?t)" using fl_unit[of "1/10"] by (simp add: turn_ok_def fail_turn_def)
    then show ?thesis using failed r(1) by (intro Suc.prems(1)[of "fail_turn r ?t" s1]) (simp_all add: bind_op_def Let_def fail_turn_def)
  next
    case tools
    obtain results s2 where results: "execute_calls A (lr_tool_calls r) s1 = (Inr results, s2)" using execute_calls_total[OF r(2), of A s1] by auto
    let ?u = "after_tools A (lr_tool_calls r) results ?t"
    have "turn_ok ?u" using Suc.prems(2) by (simp add: turn_ok_def)
    then obtain t' s' where "rounds A n ?u s2 = (Inr t', s')" "turn_ok t'" "tu_llm_calls t' \<le> tu_llm_calls ?u + n"
      "n \<noteq> 0 \<Longrightarrow> tu_llm_calls ?u < tu_llm_calls t'"
      using Suc.IH by blast
    moreover from this have "tu_llm_calls t < tu_llm_calls t'" by (cases n) auto
    ultimately show ?thesis
      using tools r(1) results by (intro Suc.prems(1)[of t' s']) (simp_all add: bind_op_def Let_def)
  next
    case answer
    have "turn_ok (answer_turn r ?t)"
      using confidences[of "tu_tools_called ?t"] by (simp add: turn_ok_def answer_turn_def Let_def split_def)
    then show ?thesis
      using answer r(1) by (intro Suc.prems(1)[of "answer_turn r ?t" s1]) (simp_all add: bind_op_def Let_def answer_turn_def split_def)
  qed
qed simp

lemma complete_turn_facts:
  "turn_ok t \<Longrightarrow> turn_ok (complete_turn t)" "tu_text (complete_turn t) \<noteq> []"
  "tu_llm_calls (complete_turn t) = tu_llm_calls t" "tu_tools_called (complete_turn t) = tu_tools_called t"
  using fl_unit[of "1/10"]
  by (auto simp: complete_turn_def fill_text_def or_default_def turn_ok_def Let_def split: option.splits)

lemma interaction_of_total:
  assumes "turn_ok t" "1 \<le> length sid" "length sid \<le> 64"
  obtains i where "interaction_of sid user_input latency t = Inr i" "it_session_id i = sid" "it_user_input i = user_input"
    "it_agent_response i = tu_text t" "it_tools_called i = tu_tools_called t"
    "im_tools_called (it_metadata i) = map tl_tool_name (tu_tools_called t)" "im_llm_calls (it_metadata i) = int (tu_llm_calls t)"
    "0 \<le> ir_confidence (it_intent_result i)" "ir_confidence (it_intent_result i) \<le> 1"
  using assms
  by (cases "tu_confidence t") (auto simp: interaction_of_def mk_intent_result_def mk_interaction_def checked_def turn_ok_def)

text \<open>
  C15: a turn of the agent ends. With a client that answers and whose tool calls use none of the
  reserved argument names, for every registry, tools that fail included, the turn gives an interaction
  with a non-empty response and a confidence within 0 and 1 after at least one and at most
  \<open>max_tool_rounds\<close> calls of the model, and lists the tools called. The client only ever sees histories in
  which every round has tool calls and each call is answered by the result with its identifier: a client
  that differs elsewhere gives the same run.
\<close>

theorem agent_turn_ends:
  assumes "plain_client A" "\<And>s. fst (ag_uuid A s) \<noteq> []" "\<And>sid. session_id = Some sid \<Longrightarrow> length sid \<le> 64" "0 < n"
  shows "(\<exists>i s'. agent_run A n user_input session_id s = (Inr i, s')
      \<and> it_user_input i = user_input \<and> it_agent_response i \<noteq> []
      \<and> 1 \<le> im_llm_calls (it_metadata i) \<and> im_llm_calls (it_metadata i) \<le> int n
      \<and> im_tools_called (it_metadata i) = map tl_tool_name (it_tools_called i)
      \<and> 0 \<le> ir_confidence (it_intent_result i) \<and> ir_confidence (it_intent_result i) \<le> 1)
    \<and> (\<forall>B. same_on_histories A B n user_input \<longrightarrow> agent_run B n user_input session_id = agent_run A n user_input session_id)"
proof
  obtain sid s1 where sid: "new_session (ag_uuid A) session_id s = (Inr sid, s1)" "1 \<le> length sid" "length sid \<le> 64"
  proof -
    obtain x s2 where x: "ag_uuid A s = (x, s2)" by fastforce
    then have "x \<noteq> []" using assms(2)[of s] by simp
    then have "1 \<le> length (take 8 x)" "length (take 8 x) \<le> 64" by (simp_all add: Suc_le_eq)
    then show thesis
      using x assms(3) that
      by (cases session_id; cases "the session_id = []") (auto simp: new_session_def bind_op_def read_op_def Suc_le_eq)
  qed
  obtain start s2 where start: "ag_clock A s1 = (start, s2)" by fastforce
  have "turn_ok (first_turn user_input)" by (simp add: turn_ok_def first_turn_def)
  then obtain t s3 where t: "rounds A n (first_turn user_input) s2 = (Inr t, s3)" "turn_ok t" "tu_llm_calls t \<le> n" "0 < tu_llm_calls t"
    using rounds_total[OF assms(1)] assms(4) by (metis first_turn_def gr0_conv_Suc add_0 turn.select_convs(6) not_gr0)
  obtain now s4 where now: "ag_clock A s3 = (now, s4)" by fastforce
  obtain i where i: "interaction_of sid user_input (elapsed_int start now) (complete_turn t) = Inr i" "it_user_input i = user_input"
    "it_agent_response i = tu_text (complete_turn t)" "it_tools_called i = tu_tools_called (complete_turn t)"
    "im_tools_called (it_metadata i) = map tl_tool_name (tu_tools_called (complete_turn t))"
    "im_llm_calls (it_metadata i) = int (tu_llm_calls (complete_turn t))"
    "0 \<le> ir_confidence (it_intent_result i)" "ir_confidence (it_intent_result i) \<le> 1"
    using interaction_of_total[OF complete_turn_facts(1)[OF t(2)] sid(2,3)] by metis
  have "agent_run A n user_input session_id s = (Inr i, s4)"
    using sid(1) start t(1) now i(1) by (simp add: agent_run_def bind_op_def read_op_def)
  then show "\<exists>i s'. agent_run A n user_input session_id s = (Inr i, s')
      \<and> it_user_input i = user_input \<and> it_agent_response i \<noteq> []
      \<and> 1 \<le> im_llm_calls (it_metadata i) \<and> im_llm_calls (it_metadata i) \<le> int n
      \<and> im_tools_called (it_metadata i) = map tl_tool_name (it_tools_called i)
      \<and> 0 \<le> ir_confidence (it_intent_result i) \<and> ir_confidence (it_intent_result i) \<le> 1"
    using i t(3,4) complete_turn_facts(2-4)[of t] by auto
  show "\<forall>B. same_on_histories A B n user_input \<longrightarrow> agent_run B n user_input session_id = agent_run A n user_input session_id"
    using agent_run_same by blast
qed

text \<open>
  A tool call with an argument of the name of a parameter of \<open>execute\<close> is not a failed tool: it leaves the
  agent as a \<open>TypeError\<close>, whatever the tool.
\<close>

lemma reserved_argument_raises:
  assumes "rounds A (Suc n) t s = (result, s')"
    and "ag_call A (tu_messages t) (registry_schemas (ag_registry A)) (ag_system A) s = (Inr r, s1)"
    and "\<not> is_terminal_client_failure r" "lr_tool_calls r = c # cs" "\<not> accepts_kwargs [''self'', ''name''] (tc_input c)"
  shows "result = Inl (TypeError ''multiple values for argument'')"
proof -
  have "registry_execute (ag_show_exn A) (ag_registry A) (tc_name c) (tc_input c) s1
      = (Inl (TypeError ''multiple values for argument''), s1)"
    using assms(5) by (intro registry_execute_reserved) simp
  then show ?thesis using assms(1-4) by (simp add: bind_op_def Let_def)
qed

section \<open>A concrete agent\<close>

definition demo_tool :: "nat tool" where
  "demo_tool =
     \<lparr>to_name = (u ''echo''), to_description = (u ''d''), to_schema = PDict [((u ''type''), PStr (u ''object''))],
      to_execute = (\<lambda>kwargs. raise_op OSError)\<rparr>"

definition demo_response :: "nat \<Rightarrow> llm_response" where
  "demo_response n =
     \<lparr>lr_text = (if n = 0 then [] else (u ''ready'')),
      lr_tool_calls = (if n = 0 then [\<lparr>tc_id = (u ''c1''), tc_name = (u ''echo''), tc_input = [((u ''x''), PInt 1)]\<rparr>] else []),
      lr_input_tokens = 7, lr_output_tokens = 3, lr_cost_usd = 0, lr_model = (u ''m''), lr_finish_reason = (u ''stop'')\<rparr>"

definition demo_tool_agent :: "nat agent" where
  "demo_tool_agent =
     \<lparr>ag_call = (\<lambda>ms ts system n. (Inr (demo_response n), Suc n)), ag_registry = [((u ''echo''), demo_tool)], ag_system = (u ''s''),
      ag_clock = (\<lambda>n. (utc 0, n)), ag_uuid = (\<lambda>n. ((u ''abcdefgh''), n)), ag_show_exn = (\<lambda>e. (u ''OSError: '')), ag_dump = (\<lambda>v. [])\<rparr>"

definition demo_failure :: tool_result where
  "demo_failure = failed_tool (u ''echo'') [(u ''OSError: '')] [24037, 20855, 32, 101, 99, 104, 111, 32, 25191, 34892, 24322, 24120]"

lemma demo_rounds:
  "\<exists>t. rounds demo_tool_agent 5 (first_turn (u ''q'')) 0 = (Inr t, 2) \<and> tu_tools_called t = [demo_failure] \<and> tu_llm_calls t = 2
     \<and> tu_text t = (u ''ready'') \<and> tu_confidence t = Some (fl (3/5))"
proof -
  let ?t1 = "count_response (demo_response 0) (first_turn (u ''q''))"
  let ?t2 = "after_tools demo_tool_agent (lr_tool_calls (demo_response 0)) [demo_failure] ?t1"
  have tools: "execute_calls demo_tool_agent (lr_tool_calls (demo_response 0)) 1 = (Inr [demo_failure], 1)"
    by (simp add: demo_response_def demo_tool_agent_def demo_tool_def registry_execute_def safe_execute_def accepts_kwargs_def try_op_def
        bind_op_def demo_failure_def)
  have terminal: "\<not> is_terminal_client_failure (demo_response n)" for n
    by (simp add: is_terminal_client_failure_def TERMINAL_CLIENT_FAILURES_def finish_defs demo_response_def)
  have calls: "lr_tool_calls (demo_response 0) \<noteq> []" "lr_tool_calls (demo_response 1) = []" by (simp_all add: demo_response_def)
  have call: "ag_call demo_tool_agent ms ts system n = (Inr (demo_response n), Suc n)" for ms ts system n by (simp add: demo_tool_agent_def)
  have "rounds demo_tool_agent (Suc 3) ?t2 1 = (Inr (answer_turn (demo_response 1) (count_response (demo_response 1) ?t2)), 2)"
    using terminal calls by (subst rounds.simps) (simp add: call bind_op_def Let_def)
  moreover have "rounds demo_tool_agent (Suc (Suc 3)) (first_turn (u ''q'')) 0 = rounds demo_tool_agent (Suc 3) ?t2 1"
    using terminal calls tools by (subst rounds.simps) (simp add: call bind_op_def Let_def)
  ultimately have "rounds demo_tool_agent 5 (first_turn (u ''q'')) 0 = (Inr (answer_turn (demo_response 1) (count_response (demo_response 1) ?t2)), 2)"
    by simp
  moreover have "infer_intent_from_tools [demo_failure] = (''query'', fl (3/5))"
    by (simp add: infer_intent_from_tools_def demo_failure_def failed_tool_def)
  ultimately show ?thesis by (simp add: answer_turn_def first_turn_def demo_response_def)
qed

lemma demo_tool_agent_run:
  "\<exists>i. agent_run demo_tool_agent 5 (u ''q'') None 0 = (Inr i, 2)
     \<and> it_agent_response i = (u ''ready'') \<and> im_llm_calls (it_metadata i) = 2 \<and> im_tools_called (it_metadata i) = [(u ''echo'')]
     \<and> map tl_success (it_tools_called i) = [False]"
proof -
  obtain t where t: "rounds demo_tool_agent 5 (first_turn (u ''q'')) 0 = (Inr t, 2)" "tu_tools_called t = [demo_failure]" "tu_llm_calls t = 2"
     "tu_text t = (u ''ready'')" "tu_confidence t = Some (fl (3/5))"
    using demo_rounds by blast
  have turn: "complete_turn t = t" using t(4) by (simp add: complete_turn_def)
  have "turn_ok t" using t(5) fl_unit[of "3/5"] by (simp add: turn_ok_def)
  from interaction_of_total[OF this, of "(u ''abcdefgh'')" "(u ''q'')" 0]
  obtain i where i: "interaction_of (u ''abcdefgh'') (u ''q'') 0 t = Inr i" "it_agent_response i = tu_text t" "it_tools_called i = tu_tools_called t"
    "im_tools_called (it_metadata i) = map tl_tool_name (tu_tools_called t)" "im_llm_calls (it_metadata i) = int (tu_llm_calls t)"
    by auto
  have "elapsed_int (utc 0) (utc 0) = 0" by (simp add: elapsed_int_def py_int_def)
  then have "agent_run demo_tool_agent 5 (u ''q'') None 0 = (Inr i, 2)"
    using t(1) turn i(1) by (simp add: agent_run_def new_session_def bind_op_def read_op_def demo_tool_agent_def[THEN arg_cong[where f = ag_uuid]]
        demo_tool_agent_def[THEN arg_cong[where f = ag_clock]] del: rounds.simps)
  then show ?thesis using i t(2-4) by (simp add: demo_failure_def failed_tool_def)
qed

theorem agent_turn_ends_witness:
  "\<exists>i. agent_run demo_tool_agent 5 (u ''q'') None 0 = (Inr i, 2)
     \<and> it_agent_response i = (u ''ready'') \<and> im_llm_calls (it_metadata i) = 2 \<and> im_tools_called (it_metadata i) = [(u ''echo'')]
     \<and> map tl_success (it_tools_called i) = [False] \<and> ir_confidence (it_intent_result i) \<le> 1"
proof -
  have plain: "plain_client demo_tool_agent"
    by (simp add: plain_client_def demo_tool_agent_def demo_response_def accepts_kwargs_def reserved_def)
  have uuid: "\<And>s. fst (ag_uuid demo_tool_agent s) \<noteq> []" by (simp add: demo_tool_agent_def)
  obtain i s' where i: "agent_run demo_tool_agent 5 (u ''q'') None 0 = (Inr i, s')"
    "im_tools_called (it_metadata i) = map tl_tool_name (it_tools_called i)" "ir_confidence (it_intent_result i) \<le> 1"
    using agent_turn_ends[OF plain uuid, of None 5 "(u ''q'')" 0] by auto
  then show ?thesis using demo_tool_agent_run by auto
qed

end
