(* ===== verification/Sdk_Clients.thy ===== *)
theory Sdk_Clients
  imports Tool_Agent
begin

text \<open>
  \<open>llm/deepseek_client.py\<close> and \<open>llm/anthropic_client.py\<close>: the conversion of messages and tools, the call of
  the SDK with its retries, and the reading of the response. The SDK is a parameter: what it answers to
  the parameters of a request, or the name and the status code of the exception that it raises. What was
  asked is counted and what was slept recorded.
\<close>

section \<open>Calls of an SDK\<close>

datatype sdk_error = SdkError pystr "int option"

record 'r sdk_world =
  sw_server :: "pyval \<Rightarrow> nat \<Rightarrow> sdk_error + 'r"
  sw_asked :: nat
  sw_sleeps :: "rat list"

record sdk_settings =
  ss_model :: pystr
  ss_api_key :: pystr
  ss_max_retries :: nat
  ss_retry_base_delay :: rat
  ss_max_tokens :: int
  ss_temperature :: rat

text \<open>\<open>_api_call_with_retry\<close>: \<open>otherwise\<close> is the response for a service that stays unavailable.\<close>

fun sdk_attempts ::
  "sdk_settings \<Rightarrow> (sdk_error \<Rightarrow> bool) \<Rightarrow> 'r \<Rightarrow> pyval \<Rightarrow> nat list \<Rightarrow> 'r sdk_world \<Rightarrow> 'r \<times> 'r sdk_world" where
  "sdk_attempts S retryable otherwise params [] w = (otherwise, w)"
| "sdk_attempts S retryable otherwise params (k # ks) w =
     (let w1 = w\<lparr>sw_asked := Suc (sw_asked w)\<rparr>
      in case sw_server w params (sw_asked w) of
           Inr r \<Rightarrow> (r, w1)
         | Inl e \<Rightarrow>
             if k < ss_max_retries S \<and> retryable e
             then sdk_attempts S retryable otherwise params ks
                    (w1\<lparr>sw_sleeps := sw_sleeps w1 @ [fl (ss_retry_base_delay S * 2 ^ k)]\<rparr>)
             else (otherwise, w1))"

definition sdk_request ::
  "sdk_settings \<Rightarrow> (sdk_error \<Rightarrow> bool) \<Rightarrow> 'r \<Rightarrow> pyval \<Rightarrow> 'r sdk_world \<Rightarrow> 'r \<times> 'r sdk_world" where
  "sdk_request S retryable otherwise params = sdk_attempts S retryable otherwise params [0..<ss_max_retries S + 1]"

text \<open>\<open>is_configured\<close> of the Anthropic client.\<close>

definition sdk_configured :: "ucd \<Rightarrow> sdk_settings \<Rightarrow> bool" where
  "sdk_configured T S \<longleftrightarrow> ss_api_key S \<noteq> [] \<and> py_strip T (ss_api_key S) \<noteq> []"

text \<open>\<open>t["name"]\<close> and \<open>t.get(...)\<close> of a definition of a tool.\<close>

definition default_schema :: pyval where
  "default_schema = PDict [((u ''type''), PStr (u ''object'')), ((u ''properties''), PDict []), ((u ''required''), PList [])]"

definition key_of :: "(pystr \<times> pyval) list \<Rightarrow> pystr \<Rightarrow> pyval res" where
  "key_of d name = (case map_of d name of None \<Rightarrow> Inl KeyError | Some v \<Rightarrow> Inr v)"

definition tool_parts :: "pyval \<Rightarrow> (pyval \<times> pyval \<times> pyval) res" where
  "tool_parts t =
     (case t of
        PDict d \<Rightarrow> bind_res (key_of d (u ''name'')) (\<lambda>name.
          Inr (name, get_or d (u ''description'') (PStr []), get_or d (u ''input_schema'') default_schema))
      | _ \<Rightarrow> Inl (TypeError ''indices''))"

definition tokens_cost :: "rat \<Rightarrow> rat \<Rightarrow> int \<Rightarrow> int \<Rightarrow> rat" where
  "tokens_cost input_price output_price input_tokens output_tokens =
     py_round6 (fl (fl (fl (of_int input_tokens / 1000000) * input_price) + fl (fl (of_int output_tokens / 1000000) * output_price)))"

definition SERVICE_UNAVAILABLE :: pystr where
  "SERVICE_UNAVAILABLE = [76, 76, 77, 32, 26381, 21153, 26242, 26102, 19981, 21487, 29992, 12290]"

definition ROUNDS_EXHAUSTED :: pystr where
  "ROUNDS_EXHAUSTED = [24050, 36798, 21040, 26368, 22823, 24037, 20855, 35843, 29992, 36718, 27425]"

section \<open>DeepSeek\<close>

text \<open>A response of the OpenAI SDK, after \<open>_openai_response_to_dict\<close>.\<close>

record openai_call =
  oa_id :: pystr
  oa_name :: pystr
  oa_arguments :: pystr

record openai_choice =
  oa_content :: "pystr option"
  oa_tool_calls :: "openai_call list"
  oa_finish_reason :: pystr

record openai_completion =
  oa_choices :: "openai_choice list"
  oa_usage :: "(int \<times> int) option"

definition deepseek_unavailable :: openai_completion where
  "deepseek_unavailable =
     \<lparr>oa_choices = [\<lparr>oa_content = Some SERVICE_UNAVAILABLE, oa_tool_calls = [], oa_finish_reason = (u ''error'')\<rparr>],
      oa_usage = Some (0, 0)\<rparr>"

definition deepseek_retryable :: "sdk_error \<Rightarrow> bool" where
  "deepseek_retryable e =
     (case e of SdkError name status \<Rightarrow>
        py_in (u ''RateLimit'') name \<or> py_in (u ''Timeout'') name \<or> py_in (u ''Connection'') name
        \<or> status \<in> {Some 429, Some 500, Some 502, Some 503})"

definition deepseek_cost :: "int \<Rightarrow> int \<Rightarrow> rat" where
  "deepseek_cost = tokens_cost (fl (7 / 50)) (fl (7 / 25))"

text \<open>\<open>"\n".join(text_parts)\<close> is a \<open>TypeError\<close> unless all parts are strings.\<close>

definition join_values :: "pyval list \<Rightarrow> pystr res" where
  "join_values vs =
     (if list_all is_str vs then Inr (py_join [10] (map (\<lambda>v. case v of PStr s \<Rightarrow> s | _ \<Rightarrow> []) vs))
      else Inl (TypeError ''sequence item: expected str instance''))"

text \<open>The blocks of a message: the texts and the calls; results are skipped.\<close>

fun scan_blocks :: "chat_library \<Rightarrow> pyval list \<Rightarrow> (pyval list \<times> pyval list) res" where
  "scan_blocks B [] = Inr ([], [])"
| "scan_blocks B (v # vs) =
     (case v of
        PDict d \<Rightarrow>
          if block_type d = PStr (u ''text'') then
            bind_res (key_of d (u ''text'')) (\<lambda>part. bind_res (scan_blocks B vs) (\<lambda>(parts, calls). Inr (part # parts, calls)))
          else if block_type d = PStr (u ''tool_use'') then
            bind_res (key_of d (u ''id'')) (\<lambda>i. bind_res (key_of d (u ''name'')) (\<lambda>name.
            case cb_dumps B (get_or d (u ''input'') (PDict [])) of
              Inl message \<Rightarrow> Inl (TypeError ''not JSON serializable'')
            | Inr arguments \<Rightarrow>
                bind_res (scan_blocks B vs) (\<lambda>(parts, calls).
                Inr (parts, PDict [((u ''id''), i), ((u ''type''), PStr (u ''function'')),
                       ((u ''function''), PDict [((u ''name''), name), ((u ''arguments''), PStr arguments)])] # calls))))
          else scan_blocks B vs
      | _ \<Rightarrow> Inl AttributeError)"

definition is_result_block :: "pyval \<Rightarrow> bool" where
  "is_result_block v \<longleftrightarrow> (case v of PDict d \<Rightarrow> block_type d = PStr (u ''tool_result'') | _ \<Rightarrow> False)"

definition convert_blocks :: "chat_library \<Rightarrow> pyval \<Rightarrow> pyval list \<Rightarrow> pyval res" where
  "convert_blocks B role blocks =
     bind_res (scan_blocks B blocks) (\<lambda>(parts, calls).
     if role = PStr (u ''assistant'') \<and> calls \<noteq> [] then
       bind_res (join_values parts) (\<lambda>s.
       Inr (PDict [((u ''role''), PStr (u ''assistant'')), ((u ''content''), if s = [] then PNone else PStr s), ((u ''tool_calls''), PList calls)]))
     else
       case (if role = PStr (u ''tool'') then find is_result_block blocks else None) of
         Some (PDict d) \<Rightarrow>
           bind_res (key_of d (u ''tool_use_id'')) (\<lambda>i.
           Inr (PDict [((u ''role''), PStr (u ''tool'')), ((u ''tool_call_id''), i), ((u ''content''), get_or d (u ''content'') (PStr []))]))
       | _ \<Rightarrow> bind_res (join_values parts) (\<lambda>s. Inr (PDict [((u ''role''), role), ((u ''content''), PStr s)])))"

definition deepseek_message :: "chat_library \<Rightarrow> pyval \<Rightarrow> pyval list res" where
  "deepseek_message B m =
     (case m of
        PDict d \<Rightarrow>
          let role = get_or d (u ''role'') (PStr (u ''user'')); content = get_or d (u ''content'') (PStr [])
          in (case content of
                PStr s \<Rightarrow> Inr [PDict [((u ''role''), role), ((u ''content''), content)]]
              | PList blocks \<Rightarrow> bind_res (convert_blocks B role blocks) (\<lambda>v. Inr [v])
              | _ \<Rightarrow> Inr [])
      | _ \<Rightarrow> Inl AttributeError)"

definition deepseek_messages :: "chat_library \<Rightarrow> pyval list \<Rightarrow> pystr \<Rightarrow> pyval list res" where
  "deepseek_messages B messages system =
     bind_res (map_res (deepseek_message B) messages) (\<lambda>ms.
     Inr ((if system \<noteq> [] then [PDict [((u ''role''), PStr (u ''system'')), ((u ''content''), PStr system)]] else []) @ concat ms))"

definition deepseek_tools :: "pyval list \<Rightarrow> pyval list res" where
  "deepseek_tools tools =
     map_res (\<lambda>t. bind_res (tool_parts t) (\<lambda>(name, description, schema).
       Inr (PDict [((u ''type''), PStr (u ''function'')),
         ((u ''function''), PDict [((u ''name''), name), ((u ''description''), description), ((u ''parameters''), schema)])]))) tools"

text \<open>
  \<open>is_configured\<close> of the class is that of \<open>BaseLLMClient\<close>: the property that tests the key stands after the
  return of \<open>_deepseek_cost\<close>.
\<close>

definition deepseek_configured :: "sdk_settings \<Rightarrow> bool" where
  "deepseek_configured S \<longleftrightarrow> False"

text \<open>\<open>arguments\<close> is \<open>json.loads\<close> of arguments that are an object, or its error.\<close>

definition read_call :: "(pystr \<Rightarrow> kwargs res) \<Rightarrow> openai_call \<Rightarrow> tool_call res" where
  "read_call arguments c =
     bind_res (arguments (oa_arguments c)) (\<lambda>input. Inr \<lparr>tc_id = oa_id c, tc_name = oa_name c, tc_input = input\<rparr>)"

definition deepseek_read :: "(pystr \<Rightarrow> kwargs res) \<Rightarrow> pystr \<Rightarrow> nat \<Rightarrow> nat \<Rightarrow> openai_completion \<Rightarrow> llm_response res" where
  "deepseek_read arguments model max_tool_rounds k r =
     (let (it, ot) = (case oa_usage r of None \<Rightarrow> (0, 0) | Some p \<Rightarrow> p);
          (content, calls, finish) =
            (case oa_choices r of [] \<Rightarrow> (None, [], []) | c # cs \<Rightarrow> (oa_content c, oa_tool_calls c, oa_finish_reason c));
          answer = \<lparr>lr_text = (case content of None \<Rightarrow> [] | Some s \<Rightarrow> s), lr_tool_calls = [], lr_input_tokens = it,
                    lr_output_tokens = ot, lr_cost_usd = deepseek_cost it ot, lr_model = model, lr_finish_reason = finish\<rparr>
      in if calls \<noteq> [] \<and> int k < int max_tool_rounds - 1
         then bind_res (map_res (read_call arguments) calls) (\<lambda>cs.
              Inr (answer\<lparr>lr_tool_calls := cs, lr_finish_reason := FINISH_TOOL_CALLS\<rparr>))
         else Inr answer)"

definition deepseek_params :: "sdk_settings \<Rightarrow> pyval list \<Rightarrow> pyval list \<Rightarrow> pyval" where
  "deepseek_params S messages tools =
     PDict ([((u ''model''), PStr (ss_model S)), ((u ''messages''), PList messages), ((u ''max_tokens''), PInt (ss_max_tokens S)),
        ((u ''temperature''), PFloat (Fin (ss_temperature S)))] @ (if tools \<noteq> [] then [((u ''tools''), PList tools)] else []))"

text \<open>The body of the loop returns, so the loop makes one request at most.\<close>

definition deepseek_call ::
  "chat_library \<Rightarrow> (pystr \<Rightarrow> kwargs res) \<Rightarrow> sdk_settings \<Rightarrow> nat \<Rightarrow> pyval list \<Rightarrow> pyval list \<Rightarrow> pystr
    \<Rightarrow> (openai_completion sdk_world, llm_response) op" where
  "deepseek_call B arguments S max_tool_rounds messages tools system =
     (if \<not> deepseek_configured S
      then ret (failure (ss_model S) FINISH_MISSING_API_KEY (u ''DeepSeek API key is not configured.''))
      else bind_op (lift_res (deepseek_messages B messages system)) (\<lambda>ms.
           bind_op (lift_res (deepseek_tools tools)) (\<lambda>ts.
           case [0..<max_tool_rounds] of
             [] \<Rightarrow> ret ((failure (ss_model S) FINISH_TOOL_CALLS ROUNDS_EXHAUSTED)\<lparr>lr_cost_usd := deepseek_cost 0 0\<rparr>)
           | k # ks \<Rightarrow>
               (\<lambda>w. case sdk_request S deepseek_retryable deepseek_unavailable (deepseek_params S ms ts) w of
                      (r, w') \<Rightarrow> (deepseek_read arguments (ss_model S) max_tool_rounds k r, w')))))"

section \<open>Anthropic\<close>

text \<open>A block of another kind is neither text nor a call; blocks of thinking are skipped.\<close>

datatype anthropic_block = TextBlock pystr | ToolUseBlock pystr pystr kwargs | OtherBlock

record anthropic_message =
  an_content :: "anthropic_block list"
  an_stop_reason :: pystr
  an_usage :: "int \<times> int"

definition anthropic_unavailable :: anthropic_message where
  "anthropic_unavailable =
     \<lparr>an_content = [TextBlock SERVICE_UNAVAILABLE], an_stop_reason = (u ''error''), an_usage = (0, 0)\<rparr>"

definition anthropic_retryable :: "sdk_error \<Rightarrow> bool" where
  "anthropic_retryable e =
     (case e of SdkError name status \<Rightarrow>
        name \<in> set [(u ''RateLimitError''), (u ''APITimeoutError''), (u ''APIConnectionError''), (u ''InternalServerError''), (u ''ServiceUnavailableError'')]
        \<or> status \<in> {Some 429, Some 500, Some 502, Some 503, Some 504})"

definition MODEL_PRICING :: "(pystr, rat \<times> rat) dict" where
  "MODEL_PRICING =
     [((u ''claude-sonnet-4-6''), (3, 15)), ((u ''claude-sonnet-4-5''), (3, 15)), ((u ''claude-opus-4-8''), (15, 75)),
      ((u ''claude-haiku-4-5''), (fl (4 / 5), 4))]"

definition estimate_cost :: "ucd \<Rightarrow> pystr \<Rightarrow> int \<Rightarrow> int \<Rightarrow> rat" where
  "estimate_cost T model input_tokens output_tokens =
     (let (input_price, output_price) =
        (case dict_get MODEL_PRICING model of
           Some p \<Rightarrow> p
         | None \<Rightarrow> if py_in (u ''deepseek'') (u_lower T model) then (fl (7 / 50), fl (7 / 25)) else (3, 15))
      in tokens_cost input_price output_price input_tokens output_tokens)"

definition format_message :: "pyval \<Rightarrow> pyval res" where
  "format_message m =
     (case m of
        PDict d \<Rightarrow> Inr (PDict [((u ''role''), get_or d (u ''role'') (PStr (u ''user''))), ((u ''content''), get_or d (u ''content'') (PStr []))])
      | _ \<Rightarrow> Inl AttributeError)"

definition format_tools :: "pyval list \<Rightarrow> pyval list res" where
  "format_tools tools =
     map_res (\<lambda>t. bind_res (tool_parts t) (\<lambda>(name, description, schema).
       Inr (PDict [((u ''name''), name), ((u ''description''), description), ((u ''input_schema''), schema)]))) tools"

definition anthropic_params :: "sdk_settings \<Rightarrow> pyval list \<Rightarrow> pyval list \<Rightarrow> pystr \<Rightarrow> pyval" where
  "anthropic_params S messages tools system =
     PDict ([((u ''model''), PStr (ss_model S)), ((u ''max_tokens''), PInt (ss_max_tokens S)),
        ((u ''temperature''), PFloat (Fin (ss_temperature S))), ((u ''messages''), PList messages)]
        @ (if system \<noteq> [] then [((u ''system''), PList [PDict [((u ''type''), PStr (u ''text'')), ((u ''text''), PStr system)]])] else [])
        @ (if tools \<noteq> [] then [((u ''tools''), PList tools)] else []))"

definition anthropic_texts :: "anthropic_block list \<Rightarrow> pystr list" where
  "anthropic_texts blocks = concat (map (\<lambda>b. case b of TextBlock s \<Rightarrow> [s] | _ \<Rightarrow> []) blocks)"

definition anthropic_calls :: "anthropic_block list \<Rightarrow> tool_call list" where
  "anthropic_calls blocks =
     concat (map (\<lambda>b. case b of ToolUseBlock i name input \<Rightarrow> [\<lparr>tc_id = i, tc_name = name, tc_input = input\<rparr>] | _ \<Rightarrow> []) blocks)"

definition anthropic_read :: "ucd \<Rightarrow> pystr \<Rightarrow> nat \<Rightarrow> nat \<Rightarrow> anthropic_message \<Rightarrow> llm_response" where
  "anthropic_read T model max_tool_rounds k r =
     (let (it, ot) = an_usage r; calls = anthropic_calls (an_content r);
          answer = \<lparr>lr_text = py_join [10] (anthropic_texts (an_content r)), lr_tool_calls = [], lr_input_tokens = it,
                    lr_output_tokens = ot, lr_cost_usd = estimate_cost T model it ot, lr_model = model,
                    lr_finish_reason = an_stop_reason r\<rparr>
      in if calls \<noteq> [] \<and> int k < int max_tool_rounds - 1
         then answer\<lparr>lr_tool_calls := calls, lr_finish_reason := (u ''tool_use'')\<rparr>
         else answer)"

definition anthropic_call ::
  "ucd \<Rightarrow> sdk_settings \<Rightarrow> nat \<Rightarrow> pyval list \<Rightarrow> pyval list \<Rightarrow> pystr \<Rightarrow> (anthropic_message sdk_world, llm_response) op" where
  "anthropic_call T S max_tool_rounds messages tools system =
     (if \<not> sdk_configured T S
      then ret (failure (ss_model S) FINISH_MISSING_API_KEY (u ''Anthropic API key is not configured.''))
      else bind_op (lift_res (map_res format_message messages)) (\<lambda>ms.
           bind_op (lift_res (format_tools tools)) (\<lambda>ts.
           case [0..<max_tool_rounds] of
             [] \<Rightarrow> ret ((failure (ss_model S) (u ''tool_use'') ROUNDS_EXHAUSTED)\<lparr>lr_cost_usd := estimate_cost T (ss_model S) 0 0\<rparr>)
           | k # ks \<Rightarrow>
               (\<lambda>w. case sdk_request S anthropic_retryable anthropic_unavailable (anthropic_params S ms ts system) w of
                      (r, w') \<Rightarrow> (Inr (anthropic_read T (ss_model S) max_tool_rounds k r), w')))))"

section \<open>Retries\<close>

text \<open>At most \<open>max_retries + 1\<close> requests are sent, with waits that double; the last one answers, if any does.\<close>

lemma sdk_attempts_bounded:
  assumes "sdk_attempts S retryable otherwise params ks w = (r, w')"
  shows "sw_asked w' \<le> sw_asked w + length ks
    \<and> (\<exists>ds. sw_sleeps w' = sw_sleeps w @ ds \<and> set ds \<subseteq> {fl (ss_retry_base_delay S * 2 ^ k) | k. k < ss_max_retries S})
    \<and> (r = otherwise \<or> (\<exists>n. sw_asked w' = Suc n \<and> sw_server w params n = Inr r))"
  using assms
proof (induction ks arbitrary: w)
  case (Cons k ks)
  let ?w1 = "w\<lparr>sw_asked := Suc (sw_asked w)\<rparr>"
  let ?w2 = "?w1\<lparr>sw_sleeps := sw_sleeps w @ [fl (ss_retry_base_delay S * 2 ^ k)]\<rparr>"
  show ?case
  proof (cases "\<exists>e. sw_server w params (sw_asked w) = Inl e \<and> k < ss_max_retries S \<and> retryable e")
    case True
    then have "sdk_attempts S retryable otherwise params ks ?w2 = (r, w')" using Cons.prems by (auto simp: Let_def)
    from Cons.IH[OF this] show ?thesis using True by auto
  next
    case False
    then show ?thesis using Cons.prems by (auto simp: Let_def split: sum.splits if_splits)
  qed
qed simp

section \<open>No tool is ever called\<close>

text \<open>
  The agent calls its client with \<open>max_tool_rounds=1\<close>, and both clients pass tool calls on only in a round
  before the last: an agent with one of them answers after one request at most and runs no tool.
\<close>

lemma deepseek_read_1: "deepseek_read arguments model 1 k r = Inr x \<Longrightarrow> lr_tool_calls x = []"
  by (cases "oa_usage r"; cases "oa_choices r") (auto simp: deepseek_read_def Let_def split_def)

lemma anthropic_read_1: "lr_tool_calls (anthropic_read T model 1 k r) = []"
  by (simp add: anthropic_read_def Let_def split_def)

text \<open>The DeepSeek client does not even ask: whatever its key, it answers that it has none.\<close>

lemma deepseek_never_asks:
  "deepseek_call B arguments S n ms ts system w
    = (Inr (failure (ss_model S) FINISH_MISSING_API_KEY (u ''DeepSeek API key is not configured.'')), w)"
  by (simp add: deepseek_call_def deepseek_configured_def)

lemma deepseek_no_tools: "deepseek_call B arguments S n ms ts system w = (Inr r, w') \<Longrightarrow> lr_tool_calls r = []"
  by (auto simp: deepseek_never_asks failure_def)

lemma anthropic_no_tools:
  assumes "anthropic_call T S 1 ms ts system w = (Inr r, w')"
  shows "lr_tool_calls r = []"
proof (cases "sdk_configured T S")
  case True
  then obtain x where "r = anthropic_read T (ss_model S) 1 0 x"
    using assms by (auto simp: anthropic_call_def bind_op_Inr_iff split_def)
  then show ?thesis using anthropic_read_1 by simp
qed (use assms in \<open>auto simp: anthropic_call_def failure_def\<close>)

lemma rounds_without_tools:
  assumes "\<And>ms ts system s r s'. ag_call A ms ts system s = (Inr r, s') \<Longrightarrow> lr_tool_calls r = []"
    and "rounds A n t s = (Inr t', s')"
  shows "tu_tools_called t' = tu_tools_called t \<and> tu_llm_calls t' \<le> tu_llm_calls t + 1"
proof (cases n)
  case 0
  then show ?thesis using assms(2) by simp
next
  case (Suc m)
  obtain r s1 where r: "ag_call A (tu_messages t) (registry_schemas (ag_registry A)) (ag_system A) s = (Inr r, s1)"
    using assms(2) Suc by (auto simp: bind_op_Inr_iff)
  have "lr_tool_calls r = []" using assms(1)[OF r] .
  then show ?thesis using assms(2) Suc r
    by (auto simp: bind_op_def Let_def fail_turn_def answer_turn_def split: if_splits prod.splits)
qed

lemma agent_without_tools:
  assumes "\<And>ms ts system s r s'. ag_call A ms ts system s = (Inr r, s') \<Longrightarrow> lr_tool_calls r = []"
    and "agent_run A n user_input session_id s = (Inr i, s')"
  shows "it_tools_called i = [] \<and> im_llm_calls (it_metadata i) \<le> 1"
  using assms(2) rounds_without_tools[OF assms(1)] complete_turn_facts(3,4)
  by (fastforce simp: agent_run_def bind_op_Inr_iff interaction_of_def bind_res_Inr_iff mk_interaction_def checked_def first_turn_def
      split: if_splits)

lemma deepseek_agent_calls_no_tool:
  "ag_call A = deepseek_call B arguments S 1 \<Longrightarrow> agent_run A n user_input session_id s = (Inr i, s') \<Longrightarrow>
     it_tools_called i = [] \<and> im_llm_calls (it_metadata i) \<le> 1"
  by (rule agent_without_tools[of A n user_input session_id s i s']) (auto simp del: One_nat_def dest: deepseek_no_tools)

lemma anthropic_agent_calls_no_tool:
  "ag_call A = anthropic_call T S 1 \<Longrightarrow> agent_run A n user_input session_id s = (Inr i, s') \<Longrightarrow>
     it_tools_called i = [] \<and> im_llm_calls (it_metadata i) \<le> 1"
  by (rule agent_without_tools[of A n user_input session_id s i s']) (auto simp del: One_nat_def dest: anthropic_no_tools)

end
