(* ===== verification/Interaction_Store.thy ===== *)
theory Interaction_Store
  imports Customer_Store "HOL-Library.Multiset"
begin

text \<open>
  \<open>memory/interaction_store.py\<close>: one JSON file per interaction in a directory per customer, and an index
  that is rebuilt on every write. The files lie on the disk of the customer store under the names
  \<open>InteractionFile customer name\<close>; a directory that does not exist and an empty one are the same, as every
  operation of the code treats them alike.
\<close>

section \<open>The store\<close>

text \<open>
  \<open>ic_dump\<close> and \<open>ic_index\<close> are the JSON dumps of a record and of its line of the index, \<open>ic_record\<close> is
  \<open>InteractionRecord(**data)\<close>, \<open>None\<close> for any exception.
\<close>

record interaction_store =
  ic_dumps :: "pyval \<Rightarrow> pystr"
  ic_loads :: "pystr \<Rightarrow> pyval option"
  ic_dump :: "interaction_record \<Rightarrow> pyval"
  ic_record :: "pyval \<Rightarrow> interaction_record option"
  ic_isoformat :: "datetime \<Rightarrow> pystr"

definition INDEX_NAME :: pystr where
  "INDEX_NAME = (u ''_index.json'')"

definition json_name :: "pystr \<Rightarrow> pystr" where
  "json_name interaction_id = interaction_id @ (u ''.json'')"

definition tmp_name :: "pystr \<Rightarrow> pystr" where
  "tmp_name interaction_id = interaction_id @ (u ''.tmp'')"

definition directory :: "pystr \<Rightarrow> disk \<Rightarrow> pystr list" where
  "directory cid D =
     concat (map (\<lambda>(p, c). case p of InteractionFile d name \<Rightarrow> (if d = cid then [name] else []) | _ \<Rightarrow> []) (dk_files D))"

definition json_files :: "pystr \<Rightarrow> disk \<Rightarrow> pystr list" where
  "json_files cid D = filter (suffix (u ''.json'')) (directory cid D)"

text \<open>A record, if the file can be read as one; every exception is caught.\<close>

definition read_record :: "interaction_store \<Rightarrow> file_path \<Rightarrow> interaction_record option disk_op" where
  "read_record S p =
     try_op (bind_op (read_text p) (\<lambda>s. ret (case ic_loads S s of None \<Rightarrow> None | Some v \<Rightarrow> ic_record S v)))
       (\<lambda>e. Some (ret None))"

definition load_interaction :: "interaction_store \<Rightarrow> pystr \<Rightarrow> pystr \<Rightarrow> interaction_record option disk_op" where
  "load_interaction S cid iid =
     bind_op (get_op (file_exists (InteractionFile cid (json_name iid)))) (\<lambda>found.
     if \<not> found then ret None else read_record S (InteractionFile cid (json_name iid)))"

definition interaction_exists :: "pystr \<Rightarrow> pystr \<Rightarrow> disk \<Rightarrow> bool" where
  "interaction_exists cid iid = file_exists (InteractionFile cid (json_name iid))"

text \<open>The loop over the files; the limit is tested after every file but the index.\<close>

fun read_files :: "interaction_store \<Rightarrow> pystr \<Rightarrow> nat \<Rightarrow> pystr list \<Rightarrow> interaction_record list \<Rightarrow> interaction_record list disk_op" where
  "read_files S cid limit [] records = ret records"
| "read_files S cid limit (name # names) records =
     (if name = INDEX_NAME then read_files S cid limit names records
      else bind_op (read_record S (InteractionFile cid name)) (\<lambda>r.
           let records' = (case r of None \<Rightarrow> records | Some x \<Rightarrow> records @ [x])
           in if limit \<le> length records' then ret records' else read_files S cid limit names records'))"

text \<open>
  \<open>records.sort(key=lambda r: r.date, reverse=True)\<close>: equal dates keep their order; a naive and an aware
  date cannot be compared.
\<close>

definition newest_first :: "interaction_record list \<Rightarrow> interaction_record list res" where
  "newest_first rs =
     (let naive = (\<lambda>r. utc_offset (in_date r) = None)
      in if list_ex naive rs \<and> list_ex (\<lambda>r. \<not> naive r) rs then Inl (TypeError ''can't compare offset-naive and offset-aware datetimes'')
         else Inr (rev (sort_key (\<lambda>r. instant (in_date r)) (rev rs))))"

definition list_for_customer :: "interaction_store \<Rightarrow> pystr \<Rightarrow> nat \<Rightarrow> interaction_record list disk_op" where
  "list_for_customer S cid limit =
     bind_op (get_op (json_files cid)) (\<lambda>names.
     bind_op (read_files S cid limit (rev (sort names)) []) (\<lambda>records.
     bind_op (lift_res (newest_first records)) (\<lambda>rs. ret (take limit rs))))"

definition count_for_customer :: "pystr \<Rightarrow> disk \<Rightarrow> nat" where
  "count_for_customer cid D = length (filter (\<lambda>name. name \<noteq> INDEX_NAME) (json_files cid D))"

definition summary_of :: "interaction_store \<Rightarrow> interaction_record \<Rightarrow> pyval" where
  "summary_of S r =
     PDict [((u ''interaction_id''), PStr (in_interaction_id r)), ((u ''date''), PStr (ic_isoformat S (in_date r))),
       ((u ''type''), PStr (u (interaction_type_value (in_type r)))), ((u ''summary''), PStr (in_summary r))]"

definition get_recent_summaries :: "interaction_store \<Rightarrow> pystr \<Rightarrow> nat \<Rightarrow> pyval list disk_op" where
  "get_recent_summaries S cid n = bind_op (list_for_customer S cid n) (\<lambda>rs. ret (map (summary_of S) rs))"

definition last_interaction_date :: "interaction_store \<Rightarrow> pystr \<Rightarrow> datetime option disk_op" where
  "last_interaction_date S cid =
     bind_op (list_for_customer S cid 1) (\<lambda>rs. ret (case rs of [] \<Rightarrow> None | r # rest \<Rightarrow> Some (in_date r)))"

text \<open>The index; only a failing write is caught.\<close>

definition refresh_index :: "interaction_store \<Rightarrow> pystr \<Rightarrow> unit disk_op" where
  "refresh_index S cid =
     bind_op (list_for_customer S cid 200) (\<lambda>rs.
     on_os_error
       (bind_op (write_text (InteractionFile cid (tmp_name (u ''_index''))) (ic_dumps S (PList (map (summary_of S) rs)))) (\<lambda>_.
        replace_file (InteractionFile cid (tmp_name (u ''_index''))) (InteractionFile cid INDEX_NAME)))
       (ret ()))"

definition make_directory :: "unit disk_op" where
  "make_directory = bind_op next_fault (\<lambda>f. if f = Works then ret () else raise_op OSError)"

definition save_interaction :: "interaction_store \<Rightarrow> interaction_record \<Rightarrow> unit disk_op" where
  "save_interaction S r =
     (let cid = in_customer_id r; tmp = InteractionFile cid (tmp_name (in_interaction_id r));
          path = InteractionFile cid (json_name (in_interaction_id r))
      in bind_op make_directory (\<lambda>_.
         bind_op (on_os_error
             (bind_op (write_text tmp (ic_dumps S (ic_dump S r))) (\<lambda>_. replace_file tmp path))
             (bind_op (get_op (file_exists tmp)) (\<lambda>left.
              bind_op (if left then unlink tmp else ret ()) (\<lambda>_. raise_op OSError)))) (\<lambda>_.
         refresh_index S cid)))"

definition delete_interaction :: "interaction_store \<Rightarrow> pystr \<Rightarrow> pystr \<Rightarrow> bool disk_op" where
  "delete_interaction S cid iid =
     (let path = InteractionFile cid (json_name iid)
      in bind_op (get_op (file_exists path)) (\<lambda>found.
         if \<not> found then ret False
         else on_os_error (bind_op (unlink path) (\<lambda>_. bind_op (refresh_index S cid) (\<lambda>_. ret True))) (ret False)))"

section \<open>Listing\<close>

definition dated :: "interaction_record \<Rightarrow> int" where
  "dated r = instant (in_date r)"

lemma newest_first_Inr:
  assumes "newest_first rs = Inr out"
  shows "mset out = mset rs" "sorted (map dated (rev out))"
proof -
  have "dated = (\<lambda>r. instant (in_date r))" by (simp add: fun_eq_iff dated_def)
  then have "out = rev (sort_key dated (rev rs))" using assms by (simp add: newest_first_def Let_def split: if_splits)
  then show "mset out = mset rs" "sorted (map dated (rev out))" by simp_all
qed

lemma list_for_customer_sorted:
  assumes "list_for_customer S cid limit D = (Inr rs, D')"
  shows "length rs \<le> limit" "sorted (map dated (rev rs))"
proof -
  obtain records out where "newest_first records = Inr out" "rs = take limit out"
    using assms by (auto simp: list_for_customer_def bind_op_Inr_iff)
  then show "length rs \<le> limit" "sorted (map dated (rev rs))"
    using newest_first_Inr(2)[of records out]
    by (auto simp: rev_take rev_map[symmetric] drop_map[symmetric] simp del: sort_key_simps)
qed

text \<open>What an operation on interactions leaves alone: the files of the customers.\<close>

definition keeps_customers :: "'a disk_op \<Rightarrow> bool" where
  "keeps_customers m \<longleftrightarrow>
     (\<forall>D r D' p. m D = (r, D') \<and> (\<forall>cid name. p \<noteq> InteractionFile cid name) \<longrightarrow> file_at D' p = file_at D p)"

lemma keeps_basic:
  "keeps_customers (ret x)" "keeps_customers (raise_op e)" "keeps_customers (get_op f)" "keeps_customers (lift_res v)"
  "keeps_customers next_fault" "keeps_customers (put_op (put_file (InteractionFile cid name) c))"
  "keeps_customers (put_op (drop_file (InteractionFile cid name)))"
  by (auto simp: keeps_customers_def next_fault_def split: list.splits)

lemma keeps_bind: "keeps_customers m \<Longrightarrow> (\<And>x. keeps_customers (f x)) \<Longrightarrow> keeps_customers (bind_op m f)"
  unfolding keeps_customers_def bind_op_def by (auto split: prod.splits sum.splits)

lemma keeps_try: "keeps_customers m \<Longrightarrow> (\<And>e k. h e = Some k \<Longrightarrow> keeps_customers k) \<Longrightarrow> keeps_customers (try_op m h)"
  unfolding keeps_customers_def try_op_def by (auto split: prod.splits sum.splits option.splits)

lemma keeps_read_text: "keeps_customers (read_text p)"
  unfolding read_text_def
  by (rule keeps_bind[OF keeps_basic(5)]) (auto intro!: keeps_bind keeps_basic split: option.split)

lemma keeps_read_record: "keeps_customers (read_record S p)"
  unfolding read_record_def by (rule keeps_try) (auto intro!: keeps_bind keeps_read_text keeps_basic)

lemma keeps_read_files: "keeps_customers (read_files S cid limit names records)"
  by (induction names arbitrary: records) (auto intro!: keeps_bind keeps_basic keeps_read_record simp: Let_def)

lemma keeps_list: "keeps_customers (list_for_customer S cid limit)"
  unfolding list_for_customer_def by (intro keeps_bind keeps_basic keeps_read_files)

lemma keeps_last_date: "keeps_customers (last_interaction_date S cid)"
  unfolding last_interaction_date_def by (intro keeps_bind keeps_basic keeps_list)

section \<open>The last interaction\<close>

text \<open>
  \<open>last_interaction_date\<close> stops after the file whose name is the last in the order of names, so it is the
  date of that interaction, not the latest date.
\<close>

definition demo_interaction :: "pystr \<Rightarrow> int \<Rightarrow> interaction_record" where
  "demo_interaction iid t =
     \<lparr>in_interaction_id = iid, in_customer_id = (u ''c''), in_date = utc t, in_type = ItCALL, in_raw_text = [], in_summary = [],
      in_key_quotes = [], in_extracted_facts = [], in_procurement_signals = None, in_risks = [], in_next_actions = [],
      in_created_at = utc t\<rparr>"

definition demo_interactions :: interaction_store where
  "demo_interactions =
     \<lparr>ic_dumps = (\<lambda>v. []), ic_loads = (\<lambda>s. Some (PStr s)), ic_dump = (\<lambda>r. PNone),
      ic_record = (\<lambda>v. if v = PStr (u ''old'') then Some (demo_interaction (u ''b'') 1) else Some (demo_interaction (u ''a'') 2)),
      ic_isoformat = (\<lambda>d. [])\<rparr>"

definition two_interactions :: disk where
  "two_interactions =
     \<lparr>dk_files = [(InteractionFile (u ''c'') (u ''a.json''), Some (u ''new'')), (InteractionFile (u ''c'') (u ''b.json''), Some (u ''old''))], dk_faults = []\<rparr>"

lemma last_interaction_is_not_latest:
  "last_interaction_date demo_interactions (u ''c'') two_interactions = (Inr (Some (utc 1)), two_interactions)
    \<and> list_for_customer demo_interactions (u ''c'') 20 two_interactions
        = (Inr [demo_interaction (u ''a'') 2, demo_interaction (u ''b'') 1], two_interactions)"
  by (simp add: last_interaction_date_def list_for_customer_def json_files_def directory_def two_interactions_def bind_op_def
      read_record_def read_text_def next_fault_def try_op_def demo_interactions_def newest_first_def Let_def INDEX_NAME_def
      demo_interaction_def suffix_def)

end
