(* ===== verification/Customer_Tools.thy ===== *)
theory Customer_Tools
  imports Interaction_Store Tool_Agent
begin

text \<open>
  \<open>tools/customer_memory.py\<close> and \<open>tools/sales_score.py\<close>: the three tools of the agents over the customer
  and the interaction store. The arguments have the types of their schemas: optional strings, and a list
  of strings for the aliases. What a tool reads of the clock is an argument.
\<close>

section \<open>Search\<close>

definition done_tool :: "pystr \<Rightarrow> pyval \<Rightarrow> pystr list \<Rightarrow> pystr \<Rightarrow> tool_result" where
  "done_tool name data warnings summary =
     \<lparr>tl_success = True, tl_tool_name = name, tl_data = data, tl_errors = [], tl_warnings = warnings, tl_summary = summary\<rparr>"

definition SEARCH_TOOL :: pystr where
  "SEARCH_TOOL = (u ''customer_memory_search'')"

definition UPDATE_TOOL :: pystr where
  "UPDATE_TOOL = (u ''customer_memory_update'')"

definition SCORE_TOOL :: pystr where
  "SCORE_TOOL = (u ''sales_score_calculator'')"

definition optional_value :: "('a \<Rightarrow> pyval) \<Rightarrow> 'a option \<Rightarrow> pyval" where
  "optional_value f v = (case v of None \<Rightarrow> PNone | Some x \<Rightarrow> f x)"

definition search_row :: "customer_profile \<Rightarrow> pyval" where
  "search_row p =
     PDict [((u ''customer_id''), PStr (cp_customer_id p)), ((u ''customer_name''), PStr (cp_customer_name p)),
       ((u ''industry''), optional_value PStr (cp_industry p)), ((u ''sales_stage''), PStr (u (stage_value (cp_sales_stage p)))),
       ((u ''status''), PStr (u (customer_status_value (cp_status p)))),
       ((u ''deal_score''), optional_value (\<lambda>d. PInt (ds_score d)) (cp_deal_score p)),
       ((u ''deal_level''), optional_value (\<lambda>d. PStr (u (deal_level_value (ds_level d)))) (cp_deal_score p)),
       ((u ''health_score''), optional_value (\<lambda>h. PInt (hs_health_score h)) (cp_health_score p)),
       ((u ''health_status''), optional_value (\<lambda>h. PStr (u (health_status_value (health_score.hs_status h)))) (cp_health_score p)),
       ((u ''contact_count''), PInt (int (contact_count p)))]"

definition filter_text :: "pystr \<Rightarrow> pystr option \<Rightarrow> pystr \<Rightarrow> pystr list" where
  "filter_text before v after = (if truthy v then [before @ the v @ after] else [])"

definition search_tool ::
  "customer_store \<Rightarrow> pystr option \<Rightarrow> pystr option \<Rightarrow> pystr option \<Rightarrow> pystr option \<Rightarrow> tool_result disk_op" where
  "search_tool S name industry stage status =
     bind_op (search S name industry stage status) (\<lambda>results.
     if results = [] then ret (done_tool SEARCH_TOOL (PList []) [] [26410, 25214, 21040, 21305, 37197, 30340, 23458, 25143])
     else
       let filters = filter_text [21517, 31216, 21253, 21547, 39] name [39] @ filter_text [34892, 19994, 61] industry [] @ filter_text [38454, 27573, 61] stage []
                       @ filter_text [29366, 24577, 61] status []
       in ret (done_tool SEARCH_TOOL (PList (map search_row results)) []
            ([25214, 21040, 32] @ py_str_nat (length results) @ [32, 20010, 23458, 25143]
              @ (if filters \<noteq> [] then [65288] @ py_join [65292] filters @ [65289] else [65288, 20840, 37096, 65289]))))"

definition no_customer :: "pystr \<Rightarrow> pystr \<Rightarrow> pystr \<Rightarrow> tool_result" where
  "no_customer tool heading cid =
     failed_tool tool [[23458, 25143, 32, 39] @ cid @ [39, 32, 19981, 23384, 22312]] (heading @ [65306, 23458, 25143, 32] @ cid @ [32, 26410, 25214, 21040])"

section \<open>Update\<close>

record update_args =
  ua_customer_id :: "pystr option"
  ua_customer_name :: "pystr option"
  ua_industry :: "pystr option"
  ua_sales_stage :: "pystr option"
  ua_status :: "pystr option"
  ua_aliases :: "pystr list option"

text \<open>A step of the update: a refusal, or the profile and the names of the changed fields.\<close>

type_synonym update_state = "customer_profile \<times> pystr list"

definition update_name :: "pystr option \<Rightarrow> update_state \<Rightarrow> update_state" where
  "update_name name = (\<lambda>(p, changed).
     if truthy name \<and> name \<noteq> Some (cp_customer_name p)
     then (p\<lparr>cp_customer_name := the name\<rparr>, changed @ [(u ''customer_name'')]) else (p, changed))"

definition update_industry :: "pystr option \<Rightarrow> update_state \<Rightarrow> update_state" where
  "update_industry industry = (\<lambda>(p, changed).
     if industry \<noteq> None \<and> industry \<noteq> cp_industry p
     then (p\<lparr>cp_industry := industry\<rparr>, changed @ [(u ''industry'')]) else (p, changed))"

definition update_stage :: "ucd \<Rightarrow> datetime \<Rightarrow> pystr option \<Rightarrow> update_state \<Rightarrow> tool_result + update_state" where
  "update_stage T now stage = (\<lambda>(p, changed).
     case (if truthy stage then stage_from_string T (the stage) else None) of
       None \<Rightarrow> Inr (p, changed)
     | Some new_stage \<Rightarrow>
         if new_stage = cp_sales_stage p then Inr (p, changed)
         else (case transition_to now new_stage p of
                 (True, p') \<Rightarrow> Inr (p', changed @ [[115, 97, 108, 101, 115, 95, 115, 116, 97, 103, 101, 8594] @ the stage])
               | (False, p') \<Rightarrow> Inl (failed_tool UPDATE_TOOL
                   [[26080, 25928, 30340, 38454, 27573, 36716, 25442, 58, 32] @ u (stage_value (cp_sales_stage p)) @ [32, 8594, 32] @ the stage] [26356, 26032, 22833, 36133, 65306, 38144, 21806, 38454, 27573, 36716, 25442, 26080, 25928])))"

definition update_status :: "pystr option \<Rightarrow> update_state \<Rightarrow> tool_result + update_state" where
  "update_status status = (\<lambda>(p, changed).
     if \<not> truthy status then Inr (p, changed)
     else case customer_status_of (the status) of
            None \<Rightarrow> Inl (failed_tool UPDATE_TOOL [[26080, 25928, 30340, 23458, 25143, 29366, 24577, 58, 32] @ the status] [26356, 26032, 22833, 36133, 65306, 26080, 25928, 30340, 23458, 25143, 29366, 24577])
          | Some s \<Rightarrow> Inr (if s \<noteq> cp_status p then (p\<lparr>cp_status := s\<rparr>, changed @ [[115, 116, 97, 116, 117, 115, 8594] @ the status]) else (p, changed)))"

definition update_aliases :: "pystr list option \<Rightarrow> update_state \<Rightarrow> update_state" where
  "update_aliases aliases = (\<lambda>(p, changed).
     case aliases of None \<Rightarrow> (p, changed) | Some xs \<Rightarrow> (p\<lparr>cp_aliases := xs\<rparr>, changed @ [(u ''aliases'')]))"

definition apply_update :: "ucd \<Rightarrow> datetime \<Rightarrow> update_args \<Rightarrow> customer_profile \<Rightarrow> tool_result + update_state" where
  "apply_update T now args p =
     (case update_stage T now (ua_sales_stage args) (update_industry (ua_industry args) (update_name (ua_customer_name args) (p, []))) of
        Inl r \<Rightarrow> Inl r
      | Inr s \<Rightarrow>
          (case update_status (ua_status args) s of
             Inl r \<Rightarrow> Inl r
           | Inr s' \<Rightarrow> Inr (update_aliases (ua_aliases args) s')))"

text \<open>What follows the load of an existing customer.\<close>

definition update_found ::
  "customer_store \<Rightarrow> datetime \<Rightarrow> datetime \<Rightarrow> update_args \<Rightarrow> pystr \<Rightarrow> customer_profile \<Rightarrow> tool_result disk_op" where
  "update_found S now later args cid p =
     (case apply_update (lib_ucd (ct_library S)) now args p of
        Inl r \<Rightarrow> ret r
      | Inr (p', changed) \<Rightarrow>
          if changed = []
          then ret (done_tool UPDATE_TOOL (PDict [((u ''customer_id''), PStr cid)]) [[27809, 26377, 23383, 27573, 34987, 20462, 25913]] ([23458, 25143, 32] @ cid @ [32, 26080, 38656, 26356, 26032]))
          else bind_op (save S later p') (\<lambda>_.
               ret (done_tool UPDATE_TOOL
                 (PDict [((u ''customer_id''), PStr cid), ((u ''changed_fields''), PList (map PStr changed))]) []
                 ([24050, 26356, 26032, 23458, 25143, 32] @ cid @ (u '': '') @ py_join (u '', '') changed))))"

definition update_tool :: "customer_store \<Rightarrow> datetime \<Rightarrow> datetime \<Rightarrow> update_args \<Rightarrow> tool_result disk_op" where
  "update_tool S now later args =
     (if \<not> truthy (ua_customer_id args)
      then ret (failed_tool UPDATE_TOOL [[32570, 23569, 24517, 22635, 21442, 25968, 58, 32, 99, 117, 115, 116, 111, 109, 101, 114, 95, 105, 100]] [26356, 26032, 22833, 36133, 65306, 26410, 25351, 23450, 32, 99, 117, 115, 116, 111, 109, 101, 114, 95, 105, 100])
      else
        let cid = the (ua_customer_id args)
        in bind_op (load S cid) (\<lambda>found.
           case found of
             None \<Rightarrow> ret (no_customer UPDATE_TOOL [26356, 26032, 22833, 36133] cid)
           | Some p \<Rightarrow> update_found S now later args cid p))"

section \<open>Scores\<close>

definition estimate_need_clarity :: "customer_profile \<Rightarrow> int" where
  "estimate_need_clarity p =
     min 100 (max 0 ((if cp_procurement_items p \<noteq> [] then 40 else 0) + (if truthy (cp_budget_range p) then 20 else 0)
       + (if truthy (cp_timeline p) then 20 else 0) + (if truthy (cp_procurement_cycle p) then 10 else 0) + 10))"

definition estimate_budget :: "customer_profile \<Rightarrow> int" where
  "estimate_budget p =
     min 100 (max 0 ((if truthy (cp_budget_range p) then 50 else 0)
       + (if list_ex has_budget (cp_procurement_items p) then 30 else 0) + 10))"

definition estimate_urgency :: "customer_profile \<Rightarrow> int" where
  "estimate_urgency p =
     min 100 (max 0 (30
       + (if cp_sales_stage p \<in> {NEGOTIATION, PROCUREMENT_APPROVAL, CONTRACT_SIGNING} then 40
          else if cp_sales_stage p = QUOTATION then 25 else 0)
       + (if truthy (cp_timeline p) then 15 else 0)))"

definition map_recent_contact :: "int \<Rightarrow> int" where
  "map_recent_contact days =
     (if days \<le> 1 then 20 else if days \<le> 3 then 18 else if days \<le> 7 then 14 else if days \<le> 14 then 10
      else if days \<le> 30 then 6 else 2)"

definition map_responsiveness :: "customer_profile \<Rightarrow> int" where
  "map_responsiveness p = (if has_risks p then max 2 (20 - int (high_priority_risk_count p) * 5) else 15)"

definition deal_dimensions :: "customer_profile \<Rightarrow> (string, int) dict" where
  "deal_dimensions p =
     [(''need_clarity'', estimate_need_clarity p), (''budget_fit'', estimate_budget p),
      (''decision_maker_access'', if has_decision_maker_contact p then 80 else if has_contacts p then 40 else 10),
      (''urgency'', estimate_urgency p),
      (''engagement'', if has_procurement_items p then 80 else if has_contacts p then 40 else 10)]"

definition health_dimensions :: "customer_profile \<Rightarrow> int \<Rightarrow> (string, int) dict" where
  "health_dimensions p days =
     [(''recent_contact'', map_recent_contact days), (''responsiveness'', map_responsiveness p),
      (''decision_maker_involvement'', if has_decision_maker_contact p then 20 else 5),
      (''need_clarity'', case cp_deal_score p of None \<Rightarrow> 10 | Some d \<Rightarrow> ds_need_clarity d div 5),
      (''budget_timeline_clarity'', if truthy (cp_budget_range p) \<and> truthy (cp_timeline p) then 15 else 5)]"

definition deal_row :: "deal_score \<Rightarrow> pyval" where
  "deal_row d =
     PDict [((u ''score''), PInt (ds_score d)), ((u ''level''), PStr (u (deal_level_value (ds_level d)))),
       ((u ''confidence''), PStr (u (level3_value (ds_confidence d)))),
       ((u ''missing_dimensions''), PList (map (\<lambda>m. PStr (u m)) (ds_missing_dimensions d))),
       ((u ''risk_penalty''), PInt (ds_risk_penalty d)), ((u ''summary''), PStr (ds_summary d))]"

definition health_row :: "health_score \<Rightarrow> pyval" where
  "health_row h =
     PDict [((u ''score''), PInt (hs_health_score h)), ((u ''status''), PStr (u (health_status_value (health_score.hs_status h)))),
       ((u ''recent_contact''), PInt (hs_recent_contact h)), ((u ''summary''), PStr (hs_summary h))]"

definition confidence_warning :: "deal_score \<Rightarrow> pystr list" where
  "confidence_warning d =
     (if low_confidence d
      then [[25104, 20132, 35780, 20998, 32622, 20449, 24230, 20302, 40] @ u (level3_value (ds_confidence d)) @ [41, 65292, 32570, 22833, 32500, 24230, 58, 32]
              @ py_join (u '', '') (map u (ds_missing_dimensions d))]
      else [])"

text \<open>\<open>max(0, (now - last_date).days)\<close>, 0 without an interaction; a naive date cannot be subtracted.\<close>

definition days_since :: "datetime \<Rightarrow> datetime option \<Rightarrow> int res" where
  "days_since now last_date =
     (case last_date of
        None \<Rightarrow> Inr 0
      | Some d \<Rightarrow> if utc_offset d = None then Inl (TypeError ''can't subtract offset-naive and offset-aware datetimes'')
                  else Inr (max 0 (days_between now d)))"

text \<open>\<open>score_type in ("deal", "both")\<close>, the type being \<open>both\<close> when it is not given.\<close>

definition wants :: "pystr \<Rightarrow> pystr option \<Rightarrow> bool" where
  "wants part score_type \<longleftrightarrow> (case score_type of None \<Rightarrow> True | Some s \<Rightarrow> s \<in> {part, (u ''both'')})"

definition deal_part :: "scoring_weights \<Rightarrow> datetime \<Rightarrow> customer_profile \<Rightarrow> (deal_score option \<times> customer_profile) res" where
  "deal_part weights now p =
     bind_res (score_deal weights (deal_dimensions p) (cp_risks p)) (\<lambda>d. Inr (Some d, set_deal_score now d p))"

definition health_part ::
  "interaction_store \<Rightarrow> decay_threshold list \<Rightarrow> datetime \<Rightarrow> pystr \<Rightarrow> customer_profile
    \<Rightarrow> (health_score option \<times> customer_profile) disk_op" where
  "health_part I decay now cid p =
     bind_op (last_interaction_date I cid) (\<lambda>last_date.
     bind_op (lift_res (days_since now last_date)) (\<lambda>days.
     bind_op (lift_res (score_health decay (health_dimensions p days) days)) (\<lambda>h.
     ret (Some h, set_health_score now h p))))"

definition score_answer :: "pystr \<Rightarrow> deal_score option \<Rightarrow> health_score option \<Rightarrow> tool_result" where
  "score_answer cid deal health =
     done_tool SCORE_TOOL
       (PDict ([((u ''customer_id''), PStr cid)]
          @ (case deal of None \<Rightarrow> [] | Some d \<Rightarrow> [((u ''deal_score''), deal_row d)])
          @ (case health of None \<Rightarrow> [] | Some h \<Rightarrow> [((u ''health_score''), health_row h)])))
       (case deal of None \<Rightarrow> [] | Some d \<Rightarrow> confidence_warning d)
       ([23458, 25143, 32] @ cid @ [32, 35780, 20998, 23436, 25104]
          @ (case deal of None \<Rightarrow> [] | Some d \<Rightarrow> [65292, 25104, 20132, 20998, 61] @ py_str_int (ds_score d))
          @ (case health of None \<Rightarrow> [] | Some h \<Rightarrow> [65292, 20581, 24247, 24230, 61] @ py_str_int (hs_health_score h)))"

text \<open>The profile that is scored, and the result that is answered once it is saved.\<close>

definition scored ::
  "interaction_store \<Rightarrow> scoring_weights \<Rightarrow> decay_threshold list \<Rightarrow> datetime \<Rightarrow> pystr \<Rightarrow> pystr option \<Rightarrow> customer_profile
    \<Rightarrow> (tool_result \<times> customer_profile) disk_op" where
  "scored I weights decay now cid score_type p =
     bind_op (if wants (u ''deal'') score_type then lift_res (deal_part weights now p) else ret (None, p)) (\<lambda>(deal, p1).
     bind_op (if wants (u ''health'') score_type then health_part I decay now cid p1 else ret (None, p1)) (\<lambda>(health, p2).
     ret (score_answer cid deal health, p2)))"

definition score_tool ::
  "customer_store \<Rightarrow> interaction_store \<Rightarrow> scoring_weights \<Rightarrow> decay_threshold list \<Rightarrow> datetime \<Rightarrow> datetime \<Rightarrow> pystr option
    \<Rightarrow> pystr option \<Rightarrow> tool_result disk_op" where
  "score_tool S I weights decay now later customer_id score_type =
     (if \<not> truthy customer_id
      then ret (failed_tool SCORE_TOOL [[32570, 23569, 24517, 22635, 21442, 25968, 58, 32, 99, 117, 115, 116, 111, 109, 101, 114, 95, 105, 100]] [35780, 20998, 22833, 36133, 65306, 26410, 25351, 23450, 32, 99, 117, 115, 116, 111, 109, 101, 114, 95, 105, 100])
      else
        let cid = the customer_id
        in bind_op (load S cid) (\<lambda>found.
           case found of
             None \<Rightarrow> ret (no_customer SCORE_TOOL [35780, 20998, 22833, 36133] cid)
           | Some p \<Rightarrow>
               bind_op (scored I weights decay now cid score_type p) (\<lambda>(answer, p').
               bind_op (save S later p') (\<lambda>_. ret answer))))"

section \<open>What the tools leave alone\<close>

lemma touches_sum [touches_intros]:
  "(\<And>x. touches P (f x)) \<Longrightarrow> (\<And>y. touches P (g y)) \<Longrightarrow> touches P (case v of Inl x \<Rightarrow> f x | Inr y \<Rightarrow> g y)"
  by (cases v) simp_all

lemma touches_load [touches_intros]: "touches P (load S cid)"
  unfolding load_def loads_op_def check_schema_member_def
  by (intro touches_intros) (auto intro!: touches_intros split: pyval.split option.split)

lemma touches_load_all [touches_intros]: "touches P (load_all S cids)"
  by (induction cids) (simp_all only: load_all.simps, (intro touches_intros; assumption)+)

lemma touches_read_files [touches_intros]: "touches P (read_files I cid limit names records)"
  by (induction names arbitrary: records) (auto intro!: touches_intros simp: read_record_def Let_def split: option.split)

lemma touches_last_date [touches_intros]: "touches P (last_interaction_date I cid)"
  unfolding last_interaction_date_def list_for_customer_def by (intro touches_intros)

lemma touches_search: "touches {} (search_tool S name industry stage status)"
  unfolding search_tool_def search_def filtered_def list_all_customers_def Let_def by (intro touches_intros)

lemma touches_nothing: "touches {} m \<Longrightarrow> m D = (x, D') \<Longrightarrow> file_at D' q = file_at D q"
  using touchesD[of "{}" m D x D' q] by simp

section \<open>Updates\<close>

text \<open>What an update may change, and how the stage may move.\<close>

definition edited :: "customer_profile \<Rightarrow> customer_profile \<Rightarrow> bool" where
  "edited p p' \<longleftrightarrow>
     p' = p\<lparr>cp_customer_name := cp_customer_name p', cp_industry := cp_industry p', cp_sales_stage := cp_sales_stage p',
            cp_status := cp_status p', cp_aliases := cp_aliases p', cp_updated_at := cp_updated_at p'\<rparr>
     \<and> (cp_sales_stage p' = cp_sales_stage p \<or> can_transition_to (cp_sales_stage p) (cp_sales_stage p'))"

text \<open>What was asked for holds of the profile.\<close>

definition carries :: "ucd \<Rightarrow> update_args \<Rightarrow> customer_profile \<Rightarrow> bool" where
  "carries T args p \<longleftrightarrow>
     (truthy (ua_customer_name args) \<longrightarrow> ua_customer_name args = Some (cp_customer_name p))
     \<and> (ua_industry args \<noteq> None \<longrightarrow> cp_industry p = ua_industry args)
     \<and> (\<forall>s. truthy (ua_sales_stage args) \<and> stage_from_string T (the (ua_sales_stage args)) = Some s \<longrightarrow> cp_sales_stage p = s)
     \<and> (truthy (ua_status args) \<longrightarrow> customer_status_of (the (ua_status args)) = Some (cp_status p))
     \<and> (\<forall>xs. ua_aliases args = Some xs \<longrightarrow> cp_aliases p = xs)"

lemma update_stage_Inr:
  assumes "update_stage T now stage (p, changed) = Inr (p', changed')"
  shows "p' = p\<lparr>cp_sales_stage := cp_sales_stage p', cp_updated_at := cp_updated_at p'\<rparr>"
    and "cp_sales_stage p' = cp_sales_stage p \<or> can_transition_to (cp_sales_stage p) (cp_sales_stage p')"
    and "truthy stage \<Longrightarrow> stage_from_string T (the stage) = Some s \<Longrightarrow> cp_sales_stage p' = s"
  using assms by (auto simp: update_stage_def transition_to_def split: option.splits if_splits)

lemma update_status_Inr:
  assumes "update_status status (p, changed) = Inr (p', changed')"
  shows "p' = p\<lparr>cp_status := cp_status p'\<rparr>" "truthy status \<Longrightarrow> customer_status_of (the status) = Some (cp_status p')"
  using assms by (auto simp: update_status_def split: option.splits if_splits)

lemma apply_update_Inr:
  assumes "apply_update T now args p = Inr (p', changed)"
  shows "edited p p'" "carries T args p'"
proof -
  obtain p1 c1 where 1: "update_industry (ua_industry args) (update_name (ua_customer_name args) (p, [])) = (p1, c1)" by fastforce
  obtain p2 c2 where 2: "update_stage T now (ua_sales_stage args) (p1, c1) = Inr (p2, c2)"
    using assms 1 by (auto simp: apply_update_def split: sum.splits)
  obtain p3 c3 where 3: "update_status (ua_status args) (p2, c2) = Inr (p3, c3)"
    using assms 1 2 by (auto simp: apply_update_def split: sum.splits)
  have 4: "update_aliases (ua_aliases args) (p3, c3) = (p', changed)" using assms 1 2 3 by (simp add: apply_update_def)
  have p1: "p1 = p\<lparr>cp_customer_name := cp_customer_name p1, cp_industry := cp_industry p1\<rparr>"
    "truthy (ua_customer_name args) \<Longrightarrow> ua_customer_name args = Some (cp_customer_name p1)"
    "ua_industry args \<noteq> None \<Longrightarrow> cp_industry p1 = ua_industry args"
    using 1 by (auto simp: update_name_def update_industry_def truthy_def split: if_splits)
  have p': "p' = p3\<lparr>cp_aliases := cp_aliases p'\<rparr>" "ua_aliases args = Some xs \<Longrightarrow> cp_aliases p' = xs" for xs
    using 4 by (auto simp: update_aliases_def split: option.splits)
  obtain a b where a: "p1 = p\<lparr>cp_customer_name := a, cp_industry := b\<rparr>" using p1(1) by blast
  obtain g v where g: "p2 = p1\<lparr>cp_sales_stage := g, cp_updated_at := v\<rparr>" using update_stage_Inr(1)[OF 2] by blast
  obtain f where f: "p3 = p2\<lparr>cp_status := f\<rparr>" using update_status_Inr(1)[OF 3] by blast
  obtain l where l: "p' = p3\<lparr>cp_aliases := l\<rparr>" using p'(1) by blast
  show "edited p p'" using update_stage_Inr(2)[OF 2] by (simp add: edited_def a g f l)
  show "carries T args p'"
    using p1(2,3) update_stage_Inr(3)[OF 2] update_status_Inr(2)[OF 3] p'(2) by (simp add: carries_def a g f l)
qed

text \<open>An operation that changed a file got past its first step, which changes none.\<close>

lemma past_reading:
  assumes "bind_op m f D = (r, D')" "touches {} m" "file_at D' q \<noteq> file_at D q"
  obtains x D1 where "m D = (Inr x, D1)" "f x D1 = (r, D')" "\<And>q. file_at D1 q = file_at D q"
proof (cases "m D")
  case (Pair x D1)
  then show thesis using assms that touches_nothing[OF assms(2) Pair] by (cases x) (auto simp: bind_op_def)
qed

lemma update_found_changes:
  assumes "update_found S now later args cid p D = (r, D')" "file_at D' q \<noteq> file_at D q"
  obtains p' w where "edited p p'" "carries (lib_ucd (ct_library S)) args p'" "save S later p' D = (w, D')"
    "case w of Inl e \<Rightarrow> r = Inl e | Inr p'' \<Rightarrow> \<exists>t. r = Inr t \<and> tl_success t"
proof -
  obtain p' changed where p: "apply_update (lib_ucd (ct_library S)) now args p = Inr (p', changed)" "changed \<noteq> []"
    using assms by (auto simp: update_found_def simp del: u_Cons split: sum.splits prod.splits if_splits)
  obtain w D2 where w: "save S later p' D = (w, D2)" by fastforce
  then have "D2 = D'" "case w of Inl e \<Rightarrow> r = Inl e | Inr p'' \<Rightarrow> \<exists>t. r = Inr t \<and> tl_success t"
    using assms(1) p by (auto simp: update_found_def bind_op_def done_tool_def simp del: u_Cons split: sum.splits)
  then show thesis using that apply_update_Inr[OF p(1)] w by blast
qed

text \<open>
  C33: an update is applied as a whole or not at all. A call that changes any file loaded the customer
  that it names and saved the edited profile, which carries every value that was asked for, a status only if
  it is one; the stage has moved along a transition of the stage machine or not at all, and nothing but the name,
  industry, stage, status and aliases is edited. It reports success if the save went through and raises the error of
  the save otherwise. So a refused update, its stage or status invalid, leaves every file as it was, although the name and
  industry were set before.
\<close>

theorem update_applies_or_nothing:
  assumes "update_tool S now later args D = (r, D')" "file_at D' q \<noteq> file_at D q"
  shows "\<exists>cid p p' D1 w. ua_customer_id args = Some cid \<and> load S cid D = (Inr (Some p), D1)
    \<and> (\<forall>q. file_at D1 q = file_at D q)
    \<and> edited p p' \<and> carries (lib_ucd (ct_library S)) args p' \<and> save S later p' D1 = (w, D')
    \<and> (case w of Inl e \<Rightarrow> r = Inl e | Inr p'' \<Rightarrow> \<exists>t. r = Inr t \<and> tl_success t)"
proof -
  obtain cid where cid: "ua_customer_id args = Some cid" "truthy (ua_customer_id args)"
    using assms by (cases "ua_customer_id args") (auto simp: update_tool_def truthy_def split: if_splits)
  let ?rest = "\<lambda>found. case found of
      None \<Rightarrow> ret (no_customer UPDATE_TOOL [26356, 26032, 22833, 36133] cid)
    | Some p \<Rightarrow> update_found S now later args cid p"
  have "bind_op (load S cid) ?rest D = (r, D')" using assms(1) cid by (simp add: update_tool_def del: u_Cons)
  from past_reading[OF this touches_load assms(2)] obtain found D1
    where D1: "load S cid D = (Inr found, D1)" "?rest found D1 = (r, D')" "\<And>q. file_at D1 q = file_at D q" by blast
  moreover from this assms(2) obtain p where p: "found = Some p" by (cases found) auto
  moreover obtain p' w where "edited p p'" "carries (lib_ucd (ct_library S)) args p'" "save S later p' D1 = (w, D')"
    "case w of Inl e \<Rightarrow> r = Inl e | Inr p'' \<Rightarrow> \<exists>t. r = Inr t \<and> tl_success t"
    using update_found_changes[of S now later args cid p D1 r D' q] D1 p assms(2) by auto
  ultimately show ?thesis using cid(1) by blast
qed

section \<open>Scores\<close>

text \<open>What scoring may change.\<close>

definition rescored :: "customer_profile \<Rightarrow> customer_profile \<Rightarrow> bool" where
  "rescored p p' \<longleftrightarrow>
     p' = p\<lparr>cp_deal_score := cp_deal_score p', cp_health_score := cp_health_score p', cp_updated_at := cp_updated_at p'\<rparr>"

definition sure_score :: "deal_score \<Rightarrow> bool" where
  "sure_score d \<longleftrightarrow>
     0 \<le> ds_score d \<and> ds_score d \<le> 100 \<and> ds_level d = deal_level_from_score (ds_score d)
     \<and> ds_missing_dimensions d = [] \<and> ds_confidence d = HighLevel"

definition sound_health :: "health_score \<Rightarrow> bool" where
  "sound_health h \<longleftrightarrow>
     0 \<le> hs_health_score h \<and> hs_health_score h \<le> 100 \<and> health_dimension_sum h = hs_health_score h
     \<and> health_score.hs_status h = health_status_from_score (hs_health_score h)"

lemma deal_dimensions_given: "missing_of (deal_dimensions p) = []"
  by (simp add: missing_of_def DIMENSION_KEYS_def given_def deal_dimensions_def estimate_need_clarity_def
      estimate_budget_def estimate_urgency_def)

lemma score_deal_sure: "score_deal w (deal_dimensions p) risks = Inr d \<Longrightarrow> sure_score d"
  using score_deal_Inr[of w "deal_dimensions p" risks] deal_dimensions_given[of p]
  by (auto simp: sure_score_def clamp100_def)

lemma score_health_sound: "score_health decay dimensions days = Inr h \<Longrightarrow> sound_health h"
  by (auto simp: score_health_def Let_def mk_health_score_def checked_def percent_def sound_health_def health_total_def
      HEALTH_DIMENSION_KEYS_def health_dimension_sum_def bind_res_def split: if_splits)

lemma scored_Inr:
  assumes "scored I weights decay now cid score_type p D = (Inr (t, p'), D')"
  shows "rescored p p'" "tl_success t" "tl_warnings t = []" "file_at D' q = file_at D q"
    and "if wants (u ''deal'') score_type then \<exists>d. cp_deal_score p' = Some d \<and> sure_score d else cp_deal_score p' = cp_deal_score p"
    and "if wants (u ''health'') score_type then \<exists>h. cp_health_score p' = Some h \<and> sound_health h
      else cp_health_score p' = cp_health_score p"
proof -
  obtain deal p1 D1 where
    a: "(if wants (u ''deal'') score_type then lift_res (deal_part weights now p) else ret (None, p)) D = (Inr (deal, p1), D1)"
    and b: "bind_op (if wants (u ''health'') score_type then health_part I decay now cid p1 else ret (None, p1))
      (\<lambda>(health, p2). ret (score_answer cid deal health, p2)) D1 = (Inr (t, p'), D')"
  proof -
    obtain x D1 where "(if wants (u ''deal'') score_type then lift_res (deal_part weights now p) else ret (None, p)) D = (Inr x, D1)"
      "(case x of (deal, p1) \<Rightarrow> bind_op (if wants (u ''health'') score_type then health_part I decay now cid p1 else ret (None, p1))
        (\<lambda>(health, p2). ret (score_answer cid deal health, p2))) D1 = (Inr (t, p'), D')"
      using assms unfolding scored_def bind_op_Inr_iff by blast
    then show thesis using that by (cases x) (simp del: u_Cons)
  qed
  obtain health D2 where
    c: "(if wants (u ''health'') score_type then health_part I decay now cid p1 else ret (None, p1)) D1 = (Inr (health, p'), D2)"
    and t': "ret (score_answer cid deal health, p') D2 = (Inr (t, p'), D')"
    using b unfolding bind_op_Inr_iff by (auto simp del: u_Cons)
  have t: "t = score_answer cid deal health" "D2 = D'" using t' by (auto simp del: u_Cons)
  have deal: "if wants (u ''deal'') score_type then deal_part weights now p = Inr (deal, p1) else (deal, p1) = (None, p)" "D1 = D"
    using a by (auto simp: lift_res_def simp del: u_Cons split: if_splits)
  have health: "if wants (u ''health'') score_type then health_part I decay now cid p1 D = (Inr (health, p'), D')
    else (health, p') = (None, p1) \<and> D' = D"
    using c t(2) deal(2) by (auto simp del: u_Cons split: if_splits)
  have d: "(\<forall>d. deal = Some d \<longrightarrow> sure_score d) \<and> p1 = p\<lparr>cp_deal_score := cp_deal_score p1, cp_updated_at := cp_updated_at p1\<rparr>
    \<and> (if wants (u ''deal'') score_type then cp_deal_score p1 = deal \<and> deal \<noteq> None else p1 = p)"
    using deal(1) score_deal_sure
    by (auto simp: deal_part_def bind_res_def set_deal_score_def simp del: u_Cons split: if_splits sum.splits)
  have h: "(\<forall>h. health = Some h \<longrightarrow> sound_health h) \<and> p' = p1\<lparr>cp_health_score := cp_health_score p', cp_updated_at := cp_updated_at p'\<rparr>
    \<and> (if wants (u ''health'') score_type then cp_health_score p' = health \<and> health \<noteq> None else p' = p1)"
    using health score_health_sound
    by (auto simp: health_part_def bind_op_Inr_iff lift_res_def set_health_score_def simp del: u_Cons split: if_splits sum.splits)
  obtain e v where e: "p1 = p\<lparr>cp_deal_score := e, cp_updated_at := v\<rparr>" using d by blast
  obtain g w where g: "p' = p1\<lparr>cp_health_score := g, cp_updated_at := w\<rparr>" using h by blast
  show "rescored p p'" by (simp add: rescored_def e g)
  show "tl_success t" by (simp add: t score_answer_def done_tool_def del: u_Cons)
  show "tl_warnings t = []" using d
    by (auto simp: t score_answer_def done_tool_def confidence_warning_def low_confidence_def sure_score_def simp del: u_Cons split: option.split)
  show "if wants (u ''deal'') score_type then \<exists>d. cp_deal_score p' = Some d \<and> sure_score d else cp_deal_score p' = cp_deal_score p"
    using d g by (auto simp del: u_Cons)
  show "if wants (u ''health'') score_type then \<exists>h. cp_health_score p' = Some h \<and> sound_health h else cp_health_score p' = cp_health_score p"
    using h arg_cong[OF e, of cp_health_score] by (auto simp del: u_Cons)
  have "touches {} (health_part I decay now cid p1)" unfolding health_part_def by (intro touches_intros)
  then show "file_at D' q = file_at D q" using health touches_nothing by (auto simp del: u_Cons split: if_splits)
qed

text \<open>
  C39: scoring writes scores and nothing else, and never doubts them. A call of the score tool that succeeds loaded
  the customer and saved it with the asked scores replaced and every other field as it was; the deal score lies
  within 0 and 100, has the level of its number, misses no dimension and has high confidence, however empty the
  profile is, so that the result never carries the warning of a low confidence; the health score is the sum of its parts
  and has the status of its number.
\<close>

theorem scoring_never_doubts:
  assumes "score_tool S I weights decay now later customer_id score_type D = (Inr t, D')" "tl_success t"
  shows "\<exists>cid p p' D1 D2. customer_id = Some cid \<and> load S cid D = (Inr (Some p), D1)
    \<and> (\<forall>q. file_at D2 q = file_at D q) \<and> save S later p' D2 = (Inr (bump_version later p'), D') \<and> rescored p p'
    \<and> (if wants (u ''deal'') score_type then \<exists>d. cp_deal_score p' = Some d \<and> sure_score d else cp_deal_score p' = cp_deal_score p)
    \<and> (if wants (u ''health'') score_type then \<exists>h. cp_health_score p' = Some h \<and> sound_health h
       else cp_health_score p' = cp_health_score p)
    \<and> tl_warnings t = []"
proof -
  obtain cid where cid: "customer_id = Some cid" "truthy customer_id"
    using assms by (cases customer_id) (auto simp: score_tool_def truthy_def failed_tool_def split: if_splits)
  then obtain p D1 p' D2 w where
    r: "load S cid D = (Inr (Some p), D1)" "scored I weights decay now cid score_type p D1 = (Inr (t, p'), D2)"
      "save S later p' D2 = (Inr w, D')"
    using assms
    by (auto simp: score_tool_def bind_op_Inr_iff no_customer_def failed_tool_def simp del: u_Cons split: option.splits)
  have "file_at D2 q = file_at D q" for q
    using scored_Inr(4)[OF r(2)] touches_nothing[OF touches_load r(1)] by simp
  moreover have "w = bump_version later p'" using save_files(3)[OF r(3)] by simp
  ultimately show ?thesis using cid(1) r scored_Inr[OF r(2)] by blast
qed

text \<open>The plan of the agent without a language model names no customer: its updates and scores are refused on every disk.\<close>

lemma planned_calls_are_refused:
  "fst (update_tool S now later (args\<lparr>ua_customer_id := None\<rparr>) D)
     = Inr (failed_tool UPDATE_TOOL [[32570, 23569, 24517, 22635, 21442, 25968, 58, 32, 99, 117, 115, 116, 111, 109, 101, 114, 95, 105, 100]] [26356, 26032, 22833, 36133, 65306, 26410, 25351, 23450, 32, 99, 117, 115, 116, 111, 109, 101, 114, 95, 105, 100])"
  "fst (score_tool S I weights decay now later None (Some (u ''both'')) D)
     = Inr (failed_tool SCORE_TOOL [[32570, 23569, 24517, 22635, 21442, 25968, 58, 32, 99, 117, 115, 116, 111, 109, 101, 114, 95, 105, 100]] [35780, 20998, 22833, 36133, 65306, 26410, 25351, 23450, 32, 99, 117, 115, 116, 111, 109, 101, 114, 95, 105, 100])"
  by (simp_all add: update_tool_def score_tool_def truthy_def del: u_Cons)

section \<open>Concrete calls\<close>

definition demo_update :: update_args where
  "demo_update =
     \<lparr>ua_customer_id = Some [97], ua_customer_name = None, ua_industry = None, ua_sales_stage = None, ua_status = None,
      ua_aliases = Some [[98]]\<rparr>"

definition demo_stored :: customer_profile where
  "demo_stored = bump_version (utc 1) (demo_profile [97])"

lemma demo_load: "load demo_store [97] (demo_disk []) = (Inr (Some demo_stored), demo_disk [])"
  by (simp add: load_calm demo_disk_def load_content_def demo_codec_def check_schema_member_def demo_stored_def)

lemma demo_save:
  assumes "cp_customer_id p = [97]"
  obtains D' where "save demo_store now p (demo_disk []) = (Inr (bump_version now p), D')"
    "file_at D' (BackupFile (bak_name [97])) \<noteq> file_at (demo_disk []) (BackupFile (bak_name [97]))"
proof -
  have ok: "dk_faults (demo_disk []) = []" "json_laws (ct_codec demo_store)"
    "aliases_content demo_store (file_at (demo_disk []) AliasesFile) = Inr (PDict [])"
    "backup_room demo_store (cp_customer_id (bump_version now p)) (demo_disk [])"
    by (simp_all add: demo_codec_ok demo_disk_def aliases_content_def backup_room_def demo_store_def backup_names_def)
  have id: "cp_customer_id (bump_version now p) = [97]" using assms by (simp add: bump_version_def)
  show thesis
    by (rule save_calm[OF ok]) (rule that, assumption, auto simp: id demo_disk_def)
qed

theorem update_applies_or_nothing_witness:
  "\<exists>r D' p'. update_tool demo_store (utc 2) (utc 3) demo_update (demo_disk []) = (r, D')
     \<and> edited demo_stored p' \<and> carries (lib_ucd (ct_library demo_store)) demo_update p' \<and> cp_aliases p' = [[98]] \<and> cp_aliases demo_stored = []
     \<and> (\<exists>w. save demo_store (utc 3) p' (demo_disk []) = (w, D'))"
proof -
  let ?p = "demo_stored\<lparr>cp_aliases := [[98]]\<rparr>"
  have "cp_customer_id ?p = [97]" by (simp add: demo_stored_def bump_version_def demo_profile_def)
  then obtain D' where D': "save demo_store (utc 3) ?p (demo_disk []) = (Inr (bump_version (utc 3) ?p), D')"
    "file_at D' (BackupFile (bak_name [97])) \<noteq> file_at (demo_disk []) (BackupFile (bak_name [97]))"
    by (rule demo_save)
  have "apply_update (lib_ucd (ct_library demo_store)) (utc 2) demo_update demo_stored = Inr (?p, [(u ''aliases'')])"
    by (simp add: apply_update_def demo_update_def update_name_def update_industry_def update_stage_def update_status_def
        update_aliases_def truthy_def)
  then obtain r where "update_tool demo_store (utc 2) (utc 3) demo_update (demo_disk []) = (r, D')"
    using D'(1) by (auto simp: update_tool_def Let_def demo_update_def truthy_def bind_op_def demo_load update_found_def simp del: u_Cons)
  with update_applies_or_nothing[OF this D'(2)] demo_load show ?thesis
    by (auto simp: demo_update_def carries_def demo_stored_def bump_version_def demo_profile_def) 
qed

theorem scoring_never_doubts_witness:
  "\<exists>t D' p'. score_tool demo_store demo_interactions default_weights default_decay (utc 2) (utc 3) (Some [97]) (Some (u ''deal''))
       (demo_disk []) = (Inr t, D')
     \<and> rescored demo_stored p' \<and> (\<exists>d. cp_deal_score p' = Some d \<and> sure_score d) \<and> cp_contacts demo_stored = [] \<and> tl_warnings t = []"
proof -
  obtain d where d: "score_deal default_weights (deal_dimensions demo_stored) (cp_risks demo_stored) = Inr d"
    using score_deal_Inr[of default_weights "deal_dimensions demo_stored" "cp_risks demo_stored"] by blast
  let ?p = "set_deal_score (utc 2) d demo_stored"
  have "cp_customer_id ?p = [97]" by (simp add: set_deal_score_def demo_stored_def bump_version_def demo_profile_def)
  then obtain D' where D': "save demo_store (utc 3) ?p (demo_disk []) = (Inr (bump_version (utc 3) ?p), D')"
    by (rule demo_save)
  have w: "wants (u ''deal'') (Some (u ''deal''))" "\<not> wants (u ''health'') (Some (u ''deal''))" by (simp_all add: wants_def)
  have call: "score_tool demo_store demo_interactions default_weights default_decay (utc 2) (utc 3) (Some [97]) (Some (u ''deal''))
      (demo_disk []) = (Inr (score_answer [97] (Some d) None), D')"
    using D' w d by (simp add: score_tool_def Let_def truthy_def bind_op_def demo_load scored_def deal_part_def lift_res_def bind_res_def del: u_Cons)
  moreover have "tl_success (score_answer [97] (Some d) None)" by (simp add: score_answer_def done_tool_def del: u_Cons)
  ultimately show ?thesis
    using scoring_never_doubts[OF call] w demo_load
    by (auto simp: demo_stored_def bump_version_def demo_profile_def simp del: u_Cons)
qed

end
