(* ===== verification/Redaction.thy ===== *)
theory Redaction
  imports Policy_Types
begin

text \<open>
  \<open>observability/redaction.py\<close>: the redaction of texts and of values before they are logged. The eight
  patterns are terms of a small language of regular expressions with the semantics of \<open>re\<close>: the matches
  of a pattern at a position are listed in the order in which a backtracking search finds them.
\<close>

section \<open>Regular expressions\<close>

datatype re = Letter "nat \<Rightarrow> bool" | Many nat "nat \<Rightarrow> bool" | Fewest "nat \<Rightarrow> bool" | Edge | Choice "re list list"

text \<open>
  \<open>rd_alnum\<close> is \<open>str.isalnum\<close> of a character, \<open>rd_repr\<close> the \<open>repr\<close> of a redacted value. A class name is
  the name of a type of exceptions.
\<close>

datatype shown =
    ShNone | ShBool bool | ShInt int | ShFloat pyfloat | ShStr pystr | ShList "shown list" | ShTuple "shown list"
  | ShDict "(pystr \<times> shown) list"

record redactor =
  rd_ucd :: ucd
  rd_alnum :: "nat \<Rightarrow> bool"
  rd_repr :: "shown \<Rightarrow> pystr"
  rd_class_name :: "nat \<Rightarrow> pystr"

definition is_word :: "redactor \<Rightarrow> pystr \<Rightarrow> nat \<Rightarrow> bool" where
  "is_word R s i \<longleftrightarrow> i < length s \<and> (rd_alnum R (s ! i) \<or> s ! i = 95)"

text \<open>\<open>\b\<close>\<close>

definition at_edge :: "redactor \<Rightarrow> pystr \<Rightarrow> nat \<Rightarrow> bool" where
  "at_edge R s i \<longleftrightarrow> (0 < i \<and> is_word R s (i - 1)) \<noteq> is_word R s i"

definition run_length :: "(nat \<Rightarrow> bool) \<Rightarrow> pystr \<Rightarrow> nat \<Rightarrow> nat" where
  "run_length P s i = length (takeWhile P (drop i s))"

text \<open>The ends of the matches that start at a position.\<close>

function ends :: "redactor \<Rightarrow> pystr \<Rightarrow> re \<Rightarrow> nat \<Rightarrow> nat list"
  and ends_seq :: "redactor \<Rightarrow> pystr \<Rightarrow> re list \<Rightarrow> nat \<Rightarrow> nat list"
  and ends_choice :: "redactor \<Rightarrow> pystr \<Rightarrow> re list list \<Rightarrow> nat \<Rightarrow> nat list" where
  "ends R s (Letter P) i = (if i < length s \<and> P (s ! i) then [i + 1] else [])"
| "ends R s (Many n P) i = map ((+) i) (rev [n..<run_length P s i + 1])"
| "ends R s (Fewest P) i = map ((+) i) [0..<run_length P s i + 1]"
| "ends R s Edge i = (if at_edge R s i then [i] else [])"
| "ends R s (Choice rs) i = ends_choice R s rs i"
| "ends_seq R s [] i = [i]"
| "ends_seq R s (r # rs) i = concat (map (ends_seq R s rs) (ends R s r i))"
| "ends_choice R s [] i = []"
| "ends_choice R s (r # rs) i = ends_seq R s r i @ ends_choice R s rs i"
  by pat_completeness auto
termination
  by (relation "measure (\<lambda>x. case x of Inl (R, s, r, i) \<Rightarrow> size r
      | Inr (Inl (R, s, rs, i)) \<Rightarrow> size_list size rs | Inr (Inr (R, s, rss, i)) \<Rightarrow> size_list (size_list size) rss)") auto

text \<open>A pattern is cut into parts; a match is the list of the ends of its parts.\<close>

fun splits :: "redactor \<Rightarrow> pystr \<Rightarrow> re list list \<Rightarrow> nat \<Rightarrow> nat list list" where
  "splits R s [] i = [[]]"
| "splits R s (part # parts) i = concat (map (\<lambda>j. map ((#) j) (splits R s parts j)) (ends_seq R s part i))"

fun pieces :: "pystr \<Rightarrow> nat \<Rightarrow> nat list \<Rightarrow> pystr list" where
  "pieces s i [] = []"
| "pieces s i (j # js) = take (j - i) (drop i s) # pieces s j js"

text \<open>\<open>pattern.sub(replacement, s)\<close> from a position on; no pattern here matches the empty text.\<close>

function sub_from :: "redactor \<Rightarrow> re list list \<Rightarrow> (pystr list \<Rightarrow> pystr) \<Rightarrow> pystr \<Rightarrow> nat \<Rightarrow> pystr" where
  "sub_from R pattern replacement s i =
     (if length s \<le> i then []
      else case splits R s pattern i of
          m # ms \<Rightarrow>
            if i < last (i # m) then replacement (pieces s i m) @ sub_from R pattern replacement s (last (i # m))
            else s ! i # sub_from R pattern replacement s (i + 1)
        | [] \<Rightarrow> s ! i # sub_from R pattern replacement s (i + 1))"
  by pat_completeness auto
termination
  by (relation "measure (\<lambda>(R, pattern, replacement, s, i). length s - i)") auto

declare sub_from.simps [simp del]

definition re_sub :: "redactor \<Rightarrow> re list list \<Rightarrow> (pystr list \<Rightarrow> pystr) \<Rightarrow> pystr \<Rightarrow> pystr" where
  "re_sub R pattern replacement s = sub_from R pattern replacement s 0"

section \<open>Character classes\<close>

definition upper_letter :: "nat \<Rightarrow> bool" where
  "upper_letter c \<longleftrightarrow> 65 \<le> c \<and> c \<le> 90"

definition lower_letter :: "nat \<Rightarrow> bool" where
  "lower_letter c \<longleftrightarrow> 97 \<le> c \<and> c \<le> 122"

definition digit_char :: "nat \<Rightarrow> bool" where
  "digit_char c \<longleftrightarrow> 48 \<le> c \<and> c \<le> 57"

text \<open>\<open>[A-Z]\<close> or \<open>[a-z]\<close> with \<open>re.IGNORECASE\<close>: four letters beyond ASCII match, too.\<close>

definition any_case_letter :: "nat \<Rightarrow> bool" where
  "any_case_letter c \<longleftrightarrow> upper_letter c \<or> lower_letter c \<or> c \<in> {304, 305, 383, 8490}"

definition same_letter :: "nat \<Rightarrow> nat \<Rightarrow> bool" where
  "same_letter l c \<longleftrightarrow>
     c = l \<or> (lower_letter l \<and> c + 32 = l) \<or> (upper_letter l \<and> c = l + 32)
     \<or> (l \<in> {105, 73} \<and> c \<in> {304, 305}) \<or> (l \<in> {115, 83} \<and> c = 383) \<or> (l \<in> {107, 75} \<and> c = 8490)"

definition exactly :: "string \<Rightarrow> re list" where
  "exactly s = map (\<lambda>c. Letter (\<lambda>x. x = c)) (u s)"

definition any_case :: "string \<Rightarrow> re list" where
  "any_case s = map (\<lambda>c. Letter (same_letter c)) (u s)"

definition white :: "redactor \<Rightarrow> nat \<Rightarrow> bool" where
  "white R = u_space (rd_ucd R)"

section \<open>Texts\<close>

definition REDACTED :: pystr where
  "REDACTED = (u ''[REDACTED]'')"

definition PRIVATE_KEY_RE :: "redactor \<Rightarrow> re list list" where
  "PRIVATE_KEY_RE R =
     (let key = Many 0 (\<lambda>c. upper_letter c \<or> c = 32) # exactly ''PRIVATE KEY-----''
      in [exactly ''-----BEGIN '' @ key @ [Fewest (\<lambda>c. True)] @ exactly ''-----END '' @ key])"

definition BEARER_RE :: "redactor \<Rightarrow> re list list" where
  "BEARER_RE R =
     [Edge # any_case ''Bearer'' @
        [Many 1 (white R), Many 1 (\<lambda>c. any_case_letter c \<or> digit_char c \<or> c \<in> set (u ''._~+/=-''))]]"

definition JWT_RE :: "redactor \<Rightarrow> re list list" where
  "JWT_RE R =
     (let part = Many 4 (\<lambda>c. upper_letter c \<or> lower_letter c \<or> digit_char c \<or> c \<in> set (u ''_-''))
      in [Edge # exactly ''eyJ'' @ [part] @ exactly ''.'' @ [part] @ exactly ''.'' @ [part, Edge]])"

definition API_KEY_RE :: "redactor \<Rightarrow> re list list" where
  "API_KEY_RE R =
     [Edge # any_case ''sk-'' @ [Many 8 (\<lambda>c. any_case_letter c \<or> digit_char c \<or> c \<in> set (u ''_-'')), Edge]]"

text \<open>The prefix with the user name, the password, and the host.\<close>

definition DSN_RE :: "redactor \<Rightarrow> re list list" where
  "DSN_RE R =
     [any_case ''postgres''
        @ [Choice [any_case ''ql'', []],
           Choice [exactly ''+'' @ [Many 1 (\<lambda>c. any_case_letter c \<or> digit_char c \<or> c = 95)], []]]
        @ exactly ''://'' @ [Many 1 (\<lambda>c. \<not> white R c \<and> c \<notin> set (u '':/@''))] @ exactly '':'',
      [Many 1 (\<lambda>c. \<not> white R c \<and> c \<noteq> 64)],
      exactly ''@'' @ [Many 1 (\<lambda>c. \<not> white R c)]]"

definition ENV_SECRET_RE :: "redactor \<Rightarrow> re list list" where
  "ENV_SECRET_RE R =
     [[Edge],
      [Many 0 (\<lambda>c. any_case_letter c \<or> digit_char c \<or> c = 95),
       Choice (map any_case [''API_KEY'', ''AUTH_TOKEN'', ''ACCESS_TOKEN'', ''PASSWORD'', ''SECRET'', ''DATABASE_URL''])],
      [Many 0 (white R)] @ exactly ''='' @ [Many 0 (white R), Many 1 (\<lambda>c. \<not> white R c)]]"

definition COOKIE_RE :: "redactor \<Rightarrow> re list list" where
  "COOKIE_RE R =
     [[Edge], [Choice (map any_case [''Set-Cookie'', ''Cookie''])],
      [Many 0 (white R)] @ exactly '':'' @ [Many 0 (white R), Many 1 (\<lambda>c. c \<notin> {13, 10})]]"

definition IDEMPOTENCY_RE :: "redactor \<Rightarrow> re list list" where
  "IDEMPOTENCY_RE R =
     [Edge # any_case ''Idempotency-Key''
        @ [Many 0 (white R)] @ exactly '':'' @ [Many 0 (white R), Many 1 (\<lambda>c. \<not> white R c \<and> c \<notin> set (u '',;''))]]"

text \<open>No step raises, so the \<open>except\<close> of the code is never reached.\<close>

definition redact_text :: "redactor \<Rightarrow> pystr \<Rightarrow> pystr" where
  "redact_text R value =
     (let result = re_sub R (PRIVATE_KEY_RE R) (\<lambda>g. REDACTED) value;
          result = re_sub R (BEARER_RE R) (\<lambda>g. (u ''Bearer '') @ REDACTED) result;
          result = re_sub R (JWT_RE R) (\<lambda>g. REDACTED) result;
          result = re_sub R (API_KEY_RE R) (\<lambda>g. REDACTED) result;
          result = re_sub R (DSN_RE R) (\<lambda>g. g ! 0 @ REDACTED @ g ! 2) result;
          result = re_sub R (ENV_SECRET_RE R) (\<lambda>g. g ! 1 @ (u ''='') @ REDACTED) result;
          result = re_sub R (COOKIE_RE R) (\<lambda>g. g ! 1 @ (u '': '') @ REDACTED) result
      in re_sub R (IDEMPOTENCY_RE R) (\<lambda>g. (u ''Idempotency-Key: '') @ REDACTED) result)"

section \<open>Keys\<close>

definition SENSITIVE_KEYS :: "pystr list" where
  "SENSITIVE_KEYS =
     map u [''apikey'', ''accesstoken'', ''authtoken'', ''authorization'', ''bearertoken'', ''password'', ''passwd'',
       ''secret'', ''clientsecret'', ''privatekey'', ''cookie'', ''setcookie'', ''databaseurl'', ''dsn'', ''idempotencykey'']"

definition normalized_key :: "redactor \<Rightarrow> pystr \<Rightarrow> pystr" where
  "normalized_key R key = filter (\<lambda>c. lower_letter c \<or> digit_char c) (u_lower (rd_ucd R) key)"

definition is_sensitive_key :: "redactor \<Rightarrow> pystr option \<Rightarrow> bool" where
  "is_sensitive_key R key =
     (case key of
        None \<Rightarrow> False
      | Some k \<Rightarrow> k \<noteq> [] \<and>
          (normalized_key R k \<in> set SENSITIVE_KEYS
           \<or> list_ex (\<lambda>token. py_in token (normalized_key R k))
               (map u [''password'', ''secret'', ''privatekey'', ''authtoken'', ''apikey''])))"

section \<open>Values\<close>

text \<open>
  A value is a scalar or the identity of an object of the heap. A key is what \<open>str\<close> makes of it, \<open>None\<close> if that raises,
  and so is the text of any other object; \<open>model_dump\<close> may raise.
\<close>

datatype log_value =
    LNone | LBool bool | LInt int | LFloat pyfloat | LStr pystr | LSecret pystr | LBytes "nat list" | LExc nat | LRef nat

type_synonym log_entries = "(pystr option \<times> log_value) list"

datatype log_object =
    OModel "log_entries option" | OMapping log_entries | OList "log_value list" | OTuple "log_value list"
  | OSet "log_value list" | OOther "pystr option"

definition MAX_DEPTH :: nat where
  "MAX_DEPTH = 8"

definition key_text :: "pystr option \<Rightarrow> pystr" where
  "key_text k = (case k of None \<Rightarrow> (u ''<unprintable-key>'') | Some s \<Rightarrow> s)"

definition collect :: "(pystr \<times> 'v) list \<Rightarrow> (pystr \<times> 'v) list" where
  "collect entries = foldl (\<lambda>d (k, v). dict_set k v d) [] entries"

function redact_value :: "redactor \<Rightarrow> (nat \<Rightarrow> log_object) \<Rightarrow> pystr option \<Rightarrow> nat \<Rightarrow> nat set \<Rightarrow> log_value \<Rightarrow> shown"
  and redact_mapping :: "redactor \<Rightarrow> (nat \<Rightarrow> log_object) \<Rightarrow> nat \<Rightarrow> nat set \<Rightarrow> log_entries \<Rightarrow> (pystr \<times> shown) list" where
  "redact_value R heap key depth seen value =
     (if is_sensitive_key R key then ShStr REDACTED
      else if MAX_DEPTH < depth then ShStr (u ''<max-depth-reached>'')
      else case value of
          LNone \<Rightarrow> ShNone | LBool b \<Rightarrow> ShBool b | LInt n \<Rightarrow> ShInt n | LFloat x \<Rightarrow> ShFloat x
        | LSecret s \<Rightarrow> ShStr REDACTED
        | LStr s \<Rightarrow> ShStr (redact_text R s)
        | LBytes bs \<Rightarrow> ShStr REDACTED
        | LExc c \<Rightarrow> ShDict [((u ''error_type''), ShStr (rd_class_name R c))]
        | LRef a \<Rightarrow>
            if a \<in> seen then ShStr (u ''<cycle-detected>'')
            else (case heap a of
                OModel None \<Rightarrow> ShStr REDACTED
              | OModel (Some entries) \<Rightarrow> ShDict (redact_mapping R heap (depth + 1) (insert a seen) entries)
              | OMapping entries \<Rightarrow> ShDict (redact_mapping R heap (depth + 1) (insert a seen) entries)
              | OList items \<Rightarrow> ShList (map (redact_value R heap None (depth + 1) (insert a seen)) items)
              | OTuple items \<Rightarrow> ShTuple (map (redact_value R heap None (depth + 1) (insert a seen)) items)
              | OSet items \<Rightarrow>
                  ShList (sort_key (rd_repr R) (map (redact_value R heap None (depth + 1) (insert a seen)) items))
              | OOther None \<Rightarrow> ShStr (u ''<unprintable>'')
              | OOther (Some s) \<Rightarrow> ShStr (redact_text R s)))"
| "redact_mapping R heap depth seen entries =
     (if MAX_DEPTH < depth then [((u ''value''), ShStr (u ''<max-depth-reached>''))]
      else collect (map (\<lambda>(k, item). (key_text k, redact_value R heap (Some (key_text k)) depth seen item)) entries))"
  by pat_completeness auto
termination
  by (relation "measures [\<lambda>x. case x of Inl (R, heap, key, depth, seen, value) \<Rightarrow> MAX_DEPTH + 1 - depth
        | Inr (R, heap, depth, seen, entries) \<Rightarrow> MAX_DEPTH + 1 - depth,
      \<lambda>x. case x of Inl y \<Rightarrow> 0 | Inr y \<Rightarrow> 1]") (auto simp: MAX_DEPTH_def)

declare redact_value.simps [simp del] redact_mapping.simps [simp del]

section \<open>What is logged\<close>

lemma collect_set: "set (collect entries) \<subseteq> set entries"
proof -
  have "set (foldl (\<lambda>d (k, v). dict_set k v d) d0 entries) \<subseteq> set d0 \<union> set entries" for d0
  proof (induction entries arbitrary: d0)
    case (Cons e entries)
    have "set (dict_set (fst e) (snd e) d0) \<subseteq> insert e (set d0)" by (induction d0) auto
    with Cons[of "dict_set (fst e) (snd e) d0"] show ?case by (auto simp: split_beta)
  qed simp
  from this[of "[]"] show ?thesis by (simp add: collect_def)
qed

text \<open>How deep dictionaries and lists lie in one another, and the strings beside the keys.\<close>

fun nesting :: "shown \<Rightarrow> nat" where
  "nesting (ShList xs) = Suc (fold max (map nesting xs) 0)"
| "nesting (ShTuple xs) = Suc (fold max (map nesting xs) 0)"
| "nesting (ShDict es) = Suc (fold max (map (nesting \<circ> snd) es) 0)"
| "nesting _ = 0"

fun texts :: "shown \<Rightarrow> pystr list" where
  "texts (ShStr s) = [s]"
| "texts (ShList xs) = concat (map texts xs)"
| "texts (ShTuple xs) = concat (map texts xs)"
| "texts (ShDict es) = concat (map (texts \<circ> snd) es)"
| "texts _ = []"

lemma fold_max_le: "fold max xs (a :: nat) \<le> n \<longleftrightarrow> a \<le> n \<and> (\<forall>x \<in> set xs. x \<le> n)"
  by (induction xs arbitrary: a) auto

text \<open>The values without what must not be logged: secrets, bytes and what lies under a sensitive key.\<close>

fun scrub_value :: "log_value \<Rightarrow> log_value" where
  "scrub_value (LSecret s) = LSecret []"
| "scrub_value (LBytes bs) = LBytes []"
| "scrub_value v = v"

definition scrub_entry :: "redactor \<Rightarrow> pystr option \<times> log_value \<Rightarrow> pystr option \<times> log_value" where
  "scrub_entry R = (\<lambda>(k, v). (k, if is_sensitive_key R (Some (key_text k)) then LNone else scrub_value v))"

fun scrub_object :: "redactor \<Rightarrow> log_object \<Rightarrow> log_object" where
  "scrub_object R (OModel entries) = OModel (map_option (map (scrub_entry R)) entries)"
| "scrub_object R (OMapping entries) = OMapping (map (scrub_entry R) entries)"
| "scrub_object R (OList items) = OList (map scrub_value items)"
| "scrub_object R (OTuple items) = OTuple (map scrub_value items)"
| "scrub_object R (OSet items) = OSet (map scrub_value items)"
| "scrub_object R (OOther t) = OOther t"

lemma redact_sensitive: "is_sensitive_key R key \<Longrightarrow> redact_value R heap key depth seen v = ShStr REDACTED"
  by (simp add: redact_value.simps)

definition scrub_heap :: "redactor \<Rightarrow> (nat \<Rightarrow> log_object) \<Rightarrow> nat \<Rightarrow> log_object" where
  "scrub_heap R heap a = scrub_object R (heap a)"

lemma redact_scrubbed:
  "redact_value R (scrub_heap R heap) key depth seen (scrub_value v) = redact_value R heap key depth seen v"
  "redact_mapping R (scrub_heap R heap) depth seen (map (scrub_entry R) entries) = redact_mapping R heap depth seen entries"
proof (induction R heap key depth seen v and R heap depth seen entries rule: redact_value_redact_mapping.induct)
  case (1 R heap key depth seen v)
  show ?case
  proof (cases "is_sensitive_key R key \<or> MAX_DEPTH < depth")
    case True
    then show ?thesis by (auto simp: redact_value.simps)
  next
    case False
    then have open_key: "\<not> is_sensitive_key R key" "\<not> MAX_DEPTH < depth" by auto
    note IH = 1[OF open_key]
    show ?thesis
    proof (cases v)
      case (LRef a)
      show ?thesis
      proof (cases "a \<in> seen")
        case new: False
        have items: "map (redact_value R (scrub_heap R heap) None (depth + 1) (insert a seen)) (map scrub_value xs)
            = map (redact_value R heap None (depth + 1) (insert a seen)) xs"
          if "heap a = OList xs \<or> heap a = OTuple xs \<or> heap a = OSet xs" for xs
          using IH(3-5)[OF LRef new] that by auto
        show ?thesis
          using new IH(1,2)[OF LRef new] items
          by (cases "heap a") (auto simp: redact_value.simps[of R _ key depth seen] LRef scrub_heap_def[of R heap a]
              simp del: map_map split: option.split)
      qed (simp add: redact_value.simps LRef)
    qed (simp_all add: redact_value.simps)
  qed
next
  case (2 R heap depth seen entries)
  have "map (\<lambda>(k, item). (key_text k, redact_value R (scrub_heap R heap) (Some (key_text k)) depth seen item)) (map (scrub_entry R) entries)
      = map (\<lambda>(k, item). (key_text k, redact_value R heap (Some (key_text k)) depth seen item)) entries" if "\<not> MAX_DEPTH < depth"
    using 2[OF that] by (fastforce simp: scrub_entry_def redact_sensitive)
  then show ?case by (cases "MAX_DEPTH < depth") (simp_all add: redact_mapping.simps del: map_map)
qed

text \<open>The constant texts of the redaction.\<close>

definition markers :: "pystr list" where
  "markers = [REDACTED, (u ''<max-depth-reached>''), (u ''<cycle-detected>''), (u ''<unprintable>'')]"

definition shows_only_redacted :: "redactor \<Rightarrow> nat \<Rightarrow> shown \<Rightarrow> bool" where
  "shows_only_redacted R n x \<longleftrightarrow>
     nesting x \<le> n \<and> set (texts x) \<subseteq> set markers \<union> range (redact_text R) \<union> range (rd_class_name R)"

lemma shows_list:
  "shows_only_redacted R (Suc n) (ShList xs) \<longleftrightarrow> (\<forall>x \<in> set xs. shows_only_redacted R n x)"
  "shows_only_redacted R (Suc n) (ShTuple xs) \<longleftrightarrow> (\<forall>x \<in> set xs. shows_only_redacted R n x)"
  "shows_only_redacted R (Suc n) (ShDict es) \<longleftrightarrow> (\<forall>e \<in> set es. shows_only_redacted R n (snd e))"
  by (auto simp: shows_only_redacted_def fold_max_le)

lemma shows_text:
  "s \<in> set markers \<Longrightarrow> shows_only_redacted R n (ShStr s)" "shows_only_redacted R n (ShStr (redact_text R t))"
  "shows_only_redacted R n (ShStr (rd_class_name R c))"
  by (auto simp: shows_only_redacted_def)

lemma shows_scalar:
  "shows_only_redacted R n ShNone" "shows_only_redacted R n (ShBool b)" "shows_only_redacted R n (ShInt k)"
  "shows_only_redacted R n (ShFloat x)"
  by (simp_all add: shows_only_redacted_def)

lemma in_markers:
  "REDACTED \<in> set markers" "(u ''<max-depth-reached>'') \<in> set markers" "(u ''<cycle-detected>'') \<in> set markers"
  "(u ''<unprintable>'') \<in> set markers"
  by (simp_all add: markers_def del: u_Cons)

lemma redact_shows:
  "depth \<le> MAX_DEPTH + 1 \<Longrightarrow> shows_only_redacted R (MAX_DEPTH + 1 - depth) (redact_value R heap key depth seen v)"
  "depth \<le> MAX_DEPTH + 1 \<Longrightarrow>
     \<forall>e \<in> set (redact_mapping R heap depth seen entries). shows_only_redacted R (MAX_DEPTH + 1 - depth) (snd e)"
proof (induction R heap key depth seen v and R heap depth seen entries rule: redact_value_redact_mapping.induct)
  case (1 R heap key depth seen v)
  show ?case
  proof (cases "is_sensitive_key R key \<or> MAX_DEPTH < depth")
    case True
    then show ?thesis by (auto simp: redact_value.simps shows_text in_markers simp del: u_Cons)
  next
    case False
    then have open_key: "\<not> is_sensitive_key R key" "\<not> MAX_DEPTH < depth" by auto
    obtain n where n: "MAX_DEPTH + 1 - depth = Suc n" "MAX_DEPTH + 1 - (depth + 1) = n" "depth + 1 \<le> MAX_DEPTH + 1"
      using open_key(2) by (auto simp: Suc_diff_le)
    have n': "Suc MAX_DEPTH - depth = Suc n" using n(1) by simp
    show ?thesis
    proof (cases v)
      case (LRef a)
      show ?thesis
      proof (cases "a \<in> seen")
        case new: False
        have "\<forall>e \<in> set (redact_mapping R heap (depth + 1) (insert a seen) es). shows_only_redacted R n (snd e)"
          if "heap a = OModel (Some es) \<or> heap a = OMapping es" for es
          using 1(1,2)[OF open_key LRef new] that n by auto
        moreover have "\<forall>x \<in> set xs. shows_only_redacted R n (redact_value R heap None (depth + 1) (insert a seen) x)"
          if "heap a = OList xs \<or> heap a = OTuple xs \<or> heap a = OSet xs" for xs
          using 1(3-5)[OF open_key LRef new] that n by auto
        ultimately show ?thesis
          using open_key new unfolding n(1)
          by (cases "heap a") (auto simp: redact_value.simps[of R heap key] LRef shows_list shows_text in_markers simp del: u_Cons
              split: option.split)
      qed (simp add: redact_value.simps LRef open_key shows_text in_markers del: u_Cons)
    qed (auto simp: redact_value.simps shows_text shows_scalar shows_list in_markers open_key n' simp del: u_Cons)
  qed
next
  case (2 R heap depth seen entries)
  show ?case
  proof (cases "MAX_DEPTH < depth")
    case True
    then show ?thesis by (simp add: redact_mapping.simps shows_text in_markers del: u_Cons)
  next
    case False
    then show ?thesis using 2 collect_set[of "map (\<lambda>(k, item). (key_text k, redact_value R heap (Some (key_text k)) depth seen item)) entries"]
      by (fastforce simp: redact_mapping.simps)
  qed
qed

text \<open>
  C35: what is logged does not depend on what must not be logged. For every graph of objects, cyclic ones included,
  redacting a mapping answers, and answers the same when the secrets, the bytes and everything under a sensitive key
  are taken out, at any depth; the result lies at most ten levels deep, and every string in it beside the keys is a marker,
  a class name or a text that went through the substitutions.
\<close>

theorem redaction_ignores_secrets:
  "redact_mapping R (scrub_heap R heap) 0 {} (map (scrub_entry R) entries) = redact_mapping R heap 0 {} entries
    \<and> nesting (ShDict (redact_mapping R heap 0 {} entries)) \<le> 10
    \<and> set (texts (ShDict (redact_mapping R heap 0 {} entries)))
        \<subseteq> set markers \<union> range (redact_text R) \<union> range (rd_class_name R)"
proof -
  have "\<forall>e \<in> set (redact_mapping R heap 0 {} entries). shows_only_redacted R (MAX_DEPTH + 1) (snd e)"
    using redact_shows(2)[of 0 R heap "{}" entries] by simp
  then have "shows_only_redacted R (Suc (MAX_DEPTH + 1)) (ShDict (redact_mapping R heap 0 {} entries))"
    by (simp only: shows_list)
  then show ?thesis using redact_scrubbed(2)[of R heap 0 "{}" entries] by (simp add: shows_only_redacted_def MAX_DEPTH_def)
qed

end
