(* ===== verification/Spec2Isabelle.thy ===== *)
theory Spec2Isabelle
  imports Agent_Safety Customer_Store Key_Providers Sql_Refinement Sql_Unit_Of_Work
    Configuration Store_Lifecycle Llm_Models Dashscope_Client Tool_Agent Sdk_Clients Customer_Tools Redaction
begin

text \<open>
  A verification library for the safety-grounded sales agent. Paths are below \<open>src/src/conversation_agent\<close>.

  The program. A request for the agent arrives over HTTP (\<open>api\<close>), is authenticated and authorized (\<open>identity\<close>,
  \<open>authorization\<close>) and reaches the execution gateway (\<open>application/execution_gateway.py\<close>). The gateway runs it
  without persistence, durably, or durably and idempotently under the key of the client
  (\<open>application/durable_service.py\<close>, \<open>application/idempotent_durable_service.py\<close>); the last two keep requests, runs, audit
  events and claims in a transactional store (\<open>database\<close>). In all three the chat service (\<open>application/service.py\<close>) calls
  the coordinator (\<open>orchestration/coordinator.py\<close>). It first asks the policy engine (\<open>policy\<close>) for a decision on the text. A
  blocked text is refused at once. Any other text is routed to an intent and a task (\<open>sales/intent_router.py\<close>,
  \<open>orchestration/task_router.py\<close>), answered with retrieved evidence (\<open>rag\<close>) or with the customer files
  (\<open>memory/customer_store.py\<close>, \<open>sales\<close>), and what is uncertain is marked. Beside the service, the command line runs an
  agent that lets a language model call tools (\<open>agent.py\<close>, \<open>llm\<close>, \<open>tools\<close>), and operations prune and check the store
  (\<open>operations/persistence.py\<close>).
\<close>

section \<open>Conventions\<close>

text \<open>
  \<open>Py_Prelude\<close> holds what the components share. A text is a list of code points (\<open>pystr\<close>), a dict an association list with
  distinct keys in insertion order, an int an \<open>int\<close>, a datetime an instant in microseconds with an optional offset, and a
  float the rational that \<open>Float_Arithmetic\<close> rounds to 53 bits. An exception is a value of \<open>exn\<close>: a pure function that may raise
  answers a sum, and an effect is a function from a state to a result and the next state (\<open>bind_op\<close>, \<open>try_op\<close>).
  What the environment decides is part of that state or a parameter: clocks, identifiers, the faults of the disk, the answers
  of servers.

  Pydantic models are records; the checks of the constructor are a separate function that answers the record or raises, in
  the order in which the validators run. Dumps of models are parameters where the code relies on them only as JSON.

  The components meet in locales: \<open>rag_client\<close> and \<open>closed_client\<close> are what the coordinator relies on of a
  retrieval client, \<open>fallback_pair\<close> derives the contract of the client with a fallback from those of its parts,
  \<open>coordinator_core\<close> is what the runs of the coordinator rely on, and \<open>key_provider\<close> is what the token verifier relies on of
  a source of signing keys. Each is interpreted on the clients, the coordinator and the providers of the code.
\<close>

section \<open>The safety policy\<close>

text \<open>
  \<open>Policy_Types\<close> models \<open>policy/models.py\<close>, \<open>policy/rules.py\<close> and the templates; \<open>Policy_Catalog\<close> the shipped
  catalogue; \<open>Policy_Normalization\<close> the normalization with its map of offsets (\<open>policy/normalization.py\<close>);
  \<open>Policy_Detector\<close> the detector of candidates (\<open>policy/candidates.py\<close>); \<open>Policy_Stance\<close> the clauses, the stances and the
  classifier adapter (\<open>policy/stance.py\<close>, \<open>policy/resolver.py\<close>); \<open>Policy_Engine\<close> the decision matrix and the engine
  (\<open>policy/engine.py\<close>).
  \<open>Policy_Safety\<close> shows that the detector finds exactly the literals of the enabled rules, that a decision is
  the one of the matrix on the stances of all candidates, that the engine never raises and never calls a requested risk safe,
  and that zero-width characters do not change a decision on a text below the cut of the normalization.
\<close>

section \<open>The coordinator and what it calls\<close>

text \<open>
  \<open>Orchestration_Types\<close> models the results (\<open>orchestration/models.py\<close>); \<open>Sales_Models\<close> the stages, scores and profiles
  (\<open>sales/models.py\<close>); \<open>Scoring\<close> the two scorers (\<open>sales/scorer.py\<close>, \<open>sales/health.py\<close>); \<open>Routing\<close> the two routers;
  \<open>Local_Retrieval\<close> the search of the knowledge files (\<open>rag/local_client.py\<close>); \<open>Rag_Clients\<close> the external client, the
  fallback and the factory; \<open>Coordinator\<close> the runs and the chat service.
  Their lemmas give bounds of scores and confidences, the monotonicity of the scores, the history of the stages,
  and that an answer cites loaded records only. \<open>Agent_Safety\<close> puts the parts together: a blocked text reaches
  neither customers nor retrieval, every other request is answered, what is uncertain is marked, and both hold over HTTP.
\<close>

section \<open>Requests, identities and the HTTP boundary\<close>

text \<open>
  \<open>Runtime_Models\<close> models the immutable request models (\<open>runtime\<close>, \<open>identity/models.py\<close>, \<open>authorization/models.py\<close>);
  \<open>Access_Control\<close> the authorization service; \<open>Authentication\<close> the verifier of OIDC tokens (\<open>identity/authentication.py\<close>);
  \<open>Key_Providers\<close> the signing keys with the refreshing cache as a step relation over interleaved requests (\<open>identity/jwks.py\<close>);
  \<open>Request_Security\<close> the boundary (\<open>api/security.py\<close>); \<open>Http_Api\<close> the idempotency header, the projection and
  the routes; \<open>Http_Safety\<close> what holds of them with the services behind. Verified claims satisfy every check, a request passes
  only with an enabled principal that holds every permission, and an answer shows no raw response.
\<close>

section \<open>Persistence and idempotency\<close>

text \<open>
  \<open>Persistence_Records\<close> models the records, errors and state validator; \<open>Execution_Store\<close> the in-memory store
  with its repositories (\<open>database/fake_execution.py\<close>); \<open>Unit_Of_Work\<close> its transactions; \<open>Persistence_Mappers\<close> and
  \<open>Replay_Snapshots\<close> the mappers, over the JSON printer of \<open>Json_Text\<close>; \<open>Durable_Service\<close>, \<open>Idempotent_Service\<close> and
  \<open>Execution_Gateway\<close> the services.
  \<open>Store_Invariant\<close> states the eight structural checks among the eleven of the operations and the invariant that makes them
  pass (the search for forbidden JSON keys is left out), \<open>Store_Transitions\<close> and \<open>Transactions\<close>
  show that every transaction keeps it, \<open>Store_History\<close> that nothing is taken back, \<open>Claim_Protocol\<close> is the abstract protocol
  of one scope, and \<open>Concurrent_Service\<close> the step relation of all interleavings with its reachable states: a held key never
  executes, an owner that lost its claim cannot finalize, and claims refine the protocol.
  \<open>Sql_Session\<close>, \<open>Sql_Repository\<close> and \<open>Sql_Unit_Of_Work\<close> model the PostgreSQL implementations over rows with their
  constraints; \<open>Sql_Refinement\<close> shows, by weakest preconditions over the commands, that they refine the store.
  \<open>Retention\<close> models the pruner and the verdict of the doctor (\<open>operations/persistence.py\<close>), \<open>Store_Lifecycle\<close> interleaves
  the transactions of the services with the batches of the pruner: the store stays healthy, and only closed claims that
  have expired at least the safety margin ago are ever taken out of it. \<open>Configuration\<close> the settings
  and the audit for production (\<open>config.py\<close>), \<open>Redaction\<close> what is taken out of logs (\<open>observability/redaction.py\<close>).
\<close>

section \<open>The tool agent and the files\<close>

text \<open>
  \<open>Llm_Models\<close> models the profiles, the registry and the factory; \<open>Dashscope_Client\<close> the client with its retries;
  \<open>Tool_Agent\<close> the tools, their registry and the two agents (\<open>tools\<close>, \<open>agent.py\<close>); \<open>Sdk_Clients\<close> the DeepSeek and
  the Anthropic client; \<open>Customer_Store\<close> and \<open>Interaction_Store\<close> the JSON files on a disk whose operations may fail at any point;
  \<open>Customer_Tools\<close> the three tools over them. Turns end, retries are bounded, a save is atomic and the calm store is a map,
  an update is applied as a whole or not at all.
\<close>

section \<open>Bounds\<close>

text \<open>
  The recursions that are not structural carry the bound of the code: the agent makes at most \<open>max_tool_rounds\<close> rounds, a client
  at most \<open>max_retries + 1\<close> attempts, the pruner at most \<open>max_batches\<close> batches, the redaction descends at most eight levels, and the
  theorems show that the code returns within them. Every other function is total by structural recursion or a measure.
\<close>

section \<open>Assumptions and what is left out\<close>

text \<open>
  Parameters are the libraries that are no part of the repository: the Unicode tables (\<open>ucd\<close>), SHA-256, the JWT library
  and the fetch of keys, the HTTP client and the SDKs, the JSON reader, the dumps of the models. What a theorem
  needs of them is one of its hypotheses, and its witness gives an instance.

  Not modelled in the parts above: overflow of datetimes, cancellation of coroutines, lone surrogates, coercions of pydantic from
  strings to numbers, the exponent range of floats (only the conversion of a large int raises), results of tools that
  \<open>json.dumps\<close> cannot print, log messages, and the
  isolation between concurrent SQL transactions, each of which is taken alone. The interleavings of \<open>Concurrent_Service\<close> are
  those of whole transactions: a transaction is one step.

  Left out: the command line and the seed data, the evaluation gates and the evidence of the release pipeline, the
  log handlers, the engine and the table declarations of SQLAlchemy with their migration, and the scripts: they print,
  format, test or build, or call libraries, and hold no logic of the running service.
\<close>

end
